(* ===== verification/Prelude.thy ===== *)
theory Prelude
  imports Main
begin

text \<open>
  Shared vocabulary of the development: the errors the services throw
  (\<^verbatim>\<open>src/common/errors/domain.exception.ts\<close>, the Nest exceptions and the Prisma client's
  known request errors), the state-and-error computations that model code running inside a
  database transaction, and the generic lemmas on lists the components use.

  A transaction body is a function from the database it sees to either an error or a result
  and the database after its writes. An error carries no database: whatever the body wrote
  before it threw is rolled back, as \<^verbatim>\<open>prisma.$transaction\<close> does.
\<close>

named_theorems tx_simps \<open>equations for transaction bodies\<close>
named_theorems frame_intros \<open>what a transaction body leaves unchanged\<close>

subsection \<open>Errors\<close>

datatype svc_error =
    DomainHttpException nat string string
  | BadRequestException string
  | ConflictException string
  | NotFoundException string
  | ForbiddenException string
  | ServiceUnavailableException string
  | RangeError string
  | PlainError string
  | PrismaKnownRequestError string "string list" string

subsection \<open>Code that may throw\<close>

definition res_bind :: "svc_error + 'a \<Rightarrow> ('a \<Rightarrow> svc_error + 'b) \<Rightarrow> svc_error + 'b" where
  "res_bind r f = (case r of Inl e \<Rightarrow> Inl e | Inr x \<Rightarrow> f x)"

definition res_unless :: "bool \<Rightarrow> svc_error \<Rightarrow> svc_error + unit" where
  "res_unless b e = (if b then Inr () else Inl e)"

lemma res_bind_simps [simp]: "res_bind (Inl e) f = Inl e" "res_bind (Inr x) f = f x"
  by (simp_all add: res_bind_def)

lemma res_bind_eq_Inr: "res_bind r f = Inr y \<longleftrightarrow> (\<exists>x. r = Inr x \<and> f x = Inr y)"
  by (cases r) auto

lemma res_unless_eq [simp]:
  "res_unless b e = Inr u \<longleftrightarrow> b" "res_unless b e = Inl e' \<longleftrightarrow> \<not> b \<and> e' = e"
  by (auto simp: res_unless_def)

subsection \<open>Transaction bodies\<close>

type_synonym ('s, 'a) tx = "'s \<Rightarrow> svc_error + 'a \<times> 's"

definition tx_return :: "'a \<Rightarrow> ('s, 'a) tx" where
  "tx_return x = (\<lambda>s. Inr (x, s))"

definition tx_throw :: "svc_error \<Rightarrow> ('s, 'a) tx" where
  "tx_throw e = (\<lambda>s. Inl e)"

definition tx_bind :: "('s, 'a) tx \<Rightarrow> ('a \<Rightarrow> ('s, 'b) tx) \<Rightarrow> ('s, 'b) tx" where
  "tx_bind m f = (\<lambda>s. case m s of Inl e \<Rightarrow> Inl e | Inr (x, s') \<Rightarrow> f x s')"

definition tx_read :: "('s \<Rightarrow> 'a) \<Rightarrow> ('s, 'a) tx" where
  "tx_read f = (\<lambda>s. Inr (f s, s))"

definition tx_lift :: "svc_error + 'a \<Rightarrow> ('s, 'a) tx" where
  "tx_lift r = (\<lambda>s. case r of Inl e \<Rightarrow> Inl e | Inr x \<Rightarrow> Inr (x, s))"

definition tx_check :: "('s \<Rightarrow> svc_error + 'a) \<Rightarrow> ('s, 'a) tx" where
  "tx_check f = (\<lambda>s. case f s of Inl e \<Rightarrow> Inl e | Inr x \<Rightarrow> Inr (x, s))"

definition tx_unless :: "bool \<Rightarrow> svc_error \<Rightarrow> ('s, unit) tx" where
  "tx_unless b e = (if b then tx_return () else tx_throw e)"

fun tx_for :: "'a list \<Rightarrow> ('a \<Rightarrow> ('s, unit) tx) \<Rightarrow> ('s, unit) tx" where
  "tx_for [] f = tx_return ()"
| "tx_for (x # xs) f = tx_bind (f x) (\<lambda>_. tx_for xs f)"

definition tx_void :: "('s, 'a) tx \<Rightarrow> ('s, unit) tx" where
  "tx_void m = tx_bind m (\<lambda>_. tx_return ())"

lemma tx_return_apply [tx_simps, simp]: "tx_return x s = Inr (x, s)"
  by (simp add: tx_return_def)

lemma tx_throw_apply [tx_simps, simp]: "tx_throw e s = Inl e"
  by (simp add: tx_throw_def)

lemma tx_read_apply [tx_simps, simp]: "tx_read f s = Inr (f s, s)"
  by (simp add: tx_read_def)

lemma tx_lift_Inl [tx_simps, simp]: "tx_lift (Inl e) s = Inl e"
  by (simp add: tx_lift_def)

lemma tx_lift_Inr [tx_simps, simp]: "tx_lift (Inr x) s = Inr (x, s)"
  by (simp add: tx_lift_def)

lemma tx_check_Inl [simp]: "f s = Inl e \<Longrightarrow> tx_check f s = Inl e"
  by (simp add: tx_check_def)

lemma tx_check_Inr [simp]: "f s = Inr x \<Longrightarrow> tx_check f s = Inr (x, s)"
  by (simp add: tx_check_def)

lemma tx_check_eq_Inr: "tx_check f s = Inr (x, s') \<longleftrightarrow> f s = Inr x \<and> s' = s"
  by (auto simp: tx_check_def split: sum.splits)

lemma tx_unless_apply [tx_simps]:
  "tx_unless b e s = (if b then Inr ((), s) else Inl e)"
  by (simp add: tx_unless_def)

lemma tx_bind_Inl [simp]: "m s = Inl e \<Longrightarrow> tx_bind m f s = Inl e"
  by (simp add: tx_bind_def)

lemma tx_bind_Inr [simp]: "m s = Inr (x, s') \<Longrightarrow> tx_bind m f s = f x s'"
  by (simp add: tx_bind_def)

lemma tx_bind_eq_Inr:
  "tx_bind m f s = Inr r \<longleftrightarrow> (\<exists>x s'. m s = Inr (x, s') \<and> f x s' = Inr r)"
  by (auto simp: tx_bind_def split: sum.splits)

lemma tx_bind_eq_Inl:
  "tx_bind m f s = Inl e \<longleftrightarrow>
     m s = Inl e \<or> (\<exists>x s'. m s = Inr (x, s') \<and> f x s' = Inl e)"
  by (auto simp: tx_bind_def split: sum.splits)

lemma tx_lift_eq_Inr: "tx_lift r s = Inr (x, s') \<longleftrightarrow> r = Inr x \<and> s' = s"
  by (auto simp: tx_lift_def split: sum.splits)

lemma tx_unless_eq_Inr [simp]: "tx_unless b e s = Inr (u, s') \<longleftrightarrow> b \<and> s' = s"
  by (auto simp: tx_unless_def)

lemma tx_unless_eq_Inl [simp]: "tx_unless b e s = Inl e' \<longleftrightarrow> \<not> b \<and> e' = e"
  by (auto simp: tx_unless_def)

lemma tx_void_eq_Inr [simp]: "tx_void m s = Inr (u, s') \<longleftrightarrow> (\<exists>x. m s = Inr (x, s'))"
  by (auto simp: tx_void_def tx_bind_eq_Inr)

lemma tx_void_Inr: "m s = Inr (x, s') \<Longrightarrow> tx_void m s = Inr ((), s')"
  by simp

lemma tx_bindE:
  assumes "tx_bind m f s = Inr r"
  obtains x s' where "m s = Inr (x, s')" and "f x s' = Inr r"
  using assms by (auto simp: tx_bind_eq_Inr)

text \<open>An invariant every iteration keeps holds after the loop.\<close>

lemma tx_for_invariant:
  assumes "tx_for xs f s = Inr (u, s')"
    and "P s"
    and "\<And>x t t' u. x \<in> set xs \<Longrightarrow> P t \<Longrightarrow> f x t = Inr (u, t') \<Longrightarrow> P t'"
  shows "P s'"
  using assms
proof (induction xs arbitrary: s)
  case Nil
  then show ?case by simp
next
  case (Cons x xs)
  from Cons.prems(1) obtain t where t: "f x s = Inr ((), t)" and rest: "tx_for xs f t = Inr (u, s')"
    by (auto simp: tx_bind_eq_Inr)
  have "P t" using Cons.prems(3)[of x s "()" t] Cons.prems(2) t by simp
  with rest show ?case
    by (rule Cons.IH) (use Cons.prems(3) in auto)
qed

subsection \<open>Reasoning about transaction bodies\<close>

text \<open>
  \<open>tx_spec P m Q\<close> is partial correctness of a body that commits, \<open>tx_keeps\<close> an invariant of it
  and \<open>tx_frame f\<close> says that it leaves the part \<open>f\<close> of the database alone.
\<close>

definition tx_spec :: "('s \<Rightarrow> bool) \<Rightarrow> ('s, 'a) tx \<Rightarrow> ('a \<Rightarrow> 's \<Rightarrow> bool) \<Rightarrow> bool" where
  "tx_spec P m Q \<longleftrightarrow> (\<forall>s x s'. P s \<longrightarrow> m s = Inr (x, s') \<longrightarrow> Q x s')"

definition tx_keeps :: "('s \<Rightarrow> bool) \<Rightarrow> ('s, 'a) tx \<Rightarrow> bool" where
  "tx_keeps P m \<longleftrightarrow> tx_spec P m (\<lambda>_. P)"

definition tx_frame :: "('s \<Rightarrow> 'f) \<Rightarrow> ('s, 'a) tx \<Rightarrow> bool" where
  "tx_frame f m \<longleftrightarrow> (\<forall>s x s'. m s = Inr (x, s') \<longrightarrow> f s' = f s)"

lemma tx_specI: "(\<And>s x s'. P s \<Longrightarrow> m s = Inr (x, s') \<Longrightarrow> Q x s') \<Longrightarrow> tx_spec P m Q"
  by (auto simp: tx_spec_def)

lemma tx_specD: "tx_spec P m Q \<Longrightarrow> P s \<Longrightarrow> m s = Inr (x, s') \<Longrightarrow> Q x s'"
  by (auto simp: tx_spec_def)

lemma tx_frameI: "(\<And>s x s'. m s = Inr (x, s') \<Longrightarrow> f s' = f s) \<Longrightarrow> tx_frame f m"
  by (auto simp: tx_frame_def)

lemma tx_frameD: "tx_frame f m \<Longrightarrow> m s = Inr (x, s') \<Longrightarrow> f s' = f s"
  by (auto simp: tx_frame_def)

lemma tx_spec_bind:
  "tx_spec P m R \<Longrightarrow> (\<And>x. tx_spec (R x) (f x) Q) \<Longrightarrow> tx_spec P (tx_bind m f) Q"
  unfolding tx_spec_def tx_bind_eq_Inr by blast

lemma tx_frame_spec: "tx_frame f m \<Longrightarrow> (\<And>s. P s \<longleftrightarrow> P' (f s)) \<Longrightarrow> tx_keeps P m"
  by (auto simp: tx_frame_def tx_keeps_def tx_spec_def)

lemma tx_frame_bind [frame_intros]:
  "tx_frame f m \<Longrightarrow> (\<And>x. tx_frame f (g x)) \<Longrightarrow> tx_frame f (tx_bind m g)"
  unfolding tx_frame_def tx_bind_eq_Inr by metis

lemma tx_frame_simple [frame_intros]:
  "tx_frame f (tx_return x)" "tx_frame f (tx_throw e)" "tx_frame f (tx_read g)"
  "tx_frame f (tx_lift r)" "tx_frame f (tx_unless b e)" "tx_frame f (tx_check h)"
  by (auto simp: tx_frame_def tx_lift_eq_Inr tx_check_eq_Inr)

lemma tx_frame_void [frame_intros]: "tx_frame f m \<Longrightarrow> tx_frame f (tx_void m)"
  by (auto simp: tx_frame_def)

lemma tx_frame_if [frame_intros]:
  "tx_frame f m \<Longrightarrow> tx_frame f n \<Longrightarrow> tx_frame f (if b then m else n)"
  by simp

lemma tx_frame_option [frame_intros]:
  "tx_frame f m \<Longrightarrow> (\<And>x. tx_frame f (n x)) \<Longrightarrow> tx_frame f (case v of None \<Rightarrow> m | Some x \<Rightarrow> n x)"
  by (cases v) simp_all

lemma tx_frame_prod [frame_intros]:
  "(\<And>x y. tx_frame f (n x y)) \<Longrightarrow> tx_frame f (case v of (x, y) \<Rightarrow> n x y)"
  by (cases v) simp

lemma tx_frame_for [frame_intros]:
  "(\<And>x. tx_frame f (g x)) \<Longrightarrow> tx_frame f (tx_for xs g)"
  by (induction xs) (auto intro: frame_intros)

text \<open>Running a frame changes nothing a specification that only looks at \<open>f\<close> can see.\<close>

lemma tx_spec_frame:
  "tx_frame f m \<Longrightarrow> (\<And>s t. f s = f t \<Longrightarrow> P s = P t) \<Longrightarrow> tx_spec P m (\<lambda>_. P)"
  unfolding tx_frame_def tx_spec_def by metis

subsection \<open>How a body moves the state\<close>

text \<open>
  \<open>tx_rel R m\<close>: a run of \<open>m\<close> that commits relates the state before and after by \<open>R\<close>. For a
  preorder (what must not be lost, what may only grow) a body inherits the relation from its parts;
  the continuation of a bind may use how its argument was obtained.
\<close>

definition tx_rel :: "('s \<Rightarrow> 's \<Rightarrow> bool) \<Rightarrow> ('s, 'a) tx \<Rightarrow> bool" where
  "tx_rel R m \<longleftrightarrow> (\<forall>s x s'. m s = Inr (x, s') \<longrightarrow> R s s')"

lemma tx_relI: "(\<And>s x s'. m s = Inr (x, s') \<Longrightarrow> R s s') \<Longrightarrow> tx_rel R m"
  by (auto simp: tx_rel_def)

lemma tx_relD: "tx_rel R m \<Longrightarrow> m s = Inr (x, s') \<Longrightarrow> R s s'"
  by (auto simp: tx_rel_def)

locale tx_order =
  fixes R :: "'s \<Rightarrow> 's \<Rightarrow> bool"
  assumes R_refl: "R s s" and R_trans: "R s t \<Longrightarrow> R t u \<Longrightarrow> R s u"
begin

lemma rel_bind:
  "tx_rel R m \<Longrightarrow> (\<And>x s s'. m s = Inr (x, s') \<Longrightarrow> tx_rel R (g x)) \<Longrightarrow> tx_rel R (tx_bind m g)"
  unfolding tx_rel_def tx_bind_eq_Inr by (meson R_trans)

lemma rel_simple:
  "tx_rel R (tx_return x)" "tx_rel R (tx_throw e)" "tx_rel R (tx_read g)"
  "tx_rel R (tx_lift r)" "tx_rel R (tx_unless b e)" "tx_rel R (tx_check h)"
  by (auto simp: tx_rel_def tx_lift_eq_Inr tx_check_eq_Inr R_refl)

lemma rel_void: "tx_rel R m \<Longrightarrow> tx_rel R (tx_void m)"
  by (auto simp: tx_rel_def)

lemma rel_if: "(b \<Longrightarrow> tx_rel R m) \<Longrightarrow> (\<not> b \<Longrightarrow> tx_rel R n) \<Longrightarrow> tx_rel R (if b then m else n)"
  by simp

lemma rel_prod: "(\<And>x y. v = (x, y) \<Longrightarrow> tx_rel R (n x y)) \<Longrightarrow> tx_rel R (case v of (x, y) \<Rightarrow> n x y)"
  by (cases v) simp

lemma rel_for: "(\<And>x. x \<in> set xs \<Longrightarrow> tx_rel R (g x)) \<Longrightarrow> tx_rel R (tx_for xs g)"
  by (induction xs) (auto intro: rel_bind rel_simple)

lemma rel_frame: "tx_frame f m \<Longrightarrow> (\<And>s s'. f s' = f s \<Longrightarrow> R s s') \<Longrightarrow> tx_rel R m"
  by (auto simp: tx_rel_def tx_frame_def)

lemmas rel_intros = rel_bind rel_simple rel_void rel_if rel_prod rel_for

end

subsection \<open>Running a body as a transaction\<close>

text \<open>
  \<open>prisma.$transaction\<close> at isolation level \<open>Serializable\<close>. Attempt \<open>k\<close> meets the database as
  the sessions that commit before it leave it, \<open>fst (sched k s)\<close>, and the engine may abort it
  with an error, \<open>snd (sched k s)\<close>. A body that is not aborted runs on that database as a whole;
  an error of the body rolls its writes back.
\<close>

definition run_transaction ::
  "(nat \<Rightarrow> 's \<Rightarrow> 's \<times> svc_error option) \<Rightarrow> nat \<Rightarrow> ('s, 'a) tx \<Rightarrow> 's \<Rightarrow> (svc_error + 'a) \<times> 's" where
  "run_transaction sched k body s =
     (case sched k s of
        (s1, Some e) \<Rightarrow> (Inl e, s1)
      | (s1, None) \<Rightarrow> (case body s1 of Inl e \<Rightarrow> (Inl e, s1) | Inr (x, s2) \<Rightarrow> (Inr x, s2)))"

definition alone :: "nat \<Rightarrow> 's \<Rightarrow> 's \<times> svc_error option" where
  "alone k s = (s, None)"

lemma run_transaction_alone:
  "run_transaction alone k body s =
     (case body s of Inl e \<Rightarrow> (Inl e, s) | Inr (x, s2) \<Rightarrow> (Inr x, s2))"
  by (simp add: run_transaction_def alone_def)

lemma run_transaction_invariant:
  assumes "P s" and "\<And>t. P t \<Longrightarrow> P (fst (sched k t))" and "tx_keeps P body"
    and "run_transaction sched k body s = (r, s')"
  shows "P s'"
  using assms
  by (auto simp: run_transaction_def tx_keeps_def tx_spec_def
      split: prod.splits option.splits sum.splits) (metis fst_conv)+

subsection \<open>Sums over selected rows\<close>

definition sum_where :: "('a \<Rightarrow> bool) \<Rightarrow> ('a \<Rightarrow> int) \<Rightarrow> 'a list \<Rightarrow> int" where
  "sum_where p v xs = sum_list (map v (filter p xs))"

lemma sum_where_Nil [simp]: "sum_where p v [] = 0"
  by (simp add: sum_where_def)

lemma sum_where_Cons [simp]:
  "sum_where p v (x # xs) = (if p x then v x else 0) + sum_where p v xs"
  by (simp add: sum_where_def)

lemma sum_where_append [simp]:
  "sum_where p v (xs @ ys) = sum_where p v xs + sum_where p v ys"
  by (simp add: sum_where_def)

lemma sum_where_nonneg: "(\<And>x. x \<in> set xs \<Longrightarrow> p x \<Longrightarrow> 0 \<le> v x) \<Longrightarrow> 0 \<le> sum_where p v xs"
  by (induction xs) (auto simp: sum_where_def)

lemma sum_where_cong:
  "(\<And>x. x \<in> set xs \<Longrightarrow> p x = q x \<and> (p x \<longrightarrow> v x = w x)) \<Longrightarrow> sum_where p v xs = sum_where q w xs"
  by (induction xs) auto

lemma sum_where_ge_member:
  assumes "x \<in> set xs" and "p x" and "\<And>y. y \<in> set xs \<Longrightarrow> p y \<Longrightarrow> 0 \<le> v y"
  shows "v x \<le> sum_where p v xs"
  using assms
proof (induction xs)
  case Nil
  then show ?case by simp
next
  case (Cons y xs)
  have nn: "0 \<le> sum_where p v xs"
    by (rule sum_where_nonneg) (use Cons.prems(3) in auto)
  show ?case
  proof (cases "x = y")
    case True
    with nn Cons.prems(2) show ?thesis by simp
  next
    case False
    with Cons.prems(1) have "x \<in> set xs" by simp
    then have "v x \<le> sum_where p v xs"
      by (rule Cons.IH) (use Cons.prems in auto)
    with Cons.prems(3)[of y] show ?thesis by auto
  qed
qed

text \<open>
  Rewriting, in a list with distinct keys, the one row with a given key changes a sum over the
  rows by exactly the change of that row.
\<close>

lemma map_key_absent:
  "k \<notin> key ` set xs \<Longrightarrow> map (\<lambda>x. if key x = k \<and> q x then f x else x) xs = xs"
  by (induction xs) auto

lemma sum_where_update:
  assumes "distinct (map key xs)" and "r \<in> set xs" and "key r = k" and "q r"
    and "\<And>x. p (f x) = p x"
  shows "sum_where p v (map (\<lambda>x. if key x = k \<and> q x then f x else x) xs)
       = sum_where p v xs + (if p r then v (f r) - v r else 0)"
  using assms
proof (induction xs)
  case Nil
  then show ?case by simp
next
  case (Cons y xs)
  show ?case
  proof (cases "key y = k")
    case True
    have notin: "k \<notin> key ` set xs" using Cons.prems(1) True by auto
    with Cons.prems(2,3) True have "r = y" by auto
    with True notin Cons.prems(3-5) show ?thesis by (simp add: map_key_absent)
  next
    case False
    with Cons.prems have "r \<in> set xs" by auto
    with Cons False show ?thesis by simp
  qed
qed

lemma find_filter_Some: "find p xs = Some x \<Longrightarrow> q x \<Longrightarrow> find p (filter q xs) = Some x"
  by (induction xs) (auto split: if_split_asm)

lemma find_append_None: "find p (xs @ ys) = (case find p xs of None \<Rightarrow> find p ys | Some x \<Rightarrow> Some x)"
  by (induction xs) simp_all

lemma filter_key_unique:
  assumes "distinct (map key xs)" and "r \<in> set xs" and "key r = k" and "q r"
  shows "filter (\<lambda>x. key x = k \<and> q x) xs = [r]"
  using assms
proof (induction xs)
  case Nil
  then show ?case by simp
next
  case (Cons y xs)
  show ?case
  proof (cases "key y = k")
    case True
    have notin: "k \<notin> key ` set xs" using Cons.prems(1) True by auto
    with Cons.prems(2,3) True have "r = y" by auto
    moreover have "filter (\<lambda>x. key x = k \<and> q x) xs = []"
      using notin by (auto simp: filter_empty_conv)
    ultimately show ?thesis using True Cons.prems(4) by simp
  next
    case False
    with Cons.prems have "r \<in> set xs" by auto
    with Cons False show ?thesis by simp
  qed
qed

end
