(* ===== verification/Js_Base.thy ===== *)
theory Js_Base
  imports Prelude "HOL-Library.List_Lexorder" "HOL-Library.Char_ord"
begin

text \<open>
  The parts of JavaScript the services use: strings (\<^verbatim>\<open>trim\<close>, \<^verbatim>\<open>toUpperCase\<close>,
  \<^verbatim>\<open>includes\<close>, decimal printing), numbers made from \<^verbatim>\<open>bigint\<close>s, JSON values with the
  services' own \<^verbatim>\<open>stableStringify\<close>, and the text normalisers of the services. A string is a
  list of code units; case mapping covers the ASCII letters, which is what card serials and
  receipt numbers are made of, and leaves every other code unit alone.
\<close>

subsection \<open>Strings\<close>

definition is_space :: "char \<Rightarrow> bool" where
  "is_space c = (let n = (of_char c :: int) in n = 32 \<or> (9 \<le> n \<and> n \<le> 13) \<or> n = 160)"

definition js_trim :: "string \<Rightarrow> string" where
  "js_trim s = rev (dropWhile is_space (rev (dropWhile is_space s)))"

definition to_upper :: "char \<Rightarrow> char" where
  "to_upper c = (let n = (of_char c :: int) in if 97 \<le> n \<and> n \<le> 122 then char_of (n - 32) else c)"

definition to_lower :: "char \<Rightarrow> char" where
  "to_lower c = (let n = (of_char c :: int) in if 65 \<le> n \<and> n \<le> 90 then char_of (n + 32) else c)"

definition js_toUpperCase :: "string \<Rightarrow> string" where
  "js_toUpperCase = map to_upper"

fun is_prefix :: "string \<Rightarrow> string \<Rightarrow> bool" where
  "is_prefix [] ys = True"
| "is_prefix (x # xs) [] = False"
| "is_prefix (x # xs) (y # ys) = (x = y \<and> is_prefix xs ys)"

fun js_includes :: "string \<Rightarrow> string \<Rightarrow> bool" where
  "js_includes [] needle = (needle = [])"
| "js_includes (c # cs) needle = (is_prefix needle (c # cs) \<or> js_includes cs needle)"

definition js_startsWith :: "string \<Rightarrow> string \<Rightarrow> bool" where
  "js_startsWith s p = is_prefix p s"

fun js_join :: "string \<Rightarrow> string list \<Rightarrow> string" where
  "js_join sep [] = []"
| "js_join sep [x] = x"
| "js_join sep (x # y # ys) = x @ sep @ js_join sep (y # ys)"

text \<open>Decimal digits of a number; a negative number has none of its own.\<close>

function show_digits :: "int \<Rightarrow> string" where
  "show_digits n =
     (if n < 10 then [char_of (48 + n)] else show_digits (n div 10) @ [char_of (48 + n mod 10)])"
  by pat_completeness auto
termination by (relation "measure nat") auto

declare show_digits.simps [simp del]

definition show_int :: "int \<Rightarrow> string" where
  "show_int i = (if i < 0 then ''-'' @ show_digits (- i) else show_digits i)"

subsection \<open>Numbers\<close>

text \<open>
  A JavaScript number has 53 significant bits. \<open>Number(b)\<close> of a \<open>bigint\<close> rounds to the
  nearest such number, ties to even; up to \<open>2^53\<close> it is exact.
\<close>

fun excess_bits :: "nat \<Rightarrow> nat" where
  "excess_bits m = (if m < 2 ^ 53 then 0 else Suc (excess_bits (m div 2)))"

declare excess_bits.simps [simp del]

definition round_53 :: "nat \<Rightarrow> nat" where
  "round_53 m =
     (let e = excess_bits m; q = m div 2 ^ e; r = m mod 2 ^ e; half = 2 ^ (e - 1) in
      if e = 0 then m
      else if r < half \<or> (r = half \<and> even q) then q * 2 ^ e else (q + 1) * 2 ^ e)"

definition js_Number :: "int \<Rightarrow> int" where
  "js_Number b =
     (if \<bar>b\<bar> \<le> 2 ^ 53 then b else sgn b * int (round_53 (nat \<bar>b\<bar>)))"

definition MAX_SAFE_INTEGER :: int where
  "MAX_SAFE_INTEGER = 2 ^ 53 - 1"

definition isSafeInteger :: "int \<Rightarrow> bool" where
  "isSafeInteger v = (\<bar>v\<bar> \<le> MAX_SAFE_INTEGER)"

text \<open>Division of \<open>bigint\<close>s truncates towards zero.\<close>

definition bigint_div :: "int \<Rightarrow> int \<Rightarrow> int" where
  "bigint_div a b = sgn a * sgn b * (\<bar>a\<bar> div \<bar>b\<bar>)"

lemma bigint_div_nonneg: "0 \<le> a \<Longrightarrow> 0 < b \<Longrightarrow> bigint_div a b = a div b"
  by (cases "a = 0") (simp_all add: bigint_div_def)

lemma js_Number_exact: "\<bar>b\<bar> \<le> 2 ^ 53 \<Longrightarrow> js_Number b = b"
  by (simp add: js_Number_def)

lemma js_Number_safe: "isSafeInteger b \<Longrightarrow> js_Number b = b"
  by (simp add: js_Number_def isSafeInteger_def MAX_SAFE_INTEGER_def)

subsection \<open>JSON\<close>

datatype json =
    JUndefined
  | JNull
  | JBool bool
  | JNum int
  | JStr string
  | JArr "json list"
  | JObj "(string \<times> json) list"

definition opt_json :: "('a \<Rightarrow> json) \<Rightarrow> 'a option \<Rightarrow> json" where
  "opt_json f x = (case x of None \<Rightarrow> JNull | Some v \<Rightarrow> f v)"

definition json_get :: "json \<Rightarrow> string \<Rightarrow> json" where
  "json_get j k =
     (case j of JObj kvs \<Rightarrow> (case map_of kvs k of None \<Rightarrow> JUndefined | Some v \<Rightarrow> v)
              | _ \<Rightarrow> JUndefined)"

fun hex_digit :: "int \<Rightarrow> char" where
  "hex_digit n = (if n < 10 then char_of (48 + n) else char_of (87 + n))"

definition escape_char :: "char \<Rightarrow> string" where
  "escape_char c =
     (let n = (of_char c :: int) in
      if n = 34 then [CHR 0x5C, CHR 0x22]
      else if n = 92 then [CHR 0x5C, CHR 0x5C]
      else if n = 8 then [CHR 0x5C, CHR ''b'']
      else if n = 12 then [CHR 0x5C, CHR ''f'']
      else if n = 10 then [CHR 0x5C, CHR ''n'']
      else if n = 13 then [CHR 0x5C, CHR ''r'']
      else if n = 9 then [CHR 0x5C, CHR ''t'']
      else if n < 32 then CHR 0x5C # ''u00'' @ [hex_digit (n div 16), hex_digit (n mod 16)]
      else [c])"

definition stringify_str :: "string \<Rightarrow> string" where
  "stringify_str s = CHR 0x22 # concat (map escape_char s) @ [CHR 0x22]"

text \<open>
  \<open>stableStringify\<close> sorts the entries of an object with \<open>localeCompare\<close> on the keys, which are
  letters only: the order is the alphabetical one that ignores case. A value that is not an
  object goes through \<open>JSON.stringify\<close>; \<open>undefined\<close> comes back as \<open>undefined\<close> and the template
  literal prints that word.
\<close>

fun stableStringify :: "json \<Rightarrow> string" where
  "stableStringify JUndefined = ''undefined''"
| "stableStringify JNull = ''null''"
| "stableStringify (JBool b) = (if b then ''true'' else ''false'')"
| "stableStringify (JNum n) = show_int n"
| "stableStringify (JStr s) = stringify_str s"
| "stableStringify (JArr xs) = ''['' @ js_join '','' (map stableStringify xs) @ '']''"
| "stableStringify (JObj kvs) =
     ''{'' @ js_join '',''
        (map snd (sort_key (\<lambda>e. map (\<lambda>c. of_char (to_lower c) :: int) (fst e))
          (map (\<lambda>(k, v). (k, stringify_str k @ '':'' @ stableStringify v)) kvs))) @ ''}''"

text \<open>\<open>JSON.stringify\<close> keeps the entries in the order written and drops \<open>undefined\<close> ones.\<close>

fun JSON_stringify :: "json \<Rightarrow> string" where
  "JSON_stringify JUndefined = ''undefined''"
| "JSON_stringify JNull = ''null''"
| "JSON_stringify (JBool b) = (if b then ''true'' else ''false'')"
| "JSON_stringify (JNum n) = show_int n"
| "JSON_stringify (JStr s) = stringify_str s"
| "JSON_stringify (JArr xs) =
     ''['' @ js_join '','' (map (\<lambda>x. if x = JUndefined then ''null'' else JSON_stringify x) xs) @ '']''"
| "JSON_stringify (JObj kvs) =
     ''{'' @ js_join '','' (map snd (filter fst
        (map (\<lambda>(k, v). (v \<noteq> JUndefined, stringify_str k @ '':'' @ JSON_stringify v)) kvs))) @ ''}''"

subsection \<open>Text normalisers of the services\<close>

definition MAX_BOUNDED_TEXT_LENGTH :: nat where
  "MAX_BOUNDED_TEXT_LENGTH = 128"

definition validation_error :: "string \<Rightarrow> svc_error" where
  "validation_error m = DomainHttpException 400 ''VALIDATION_ERROR'' m"

definition redeem_normalizeIdempotencyKey :: "string option \<Rightarrow> svc_error + string" where
  "redeem_normalizeIdempotencyKey key =
     (let normalized = (case key of None \<Rightarrow> [] | Some k \<Rightarrow> js_trim k) in
      if normalized = [] then Inl (validation_error ''Idempotency-Key header is required'')
      else if length normalized > MAX_BOUNDED_TEXT_LENGTH
      then Inl (validation_error ''Idempotency-Key header is too long'')
      else Inr normalized)"

definition normalizeBoundedText :: "string \<Rightarrow> string \<Rightarrow> svc_error + string" where
  "normalizeBoundedText v fieldName =
     (let normalized = js_trim v in
      if normalized = [] then Inl (validation_error (fieldName @ '' is required''))
      else if length normalized > MAX_BOUNDED_TEXT_LENGTH
      then Inl (validation_error (fieldName @ '' is too long''))
      else Inr normalized)"

definition normalizeReceiptIdentity :: "string \<Rightarrow> string" where
  "normalizeReceiptIdentity v = js_toUpperCase (js_trim v)"

definition is_serial_start :: "char \<Rightarrow> bool" where
  "is_serial_start c = (let n = (of_char c :: int) in (65 \<le> n \<and> n \<le> 90) \<or> (48 \<le> n \<and> n \<le> 57))"

definition is_serial_char :: "char \<Rightarrow> bool" where
  "is_serial_char c = (is_serial_start c \<or> c = CHR ''-'')"

definition normalizeCardSerial :: "string \<Rightarrow> svc_error + string" where
  "normalizeCardSerial v =
     (let normalized = js_toUpperCase (js_trim v) in
      if normalized = [] then Inl (BadRequestException ''serialNumber is required'')
      else if length normalized > 64
        \<or> \<not> (is_serial_start (hd normalized) \<and> list_all is_serial_char (tl normalized))
      then Inl (BadRequestException
        ''serialNumber must contain only letters, numbers, and hyphens (maximum 64 characters)'')
      else Inr normalized)"

subsection \<open>Lemmas on the normalisers\<close>

lemma hd_dropWhile_False: "dropWhile p xs \<noteq> [] \<Longrightarrow> \<not> p (hd (dropWhile p xs))"
  by (induction xs) auto

lemma dropWhile_hd: "\<not> p (hd xs) \<Longrightarrow> dropWhile p xs = xs"
  by (cases xs) auto

lemma js_trim_ends:
  assumes "js_trim s \<noteq> []"
  shows "\<not> is_space (hd (js_trim s))" and "\<not> is_space (last (js_trim s))"
proof -
  define u where "u = dropWhile is_space s"
  define w where "w = dropWhile is_space (rev u)"
  have trim: "js_trim s = rev w" by (simp add: js_trim_def u_def w_def)
  have w: "w \<noteq> []" using assms trim by simp
  then show "\<not> is_space (last (js_trim s))"
    unfolding trim w_def by (simp add: last_rev hd_dropWhile_False)
  obtain v where v: "rev u = v @ w" unfolding w_def by (metis takeWhile_dropWhile_id)
  then have "u = rev w @ rev v" by (metis rev_append rev_rev_ident)
  with w have "hd (rev w) = hd u" and "u \<noteq> []" by auto
  then show "\<not> is_space (hd (js_trim s))"
    unfolding trim by (simp add: u_def hd_dropWhile_False)
qed

lemma js_trim_fixed:
  assumes "\<not> is_space (hd s)" and "\<not> is_space (last s)"
  shows "js_trim s = s"
proof -
  have "dropWhile is_space s = s" using assms(1) by (rule dropWhile_hd)
  moreover have "dropWhile is_space (rev s) = rev s"
    using assms(2) by (cases "s = []") (auto intro: dropWhile_hd simp: hd_rev)
  ultimately show ?thesis by (simp add: js_trim_def)
qed

lemma js_trim_Nil [simp]: "js_trim [] = []"
  by (simp add: js_trim_def)

lemma js_trim_idem [simp]: "js_trim (js_trim s) = js_trim s"
proof (cases "js_trim s = []")
  case True
  then show ?thesis by simp
next
  case False
  then show ?thesis by (intro js_trim_fixed js_trim_ends)
qed

lemma of_char_to_upper:
  "(of_char (to_upper c) :: int) =
     (if 97 \<le> (of_char c :: int) \<and> (of_char c :: int) \<le> 122 then of_char c - 32 else of_char c)"
  by (auto simp: to_upper_def Let_def)

lemma is_space_to_upper [simp]: "is_space (to_upper c) = is_space c"
  by (auto simp: is_space_def of_char_to_upper Let_def)

lemma to_upper_idem [simp]: "to_upper (to_upper c) = to_upper c"
proof -
  have "of_char (to_upper (to_upper c)) = (of_char (to_upper c) :: int)"
    by (auto simp: of_char_to_upper)
  then show ?thesis by simp
qed

lemma js_toUpperCase_idem [simp]: "js_toUpperCase (js_toUpperCase s) = js_toUpperCase s"
  by (simp add: js_toUpperCase_def)

lemma js_trim_toUpperCase: "js_trim (js_toUpperCase s) = js_toUpperCase (js_trim s)"
  by (simp add: js_trim_def js_toUpperCase_def dropWhile_map rev_map comp_def)

lemma normalizeReceiptIdentity_idem:
  "normalizeReceiptIdentity (normalizeReceiptIdentity v) = normalizeReceiptIdentity v"
  by (simp add: normalizeReceiptIdentity_def js_trim_toUpperCase)

text \<open>
  The bounded normalisers accept their own output and return a non-empty trimmed text of at
  most 128 characters.
\<close>

lemma normalizeBoundedText_ok:
  assumes "normalizeBoundedText v f = Inr n"
  shows "n = js_trim v" and "n \<noteq> []" and "length n \<le> 128" and "normalizeBoundedText n g = Inr n"
  using assms
  by (auto simp: normalizeBoundedText_def Let_def MAX_BOUNDED_TEXT_LENGTH_def split: if_splits)

lemma redeem_normalizeIdempotencyKey_ok:
  assumes "redeem_normalizeIdempotencyKey k = Inr n"
  shows "\<exists>v. k = Some v \<and> n = js_trim v" and "n \<noteq> []" and "length n \<le> 128"
  using assms
  by (auto simp: redeem_normalizeIdempotencyKey_def Let_def MAX_BOUNDED_TEXT_LENGTH_def
      split: if_splits option.splits)

lemma normalizeCardSerial_ok:
  assumes "normalizeCardSerial v = Inr n"
  shows "n = js_toUpperCase (js_trim v)" and "n \<noteq> []" and "length n \<le> 64"
    and "list_all is_serial_char n"
proof -
  have n: "n = js_toUpperCase (js_trim v)" "n \<noteq> []" "length n \<le> 64"
    "is_serial_start (hd n)" "list_all is_serial_char (tl n)"
    using assms by (auto simp: normalizeCardSerial_def Let_def split: if_splits)
  then show "n = js_toUpperCase (js_trim v)" and "n \<noteq> []" and "length n \<le> 64" by blast+
  from n(2,4,5) show "list_all is_serial_char n" by (cases n) (auto simp: is_serial_char_def)
qed

text \<open>
  Normalising a card serial is idempotent and yields at most 64 characters, all of them
  upper-case letters, digits or hyphens.
\<close>

theorem normalizeCardSerial_idempotent:
  assumes "normalizeCardSerial v = Inr n"
  shows "normalizeCardSerial n = Inr n \<and> length n \<le> 64 \<and> list_all is_serial_char n"
proof -
  have "js_toUpperCase (js_trim n) = n"
    using normalizeCardSerial_ok(1)[OF assms] by (simp add: js_trim_toUpperCase)
  with normalizeCardSerial_ok[OF assms] assms show ?thesis
    by (auto simp: normalizeCardSerial_def Let_def split: if_splits)
qed

theorem normalizeCardSerial_idempotent_witness:
  "normalizeCardSerial '' sc-01 '' = Inr ''SC-01'' \<and>
   normalizeCardSerial ''SC-01'' = Inr ''SC-01'' \<and> length ''SC-01'' \<le> 64"
proof -
  have h: "normalizeCardSerial '' sc-01 '' = Inr ''SC-01''" by code_simp
  show ?thesis using h normalizeCardSerial_idempotent[OF h] by simp
qed

end
