(* ===== verification/Js_Date.thy ===== *)
theory Js_Date
  imports Js_Base
begin

text \<open>
  JavaScript dates. A \<^verbatim>\<open>Date\<close> is its time value: milliseconds since 1 January 1970 UTC, an
  unbounded integer here (the engine's limit of 8.64e15 ms either side is far outside the dates
  the platform handles). The calendar functions follow the ECMAScript definitions
  (\<open>DayFromYear\<close>, \<open>YearFromTime\<close>, \<open>MakeDay\<close>); the year is found by an estimate and one
  correction, which the lemmas justify. On top of them stand the date arithmetic of
  \<^verbatim>\<open>earn-policy.ts\<close> (\<open>addUtcMonthsClamped\<close>), \<^verbatim>\<open>adjustments.service.ts\<close> (\<open>addMonths\<close>) and
  the receipt-week derivation the redemption and loyalty services share.
\<close>

subsection \<open>Days and years\<close>

definition msPerDay :: int where
  "msPerDay = 86400000"

definition dayOf :: "int \<Rightarrow> int" where
  "dayOf t = t div msPerDay"

definition timeWithinDay :: "int \<Rightarrow> int" where
  "timeWithinDay t = t mod msPerDay"

definition dayFromYear :: "int \<Rightarrow> int" where
  "dayFromYear y =
     365 * (y - 1970) + (y - 1969) div 4 - (y - 1901) div 100 + (y - 1601) div 400"

definition isLeapYear :: "int \<Rightarrow> bool" where
  "isLeapYear y = ((y mod 4 = 0 \<and> y mod 100 \<noteq> 0) \<or> y mod 400 = 0)"

definition yearFromDay :: "int \<Rightarrow> int" where
  "yearFromDay d =
     (let g = 1970 + (400 * d) div 146097 in
      if d < dayFromYear g then g - 1 else if dayFromYear (g + 1) \<le> d then g + 1 else g)"

lemma div_Suc_step:
  assumes "0 < (n::int)"
  shows "(x + 1) div n = x div n + (if (x + 1) mod n = 0 then 1 else 0)"
proof -
  have eq: "x + 1 = n * (x div n) + (x mod n + 1)" by simp
  have r: "0 \<le> x mod n" "x mod n < n" using assms by simp_all
  show ?thesis
  proof (cases "x mod n + 1 = n")
    case True
    then have "x + 1 = n * (x div n + 1)" using eq by (simp add: algebra_simps)
    then show ?thesis using assms by simp
  next
    case False
    then have lt: "x mod n + 1 < n" and nn: "0 \<le> x mod n + 1" using r by simp_all
    have "(x + 1) div n = x div n" and "(x + 1) mod n = x mod n + 1"
      by (rule int_div_pos_eq [OF eq nn lt], rule int_mod_pos_eq [OF eq nn lt])
    then show ?thesis using r by simp
  qed
qed

lemma mod_shift: "(x - k * n) mod n = x mod (n::int)"
  by (metis minus_mult_left mod_mult_self1 uminus_add_conv_diff add.commute)

lemma dayFromYear_step:
  "dayFromYear (y + 1) = dayFromYear y + (if isLeapYear y then 366 else 365)"
proof -
  have a: "(y + 1 - 1969) div 4 = (y - 1969) div 4 + (if y mod 4 = 0 then 1 else 0)"
    using div_Suc_step[of 4 "y - 1969"] mod_shift[of y 492 4] by (simp add: algebra_simps)
  have b: "(y + 1 - 1901) div 100 = (y - 1901) div 100 + (if y mod 100 = 0 then 1 else 0)"
    using div_Suc_step[of 100 "y - 1901"] mod_shift[of y 19 100] by (simp add: algebra_simps)
  have c: "(y + 1 - 1601) div 400 = (y - 1601) div 400 + (if y mod 400 = 0 then 1 else 0)"
    using div_Suc_step[of 400 "y - 1601"] mod_shift[of y 4 400] by (simp add: algebra_simps)
  have "y mod 400 = 0 \<Longrightarrow> y mod 100 = 0" and "y mod 100 = 0 \<Longrightarrow> y mod 4 = 0"
    by (auto simp: mod_eq_0_iff_dvd intro: dvd_trans[of 100 400] dvd_trans[of 4 100])
  then show ?thesis
    unfolding dayFromYear_def a b c by (auto simp: isLeapYear_def)
qed

lemma dayFromYear_less_Suc: "dayFromYear y < dayFromYear (y + 1)"
  by (simp add: dayFromYear_step)

lemma dayFromYear_strict_mono:
  assumes "a < b"
  shows "dayFromYear a < dayFromYear b"
  using assms
proof (induction b rule: int_gr_induct)
  case base
  then show ?case by (rule dayFromYear_less_Suc)
next
  case (step i)
  then show ?case using dayFromYear_less_Suc[of i] by linarith
qed

lemma dayFromYear_mono: "a \<le> b \<Longrightarrow> dayFromYear a \<le> dayFromYear b"
  using dayFromYear_strict_mono[of a b] by (cases "a = b") auto

lemma mult_div_bounds:
  "0 < n \<Longrightarrow> n * (x div n) \<le> (x::int)" "0 < n \<Longrightarrow> x - (n - 1) \<le> n * (x div (n::int))"
  using pos_mod_bound[of n x] pos_mod_sign[of n x] mult_div_mod_eq[of n x] by linarith+

lemma dayFromYear_bounds:
  "146097 * (y - 1970) - 506 \<le> 400 * dayFromYear y"
  "400 * dayFromYear y \<le> 146097 * (y - 1970) + 589"
proof -
  define a b c where "a = (y - 1969) div 4" and "b = (y - 1901) div 100" and "c = (y - 1601) div 400"
  have q: "4 * a \<le> y - 1969" "y - 1972 \<le> 4 * a" "100 * b \<le> y - 1901" "y - 2000 \<le> 100 * b"
    "400 * c \<le> y - 1601" "y - 2000 \<le> 400 * c"
    unfolding a_def b_def c_def
    using mult_div_bounds[of 4 "y - 1969"] mult_div_bounds[of 100 "y - 1901"]
      mult_div_bounds[of 400 "y - 1601"]
    by simp_all
  have d: "dayFromYear y = 365 * (y - 1970) + a - b + c"
    by (simp add: dayFromYear_def a_def b_def c_def)
  show "146097 * (y - 1970) - 506 \<le> 400 * dayFromYear y"
    and "400 * dayFromYear y \<le> 146097 * (y - 1970) + 589"
    using q unfolding d by simp_all
qed

lemma yearFromDay_correct:
  "dayFromYear (yearFromDay d) \<le> d" "d < dayFromYear (yearFromDay d + 1)"
proof -
  define g where "g = 1970 + (400 * d) div 146097"
  have q: "146097 * (g - 1970) \<le> 400 * d" "400 * d < 146097 * (g - 1970) + 146097"
    using mult_div_bounds[of 146097 "400 * d"] by (simp_all add: g_def)
  have lo: "dayFromYear (g - 1) \<le> d"
    using dayFromYear_bounds(2)[of "g - 1"] q(1) by simp
  have hi: "d < dayFromYear (g + 2)"
    using dayFromYear_bounds(1)[of "g + 2"] q(2) by simp
  have y: "yearFromDay d =
      (if d < dayFromYear g then g - 1 else if dayFromYear (g + 1) \<le> d then g + 1 else g)"
    by (simp add: yearFromDay_def g_def Let_def)
  show "dayFromYear (yearFromDay d) \<le> d" using lo by (simp add: y)
  show "d < dayFromYear (yearFromDay d + 1)" using hi by (simp add: y add.commute)
qed

lemma yearFromDay_unique:
  assumes "dayFromYear y \<le> d" and "d < dayFromYear (y + 1)"
  shows "yearFromDay d = y"
proof -
  have "\<not> yearFromDay d < y"
    using dayFromYear_mono[of "yearFromDay d + 1" y] yearFromDay_correct(2)[of d] assms(1) by force
  moreover have "\<not> y < yearFromDay d"
    using dayFromYear_mono[of "y + 1" "yearFromDay d"] yearFromDay_correct(1)[of d] assms(2) by force
  ultimately show ?thesis by simp
qed

subsection \<open>Months\<close>

text \<open>Days before the first of month \<open>m\<close> (January is 0), and the month of a day of the year.\<close>

definition daysBeforeMonth :: "bool \<Rightarrow> int \<Rightarrow> int" where
  "daysBeforeMonth leap m =
     (let l = (if leap then 1 else 0) in
      if m \<le> 0 then 0 else if m = 1 then 31 else if m = 2 then 59 + l else if m = 3 then 90 + l
      else if m = 4 then 120 + l else if m = 5 then 151 + l else if m = 6 then 181 + l
      else if m = 7 then 212 + l else if m = 8 then 243 + l else if m = 9 then 273 + l
      else if m = 10 then 304 + l else if m = 11 then 334 + l else 365 + l)"

definition daysInMonth :: "int \<Rightarrow> int \<Rightarrow> int" where
  "daysInMonth y m = daysBeforeMonth (isLeapYear y) (m + 1) - daysBeforeMonth (isLeapYear y) m"

definition monthFromYearDay :: "bool \<Rightarrow> int \<Rightarrow> int" where
  "monthFromYearDay leap k =
     (let l = (if leap then 1 else 0) in
      if k < 31 then 0 else if k < 59 + l then 1 else if k < 90 + l then 2
      else if k < 120 + l then 3 else if k < 151 + l then 4 else if k < 181 + l then 5
      else if k < 212 + l then 6 else if k < 243 + l then 7 else if k < 273 + l then 8
      else if k < 304 + l then 9 else if k < 334 + l then 10 else 11)"

lemma month_cases:
  assumes "0 \<le> (m::int)" and "m \<le> 11"
  obtains "m = 0" | "m = 1" | "m = 2" | "m = 3" | "m = 4" | "m = 5" | "m = 6" | "m = 7"
    | "m = 8" | "m = 9" | "m = 10" | "m = 11"
  using assms by atomize_elim presburger

lemma daysInMonth_bounds:
  assumes "0 \<le> m" and "m \<le> 11"
  shows "28 \<le> daysInMonth y m" and "daysInMonth y m \<le> 31"
  using assms by (cases m rule: month_cases; simp add: daysInMonth_def daysBeforeMonth_def)+

lemma monthFromYearDay_inverse:
  assumes "0 \<le> m" and "m \<le> 11" and "1 \<le> d" and "d \<le> daysInMonth y m"
  shows "monthFromYearDay (isLeapYear y) (daysBeforeMonth (isLeapYear y) m + d - 1) = m"
  using assms(1,2) assms(3,4)
  by (cases m rule: month_cases;
      simp add: monthFromYearDay_def daysInMonth_def daysBeforeMonth_def Let_def split: if_splits)

lemma daysBeforeMonth_within:
  assumes "0 \<le> m" and "m \<le> 11" and "1 \<le> d" and "d \<le> daysInMonth y m"
  shows "0 \<le> daysBeforeMonth (isLeapYear y) m + d - 1"
    and "daysBeforeMonth (isLeapYear y) m + d - 1 < (if isLeapYear y then 366 else 365)"
  using assms(1,2) assms(3,4)
  by (cases m rule: month_cases;
      simp add: daysInMonth_def daysBeforeMonth_def Let_def split: if_splits)+

subsection \<open>The Date methods\<close>

definition getUTCFullYear :: "int \<Rightarrow> int" where
  "getUTCFullYear t = yearFromDay (dayOf t)"

definition dayWithinYear :: "int \<Rightarrow> int" where
  "dayWithinYear t = dayOf t - dayFromYear (getUTCFullYear t)"

definition getUTCMonth :: "int \<Rightarrow> int" where
  "getUTCMonth t = monthFromYearDay (isLeapYear (getUTCFullYear t)) (dayWithinYear t)"

definition getUTCDate :: "int \<Rightarrow> int" where
  "getUTCDate t =
     dayWithinYear t - daysBeforeMonth (isLeapYear (getUTCFullYear t)) (getUTCMonth t) + 1"

definition getUTCDay :: "int \<Rightarrow> int" where
  "getUTCDay t = (dayOf t + 4) mod 7"

definition getUTCHours :: "int \<Rightarrow> int" where
  "getUTCHours t = timeWithinDay t div 3600000"

definition getUTCMinutes :: "int \<Rightarrow> int" where
  "getUTCMinutes t = timeWithinDay t div 60000 mod 60"

definition getUTCSeconds :: "int \<Rightarrow> int" where
  "getUTCSeconds t = timeWithinDay t div 1000 mod 60"

definition getUTCMilliseconds :: "int \<Rightarrow> int" where
  "getUTCMilliseconds t = timeWithinDay t mod 1000"

definition makeDay :: "int \<Rightarrow> int \<Rightarrow> int \<Rightarrow> int" where
  "makeDay year month date =
     (let ym = year + month div 12; mn = month mod 12 in
      dayFromYear ym + daysBeforeMonth (isLeapYear ym) mn + date - 1)"

definition makeTime :: "int \<Rightarrow> int \<Rightarrow> int \<Rightarrow> int \<Rightarrow> int" where
  "makeTime h mi s ms = h * 3600000 + mi * 60000 + s * 1000 + ms"

text \<open>\<open>Date.UTC\<close> reads a year from 0 to 99 as 1900 to 1999.\<close>

definition date_UTC :: "int \<Rightarrow> int \<Rightarrow> int \<Rightarrow> int \<Rightarrow> int \<Rightarrow> int \<Rightarrow> int \<Rightarrow> int" where
  "date_UTC year month date h mi s ms =
     (let yr = (if 0 \<le> year \<and> year \<le> 99 then 1900 + year else year) in
      makeDay yr month date * msPerDay + makeTime h mi s ms)"

definition pad_int :: "nat \<Rightarrow> int \<Rightarrow> string" where
  "pad_int w n = (let s = show_digits n in replicate (w - length s) (CHR ''0'') @ s)"

definition toISOString :: "int \<Rightarrow> string" where
  "toISOString t =
     (let y = getUTCFullYear t;
          ys = (if 0 \<le> y \<and> y \<le> 9999 then pad_int 4 y
                else (if y < 0 then ''-'' else ''+'') @ pad_int 6 \<bar>y\<bar>) in
      ys @ ''-'' @ pad_int 2 (getUTCMonth t + 1) @ ''-'' @ pad_int 2 (getUTCDate t) @ ''T''
      @ pad_int 2 (getUTCHours t) @ '':'' @ pad_int 2 (getUTCMinutes t) @ '':''
      @ pad_int 2 (getUTCSeconds t) @ ''.'' @ pad_int 3 (getUTCMilliseconds t) @ ''Z'')"

lemma dayOf_make: "0 \<le> tod \<Longrightarrow> tod < msPerDay \<Longrightarrow> dayOf (d * msPerDay + tod) = d"
  by (simp add: dayOf_def msPerDay_def)

lemma timeWithinDay_make:
  "0 \<le> tod \<Longrightarrow> tod < msPerDay \<Longrightarrow> timeWithinDay (d * msPerDay + tod) = tod"
  by (simp add: timeWithinDay_def msPerDay_def)

lemma timeWithinDay_bounds: "0 \<le> timeWithinDay t" "timeWithinDay t < msPerDay"
  by (simp_all add: timeWithinDay_def msPerDay_def)

lemma makeTime_getters:
  "makeTime (getUTCHours t) (getUTCMinutes t) (getUTCSeconds t) (getUTCMilliseconds t)
   = timeWithinDay t"
proof -
  define w where "w = timeWithinDay t"
  have "0 \<le> w" using timeWithinDay_bounds by (simp add: w_def)
  have "w div 60000 = w div 1000 div 60" and "w div 3600000 = w div 1000 div 60 div 60"
    by (simp_all add: div_mult2_eq [symmetric] zdiv_zmult2_eq [symmetric])
  then show ?thesis
    unfolding makeTime_def getUTCHours_def getUTCMinutes_def getUTCSeconds_def
      getUTCMilliseconds_def w_def[symmetric]
    by presburger
qed

text \<open>Reading a calendar date back from the day it denotes.\<close>

lemma calendar_roundtrip:
  assumes "0 \<le> m" and "m \<le> 11" and "1 \<le> d" and "d \<le> daysInMonth y m"
    and "0 \<le> tod" and "tod < msPerDay"
  defines "t \<equiv> makeDay y m d * msPerDay + tod"
  shows "getUTCFullYear t = y" and "getUTCMonth t = m" and "getUTCDate t = d"
    and "timeWithinDay t = tod"
proof -
  let ?k = "daysBeforeMonth (isLeapYear y) m + d - 1"
  have day: "dayOf t = dayFromYear y + ?k"
    using assms by (simp add: dayOf_make makeDay_def)
  have k: "0 \<le> ?k" "?k < (if isLeapYear y then 366 else 365)"
    using daysBeforeMonth_within assms(1-4) by blast+
  show y: "getUTCFullYear t = y"
    unfolding getUTCFullYear_def day
    by (rule yearFromDay_unique) (use k in \<open>auto simp: dayFromYear_step split: if_splits\<close>)
  have w: "dayWithinYear t = ?k" by (simp add: dayWithinYear_def y day)
  show m: "getUTCMonth t = m"
    unfolding getUTCMonth_def y w using assms(1-4) by (rule monthFromYearDay_inverse)
  show "getUTCDate t = d" by (simp add: getUTCDate_def y m w)
  show "timeWithinDay t = tod" using assms(5,6) by (simp add: t_def timeWithinDay_make)
qed

lemma getters_range:
  shows "0 \<le> getUTCMonth t" and "getUTCMonth t \<le> 11"
    and "1 \<le> getUTCDate t" and "getUTCDate t \<le> daysInMonth (getUTCFullYear t) (getUTCMonth t)"
proof -
  have w: "0 \<le> dayWithinYear t"
    "dayWithinYear t < (if isLeapYear (getUTCFullYear t) then 366 else 365)"
    using yearFromDay_correct[of "dayOf t"]
    by (auto simp: dayWithinYear_def getUTCFullYear_def dayFromYear_step split: if_splits)
  then show "0 \<le> getUTCMonth t" and "getUTCMonth t \<le> 11"
    by (auto simp: getUTCMonth_def monthFromYearDay_def Let_def)
  from w show "1 \<le> getUTCDate t" and "getUTCDate t \<le> daysInMonth (getUTCFullYear t) (getUTCMonth t)"
    by (auto simp: getUTCDate_def getUTCMonth_def monthFromYearDay_def daysBeforeMonth_def
        daysInMonth_def Let_def split: if_splits)
qed

subsection \<open>Adding months\<close>

text \<open>\<open>addUtcMonthsClamped\<close> of \<^verbatim>\<open>earn-policy.ts\<close>; a month count is always an integer here.\<close>

definition addUtcMonthsClamped :: "int \<Rightarrow> int \<Rightarrow> int" where
  "addUtcMonthsClamped date months =
     (let year = getUTCFullYear date;
          monthIndex = getUTCMonth date + months;
          targetYear = year + monthIndex div 12;
          targetMonth = monthIndex mod 12;
          lastDayOfTargetMonth = getUTCDate (date_UTC targetYear (targetMonth + 1) 0 0 0 0 0);
          day = min (getUTCDate date) lastDayOfTargetMonth in
      date_UTC targetYear targetMonth day
        (getUTCHours date) (getUTCMinutes date) (getUTCSeconds date) (getUTCMilliseconds date))"

text \<open>\<open>addMonths\<close> of \<^verbatim>\<open>adjustments.service.ts\<close>: \<open>setUTCMonth\<close> keeps the day of the month and
  lets it run over into the following month.\<close>

definition setUTCMonth :: "int \<Rightarrow> int \<Rightarrow> int" where
  "setUTCMonth t m = makeDay (getUTCFullYear t) m (getUTCDate t) * msPerDay + timeWithinDay t"

definition adjustment_addMonths :: "int \<Rightarrow> int \<Rightarrow> int" where
  "adjustment_addMonths date months = setUTCMonth date (getUTCMonth date + months)"

lemma makeDay_last_of_month:
  assumes "0 \<le> m" and "m \<le> 11"
  shows "makeDay y (m + 1) 0 = makeDay y m (daysInMonth y m)"
proof (cases "m = 11")
  case True
  have "dayFromYear (y + 1) = dayFromYear y + (if isLeapYear y then 366 else 365)"
    by (rule dayFromYear_step)
  with True show ?thesis by (simp add: makeDay_def daysInMonth_def daysBeforeMonth_def Let_def)
next
  case False
  with assms have "(m + 1) div 12 = 0" "(m + 1) mod 12 = m + 1" "m div 12 = 0" "m mod 12 = m"
    by auto
  then show ?thesis by (simp add: makeDay_def daysInMonth_def)
qed

lemma date_UTC_late_year:
  "\<not> (0 \<le> y \<and> y \<le> 99) \<Longrightarrow>
   date_UTC y m d h mi s ms = makeDay y m d * msPerDay + makeTime h mi s ms"
  unfolding date_UTC_def Let_def by (simp only: if_False)

lemma last_day_lookup:
  assumes "0 \<le> m" and "m \<le> 11" and "\<not> (0 \<le> y \<and> y \<le> 99)"
  shows "getUTCDate (date_UTC y (m + 1) 0 0 0 0 0) = daysInMonth y m"
proof -
  have "date_UTC y (m + 1) 0 0 0 0 0 = makeDay y m (daysInMonth y m) * msPerDay + 0"
    using assms by (simp add: date_UTC_late_year makeDay_last_of_month makeTime_def)
  moreover have "1 \<le> daysInMonth y m" using daysInMonth_bounds(1)[OF assms(1,2), of y] by simp
  ultimately show ?thesis
    using calendar_roundtrip(3)[OF assms(1,2), of "daysInMonth y m" y 0] by (simp add: msPerDay_def)
qed

lemma addUtcMonthsClamped_eq:
  assumes "\<not> (0 \<le> ty \<and> ty \<le> 99)"
    and ty: "ty = getUTCFullYear t + (getUTCMonth t + n) div 12" and tm: "tm = (getUTCMonth t + n) mod 12"
  shows "addUtcMonthsClamped t n =
    makeDay ty tm (min (getUTCDate t) (daysInMonth ty tm)) * msPerDay + timeWithinDay t"
proof -
  have "0 \<le> tm" and "tm \<le> 11" by (simp_all add: tm)
  then have last: "getUTCDate (date_UTC ty (tm + 1) 0 0 0 0 0) = daysInMonth ty tm"
    using assms(1) by (rule last_day_lookup)
  show ?thesis
    unfolding addUtcMonthsClamped_def Let_def ty[symmetric] tm[symmetric] last
    by (simp only: date_UTC_late_year[OF assms(1)] makeTime_getters)
qed

text \<open>
  Adding months with clamping lands in the month asked for, on the same day of the month
  or, where that month is shorter, on its last day, at the same time of day.
\<close>

theorem addUtcMonthsClamped_correct:
  assumes "\<not> (0 \<le> getUTCFullYear t + (getUTCMonth t + n) div 12 \<and>
              getUTCFullYear t + (getUTCMonth t + n) div 12 \<le> 99)"
  shows "getUTCFullYear (addUtcMonthsClamped t n) = getUTCFullYear t + (getUTCMonth t + n) div 12
    \<and> getUTCMonth (addUtcMonthsClamped t n) = (getUTCMonth t + n) mod 12
    \<and> getUTCDate (addUtcMonthsClamped t n) =
        min (getUTCDate t) (daysInMonth (getUTCFullYear t + (getUTCMonth t + n) div 12)
                                        ((getUTCMonth t + n) mod 12))
    \<and> timeWithinDay (addUtcMonthsClamped t n) = timeWithinDay t"
proof -
  let ?y = "getUTCFullYear t + (getUTCMonth t + n) div 12" and ?m = "(getUTCMonth t + n) mod 12"
  let ?d = "min (getUTCDate t) (daysInMonth ?y ?m)"
  have m: "0 \<le> ?m" "?m \<le> 11" by simp_all
  have d: "1 \<le> ?d" "?d \<le> daysInMonth ?y ?m"
    using getters_range(3)[of t] daysInMonth_bounds(1)[OF m, of ?y] by simp_all
  show ?thesis
    unfolding addUtcMonthsClamped_eq[OF assms refl refl]
    using calendar_roundtrip[OF m d timeWithinDay_bounds(1)[of t] timeWithinDay_bounds(2)[of t]]
    by blast
qed

theorem addUtcMonthsClamped_correct_witness:
  "getUTCFullYear (addUtcMonthsClamped 1709164800000 12) = 2025
   \<and> getUTCMonth (addUtcMonthsClamped 1709164800000 12) = 1
   \<and> getUTCDate (addUtcMonthsClamped 1709164800000 12) = 28"
proof -
  have h: "getUTCFullYear 1709164800000 = 2024" "getUTCMonth 1709164800000 = 1"
    "getUTCDate 1709164800000 = 29" "daysInMonth 2025 1 = 28"
    by code_simp+
  show ?thesis using addUtcMonthsClamped_correct[of 1709164800000 12] by (simp add: h)
qed

text \<open>
  The adjustment service's \<open>addMonths\<close> agrees with the clamped addition exactly where the
  target month has the day; where it does not, the adjustment's credit runs over past the end of
  that month and so expires later than an earned lot of the same date.
\<close>

theorem adjustment_addMonths_vs_clamped:
  assumes "\<not> (0 \<le> getUTCFullYear t + (getUTCMonth t + n) div 12 \<and>
              getUTCFullYear t + (getUTCMonth t + n) div 12 \<le> 99)"
  shows "adjustment_addMonths t n = addUtcMonthsClamped t n +
    msPerDay * max 0 (getUTCDate t - daysInMonth (getUTCFullYear t + (getUTCMonth t + n) div 12)
                                                 ((getUTCMonth t + n) mod 12))"
proof -
  let ?y = "getUTCFullYear t + (getUTCMonth t + n) div 12" and ?m = "(getUTCMonth t + n) mod 12"
  have shift: "makeDay (getUTCFullYear t) (getUTCMonth t + n) k = makeDay ?y ?m k" for k
    by (simp add: makeDay_def)
  have day: "makeDay ?y ?m a = makeDay ?y ?m b + (a - b)" for a b
    by (simp add: makeDay_def Let_def)
  show ?thesis
    unfolding addUtcMonthsClamped_eq[OF assms refl refl] adjustment_addMonths_def setUTCMonth_def shift
    by (cases "getUTCDate t \<le> daysInMonth ?y ?m")
      (simp_all add: min_def max_def day[of "getUTCDate t" "daysInMonth ?y ?m"] ring_distribs)
qed

theorem adjustment_addMonths_vs_clamped_witness:
  "adjustment_addMonths 1709164800000 12 = addUtcMonthsClamped 1709164800000 12 + msPerDay"
proof -
  have h: "getUTCFullYear 1709164800000 = 2024" "getUTCMonth 1709164800000 = 1"
    "getUTCDate 1709164800000 = 29" "daysInMonth 2025 1 = 28"
    by code_simp+
  show ?thesis using adjustment_addMonths_vs_clamped[of 1709164800000 12] by (simp add: h)
qed

subsection \<open>Receipt weeks\<close>

text \<open>
  \<open>deriveReceiptWeekStart\<close> of the redemption and the loyalty service. \<open>localParts\<close> is the
  calendar date of the instant in the branch's time zone, which \<open>Intl.DateTimeFormat\<close> computes
  from the time-zone database: \<open>None\<close> where a part is not a number. The two copies in the
  services differ only in the exception they throw, a parameter here.
\<close>

definition deriveReceiptWeekStart ::
  "(string \<Rightarrow> svc_error) \<Rightarrow> (string \<Rightarrow> int \<Rightarrow> (int \<times> int \<times> int) option) \<Rightarrow>
   int \<Rightarrow> string \<Rightarrow> int \<Rightarrow> svc_error + int" where
  "deriveReceiptWeekStart err localParts occurredAt timeZone receiptWeekStartDay =
     (if receiptWeekStartDay < 0 \<or> receiptWeekStartDay > 6
      then Inl (err ''Branch receipt week start day is invalid'')
      else case localParts timeZone occurredAt of
        None \<Rightarrow> Inl (err ''Unable to derive receipt week start'')
      | Some (year, month, day) \<Rightarrow>
          let localDate = date_UTC year (month - 1) day 0 0 0 0;
              localWeekday = getUTCDay localDate;
              deltaDays = (7 + localWeekday - receiptWeekStartDay) mod 7 in
          Inr (date_UTC year (month - 1) (day - deltaDays) 0 0 0 0))"

lemma date_UTC_day_shift:
  "date_UTC y m (d - k) 0 0 0 0 = date_UTC y m d 0 0 0 0 - k * msPerDay"
  by (simp add: date_UTC_def makeDay_def Let_def algebra_simps)

lemma date_UTC_midnight: "timeWithinDay (date_UTC y m d 0 0 0 0) = 0"
  by (simp add: date_UTC_def timeWithinDay_def makeTime_def)

lemma getUTCDay_range: "0 \<le> getUTCDay t" "getUTCDay t \<le> 6"
  by (simp_all add: getUTCDay_def)

lemma dayOf_minus_days: "dayOf (t - k * msPerDay) = dayOf t - k"
  by (simp add: dayOf_def msPerDay_def)

lemma weekday_of_start:
  assumes "0 \<le> s" and "s \<le> 6"
  shows "(d + 4 - (7 + (d + 4) mod 7 - s) mod 7) mod 7 = (s::int)"
proof -
  define x where "x = d + 4"
  have "(x - (7 + x mod 7 - s) mod 7) mod 7 = (x - (7 + x mod 7 - s)) mod 7"
    by (rule mod_diff_right_eq)
  also have "x - (7 + x mod 7 - s) = s + 7 * (x div 7 - 1)"
    using mult_div_mod_eq[of 7 x] by (simp add: algebra_simps)
  also have "\<dots> mod 7 = s mod 7" by (rule mod_mult_self2)
  finally show ?thesis using assms by (simp add: x_def)
qed

lemma deriveReceiptWeekStart_facts:
  assumes "deriveReceiptWeekStart err parts t tz s = Inr w" and "parts tz t = Some (y, m, d)"
  shows "getUTCDay w = s" and "timeWithinDay w = 0"
    and "dayOf w \<le> dayOf (date_UTC y (m - 1) d 0 0 0 0)"
    and "dayOf (date_UTC y (m - 1) d 0 0 0 0) < dayOf w + 7"
proof -
  let ?l = "date_UTC y (m - 1) d 0 0 0 0"
  let ?k = "(7 + getUTCDay ?l - s) mod 7"
  have s: "0 \<le> s" "s \<le> 6" and w: "w = ?l - ?k * msPerDay"
    using assms by (auto simp: deriveReceiptWeekStart_def date_UTC_day_shift Let_def split: if_splits)
  have dw: "dayOf w = dayOf ?l - ?k" by (simp add: w dayOf_minus_days)
  show "getUTCDay w = s"
    using weekday_of_start[OF s, of "dayOf ?l"] by (simp add: getUTCDay_def dw algebra_simps)
  show "timeWithinDay w = 0"
    using date_UTC_midnight[of y "m - 1" "d - ?k"] by (simp add: w date_UTC_day_shift)
  have "0 \<le> ?k" "?k < 7" by simp_all
  with dw show "dayOf w \<le> dayOf ?l" and "dayOf ?l < dayOf w + 7" by linarith+
qed

text \<open>
  The start of a receipt week is a midnight on the branch's configured weekday, at most six
  days before the receipt's local date and never after it.
\<close>

theorem deriveReceiptWeekStart_correct:
  assumes "deriveReceiptWeekStart err parts t tz s = Inr w" and "parts tz t = Some (y, m, d)"
  shows "getUTCDay w = s \<and> timeWithinDay w = 0
    \<and> dayOf w \<le> dayOf (date_UTC y (m - 1) d 0 0 0 0)
    \<and> dayOf (date_UTC y (m - 1) d 0 0 0 0) < dayOf w + 7"
  using deriveReceiptWeekStart_facts[OF assms] by blast

theorem deriveReceiptWeekStart_correct_witness:
  "getUTCDay (1709164800000 - 3 * msPerDay) = 1 \<and> timeWithinDay (1709164800000 - 3 * msPerDay) = 0"
proof -
  have h: "deriveReceiptWeekStart validation_error (\<lambda>_ _. Some (2024, 2, 29)) 1709164800000
      ''Africa/Lagos'' 1 = Inr (1709164800000 - 3 * msPerDay)"
    by code_simp
  show ?thesis using deriveReceiptWeekStart_correct[OF h, of 2024 2 29] by simp
qed

text \<open>
  Two receipts of a branch whose local dates fall in the same receipt week get the same
  week start, so the uniqueness of a receipt number is checked within one and the same week.
\<close>

theorem deriveReceiptWeekStart_same_week:
  assumes "deriveReceiptWeekStart err parts t tz s = Inr w" and "parts tz t = Some (y, m, d)"
    and "deriveReceiptWeekStart err' parts t' tz s = Inr w'" and "parts tz t' = Some (y', m', d')"
    and "dayOf w \<le> dayOf (date_UTC y' (m' - 1) d' 0 0 0 0)"
    and "dayOf (date_UTC y' (m' - 1) d' 0 0 0 0) < dayOf w + 7"
  shows "w' = w"
proof -
  note a = deriveReceiptWeekStart_facts[OF assms(1,2)]
  note b = deriveReceiptWeekStart_facts[OF assms(3,4)]
  have "(dayOf w + 4) mod 7 = (dayOf w' + 4) mod 7" using a b by (simp add: getUTCDay_def)
  then have "(dayOf w - dayOf w') mod 7 = 0" by (metis add_diff_cancel_right mod_eq_dvd_iff dvd_eq_mod_eq_0)
  moreover have "-7 < dayOf w - dayOf w'" "dayOf w - dayOf w' < 7" using b assms(5,6) by linarith+
  ultimately have "dayOf w = dayOf w'" by presburger
  moreover have "w = dayOf w * msPerDay + timeWithinDay w" "w' = dayOf w' * msPerDay + timeWithinDay w'"
    by (simp_all add: dayOf_def timeWithinDay_def)
  ultimately show ?thesis using a b by simp
qed

end
