(* ===== verification/Schema.thy ===== *)
theory Schema
  imports Js_Date
begin

text \<open>
  The database the services share: \<^verbatim>\<open>prisma/schema.prisma\<close>. An enum is a datatype, a model is
  a record with the model's columns (the bookkeeping columns \<open>createdAt\<close> and \<open>updatedAt\<close> apart,
  unless a service returns them: a table is a list in the order of creation), and \<open>db\<close> has a field per table. A
  \<open>prisma.<model>.create\<close> is a \<open><model>_create\<close> here: it draws the row's id, checks the unique
  constraints of the schema and either appends the row or fails with \<open>P2002\<close> and the columns of
  the violated constraint; \<open>updateMany\<close> rewrites the rows that match and counts them.
  The triggers and check constraints of the SQL migrations are not part of the model.
\<close>

subsection \<open>Enumerations\<close>

datatype TenantStatus = ACTIVE | SUSPENDED
datatype BranchStatus = ACTIVE | INACTIVE
datatype DeviceStatus = ACTIVE | INACTIVE
datatype UserRole = CASHIER | SUPERVISOR | ADMIN | SYSTEM
datatype UserStatus = ACTIVE | DISABLED | SUSPENDED
datatype CustomerStatus = ACTIVE | BLOCKED
datatype CustomerMarketingPreference = OPTED_IN | OPTED_OUT
datatype CustomerMarketingPreferenceSource = IN_STORE
datatype CardStatus = ACTIVE | BLOCKED | REPLACED
datatype IdempotencyRecordStatus = PENDING | COMPLETED
datatype ReceiptCaptureStatus = CAPTURED | FLAGGED | PENDING_APPROVAL
datatype ReceiptReviewStatus = PENDING | APPROVED | REJECTED
datatype LedgerEntryType = EARN | REDEEM | REVERSAL | ADJUSTMENT | EXPIRY
datatype LedgerEntryDirection = CREDIT | DEBIT
datatype ApprovalStatus = PENDING | APPROVED | EXECUTED | REJECTED | EXPIRED
datatype RedemptionStatus = PENDING_APPROVAL | CONFIRMED | REJECTED | EXPIRED | REVERSED
datatype AdjustmentKind = CREDIT | DEBIT
datatype ApprovalTargetType = EARN | REDEEM
datatype SmsMessageStatus = QUEUED | SENT | DELIVERED | FAILED | SUPPRESSED

subsection \<open>Rows\<close>

record Tenant =
  tn_id :: string
  tn_name :: string
  tn_status :: TenantStatus

record Branch =
  br_id :: string
  br_tenantId :: string
  br_name :: string
  br_timezone :: string
  br_receiptWeekStartDay :: int
  br_status :: BranchStatus

record Device =
  dev_id :: string
  dev_tenantId :: string
  dev_branchId :: string
  dev_status :: DeviceStatus

record User =
  us_id :: string
  us_tenantId :: string
  us_branchId :: "string option"
  us_username :: string
  us_role :: UserRole
  us_status :: UserStatus

record Customer =
  cu_id :: string
  cu_tenantId :: string
  cu_branchId :: string
  cu_fullName :: string
  cu_email :: "string option"
  cu_phoneE164 :: string
  cu_isStaff :: bool
  cu_status :: CustomerStatus
  cu_registeredBy :: "string option"
  cu_registeredByTenantId :: "string option"
  cu_blockedAt :: "int option"
  cu_createdAt :: int
  cu_updatedAt :: int

record CustomerConsent =
  cc_id :: string
  cc_tenantId :: string
  cc_customerId :: string
  cc_capturedBy :: string
  cc_loyaltyConsent :: bool
  cc_marketingOptIn :: bool
  cc_consentVersion :: string
  cc_privacyNoticeVersion :: string
  cc_capturedAt :: int

record CustomerMarketingPreferenceEvent =
  mp_id :: string
  mp_tenantId :: string
  mp_customerId :: string
  mp_capturedBy :: string
  mp_branchId :: string
  mp_preference :: CustomerMarketingPreference
  mp_source :: CustomerMarketingPreferenceSource
  mp_capturedAt :: int

record Card =
  cd_id :: string
  cd_tenantId :: string
  cd_customerId :: string
  cd_barcodeValue :: string
  cd_status :: CardStatus
  cd_issuedBy :: "string option"
  cd_issuedByTenantId :: "string option"
  cd_issuedAt :: int
  cd_blockedAt :: "int option"
  cd_replacedByCardId :: "string option"
  cd_replacedAt :: "int option"
  cd_createdAt :: int
  cd_updatedAt :: int

record PolicyConfiguration =
  pc_id :: string
  pc_tenantId :: string
  pc_branchId :: string
  pc_version :: int
  pc_defaultEarnRateBps :: int
  pc_minRedemptionKobo :: int
  pc_maxRedemptionBasketPercent :: int
  pc_purchaseFlagThresholdKobo :: int
  pc_purchaseApprovalThresholdKobo :: int
  pc_purchaseAmountCeilingKobo :: int
  pc_redemptionApprovalThresholdKobo :: int
  pc_offlineRedemptionDisabled :: bool

record Receipt =
  rc_id :: string
  rc_tenantId :: string
  rc_branchId :: string
  rc_customerId :: string
  rc_cardId :: string
  rc_deviceId :: "string option"
  rc_posReceiptNumber :: string
  rc_normalizedPosReceiptNumber :: string
  rc_receiptWeekStart :: int
  rc_purchaseAmountKobo :: int
  rc_occurredAt :: int
  rc_capturedByTenantId :: string
  rc_capturedBy :: string
  rc_captureStatus :: ReceiptCaptureStatus
  rc_reviewStatus :: ReceiptReviewStatus
  rc_approvalReasonCode :: "string option"
  rc_reviewedAt :: "int option"
  rc_reviewedByTenantId :: "string option"
  rc_reviewedBy :: "string option"
  rc_approvedByTenantId :: "string option"
  rc_approvedBy :: "string option"
  rc_approvedAt :: "int option"
  rc_capturedAt :: int

record LoyaltyLedgerEntry =
  le_id :: string
  le_tenantId :: string
  le_customerId :: string
  le_receiptId :: "string option"
  le_type :: LedgerEntryType
  le_direction :: LedgerEntryDirection
  le_amountKobo :: int
  le_correlationId :: string
  le_reversesEntryId :: "string option"
  le_createdByTenantId :: string
  le_createdBy :: string
  le_effectiveAt :: int

record CreditLot =
  lot_id :: string
  lot_tenantId :: string
  lot_customerId :: string
  lot_earnLedgerEntryId :: string
  lot_originalAmountKobo :: int
  lot_remainingAmountKobo :: int
  lot_earnedAt :: int
  lot_expiresAt :: int

record CreditExpiry =
  ce_id :: string
  ce_tenantId :: string
  ce_customerId :: string
  ce_creditLotId :: string
  ce_ledgerEntryId :: string
  ce_amountKobo :: int
  ce_expiredAt :: int

record CreditExpiryReminder =
  cer_id :: string
  cer_tenantId :: string
  cer_customerId :: string
  cer_reminderDate :: int
  cer_totalExpiringKobo :: int
  cer_earliestExpiresAt :: int
  cer_latestExpiresAt :: int
  cer_outboxEventId :: string

record Redemption =
  rd_id :: string
  rd_tenantId :: string
  rd_branchId :: string
  rd_customerId :: string
  rd_cardId :: string
  rd_deviceId :: string
  rd_receiptId :: string
  rd_requestedByTenantId :: string
  rd_requestedBy :: string
  rd_requestedAmountKobo :: int
  rd_basketAmountKobo :: int
  rd_maximumAllowedKobo :: int
  rd_confirmedAmountKobo :: "int option"
  rd_status :: RedemptionStatus
  rd_policyVersion :: string
  rd_ledgerEntryId :: "string option"
  rd_requestedAt :: int
  rd_confirmedAt :: "int option"
  rd_rejectedAt :: "int option"
  rd_reversedAt :: "int option"

record RedemptionAllocation =
  ra_id :: string
  ra_tenantId :: string
  ra_redemptionId :: "string option"
  ra_adjustmentId :: "string option"
  ra_redemptionLedgerEntryId :: string
  ra_creditLotId :: string
  ra_amountKobo :: int
  ra_allocationOrder :: int

record AllocationRestoration =
  ar_id :: string
  ar_tenantId :: string
  ar_allocationId :: string
  ar_reversalLedgerEntryId :: string
  ar_amountKobo :: int

record Adjustment =
  adj_id :: string
  adj_tenantId :: string
  adj_customerId :: string
  adj_kind :: AdjustmentKind
  adj_amountKobo :: int
  adj_reason :: string
  adj_createdByTenantId :: string
  adj_createdBy :: string
  adj_ledgerEntryId :: string
  adj_effectiveAt :: int

record Approval =
  ap_id :: string
  ap_tenantId :: string
  ap_receiptId :: "string option"
  ap_redemptionId :: "string option"
  ap_targetType :: ApprovalTargetType
  ap_status :: ApprovalStatus
  ap_requestedByTenantId :: string
  ap_requestedBy :: string
  ap_reasonCode :: "string option"
  ap_policyVersion :: string
  ap_expiresAt :: int
  ap_decisionByTenantId :: "string option"
  ap_decisionBy :: "string option"
  ap_decisionReason :: "string option"
  ap_requestedAt :: int
  ap_decidedAt :: "int option"
  ap_executedAt :: "int option"

record IdempotencyRecord =
  idr_tenantId :: string
  idr_actorId :: string
  idr_endpoint :: string
  idr_idempotencyKey :: string
  idr_requestHash :: string
  idr_responseJson :: "json option"
  idr_status :: IdempotencyRecordStatus
  idr_expiresAt :: int

record OutboxEvent =
  ob_id :: string
  ob_tenantId :: string
  ob_aggregateType :: string
  ob_aggregateId :: string
  ob_eventType :: string
  ob_payload :: json
  ob_nextAttemptAt :: "int option"

record SmsMessage =
  sms_id :: string
  sms_tenantId :: string
  sms_receiptId :: "string option"
  sms_outboxEventId :: string
  sms_ledgerEntryId :: "string option"
  sms_redemptionId :: "string option"
  sms_adjustmentId :: "string option"
  sms_phoneE164 :: string
  sms_template :: string
  sms_payload :: json
  sms_status :: SmsMessageStatus
  sms_queuedAt :: int

record AuditLog =
  au_tenantId :: string
  au_actorTenantId :: "string option"
  au_actorId :: "string option"
  au_action :: string
  au_entityType :: string
  au_entityId :: "string option"
  au_metadata :: json

record db =
  tenants :: "Tenant list"
  branches :: "Branch list"
  devices :: "Device list"
  users :: "User list"
  customers :: "Customer list"
  customerConsents :: "CustomerConsent list"
  customerMarketingPreferenceEvents :: "CustomerMarketingPreferenceEvent list"
  cards :: "Card list"
  policyConfigurations :: "PolicyConfiguration list"
  receipts :: "Receipt list"
  ledgerEntries :: "LoyaltyLedgerEntry list"
  creditLots :: "CreditLot list"
  creditExpiries :: "CreditExpiry list"
  creditExpiryReminders :: "CreditExpiryReminder list"
  redemptions :: "Redemption list"
  redemptionAllocations :: "RedemptionAllocation list"
  allocationRestorations :: "AllocationRestoration list"
  adjustments :: "Adjustment list"
  approvals :: "Approval list"
  idempotencyRecords :: "IdempotencyRecord list"
  outboxEvents :: "OutboxEvent list"
  smsMessages :: "SmsMessage list"
  auditLogs :: "AuditLog list"
  idCounter :: nat

text \<open>
  What the services take from outside the repository: \<open>createHash('sha256')\<close>, the generator of
  the row ids, the time-zone arithmetic of \<open>Intl\<close>, \<open>new Date(string)\<close> and the configuration
  values (\<open>None\<close> where a key is not set).
\<close>

record env =
  sha256hex :: "string \<Rightarrow> string"
  genId :: "nat \<Rightarrow> string"
  tzDate :: "string \<Rightarrow> int \<Rightarrow> (int \<times> int \<times> int) option"
  dateParse :: "string \<Rightarrow> int option"
  configGet :: "string \<Rightarrow> int option"

text \<open>The signed-in user and session device a controller passes on (\<open>AuthContext\<close>).\<close>

record AuthContext =
  actor_id :: string
  actor_tenantId :: string
  actor_branchId :: "string option"
  actor_role :: UserRole
  session_deviceId :: "string option"

type_synonym 'a dbtx = "(db, 'a) tx"

end
