(* ===== verification/Database.thy ===== *)
theory Database
  imports Schema
begin

text \<open>
  The operations of the Prisma client the services call, one definition per model and method,
  with the unique constraints of \<^verbatim>\<open>prisma/schema.prisma\<close> (a null column never conflicts), and what
  each of them leaves unchanged.
\<close>

subsection \<open>Generic parts\<close>

definition p2002 :: "string list \<Rightarrow> svc_error" where
  "p2002 target = PrismaKnownRequestError ''P2002'' target ''Unique constraint failed''"

definition p2025 :: svc_error where
  "p2025 = PrismaKnownRequestError ''P2025'' [] ''Record to update not found''"

definition fresh_id :: "env \<Rightarrow> string dbtx" where
  "fresh_id env = (\<lambda>d. Inr (genId env (idCounter d), d\<lparr>idCounter := Suc (idCounter d)\<rparr>))"

definition same_key :: "'a option \<Rightarrow> 'a option \<Rightarrow> bool" where
  "same_key a b = (a \<noteq> None \<and> a = b)"

definition updated :: "('a \<Rightarrow> bool) \<Rightarrow> ('a \<Rightarrow> 'a) \<Rightarrow> 'a list \<Rightarrow> 'a list" where
  "updated p f xs = map (\<lambda>x. if p x then f x else x) xs"

definition count_where :: "('a \<Rightarrow> bool) \<Rightarrow> 'a list \<Rightarrow> nat" where
  "count_where p xs = length (filter p xs)"

fun first_violation :: "(bool \<times> string list) list \<Rightarrow> svc_error option" where
  "first_violation [] = None"
| "first_violation ((b, cols) # cs) = (if b then Some (p2002 cols) else first_violation cs)"

text \<open>
  A create: draw the id, build the row, check the constraints of the model against the rows
  already there, append.
\<close>

definition create_row ::
  "env \<Rightarrow> (db \<Rightarrow> 'r \<Rightarrow> (bool \<times> string list) list) \<Rightarrow> ('r \<Rightarrow> db \<Rightarrow> db) \<Rightarrow> (string \<Rightarrow> 'r) \<Rightarrow> 'r dbtx" where
  "create_row env constraints put mk =
     tx_bind (fresh_id env) (\<lambda>new_id d.
       let row = mk new_id in
       case first_violation (constraints d row) of
         Some e \<Rightarrow> Inl e
       | None \<Rightarrow> Inr (row, put row d))"

subsection \<open>Creates\<close>

definition user_constraints :: "db \<Rightarrow> User \<Rightarrow> (bool \<times> string list) list" where
  "user_constraints d row =
      [(list_ex (\<lambda>x. us_id x = us_id row) (users d), [''id'']),
       (list_ex (\<lambda>x. us_tenantId x = us_tenantId row \<and> us_username x = us_username row) (users d), [''tenantId'', ''username''])]"

definition user_create :: "env \<Rightarrow> (string \<Rightarrow> User) \<Rightarrow> User dbtx" where
  "user_create env mk =
     create_row env user_constraints (\<lambda>row d. d\<lparr>users := users d @ [row]\<rparr>) mk"

definition receipt_constraints :: "db \<Rightarrow> Receipt \<Rightarrow> (bool \<times> string list) list" where
  "receipt_constraints d row =
      [(list_ex (\<lambda>x. rc_id x = rc_id row) (receipts d), [''id'']),
       (list_ex (\<lambda>x. rc_tenantId x = rc_tenantId row \<and> rc_branchId x = rc_branchId row
          \<and> rc_receiptWeekStart x = rc_receiptWeekStart row
          \<and> rc_normalizedPosReceiptNumber x = rc_normalizedPosReceiptNumber row) (receipts d), [''tenantId'', ''branchId'', ''receiptWeekStart'', ''normalizedPosReceiptNumber''])]"

definition receipt_create :: "env \<Rightarrow> (string \<Rightarrow> Receipt) \<Rightarrow> Receipt dbtx" where
  "receipt_create env mk =
     create_row env receipt_constraints (\<lambda>row d. d\<lparr>receipts := receipts d @ [row]\<rparr>) mk"

definition loyaltyLedgerEntry_constraints :: "db \<Rightarrow> LoyaltyLedgerEntry \<Rightarrow> (bool \<times> string list) list" where
  "loyaltyLedgerEntry_constraints d row =
      [(list_ex (\<lambda>x. le_id x = le_id row) (ledgerEntries d), [''id'']),
       (list_ex (\<lambda>x. le_correlationId x = le_correlationId row) (ledgerEntries d), [''correlationId'']),
       (list_ex (\<lambda>x. same_key (le_reversesEntryId x) (le_reversesEntryId row)) (ledgerEntries d), [''reversesEntryId'']),
       ((le_type row = LedgerEntryType.EARN \<or> le_type row = LedgerEntryType.REDEEM) \<and>
        list_ex (\<lambda>x. le_tenantId x = le_tenantId row \<and> le_type x = le_type row
          \<and> same_key (le_receiptId x) (le_receiptId row)) (ledgerEntries d), [''tenantId'', ''receiptId''])]"

definition loyaltyLedgerEntry_create :: "env \<Rightarrow> (string \<Rightarrow> LoyaltyLedgerEntry) \<Rightarrow> LoyaltyLedgerEntry dbtx" where
  "loyaltyLedgerEntry_create env mk =
     create_row env loyaltyLedgerEntry_constraints (\<lambda>row d. d\<lparr>ledgerEntries := ledgerEntries d @ [row]\<rparr>) mk"

definition creditLot_constraints :: "db \<Rightarrow> CreditLot \<Rightarrow> (bool \<times> string list) list" where
  "creditLot_constraints d row =
      [(list_ex (\<lambda>x. lot_id x = lot_id row) (creditLots d), [''id'']),
       (list_ex (\<lambda>x. lot_earnLedgerEntryId x = lot_earnLedgerEntryId row) (creditLots d), [''earnLedgerEntryId''])]"

definition creditLot_create :: "env \<Rightarrow> (string \<Rightarrow> CreditLot) \<Rightarrow> CreditLot dbtx" where
  "creditLot_create env mk =
     create_row env creditLot_constraints (\<lambda>row d. d\<lparr>creditLots := creditLots d @ [row]\<rparr>) mk"

definition creditExpiry_constraints :: "db \<Rightarrow> CreditExpiry \<Rightarrow> (bool \<times> string list) list" where
  "creditExpiry_constraints d row =
      [(list_ex (\<lambda>x. ce_id x = ce_id row) (creditExpiries d), [''id'']),
       (list_ex (\<lambda>x. ce_ledgerEntryId x = ce_ledgerEntryId row) (creditExpiries d), [''ledgerEntryId'']),
       (list_ex (\<lambda>x. ce_tenantId x = ce_tenantId row \<and> ce_creditLotId x = ce_creditLotId row) (creditExpiries d), [''tenantId'', ''creditLotId''])]"

definition creditExpiry_create :: "env \<Rightarrow> (string \<Rightarrow> CreditExpiry) \<Rightarrow> CreditExpiry dbtx" where
  "creditExpiry_create env mk =
     create_row env creditExpiry_constraints (\<lambda>row d. d\<lparr>creditExpiries := creditExpiries d @ [row]\<rparr>) mk"

definition redemption_constraints :: "db \<Rightarrow> Redemption \<Rightarrow> (bool \<times> string list) list" where
  "redemption_constraints d row =
      [(list_ex (\<lambda>x. rd_id x = rd_id row) (redemptions d), [''id'']),
       (list_ex (\<lambda>x. rd_receiptId x = rd_receiptId row) (redemptions d), [''receiptId'']),
       (list_ex (\<lambda>x. same_key (rd_ledgerEntryId x) (rd_ledgerEntryId row)) (redemptions d), [''ledgerEntryId''])]"

definition redemption_create :: "env \<Rightarrow> (string \<Rightarrow> Redemption) \<Rightarrow> Redemption dbtx" where
  "redemption_create env mk =
     create_row env redemption_constraints (\<lambda>row d. d\<lparr>redemptions := redemptions d @ [row]\<rparr>) mk"

definition redemptionAllocation_constraints :: "db \<Rightarrow> RedemptionAllocation \<Rightarrow> (bool \<times> string list) list" where
  "redemptionAllocation_constraints d row =
      [(list_ex (\<lambda>x. ra_id x = ra_id row) (redemptionAllocations d), [''id'']),
       (list_ex (\<lambda>x. ra_tenantId x = ra_tenantId row \<and> same_key (ra_redemptionId x) (ra_redemptionId row)
          \<and> ra_creditLotId x = ra_creditLotId row) (redemptionAllocations d), [''tenantId'', ''redemptionId'', ''creditLotId'']),
       (list_ex (\<lambda>x. ra_tenantId x = ra_tenantId row \<and> same_key (ra_redemptionId x) (ra_redemptionId row)
          \<and> ra_allocationOrder x = ra_allocationOrder row) (redemptionAllocations d), [''tenantId'', ''redemptionId'', ''allocationOrder'']),
       (list_ex (\<lambda>x. ra_tenantId x = ra_tenantId row \<and> same_key (ra_adjustmentId x) (ra_adjustmentId row)
          \<and> ra_creditLotId x = ra_creditLotId row) (redemptionAllocations d), [''tenantId'', ''adjustmentId'', ''creditLotId'']),
       (list_ex (\<lambda>x. ra_tenantId x = ra_tenantId row \<and> same_key (ra_adjustmentId x) (ra_adjustmentId row)
          \<and> ra_allocationOrder x = ra_allocationOrder row) (redemptionAllocations d), [''tenantId'', ''adjustmentId'', ''allocationOrder''])]"

definition redemptionAllocation_create :: "env \<Rightarrow> (string \<Rightarrow> RedemptionAllocation) \<Rightarrow> RedemptionAllocation dbtx" where
  "redemptionAllocation_create env mk =
     create_row env redemptionAllocation_constraints (\<lambda>row d. d\<lparr>redemptionAllocations := redemptionAllocations d @ [row]\<rparr>) mk"

definition allocationRestoration_constraints :: "db \<Rightarrow> AllocationRestoration \<Rightarrow> (bool \<times> string list) list" where
  "allocationRestoration_constraints d row =
      [(list_ex (\<lambda>x. ar_id x = ar_id row) (allocationRestorations d), [''id'']),
       (list_ex (\<lambda>x. ar_tenantId x = ar_tenantId row \<and> ar_allocationId x = ar_allocationId row
          \<and> ar_reversalLedgerEntryId x = ar_reversalLedgerEntryId row) (allocationRestorations d), [''tenantId'', ''allocationId'', ''reversalLedgerEntryId''])]"

definition allocationRestoration_create :: "env \<Rightarrow> (string \<Rightarrow> AllocationRestoration) \<Rightarrow> AllocationRestoration dbtx" where
  "allocationRestoration_create env mk =
     create_row env allocationRestoration_constraints (\<lambda>row d. d\<lparr>allocationRestorations := allocationRestorations d @ [row]\<rparr>) mk"

definition adjustment_constraints :: "db \<Rightarrow> Adjustment \<Rightarrow> (bool \<times> string list) list" where
  "adjustment_constraints d row =
      [(list_ex (\<lambda>x. adj_id x = adj_id row) (adjustments d), [''id'']),
       (list_ex (\<lambda>x. adj_ledgerEntryId x = adj_ledgerEntryId row) (adjustments d), [''ledgerEntryId''])]"

definition adjustment_create :: "env \<Rightarrow> (string \<Rightarrow> Adjustment) \<Rightarrow> Adjustment dbtx" where
  "adjustment_create env mk =
     create_row env adjustment_constraints (\<lambda>row d. d\<lparr>adjustments := adjustments d @ [row]\<rparr>) mk"

definition approval_constraints :: "db \<Rightarrow> Approval \<Rightarrow> (bool \<times> string list) list" where
  "approval_constraints d row =
      [(list_ex (\<lambda>x. ap_id x = ap_id row) (approvals d), [''id'']),
       (list_ex (\<lambda>x. same_key (ap_receiptId x) (ap_receiptId row)) (approvals d), [''receiptId'']),
       (list_ex (\<lambda>x. same_key (ap_redemptionId x) (ap_redemptionId row)) (approvals d), [''redemptionId''])]"

definition approval_create :: "env \<Rightarrow> (string \<Rightarrow> Approval) \<Rightarrow> Approval dbtx" where
  "approval_create env mk =
     create_row env approval_constraints (\<lambda>row d. d\<lparr>approvals := approvals d @ [row]\<rparr>) mk"

definition outboxEvent_constraints :: "db \<Rightarrow> OutboxEvent \<Rightarrow> (bool \<times> string list) list" where
  "outboxEvent_constraints d row =
      [(list_ex (\<lambda>x. ob_id x = ob_id row) (outboxEvents d), [''id''])]"

definition outboxEvent_create :: "env \<Rightarrow> (string \<Rightarrow> OutboxEvent) \<Rightarrow> OutboxEvent dbtx" where
  "outboxEvent_create env mk =
     create_row env outboxEvent_constraints (\<lambda>row d. d\<lparr>outboxEvents := outboxEvents d @ [row]\<rparr>) mk"

definition smsMessage_constraints :: "db \<Rightarrow> SmsMessage \<Rightarrow> (bool \<times> string list) list" where
  "smsMessage_constraints d row =
      [(list_ex (\<lambda>x. sms_id x = sms_id row) (smsMessages d), [''id'']),
       (list_ex (\<lambda>x. sms_tenantId x = sms_tenantId row \<and> sms_outboxEventId x = sms_outboxEventId row) (smsMessages d), [''tenantId'', ''outboxEventId''])]"

definition smsMessage_create :: "env \<Rightarrow> (string \<Rightarrow> SmsMessage) \<Rightarrow> SmsMessage dbtx" where
  "smsMessage_create env mk =
     create_row env smsMessage_constraints (\<lambda>row d. d\<lparr>smsMessages := smsMessages d @ [row]\<rparr>) mk"

text \<open>The idempotency record and the audit log have ids nothing refers to.\<close>

definition idempotencyRecord_create :: "IdempotencyRecord \<Rightarrow> unit dbtx" where
  "idempotencyRecord_create row = (\<lambda>d.
     if list_ex (\<lambda>x. idr_tenantId x = idr_tenantId row \<and> idr_actorId x = idr_actorId row
          \<and> idr_endpoint x = idr_endpoint row \<and> idr_idempotencyKey x = idr_idempotencyKey row)
          (idempotencyRecords d)
     then Inl (p2002 [''tenantId'', ''actorId'', ''endpoint'', ''idempotencyKey''])
     else Inr ((), d\<lparr>idempotencyRecords := idempotencyRecords d @ [row]\<rparr>))"

definition auditLog_create :: "AuditLog \<Rightarrow> unit dbtx" where
  "auditLog_create row = (\<lambda>d. Inr ((), d\<lparr>auditLogs := auditLogs d @ [row]\<rparr>))"

subsection \<open>Updates and deletes\<close>

definition receipt_updateMany :: "(Receipt \<Rightarrow> bool) \<Rightarrow> (Receipt \<Rightarrow> Receipt) \<Rightarrow> nat dbtx" where
  "receipt_updateMany p f = (\<lambda>d.
     Inr (count_where p (receipts d), d\<lparr>receipts := updated p f (receipts d)\<rparr>))"

definition creditLot_updateMany :: "(CreditLot \<Rightarrow> bool) \<Rightarrow> (CreditLot \<Rightarrow> CreditLot) \<Rightarrow> nat dbtx" where
  "creditLot_updateMany p f = (\<lambda>d.
     Inr (count_where p (creditLots d), d\<lparr>creditLots := updated p f (creditLots d)\<rparr>))"

definition redemption_updateMany :: "(Redemption \<Rightarrow> bool) \<Rightarrow> (Redemption \<Rightarrow> Redemption) \<Rightarrow> nat dbtx" where
  "redemption_updateMany p f = (\<lambda>d.
     Inr (count_where p (redemptions d), d\<lparr>redemptions := updated p f (redemptions d)\<rparr>))"

definition approval_updateMany :: "(Approval \<Rightarrow> bool) \<Rightarrow> (Approval \<Rightarrow> Approval) \<Rightarrow> nat dbtx" where
  "approval_updateMany p f = (\<lambda>d.
     Inr (count_where p (approvals d), d\<lparr>approvals := updated p f (approvals d)\<rparr>))"

definition idempotencyRecord_deleteMany :: "(IdempotencyRecord \<Rightarrow> bool) \<Rightarrow> db \<Rightarrow> db" where
  "idempotencyRecord_deleteMany p d =
     d\<lparr>idempotencyRecords := filter (\<lambda>x. \<not> p x) (idempotencyRecords d)\<rparr>"

definition idempotencyRecord_updateMany ::
  "(IdempotencyRecord \<Rightarrow> bool) \<Rightarrow> (IdempotencyRecord \<Rightarrow> IdempotencyRecord) \<Rightarrow> nat dbtx" where
  "idempotencyRecord_updateMany p f = (\<lambda>d.
     Inr (count_where p (idempotencyRecords d),
          d\<lparr>idempotencyRecords := updated p f (idempotencyRecords d)\<rparr>))"

text \<open>An \<open>update\<close> by a unique key fails with \<open>P2025\<close> when no row has the key.\<close>

definition require_updated :: "nat dbtx \<Rightarrow> unit dbtx" where
  "require_updated m = tx_bind m (\<lambda>n. tx_unless (n \<noteq> 0) p2025)"

subsection \<open>Lookups\<close>

definition is_record :: "string \<Rightarrow> string \<Rightarrow> string \<Rightarrow> string \<Rightarrow> IdempotencyRecord \<Rightarrow> bool" where
  "is_record tenantId actorId endpoint key x =
     (idr_tenantId x = tenantId \<and> idr_actorId x = actorId \<and> idr_endpoint x = endpoint
      \<and> idr_idempotencyKey x = key)"

definition idempotencyRecord_findUnique ::
  "string \<Rightarrow> string \<Rightarrow> string \<Rightarrow> string \<Rightarrow> db \<Rightarrow> IdempotencyRecord option" where
  "idempotencyRecord_findUnique tenantId actorId endpoint key d =
     find (is_record tenantId actorId endpoint key) (idempotencyRecords d)"

definition device_with_branch :: "string \<Rightarrow> string \<Rightarrow> db \<Rightarrow> (Device \<times> Branch) option" where
  "device_with_branch tenantId deviceId d =
     (case find (\<lambda>x. dev_id x = deviceId \<and> dev_tenantId x = tenantId) (devices d) of
        None \<Rightarrow> None
      | Some dv \<Rightarrow>
         map_option (\<lambda>b. (dv, b))
           (find (\<lambda>b. br_tenantId b = dev_tenantId dv \<and> br_id b = dev_branchId dv) (branches d)))"

definition card_customer :: "Card \<Rightarrow> db \<Rightarrow> Customer option" where
  "card_customer cd d =
     find (\<lambda>c. cu_tenantId c = cd_tenantId cd \<and> cu_id c = cd_customerId cd) (customers d)"

text \<open>A lookup with \<open>mode: 'insensitive'\<close> compares the values without regard to case.\<close>

definition card_by_serial :: "string \<Rightarrow> string \<Rightarrow> db \<Rightarrow> (Card \<times> Customer) option" where
  "card_by_serial tenantId serial d =
     (case find (\<lambda>x. cd_tenantId x = tenantId
                   \<and> js_toUpperCase (cd_barcodeValue x) = js_toUpperCase serial) (cards d) of
        None \<Rightarrow> None
      | Some cd \<Rightarrow> map_option (\<lambda>c. (cd, c)) (card_customer cd d))"

definition receipt_by_identity :: "string \<Rightarrow> string \<Rightarrow> int \<Rightarrow> string \<Rightarrow> db \<Rightarrow> Receipt option" where
  "receipt_by_identity tenantId branchId weekStart normalized d =
     find (\<lambda>x. rc_tenantId x = tenantId \<and> rc_branchId x = branchId
             \<and> rc_receiptWeekStart x = weekStart \<and> rc_normalizedPosReceiptNumber x = normalized)
       (receipts d)"

definition policyConfiguration_findUnique :: "string \<Rightarrow> string \<Rightarrow> db \<Rightarrow> PolicyConfiguration option" where
  "policyConfiguration_findUnique tenantId branchId d =
     find (\<lambda>x. pc_tenantId x = tenantId \<and> pc_branchId x = branchId) (policyConfigurations d)"

subsection \<open>What a create does\<close>

lemma create_row_eq_Inr:
  "create_row env cons put mk d = Inr (row, d') \<longleftrightarrow>
     row = mk (genId env (idCounter d))
     \<and> first_violation (cons (d\<lparr>idCounter := Suc (idCounter d)\<rparr>) row) = None
     \<and> d' = put row (d\<lparr>idCounter := Suc (idCounter d)\<rparr>)"
  by (auto simp: create_row_def fresh_id_def tx_bind_def Let_def split: option.splits)

lemma first_violation_None:
  "first_violation cs = None \<longleftrightarrow> (\<forall>(b, cols) \<in> set cs. \<not> b)"
  by (induction cs rule: first_violation.induct) auto

lemma create_row_frame:
  assumes "\<And>row d w. f (put row (d\<lparr>idCounter := w\<rparr>)) = f d"
  shows "tx_frame f (create_row env cons put mk)"
  using assms by (auto simp: tx_frame_def create_row_eq_Inr)

lemma require_updated_eq_Inr:
  "require_updated m s = Inr (u, s') \<longleftrightarrow> (\<exists>n. m s = Inr (n, s') \<and> n \<noteq> 0)"
  by (auto simp: require_updated_def tx_bind_eq_Inr)

lemma require_updated_frame [frame_intros]: "tx_frame f m \<Longrightarrow> tx_frame f (require_updated m)"
  by (auto simp: tx_frame_def require_updated_eq_Inr)

text \<open>
  A method of one model leaves every view of the database alone that does not look at that
  model's table; the view's independence is the premise.
\<close>

lemma user_create_frame [frame_intros]:
  "(\<And>d v w. f (d\<lparr>idCounter := w, users := v\<rparr>) = f d) \<Longrightarrow> tx_frame f (user_create env mk)"
  unfolding user_create_def by (rule create_row_frame) (simp only:)

lemma receipt_create_frame [frame_intros]:
  "(\<And>d v w. f (d\<lparr>idCounter := w, receipts := v\<rparr>) = f d) \<Longrightarrow> tx_frame f (receipt_create env mk)"
  unfolding receipt_create_def by (rule create_row_frame) (simp only:)

lemma loyaltyLedgerEntry_create_frame [frame_intros]:
  "(\<And>d v w. f (d\<lparr>idCounter := w, ledgerEntries := v\<rparr>) = f d) \<Longrightarrow> tx_frame f (loyaltyLedgerEntry_create env mk)"
  unfolding loyaltyLedgerEntry_create_def by (rule create_row_frame) (simp only:)

lemma creditLot_create_frame [frame_intros]:
  "(\<And>d v w. f (d\<lparr>idCounter := w, creditLots := v\<rparr>) = f d) \<Longrightarrow> tx_frame f (creditLot_create env mk)"
  unfolding creditLot_create_def by (rule create_row_frame) (simp only:)

lemma creditExpiry_create_frame [frame_intros]:
  "(\<And>d v w. f (d\<lparr>idCounter := w, creditExpiries := v\<rparr>) = f d) \<Longrightarrow> tx_frame f (creditExpiry_create env mk)"
  unfolding creditExpiry_create_def by (rule create_row_frame) (simp only:)

lemma redemption_create_frame [frame_intros]:
  "(\<And>d v w. f (d\<lparr>idCounter := w, redemptions := v\<rparr>) = f d) \<Longrightarrow> tx_frame f (redemption_create env mk)"
  unfolding redemption_create_def by (rule create_row_frame) (simp only:)

lemma redemptionAllocation_create_frame [frame_intros]:
  "(\<And>d v w. f (d\<lparr>idCounter := w, redemptionAllocations := v\<rparr>) = f d) \<Longrightarrow> tx_frame f (redemptionAllocation_create env mk)"
  unfolding redemptionAllocation_create_def by (rule create_row_frame) (simp only:)

lemma allocationRestoration_create_frame [frame_intros]:
  "(\<And>d v w. f (d\<lparr>idCounter := w, allocationRestorations := v\<rparr>) = f d) \<Longrightarrow> tx_frame f (allocationRestoration_create env mk)"
  unfolding allocationRestoration_create_def by (rule create_row_frame) (simp only:)

lemma adjustment_create_frame [frame_intros]:
  "(\<And>d v w. f (d\<lparr>idCounter := w, adjustments := v\<rparr>) = f d) \<Longrightarrow> tx_frame f (adjustment_create env mk)"
  unfolding adjustment_create_def by (rule create_row_frame) (simp only:)

lemma approval_create_frame [frame_intros]:
  "(\<And>d v w. f (d\<lparr>idCounter := w, approvals := v\<rparr>) = f d) \<Longrightarrow> tx_frame f (approval_create env mk)"
  unfolding approval_create_def by (rule create_row_frame) (simp only:)

lemma outboxEvent_create_frame [frame_intros]:
  "(\<And>d v w. f (d\<lparr>idCounter := w, outboxEvents := v\<rparr>) = f d) \<Longrightarrow> tx_frame f (outboxEvent_create env mk)"
  unfolding outboxEvent_create_def by (rule create_row_frame) (simp only:)

lemma smsMessage_create_frame [frame_intros]:
  "(\<And>d v w. f (d\<lparr>idCounter := w, smsMessages := v\<rparr>) = f d) \<Longrightarrow> tx_frame f (smsMessage_create env mk)"
  unfolding smsMessage_create_def by (rule create_row_frame) (simp only:)

lemma receipt_updateMany_frame [frame_intros]:
  "(\<And>d v. f (d\<lparr>receipts := v\<rparr>) = f d) \<Longrightarrow> tx_frame f (receipt_updateMany p g)"
  by (simp add: receipt_updateMany_def tx_frame_def)

lemma creditLot_updateMany_frame [frame_intros]:
  "(\<And>d v. f (d\<lparr>creditLots := v\<rparr>) = f d) \<Longrightarrow> tx_frame f (creditLot_updateMany p g)"
  by (simp add: creditLot_updateMany_def tx_frame_def)

lemma redemption_updateMany_frame [frame_intros]:
  "(\<And>d v. f (d\<lparr>redemptions := v\<rparr>) = f d) \<Longrightarrow> tx_frame f (redemption_updateMany p g)"
  by (simp add: redemption_updateMany_def tx_frame_def)

lemma approval_updateMany_frame [frame_intros]:
  "(\<And>d v. f (d\<lparr>approvals := v\<rparr>) = f d) \<Longrightarrow> tx_frame f (approval_updateMany p g)"
  by (simp add: approval_updateMany_def tx_frame_def)

lemma idempotencyRecord_updateMany_frame [frame_intros]:
  "(\<And>d v. f (d\<lparr>idempotencyRecords := v\<rparr>) = f d) \<Longrightarrow> tx_frame f (idempotencyRecord_updateMany p g)"
  by (simp add: idempotencyRecord_updateMany_def tx_frame_def)

lemma idempotencyRecord_create_frame [frame_intros]:
  "(\<And>d v. f (d\<lparr>idempotencyRecords := v\<rparr>) = f d) \<Longrightarrow> tx_frame f (idempotencyRecord_create row)"
  by (auto simp: idempotencyRecord_create_def tx_frame_def)

lemma auditLog_create_frame [frame_intros]:
  "(\<And>d v. f (d\<lparr>auditLogs := v\<rparr>) = f d) \<Longrightarrow> tx_frame f (auditLog_create row)"
  by (simp add: auditLog_create_def tx_frame_def)

lemma idempotencyRecord_deleteMany_frame [simp]:
  "(\<And>d v. f (d\<lparr>idempotencyRecords := v\<rparr>) = f d) \<Longrightarrow> f (idempotencyRecord_deleteMany p d) = f d"
  by (simp add: idempotencyRecord_deleteMany_def)

text \<open>A stored idempotency record is the one the lookup finds.\<close>

lemma idempotencyRecord_create_find:
  assumes "idempotencyRecord_create row d = Inr (u, d')"
  shows "idempotencyRecord_findUnique (idr_tenantId row) (idr_actorId row) (idr_endpoint row)
    (idr_idempotencyKey row) d' = Some row"
proof -
  have "find (is_record (idr_tenantId row) (idr_actorId row) (idr_endpoint row)
      (idr_idempotencyKey row)) (idempotencyRecords d) = None"
    using assms by (auto simp: idempotencyRecord_create_def find_None_iff is_record_def list_ex_iff
        split: if_splits)
  with assms show ?thesis
    by (auto simp: idempotencyRecord_create_def idempotencyRecord_findUnique_def find_append_None
        is_record_def split: if_splits)
qed

lemma find_updated:
  assumes "\<And>x. p x \<Longrightarrow> p (f x)"
  shows "find p (updated p f xs) = map_option f (find p xs)"
  using assms by (induction xs) (auto simp: updated_def)

lemma idempotencyRecord_updateMany_find:
  assumes "idempotencyRecord_updateMany (is_record t a e k) f d = Inr (n, d')"
    and "\<And>x. is_record t a e k x \<Longrightarrow> is_record t a e k (f x)"
  shows "idempotencyRecord_findUnique t a e k d' = map_option f (idempotencyRecord_findUnique t a e k d)"
  using assms find_updated[of "is_record t a e k" f]
  by (auto simp: idempotencyRecord_updateMany_def idempotencyRecord_findUnique_def)

lemma idempotencyRecord_findUnique_cong:
  "idempotencyRecords d = idempotencyRecords d' \<Longrightarrow>
   idempotencyRecord_findUnique t a e k d = idempotencyRecord_findUnique t a e k d'"
  by (simp add: idempotencyRecord_findUnique_def)

end
