(* ===== verification/Accounts.thy ===== *)
theory Accounts
  imports Database
begin

text \<open>
  The abstract account behind the tables. The ledger entries of a customer say what the customer
  is owed, the credit lots say where it is; \<open>imbalance\<close> is the difference per account, zero
  between transactions. The lemmas give the effect of each database operation on a state that
  satisfies \<open>money_at f\<close> (well-formed lots and imbalance \<open>f\<close>), so that the effect of a whole
  transaction is read off by following its calls.
\<close>

subsection \<open>Views\<close>

type_synonym account = "string \<times> string"

definition signed_kobo :: "LoyaltyLedgerEntry \<Rightarrow> int" where
  "signed_kobo e = (case le_direction e of LedgerEntryDirection.CREDIT \<Rightarrow> le_amountKobo e
                                         | LedgerEntryDirection.DEBIT \<Rightarrow> - le_amountKobo e)"

definition ledger_account :: "LoyaltyLedgerEntry \<Rightarrow> account" where
  "ledger_account e = (le_tenantId e, le_customerId e)"

definition lot_account :: "CreditLot \<Rightarrow> account" where
  "lot_account l = (lot_tenantId l, lot_customerId l)"

definition ledger_net :: "db \<Rightarrow> account \<Rightarrow> int" where
  "ledger_net d a = sum_where (\<lambda>e. ledger_account e = a) signed_kobo (ledgerEntries d)"

definition lots_total :: "db \<Rightarrow> account \<Rightarrow> int" where
  "lots_total d a = sum_where (\<lambda>l. lot_account l = a) lot_remainingAmountKobo (creditLots d)"

definition imbalance :: "db \<Rightarrow> account \<Rightarrow> int" where
  "imbalance d a = ledger_net d a - lots_total d a"

definition lot_ok :: "CreditLot \<Rightarrow> bool" where
  "lot_ok l = (0 \<le> lot_remainingAmountKobo l
    \<and> lot_remainingAmountKobo l \<le> lot_originalAmountKobo l)"

definition lots_wf :: "db \<Rightarrow> bool" where
  "lots_wf d = (distinct (map lot_id (creditLots d)) \<and> list_all lot_ok (creditLots d))"

definition money_at :: "(account \<Rightarrow> int) \<Rightarrow> db \<Rightarrow> bool" where
  "money_at f d = (lots_wf d \<and> imbalance d = f)"

text \<open>The state between transactions: every kobo of the ledger is in a lot.\<close>

definition books_balance :: "db \<Rightarrow> bool" where
  "books_balance d = (lots_wf d \<and> (\<forall>a. ledger_net d a = lots_total d a))"

lemma books_balance_money_at: "books_balance d \<longleftrightarrow> money_at (\<lambda>_. 0) d"
  by (auto simp: books_balance_def money_at_def imbalance_def fun_eq_iff)

abbreviation money_view :: "db \<Rightarrow> CreditLot list \<times> LoyaltyLedgerEntry list" where
  "money_view d \<equiv> (creditLots d, ledgerEntries d)"

lemma money_at_view: "money_view d = money_view d' \<Longrightarrow> money_at f d = money_at f d'"
  by (simp add: money_at_def imbalance_def lots_wf_def ledger_net_def lots_total_def fun_eq_iff)

lemma money_at_frame: "tx_frame money_view m \<Longrightarrow> tx_spec (money_at f) m (\<lambda>_. money_at f)"
  by (erule tx_spec_frame) (rule money_at_view)

lemma money_at_frameD:
  "money_at f d \<Longrightarrow> m d = Inr (x, d') \<Longrightarrow> tx_frame money_view m \<Longrightarrow> money_at f d'"
  by (rule tx_specD[OF money_at_frame])

text \<open>A body that keeps the accounts: whatever the imbalance was, it still is.\<close>

definition money_kept :: "db \<Rightarrow> db \<Rightarrow> bool" where
  "money_kept d d' = (\<forall>f. money_at f d \<longrightarrow> money_at f d')"

interpretation money: tx_order money_kept
  by unfold_locales (auto simp: money_kept_def)

lemma money_kept_view: "money_view d' = money_view d \<Longrightarrow> money_kept d d'"
  using money_at_view[of d' d] by (auto simp: money_kept_def)

lemmas money_kept_frame = money.rel_frame[OF _ money_kept_view]

lemma money_keptD: "tx_rel money_kept m \<Longrightarrow> m d = Inr (x, d') \<Longrightarrow> money_at f d \<Longrightarrow> money_at f d'"
  by (auto simp: tx_rel_def money_kept_def)

subsection \<open>Effect of the operations that move money\<close>

definition bump :: "(account \<Rightarrow> int) \<Rightarrow> account \<Rightarrow> int \<Rightarrow> account \<Rightarrow> int" where
  "bump f a v = f(a := f a + v)"

lemma bump_bump [simp]: "bump (bump f a v) a w = bump f a (v + w)"
  by (simp add: bump_def fun_eq_iff)

lemma bump_zero [simp]: "bump f a 0 = f"
  by (simp add: bump_def)

lemma loyaltyLedgerEntry_create_money:
  assumes "\<And>i. ledger_account (mk i) = a" and "\<And>i. signed_kobo (mk i) = v"
  shows "tx_spec (money_at f) (loyaltyLedgerEntry_create env mk) (\<lambda>_. money_at (bump f a v))"
  using assms
  by (auto simp: tx_spec_def loyaltyLedgerEntry_create_def create_row_eq_Inr money_at_def lots_wf_def
      imbalance_def ledger_net_def lots_total_def bump_def fun_eq_iff)

lemma creditLot_create_money:
  assumes "\<And>i. lot_account (mk i) = a" and "\<And>i. lot_remainingAmountKobo (mk i) = v"
    and "\<And>i. lot_ok (mk i)"
  shows "tx_spec (money_at f) (creditLot_create env mk) (\<lambda>_. money_at (bump f a (- v)))"
  using assms
  by (auto simp: tx_spec_def creditLot_create_def create_row_eq_Inr money_at_def lots_wf_def
      creditLot_constraints_def first_violation_None list_ex_iff
      imbalance_def ledger_net_def lots_total_def bump_def fun_eq_iff)

text \<open>
  The guarded decrement every debit uses: the row must still hold the amount, and the count says
  whether it did.
\<close>

definition decrement_lot :: "string \<Rightarrow> string \<Rightarrow> string \<Rightarrow> int \<Rightarrow> nat dbtx" where
  "decrement_lot tenantId customerId lotId amount =
     creditLot_updateMany
       (\<lambda>l. lot_id l = lotId \<and> (lot_tenantId l = tenantId \<and> lot_customerId l = customerId
              \<and> amount \<le> lot_remainingAmountKobo l))
       (\<lambda>l. l\<lparr>lot_remainingAmountKobo := lot_remainingAmountKobo l - amount\<rparr>)"

lemma decrement_lot_eq_Inr:
  "decrement_lot t c i v d = Inr (n, d') \<longleftrightarrow>
     n = count_where (\<lambda>l. lot_id l = i \<and> (lot_tenantId l = t \<and> lot_customerId l = c
           \<and> v \<le> lot_remainingAmountKobo l)) (creditLots d)
     \<and> d' = d\<lparr>creditLots := updated (\<lambda>l. lot_id l = i \<and> (lot_tenantId l = t \<and> lot_customerId l = c
           \<and> v \<le> lot_remainingAmountKobo l))
         (\<lambda>l. l\<lparr>lot_remainingAmountKobo := lot_remainingAmountKobo l - v\<rparr>) (creditLots d)\<rparr>"
  by (auto simp: decrement_lot_def creditLot_updateMany_def)

lemma count_where_oneE:
  assumes "count_where p xs = 1"
  obtains r where "r \<in> set xs" and "p r"
proof -
  have "filter p xs \<noteq> []" using assms by (auto simp: count_where_def)
  then have "hd (filter p xs) \<in> set (filter p xs)" by (rule hd_in_set)
  then show thesis using that by auto
qed

lemma decrement_lots_wf:
  assumes "list_all lot_ok ls" and "0 \<le> v"
  shows "list_all lot_ok
    (updated (\<lambda>l. lot_id l = i \<and> (lot_tenantId l = t \<and> lot_customerId l = c
           \<and> v \<le> lot_remainingAmountKobo l))
         (\<lambda>l. l\<lparr>lot_remainingAmountKobo := lot_remainingAmountKobo l - v\<rparr>) ls)"
  using assms by (induction ls) (auto simp: updated_def lot_ok_def)

lemma updated_lot_ids [simp]:
  "map lot_id (updated p (\<lambda>l. l\<lparr>lot_remainingAmountKobo := g l\<rparr>) ls) = map lot_id ls"
  by (induction ls) (auto simp: updated_def)

lemma decrement_lot_sum:
  assumes "distinct (map lot_id (creditLots d))" and "decrement_lot t c i v d = Inr (1, d')"
    and "\<And>l x. P (l\<lparr>lot_remainingAmountKobo := x\<rparr>) = P l"
    and "\<And>l. l \<in> set (creditLots d) \<Longrightarrow> lot_id l = i \<Longrightarrow> lot_account l = (t, c) \<Longrightarrow> P l = b"
  shows "sum_where P lot_remainingAmountKobo (creditLots d')
       = sum_where P lot_remainingAmountKobo (creditLots d) - (if b then v else 0)"
proof -
  let ?q = "\<lambda>l. lot_tenantId l = t \<and> lot_customerId l = c \<and> v \<le> lot_remainingAmountKobo l"
  have d': "d' = d\<lparr>creditLots := updated (\<lambda>l. lot_id l = i \<and> ?q l)
         (\<lambda>l. l\<lparr>lot_remainingAmountKobo := lot_remainingAmountKobo l - v\<rparr>) (creditLots d)\<rparr>"
    and one: "count_where (\<lambda>l. lot_id l = i \<and> ?q l) (creditLots d) = 1"
    using assms(2) by (simp_all add: decrement_lot_eq_Inr)
  from one obtain r where r: "r \<in> set (creditLots d)" "lot_id r = i" "?q r"
    by (rule count_where_oneE) auto
  have pr: "P r = b" using assms(4) r by (simp add: lot_account_def)
  show ?thesis
    unfolding d' using sum_where_update[OF assms(1) r(1,2), of ?q P
        "\<lambda>l. l\<lparr>lot_remainingAmountKobo := lot_remainingAmountKobo l - v\<rparr>" lot_remainingAmountKobo]
    by (simp add: updated_def r assms(3) pr)
qed

lemma decrement_lot_money:
  assumes "money_at f d" and "decrement_lot t c i v d = Inr (1, d')" and "0 \<le> v"
  shows "money_at (bump f (t, c) v) d'"
proof -
  have d: "distinct (map lot_id (creditLots d))" "list_all lot_ok (creditLots d)" "imbalance d = f"
    using assms(1) by (simp_all add: money_at_def lots_wf_def)
  have "lots_total d' a = lots_total d a - (if a = (t, c) then v else 0)" for a
    unfolding lots_total_def using d(1) assms(2)
    by (rule decrement_lot_sum) (auto simp: lot_account_def)
  moreover have "ledgerEntries d' = ledgerEntries d" using assms(2) by (simp add: decrement_lot_eq_Inr)
  ultimately have "imbalance d' = bump f (t, c) v"
    using d(3) by (auto simp: imbalance_def ledger_net_def bump_def fun_eq_iff)
  moreover have "lots_wf d'"
    using assms(2,3) d by (simp add: decrement_lot_eq_Inr lots_wf_def decrement_lots_wf)
  ultimately show ?thesis by (simp add: money_at_def)
qed

lemma decrement_lot_frame [frame_intros]:
  "(\<And>d v. f (d\<lparr>creditLots := v\<rparr>) = f d) \<Longrightarrow> tx_frame f (decrement_lot t c i v)"
  unfolding decrement_lot_def by (intro frame_intros)

lemma decrement_lot_count_le_one:
  assumes "lots_wf d" and "decrement_lot t c i v d = Inr (n, d')"
  shows "n \<le> 1"
proof -
  have "distinct (map lot_id xs) \<Longrightarrow> length (filter (\<lambda>l. lot_id l = i \<and> q l) xs) \<le> 1" for xs q
  proof (induction xs)
    case (Cons x xs)
    have "lot_id x = i \<Longrightarrow> filter (\<lambda>l. lot_id l = i \<and> q l) xs = []"
      using Cons.prems by (auto simp: filter_empty_conv) (metis image_eqI)
    with Cons show ?case by auto
  qed simp
  with assms show ?thesis by (auto simp: decrement_lot_eq_Inr count_where_def lots_wf_def)
qed

subsection \<open>Other sessions\<close>

text \<open>
  A property other sessions keep: \<open>sched\<close> is what they commit before an attempt, \<open>others\<close> what they
  commit between the steps of a call. Sessions are polite when they keep the state of the accounts.
\<close>

definition session_keeps ::
  "(db \<Rightarrow> bool) \<Rightarrow> (nat \<Rightarrow> db \<Rightarrow> db \<times> svc_error option) \<Rightarrow> (nat \<Rightarrow> db \<Rightarrow> db) \<Rightarrow> bool" where
  "session_keeps P sched others = ((\<forall>k d. P d \<longrightarrow> P (fst (sched k d))) \<and> (\<forall>k d. P d \<longrightarrow> P (others k d)))"

abbreviation polite ::
  "(account \<Rightarrow> int) \<Rightarrow> (nat \<Rightarrow> db \<Rightarrow> db \<times> svc_error option) \<Rightarrow> (nat \<Rightarrow> db \<Rightarrow> db) \<Rightarrow> bool" where
  "polite f \<equiv> session_keeps (money_at f)"

lemma session_keeps_alone: "session_keeps P alone (\<lambda>_ d. d)"
  by (simp add: session_keeps_def alone_def)

lemmas polite_alone = session_keeps_alone[where P = "money_at f" for f]

lemma session_keepsD:
  assumes "session_keeps P sched others" and "P d"
  shows "P (fst (sched k d))" and "P (others k d)"
  using assms by (simp_all add: session_keeps_def)

lemma tx_keepsD: "tx_keeps P m \<Longrightarrow> m s = Inr (x, s') \<Longrightarrow> P s \<Longrightarrow> P s'"
  by (auto simp: tx_keeps_def tx_spec_def)

text \<open>
  A property of the database that the bookkeeping of a call (idempotency records, audit entries and
  outbox events) cannot change: a service keeps it as soon as its transaction body and the other
  sessions do.
\<close>

locale session_invariant =
  fixes P :: "db \<Rightarrow> bool"
  assumes P_idempotency: "\<And>d v. P (d\<lparr>idempotencyRecords := v\<rparr>) = P d"
    and P_audit: "\<And>d v. P (d\<lparr>auditLogs := v\<rparr>) = P d"
    and P_outbox: "\<And>d v w. P (d\<lparr>idCounter := w, outboxEvents := v\<rparr>) = P d"
begin

lemma run_transaction_keeps:
  assumes "P d" and "session_keeps P sched others" and "tx_keeps P body"
    and "run_transaction sched k body d = (r, d')"
  shows "P d'"
  using session_keepsD(1)[OF assms(2,1), of k] assms(3,4)
  by (auto simp: run_transaction_def split: prod.splits option.splits sum.splits dest: tx_keepsD)

lemma deleteMany_keeps: "P (idempotencyRecord_deleteMany p d) = P d"
  by (simp add: idempotencyRecord_deleteMany_def P_idempotency)

end

interpretation money_inv: session_invariant "money_at f" for f
  by unfold_locales (rule money_at_view; simp)+

end
