(* ===== verification/Demo.thy ===== *)
theory Demo
  imports Accounts
begin

text \<open>
  A small shop used to run the model on concrete inputs: one branch with a device, a cashier, a
  supervisor, an administrator and a customer with a card who holds two lots of earned credit.
  The hash is the identity, ids are numbered in unary and the clock stands at noon of
  29 February 2024.
\<close>

definition demo_now :: int where
  "demo_now = 1709208000000"

definition demo_env :: env where
  "demo_env = \<lparr> sha256hex = (\<lambda>s. s), genId = (\<lambda>n. CHR ''n'' # replicate n (CHR ''x'')),
     tzDate = (\<lambda>_ _. Some (2024, 2, 29)), dateParse = (\<lambda>_. Some demo_now), configGet = (\<lambda>_. None) \<rparr>"

definition demo_lot :: "string \<Rightarrow> string \<Rightarrow> int \<Rightarrow> int \<Rightarrow> CreditLot" where
  "demo_lot i e amount expiry =
     \<lparr> lot_id = i, lot_tenantId = ''T'', lot_customerId = ''C'', lot_earnLedgerEntryId = e,
       lot_originalAmountKobo = amount, lot_remainingAmountKobo = amount,
       lot_earnedAt = 1700000000000, lot_expiresAt = expiry \<rparr>"

definition demo_entry :: "string \<Rightarrow> int \<Rightarrow> LoyaltyLedgerEntry" where
  "demo_entry i amount =
     \<lparr> le_id = i, le_tenantId = ''T'', le_customerId = ''C'', le_receiptId = None,
       le_type = LedgerEntryType.EARN, le_direction = LedgerEntryDirection.CREDIT,
       le_amountKobo = amount, le_correlationId = i, le_reversesEntryId = None,
       le_createdByTenantId = ''T'', le_createdBy = ''U'', le_effectiveAt = 1700000000000 \<rparr>"

definition demo_user :: "string \<Rightarrow> UserRole \<Rightarrow> User" where
  "demo_user i role =
     \<lparr> us_id = i, us_tenantId = ''T'', us_branchId = Some ''B'', us_username = i,
       us_role = role, us_status = UserStatus.ACTIVE \<rparr>"

definition demo_db :: db where
  "demo_db =
     \<lparr> tenants = [\<lparr> tn_id = ''T'', tn_name = ''ShopCity'', tn_status = TenantStatus.ACTIVE \<rparr>],
       branches = [\<lparr> br_id = ''B'', br_tenantId = ''T'', br_name = ''Ikeja'', br_timezone = ''Africa/Lagos'',
                    br_receiptWeekStartDay = 1, br_status = BranchStatus.ACTIVE \<rparr>],
       devices = [\<lparr> dev_id = ''D'', dev_tenantId = ''T'', dev_branchId = ''B'',
                   dev_status = DeviceStatus.ACTIVE \<rparr>],
       users = [demo_user ''U'' UserRole.CASHIER, demo_user ''V'' UserRole.SUPERVISOR,
                demo_user ''W'' UserRole.ADMIN],
       customers = [\<lparr> cu_id = ''C'', cu_tenantId = ''T'', cu_branchId = ''B'', cu_fullName = ''Ada'', cu_email = None,
                     cu_phoneE164 = ''+2348000000000'', cu_isStaff = False,
                     cu_status = CustomerStatus.ACTIVE, cu_registeredBy = Some ''U'', cu_registeredByTenantId = Some ''T'',
                     cu_blockedAt = None, cu_createdAt = 1690000000000, cu_updatedAt = 1690000000000 \<rparr>],
       customerConsents = [], customerMarketingPreferenceEvents = [],
       cards = [\<lparr> cd_id = ''K'', cd_tenantId = ''T'', cd_customerId = ''C'', cd_barcodeValue = ''SC-01'',
                 cd_status = CardStatus.ACTIVE, cd_issuedBy = Some ''U'', cd_issuedByTenantId = Some ''T'',
                 cd_issuedAt = 1690000000000, cd_blockedAt = None, cd_replacedByCardId = None, cd_replacedAt = None,
                 cd_createdAt = 1690000000000, cd_updatedAt = 1690000000000 \<rparr>],
       policyConfigurations = [], receipts = [],
       ledgerEntries = [demo_entry ''e1'' 30000, demo_entry ''e2'' 90000],
       creditLots = [demo_lot ''l1'' ''e1'' 30000 1720000000000, demo_lot ''l2'' ''e2'' 90000 1730000000000],
       creditExpiries = [], creditExpiryReminders = [], redemptions = [], redemptionAllocations = [], allocationRestorations = [],
       adjustments = [], approvals = [], idempotencyRecords = [], outboxEvents = [],
       smsMessages = [], auditLogs = [], idCounter = 0 \<rparr>"

definition demo_cashier :: AuthContext where
  "demo_cashier = \<lparr> actor_id = ''U'', actor_tenantId = ''T'', actor_branchId = Some ''B'',
     actor_role = UserRole.CASHIER, session_deviceId = Some ''D'' \<rparr>"

definition demo_supervisor :: AuthContext where
  "demo_supervisor = \<lparr> actor_id = ''V'', actor_tenantId = ''T'', actor_branchId = Some ''B'',
     actor_role = UserRole.SUPERVISOR, session_deviceId = Some ''D'' \<rparr>"

definition demo_admin :: AuthContext where
  "demo_admin = \<lparr> actor_id = ''W'', actor_tenantId = ''T'', actor_branchId = None,
     actor_role = UserRole.ADMIN, session_deviceId = None \<rparr>"

text \<open>Reading a part of the result of a run that commits.\<close>

lemma committed_result:
  assumes "map_sum (\<lambda>e. e) g (m s) = Inr y"
  obtains x s' where "m s = Inr (x, s')" and "g (x, s') = y"
  using assms by (cases "m s") auto

lemma succeeds_caseE:
  assumes "case r of Inl e \<Rightarrow> False | Inr (x, s) \<Rightarrow> P x s"
  obtains x s where "r = Inr (x, s)" and "P x s"
  using assms by (cases r) auto

lemma demo_genId_inj: "inj (genId demo_env)"
  by (auto simp: demo_env_def inj_def)

lemma demo_lots_wf: "lots_wf demo_db"
  by (simp add: lots_wf_def demo_db_def demo_lot_def lot_ok_def)

lemma demo_books_balance: "books_balance demo_db"
  by (simp add: books_balance_def demo_lots_wf ledger_net_def lots_total_def)
    (simp add: demo_db_def demo_lot_def demo_entry_def ledger_account_def lot_account_def signed_kobo_def)

end
