(* ===== verification/Lot_Allocation.thy ===== *)
theory Lot_Allocation
  imports Demo "HOL-Library.Product_Lexorder" "HOL-Library.Multiset"
begin

text \<open>
  \<^verbatim>\<open>src/common/balance/active-balance.service.ts\<close> and
  \<^verbatim>\<open>src/common/balance/lot-allocation.service.ts\<close>: the active balance of a customer, the
  first-expiring-first allocation of a debit to credit lots, its persistence, and the plan that
  puts an allocated amount back. The contract the services rely on is the locale
  \<open>debit_allocator\<close>; \<open>allocateDebit\<close> implements it.
\<close>

subsection \<open>Active balance\<close>

definition activeCreditLotWhere :: "string \<Rightarrow> string \<Rightarrow> int \<Rightarrow> CreditLot \<Rightarrow> bool" where
  "activeCreditLotWhere tenantId customerId now l =
     (lot_tenantId l = tenantId \<and> lot_customerId l = customerId
      \<and> lot_remainingAmountKobo l > 0 \<and> lot_expiresAt l > now)"

definition getActiveBalanceKobo :: "string \<Rightarrow> string \<Rightarrow> int \<Rightarrow> db \<Rightarrow> int" where
  "getActiveBalanceKobo tenantId customerId now d =
     sum_where (activeCreditLotWhere tenantId customerId now) lot_remainingAmountKobo (creditLots d)"

definition lot_order :: "CreditLot \<Rightarrow> int \<times> int \<times> string" where
  "lot_order l = (lot_expiresAt l, lot_earnedAt l, lot_id l)"

definition getActiveCreditLots :: "string \<Rightarrow> string \<Rightarrow> int \<Rightarrow> db \<Rightarrow> CreditLot list" where
  "getActiveCreditLots tenantId customerId now d =
     sort_key lot_order (filter (activeCreditLotWhere tenantId customerId now) (creditLots d))"

text \<open>
  The batch version: a map with zero for every id asked for, overwritten by the rows of the
  \<open>groupBy\<close>, one per customer that has a matching lot.
\<close>

definition balance_rows :: "string \<Rightarrow> string list \<Rightarrow> int \<Rightarrow> db \<Rightarrow> (string \<times> int) list" where
  "balance_rows tenantId ids now d =
     (let matching = filter (\<lambda>l. lot_tenantId l = tenantId \<and> lot_customerId l \<in> set ids
            \<and> lot_remainingAmountKobo l > 0 \<and> lot_expiresAt l > now) (creditLots d) in
      map (\<lambda>c. (c, sum_where (\<lambda>l. lot_customerId l = c) lot_remainingAmountKobo matching))
        (remdups (map lot_customerId matching)))"

definition getActiveBalancesKobo :: "string \<Rightarrow> string list \<Rightarrow> int \<Rightarrow> db \<Rightarrow> (string \<rightharpoonup> int)" where
  "getActiveBalancesKobo tenantId customerIds now d =
     (let balances = (\<lambda>c. if c \<in> set customerIds then Some 0 else None) in
      if customerIds = [] then balances
      else foldl (\<lambda>m (c, v). m(c \<mapsto> v)) balances (balance_rows tenantId customerIds now d))"

definition toJsonSafeKobo :: "int \<Rightarrow> svc_error + int" where
  "toJsonSafeKobo amount =
     (if amount > MAX_SAFE_INTEGER then Inl (RangeError ''kobo amount exceeds JSON-safe integer range'')
      else Inr (js_Number amount))"

subsection \<open>Allocation of a debit\<close>

text \<open>
  \<open>AllocateDebitInput\<close> and \<open>AllocateDebitFromExactLotInput\<close>: the second has a lot id, which
  is also how the code tells them apart (\<open>'creditLotId' in input\<close>).
\<close>

record AllocateDebitInput =
  in_tenantId :: string
  in_customerId :: string
  in_creditLotId :: "string option"
  in_debitLedgerEntryId :: string
  in_amountKobo :: int
  in_now :: int
  in_redemptionId :: "string option"
  in_adjustmentId :: "string option"
  in_excludedCreditLotIds :: "string list"

record PersistedAllocation =
  pa_creditLotId :: string
  pa_amountKobo :: int
  pa_allocationOrder :: int
  pa_expiresAt :: int

definition reviewRequired :: "string \<Rightarrow> svc_error" where
  "reviewRequired message = DomainHttpException 422 ''REVERSAL_REVIEW_REQUIRED'' message"

definition truthy :: "string option \<Rightarrow> bool" where
  "truthy v = (case v of None \<Rightarrow> False | Some s \<Rightarrow> s \<noteq> [])"

definition validateDebitAllocationTarget :: "AllocateDebitInput \<Rightarrow> svc_error + unit" where
  "validateDebitAllocationTarget input =
     (if in_amountKobo input \<le> 0
      then Inl (validation_error ''Debit allocation amount must be positive'')
      else if truthy (in_redemptionId input) = truthy (in_adjustmentId input)
      then Inl (validation_error ''Debit allocation must target exactly one redemption or adjustment'')
      else Inr ())"

definition eligibleLots :: "AllocateDebitInput \<Rightarrow> db \<Rightarrow> CreditLot list" where
  "eligibleLots input d =
     sort_key lot_order
       (filter (\<lambda>l. activeCreditLotWhere (in_tenantId input) (in_customerId input) (in_now input) l
                  \<and> lot_id l \<notin> set (in_excludedCreditLotIds input)) (creditLots d))"

definition lockEligibleLots :: "AllocateDebitInput \<Rightarrow> CreditLot list dbtx" where
  "lockEligibleLots input = tx_read (eligibleLots input)"

definition lockExactLot :: "AllocateDebitInput \<Rightarrow> CreditLot dbtx" where
  "lockExactLot input = (\<lambda>d.
     case filter (\<lambda>l. lot_tenantId l = in_tenantId input \<and> lot_customerId l = in_customerId input
                   \<and> Some (lot_id l) = in_creditLotId input
                   \<and> in_amountKobo input \<le> lot_remainingAmountKobo l
                   \<and> lot_expiresAt l > in_now input) (creditLots d) of
       [] \<Rightarrow> Inl (reviewRequired ''Original credit lot changed during reversal'')
     | l # _ \<Rightarrow> Inr (l, d))"

fun planLoop :: "CreditLot list \<Rightarrow> int \<Rightarrow> int \<Rightarrow> PersistedAllocation list \<times> int" where
  "planLoop [] remaining n = ([], remaining)"
| "planLoop (lot # lots) remaining n =
     (if remaining = 0 then ([], remaining)
      else
        let amount = (if lot_remainingAmountKobo lot < remaining
                      then lot_remainingAmountKobo lot else remaining);
            rest = planLoop lots (remaining - amount) (n + 1) in
        (\<lparr> pa_creditLotId = lot_id lot, pa_amountKobo = amount, pa_allocationOrder = n + 1,
           pa_expiresAt = lot_expiresAt lot \<rparr> # fst rest, snd rest))"

definition insufficient_balance :: svc_error where
  "insufficient_balance = DomainHttpException 422 ''INSUFFICIENT_BALANCE''
     ''Active balance is lower than requested debit amount''"

definition planAllocations :: "CreditLot list \<Rightarrow> int \<Rightarrow> svc_error + PersistedAllocation list" where
  "planAllocations lots amountKobo =
     (let (allocations, remaining) = planLoop lots amountKobo 0 in
      if remaining > 0 then Inl insufficient_balance else Inr allocations)"

definition createAllocations :: "env \<Rightarrow> AllocateDebitInput \<Rightarrow> PersistedAllocation list \<Rightarrow> unit dbtx" where
  "createAllocations env input allocations =
     tx_for allocations (\<lambda>a. tx_void (redemptionAllocation_create env (\<lambda>i.
       \<lparr> ra_id = i, ra_tenantId = in_tenantId input,
         ra_redemptionId = in_redemptionId input,
         ra_adjustmentId = in_adjustmentId input,
         ra_redemptionLedgerEntryId = in_debitLedgerEntryId input,
         ra_creditLotId = pa_creditLotId a,
         ra_amountKobo = pa_amountKobo a,
         ra_allocationOrder = pa_allocationOrder a \<rparr>)))"

definition applyAllocation :: "AllocateDebitInput \<Rightarrow> PersistedAllocation \<Rightarrow> unit dbtx" where
  "applyAllocation input a =
     tx_bind (decrement_lot (in_tenantId input) (in_customerId input)
                (pa_creditLotId a) (pa_amountKobo a)) (\<lambda>count.
     tx_unless (count = 1)
       (if in_creditLotId input \<noteq> None
        then reviewRequired ''Original credit lot changed during reversal''
        else DomainHttpException 503 ''REDEMPTION_TRANSACTION_CONFLICT''
               ''Credit lot changed during allocation''))"

definition persistAllocations :: "env \<Rightarrow> AllocateDebitInput \<Rightarrow> PersistedAllocation list \<Rightarrow> unit dbtx" where
  "persistAllocations env input allocations =
     tx_bind (createAllocations env input allocations) (\<lambda>_.
     tx_for allocations (applyAllocation input))"

definition allocateDebit :: "env \<Rightarrow> AllocateDebitInput \<Rightarrow> PersistedAllocation list dbtx" where
  "allocateDebit env input =
     tx_bind (tx_lift (validateDebitAllocationTarget input)) (\<lambda>_.
     tx_bind (lockEligibleLots input) (\<lambda>lots.
     tx_bind (tx_lift (planAllocations lots (in_amountKobo input))) (\<lambda>allocations.
     tx_bind (persistAllocations env input allocations) (\<lambda>_.
     tx_return allocations))))"

definition allocateDebitFromExactLot :: "env \<Rightarrow> AllocateDebitInput \<Rightarrow> PersistedAllocation list dbtx" where
  "allocateDebitFromExactLot env input =
     tx_bind (tx_lift (validateDebitAllocationTarget input)) (\<lambda>_.
     tx_bind (lockExactLot input) (\<lambda>lot.
     tx_bind (tx_lift (planAllocations [lot] (in_amountKobo input))) (\<lambda>allocations.
     tx_bind (persistAllocations env input allocations) (\<lambda>_.
     tx_return allocations))))"

subsection \<open>Plan of a restoration\<close>

record PlannedRestoration =
  pl_allocationId :: string
  pl_creditLotId :: string
  pl_amountKobo :: int
  pl_expiresAt :: int

definition restoredAmount :: "RedemptionAllocation \<Rightarrow> db \<Rightarrow> int" where
  "restoredAmount a d =
     sum_where (\<lambda>r. ar_tenantId r = ra_tenantId a \<and> ar_allocationId r = ra_id a) ar_amountKobo
       (allocationRestorations d)"

definition allocationLot :: "RedemptionAllocation \<Rightarrow> db \<Rightarrow> CreditLot option" where
  "allocationLot a d =
     find (\<lambda>l. lot_tenantId l = ra_tenantId a \<and> lot_id l = ra_creditLotId a) (creditLots d)"

definition planRestoration :: "int \<Rightarrow> db \<Rightarrow> RedemptionAllocation \<Rightarrow> svc_error + PlannedRestoration" where
  "planRestoration now d a =
     (case allocationLot a d of
        None \<Rightarrow> Inl (PlainError ''Inconsistent query result: creditLot is required'')
      | Some lot \<Rightarrow>
          if lot_expiresAt lot \<le> now then Inl (reviewRequired ''Original credit lot is expired'')
          else
            let amount = ra_amountKobo a - restoredAmount a d in
            if amount < 0
            then Inl (reviewRequired ''Restoration evidence exceeds allocation amount'')
            else Inr \<lparr> pl_allocationId = ra_id a, pl_creditLotId = ra_creditLotId a,
                       pl_amountKobo = amount, pl_expiresAt = lot_expiresAt lot \<rparr>)"

fun map_results :: "('a \<Rightarrow> svc_error + 'b) \<Rightarrow> 'a list \<Rightarrow> svc_error + 'b list" where
  "map_results f [] = Inr []"
| "map_results f (x # xs) =
     (case f x of Inl e \<Rightarrow> Inl e
      | Inr y \<Rightarrow> (case map_results f xs of Inl e \<Rightarrow> Inl e | Inr ys \<Rightarrow> Inr (y # ys)))"

definition debitAllocations :: "string \<Rightarrow> string \<Rightarrow> db \<Rightarrow> RedemptionAllocation list" where
  "debitAllocations tenantId ledgerEntryId d =
     sort_key ra_allocationOrder
       (filter (\<lambda>a. ra_tenantId a = tenantId \<and> ra_redemptionLedgerEntryId a = ledgerEntryId)
         (redemptionAllocations d))"

definition planRestorations :: "string \<Rightarrow> string \<Rightarrow> int \<Rightarrow> db \<Rightarrow> svc_error + PlannedRestoration list" where
  "planRestorations tenantId debitLedgerEntryId now d =
     (case map_results (planRestoration now d) (debitAllocations tenantId debitLedgerEntryId d) of
        Inl e \<Rightarrow> Inl e
      | Inr planned \<Rightarrow>
          let restorations = filter (\<lambda>r. pl_amountKobo r > 0) planned in
          if restorations = [] then Inl (reviewRequired ''No restorable allocation balance remains'')
          else Inr restorations)"

subsection \<open>The plan\<close>

lemma planLoop_sum: "sum_list (map pa_amountKobo (fst (planLoop lots r n))) + snd (planLoop lots r n) = r"
  by (induction lots r n rule: planLoop.induct) (auto simp: Let_def algebra_simps)

lemma planLoop_rest:
  assumes "list_all (\<lambda>l. 0 < lot_remainingAmountKobo l) lots" and "0 \<le> r"
  shows "snd (planLoop lots r n) = max 0 (r - sum_list (map lot_remainingAmountKobo lots))"
  using assms
proof (induction lots r n rule: planLoop.induct)
  case (1 remaining n)
  then show ?case by simp
next
  case (2 lot lots remaining n)
  have "0 \<le> sum_list (map lot_remainingAmountKobo lots)"
    using "2.prems" by (auto simp: list_all_iff less_imp_le intro!: sum_list_nonneg)
  with 2 show ?case by (auto simp: Let_def)
qed

lemma planLoop_length: "length (fst (planLoop lots r n)) \<le> length lots"
  by (induction lots r n rule: planLoop.induct) (simp_all add: Let_def)

lemma planLoop_nth:
  assumes "list_all (\<lambda>l. 0 < lot_remainingAmountKobo l) lots" and "0 \<le> r"
    and "i < length (fst (planLoop lots r n))"
  shows "pa_creditLotId (fst (planLoop lots r n) ! i) = lot_id (lots ! i)
    \<and> pa_expiresAt (fst (planLoop lots r n) ! i) = lot_expiresAt (lots ! i)
    \<and> pa_allocationOrder (fst (planLoop lots r n) ! i) = n + 1 + int i
    \<and> 0 < pa_amountKobo (fst (planLoop lots r n) ! i)
    \<and> pa_amountKobo (fst (planLoop lots r n) ! i) \<le> lot_remainingAmountKobo (lots ! i)
    \<and> (i + 1 < length (fst (planLoop lots r n)) \<longrightarrow>
         pa_amountKobo (fst (planLoop lots r n) ! i) = lot_remainingAmountKobo (lots ! i))"
  using assms
proof (induction lots r n arbitrary: i rule: planLoop.induct)
  case (1 remaining n)
  then show ?case by simp
next
  case (2 lot lots remaining n)
  define amount where "amount = (if lot_remainingAmountKobo lot < remaining
    then lot_remainingAmountKobo lot else remaining)"
  have pos: "0 < lot_remainingAmountKobo lot" "list_all (\<lambda>l. 0 < lot_remainingAmountKobo l) lots"
    using "2.prems" by auto
  have r: "remaining \<noteq> 0" using "2.prems" by auto
  with "2.prems"(2) have am: "0 < amount" "amount \<le> lot_remainingAmountKobo lot" "amount \<le> remaining"
    using pos by (auto simp: amount_def)
  have step: "fst (planLoop (lot # lots) remaining n) =
      \<lparr> pa_creditLotId = lot_id lot, pa_amountKobo = amount, pa_allocationOrder = n + 1,
        pa_expiresAt = lot_expiresAt lot \<rparr> # fst (planLoop lots (remaining - amount) (n + 1))"
    using r by (simp add: Let_def amount_def)
  show ?case
  proof (cases i)
    case 0
    have "amount = lot_remainingAmountKobo lot" if "fst (planLoop lots (remaining - amount) (n + 1)) \<noteq> []"
    proof (rule ccontr)
      assume "amount \<noteq> lot_remainingAmountKobo lot"
      then have "remaining - amount = 0" using am by (auto simp: amount_def split: if_splits)
      then have "fst (planLoop lots (remaining - amount) (n + 1)) = []" by (cases lots) simp_all
      with that show False by simp
    qed
    with 0 am show ?thesis unfolding step by simp
  next
    case (Suc j)
    have "j < length (fst (planLoop lots (remaining - amount) (n + 1)))"
      using "2.prems"(3) unfolding step Suc by simp
    with "2.IH"[OF r amount_def, of j] pos(2) am(3) show ?thesis
      unfolding step Suc by simp
  qed
qed

text \<open>
  C9: for lots that hold something and a positive debit, the plan fails exactly when the lots do
  not cover the debit. Otherwise it takes an initial segment of the lots in order, with running
  numbers from 1, a positive amount of each that it holds, all of it from every lot but the
  last, and the amounts add up to the debit.
\<close>

theorem planAllocations_correct:
  assumes "list_all (\<lambda>l. 0 < lot_remainingAmountKobo l) lots" and "0 < amount"
  shows "(sum_list (map lot_remainingAmountKobo lots) < amount \<and>
          planAllocations lots amount = Inl insufficient_balance)
    \<or> (amount \<le> sum_list (map lot_remainingAmountKobo lots) \<and>
        (\<exists>as. planAllocations lots amount = Inr as \<and> length as \<le> length lots
          \<and> sum_list (map pa_amountKobo as) = amount
          \<and> (\<forall>i<length as. pa_creditLotId (as ! i) = lot_id (lots ! i)
              \<and> pa_allocationOrder (as ! i) = int i + 1
              \<and> 0 < pa_amountKobo (as ! i)
              \<and> pa_amountKobo (as ! i) \<le> lot_remainingAmountKobo (lots ! i)
              \<and> (i + 1 < length as \<longrightarrow> pa_amountKobo (as ! i) = lot_remainingAmountKobo (lots ! i)))))"
proof (cases "sum_list (map lot_remainingAmountKobo lots) < amount")
  case True
  then show ?thesis
    using planLoop_rest[OF assms(1), of amount 0] assms(2)
    by (simp add: planAllocations_def split_beta)
next
  case False
  have rest: "snd (planLoop lots amount 0) = 0"
    using planLoop_rest[OF assms(1), of amount 0] assms(2) False by simp
  with planLoop_sum[of lots amount 0] planLoop_length[of lots amount 0]
    planLoop_nth[OF assms(1), of amount _ 0] assms(2) False
  show ?thesis by (auto simp: planAllocations_def split_beta)
qed

theorem planAllocations_correct_witness:
  "\<exists>as. planAllocations
      [\<lparr> lot_id = ''a'', lot_tenantId = ''t'', lot_customerId = ''c'', lot_earnLedgerEntryId = ''e'',
         lot_originalAmountKobo = 50, lot_remainingAmountKobo = 30, lot_earnedAt = 0, lot_expiresAt = 9 \<rparr>,
       \<lparr> lot_id = ''b'', lot_tenantId = ''t'', lot_customerId = ''c'', lot_earnLedgerEntryId = ''f'',
         lot_originalAmountKobo = 50, lot_remainingAmountKobo = 50, lot_earnedAt = 1, lot_expiresAt = 9 \<rparr>] 40
      = Inr as \<and> sum_list (map pa_amountKobo as) = 40"
  (is "\<exists>as. planAllocations ?lots 40 = _ \<and> _")
  using planAllocations_correct[of ?lots 40] by auto

lemma planAllocations_Inr:
  assumes "planAllocations lots amount = Inr as" and "list_all (\<lambda>l. 0 < lot_remainingAmountKobo l) lots"
    and "0 < amount"
  shows "sum_list (map pa_amountKobo as) = amount"
    and "\<And>a. a \<in> set as \<Longrightarrow> 0 < pa_amountKobo a
           \<and> (\<exists>l\<in>set lots. pa_creditLotId a = lot_id l \<and> pa_amountKobo a \<le> lot_remainingAmountKobo l)"
    and "map pa_creditLotId as = map lot_id (take (length as) lots)"
    and "map pa_allocationOrder as = map (\<lambda>i. int i + 1) [0..<length as]"
    and "amount \<le> sum_list (map lot_remainingAmountKobo lots)"
proof -
  have as: "as = fst (planLoop lots amount 0)" and rest: "snd (planLoop lots amount 0) \<le> 0"
    using assms(1) by (auto simp: planAllocations_def split_beta split: if_splits)
  then have z: "snd (planLoop lots amount 0) = 0"
    and le: "amount \<le> sum_list (map lot_remainingAmountKobo lots)"
    using planLoop_rest[OF assms(2), of amount 0] assms(3) by auto
  show "amount \<le> sum_list (map lot_remainingAmountKobo lots)" by (rule le)
  show "sum_list (map pa_amountKobo as) = amount"
    using planLoop_sum[of lots amount 0] z as by simp
  have len: "length as \<le> length lots" unfolding as by (rule planLoop_length)
  note n = planLoop_nth[OF assms(2) order.strict_implies_order[OF assms(3)], of _ 0, folded as]
  show "\<And>a. a \<in> set as \<Longrightarrow> 0 < pa_amountKobo a
           \<and> (\<exists>l\<in>set lots. pa_creditLotId a = lot_id l \<and> pa_amountKobo a \<le> lot_remainingAmountKobo l)"
  proof -
    fix a
    assume "a \<in> set as"
    then obtain i where i: "i < length as" "a = as ! i" by (auto simp: in_set_conv_nth)
    then have "lots ! i \<in> set lots" using len by simp
    with n[OF i(1)] i(2) show "0 < pa_amountKobo a
      \<and> (\<exists>l\<in>set lots. pa_creditLotId a = lot_id l \<and> pa_amountKobo a \<le> lot_remainingAmountKobo l)"
      by blast
  qed
  show "map pa_creditLotId as = map lot_id (take (length as) lots)"
    using n len by (auto intro!: nth_equalityI)
  show "map pa_allocationOrder as = map (\<lambda>i. int i + 1) [0..<length as]"
    using n by (auto intro!: nth_equalityI)
qed

subsection \<open>Effect of an allocation\<close>

definition unexpired :: "string \<Rightarrow> string \<Rightarrow> int \<Rightarrow> CreditLot \<Rightarrow> bool" where
  "unexpired t c now l = (lot_account l = (t, c) \<and> now < lot_expiresAt l)"

lemma active_balance_unexpired:
  assumes "lots_wf d"
  shows "getActiveBalanceKobo t c now d = sum_where (unexpired t c now) lot_remainingAmountKobo (creditLots d)"
proof -
  have "sum_where (activeCreditLotWhere t c now) lot_remainingAmountKobo ls
      = sum_where (unexpired t c now) lot_remainingAmountKobo ls" if "list_all lot_ok ls" for ls
    using that by (induction ls)
      (auto simp: activeCreditLotWhere_def unexpired_def lot_account_def lot_ok_def)
  with assms show ?thesis by (simp add: getActiveBalanceKobo_def lots_wf_def)
qed

text \<open>What a decrement never changes: which lots there are, whose they are and when they expire.\<close>

definition lot_frame :: "db \<Rightarrow> (string \<times> account \<times> int \<times> int) list" where
  "lot_frame d = map (\<lambda>l. (lot_id l, lot_account l, lot_earnedAt l, lot_expiresAt l)) (creditLots d)"

lemma decrement_lot_frame_rows: "decrement_lot t c i v d = Inr (n, d') \<Longrightarrow> lot_frame d' = lot_frame d"
  by (auto simp: decrement_lot_eq_Inr lot_frame_def updated_def lot_account_def)

lemma applyAllocation_eq_Inr:
  "applyAllocation input a d = Inr (u, d') \<longleftrightarrow>
     decrement_lot (in_tenantId input) (in_customerId input) (pa_creditLotId a) (pa_amountKobo a) d
       = Inr (1, d')"
  by (auto simp: applyAllocation_def tx_bind_eq_Inr)

lemma decrement_lot_balance:
  assumes "lots_wf d" and "decrement_lot t c i v d = Inr (1, d')" and "0 \<le> v"
    and "\<And>l. l \<in> set (creditLots d) \<Longrightarrow> lot_id l = i \<Longrightarrow> now < lot_expiresAt l"
  shows "getActiveBalanceKobo t' c' now d' =
    getActiveBalanceKobo t' c' now d - (if (t', c') = (t, c) then v else 0)"
proof -
  have wf': "lots_wf d'"
    using decrement_lot_money[OF _ assms(2,3), of "imbalance d"] assms(1) by (simp add: money_at_def)
  have "sum_where (unexpired t' c' now) lot_remainingAmountKobo (creditLots d') =
    sum_where (unexpired t' c' now) lot_remainingAmountKobo (creditLots d)
      - (if (t', c') = (t, c) then v else 0)"
  proof (rule decrement_lot_sum)
    show "distinct (map lot_id (creditLots d))" using assms(1) by (simp add: lots_wf_def)
    show "decrement_lot t c i v d = Inr (1, d')" by (rule assms(2))
  qed (use assms(4) in \<open>auto simp: unexpired_def lot_account_def\<close>)
  with assms(1) wf' show ?thesis by (simp add: active_balance_unexpired)
qed

lemma lot_frame_expiry:
  assumes "lot_frame d' = lot_frame d" and "l \<in> set (creditLots d')"
  shows "\<exists>l0\<in>set (creditLots d). lot_id l0 = lot_id l \<and> lot_account l0 = lot_account l
    \<and> lot_expiresAt l0 = lot_expiresAt l \<and> lot_earnedAt l0 = lot_earnedAt l"
proof -
  have "(lot_id l, lot_account l, lot_earnedAt l, lot_expiresAt l) \<in> set (lot_frame d')"
    using assms(2) by (simp add: lot_frame_def)
  with assms(1) show ?thesis by (auto simp: lot_frame_def)
qed

lemma applyAllocations_effect:
  assumes "tx_for as (applyAllocation input) d = Inr (u, d')" and "money_at f d"
    and "\<And>a. a \<in> set as \<Longrightarrow> 0 \<le> pa_amountKobo a"
    and "\<And>a l. a \<in> set as \<Longrightarrow> l \<in> set (creditLots d) \<Longrightarrow> lot_id l = pa_creditLotId a
          \<Longrightarrow> now < lot_expiresAt l"
  shows "money_at (bump f (in_tenantId input, in_customerId input) (sum_list (map pa_amountKobo as))) d'
    \<and> lot_frame d' = lot_frame d
    \<and> (\<forall>t c. getActiveBalanceKobo t c now d' = getActiveBalanceKobo t c now d
        - (if (t, c) = (in_tenantId input, in_customerId input) then sum_list (map pa_amountKobo as) else 0))"
  using assms
proof (induction as arbitrary: d f)
  case Nil
  then show ?case by simp
next
  case (Cons a as)
  let ?t = "in_tenantId input" and ?c = "in_customerId input"
  from Cons.prems(1) obtain d1 where a: "decrement_lot ?t ?c (pa_creditLotId a) (pa_amountKobo a) d = Inr (1, d1)"
    and rest: "tx_for as (applyAllocation input) d1 = Inr (u, d')"
    by (auto simp: tx_bind_eq_Inr applyAllocation_eq_Inr)
  have wf: "lots_wf d" using Cons.prems(2) by (simp add: money_at_def)
  have nn: "0 \<le> pa_amountKobo a" using Cons.prems(3) by simp
  have m1: "money_at (bump f (?t, ?c) (pa_amountKobo a)) d1"
    by (rule decrement_lot_money[OF Cons.prems(2) a nn])
  have fr: "lot_frame d1 = lot_frame d" by (rule decrement_lot_frame_rows[OF a])
  have b1: "getActiveBalanceKobo t c now d1 = getActiveBalanceKobo t c now d
      - (if (t, c) = (?t, ?c) then pa_amountKobo a else 0)" for t c
    by (rule decrement_lot_balance[OF wf a nn]) (use Cons.prems(4) in auto)
  have ih: "now < lot_expiresAt l"
    if "b \<in> set as" "l \<in> set (creditLots d1)" "lot_id l = pa_creditLotId b" for b l
    using lot_frame_expiry[OF fr that(2)] Cons.prems(4)[of b] that by (metis list.set_intros(2))
  have "money_at (bump (bump f (?t, ?c) (pa_amountKobo a)) (?t, ?c) (sum_list (map pa_amountKobo as))) d'
    \<and> lot_frame d' = lot_frame d1
    \<and> (\<forall>t c. getActiveBalanceKobo t c now d' = getActiveBalanceKobo t c now d1
        - (if (t, c) = (?t, ?c) then sum_list (map pa_amountKobo as) else 0))"
    by (rule Cons.IH[OF rest m1]) (use Cons.prems(3) ih in auto)
  with fr b1 show ?case by auto
qed

lemma createAllocations_frame [frame_intros]:
  "(\<And>d v w. f (d\<lparr>idCounter := w, redemptionAllocations := v\<rparr>) = f d) \<Longrightarrow>
   tx_frame f (createAllocations env input as)"
  unfolding createAllocations_def by (intro frame_intros)

lemma applyAllocation_frame [frame_intros]:
  "(\<And>d v. f (d\<lparr>creditLots := v\<rparr>) = f d) \<Longrightarrow> tx_frame f (applyAllocation input a)"
  unfolding applyAllocation_def by (intro frame_intros)

lemma lockExactLot_frame [frame_intros]: "tx_frame f (lockExactLot input)"
  by (auto simp: tx_frame_def lockExactLot_def split: list.splits)

lemma persistAllocations_frame [frame_intros]:
  assumes "\<And>d v. f (d\<lparr>creditLots := v\<rparr>) = f d"
    and "\<And>d v w. f (d\<lparr>idCounter := w, redemptionAllocations := v\<rparr>) = f d"
  shows "tx_frame f (persistAllocations env input as)"
  unfolding persistAllocations_def by (intro frame_intros assms)

lemma allocateDebit_frame [frame_intros]:
  assumes "\<And>d v. f (d\<lparr>creditLots := v\<rparr>) = f d"
    and "\<And>d v w. f (d\<lparr>idCounter := w, redemptionAllocations := v\<rparr>) = f d"
  shows "tx_frame f (allocateDebit env input)" and "tx_frame f (allocateDebitFromExactLot env input)"
  unfolding allocateDebit_def allocateDebitFromExactLot_def lockEligibleLots_def
  by (intro frame_intros assms)+

lemma tx_frame_creditLots:
  assumes "tx_frame creditLots m" and "m d = Inr (x, d')"
  shows "lots_wf d' = lots_wf d" and "lot_frame d' = lot_frame d"
    and "getActiveBalanceKobo t c now d' = getActiveBalanceKobo t c now d"
  using tx_frameD[OF assms] by (simp_all add: lots_wf_def lot_frame_def getActiveBalanceKobo_def)

lemma eligibleLots_positive: "list_all (\<lambda>l. 0 < lot_remainingAmountKobo l) (eligibleLots input d)"
  by (auto simp: eligibleLots_def list_all_iff activeCreditLotWhere_def)

lemma lot_unique:
  "lots_wf d \<Longrightarrow> l \<in> set (creditLots d) \<Longrightarrow> m \<in> set (creditLots d) \<Longrightarrow> lot_id l = lot_id m \<Longrightarrow> l = m"
  unfolding lots_wf_def distinct_map by (blast dest: inj_onD)

lemma allocateDebit_effect:
  assumes "allocateDebit env input d = Inr (as, d')" and "money_at f d"
  shows "0 < in_amountKobo input"
    and "sum_list (map pa_amountKobo as) = in_amountKobo input"
    and "money_at (bump f (in_tenantId input, in_customerId input) (in_amountKobo input)) d'"
    and "lot_frame d' = lot_frame d"
    and "getActiveBalanceKobo t c (in_now input) d' = getActiveBalanceKobo t c (in_now input) d
        - (if (t, c) = (in_tenantId input, in_customerId input) then in_amountKobo input else 0)"
    and "planAllocations (eligibleLots input d) (in_amountKobo input) = Inr as"
proof -
  from assms(1) obtain d1 where pos: "0 < in_amountKobo input"
    and plan: "planAllocations (eligibleLots input d) (in_amountKobo input) = Inr as"
    and cr: "createAllocations env input as d = Inr ((), d1)"
    and ap: "tx_for as (applyAllocation input) d1 = Inr ((), d')"
    by (auto simp: allocateDebit_def persistAllocations_def tx_bind_eq_Inr tx_lift_eq_Inr
        lockEligibleLots_def validateDebitAllocationTarget_def split: if_splits)
  note p = planAllocations_Inr[OF plan eligibleLots_positive pos]
  have fr: "tx_frame creditLots (createAllocations env input as)"
    "tx_frame money_view (createAllocations env input as)"
    by (rule createAllocations_frame, simp)+
  have same: "creditLots d1 = creditLots d" using tx_frameD[OF fr(1) cr] .
  have m1: "money_at f d1" using money_at_view[OF tx_frameD[OF fr(2) cr]] assms(2) by blast
  have live: "in_now input < lot_expiresAt l"
    if "a \<in> set as" "l \<in> set (creditLots d1)" "lot_id l = pa_creditLotId a" for a l
  proof -
    from p(2)[OF that(1)] obtain m where m: "m \<in> set (eligibleLots input d)" "pa_creditLotId a = lot_id m"
      by blast
    have "m \<in> set (creditLots d)" using m(1) by (simp add: eligibleLots_def)
    moreover have "l \<in> set (creditLots d)" using that(2) same by simp
    moreover have "lots_wf d" using assms(2) by (simp add: money_at_def)
    ultimately have "m = l" using lot_unique that(3) m(2) by metis
    with m(1) show ?thesis by (auto simp: eligibleLots_def activeCreditLotWhere_def)
  qed
  have eff: "money_at (bump f (in_tenantId input, in_customerId input) (sum_list (map pa_amountKobo as))) d'
    \<and> lot_frame d' = lot_frame d1
    \<and> (\<forall>t c. getActiveBalanceKobo t c (in_now input) d' = getActiveBalanceKobo t c (in_now input) d1
        - (if (t, c) = (in_tenantId input, in_customerId input) then sum_list (map pa_amountKobo as) else 0))"
    by (rule applyAllocations_effect[OF ap m1]) (use p(2) live less_imp_le in blast)+
  show "0 < in_amountKobo input" by (rule pos)
  show "sum_list (map pa_amountKobo as) = in_amountKobo input" by (rule p(1))
  show "planAllocations (eligibleLots input d) (in_amountKobo input) = Inr as" by (rule plan)
  show "money_at (bump f (in_tenantId input, in_customerId input) (in_amountKobo input)) d'"
    and "lot_frame d' = lot_frame d"
    and "getActiveBalanceKobo t c (in_now input) d' = getActiveBalanceKobo t c (in_now input) d
        - (if (t, c) = (in_tenantId input, in_customerId input) then in_amountKobo input else 0)"
    using eff p(1) tx_frame_creditLots[OF fr(1) cr] by auto
qed

subsection \<open>When an allocation succeeds\<close>

lemma sum_list_sort_key: "sum_list (map v (sort_key k xs)) = sum_list (map (v :: 'a \<Rightarrow> int) xs)"
  by (metis mset_map mset_sort sum_mset_sum_list)

lemma eligibleLots_sum:
  assumes "in_excludedCreditLotIds input = []"
  shows "sum_list (map lot_remainingAmountKobo (eligibleLots input d)) =
    getActiveBalanceKobo (in_tenantId input) (in_customerId input) (in_now input) d"
  using assms by (simp add: eligibleLots_def sum_list_sort_key getActiveBalanceKobo_def sum_where_def)

lemma eligibleLots_distinct: "lots_wf d \<Longrightarrow> distinct (map lot_id (eligibleLots input d))"
  by (simp add: eligibleLots_def lots_wf_def distinct_map inj_on_def)

definition ids_fresh :: "env \<Rightarrow> db \<Rightarrow> string set \<Rightarrow> bool" where
  "ids_fresh env d ids = (inj (genId env) \<and> (\<forall>k\<ge>idCounter d. genId env k \<notin> ids))"

definition target_unused :: "AllocateDebitInput \<Rightarrow> PersistedAllocation list \<Rightarrow> db \<Rightarrow> bool" where
  "target_unused input as d =
     (\<forall>x\<in>set (redemptionAllocations d).
        (same_key (ra_redemptionId x) (in_redemptionId input)
         \<or> same_key (ra_adjustmentId x) (in_adjustmentId input)) \<longrightarrow>
        ra_creditLotId x \<notin> pa_creditLotId ` set as
        \<and> ra_allocationOrder x \<notin> pa_allocationOrder ` set as)"

lemma createAllocations_succeeds:
  assumes "ids_fresh env d (ra_id ` set (redemptionAllocations d))" and "target_unused input as d"
    and "distinct (map pa_creditLotId as)" and "distinct (map pa_allocationOrder as)"
  shows "\<exists>d'. createAllocations env input as d = Inr ((), d')"
  using assms
proof (induction as arbitrary: d)
  case Nil
  then show ?case by (simp add: createAllocations_def)
next
  case (Cons a as)
  define row where "row = (\<lambda>i. \<lparr> ra_id = i, ra_tenantId = in_tenantId input,
         ra_redemptionId = in_redemptionId input, ra_adjustmentId = in_adjustmentId input,
         ra_redemptionLedgerEntryId = in_debitLedgerEntryId input,
         ra_creditLotId = pa_creditLotId a, ra_amountKobo = pa_amountKobo a,
         ra_allocationOrder = pa_allocationOrder a \<rparr>)"
  define r where "r = row (genId env (idCounter d))"
  define d1 where "d1 = d\<lparr>idCounter := Suc (idCounter d), redemptionAllocations := redemptionAllocations d @ [r]\<rparr>"
  have "ra_id x \<noteq> genId env (idCounter d)" if "x \<in> set (redemptionAllocations d)" for x
    using Cons.prems(1) that by (auto simp: ids_fresh_def) (metis image_eqI order_refl)
  moreover have "\<not> (same_key (ra_redemptionId x) (in_redemptionId input)
      \<and> (ra_creditLotId x = pa_creditLotId a \<or> ra_allocationOrder x = pa_allocationOrder a))
    \<and> \<not> (same_key (ra_adjustmentId x) (in_adjustmentId input)
      \<and> (ra_creditLotId x = pa_creditLotId a \<or> ra_allocationOrder x = pa_allocationOrder a))"
    if "x \<in> set (redemptionAllocations d)" for x
    using Cons.prems(2) that by (auto simp: target_unused_def)
  ultimately have "first_violation (redemptionAllocation_constraints (d\<lparr>idCounter := Suc (idCounter d)\<rparr>) r) = None"
    by (auto simp: first_violation_None redemptionAllocation_constraints_def list_ex_iff r_def row_def)
  then have c: "redemptionAllocation_create env row d = Inr (r, d1)"
    by (simp add: redemptionAllocation_create_def create_row_eq_Inr r_def[symmetric] d1_def)
  have "ids_fresh env d1 (ra_id ` set (redemptionAllocations d1))"
    using Cons.prems(1) by (auto simp: ids_fresh_def d1_def r_def row_def inj_eq)
  moreover have "target_unused input as d1"
    using Cons.prems(2-4) by (auto simp: target_unused_def d1_def r_def row_def)
  ultimately obtain d' where "createAllocations env input as d1 = Inr ((), d')"
    using Cons.IH[of d1] Cons.prems(3,4) by auto
  then show ?case
    using c by (auto simp: createAllocations_def tx_bind_def tx_void_def row_def)
qed

lemma decrement_lot_succeeds:
  assumes "lots_wf d" and "l \<in> set (creditLots d)" and "lot_id l = i" and "lot_account l = (t, c)"
    and "v \<le> lot_remainingAmountKobo l"
  shows "\<exists>d'. decrement_lot t c i v d = Inr (1, d')"
    and "\<And>d' m. decrement_lot t c i v d = Inr (1, d') \<Longrightarrow> m \<in> set (creditLots d) \<Longrightarrow> lot_id m \<noteq> i \<Longrightarrow>
          m \<in> set (creditLots d')"
proof -
  let ?q = "\<lambda>l. lot_tenantId l = t \<and> lot_customerId l = c \<and> v \<le> lot_remainingAmountKobo l"
  have "?q l" using assms by (simp add: lot_account_def)
  then have "filter (\<lambda>l. lot_id l = i \<and> ?q l) (creditLots d) = [l]"
    using assms filter_key_unique[of lot_id "creditLots d" l i ?q] by (simp add: lots_wf_def)
  then show "\<exists>d'. decrement_lot t c i v d = Inr (1, d')"
    by (simp add: decrement_lot_eq_Inr count_where_def)
  show "m \<in> set (creditLots d')"
    if "decrement_lot t c i v d = Inr (1, d')" "m \<in> set (creditLots d)" "lot_id m \<noteq> i" for d' m
    using that by (force simp: decrement_lot_eq_Inr updated_def)
qed

lemma applyAllocations_succeeds:
  assumes "lots_wf d" and "distinct (map pa_creditLotId as)"
    and "\<And>a. a \<in> set as \<Longrightarrow> 0 \<le> pa_amountKobo a \<and> (\<exists>l\<in>set (creditLots d). lot_id l = pa_creditLotId a
           \<and> lot_account l = (in_tenantId input, in_customerId input)
           \<and> pa_amountKobo a \<le> lot_remainingAmountKobo l)"
  shows "\<exists>d'. tx_for as (applyAllocation input) d = Inr ((), d')"
  using assms
proof (induction as arbitrary: d)
  case Nil
  then show ?case by simp
next
  case (Cons a as)
  let ?t = "in_tenantId input" and ?c = "in_customerId input"
  from Cons.prems(3)[of a] obtain l where l: "l \<in> set (creditLots d)" "lot_id l = pa_creditLotId a"
    "lot_account l = (?t, ?c)" "pa_amountKobo a \<le> lot_remainingAmountKobo l" and nn: "0 \<le> pa_amountKobo a"
    by auto
  note dec = decrement_lot_succeeds[OF Cons.prems(1) l]
  from dec(1) obtain d1 where a: "decrement_lot ?t ?c (pa_creditLotId a) (pa_amountKobo a) d = Inr (1, d1)"
    by blast
  have wf1: "lots_wf d1"
    using decrement_lot_money[OF _ a nn, of "imbalance d"] Cons.prems(1) by (simp add: money_at_def)
  have "\<exists>d'. tx_for as (applyAllocation input) d1 = Inr ((), d')"
  proof (rule Cons.IH[OF wf1])
    show "distinct (map pa_creditLotId as)" using Cons.prems(2) by simp
    fix b
    assume b: "b \<in> set as"
    then have ne: "pa_creditLotId b \<noteq> pa_creditLotId a" using Cons.prems(2) by (auto simp: image_iff)
    from Cons.prems(3)[of b] b obtain m where m: "m \<in> set (creditLots d)" "lot_id m = pa_creditLotId b"
      "lot_account m = (?t, ?c)" "pa_amountKobo b \<le> lot_remainingAmountKobo m" "0 \<le> pa_amountKobo b"
      by auto
    have "m \<in> set (creditLots d1)" using dec(2)[OF a m(1)] m(2) ne by simp
    with m show "0 \<le> pa_amountKobo b \<and> (\<exists>l\<in>set (creditLots d1). lot_id l = pa_creditLotId b
      \<and> lot_account l = (?t, ?c) \<and> pa_amountKobo b \<le> lot_remainingAmountKobo l)" by blast
  qed
  then obtain d' where "tx_for as (applyAllocation input) d1 = Inr ((), d')" ..
  moreover have "applyAllocation input a d = Inr ((), d1)" using a by (simp add: applyAllocation_eq_Inr)
  ultimately show ?case by auto
qed

text \<open>
  C10: on well-formed lots, with a valid target that has no allocations yet and a generator of
  fresh ids, a debit goes through exactly when the active balance covers it; otherwise it fails
  with \<open>INSUFFICIENT_BALANCE\<close>.
\<close>

theorem allocateDebit_succeeds_iff:
  assumes "lots_wf d" and "validateDebitAllocationTarget input = Inr ()"
    and "in_excludedCreditLotIds input = []"
    and "ids_fresh env d (ra_id ` set (redemptionAllocations d))"
    and "\<forall>x\<in>set (redemptionAllocations d). \<not> same_key (ra_redemptionId x) (in_redemptionId input)
          \<and> \<not> same_key (ra_adjustmentId x) (in_adjustmentId input)"
  shows "if in_amountKobo input
            \<le> getActiveBalanceKobo (in_tenantId input) (in_customerId input) (in_now input) d
         then \<exists>as d'. allocateDebit env input d = Inr (as, d')
         else allocateDebit env input d = Inl insufficient_balance"
proof -
  let ?lots = "eligibleLots input d" and ?amt = "in_amountKobo input"
  have pos: "0 < ?amt" using assms(2) by (auto simp: validateDebitAllocationTarget_def split: if_splits)
  have sum: "sum_list (map lot_remainingAmountKobo ?lots)
      = getActiveBalanceKobo (in_tenantId input) (in_customerId input) (in_now input) d"
    by (rule eligibleLots_sum[OF assms(3)])
  have rest: "snd (planLoop ?lots ?amt 0) = max 0 (?amt - sum_list (map lot_remainingAmountKobo ?lots))"
    using planLoop_rest[OF eligibleLots_positive, of ?amt input d 0] pos by simp
  show ?thesis
  proof (cases "?amt \<le> sum_list (map lot_remainingAmountKobo ?lots)")
    case True
    then obtain as where plan: "planAllocations ?lots ?amt = Inr as"
      using rest by (simp add: planAllocations_def split_beta)
    note p = planAllocations_Inr[OF plan eligibleLots_positive pos]
    have dl: "distinct (map pa_creditLotId as)"
      unfolding p(3) take_map[symmetric] by (rule distinct_take[OF eligibleLots_distinct[OF assms(1)]])
    have do: "distinct (map pa_allocationOrder as)" unfolding p(4) by (simp add: distinct_map inj_on_def)
    have "target_unused input as d" using assms(5) by (auto simp: target_unused_def)
    with createAllocations_succeeds[OF assms(4) _ dl do] obtain d1
      where cr: "createAllocations env input as d = Inr ((), d1)" by blast
    have "tx_frame creditLots (createAllocations env input as)" by (rule createAllocations_frame) simp
    note fr = tx_frameD[OF this cr] tx_frame_creditLots(1)[OF this cr]
    have "\<exists>d'. tx_for as (applyAllocation input) d1 = Inr ((), d')"
    proof (rule applyAllocations_succeeds[OF _ dl])
      show "lots_wf d1" using fr(2) assms(1) by simp
      fix a
      assume "a \<in> set as"
      with p(2) show "0 \<le> pa_amountKobo a \<and> (\<exists>l\<in>set (creditLots d1). lot_id l = pa_creditLotId a
        \<and> lot_account l = (in_tenantId input, in_customerId input)
        \<and> pa_amountKobo a \<le> lot_remainingAmountKobo l)"
        unfolding fr(1) by (force simp: eligibleLots_def activeCreditLotWhere_def lot_account_def)
    qed
    then obtain d' where "tx_for as (applyAllocation input) d1 = Inr ((), d')" ..
    with plan cr assms(2) True show ?thesis
      by (simp add: allocateDebit_def persistAllocations_def lockEligibleLots_def sum)
  next
    case False
    then have "planAllocations ?lots ?amt = Inl insufficient_balance"
      using rest by (simp add: planAllocations_def split_beta)
    with False assms(2) show ?thesis
      by (simp add: allocateDebit_def lockEligibleLots_def sum)
  qed
qed

definition demo_debit :: "int \<Rightarrow> AllocateDebitInput" where
  "demo_debit amount =
     \<lparr> in_tenantId = ''T'', in_customerId = ''C'', in_creditLotId = None,
       in_debitLedgerEntryId = ''L'', in_amountKobo = amount, in_now = demo_now,
       in_redemptionId = Some ''R'', in_adjustmentId = None, in_excludedCreditLotIds = [] \<rparr>"

theorem allocateDebit_succeeds_iff_witness:
  "(\<exists>as d'. allocateDebit demo_env (demo_debit 100000) demo_db = Inr (as, d'))
   \<and> allocateDebit demo_env (demo_debit 120001) demo_db = Inl insufficient_balance"
proof -
  have v: "validateDebitAllocationTarget (demo_debit a) = Inr ()" if "0 < a" for a
    using that by (simp add: validateDebitAllocationTarget_def demo_debit_def truthy_def)
  have none: "redemptionAllocations demo_db = []" by (simp add: demo_db_def)
  have b: "getActiveBalanceKobo ''T'' ''C'' demo_now demo_db = 120000" by code_simp
  have fresh: "ids_fresh demo_env demo_db (ra_id ` set (redemptionAllocations demo_db))"
    by (simp add: ids_fresh_def demo_genId_inj none)
  have d: "in_tenantId (demo_debit a) = ''T''" "in_customerId (demo_debit a) = ''C''"
    "in_now (demo_debit a) = demo_now" "in_amountKobo (demo_debit a) = a"
    "in_excludedCreditLotIds (demo_debit a) = []" for a
    by (simp_all add: demo_debit_def)
  show ?thesis
    using allocateDebit_succeeds_iff[OF demo_lots_wf v _ fresh, of 100000]
      allocateDebit_succeeds_iff[OF demo_lots_wf v _ fresh, of 120001]
    by (simp add: d b none)
qed

subsection \<open>The order of the lots\<close>

text \<open>
  C11: a debit takes the lots that expire first: no lot it draws on expires after an active lot of
  the customer that it leaves untouched.
\<close>

theorem allocateDebit_earliest_first:
  assumes "allocateDebit env input d = Inr (as, d')" and "lots_wf d"
    and "a \<in> set as" and "l \<in> set (eligibleLots input d)" and "lot_id l \<notin> pa_creditLotId ` set as"
  shows "pa_expiresAt a \<le> lot_expiresAt l"
proof -
  let ?lots = "eligibleLots input d"
  have m: "money_at (imbalance d) d" using assms(2) by (simp add: money_at_def)
  note pos = allocateDebit_effect(1)[OF assms(1) m]
  note plan = allocateDebit_effect(6)[OF assms(1) m]
  have as: "as = fst (planLoop ?lots (in_amountKobo input) 0)"
    using plan by (auto simp: planAllocations_def split_beta split: if_splits)
  obtain i where i: "i < length as" "a = as ! i" using assms(3) by (auto simp: in_set_conv_nth)
  obtain j where j: "j < length ?lots" "l = ?lots ! j" using assms(4) by (auto simp: in_set_conv_nth)
  have len: "length as \<le> length ?lots" unfolding as by (rule planLoop_length)
  note ids = planAllocations_Inr(3)[OF plan eligibleLots_positive pos]
  have "\<not> j < length as"
  proof
    assume "j < length as"
    then have "pa_creditLotId (as ! j) = lot_id l"
      using arg_cong[OF ids, of "\<lambda>xs. xs ! j"] len j by simp
    with \<open>j < length as\<close> assms(5) show False by (metis image_eqI nth_mem)
  qed
  with i j have "lot_order (?lots ! i) \<le> lot_order (?lots ! j)"
    using sorted_nth_mono[of "map lot_order ?lots" i j] by (simp add: eligibleLots_def)
  then have "lot_expiresAt (?lots ! i) \<le> lot_expiresAt l" by (auto simp: lot_order_def less_eq_prod_def j)
  moreover have "pa_expiresAt a = lot_expiresAt (?lots ! i)"
    using planLoop_nth[OF eligibleLots_positive, of "in_amountKobo input" i input d 0] pos i as by simp
  ultimately show ?thesis by simp
qed

theorem allocateDebit_earliest_first_witness:
  "\<exists>as d'. allocateDebit demo_env (demo_debit 20000) demo_db = Inr (as, d')
     \<and> (\<forall>a\<in>set as. pa_expiresAt a \<le> 1730000000000)"
proof -
  have "map_sum (\<lambda>e. e) (\<lambda>r. map pa_creditLotId (fst r))
      (allocateDebit demo_env (demo_debit 20000) demo_db) = Inr [''l1'']"
    by code_simp
  then obtain as d' where r: "allocateDebit demo_env (demo_debit 20000) demo_db = Inr (as, d')"
    and ids: "map pa_creditLotId as = [''l1'']"
    by (rule committed_result) simp
  have l: "demo_lot ''l2'' ''e2'' 90000 1730000000000 \<in> set (eligibleLots (demo_debit 20000) demo_db)"
    by code_simp
  have "\<forall>a\<in>set as. pa_expiresAt a \<le> 1730000000000"
  proof
    fix a
    assume a: "a \<in> set as"
    have "pa_creditLotId ` set as = {''l1''}" using ids by (metis list.set_map list.simps(15) empty_set)
    then show "pa_expiresAt a \<le> 1730000000000"
      using allocateDebit_earliest_first[OF r demo_lots_wf a l] by (simp add: demo_lot_def)
  qed
  with r show ?thesis by blast
qed

subsection \<open>The contract of an allocator\<close>

text \<open>
  What the settlement, adjustment and reversal services rely on when they hand a debit to an
  allocator: a committed debit keeps the lots well formed, its shares add up to the amount, and
  the active balance at the debit's time falls by the amount for that account and for no other.
\<close>

locale debit_allocator =
  fixes allocate :: "'i \<Rightarrow> 's \<Rightarrow> svc_error + 'a list \<times> 's"
    and account_of :: "'i \<Rightarrow> 'k"
    and amount_of :: "'i \<Rightarrow> int"
    and time_of :: "'i \<Rightarrow> int"
    and share :: "'a \<Rightarrow> int"
    and balance :: "'k \<Rightarrow> int \<Rightarrow> 's \<Rightarrow> int"
    and well_formed :: "'s \<Rightarrow> bool"
  assumes keeps_well_formed: "well_formed s \<Longrightarrow> allocate i s = Inr (as, s') \<Longrightarrow> well_formed s'"
    and shares_total: "well_formed s \<Longrightarrow> allocate i s = Inr (as, s') \<Longrightarrow>
          sum_list (map share as) = amount_of i"
    and debits_account: "well_formed s \<Longrightarrow> allocate i s = Inr (as, s') \<Longrightarrow>
          balance k (time_of i) s' =
          balance k (time_of i) s - (if k = account_of i then amount_of i else 0)"
    and balance_nonneg: "well_formed s \<Longrightarrow> 0 \<le> balance k t s"
begin

lemma debit_covered:
  assumes "well_formed s" and "allocate i s = Inr (as, s')"
  shows "amount_of i \<le> balance (account_of i) (time_of i) s"
  using debits_account[OF assms, of "account_of i"]
    balance_nonneg[OF keeps_well_formed[OF assms], of "account_of i" "time_of i"] by simp

lemma debit_sequence:
  assumes "well_formed s" and "\<And>i. i \<in> set is \<Longrightarrow> account_of i = k \<and> time_of i = t"
    and "tx_for is (\<lambda>i. tx_void (allocate i)) s = Inr (u, s')"
  shows "well_formed s' \<and> balance k t s' = balance k t s - sum_list (map amount_of is)
    \<and> sum_list (map amount_of is) \<le> balance k t s"
  using assms
proof (induction "is" arbitrary: s)
  case Nil
  then show ?case using balance_nonneg by simp
next
  case (Cons i "is")
  from Cons.prems(3) obtain as s1 where i: "allocate i s = Inr (as, s1)"
    and rest: "tx_for is (\<lambda>i. tx_void (allocate i)) s1 = Inr (u, s')"
    by (auto simp: tx_bind_eq_Inr)
  have wf1: "well_formed s1" by (rule keeps_well_formed[OF Cons.prems(1) i])
  have "account_of i = k" "time_of i = t" using Cons.prems(2) by simp_all
  then have "balance k t s1 = balance k t s - amount_of i"
    using debits_account[OF Cons.prems(1) i, of k] by simp
  with Cons.IH[OF wf1 _ rest] Cons.prems(2) show ?case by simp
qed

end

definition debit_account :: "AllocateDebitInput \<Rightarrow> account" where
  "debit_account input = (in_tenantId input, in_customerId input)"

definition active_balance :: "account \<Rightarrow> int \<Rightarrow> db \<Rightarrow> int" where
  "active_balance a now d = getActiveBalanceKobo (fst a) (snd a) now d"

lemma active_balance_nonneg: "0 \<le> active_balance a now d"
  by (auto simp: active_balance_def getActiveBalanceKobo_def activeCreditLotWhere_def intro!: sum_where_nonneg)

interpretation fifo: debit_allocator "allocateDebit env" debit_account in_amountKobo in_now
  pa_amountKobo active_balance lots_wf for env
proof unfold_locales
  fix s s' :: db and i as k t
  assume wf: "lots_wf s"
  then have m: "money_at (imbalance s) s" by (simp add: money_at_def)
  show "0 \<le> active_balance k t s" by (rule active_balance_nonneg)
  assume a: "allocateDebit env i s = Inr (as, s')"
  note e = allocateDebit_effect[OF a m]
  show "lots_wf s'" using e(3) by (simp add: money_at_def)
  show "sum_list (map pa_amountKobo as) = in_amountKobo i" by (rule e(2))
  show "active_balance k (in_now i) s' = active_balance k (in_now i) s
      - (if k = debit_account i then in_amountKobo i else 0)"
    using e(5)[of "fst k" "snd k"] by (simp add: active_balance_def debit_account_def prod_eq_iff)
qed

text \<open>The second provider of the contract: a debit of one given lot, as a reversal makes it.\<close>

lemma allocateDebitFromExactLot_effect:
  assumes "allocateDebitFromExactLot env input d = Inr (as, d')" and "money_at f d"
  shows "0 < in_amountKobo input"
    and "sum_list (map pa_amountKobo as) = in_amountKobo input"
    and "money_at (bump f (debit_account input) (in_amountKobo input)) d'"
    and "lot_frame d' = lot_frame d"
    and "getActiveBalanceKobo t c (in_now input) d' = getActiveBalanceKobo t c (in_now input) d
        - (if (t, c) = debit_account input then in_amountKobo input else 0)"
proof -
  from assms(1) obtain lot d1 where pos: "0 < in_amountKobo input"
    and lot: "lockExactLot input d = Inr (lot, d)"
    and plan: "planAllocations [lot] (in_amountKobo input) = Inr as"
    and cr: "createAllocations env input as d = Inr ((), d1)"
    and ap: "tx_for as (applyAllocation input) d1 = Inr ((), d')"
    by (auto simp: allocateDebitFromExactLot_def persistAllocations_def tx_bind_eq_Inr tx_lift_eq_Inr
        lockExactLot_def validateDebitAllocationTarget_def split: if_splits list.splits)
  have l: "lot \<in> set (creditLots d)" "in_now input < lot_expiresAt lot"
    "in_amountKobo input \<le> lot_remainingAmountKobo lot"
    using lot by (auto simp: lockExactLot_def filter_eq_Cons_iff split: list.splits)
  then have "list_all (\<lambda>l. 0 < lot_remainingAmountKobo l) [lot]" using pos by simp
  note p = planAllocations_Inr[OF plan this pos]
  have fr: "tx_frame creditLots (createAllocations env input as)"
    "tx_frame money_view (createAllocations env input as)"
    by (rule createAllocations_frame, simp)+
  have same: "creditLots d1 = creditLots d" using tx_frameD[OF fr(1) cr] .
  have m1: "money_at f d1" using money_at_view[OF tx_frameD[OF fr(2) cr]] assms(2) by blast
  have wf: "lots_wf d" using assms(2) by (simp add: money_at_def)
  have live: "in_now input < lot_expiresAt m"
    if "a \<in> set as" "m \<in> set (creditLots d1)" "lot_id m = pa_creditLotId a" for a m
  proof -
    have "lot_id m = lot_id lot" using p(2)[OF that(1)] that(3) by auto
    then have "m = lot" using lot_unique[OF wf _ l(1)] that(2) same by metis
    with l(2) show ?thesis by simp
  qed
  have eff: "money_at (bump f (in_tenantId input, in_customerId input) (sum_list (map pa_amountKobo as))) d'
    \<and> lot_frame d' = lot_frame d1
    \<and> (\<forall>t c. getActiveBalanceKobo t c (in_now input) d' = getActiveBalanceKobo t c (in_now input) d1
        - (if (t, c) = (in_tenantId input, in_customerId input) then sum_list (map pa_amountKobo as) else 0))"
    by (rule applyAllocations_effect[OF ap m1]) (use p(2) live less_imp_le in blast)+
  show "0 < in_amountKobo input" by (rule pos)
  show "sum_list (map pa_amountKobo as) = in_amountKobo input" by (rule p(1))
  show "money_at (bump f (debit_account input) (in_amountKobo input)) d'"
    and "lot_frame d' = lot_frame d"
    and "getActiveBalanceKobo t c (in_now input) d' = getActiveBalanceKobo t c (in_now input) d
        - (if (t, c) = debit_account input then in_amountKobo input else 0)"
    using eff p(1) tx_frame_creditLots[OF fr(1) cr] by (auto simp: debit_account_def)
qed

interpretation exact: debit_allocator "allocateDebitFromExactLot env" debit_account in_amountKobo in_now
  pa_amountKobo active_balance lots_wf for env
proof unfold_locales
  fix s s' :: db and i as k t
  assume wf: "lots_wf s"
  then have m: "money_at (imbalance s) s" by (simp add: money_at_def)
  show "0 \<le> active_balance k t s" by (rule active_balance_nonneg)
  assume a: "allocateDebitFromExactLot env i s = Inr (as, s')"
  note e = allocateDebitFromExactLot_effect[OF a m]
  show "lots_wf s'" using e(3) by (simp add: money_at_def)
  show "sum_list (map pa_amountKobo as) = in_amountKobo i" by (rule e(2))
  show "active_balance k (in_now i) s' = active_balance k (in_now i) s
      - (if k = debit_account i then in_amountKobo i else 0)"
    using e(5)[of "fst k" "snd k"] by (simp add: active_balance_def debit_account_def prod_eq_iff)
qed

text \<open>
  However many debits of one customer commit one after another at one time, together they
  take at most the active balance there was, and exactly their sum is gone afterwards.
\<close>

theorem allocateDebit_never_overdraws:
  assumes "lots_wf d" and "\<forall>i\<in>set inputs. debit_account i = (t, c) \<and> in_now i = now"
    and "tx_for inputs (\<lambda>i. tx_void (allocateDebit env i)) d = Inr (u, d')"
  shows "getActiveBalanceKobo t c now d' =
      getActiveBalanceKobo t c now d - sum_list (map in_amountKobo inputs)
    \<and> sum_list (map in_amountKobo inputs) \<le> getActiveBalanceKobo t c now d"
  using fifo.debit_sequence[OF assms(1) _ assms(3), of "(t, c)" now] assms(2)
  by (simp add: active_balance_def)

theorem allocateDebit_never_overdraws_witness:
  "\<exists>d'. tx_for [demo_debit 100000] (\<lambda>i. tx_void (allocateDebit demo_env i)) demo_db
        = Inr ((), d')
     \<and> getActiveBalanceKobo ''T'' ''C'' demo_now d' = 20000"
proof -
  have b: "getActiveBalanceKobo ''T'' ''C'' demo_now demo_db = 120000" by code_simp
  have "map_sum (\<lambda>e. e) fst (tx_for [demo_debit 100000]
      (\<lambda>i. tx_void (allocateDebit demo_env i)) demo_db) = Inr ()"
    by code_simp
  then obtain d' where r: "tx_for [demo_debit 100000]
      (\<lambda>i. tx_void (allocateDebit demo_env i)) demo_db = Inr ((), d')"
    by (rule committed_result) simp
  have "\<forall>i\<in>set [demo_debit 100000]. debit_account i = (''T'', ''C'') \<and> in_now i = demo_now"
    by (simp add: demo_debit_def debit_account_def)
  from allocateDebit_never_overdraws[OF demo_lots_wf this r] r b show ?thesis
    by (simp add: demo_debit_def)
qed

subsection \<open>The batch balance\<close>

lemma foldl_put_rows:
  "foldl (\<lambda>m (c, v). m(c \<mapsto> v)) m (map (\<lambda>c. (c, g c)) ks) c =
     (if c \<in> set ks then Some (g c) else m c)"
  by (induction ks arbitrary: m) auto

text \<open>
  The batch query agrees with the single one: every customer asked for gets the same balance,
  zero included, and no other customer is in the result.
\<close>

theorem getActiveBalancesKobo_agrees:
  "getActiveBalancesKobo t ids now d c =
     (if c \<in> set ids then Some (getActiveBalanceKobo t c now d) else None)"
proof -
  define matching where "matching = filter (\<lambda>l. lot_tenantId l = t \<and> lot_customerId l \<in> set ids
            \<and> lot_remainingAmountKobo l > 0 \<and> lot_expiresAt l > now) (creditLots d)"
  have g: "sum_where (\<lambda>l. lot_customerId l = c) lot_remainingAmountKobo matching
      = getActiveBalanceKobo t c now d" if "c \<in> set ids"
  proof -
    have "sum_where (\<lambda>l. lot_customerId l = c) lot_remainingAmountKobo
        (filter (\<lambda>l. lot_tenantId l = t \<and> lot_customerId l \<in> set ids
            \<and> lot_remainingAmountKobo l > 0 \<and> lot_expiresAt l > now) ls)
      = sum_where (activeCreditLotWhere t c now) lot_remainingAmountKobo ls" for ls
      using that by (induction ls) (auto simp: activeCreditLotWhere_def)
    then show ?thesis by (simp add: matching_def getActiveBalanceKobo_def)
  qed
  have z: "sum_where (\<lambda>l. lot_customerId l = c) lot_remainingAmountKobo matching = 0"
    if "c \<notin> lot_customerId ` set matching"
  proof -
    have "filter (\<lambda>l. lot_customerId l = c) matching = []" using that by (auto simp: filter_empty_conv)
    then show ?thesis by (simp add: sum_where_def)
  qed
  have rows: "balance_rows t ids now d =
      map (\<lambda>c. (c, sum_where (\<lambda>l. lot_customerId l = c) lot_remainingAmountKobo matching))
        (remdups (map lot_customerId matching))"
    by (simp add: balance_rows_def matching_def Let_def)
  have "c \<in> set ids" if "c \<in> lot_customerId ` set matching"
    using that by (auto simp: matching_def)
  with g z show ?thesis
    by (auto simp: getActiveBalancesKobo_def Let_def rows foldl_put_rows)
qed

subsection \<open>Restorations\<close>

lemma map_results_Inr: "map_results f xs = Inr ys \<longleftrightarrow> list_all2 (\<lambda>x y. f x = Inr y) xs ys"
proof (induction xs arbitrary: ys)
  case (Cons x xs)
  then show ?case
    by (cases "f x"; cases "map_results f xs") (auto simp: list_all2_Cons1 Cons.IH[symmetric])
qed auto

lemma planRestoration_Inr:
  "planRestoration now d a = Inr r \<Longrightarrow>
     pl_allocationId r = ra_id a \<and> pl_creditLotId r = ra_creditLotId a
     \<and> pl_amountKobo r + restoredAmount a d = ra_amountKobo a \<and> 0 \<le> pl_amountKobo r
     \<and> (\<exists>l\<in>set (creditLots d). lot_id l = ra_creditLotId a \<and> lot_tenantId l = ra_tenantId a
          \<and> now < lot_expiresAt l)"
  by (auto simp: planRestoration_def allocationLot_def find_Some_iff Let_def
      split: option.splits if_splits)

text \<open>
  A restoration plan puts back exactly what the debit's allocations still owe, allocation by
  allocation: each planned amount is positive and, together with what was restored before, equals
  the allocation; every lot it restores is unexpired; and the plan totals the allocated amount
  less the restored one.
\<close>

theorem planRestorations_exact:
  assumes "planRestorations t e now d = Inr rs"
  shows "(\<forall>r\<in>set rs. 0 < pl_amountKobo r \<and> (\<exists>a\<in>set (redemptionAllocations d).
            ra_id a = pl_allocationId r \<and> ra_redemptionLedgerEntryId a = e
            \<and> pl_amountKobo r + restoredAmount a d = ra_amountKobo a
            \<and> (\<exists>l\<in>set (creditLots d). lot_id l = pl_creditLotId r \<and> now < lot_expiresAt l)))
    \<and> rs \<noteq> []
    \<and> sum_list (map pl_amountKobo rs) =
        sum_list (map (\<lambda>a. ra_amountKobo a - restoredAmount a d) (debitAllocations t e d))"
proof -
  from assms obtain ps where ps: "list_all2 (\<lambda>a p. planRestoration now d a = Inr p) (debitAllocations t e d) ps"
    and rs: "rs = filter (\<lambda>r. pl_amountKobo r > 0) ps" "rs \<noteq> []"
    by (auto simp: planRestorations_def map_results_Inr[symmetric] Let_def split: sum.splits if_splits)
  have "sum_list (map pl_amountKobo (filter (\<lambda>r. pl_amountKobo r > 0) qs)) =
      sum_list (map (\<lambda>a. ra_amountKobo a - restoredAmount a d) as)"
    if "list_all2 (\<lambda>a p. planRestoration now d a = Inr p) as qs" for as qs
    using that by (induction rule: list_all2_induct) (auto dest: planRestoration_Inr)
  from this[OF ps] have "sum_list (map pl_amountKobo rs) =
      sum_list (map (\<lambda>a. ra_amountKobo a - restoredAmount a d) (debitAllocations t e d))"
    by (simp add: rs)
  moreover have "\<exists>a\<in>set (redemptionAllocations d).
            ra_id a = pl_allocationId r \<and> ra_redemptionLedgerEntryId a = e
            \<and> pl_amountKobo r + restoredAmount a d = ra_amountKobo a
            \<and> (\<exists>l\<in>set (creditLots d). lot_id l = pl_creditLotId r \<and> now < lot_expiresAt l)"
    if "r \<in> set ps" for r
  proof -
    obtain i where i: "i < length ps" "r = ps ! i" using \<open>r \<in> set ps\<close> by (auto simp: in_set_conv_nth)
    define a where "a = debitAllocations t e d ! i"
    have a: "a \<in> set (debitAllocations t e d)" "planRestoration now d a = Inr r"
      using list_all2_nthD2[OF ps i(1)] list_all2_lengthD[OF ps] i by (simp_all add: a_def)
    have "a \<in> set (redemptionAllocations d)" "ra_redemptionLedgerEntryId a = e"
      using a(1) by (simp_all add: debitAllocations_def)
    with planRestoration_Inr[OF a(2)] show ?thesis by metis
  qed
  ultimately show ?thesis using rs(2) by (simp add: rs(1))
qed

theorem planRestorations_exact_witness:
  "\<exists>rs. planRestorations ''T'' ''L'' demo_now
      (demo_db\<lparr>redemptionAllocations := [\<lparr> ra_id = ''a'', ra_tenantId = ''T'', ra_redemptionId = Some ''R'',
         ra_adjustmentId = None, ra_redemptionLedgerEntryId = ''L'', ra_creditLotId = ''l1'',
         ra_amountKobo = 20000, ra_allocationOrder = 1 \<rparr>]\<rparr>) = Inr rs
    \<and> sum_list (map pl_amountKobo rs) = 20000"
  (is "\<exists>rs. planRestorations _ _ _ ?d = _ \<and> _")
proof -
  have "map_sum (\<lambda>e. e) length (planRestorations ''T'' ''L'' demo_now ?d) = Inr 1" by code_simp
  then obtain rs where r: "planRestorations ''T'' ''L'' demo_now ?d = Inr rs"
    by (cases "planRestorations ''T'' ''L'' demo_now ?d") auto
  have "sum_list (map (\<lambda>a. ra_amountKobo a - restoredAmount a ?d) (debitAllocations ''T'' ''L'' ?d)) = 20000"
    by code_simp
  with planRestorations_exact[OF r] r show ?thesis by auto
qed

end
