(* ===== verification/Earn_Policy.thy ===== *)
theory Earn_Policy
  imports Schema
begin

text \<open>
  \<^verbatim>\<open>src/common/balance/earn-policy.ts\<close> and \<^verbatim>\<open>src/common/redemption-policy.service.ts\<close>: what a
  purchase earns, whether it needs a supervisor, how much of a basket may be redeemed, and the
  fingerprints of the policies an approval is bound to. A policy is the branch's row of
  \<open>PolicyConfiguration\<close>, or \<open>None\<close> and the configuration's values.
\<close>

subsection \<open>Earning\<close>

record EarnPolicyValues =
  ep_version :: int
  ep_defaultEarnRateBps :: int
  ep_purchaseFlagThresholdKobo :: int
  ep_purchaseApprovalThresholdKobo :: int
  ep_purchaseAmountCeilingKobo :: int

definition config_or :: "env \<Rightarrow> string \<Rightarrow> int \<Rightarrow> int" where
  "config_or env key def = (case configGet env key of None \<Rightarrow> def | Some v \<Rightarrow> v)"

definition calculateEarnAmountKobo :: "int \<Rightarrow> int \<Rightarrow> svc_error + int" where
  "calculateEarnAmountKobo paidAmountKobo earnRateBps =
     (if paidAmountKobo < 0 \<or> earnRateBps < 0
      then Inl (RangeError ''Earn inputs cannot be negative'')
      else Inr (bigint_div (paidAmountKobo * earnRateBps + 9999) 10000))"

definition resolveEarnRateBps :: "env \<Rightarrow> EarnPolicyValues option \<Rightarrow> int" where
  "resolveEarnRateBps env policy =
     (case policy of Some p \<Rightarrow> ep_defaultEarnRateBps p
                   | None \<Rightarrow> config_or env ''DEFAULT_EARN_RATE_BPS'' 200)"

definition flagThresholdKobo :: "env \<Rightarrow> EarnPolicyValues option \<Rightarrow> int" where
  "flagThresholdKobo env policy =
     (case policy of Some p \<Rightarrow> js_Number (ep_purchaseFlagThresholdKobo p)
                   | None \<Rightarrow> config_or env ''PURCHASE_FLAG_THRESHOLD_KOBO'' 10000000)"

definition approvalThresholdKobo :: "env \<Rightarrow> EarnPolicyValues option \<Rightarrow> int" where
  "approvalThresholdKobo env policy =
     (case policy of Some p \<Rightarrow> js_Number (ep_purchaseApprovalThresholdKobo p)
                   | None \<Rightarrow> config_or env ''PURCHASE_APPROVAL_THRESHOLD_KOBO'' 20000000)"

definition resolveEarnCaptureStatus ::
  "int \<Rightarrow> env \<Rightarrow> EarnPolicyValues option \<Rightarrow> ReceiptCaptureStatus" where
  "resolveEarnCaptureStatus purchaseAmountKobo env policy =
     (if purchaseAmountKobo > approvalThresholdKobo env policy
      then ReceiptCaptureStatus.PENDING_APPROVAL
      else if purchaseAmountKobo > flagThresholdKobo env policy
      then ReceiptCaptureStatus.FLAGGED
      else ReceiptCaptureStatus.CAPTURED)"

definition earn_policy_json :: "env \<Rightarrow> EarnPolicyValues option \<Rightarrow> json" where
  "earn_policy_json env policy =
     JObj [(''purchaseFlagThresholdKobo'', JNum (js_Number
              (case policy of Some p \<Rightarrow> ep_purchaseFlagThresholdKobo p
               | None \<Rightarrow> config_or env ''PURCHASE_FLAG_THRESHOLD_KOBO'' 10000000))),
           (''purchaseApprovalThresholdKobo'', JNum (js_Number
              (case policy of Some p \<Rightarrow> ep_purchaseApprovalThresholdKobo p
               | None \<Rightarrow> config_or env ''PURCHASE_APPROVAL_THRESHOLD_KOBO'' 20000000))),
           (''purchaseAmountCeilingKobo'', JNum (js_Number
              (case policy of Some p \<Rightarrow> ep_purchaseAmountCeilingKobo p
               | None \<Rightarrow> config_or env ''PURCHASE_AMOUNT_CEILING_KOBO'' 100000000))),
           (''defaultEarnRateBps'', JNum
              (case policy of Some p \<Rightarrow> ep_defaultEarnRateBps p
               | None \<Rightarrow> config_or env ''DEFAULT_EARN_RATE_BPS'' 200)),
           (''version'', (case policy of Some p \<Rightarrow> JNum (ep_version p) | None \<Rightarrow> JNull))]"

definition getEarnApprovalPolicyVersion :: "env \<Rightarrow> EarnPolicyValues option \<Rightarrow> string" where
  "getEarnApprovalPolicyVersion env policy =
     sha256hex env (stableStringify (earn_policy_json env policy))"

definition buildSettlementPolicyVersion :: "env \<Rightarrow> string \<Rightarrow> string \<Rightarrow> string" where
  "buildSettlementPolicyVersion env redemptionPolicyVersion earnPolicyVersion =
     ''settlement-v1:'' @ sha256hex env (JSON_stringify (JObj
        [(''redemptionPolicyVersion'', JStr redemptionPolicyVersion),
         (''earnPolicyVersion'', JStr earnPolicyVersion)]))"

definition isSettlementPolicyVersion :: "string \<Rightarrow> bool" where
  "isSettlementPolicyVersion version = js_startsWith version ''settlement-v1:''"

subsection \<open>Redeeming\<close>

record RedemptionPolicyValues =
  rp_minRedemptionKobo :: int
  rp_maxRedemptionBasketPercent :: int
  rp_redemptionApprovalThresholdKobo :: int
  rp_version :: "int option"

record RedemptionPolicyResult =
  pr_minimumRedemptionKobo :: int
  pr_basketCapKobo :: int
  pr_maximumAllowedKobo :: int
  pr_approvalThresholdKobo :: int
  pr_requiresApproval :: bool
  pr_policyVersion :: string

definition redemption_policyVersion :: "env \<Rightarrow> RedemptionPolicyValues option \<Rightarrow> string" where
  "redemption_policyVersion env configuredPolicy =
     (case configuredPolicy of
        None \<Rightarrow> sha256hex env (JSON_stringify (JObj
          [(''minimumRedemptionKobo'', JNum (config_or env ''MIN_REDEMPTION_KOBO'' 50000)),
           (''maxBasketPercent'', JNum (config_or env ''MAX_REDEMPTION_BASKET_PERCENT'' 30)),
           (''approvalThresholdKobo'',
              JNum (config_or env ''REDEMPTION_APPROVAL_THRESHOLD_KOBO'' 500000))]))
      | Some p \<Rightarrow> sha256hex env (JSON_stringify (JObj
          [(''minimumRedemptionKobo'', JStr (show_int (rp_minRedemptionKobo p))),
           (''maxBasketPercent'', JNum (rp_maxRedemptionBasketPercent p)),
           (''approvalThresholdKobo'', JStr (show_int (rp_redemptionApprovalThresholdKobo p))),
           (''version'', opt_json JNum (rp_version p))])))"

definition redemption_evaluate ::
  "env \<Rightarrow> int \<Rightarrow> int \<Rightarrow> int \<Rightarrow> RedemptionPolicyValues option \<Rightarrow> RedemptionPolicyResult" where
  "redemption_evaluate env requestedAmountKobo basketAmountKobo activeBalanceKobo configuredPolicy =
     (let minimumRedemptionKobo =
            (case configuredPolicy of Some p \<Rightarrow> rp_minRedemptionKobo p
             | None \<Rightarrow> config_or env ''MIN_REDEMPTION_KOBO'' 50000);
          maxBasketPercent =
            (case configuredPolicy of Some p \<Rightarrow> rp_maxRedemptionBasketPercent p
             | None \<Rightarrow> config_or env ''MAX_REDEMPTION_BASKET_PERCENT'' 30);
          threshold =
            (case configuredPolicy of Some p \<Rightarrow> rp_redemptionApprovalThresholdKobo p
             | None \<Rightarrow> config_or env ''REDEMPTION_APPROVAL_THRESHOLD_KOBO'' 500000);
          basketCapKobo = bigint_div (basketAmountKobo * maxBasketPercent) 100;
          maximumAllowedKobo =
            (if activeBalanceKobo < basketCapKobo then activeBalanceKobo else basketCapKobo) in
      \<lparr> pr_minimumRedemptionKobo = minimumRedemptionKobo,
        pr_basketCapKobo = basketCapKobo,
        pr_maximumAllowedKobo = maximumAllowedKobo,
        pr_approvalThresholdKobo = threshold,
        pr_requiresApproval = requestedAmountKobo > threshold,
        pr_policyVersion = redemption_policyVersion env configuredPolicy \<rparr>)"

text \<open>\<open>assertRedemptionPolicyAllowsRequest\<close> of \<^verbatim>\<open>redemptions.service.ts\<close>.\<close>

definition assertRedemptionPolicyAllowsRequest ::
  "int \<Rightarrow> RedemptionPolicyResult \<Rightarrow> svc_error + unit" where
  "assertRedemptionPolicyAllowsRequest requestedAmountKobo policy =
     (if requestedAmountKobo < pr_minimumRedemptionKobo policy
      then Inl (DomainHttpException 422 ''MINIMUM_REDEMPTION_NOT_MET''
                  ''Requested redemption is below the minimum amount'')
      else if pr_maximumAllowedKobo policy \<le> 0
      then Inl (DomainHttpException 422 ''REDEMPTION_NOT_ALLOWED''
                  ''No redemption amount is currently allowed'')
      else if requestedAmountKobo > pr_basketCapKobo policy
      then Inl (DomainHttpException 422 ''REDEMPTION_BASKET_CAP_EXCEEDED''
                  ''Requested redemption exceeds the basket cap'')
      else if requestedAmountKobo > pr_maximumAllowedKobo policy
      then Inl (DomainHttpException 422 ''INSUFFICIENT_BALANCE''
                  ''Active balance is lower than requested redemption amount'')
      else Inr ())"

text \<open>The policy values a branch's configuration row stands for, as the services select them.\<close>

definition earn_policy_of :: "PolicyConfiguration \<Rightarrow> EarnPolicyValues" where
  "earn_policy_of p =
     \<lparr> ep_version = pc_version p,
       ep_defaultEarnRateBps = pc_defaultEarnRateBps p,
       ep_purchaseFlagThresholdKobo = pc_purchaseFlagThresholdKobo p,
       ep_purchaseApprovalThresholdKobo = pc_purchaseApprovalThresholdKobo p,
       ep_purchaseAmountCeilingKobo = pc_purchaseAmountCeilingKobo p \<rparr>"

definition redemption_policy_of :: "PolicyConfiguration \<Rightarrow> RedemptionPolicyValues" where
  "redemption_policy_of p =
     \<lparr> rp_minRedemptionKobo = pc_minRedemptionKobo p,
       rp_maxRedemptionBasketPercent = pc_maxRedemptionBasketPercent p,
       rp_redemptionApprovalThresholdKobo = pc_redemptionApprovalThresholdKobo p,
       rp_version = Some (pc_version p) \<rparr>"

subsection \<open>Properties\<close>

lemma calculateEarnAmountKobo_ok:
  "0 \<le> p \<Longrightarrow> 0 \<le> r \<Longrightarrow> calculateEarnAmountKobo p r = Inr ((p * r + 9999) div 10000)"
  by (simp add: calculateEarnAmountKobo_def bigint_div_nonneg)

lemma calculateEarnAmountKobo_Inr:
  "calculateEarnAmountKobo p r = Inr v \<longleftrightarrow> 0 \<le> p \<and> 0 \<le> r \<and> v = (p * r + 9999) div 10000"
  by (auto simp: calculateEarnAmountKobo_def bigint_div_nonneg)

lemma calculateEarnAmountKobo_nonneg: "calculateEarnAmountKobo p r = Inr v \<Longrightarrow> 0 \<le> v"
  by (auto simp: calculateEarnAmountKobo_Inr intro!: div_int_pos_iff[THEN iffD2] add_nonneg_nonneg)

text \<open>
  C27: the credit a purchase earns is the least amount of whole kobo that is not below the exact
  share \<open>paid * rate / 10000\<close>: it never undercuts the share, and exceeds it by less than one
  kobo. Negative inputs are refused.
\<close>

theorem calculateEarnAmountKobo_ceiling:
  "calculateEarnAmountKobo paid rate =
     (if paid < 0 \<or> rate < 0 then Inl (RangeError ''Earn inputs cannot be negative'')
      else Inr (- ((- (paid * rate)) div 10000)))"
proof (cases "paid < 0 \<or> rate < 0")
  case True
  then show ?thesis by (auto simp: calculateEarnAmountKobo_def)
next
  case False
  define x where "x = paid * rate"
  have "(x + 9999) div 10000 = - ((- x) div 10000)" by linarith
  with False show ?thesis by (auto simp: calculateEarnAmountKobo_ok x_def)
qed

text \<open>
  Splitting a purchase never earns less than the whole, and by at most one kobo more.
\<close>

theorem calculateEarnAmountKobo_split:
  assumes "calculateEarnAmountKobo p rate = Inr a" and "calculateEarnAmountKobo q rate = Inr b"
    and "calculateEarnAmountKobo (p + q) rate = Inr c"
  shows "c \<le> a + b \<and> a + b \<le> c + 1"
proof -
  define x y where "x = p * rate" and "y = q * rate"
  have "a = (x + 9999) div 10000" "b = (y + 9999) div 10000" "c = (x + y + 9999) div 10000"
    using assms by (simp_all add: calculateEarnAmountKobo_Inr x_def y_def distrib_right)
  then show ?thesis by linarith
qed

theorem calculateEarnAmountKobo_split_witness:
  "calculateEarnAmountKobo 150 200 = Inr 3 \<and> calculateEarnAmountKobo 25 200 = Inr 1
   \<and> calculateEarnAmountKobo (150 + 25) 200 = Inr 4 \<and> (4::int) \<le> 3 + 1"
proof -
  have h: "calculateEarnAmountKobo 150 200 = Inr 3" "calculateEarnAmountKobo 25 200 = Inr 1"
    "calculateEarnAmountKobo (150 + 25) 200 = Inr 4"
    by code_simp+
  show ?thesis using calculateEarnAmountKobo_split[OF h] h by simp
qed

lemma evaluate_fields [simp]:
  "pr_maximumAllowedKobo (redemption_evaluate env req basket bal p) =
     min bal (pr_basketCapKobo (redemption_evaluate env req basket bal p))"
  "pr_policyVersion (redemption_evaluate env req basket bal p) = redemption_policyVersion env p"
  by (simp_all add: redemption_evaluate_def Let_def min_def)

lemma assertRedemptionPolicyAllowsRequest_Inr:
  "assertRedemptionPolicyAllowsRequest req policy = Inr u \<longleftrightarrow>
     pr_minimumRedemptionKobo policy \<le> req \<and> 0 < pr_maximumAllowedKobo policy
     \<and> req \<le> pr_basketCapKobo policy \<and> req \<le> pr_maximumAllowedKobo policy"
  by (auto simp: assertRedemptionPolicyAllowsRequest_def)

lemma settlement_version_recognised [simp]:
  "isSettlementPolicyVersion (buildSettlementPolicyVersion env r e)"
  by (simp add: isSettlementPolicyVersion_def buildSettlementPolicyVersion_def js_startsWith_def)

text \<open>
  A redemption request passes the policy exactly when it is at least the minimum and at
  most both the customer's active balance and the configured percentage of the basket (and these
  leave something to redeem).
\<close>

theorem redemption_policy_allows_iff:
  "assertRedemptionPolicyAllowsRequest req (redemption_evaluate env req basket bal policy) = Inr () \<longleftrightarrow>
     (case policy of Some p \<Rightarrow> rp_minRedemptionKobo p
                   | None \<Rightarrow> config_or env ''MIN_REDEMPTION_KOBO'' 50000) \<le> req
     \<and> req \<le> bal
     \<and> req \<le> bigint_div (basket * (case policy of Some p \<Rightarrow> rp_maxRedemptionBasketPercent p
                 | None \<Rightarrow> config_or env ''MAX_REDEMPTION_BASKET_PERCENT'' 30)) 100
     \<and> 0 < bal
     \<and> 0 < bigint_div (basket * (case policy of Some p \<Rightarrow> rp_maxRedemptionBasketPercent p
                 | None \<Rightarrow> config_or env ''MAX_REDEMPTION_BASKET_PERCENT'' 30)) 100"
  by (auto simp: assertRedemptionPolicyAllowsRequest_def redemption_evaluate_def Let_def
      split: option.splits)

end
