(* ===== verification/Messages.thy ===== *)
theory Messages
  imports Database
begin

text \<open>
  The records a service leaves for others: the payload builders of
  \<^verbatim>\<open>src/jobs/sms.templates.ts\<close> and \<open>AuditService.recordWithClient\<close> of
  \<^verbatim>\<open>src/modules/audit/audit.service.ts\<close>, with the JSON forms of the enumerations.
\<close>

subsection \<open>Enumerations as JSON\<close>

fun sms_status_str :: "SmsMessageStatus \<Rightarrow> string" where
  "sms_status_str SmsMessageStatus.QUEUED = ''QUEUED''"
| "sms_status_str SmsMessageStatus.SENT = ''SENT''"
| "sms_status_str SmsMessageStatus.DELIVERED = ''DELIVERED''"
| "sms_status_str SmsMessageStatus.FAILED = ''FAILED''"
| "sms_status_str SmsMessageStatus.SUPPRESSED = ''SUPPRESSED''"

fun target_str :: "ApprovalTargetType \<Rightarrow> string" where
  "target_str ApprovalTargetType.EARN = ''EARN''"
| "target_str ApprovalTargetType.REDEEM = ''REDEEM''"

fun kind_str :: "AdjustmentKind \<Rightarrow> string" where
  "kind_str AdjustmentKind.CREDIT = ''CREDIT''"
| "kind_str AdjustmentKind.DEBIT = ''DEBIT''"

fun capture_str :: "ReceiptCaptureStatus \<Rightarrow> string" where
  "capture_str ReceiptCaptureStatus.CAPTURED = ''CAPTURED''"
| "capture_str ReceiptCaptureStatus.FLAGGED = ''FLAGGED''"
| "capture_str ReceiptCaptureStatus.PENDING_APPROVAL = ''PENDING_APPROVAL''"

fun review_str :: "ReceiptReviewStatus \<Rightarrow> string" where
  "review_str ReceiptReviewStatus.PENDING = ''PENDING''"
| "review_str ReceiptReviewStatus.APPROVED = ''APPROVED''"
| "review_str ReceiptReviewStatus.REJECTED = ''REJECTED''"

definition json_opt_str :: "string option \<Rightarrow> json" where
  "json_opt_str v = opt_json JStr v"

definition json_date :: "int \<Rightarrow> json" where
  "json_date t = JStr (toISOString t)"

subsection \<open>SMS payloads\<close>

definition buildEarnConfirmedSmsPayload ::
  "string \<Rightarrow> string \<Rightarrow> string \<Rightarrow> string \<Rightarrow> int \<Rightarrow> json" where
  "buildEarnConfirmedSmsPayload receiptId transactionId customerId phoneE164 creditKobo =
     JObj [(''version'', JNum 1), (''receiptId'', JStr receiptId),
           (''transactionId'', JStr transactionId), (''customerId'', JStr customerId),
           (''phoneE164'', JStr phoneE164), (''template'', JStr ''earn-confirmed''),
           (''creditKobo'', JStr (show_int creditKobo))]"

definition buildRedemptionConfirmedSmsPayload ::
  "string \<Rightarrow> string \<Rightarrow> string \<Rightarrow> string \<Rightarrow> string \<Rightarrow> int \<Rightarrow> int option \<Rightarrow> int option \<Rightarrow>
   string option option \<Rightarrow> int \<Rightarrow> json" where
  "buildRedemptionConfirmedSmsPayload receiptId transactionId redemptionId customerId phoneE164
      redeemedKobo netPaidKobo earnedKobo earnTransactionId remainingBalanceKobo =
     JObj ([(''version'', JNum 1), (''receiptId'', JStr receiptId),
            (''transactionId'', JStr transactionId), (''redemptionId'', JStr redemptionId),
            (''customerId'', JStr customerId), (''phoneE164'', JStr phoneE164),
            (''template'', JStr ''redemption-confirmed''),
            (''redeemedKobo'', JStr (show_int redeemedKobo))]
       @ (case netPaidKobo of None \<Rightarrow> [] | Some v \<Rightarrow> [(''netPaidKobo'', JStr (show_int v))])
       @ (case earnedKobo of None \<Rightarrow> [] | Some v \<Rightarrow> [(''earnedKobo'', JStr (show_int v))])
       @ (case earnTransactionId of None \<Rightarrow> [] | Some v \<Rightarrow> [(''earnTransactionId'', json_opt_str v)])
       @ [(''remainingBalanceKobo'', JStr (show_int remainingBalanceKobo))])"

definition buildTransactionReversedSmsPayload :: "string \<Rightarrow> string \<Rightarrow> string option \<Rightarrow> json" where
  "buildTransactionReversedSmsPayload transactionId phoneE164 receiptId =
     JObj [(''version'', JNum 1), (''receiptId'', json_opt_str receiptId),
           (''transactionId'', JStr transactionId), (''phoneE164'', JStr phoneE164),
           (''template'', JStr ''transaction-reversed'')]"

definition buildBalanceAdjustedSmsPayload ::
  "string \<Rightarrow> string \<Rightarrow> AdjustmentKind \<Rightarrow> string \<Rightarrow> string option \<Rightarrow> int \<Rightarrow> int option \<Rightarrow> json" where
  "buildBalanceAdjustedSmsPayload transactionId adjustmentId kind phoneE164 receiptId amountKobo
      remainingBalanceKobo =
     JObj ([(''version'', JNum 1), (''receiptId'', json_opt_str receiptId),
            (''transactionId'', JStr transactionId), (''adjustmentId'', JStr adjustmentId),
            (''kind'', JStr (kind_str kind)), (''phoneE164'', JStr phoneE164),
            (''template'', JStr ''balance-adjusted''), (''amountKobo'', JStr (show_int amountKobo))]
       @ (case remainingBalanceKobo of None \<Rightarrow> []
          | Some v \<Rightarrow> [(''remainingBalanceKobo'', JStr (show_int v))]))"

subsection \<open>Audit log\<close>

definition recordWithClient ::
  "string \<Rightarrow> string option \<Rightarrow> string \<Rightarrow> string \<Rightarrow> string option \<Rightarrow> json \<Rightarrow> unit dbtx" where
  "recordWithClient tenantId actorId action entityType entityId metadata =
     auditLog_create
       \<lparr> au_tenantId = tenantId,
         au_actorTenantId = (case actorId of Some a \<Rightarrow> if a = [] then None else Some tenantId | None \<Rightarrow> None),
         au_actorId = actorId, au_action = action, au_entityType = entityType,
         au_entityId = entityId, au_metadata = metadata \<rparr>"

lemma recordWithClient_frame [frame_intros]:
  "(\<And>d v. f (d\<lparr>auditLogs := v\<rparr>) = f d) \<Longrightarrow> tx_frame f (recordWithClient t a ac et e m)"
  unfolding recordWithClient_def by (rule auditLog_create_frame)

end
