(* ===== verification/Settlement.thy ===== *)
theory Settlement
  imports Lot_Allocation Earn_Policy Messages
begin

text \<open>
  \<^verbatim>\<open>src/common/balance/redemption-settlement.ts\<close>: the part of a redemption that moves money, for a
  redemption confirmed at the till and for one a supervisor approves later. The debit goes
  through the allocator's contract; the net payment earns credit in a new lot.
\<close>

record RedemptionSettlementInput =
  si_tenantId :: string
  si_customerId :: string
  si_receiptId :: string
  si_redemptionId :: string
  si_basketAmountKobo :: int
  si_redeemedAmountKobo :: int
  si_occurredAt :: int
  si_now :: int
  si_actorTenantId :: string
  si_actorId :: string
  si_correlationId :: string
  si_phoneE164 :: string
  si_earnRateBps :: int

record RedemptionSettlementResult =
  sr_redemptionLedgerEntryId :: string
  sr_earnLedgerEntryId :: "string option"
  sr_earnedKobo :: int
  sr_netPaidAmountKobo :: int
  sr_remainingBalanceKobo :: int
  sr_allocations :: "PersistedAllocation list"
  sr_smsStatus :: SmsMessageStatus

text \<open>\<open>redemption.update\<close>: the new ledger entry must not belong to another redemption.\<close>

definition is_redemption :: "string \<Rightarrow> string \<Rightarrow> Redemption \<Rightarrow> bool" where
  "is_redemption tenantId redemptionId r = (rd_tenantId r = tenantId \<and> rd_id r = redemptionId)"

definition redemption_confirm :: "string \<Rightarrow> string \<Rightarrow> string \<Rightarrow> int \<Rightarrow> int \<Rightarrow> unit dbtx" where
  "redemption_confirm tenantId redemptionId ledgerEntryId amount now = (\<lambda>d.
     if list_ex (\<lambda>r. \<not> is_redemption tenantId redemptionId r \<and> rd_ledgerEntryId r = Some ledgerEntryId)
          (redemptions d)
     then Inl (p2002 [''ledgerEntryId''])
     else require_updated (redemption_updateMany (is_redemption tenantId redemptionId)
       (\<lambda>r. r\<lparr>rd_ledgerEntryId := Some ledgerEntryId, rd_confirmedAmountKobo := Some amount,
              rd_confirmedAt := Some now, rd_status := RedemptionStatus.CONFIRMED\<rparr>)) d)"

definition settle_debit :: "env \<Rightarrow> RedemptionSettlementInput \<Rightarrow> (string \<times> PersistedAllocation list) dbtx" where
  "settle_debit env i =
     tx_bind (loyaltyLedgerEntry_create env (\<lambda>new_id.
       \<lparr> le_id = new_id, le_tenantId = si_tenantId i, le_customerId = si_customerId i,
         le_receiptId = Some (si_receiptId i), le_type = LedgerEntryType.REDEEM,
         le_direction = LedgerEntryDirection.DEBIT, le_amountKobo = si_redeemedAmountKobo i,
         le_correlationId = si_correlationId i, le_reversesEntryId = None,
         le_createdByTenantId = si_actorTenantId i, le_createdBy = si_actorId i,
         le_effectiveAt = si_occurredAt i \<rparr>)) (\<lambda>entry.
     tx_bind (redemption_confirm (si_tenantId i) (si_redemptionId i) (le_id entry)
                (si_redeemedAmountKobo i) (si_now i)) (\<lambda>_.
     tx_bind (allocateDebit env
       \<lparr> in_tenantId = si_tenantId i, in_customerId = si_customerId i, in_creditLotId = None,
         in_debitLedgerEntryId = le_id entry, in_amountKobo = si_redeemedAmountKobo i,
         in_now = si_now i, in_redemptionId = Some (si_redemptionId i), in_adjustmentId = None,
         in_excludedCreditLotIds = [] \<rparr>) (\<lambda>allocations.
     tx_bind (tx_unless (sum_list (map pa_amountKobo allocations) = si_redeemedAmountKobo i)
                (PlainError ''Redemption allocations do not match the debit amount'')) (\<lambda>_.
     tx_return (le_id entry, allocations)))))"

definition settle_earn :: "env \<Rightarrow> RedemptionSettlementInput \<Rightarrow> int \<Rightarrow> string option dbtx" where
  "settle_earn env i earnedKobo =
     (if earnedKobo > 0 then
        tx_bind (loyaltyLedgerEntry_create env (\<lambda>new_id.
          \<lparr> le_id = new_id, le_tenantId = si_tenantId i, le_customerId = si_customerId i,
            le_receiptId = Some (si_receiptId i), le_type = LedgerEntryType.EARN,
            le_direction = LedgerEntryDirection.CREDIT, le_amountKobo = earnedKobo,
            le_correlationId = si_correlationId i @ '':earn'', le_reversesEntryId = None,
            le_createdByTenantId = si_actorTenantId i, le_createdBy = si_actorId i,
            le_effectiveAt = si_occurredAt i \<rparr>)) (\<lambda>entry.
        tx_bind (creditLot_create env (\<lambda>new_id.
          \<lparr> lot_id = new_id, lot_tenantId = si_tenantId i, lot_customerId = si_customerId i,
            lot_earnLedgerEntryId = le_id entry, lot_originalAmountKobo = earnedKobo,
            lot_remainingAmountKobo = earnedKobo, lot_earnedAt = si_occurredAt i,
            lot_expiresAt = addUtcMonthsClamped (si_occurredAt i) 12 \<rparr>)) (\<lambda>_.
        tx_return (Some (le_id entry))))
      else tx_return None)"

definition settle_notify ::
  "env \<Rightarrow> RedemptionSettlementInput \<Rightarrow> string \<Rightarrow> string option \<Rightarrow> int \<Rightarrow> int \<Rightarrow> int \<Rightarrow> SmsMessageStatus dbtx" where
  "settle_notify env i entryId earnEntryId netPaid earnedKobo remaining =
     (let payload = buildRedemptionConfirmedSmsPayload (si_receiptId i) entryId (si_redemptionId i)
            (si_customerId i) (si_phoneE164 i) (si_redeemedAmountKobo i) (Some netPaid)
            (Some earnedKobo) (Some earnEntryId) remaining in
      tx_bind (outboxEvent_create env (\<lambda>new_id.
        \<lparr> ob_id = new_id, ob_tenantId = si_tenantId i, ob_aggregateType = ''redemption'',
          ob_aggregateId = si_redemptionId i, ob_eventType = ''sms.send'', ob_payload = payload,
          ob_nextAttemptAt = Some (si_now i) \<rparr>)) (\<lambda>event.
      tx_bind (smsMessage_create env (\<lambda>new_id.
        \<lparr> sms_id = new_id, sms_tenantId = si_tenantId i, sms_receiptId = Some (si_receiptId i),
          sms_outboxEventId = ob_id event, sms_ledgerEntryId = Some entryId,
          sms_redemptionId = Some (si_redemptionId i), sms_adjustmentId = None,
          sms_phoneE164 = si_phoneE164 i, sms_template = ''redemption-confirmed'',
          sms_payload = payload, sms_status = SmsMessageStatus.QUEUED, sms_queuedAt = si_now i \<rparr>)) (\<lambda>msg.
      tx_return (sms_status msg))))"

definition executeRedemptionSettlement ::
  "env \<Rightarrow> RedemptionSettlementInput \<Rightarrow> RedemptionSettlementResult dbtx" where
  "executeRedemptionSettlement env i =
     tx_bind (tx_unless (\<not> (si_basketAmountKobo i < 0 \<or> si_redeemedAmountKobo i < 0))
                (PlainError ''Settlement amounts cannot be negative'')) (\<lambda>_.
     let netPaidAmountKobo = si_basketAmountKobo i - si_redeemedAmountKobo i in
     tx_bind (tx_unless (\<not> netPaidAmountKobo < 0)
                (PlainError ''Redemption amount cannot exceed the basket amount'')) (\<lambda>_.
     tx_bind (settle_debit env i) (\<lambda>(entryId, allocations).
     tx_bind (tx_lift (calculateEarnAmountKobo netPaidAmountKobo (si_earnRateBps i))) (\<lambda>earnedKobo.
     tx_bind (settle_earn env i earnedKobo) (\<lambda>earnEntryId.
     tx_bind (tx_read (getActiveBalanceKobo (si_tenantId i) (si_customerId i) (si_now i))) (\<lambda>remaining.
     tx_bind (settle_notify env i entryId earnEntryId netPaidAmountKobo earnedKobo remaining) (\<lambda>status.
     tx_return
       \<lparr> sr_redemptionLedgerEntryId = entryId, sr_earnLedgerEntryId = earnEntryId,
         sr_earnedKobo = earnedKobo, sr_netPaidAmountKobo = netPaidAmountKobo,
         sr_remainingBalanceKobo = remaining, sr_allocations = allocations,
         sr_smsStatus = status \<rparr>)))))))"

subsection \<open>Effect on the accounts\<close>

abbreviation settlement_account :: "RedemptionSettlementInput \<Rightarrow> account" where
  "settlement_account i \<equiv> (si_tenantId i, si_customerId i)"

lemma redemption_confirm_frame [frame_intros]:
  "(\<And>d v. f (d\<lparr>redemptions := v\<rparr>) = f d) \<Longrightarrow> tx_frame f (redemption_confirm t r l a n)"
  using require_updated_frame[OF redemption_updateMany_frame, of f]
  by (fastforce simp: redemption_confirm_def tx_frame_def)

lemma settle_notify_frame [frame_intros]:
  assumes "\<And>d v w. f (d\<lparr>idCounter := w, outboxEvents := v\<rparr>) = f d"
    and "\<And>d v w. f (d\<lparr>idCounter := w, smsMessages := v\<rparr>) = f d"
  shows "tx_frame f (settle_notify env i e ee np ek r)"
  unfolding settle_notify_def Let_def by (intro frame_intros assms)

lemma settle_debit_effect:
  assumes "settle_debit env i d = Inr ((entryId, allocations), d')" and "money_at f d"
  shows "money_at f d'" and "0 < si_redeemedAmountKobo i"
    and "active_balance a (si_now i) d' = active_balance a (si_now i) d
      - (if a = settlement_account i then si_redeemedAmountKobo i else 0)"
proof -
  let ?in = "\<lambda>e. \<lparr> in_tenantId = si_tenantId i, in_customerId = si_customerId i, in_creditLotId = None,
         in_debitLedgerEntryId = e, in_amountKobo = si_redeemedAmountKobo i,
         in_now = si_now i, in_redemptionId = Some (si_redemptionId i), in_adjustmentId = None,
         in_excludedCreditLotIds = [] \<rparr>"
  from assms(1) obtain entry d1 d2 where
    le: "loyaltyLedgerEntry_create env (\<lambda>new_id.
       \<lparr> le_id = new_id, le_tenantId = si_tenantId i, le_customerId = si_customerId i,
         le_receiptId = Some (si_receiptId i), le_type = LedgerEntryType.REDEEM,
         le_direction = LedgerEntryDirection.DEBIT, le_amountKobo = si_redeemedAmountKobo i,
         le_correlationId = si_correlationId i, le_reversesEntryId = None,
         le_createdByTenantId = si_actorTenantId i, le_createdBy = si_actorId i,
         le_effectiveAt = si_occurredAt i \<rparr>) d = Inr (entry, d1)"
    and rc: "redemption_confirm (si_tenantId i) (si_redemptionId i) (le_id entry)
                (si_redeemedAmountKobo i) (si_now i) d1 = Inr ((), d2)"
    and al: "allocateDebit env (?in (le_id entry)) d2 = Inr (allocations, d')"
    by (auto simp: settle_debit_def tx_bind_eq_Inr)
  have m1: "money_at (bump f (settlement_account i) (- si_redeemedAmountKobo i)) d1"
    using tx_specD[OF loyaltyLedgerEntry_create_money assms(2) le]
    by (simp add: ledger_account_def signed_kobo_def)
  have m2: "money_at (bump f (settlement_account i) (- si_redeemedAmountKobo i)) d2"
    using m1 rc by (rule money_at_frameD) (rule redemption_confirm_frame, simp)
  note eff = allocateDebit_effect[OF al m2]
  show "money_at f d'" using eff(3) by simp
  show "0 < si_redeemedAmountKobo i" using eff(1) by simp
  have "creditLots d1 = creditLots d"
    using tx_frameD[OF loyaltyLedgerEntry_create_frame le, of creditLots] by simp
  moreover have "creditLots d2 = creditLots d1"
    using tx_frameD[OF redemption_confirm_frame rc, of creditLots] by simp
  ultimately have "active_balance a (si_now i) d2 = active_balance a (si_now i) d"
    by (simp add: active_balance_def getActiveBalanceKobo_def)
  moreover have "lots_wf d2" using m2 by (simp add: money_at_def)
  ultimately show "active_balance a (si_now i) d' = active_balance a (si_now i) d
      - (if a = settlement_account i then si_redeemedAmountKobo i else 0)"
    using fifo.debits_account[OF _ al, of a] by (simp add: debit_account_def)
qed

lemma settle_earn_effect:
  assumes "settle_earn env i earned d = Inr (r, d')" and "money_at f d" and "0 \<le> earned"
  shows "money_at f d'"
    and "active_balance a now d' = active_balance a now d
      + (if a = settlement_account i \<and> now < addUtcMonthsClamped (si_occurredAt i) 12 then earned else 0)"
proof -
  show "money_at f d'"
  proof (cases "earned > 0")
    case True
    from assms(1) True obtain entry d1 lot where
      le: "loyaltyLedgerEntry_create env (\<lambda>new_id.
          \<lparr> le_id = new_id, le_tenantId = si_tenantId i, le_customerId = si_customerId i,
            le_receiptId = Some (si_receiptId i), le_type = LedgerEntryType.EARN,
            le_direction = LedgerEntryDirection.CREDIT, le_amountKobo = earned,
            le_correlationId = si_correlationId i @ '':earn'', le_reversesEntryId = None,
            le_createdByTenantId = si_actorTenantId i, le_createdBy = si_actorId i,
            le_effectiveAt = si_occurredAt i \<rparr>) d = Inr (entry, d1)"
      and lot: "creditLot_create env (\<lambda>new_id.
          \<lparr> lot_id = new_id, lot_tenantId = si_tenantId i, lot_customerId = si_customerId i,
            lot_earnLedgerEntryId = le_id entry, lot_originalAmountKobo = earned,
            lot_remainingAmountKobo = earned, lot_earnedAt = si_occurredAt i,
            lot_expiresAt = addUtcMonthsClamped (si_occurredAt i) 12 \<rparr>) d1 = Inr (lot, d')"
      by (auto simp: settle_earn_def tx_bind_eq_Inr)
    have "money_at (bump f (settlement_account i) earned) d1"
      using tx_specD[OF loyaltyLedgerEntry_create_money assms(2) le]
      by (simp add: ledger_account_def signed_kobo_def)
    from tx_specD[OF creditLot_create_money this lot] True show ?thesis
      by (simp add: lot_account_def lot_ok_def)
  next
    case False
    with assms(1,2) show ?thesis by (simp add: settle_earn_def)
  qed
  have "creditLots d' = creditLots d \<and> earned = 0 \<or> 0 < earned \<and> (\<exists>x e. creditLots d' = creditLots d @
      [\<lparr> lot_id = x, lot_tenantId = si_tenantId i, lot_customerId = si_customerId i,
            lot_earnLedgerEntryId = e, lot_originalAmountKobo = earned,
            lot_remainingAmountKobo = earned, lot_earnedAt = si_occurredAt i,
            lot_expiresAt = addUtcMonthsClamped (si_occurredAt i) 12 \<rparr>])"
    using assms(1,3) by (auto simp: settle_earn_def tx_bind_eq_Inr loyaltyLedgerEntry_create_def
        creditLot_create_def create_row_eq_Inr split: if_splits)
  then show "active_balance a now d' = active_balance a now d
      + (if a = settlement_account i \<and> now < addUtcMonthsClamped (si_occurredAt i) 12 then earned else 0)"
    by (auto simp: active_balance_def getActiveBalanceKobo_def activeCreditLotWhere_def prod_eq_iff)
qed

lemma executeRedemptionSettlement_stages:
  assumes "executeRedemptionSettlement env i d = Inr (r, d')"
  obtains d1 d2 where
    "0 \<le> si_redeemedAmountKobo i" "si_redeemedAmountKobo i \<le> si_basketAmountKobo i"
    "settle_debit env i d = Inr ((sr_redemptionLedgerEntryId r, sr_allocations r), d1)"
    "calculateEarnAmountKobo (si_basketAmountKobo i - si_redeemedAmountKobo i) (si_earnRateBps i)
       = Inr (sr_earnedKobo r)"
    "settle_earn env i (sr_earnedKobo r) d1 = Inr (sr_earnLedgerEntryId r, d2)"
    "sr_remainingBalanceKobo r = getActiveBalanceKobo (si_tenantId i) (si_customerId i) (si_now i) d2"
    "sr_netPaidAmountKobo r = si_basketAmountKobo i - si_redeemedAmountKobo i"
    "settle_notify env i (sr_redemptionLedgerEntryId r) (sr_earnLedgerEntryId r)
       (sr_netPaidAmountKobo r) (sr_earnedKobo r) (sr_remainingBalanceKobo r) d2 = Inr (sr_smsStatus r, d')"
  using assms
  by (auto simp: executeRedemptionSettlement_def Let_def tx_bind_eq_Inr tx_lift_eq_Inr split: prod.splits)

lemma executeRedemptionSettlement_money:
  assumes "executeRedemptionSettlement env i d = Inr (r, d')" and "money_at f d"
  shows "money_at f d'"
proof -
  obtain d1 d2 where s: "settle_debit env i d = Inr ((sr_redemptionLedgerEntryId r, sr_allocations r), d1)"
    "calculateEarnAmountKobo (si_basketAmountKobo i - si_redeemedAmountKobo i) (si_earnRateBps i)
       = Inr (sr_earnedKobo r)"
    "settle_earn env i (sr_earnedKobo r) d1 = Inr (sr_earnLedgerEntryId r, d2)"
    "settle_notify env i (sr_redemptionLedgerEntryId r) (sr_earnLedgerEntryId r)
       (sr_netPaidAmountKobo r) (sr_earnedKobo r) (sr_remainingBalanceKobo r) d2 = Inr (sr_smsStatus r, d')"
    by (rule executeRedemptionSettlement_stages[OF assms(1)])
  have "money_at f d2"
    by (rule settle_earn_effect(1)[OF s(3) settle_debit_effect(1)[OF s(1) assms(2)]
        calculateEarnAmountKobo_nonneg[OF s(2)]])
  then show ?thesis using s(4) by (rule money_at_frameD) (rule settle_notify_frame; simp)
qed

lemma settlement_effect:
  assumes "executeRedemptionSettlement env i d = Inr (r, d')" and "lots_wf d"
  shows "sr_remainingBalanceKobo r = active_balance (settlement_account i) (si_now i) d'
    \<and> active_balance a (si_now i) d' = active_balance a (si_now i) d
        + (if a = settlement_account i
           then (if si_now i < addUtcMonthsClamped (si_occurredAt i) 12 then sr_earnedKobo r else 0)
                - si_redeemedAmountKobo i
           else 0)
    \<and> sr_earnedKobo r = ((si_basketAmountKobo i - si_redeemedAmountKobo i) * si_earnRateBps i + 9999) div 10000
    \<and> lots_wf d'"
proof -
  have m: "money_at (imbalance d) d" using assms(2) by (simp add: money_at_def)
  obtain d1 d2 where s: "settle_debit env i d = Inr ((sr_redemptionLedgerEntryId r, sr_allocations r), d1)"
    "calculateEarnAmountKobo (si_basketAmountKobo i - si_redeemedAmountKobo i) (si_earnRateBps i)
       = Inr (sr_earnedKobo r)"
    "settle_earn env i (sr_earnedKobo r) d1 = Inr (sr_earnLedgerEntryId r, d2)"
    "settle_notify env i (sr_redemptionLedgerEntryId r) (sr_earnLedgerEntryId r)
       (sr_netPaidAmountKobo r) (sr_earnedKobo r) (sr_remainingBalanceKobo r) d2 = Inr (sr_smsStatus r, d')"
    "sr_remainingBalanceKobo r = getActiveBalanceKobo (si_tenantId i) (si_customerId i) (si_now i) d2"
    by (rule executeRedemptionSettlement_stages[OF assms(1)])
  have "creditLots d' = creditLots d2" using tx_frameD[OF settle_notify_frame s(4), of creditLots] by simp
  then have b: "active_balance x (si_now i) d' = active_balance x (si_now i) d2" for x
    by (simp add: active_balance_def getActiveBalanceKobo_def)
  note d = settle_debit_effect[OF s(1) m]
  note e = settle_earn_effect(2)[OF s(3) d(1) calculateEarnAmountKobo_nonneg[OF s(2)]]
  have "lots_wf d'" using executeRedemptionSettlement_money[OF assms(1) m] by (simp add: money_at_def)
  moreover have "sr_remainingBalanceKobo r = active_balance (settlement_account i) (si_now i) d'"
    unfolding b by (simp add: s(5) active_balance_def)
  ultimately show ?thesis
    using s(2) by (simp add: b e d(3) calculateEarnAmountKobo_Inr)
qed

text \<open>
  A settlement that commits takes exactly the redeemed amount from the customer's active
  balance and adds what the net payment earns, as long as the new lot is not expired already;
  the balance it reports is the one after it, no other account changes and the lots stay well
  formed.
\<close>

theorem executeRedemptionSettlement_balance:
  assumes "executeRedemptionSettlement env i d = Inr (r, d')" and "lots_wf d"
  shows "sr_remainingBalanceKobo r = active_balance (settlement_account i) (si_now i) d'
    \<and> active_balance a (si_now i) d' = active_balance a (si_now i) d
        + (if a = settlement_account i
           then (if si_now i < addUtcMonthsClamped (si_occurredAt i) 12 then sr_earnedKobo r else 0)
                - si_redeemedAmountKobo i
           else 0)
    \<and> sr_earnedKobo r = ((si_basketAmountKobo i - si_redeemedAmountKobo i) * si_earnRateBps i + 9999) div 10000
    \<and> lots_wf d'"
  by (rule settlement_effect[OF assms])

subsection \<open>A settlement at the demonstration shop\<close>

definition demo_redemption :: "string \<Rightarrow> Redemption" where
  "demo_redemption i =
     \<lparr> rd_id = i, rd_tenantId = ''T'', rd_branchId = ''B'', rd_customerId = ''C'', rd_cardId = ''K'',
       rd_deviceId = ''D'', rd_receiptId = ''Q'', rd_requestedByTenantId = ''T'', rd_requestedBy = ''U'',
       rd_requestedAmountKobo = 60000, rd_basketAmountKobo = 200000, rd_maximumAllowedKobo = 60000,
       rd_confirmedAmountKobo = None, rd_status = RedemptionStatus.PENDING_APPROVAL,
       rd_policyVersion = ''p'', rd_ledgerEntryId = None, rd_requestedAt = demo_now,
       rd_confirmedAt = None, rd_rejectedAt = None, rd_reversedAt = None \<rparr>"

definition demo_settlement :: RedemptionSettlementInput where
  "demo_settlement =
     \<lparr> si_tenantId = ''T'', si_customerId = ''C'', si_receiptId = ''Q'', si_redemptionId = ''R'',
       si_basketAmountKobo = 200000, si_redeemedAmountKobo = 60000, si_occurredAt = demo_now,
       si_now = demo_now, si_actorTenantId = ''T'', si_actorId = ''U'', si_correlationId = ''h'',
       si_phoneE164 = ''+2348000000000'', si_earnRateBps = 200 \<rparr>"

definition demo_pending_db :: db where
  "demo_pending_db = demo_db\<lparr>redemptions := [demo_redemption ''R'']\<rparr>"

lemma demo_settlement_commits:
  obtains r d' where "executeRedemptionSettlement demo_env demo_settlement demo_pending_db = Inr (r, d')"
    and "sr_earnedKobo r = 2800"
proof -
  have "map_sum (\<lambda>e. e) (\<lambda>r. sr_earnedKobo (fst r))
      (executeRedemptionSettlement demo_env demo_settlement demo_pending_db) = Inr 2800"
    by code_simp
  then show thesis by (rule committed_result) (use that in simp)
qed

lemma demo_pending_money: "money_at f demo_pending_db = money_at f demo_db"
  by (rule money_at_view) (simp add: demo_pending_db_def)

theorem executeRedemptionSettlement_balance_witness:
  "\<exists>r d'. executeRedemptionSettlement demo_env demo_settlement demo_pending_db = Inr (r, d')
     \<and> sr_remainingBalanceKobo r = 62800 \<and> active_balance (''T'', ''C'') demo_now d' = 62800"
proof -
  obtain r d' where r: "executeRedemptionSettlement demo_env demo_settlement demo_pending_db = Inr (r, d')"
    and e: "sr_earnedKobo r = 2800" by (rule demo_settlement_commits)
  have wf: "lots_wf demo_pending_db"
    using demo_lots_wf by (simp add: demo_pending_db_def lots_wf_def)
  have s: "si_tenantId demo_settlement = ''T''" "si_customerId demo_settlement = ''C''"
    "si_now demo_settlement = demo_now" "si_redeemedAmountKobo demo_settlement = 60000"
    "demo_now < addUtcMonthsClamped (si_occurredAt demo_settlement) 12"
    by (code_simp+)
  have b: "active_balance (''T'', ''C'') demo_now demo_pending_db = 120000" by code_simp
  show ?thesis
    using executeRedemptionSettlement_balance[OF r wf, of "(''T'', ''C'')"] r by (simp add: s b e)
qed

end
