(* ===== verification/Retry.thy ===== *)
theory Retry
  imports Prelude
begin

text \<open>
  \<^verbatim>\<open>src/common/balance/financial-transaction-retry.ts\<close>: a financial transaction is retried a
  bounded number of times when the engine reports a serialization conflict. Attempt \<open>k\<close> of the
  operation and the conflict handler act on the shared state, which other sessions may change in
  between; the jitter between two attempts only lets time pass and is not modelled. The metadata
  of a raw-query error is the target list of the model's error value.
\<close>

record retry_options =
  opt_attempts :: nat
  opt_conflictCode :: string
  opt_conflictMessage :: string

definition hasPostgresSerializationCode :: "string list \<Rightarrow> bool" where
  "hasPostgresSerializationCode meta = (meta = [''40001''])"

fun isFinancialTransactionConflict :: "svc_error \<Rightarrow> bool" where
  "isFinancialTransactionConflict (PrismaKnownRequestError code meta msg) =
     (code = ''P2034'' \<or> code = ''40001'' \<or> (code = ''P2010'' \<and> hasPostgresSerializationCode meta))"
| "isFinancialTransactionConflict _ = False"

definition retry_conflict :: "retry_options \<Rightarrow> svc_error" where
  "retry_conflict options =
     DomainHttpException 503 (opt_conflictCode options) (opt_conflictMessage options)"

text \<open>\<open>left\<close> attempts are left; \<open>attempt\<close> is the number of the next one.\<close>

fun retry_loop ::
  "(nat \<Rightarrow> 's \<Rightarrow> (svc_error + 'a) \<times> 's) \<Rightarrow> (nat \<Rightarrow> 's \<Rightarrow> (svc_error + 'a option) \<times> 's) \<Rightarrow>
   retry_options \<Rightarrow> nat \<Rightarrow> nat \<Rightarrow> 's \<Rightarrow> (svc_error + 'a) \<times> 's" where
  "retry_loop operation onConflict options attempt 0 s = (Inl (retry_conflict options), s)"
| "retry_loop operation onConflict options attempt (Suc left) s =
     (case operation attempt s of
        (Inr x, s1) \<Rightarrow> (Inr x, s1)
      | (Inl e, s1) \<Rightarrow>
          if \<not> isFinancialTransactionConflict e then (Inl e, s1)
          else case onConflict attempt s1 of
            (Inl e', s2) \<Rightarrow> (Inl e', s2)
          | (Inr (Some replay), s2) \<Rightarrow> (Inr replay, s2)
          | (Inr None, s2) \<Rightarrow> retry_loop operation onConflict options (attempt + 1) left s2)"

definition runWithBoundedFinancialRetries ::
  "(nat \<Rightarrow> 's \<Rightarrow> (svc_error + 'a) \<times> 's) \<Rightarrow> (nat \<Rightarrow> 's \<Rightarrow> (svc_error + 'a option) \<times> 's) \<Rightarrow>
   retry_options \<Rightarrow> 's \<Rightarrow> (svc_error + 'a) \<times> 's" where
  "runWithBoundedFinancialRetries operation onConflict options s =
     retry_loop operation onConflict options 1 (opt_attempts options) s"

definition no_replay :: "nat \<Rightarrow> 's \<Rightarrow> (svc_error + 'a option) \<times> 's" where
  "no_replay k s = (Inr None, s)"

subsection \<open>The contracts of a retried operation\<close>

text \<open>
  An operation and a conflict handler that keep an invariant of the shared state; in
  \<open>retried_result\<close>, a relation \<open>good\<close> between a result and the state it is returned in; in
  \<open>retried_rollback\<close>, a view of the state that an attempt which fails leaves alone.
\<close>

locale retried =
  fixes operation :: "nat \<Rightarrow> 's \<Rightarrow> (svc_error + 'a) \<times> 's"
    and onConflict :: "nat \<Rightarrow> 's \<Rightarrow> (svc_error + 'a option) \<times> 's"
    and inv :: "'s \<Rightarrow> bool"
  assumes operation_inv: "inv s \<Longrightarrow> inv (snd (operation k s))"
    and onConflict_inv: "inv s \<Longrightarrow> inv (snd (onConflict k s))"
begin

lemma retry_loop_inv: "inv s \<Longrightarrow> inv (snd (retry_loop operation onConflict options k n s))"
proof (induction n arbitrary: k s)
  case 0
  then show ?case by simp
next
  case (Suc n)
  note o = operation_inv[OF Suc.prems, of k]
  note c = onConflict_inv[OF o, of k]
  show ?case
    using o c Suc.IH[OF c]
    by (auto split: prod.splits sum.splits option.splits)
qed

lemma run_inv: "inv s \<Longrightarrow> inv (snd (runWithBoundedFinancialRetries operation onConflict options s))"
  by (simp add: runWithBoundedFinancialRetries_def retry_loop_inv)

end

locale retried_result = retried operation onConflict inv
  for operation :: "nat \<Rightarrow> 's \<Rightarrow> (svc_error + 'a) \<times> 's"
    and onConflict :: "nat \<Rightarrow> 's \<Rightarrow> (svc_error + 'a option) \<times> 's"
    and inv :: "'s \<Rightarrow> bool" +
  fixes good :: "'a \<Rightarrow> 's \<Rightarrow> bool"
  assumes operation_good: "operation k s = (Inr x, s') \<Longrightarrow> good x s'"
    and onConflict_good: "onConflict k s = (Inr (Some x), s') \<Longrightarrow> good x s'"
begin

lemma retry_loop_good: "retry_loop operation onConflict options k n s = (Inr x, s') \<Longrightarrow> good x s'"
proof (induction n arbitrary: k s)
  case 0
  then show ?case by simp
next
  case (Suc n)
  then show ?case
    by (auto split: prod.splits sum.splits option.splits if_splits
        intro: operation_good onConflict_good)
qed

lemma run_good:
  "runWithBoundedFinancialRetries operation onConflict options s = (Inr x, s') \<Longrightarrow> good x s'"
  unfolding runWithBoundedFinancialRetries_def by (rule retry_loop_good)

end

locale retried_rollback =
  fixes operation :: "nat \<Rightarrow> 's \<Rightarrow> (svc_error + 'a) \<times> 's"
    and onConflict :: "nat \<Rightarrow> 's \<Rightarrow> (svc_error + 'a option) \<times> 's"
    and view :: "'s \<Rightarrow> 'v"
  assumes operation_rollback: "operation k s = (Inl e, s') \<Longrightarrow> view s' = view s"
    and onConflict_view: "view (snd (onConflict k s)) = view s"
begin

lemma retry_loop_rollback:
  "retry_loop operation onConflict options k n s = (Inl e, s') \<Longrightarrow> view s' = view s"
proof (induction n arbitrary: k s)
  case 0
  then show ?case by simp
next
  case (Suc n)
  obtain r s1 where o: "operation k s = (r, s1)" by fastforce
  obtain c s2 where h: "onConflict k s1 = (c, s2)" by fastforce
  have "view s2 = view s1" using onConflict_view[of k s1] h by simp
  with Suc.prems Suc.IH operation_rollback[of k s] o h show ?case
    by (auto split: sum.splits option.splits if_splits)
qed

lemma run_rollback:
  "runWithBoundedFinancialRetries operation onConflict options s = (Inl e, s') \<Longrightarrow> view s' = view s"
  unfolding runWithBoundedFinancialRetries_def by (rule retry_loop_rollback)

end

subsection \<open>The outcome of a retried operation\<close>

definition conflicts :: "svc_error + 'a \<Rightarrow> bool" where
  "conflicts r = (case r of Inl e \<Rightarrow> isFinancialTransactionConflict e | Inr _ \<Rightarrow> False)"

text \<open>The state after \<open>n\<close> attempts and the conflict handlers that followed them.\<close>

fun attempt_state ::
  "(nat \<Rightarrow> 's \<Rightarrow> (svc_error + 'a) \<times> 's) \<Rightarrow> (nat \<Rightarrow> 's \<Rightarrow> (svc_error + 'a option) \<times> 's) \<Rightarrow> nat \<Rightarrow> 's \<Rightarrow> 's" where
  "attempt_state operation onConflict 0 s = s"
| "attempt_state operation onConflict (Suc n) s =
     snd (onConflict (Suc n) (snd (operation (Suc n) (attempt_state operation onConflict n s))))"

text \<open>An attempt that is followed by another one: it conflicts and its handler has no replay.\<close>

definition passed_over ::
  "(nat \<Rightarrow> 's \<Rightarrow> (svc_error + 'a) \<times> 's) \<Rightarrow> (nat \<Rightarrow> 's \<Rightarrow> (svc_error + 'a option) \<times> 's) \<Rightarrow> nat \<Rightarrow> 's \<Rightarrow> bool" where
  "passed_over operation onConflict n s =
     (conflicts (fst (operation (Suc n) (attempt_state operation onConflict n s)))
      \<and> fst (onConflict (Suc n) (snd (operation (Suc n) (attempt_state operation onConflict n s)))) = Inr None)"

text \<open>The outcome \<open>r\<close> of the last attempt: its own, or after a conflict what the handler found.\<close>

definition settled ::
  "(nat \<Rightarrow> 's \<Rightarrow> (svc_error + 'a) \<times> 's) \<Rightarrow> (nat \<Rightarrow> 's \<Rightarrow> (svc_error + 'a option) \<times> 's) \<Rightarrow> nat \<Rightarrow> 's \<Rightarrow>
   (svc_error + 'a) \<times> 's \<Rightarrow> bool" where
  "settled operation onConflict n s r =
     (let t = attempt_state operation onConflict n s; attempt = operation (Suc n) t; handled = onConflict (Suc n) (snd attempt) in
      if conflicts (fst attempt)
      then (\<exists>x. handled = (Inr (Some x), snd r) \<and> fst r = Inr x) \<or> (\<exists>e. handled = (Inl e, snd r) \<and> fst r = Inl e)
      else r = attempt)"

lemma retry_loop_step:
  "\<not> passed_over operation onConflict n s \<Longrightarrow> settled operation onConflict n s
      (retry_loop operation onConflict options (Suc n) (Suc left) (attempt_state operation onConflict n s))"
  "passed_over operation onConflict n s \<Longrightarrow>
      retry_loop operation onConflict options (Suc n) (Suc left) (attempt_state operation onConflict n s)
      = retry_loop operation onConflict options (Suc (Suc n)) left (attempt_state operation onConflict (Suc n) s)"
  by (auto simp: passed_over_def settled_def conflicts_def Let_def split: prod.splits sum.splits option.splits if_splits)

lemma retry_loop_outcome:
  "(\<exists>n<left. (\<forall>m<n. passed_over operation onConflict (k + m) s) \<and> settled operation onConflict (k + n) s
      (retry_loop operation onConflict options (Suc k) left (attempt_state operation onConflict k s)))
   \<or> ((\<forall>m<left. passed_over operation onConflict (k + m) s)
      \<and> retry_loop operation onConflict options (Suc k) left (attempt_state operation onConflict k s)
          = (Inl (retry_conflict options), attempt_state operation onConflict (k + left) s))"
proof (induction left arbitrary: k)
  case 0
  then show ?case by simp
next
  case (Suc left)
  show ?case
  proof (cases "passed_over operation onConflict k s")
    case False
    from retry_loop_step(1)[OF this] show ?thesis by (intro disjI1 exI[of _ 0]) simp
  next
    case True
    have all: "\<forall>m<Suc n. passed_over operation onConflict (k + m) s"
      if "\<forall>m<n. passed_over operation onConflict (Suc k + m) s" for n
      using that True by (auto simp: less_Suc_eq_0_disj)
    from Suc.IH[of "Suc k"] show ?thesis
    proof (elim disjE exE conjE)
      fix n
      assume "n < left" "\<forall>m<n. passed_over operation onConflict (Suc k + m) s" "settled operation onConflict (Suc k + n) s
        (retry_loop operation onConflict options (Suc (Suc k)) left (attempt_state operation onConflict (Suc k) s))"
      with all[of n] retry_loop_step(2)[OF True] show ?thesis by (intro disjI1 exI[of _ "Suc n"]) simp
    next
      assume "\<forall>m<left. passed_over operation onConflict (Suc k + m) s"
        "retry_loop operation onConflict options (Suc (Suc k)) left (attempt_state operation onConflict (Suc k) s)
          = (Inl (retry_conflict options), attempt_state operation onConflict (Suc k + left) s)"
      with all[of left] retry_loop_step(2)[OF True] show ?thesis by (intro disjI2) simp
    qed
  qed
qed

text \<open>
  A retried operation is attempted at most \<open>attempts\<close> times. The first attempt that does not end in a
  serialization conflict, or whose conflict handler finds a replay or fails, decides the outcome; when every attempt
  conflicts and no handler has a replay the caller gets the configured 503.
\<close>

theorem runWithBoundedFinancialRetries_bounded:
  "(\<exists>n<opt_attempts options. (\<forall>m<n. passed_over operation onConflict m s)
      \<and> settled operation onConflict n s (runWithBoundedFinancialRetries operation onConflict options s))
   \<or> ((\<forall>m<opt_attempts options. passed_over operation onConflict m s)
      \<and> runWithBoundedFinancialRetries operation onConflict options s
          = (Inl (retry_conflict options), attempt_state operation onConflict (opt_attempts options) s))"
  using retry_loop_outcome[of "opt_attempts options" operation onConflict 0 s options]
  by (simp add: runWithBoundedFinancialRetries_def)

end
