(* ===== verification/Idempotency.thy ===== *)
theory Idempotency
  imports Prelude
begin

text \<open>
  The contract of an endpoint with an \<open>Idempotency-Key\<close>: a call that returns a response leaves it
  where \<open>replay\<close> finds it, and a call that finds a response (\<open>live\<close>: its record is not expired
  by the call's clock) returns it and does nothing else. \<open>'w\<close> is what one call meets: its clock and
  the other sessions. A service interprets the locale on its own method.
\<close>

fun run_calls :: "('w \<Rightarrow> 's \<Rightarrow> 'r \<times> 's) \<Rightarrow> 'w list \<Rightarrow> 's \<Rightarrow> 'r list \<times> 's" where
  "run_calls call [] s = ([], s)"
| "run_calls call (w # ws) s =
     (let (r, s1) = call w s; (rs, s2) = run_calls call ws s1 in (r # rs, s2))"

locale idempotent_call =
  fixes call :: "'w \<Rightarrow> 's \<Rightarrow> (svc_error + 'a) \<times> 's"
    and replay :: "'s \<Rightarrow> 'a option"
    and live :: "'w \<Rightarrow> 's \<Rightarrow> bool"
  assumes call_stores: "call w s = (Inr r, s') \<Longrightarrow> replay s' = Some r"
    and call_replays: "replay s = Some r \<Longrightarrow> live w s \<Longrightarrow> call w s = (Inr r, s)"
begin

lemma call_again: "call w s = (Inr r, s') \<Longrightarrow> live w' s' \<Longrightarrow> call w' s' = (Inr r, s')"
  by (blast intro: call_replays call_stores)

text \<open>However often the client repeats itself, it gets the first response and nothing happens.\<close>

lemma calls_again:
  assumes "call w s = (Inr r, s')" and "\<forall>v\<in>set ws. live v s'"
  shows "run_calls call ws s' = (map (\<lambda>_. Inr r) ws, s')"
  using assms(2) by (induction ws) (simp_all add: call_again[OF assms(1)])

text \<open>Two calls that both return a response, one after the other, return the same one.\<close>

lemma call_functional:
  "call w s = (Inr r, s1) \<Longrightarrow> live w' s1 \<Longrightarrow> call w' s1 = (Inr r', s2) \<Longrightarrow> r' = r \<and> s2 = s1"
  using call_again by fastforce

end

end
