(* ===== verification/Redemptions.thy ===== *)
theory Redemptions
  imports Settlement Retry Idempotency
begin

text \<open>
  \<^verbatim>\<open>src/modules/redemptions/redemptions.service.ts\<close>: \<open>RedemptionsService.redeem\<close>. The long method
  is split at its blank lines into stages, each a definition: normalisation and request hash,
  idempotency lookup, amount and clock checks, the device, card and branch checks inside the
  transaction, the policy, the rows of the request, the two ends (held for approval, or settled)
  and the handling of unique-constraint errors. The clock readings of one call are \<open>clk 0\<close> (clean-up),
  \<open>clk 1\<close> (timestamp check) and \<open>clk (1 + k)\<close> (attempt \<open>k\<close>). \<open>sched\<close> is what other sessions
  commit before attempt \<open>k\<close> and whether the engine aborts it, \<open>others k\<close> what they commit before the
  conflict handler of attempt \<open>k\<close> reads.
\<close>

subsection \<open>Request\<close>

record RedeemTransactionDto =
  dto_cardSerialNumber :: string
  dto_posReceiptNumber :: string
  dto_basketAmountKobo :: int
  dto_requestedRedemptionKobo :: int
  dto_occurredAt :: string

record redeem_request =
  rq_tenantId :: string
  rq_actor :: AuthContext
  rq_key :: string
  rq_posReceiptNumber :: string
  rq_normalizedPos :: string
  rq_cardSerialNumber :: string
  rq_occurredAt :: int
  rq_deviceId :: string
  rq_requestHash :: string

definition REDEEM_ENDPOINT :: string where
  "REDEEM_ENDPOINT = ''POST /api/v1/transactions/redeem''"

definition MAX_POS_FUTURE_SKEW_MS :: int where "MAX_POS_FUTURE_SKEW_MS = 5 * 60 * 1000"

definition MAX_POS_PAST_SKEW_MS :: int where "MAX_POS_PAST_SKEW_MS = 12 * 60 * 60 * 1000"

definition IDP_EXPIRY_MS :: int where "IDP_EXPIRY_MS = 7 * 24 * 60 * 60 * 1000"

definition APPROVAL_EXPIRY_MS :: int where "APPROVAL_EXPIRY_MS = 24 * 60 * 60 * 1000"

definition idempotency_conflict :: svc_error where
  "idempotency_conflict = DomainHttpException 409 ''IDEMPOTENCY_CONFLICT''
     ''Idempotency key reused with different payload''"

definition receipt_already_used :: svc_error where
  "receipt_already_used = DomainHttpException 409 ''RECEIPT_ALREADY_USED''
     ''Physical receipt already captured''"

definition redeem_parseDate :: "env \<Rightarrow> string \<Rightarrow> string \<Rightarrow> svc_error + int" where
  "redeem_parseDate env v fieldName =
     (case dateParse env v of
        None \<Rightarrow> Inl (validation_error (fieldName @ '' must be a valid date-time''))
      | Some t \<Rightarrow> Inr t)"

definition assertRedemptionTimestampAllowed :: "int \<Rightarrow> int \<Rightarrow> svc_error + unit" where
  "assertRedemptionTimestampAllowed occurredAt nowMs =
     (let skewMs = occurredAt - nowMs in
      if skewMs > MAX_POS_FUTURE_SKEW_MS \<or> skewMs < - MAX_POS_PAST_SKEW_MS
      then Inl (DomainHttpException 422 ''OFFLINE_REDEMPTION_NOT_ALLOWED''
                  ''Redemption occurredAt is outside the allowed clock skew'')
      else Inr ())"

definition redeem_toSafePositiveBigInt :: "int \<Rightarrow> string \<Rightarrow> svc_error + int" where
  "redeem_toSafePositiveBigInt v fieldName =
     (if \<not> isSafeInteger v \<or> v \<le> 0
      then Inl (validation_error (fieldName @ '' must be a positive safe integer''))
      else Inr v)"

definition redeem_hashRequest :: "env \<Rightarrow> json \<Rightarrow> string" where
  "redeem_hashRequest env payload = sha256hex env (stableStringify payload)"

definition redeem_prepare ::
  "env \<Rightarrow> string \<Rightarrow> AuthContext \<Rightarrow> string option \<Rightarrow> RedeemTransactionDto \<Rightarrow> svc_error + redeem_request" where
  "redeem_prepare env tenantId actor idempotencyKey dto =
     res_bind (redeem_normalizeIdempotencyKey idempotencyKey) (\<lambda>normalizedKey.
     res_bind (normalizeBoundedText (dto_posReceiptNumber dto) ''posReceiptNumber'') (\<lambda>posReceiptNumber.
     let normalizedPos = normalizeReceiptIdentity posReceiptNumber in
     res_bind (normalizeCardSerial (dto_cardSerialNumber dto)) (\<lambda>cardSerialNumber.
     res_bind (redeem_parseDate env (dto_occurredAt dto) ''occurredAt'') (\<lambda>occurredAt.
     let requestHash = redeem_hashRequest env (JObj
           [(''tenantId'', JStr tenantId), (''actorId'', JStr (actor_id actor)),
            (''cardSerialNumber'', JStr cardSerialNumber),
            (''posReceiptNumber'', JStr normalizedPos),
            (''basketAmountKobo'', JNum (dto_basketAmountKobo dto)),
            (''requestedRedemptionKobo'', JNum (dto_requestedRedemptionKobo dto)),
            (''occurredAt'', json_date occurredAt),
            (''deviceId'', json_opt_str (session_deviceId actor))]) in
     if \<not> truthy (session_deviceId actor)
     then Inl (DomainHttpException 400 ''SESSION_DEVICE_REQUIRED'' ''Session device is required'')
     else Inr
       \<lparr> rq_tenantId = tenantId, rq_actor = actor, rq_key = normalizedKey,
         rq_posReceiptNumber = posReceiptNumber, rq_normalizedPos = normalizedPos,
         rq_cardSerialNumber = cardSerialNumber, rq_occurredAt = occurredAt,
         rq_deviceId = the (session_deviceId actor), rq_requestHash = requestHash \<rparr>))))"

subsection \<open>Idempotency\<close>

definition cleanupExpiredIdempotencyRecords :: "string \<Rightarrow> string \<Rightarrow> string \<Rightarrow> string \<Rightarrow> int \<Rightarrow> db \<Rightarrow> db" where
  "cleanupExpiredIdempotencyRecords tenantId actorId endpoint key now =
     idempotencyRecord_deleteMany (\<lambda>x. is_record tenantId actorId endpoint key x \<and> idr_expiresAt x \<le> now)"

text \<open>What the lookup before the transaction decides: a stored response, an error or going on.\<close>

definition redeem_lookup :: "redeem_request \<Rightarrow> db \<Rightarrow> svc_error + json option" where
  "redeem_lookup rq d =
     (case idempotencyRecord_findUnique (rq_tenantId rq) (actor_id (rq_actor rq)) REDEEM_ENDPOINT (rq_key rq) d of
        None \<Rightarrow> Inr None
      | Some existing \<Rightarrow>
          if idr_requestHash existing \<noteq> rq_requestHash rq then Inl idempotency_conflict
          else case idr_responseJson existing of
            Some response \<Rightarrow> Inr (Some response)
          | None \<Rightarrow> Inl (DomainHttpException 409 ''IDEMPOTENCY_IN_PROGRESS''
                           ''Idempotency key is still being processed''))"

definition findCompletedRedeemReplay :: "redeem_request \<Rightarrow> db \<Rightarrow> json option" where
  "findCompletedRedeemReplay rq d =
     (case idempotencyRecord_findUnique (rq_tenantId rq) (actor_id (rq_actor rq)) REDEEM_ENDPOINT (rq_key rq) d of
        None \<Rightarrow> None
      | Some replay \<Rightarrow> if idr_requestHash replay = rq_requestHash rq then idr_responseJson replay else None)"

definition persistCompletedIdempotencyResponse ::
  "string \<Rightarrow> string \<Rightarrow> string \<Rightarrow> string \<Rightarrow> string \<Rightarrow> json \<Rightarrow> int \<Rightarrow> unit dbtx" where
  "persistCompletedIdempotencyResponse endpoint tenantId actorId key requestHash response now =
     idempotencyRecord_create
       \<lparr> idr_tenantId = tenantId, idr_actorId = actorId, idr_endpoint = endpoint,
         idr_idempotencyKey = key, idr_requestHash = requestHash,
         idr_responseJson = Some response, idr_status = IdempotencyRecordStatus.COMPLETED,
         idr_expiresAt = now + IDP_EXPIRY_MS \<rparr>"

subsection \<open>Checks inside the transaction\<close>

record redeem_context =
  cx_device :: Device
  cx_card :: Card
  cx_customer :: Customer
  cx_branchId :: string
  cx_receiptWeekStart :: int

definition redeem_deriveReceiptWeekStart :: "env \<Rightarrow> int \<Rightarrow> string \<Rightarrow> int \<Rightarrow> svc_error + int" where
  "redeem_deriveReceiptWeekStart env = deriveReceiptWeekStart validation_error (tzDate env)"

definition redeem_checks :: "env \<Rightarrow> redeem_request \<Rightarrow> db \<Rightarrow> svc_error + redeem_context" where
  "redeem_checks env rq d =
     res_bind (case device_with_branch (rq_tenantId rq) (rq_deviceId rq) d of
         Some (dev, br) \<Rightarrow>
           if dev_status dev \<noteq> DeviceStatus.ACTIVE \<or> br_status br \<noteq> BranchStatus.ACTIVE
           then Inl (DomainHttpException 400 ''DEVICE_NOT_ACTIVE'' ''Device is not active'')
           else Inr (dev, br)
       | None \<Rightarrow> Inl (DomainHttpException 400 ''DEVICE_NOT_ACTIVE'' ''Device is not active'')) (\<lambda>(dev, br).
     res_bind (res_unless
         (\<not> (truthy (actor_branchId (rq_actor rq)) \<and> actor_branchId (rq_actor rq) \<noteq> Some (dev_branchId dev)))
         (DomainHttpException 400 ''DEVICE_BRANCH_MISMATCH'' ''Device does not belong to cashier branch'')) (\<lambda>_.
     res_bind (case card_by_serial (rq_tenantId rq) (rq_cardSerialNumber rq) d of
         Some (cd, cu) \<Rightarrow>
           if cd_status cd \<noteq> CardStatus.ACTIVE \<or> cu_status cu \<noteq> CustomerStatus.ACTIVE \<or> cu_isStaff cu
           then Inl (DomainHttpException 404 ''CARD_NOT_FOUND'' ''Card not found'')
           else Inr (cd, cu)
       | None \<Rightarrow> Inl (DomainHttpException 404 ''CARD_NOT_FOUND'' ''Card not found'')) (\<lambda>(cd, cu).
     let branchId = (case actor_branchId (rq_actor rq) of Some b \<Rightarrow> b | None \<Rightarrow> dev_branchId dev) in
     res_bind (res_unless (branchId \<noteq> [])
         (DomainHttpException 400 ''BRANCH_CONTEXT_REQUIRED'' ''Branch context is required'')) (\<lambda>_.
     res_bind (redeem_deriveReceiptWeekStart env (rq_occurredAt rq) (br_timezone br) (br_receiptWeekStartDay br))
       (\<lambda>receiptWeekStart.
     Inr \<lparr> cx_device = dev, cx_card = cd, cx_customer = cu, cx_branchId = branchId,
           cx_receiptWeekStart = receiptWeekStart \<rparr>)))))"

text \<open>\<open>recordDuplicateReceiptAttempt\<close> runs in a transaction of its own.\<close>

definition duplicate_metadata :: "redeem_request \<Rightarrow> redeem_context \<Rightarrow> string \<Rightarrow> (string \<times> json) list" where
  "duplicate_metadata rq cx originalReceiptId =
     [(''originalReceiptId'', JStr originalReceiptId),
      (''duplicateReceiptId'', JStr (rq_posReceiptNumber rq)),
      (''branchId'', JStr (cx_branchId cx)), (''cashierId'', JStr (actor_id (rq_actor rq))),
      (''customerId'', JStr (cd_customerId (cx_card cx))), (''deviceId'', JStr (dev_id (cx_device cx))),
      (''normalizedPosReceiptNumber'', JStr (rq_normalizedPos rq)),
      (''receiptWeekStart'', json_date (cx_receiptWeekStart cx)),
      (''occurredAt'', json_date (rq_occurredAt rq))]"

definition recordDuplicateReceiptAttempt :: "env \<Rightarrow> redeem_request \<Rightarrow> redeem_context \<Rightarrow> string \<Rightarrow> unit dbtx" where
  "recordDuplicateReceiptAttempt env rq cx originalReceiptId =
     tx_bind (recordWithClient (rq_tenantId rq) (Some (actor_id (rq_actor rq)))
        ''RECEIPT_DUPLICATE_ATTEMPT_RECORDED'' ''RECEIPT'' (Some originalReceiptId)
        (JObj (duplicate_metadata rq cx originalReceiptId))) (\<lambda>_.
     tx_void (outboxEvent_create env (\<lambda>new_id.
       \<lparr> ob_id = new_id, ob_tenantId = rq_tenantId rq, ob_aggregateType = ''receipt'',
         ob_aggregateId = originalReceiptId, ob_eventType = ''fraud.evaluate'',
         ob_payload = JObj ((''ruleCode'', JStr ''FR-DUP-001'') # duplicate_metadata rq cx originalReceiptId),
         ob_nextAttemptAt = None \<rparr>)))"

subsection \<open>Policy\<close>

record redeem_policy =
  rpol_earnPolicy :: "EarnPolicyValues option"
  rpol_policy :: RedemptionPolicyResult
  rpol_earnCaptureStatus :: ReceiptCaptureStatus
  rpol_requiresApproval :: bool
  rpol_approvalReasonCode :: string
  rpol_settlementPolicyVersion :: string

definition redeem_evaluate ::
  "env \<Rightarrow> redeem_request \<Rightarrow> redeem_context \<Rightarrow> int \<Rightarrow> int \<Rightarrow> int \<Rightarrow> db \<Rightarrow> svc_error + redeem_policy" where
  "redeem_evaluate env rq cx requestedAmountKobo basketAmountKobo now d =
     (let configuredPolicy = policyConfiguration_findUnique (rq_tenantId rq) (cx_branchId cx) d;
          activeBalanceKobo = getActiveBalanceKobo (rq_tenantId rq) (cd_customerId (cx_card cx)) now d;
          earnPolicy = map_option earn_policy_of configuredPolicy;
          purchaseCeilingKobo = (case earnPolicy of Some p \<Rightarrow> ep_purchaseAmountCeilingKobo p
            | None \<Rightarrow> config_or env ''PURCHASE_AMOUNT_CEILING_KOBO'' 100000000) in
      if basketAmountKobo > purchaseCeilingKobo
      then Inl (DomainHttpException 400 ''PURCHASE_AMOUNT_LIMIT_EXCEEDED''
                  ''Purchase amount exceeds the allowed maximum'')
      else
        let earnCaptureStatus = resolveEarnCaptureStatus (js_Number basketAmountKobo) env earnPolicy;
            policy = redemption_evaluate env requestedAmountKobo basketAmountKobo activeBalanceKobo
                       (map_option redemption_policy_of configuredPolicy) in
        res_bind (assertRedemptionPolicyAllowsRequest requestedAmountKobo policy) (\<lambda>_.
        Inr \<lparr> rpol_earnPolicy = earnPolicy, rpol_policy = policy,
              rpol_earnCaptureStatus = earnCaptureStatus,
              rpol_requiresApproval = (pr_requiresApproval policy
                 \<or> earnCaptureStatus = ReceiptCaptureStatus.PENDING_APPROVAL),
              rpol_approvalReasonCode = (if pr_requiresApproval policy
                 then ''REDEMPTION_ABOVE_APPROVAL_THRESHOLD'' else ''PURCHASE_ABOVE_APPROVAL_THRESHOLD''),
              rpol_settlementPolicyVersion = buildSettlementPolicyVersion env
                 (pr_policyVersion policy) (getEarnApprovalPolicyVersion env earnPolicy) \<rparr>))"

subsection \<open>The rows of a request\<close>

definition redeem_rows ::
  "env \<Rightarrow> redeem_request \<Rightarrow> redeem_context \<Rightarrow> redeem_policy \<Rightarrow> int \<Rightarrow> int \<Rightarrow> int \<Rightarrow> (Receipt \<times> Redemption) dbtx" where
  "redeem_rows env rq cx pol requestedAmountKobo basketAmountKobo now =
     (let actor = rq_actor rq;
          held = rpol_requiresApproval pol;
          customerId = cd_customerId (cx_card cx) in
      tx_bind (receipt_create env (\<lambda>new_id.
        \<lparr> rc_id = new_id, rc_tenantId = rq_tenantId rq, rc_branchId = cx_branchId cx,
          rc_customerId = customerId, rc_cardId = cd_id (cx_card cx),
          rc_deviceId = Some (dev_id (cx_device cx)), rc_posReceiptNumber = rq_posReceiptNumber rq,
          rc_normalizedPosReceiptNumber = rq_normalizedPos rq,
          rc_receiptWeekStart = cx_receiptWeekStart cx, rc_purchaseAmountKobo = basketAmountKobo,
          rc_occurredAt = rq_occurredAt rq, rc_capturedByTenantId = actor_tenantId actor,
          rc_capturedBy = actor_id actor,
          rc_captureStatus = (if held then ReceiptCaptureStatus.PENDING_APPROVAL
                              else rpol_earnCaptureStatus pol),
          rc_reviewStatus = (if held then ReceiptReviewStatus.PENDING else ReceiptReviewStatus.APPROVED),
          rc_approvalReasonCode = (if held then Some (rpol_approvalReasonCode pol) else None),
          rc_reviewedAt = (if held then None else Some now),
          rc_reviewedByTenantId = (if held then None else Some (actor_tenantId actor)),
          rc_reviewedBy = (if held then None else Some (actor_id actor)),
          rc_approvedByTenantId = (if held then None else Some (actor_tenantId actor)),
          rc_approvedBy = (if held then None else Some (actor_id actor)),
          rc_approvedAt = (if held then None else Some now),
          rc_capturedAt = now \<rparr>)) (\<lambda>receipt.
      tx_bind (redemption_create env (\<lambda>new_id.
        \<lparr> rd_id = new_id, rd_tenantId = rq_tenantId rq, rd_branchId = cx_branchId cx,
          rd_customerId = customerId, rd_cardId = cd_id (cx_card cx),
          rd_deviceId = dev_id (cx_device cx), rd_receiptId = rc_id receipt,
          rd_requestedByTenantId = actor_tenantId actor, rd_requestedBy = actor_id actor,
          rd_requestedAmountKobo = requestedAmountKobo, rd_basketAmountKobo = basketAmountKobo,
          rd_maximumAllowedKobo = pr_maximumAllowedKobo (rpol_policy pol),
          rd_confirmedAmountKobo = None, rd_status = RedemptionStatus.PENDING_APPROVAL,
          rd_policyVersion = pr_policyVersion (rpol_policy pol), rd_ledgerEntryId = None,
          rd_requestedAt = now, rd_confirmedAt = None, rd_rejectedAt = None, rd_reversedAt = None \<rparr>)) (\<lambda>redemption.
      tx_bind (recordWithClient (rq_tenantId rq) (Some (actor_id actor)) ''redemption.requested''
        ''redemption'' (Some (rd_id redemption))
        (JObj [(''requestedAmountKobo'', JNum (js_Number requestedAmountKobo)),
               (''basketAmountKobo'', JNum (js_Number basketAmountKobo)),
               (''maximumAllowedKobo'', JNum (js_Number (pr_maximumAllowedKobo (rpol_policy pol)))),
               (''policyVersion'', JStr (pr_policyVersion (rpol_policy pol)))])) (\<lambda>_.
      tx_return (receipt, redemption)))))"

definition allocation_json :: "PersistedAllocation \<Rightarrow> json" where
  "allocation_json a =
     JObj [(''creditLotId'', JStr (pa_creditLotId a)), (''amountKobo'', JNum (js_Number (pa_amountKobo a))),
           (''allocationOrder'', JNum (pa_allocationOrder a)), (''expiresAt'', json_date (pa_expiresAt a))]"

definition buildRedeemResponse ::
  "redeem_request \<Rightarrow> redeem_context \<Rightarrow> redeem_policy \<Rightarrow> int \<Rightarrow> int \<Rightarrow> int \<Rightarrow> string \<Rightarrow> string \<Rightarrow>
   string option \<Rightarrow> RedemptionSettlementResult option \<Rightarrow> json" where
  "buildRedeemResponse rq cx pol requestedAmountKobo basketAmountKobo now receiptId redemptionId
      approvalId settlement =
     JObj
      [(''id'', JStr redemptionId),
       (''transactionId'', json_opt_str (map_option sr_redemptionLedgerEntryId settlement)),
       (''redemptionId'', JStr redemptionId), (''receiptId'', JStr receiptId),
       (''approvalId'', json_opt_str approvalId),
       (''state'', JStr (case settlement of Some _ \<Rightarrow> ''CONFIRMED'' | None \<Rightarrow> ''PENDING_APPROVAL'')),
       (''tenantId'', JStr (rq_tenantId rq)), (''branchId'', JStr (cx_branchId cx)),
       (''deviceId'', JStr (dev_id (cx_device cx))), (''customerId'', JStr (cd_customerId (cx_card cx))),
       (''cardSerialNumber'', JStr (cd_barcodeValue (cx_card cx))),
       (''posReceiptNumber'', JStr (rq_posReceiptNumber rq)),
       (''basketAmountKobo'', JNum (js_Number basketAmountKobo)),
       (''requestedRedemptionKobo'', JNum (js_Number requestedAmountKobo)),
       (''redeemedAmountKobo'', opt_json (\<lambda>_. JNum (js_Number requestedAmountKobo)) settlement),
       (''netPaidAmountKobo'', opt_json (\<lambda>s. JNum (js_Number (sr_netPaidAmountKobo s))) settlement),
       (''earnedKobo'', opt_json (\<lambda>s. JNum (js_Number (sr_earnedKobo s))) settlement),
       (''earnTransactionId'', json_opt_str (Option.bind settlement sr_earnLedgerEntryId)),
       (''maximumAllowedKobo'', JNum (js_Number (pr_maximumAllowedKobo (rpol_policy pol)))),
       (''remainingBalanceKobo'', opt_json (\<lambda>s. JNum (js_Number (sr_remainingBalanceKobo s))) settlement),
       (''allocations'', JArr (case settlement of None \<Rightarrow> [] | Some s \<Rightarrow> map allocation_json (sr_allocations s))),
       (''smsStatus'', opt_json (\<lambda>s. JStr (sms_status_str (sr_smsStatus s))) settlement),
       (''occurredAt'', json_date (rq_occurredAt rq)), (''requestedAt'', json_date now),
       (''policyVersion'', JStr (rpol_settlementPolicyVersion pol))]"

subsection \<open>The two ends of the transaction\<close>

definition redeem_finish :: "redeem_request \<Rightarrow> string \<Rightarrow> string \<Rightarrow> json \<Rightarrow> int \<Rightarrow> json dbtx" where
  "redeem_finish rq action redemptionId response now =
     tx_bind (persistCompletedIdempotencyResponse REDEEM_ENDPOINT (rq_tenantId rq) (actor_id (rq_actor rq))
                (rq_key rq) (rq_requestHash rq) response now) (\<lambda>_.
     tx_bind (recordWithClient (rq_tenantId rq) (Some (actor_id (rq_actor rq))) action ''redemption''
                (Some redemptionId) response) (\<lambda>_.
     tx_return response))"

definition redeem_hold ::
  "env \<Rightarrow> redeem_request \<Rightarrow> redeem_context \<Rightarrow> redeem_policy \<Rightarrow> int \<Rightarrow> int \<Rightarrow> int \<Rightarrow> Receipt \<Rightarrow> Redemption \<Rightarrow> json dbtx" where
  "redeem_hold env rq cx pol requestedAmountKobo basketAmountKobo now receipt redemption =
     tx_bind (approval_create env (\<lambda>new_id.
       \<lparr> ap_id = new_id, ap_tenantId = rq_tenantId rq, ap_receiptId = None,
         ap_redemptionId = Some (rd_id redemption), ap_targetType = ApprovalTargetType.REDEEM,
         ap_status = ApprovalStatus.PENDING, ap_requestedByTenantId = actor_tenantId (rq_actor rq),
         ap_requestedBy = actor_id (rq_actor rq), ap_reasonCode = Some (rpol_approvalReasonCode pol),
         ap_policyVersion = rpol_settlementPolicyVersion pol, ap_expiresAt = now + APPROVAL_EXPIRY_MS,
         ap_decisionByTenantId = None, ap_decisionBy = None, ap_decisionReason = None,
         ap_requestedAt = now, ap_decidedAt = None, ap_executedAt = None \<rparr>)) (\<lambda>approval.
     tx_bind (outboxEvent_create env (\<lambda>new_id.
       \<lparr> ob_id = new_id, ob_tenantId = rq_tenantId rq, ob_aggregateType = ''redemption'',
         ob_aggregateId = rd_id redemption, ob_eventType = ''fraud.evaluate'',
         ob_payload = JObj [(''redemptionId'', JStr (rd_id redemption)), (''approvalId'', JStr (ap_id approval)),
           (''tenantId'', JStr (rq_tenantId rq)), (''branchId'', JStr (cx_branchId cx)),
           (''cashierId'', JStr (actor_id (rq_actor rq))),
           (''customerId'', JStr (cd_customerId (cx_card cx))), (''occurredAt'', json_date now)],
         ob_nextAttemptAt = Some now \<rparr>)) (\<lambda>_.
     redeem_finish rq ''redemption.approval_required'' (rd_id redemption)
       (buildRedeemResponse rq cx pol requestedAmountKobo basketAmountKobo now (rc_id receipt)
          (rd_id redemption) (Some (ap_id approval)) None) now))"

definition redeem_settlement_input ::
  "env \<Rightarrow> redeem_request \<Rightarrow> redeem_context \<Rightarrow> redeem_policy \<Rightarrow> int \<Rightarrow> int \<Rightarrow> int \<Rightarrow> Receipt \<Rightarrow> Redemption \<Rightarrow>
   RedemptionSettlementInput" where
  "redeem_settlement_input env rq cx pol requestedAmountKobo basketAmountKobo now receipt redemption =
     \<lparr> si_tenantId = rq_tenantId rq, si_customerId = cd_customerId (cx_card cx),
       si_receiptId = rc_id receipt, si_redemptionId = rd_id redemption,
       si_basketAmountKobo = basketAmountKobo, si_redeemedAmountKobo = requestedAmountKobo,
       si_occurredAt = rq_occurredAt rq, si_now = now,
       si_actorTenantId = actor_tenantId (rq_actor rq), si_actorId = actor_id (rq_actor rq),
       si_correlationId = rq_requestHash rq, si_phoneE164 = cu_phoneE164 (cx_customer cx),
       si_earnRateBps = resolveEarnRateBps env (rpol_earnPolicy pol) \<rparr>"

definition redeem_settle ::
  "env \<Rightarrow> redeem_request \<Rightarrow> redeem_context \<Rightarrow> redeem_policy \<Rightarrow> int \<Rightarrow> int \<Rightarrow> int \<Rightarrow> Receipt \<Rightarrow> Redemption \<Rightarrow> json dbtx" where
  "redeem_settle env rq cx pol requestedAmountKobo basketAmountKobo now receipt redemption =
     tx_bind (executeRedemptionSettlement env
        (redeem_settlement_input env rq cx pol requestedAmountKobo basketAmountKobo now receipt redemption)) (\<lambda>settlement.
     tx_bind (outboxEvent_create env (\<lambda>new_id.
       \<lparr> ob_id = new_id, ob_tenantId = rq_tenantId rq, ob_aggregateType = ''redemption'',
         ob_aggregateId = rd_id redemption, ob_eventType = ''fraud.evaluate'',
         ob_payload = JObj [(''redemptionId'', JStr (rd_id redemption))],
         ob_nextAttemptAt = Some now \<rparr>)) (\<lambda>_.
     redeem_finish rq ''redemption.confirmed'' (rd_id redemption)
       (buildRedeemResponse rq cx pol requestedAmountKobo basketAmountKobo now (rc_id receipt)
          (rd_id redemption) None (Some settlement)) now))"

definition redeem_execute ::
  "env \<Rightarrow> redeem_request \<Rightarrow> redeem_context \<Rightarrow> int \<Rightarrow> int \<Rightarrow> int \<Rightarrow> json dbtx" where
  "redeem_execute env rq cx requestedAmountKobo basketAmountKobo now = (\<lambda>d.
     case redeem_evaluate env rq cx requestedAmountKobo basketAmountKobo now d of
       Inl e \<Rightarrow> Inl e
     | Inr pol \<Rightarrow>
         tx_bind (redeem_rows env rq cx pol requestedAmountKobo basketAmountKobo now) (\<lambda>(receipt, redemption).
           if rpol_requiresApproval pol
           then redeem_hold env rq cx pol requestedAmountKobo basketAmountKobo now receipt redemption
           else redeem_settle env rq cx pol requestedAmountKobo basketAmountKobo now receipt redemption) d)"

subsection \<open>Attempts, conflicts and the whole call\<close>

text \<open>
  The state of the call is the database and the context the last attempt recorded in the
  method's variables, which the error handling reads.
\<close>

type_synonym redeem_state = "db \<times> redeem_context option"

definition redeem_attempt ::
  "env \<Rightarrow> redeem_request \<Rightarrow> int \<Rightarrow> int \<Rightarrow> (nat \<Rightarrow> db \<Rightarrow> db \<times> svc_error option) \<Rightarrow> (nat \<Rightarrow> int) \<Rightarrow>
   nat \<Rightarrow> redeem_state \<Rightarrow> (svc_error + json) \<times> redeem_state" where
  "redeem_attempt env rq requestedAmountKobo basketAmountKobo sched clk k s =
     (case sched k (fst s) of
        (d, Some e) \<Rightarrow> (Inl e, (d, snd s))
      | (d, None) \<Rightarrow>
         (case redeem_checks env rq d of
            Inl e \<Rightarrow> (Inl e, (d, snd s))
          | Inr cx \<Rightarrow>
             (case receipt_by_identity (rq_tenantId rq) (cx_branchId cx) (cx_receiptWeekStart cx)
                     (rq_normalizedPos rq) d of
                Some dup \<Rightarrow>
                  (case recordDuplicateReceiptAttempt env rq cx (rc_id dup) d of
                     Inl e \<Rightarrow> (Inl e, (d, Some cx))
                   | Inr (_, d') \<Rightarrow> (Inl receipt_already_used, (d', Some cx)))
              | None \<Rightarrow>
                  (case redeem_execute env rq cx requestedAmountKobo basketAmountKobo (clk (1 + k)) d of
                     Inl e \<Rightarrow> (Inl e, (d, Some cx))
                   | Inr (response, d') \<Rightarrow> (Inr response, (d', Some cx))))))"

definition redeem_onConflict ::
  "redeem_request \<Rightarrow> (nat \<Rightarrow> db \<Rightarrow> db) \<Rightarrow> nat \<Rightarrow> redeem_state \<Rightarrow> (svc_error + json option) \<times> redeem_state" where
  "redeem_onConflict rq others k s =
     (let d = others k (fst s) in (Inr (findCompletedRedeemReplay rq d), (d, snd s)))"

definition redeem_retry_options :: retry_options where
  "redeem_retry_options =
     \<lparr> opt_attempts = 3, opt_conflictCode = ''REDEMPTION_TRANSACTION_CONFLICT'',
       opt_conflictMessage = ''Redemption transaction conflicted; retry the request'' \<rparr>"

definition p2002Target :: "svc_error \<Rightarrow> string list \<Rightarrow> bool" where
  "p2002Target e requiredParts =
     (case e of PrismaKnownRequestError code target msg \<Rightarrow>
        code = ''P2002'' \<and> list_all (\<lambda>part. js_includes (js_join '', '' target) part) requiredParts
      | _ \<Rightarrow> False)"

definition isUniqueIdempotencyConflict :: "svc_error \<Rightarrow> bool" where
  "isUniqueIdempotencyConflict e = p2002Target e [''actorId'', ''endpoint'', ''idempotencyKey'']"

definition isUniqueReceiptConflict :: "svc_error \<Rightarrow> bool" where
  "isUniqueReceiptConflict e =
     p2002Target e [''tenantId'', ''branchId'', ''receiptWeekStart'', ''normalizedPosReceiptNumber'']"

definition isUniqueRedemptionTransactionConflict :: "svc_error \<Rightarrow> bool" where
  "isUniqueRedemptionTransactionConflict e =
     (p2002Target e [''receiptId''] \<or> p2002Target e [''ledgerEntryId''] \<or> p2002Target e [''redemptionId''])"

definition redeem_recover ::
  "env \<Rightarrow> redeem_request \<Rightarrow> svc_error \<Rightarrow> redeem_state \<Rightarrow> (svc_error + json) \<times> db" where
  "redeem_recover env rq e s =
     (let d = fst s; replay = findCompletedRedeemReplay rq d in
      if isUniqueIdempotencyConflict e then
        (case replay of Some r \<Rightarrow> (Inr r, d) | None \<Rightarrow> (Inl idempotency_conflict, d))
      else if isUniqueReceiptConflict e then
        (case replay of Some r \<Rightarrow> (Inr r, d)
         | None \<Rightarrow>
            (case snd s of
               None \<Rightarrow> (Inl receipt_already_used, d)
             | Some cx \<Rightarrow>
                (case receipt_by_identity (rq_tenantId rq) (cx_branchId cx) (cx_receiptWeekStart cx)
                        (rq_normalizedPos rq) d of
                   None \<Rightarrow> (Inl receipt_already_used, d)
                 | Some dup \<Rightarrow>
                    (case recordDuplicateReceiptAttempt env rq cx (rc_id dup) d of
                       Inl e' \<Rightarrow> (Inl e', d)
                     | Inr (_, d') \<Rightarrow> (Inl receipt_already_used, d')))))
      else if isUniqueRedemptionTransactionConflict e then
        (case replay of Some r \<Rightarrow> (Inr r, d) | None \<Rightarrow> (Inl (retry_conflict redeem_retry_options), d))
      else (Inl e, d))"

definition redeem_amounts :: "RedeemTransactionDto \<Rightarrow> int \<Rightarrow> int \<Rightarrow> svc_error + int \<times> int" where
  "redeem_amounts dto occurredAt nowMs =
     res_bind (redeem_toSafePositiveBigInt (dto_requestedRedemptionKobo dto) ''requestedRedemptionKobo'') (\<lambda>requested.
     res_bind (redeem_toSafePositiveBigInt (dto_basketAmountKobo dto) ''basketAmountKobo'') (\<lambda>basket.
     res_bind (assertRedemptionTimestampAllowed occurredAt nowMs) (\<lambda>_. Inr (requested, basket))))"

definition redeem_transaction ::
  "env \<Rightarrow> redeem_request \<Rightarrow> int \<Rightarrow> int \<Rightarrow> (nat \<Rightarrow> db \<Rightarrow> db \<times> svc_error option) \<Rightarrow> (nat \<Rightarrow> db \<Rightarrow> db) \<Rightarrow>
   (nat \<Rightarrow> int) \<Rightarrow> db \<Rightarrow> (svc_error + json) \<times> db" where
  "redeem_transaction env rq requested basket sched others clk d =
     (case runWithBoundedFinancialRetries (redeem_attempt env rq requested basket sched clk)
             (redeem_onConflict rq others) redeem_retry_options (d, None) of
        (Inr response, s) \<Rightarrow> (Inr response, fst s)
      | (Inl e, s) \<Rightarrow> redeem_recover env rq e s)"

definition redeem ::
  "env \<Rightarrow> (nat \<Rightarrow> db \<Rightarrow> db \<times> svc_error option) \<Rightarrow> (nat \<Rightarrow> db \<Rightarrow> db) \<Rightarrow> (nat \<Rightarrow> int) \<Rightarrow>
   string \<Rightarrow> AuthContext \<Rightarrow> string option \<Rightarrow> RedeemTransactionDto \<Rightarrow> db \<Rightarrow> (svc_error + json) \<times> db" where
  "redeem env sched others clk tenantId actor idempotencyKey dto d =
     (case redeem_prepare env tenantId actor idempotencyKey dto of
        Inl e \<Rightarrow> (Inl e, d)
      | Inr rq \<Rightarrow>
         let d1 = cleanupExpiredIdempotencyRecords tenantId (actor_id actor) REDEEM_ENDPOINT (rq_key rq) (clk 0) d in
         (case redeem_lookup rq d1 of
            Inl e \<Rightarrow> (Inl e, d1)
          | Inr (Some response) \<Rightarrow> (Inr response, d1)
          | Inr None \<Rightarrow>
             (case redeem_amounts dto (rq_occurredAt rq) (clk 1) of
                Inl e \<Rightarrow> (Inl e, d1)
              | Inr (requested, basket) \<Rightarrow> redeem_transaction env rq requested basket sched others clk d1)))"

subsection \<open>Frames of the stages\<close>

lemma recordDuplicateReceiptAttempt_frame [frame_intros]:
  assumes "\<And>d v. f (d\<lparr>auditLogs := v\<rparr>) = f d"
    and "\<And>d v w. f (d\<lparr>idCounter := w, outboxEvents := v\<rparr>) = f d"
  shows "tx_frame f (recordDuplicateReceiptAttempt env rq cx i)"
  unfolding recordDuplicateReceiptAttempt_def by (intro frame_intros assms)

lemma redeem_rows_frame [frame_intros]:
  assumes "\<And>d v w. f (d\<lparr>idCounter := w, receipts := v\<rparr>) = f d"
    and "\<And>d v w. f (d\<lparr>idCounter := w, redemptions := v\<rparr>) = f d"
    and "\<And>d v. f (d\<lparr>auditLogs := v\<rparr>) = f d"
  shows "tx_frame f (redeem_rows env rq cx pol a b now)"
  unfolding redeem_rows_def Let_def by (intro frame_intros assms)

lemma redeem_finish_frame [frame_intros]:
  assumes "\<And>d v. f (d\<lparr>idempotencyRecords := v\<rparr>) = f d" and "\<And>d v. f (d\<lparr>auditLogs := v\<rparr>) = f d"
  shows "tx_frame f (redeem_finish rq action i response now)"
  unfolding redeem_finish_def persistCompletedIdempotencyResponse_def by (intro frame_intros assms)

lemma redeem_hold_frame [frame_intros]:
  assumes "\<And>d v w. f (d\<lparr>idCounter := w, approvals := v\<rparr>) = f d"
    and "\<And>d v w. f (d\<lparr>idCounter := w, outboxEvents := v\<rparr>) = f d"
    and "\<And>d v. f (d\<lparr>idempotencyRecords := v\<rparr>) = f d" and "\<And>d v. f (d\<lparr>auditLogs := v\<rparr>) = f d"
  shows "tx_frame f (redeem_hold env rq cx pol a b now receipt redemption)"
  unfolding redeem_hold_def by (intro frame_intros assms)

subsection \<open>Effect of a committed redemption\<close>

lemma redeem_execute_stages:
  assumes "redeem_execute env rq cx req basket now d = Inr (response, d')"
  obtains pol receipt redemption d1 where
    "redeem_evaluate env rq cx req basket now d = Inr pol"
    "redeem_rows env rq cx pol req basket now d = Inr ((receipt, redemption), d1)"
    "(if rpol_requiresApproval pol then redeem_hold env rq cx pol req basket now receipt redemption
      else redeem_settle env rq cx pol req basket now receipt redemption) d1 = Inr (response, d')"
  using assms by (auto simp: redeem_execute_def tx_bind_eq_Inr split: sum.splits prod.splits)

lemma redeem_settle_stages:
  assumes "redeem_settle env rq cx pol req basket now receipt redemption d1 = Inr (response, d')"
  obtains settlement d2 where
    "executeRedemptionSettlement env
       (redeem_settlement_input env rq cx pol req basket now receipt redemption) d1 = Inr (settlement, d2)"
    "money_view d' = money_view d2"
proof -
  from assms obtain settlement d2 ev d3 where s: "executeRedemptionSettlement env
       (redeem_settlement_input env rq cx pol req basket now receipt redemption) d1 = Inr (settlement, d2)"
    and o: "outboxEvent_create env ev d2 = Inr d3"
    and r: "redeem_finish rq ''redemption.confirmed'' (rd_id redemption)
       (buildRedeemResponse rq cx pol req basket now (rc_id receipt)
          (rd_id redemption) None (Some settlement)) now (snd d3) = Inr (response, d')"
    by (fastforce simp: redeem_settle_def tx_bind_eq_Inr)
  have "money_view (snd d3) = money_view d2"
    using tx_frameD[OF outboxEvent_create_frame[of money_view env ev]] o by (cases d3) simp
  moreover have "money_view d' = money_view (snd d3)"
    by (rule tx_frameD[OF redeem_finish_frame r]) simp_all
  ultimately show thesis using that[OF s] by simp
qed

lemma redeem_execute_money:
  assumes "redeem_execute env rq cx req basket now d = Inr (response, d')" and "money_at f d"
  shows "money_at f d'"
proof -
  obtain pol receipt redemption d1 where
    rows: "redeem_rows env rq cx pol req basket now d = Inr ((receipt, redemption), d1)"
    and fin: "(if rpol_requiresApproval pol then redeem_hold env rq cx pol req basket now receipt redemption
      else redeem_settle env rq cx pol req basket now receipt redemption) d1 = Inr (response, d')"
    by (rule redeem_execute_stages[OF assms(1)])
  have m1: "money_at f d1"
    using assms(2) rows by (rule money_at_frameD) (rule redeem_rows_frame; simp)
  show ?thesis
  proof (cases "rpol_requiresApproval pol")
    case True
    then have "redeem_hold env rq cx pol req basket now receipt redemption d1 = Inr (response, d')"
      using fin by simp
    with m1 show ?thesis by (rule money_at_frameD) (rule redeem_hold_frame; simp)
  next
    case False
    then have "redeem_settle env rq cx pol req basket now receipt redemption d1 = Inr (response, d')"
      using fin by simp
    then obtain settlement d2 where s: "executeRedemptionSettlement env
         (redeem_settlement_input env rq cx pol req basket now receipt redemption) d1 = Inr (settlement, d2)"
      and v: "money_view d' = money_view d2" by (rule redeem_settle_stages)
    show ?thesis using executeRedemptionSettlement_money[OF s m1] money_at_view[OF v] by blast
  qed
qed

lemma redeem_evaluate_allows:
  assumes "redeem_evaluate env rq cx req basket now d = Inr pol"
  shows "req \<le> getActiveBalanceKobo (rq_tenantId rq) (cd_customerId (cx_card cx)) now d"
    and "pr_minimumRedemptionKobo (rpol_policy pol) \<le> req"
    and "req \<le> pr_basketCapKobo (rpol_policy pol)"
  using assms
  by (auto simp: redeem_evaluate_def Let_def res_bind_eq_Inr assertRedemptionPolicyAllowsRequest_Inr
      split: if_splits)

text \<open>
  C12: a redemption that commits asked for no more than the customer's active balance. Held for
  approval, it touches no lot and no ledger entry; settled at once, it lowers the active balance
  by exactly the amount asked for and raises it by what the rest of the basket earns, and no
  other account changes.
\<close>

theorem redeem_execute_balance:
  assumes "redeem_execute env rq cx req basket now d = Inr (response, d')" and "lots_wf d"
  shows "req \<le> active_balance (rq_tenantId rq, cd_customerId (cx_card cx)) now d
    \<and> (\<exists>pol. redeem_evaluate env rq cx req basket now d = Inr pol
        \<and> (if rpol_requiresApproval pol then money_view d' = money_view d
           else active_balance a now d' = active_balance a now d
             + (if a = (rq_tenantId rq, cd_customerId (cx_card cx))
                then (if now < addUtcMonthsClamped (rq_occurredAt rq) 12
                      then ((basket - req) * resolveEarnRateBps env (rpol_earnPolicy pol) + 9999) div 10000
                      else 0) - req
                else 0)))"
proof -
  obtain pol receipt redemption d1 where ev: "redeem_evaluate env rq cx req basket now d = Inr pol"
    and rows: "redeem_rows env rq cx pol req basket now d = Inr ((receipt, redemption), d1)"
    and fin: "(if rpol_requiresApproval pol then redeem_hold env rq cx pol req basket now receipt redemption
      else redeem_settle env rq cx pol req basket now receipt redemption) d1 = Inr (response, d')"
    by (rule redeem_execute_stages[OF assms(1)])
  have v1: "money_view d1 = money_view d" by (rule tx_frameD[OF redeem_rows_frame rows]) simp_all
  have "if rpol_requiresApproval pol then money_view d' = money_view d
           else active_balance a now d' = active_balance a now d
             + (if a = (rq_tenantId rq, cd_customerId (cx_card cx))
                then (if now < addUtcMonthsClamped (rq_occurredAt rq) 12
                      then ((basket - req) * resolveEarnRateBps env (rpol_earnPolicy pol) + 9999) div 10000
                      else 0) - req
                else 0)"
  proof (cases "rpol_requiresApproval pol")
    case True
    then have "redeem_hold env rq cx pol req basket now receipt redemption d1 = Inr (response, d')"
      using fin by simp
    then have "money_view d' = money_view d1"
      by (rule tx_frameD[OF redeem_hold_frame, rotated 4]) simp_all
    with v1 True show ?thesis by simp
  next
    case False
    then have "redeem_settle env rq cx pol req basket now receipt redemption d1 = Inr (response, d')"
      using fin by simp
    then obtain settlement d2 where s: "executeRedemptionSettlement env
         (redeem_settlement_input env rq cx pol req basket now receipt redemption) d1 = Inr (settlement, d2)"
      and v2: "money_view d' = money_view d2" by (rule redeem_settle_stages)
    have wf1: "lots_wf d1" using assms(2) v1 by (simp add: lots_wf_def)
    have "active_balance a now d' = active_balance a now d2" "active_balance a now d = active_balance a now d1"
      using v1 v2 by (simp_all add: active_balance_def getActiveBalanceKobo_def)
    then show ?thesis
      using settlement_effect[OF s wf1, of a] False by (simp add: redeem_settlement_input_def)
  qed
  with ev redeem_evaluate_allows(1)[OF ev] show ?thesis by (auto simp: active_balance_def)
qed

subsection \<open>Books\<close>

context session_invariant
begin

lemma recordDuplicateReceiptAttempt_keeps:
  "recordDuplicateReceiptAttempt env rq cx i d = Inr (u, d') \<Longrightarrow> P d' = P d"
  by (rule tx_frameD[OF recordDuplicateReceiptAttempt_frame]) (simp_all add: P_audit P_outbox)

lemma redeem_attempt_keeps:
  assumes "P (fst s)" and "session_keeps P sched others" and "\<And>cx now. tx_keeps P (redeem_execute env rq cx a b now)"
  shows "P (fst (snd (redeem_attempt env rq a b sched clk k s)))"
  using session_keepsD(1)[OF assms(2,1), of k] recordDuplicateReceiptAttempt_keeps
  by (auto simp: redeem_attempt_def split: prod.splits option.splits sum.splits dest: tx_keepsD[OF assms(3)])

lemma redeem_recover_keeps: "P (fst s) \<Longrightarrow> P (snd (redeem_recover env rq e s))"
  by (auto simp: redeem_recover_def Let_def split: option.splits sum.splits prod.splits
      dest: recordDuplicateReceiptAttempt_keeps)

lemma cleanup_keeps: "P (cleanupExpiredIdempotencyRecords t a e k now d) = P d"
  by (simp add: cleanupExpiredIdempotencyRecords_def deleteMany_keeps)

end

lemma redeem_execute_stores:
  assumes "redeem_execute env rq cx req basket now d = Inr (response, d')"
  shows "findCompletedRedeemReplay rq d' = Some response"
proof -
  have fin: "findCompletedRedeemReplay rq t' = Some r"
    if "redeem_finish rq action i v now t = Inr (r, t')" for action i v t t' r
  proof -
    from that obtain t1 where p: "persistCompletedIdempotencyResponse REDEEM_ENDPOINT (rq_tenantId rq)
        (actor_id (rq_actor rq)) (rq_key rq) (rq_requestHash rq) r now t = Inr ((), t1)"
      and "idempotencyRecords t' = idempotencyRecords t1"
      by (auto simp: redeem_finish_def tx_bind_eq_Inr recordWithClient_def auditLog_create_def)
    with idempotencyRecord_create_find[OF p[unfolded persistCompletedIdempotencyResponse_def]]
    show ?thesis
      using idempotencyRecord_findUnique_cong[of t' t1] by (simp add: findCompletedRedeemReplay_def)
  qed
  show ?thesis
    using assms
    by (auto simp: redeem_execute_def redeem_hold_def redeem_settle_def tx_bind_eq_Inr
        split: sum.splits prod.splits if_splits intro: fin)
qed

definition redeem_keeps ::
  "(db \<Rightarrow> bool) \<Rightarrow> env \<Rightarrow> (nat \<Rightarrow> db \<Rightarrow> db \<times> svc_error option) \<Rightarrow> (nat \<Rightarrow> db \<Rightarrow> db) \<Rightarrow> bool" where
  "redeem_keeps P env sched others = (session_invariant P \<and> session_keeps P sched others
     \<and> (\<forall>rq cx a b now. tx_keeps P (redeem_execute env rq cx a b now)))"

interpretation redeem_run: retried_result "redeem_attempt env rq a b sched clk" "redeem_onConflict rq others"
  "\<lambda>s. redeem_keeps P env sched others \<longrightarrow> P (fst s)"
  "\<lambda>response s. findCompletedRedeemReplay rq (fst s) = Some response"
  for env rq a b sched clk others P
proof unfold_locales
  fix s :: redeem_state and k
  assume "redeem_keeps P env sched others \<longrightarrow> P (fst s)"
  then show "redeem_keeps P env sched others \<longrightarrow> P (fst (snd (redeem_attempt env rq a b sched clk k s)))"
    using session_invariant.redeem_attempt_keeps[of P s sched others env rq a b clk k] by (simp add: redeem_keeps_def)
next
  fix s :: redeem_state and k
  assume "redeem_keeps P env sched others \<longrightarrow> P (fst s)"
  then show "redeem_keeps P env sched others \<longrightarrow> P (fst (snd (redeem_onConflict rq others k s)))"
    by (auto simp: redeem_onConflict_def redeem_keeps_def Let_def dest: session_keepsD(2))
next
  fix k x and s s' :: redeem_state
  assume "redeem_attempt env rq a b sched clk k s = (Inr x, s')"
  then show "findCompletedRedeemReplay rq (fst s') = Some x"
    by (auto simp: redeem_attempt_def split: prod.splits option.splits sum.splits dest: redeem_execute_stores)
next
  fix k x and s s' :: redeem_state
  assume "redeem_onConflict rq others k s = (Inr (Some x), s')"
  then show "findCompletedRedeemReplay rq (fst s') = Some x"
    by (auto simp: redeem_onConflict_def Let_def)
qed

lemma redeem_transaction_keeps:
  assumes "P d" and "redeem_keeps P env sched others"
  shows "P (snd (redeem_transaction env rq a b sched others clk d))"
proof -
  have "P (fst (snd (runWithBoundedFinancialRetries (redeem_attempt env rq a b sched clk)
             (redeem_onConflict rq others) redeem_retry_options (d, None))))"
    using redeem_run.run_inv[where P = P and sched = sched and others = others and s = "(d, None)"] assms
    by simp
  then show ?thesis
    using assms(2) session_invariant.redeem_recover_keeps[of P]
    by (auto simp: redeem_transaction_def redeem_keeps_def split: prod.splits sum.splits)
qed

lemma redeem_invariant:
  assumes "P d" and "session_invariant P" and "session_keeps P sched others"
    and "\<And>rq cx a b now. tx_keeps P (redeem_execute env rq cx a b now)"
  shows "P (snd (redeem env sched others clk tenantId actor key dto d))"
proof -
  have k: "redeem_keeps P env sched others" using assms by (simp add: redeem_keeps_def)
  show ?thesis
    using assms(1) redeem_transaction_keeps[OF _ k] session_invariant.cleanup_keeps[OF assms(2)]
    by (auto simp: redeem_def Let_def split: sum.splits option.splits prod.splits)
qed

lemma redeem_money:
  assumes "money_at f d" and "polite f sched others"
  shows "money_at f (snd (redeem env sched others clk tenantId actor key dto d))"
  using assms(1) money_inv.session_invariant_axioms assms(2)
  by (rule redeem_invariant) (auto simp: tx_keeps_def intro!: tx_specI dest: redeem_execute_money)

subsection \<open>Idempotency\<close>

lemma redeem_lookup_Some:
  "redeem_lookup rq d = Inr (Some r) \<longleftrightarrow> findCompletedRedeemReplay rq d = Some r"
  by (auto simp: redeem_lookup_def findCompletedRedeemReplay_def split: option.splits)

lemma redeem_transaction_stores:
  assumes "redeem_transaction env rq a b sched others clk d = (Inr r, d')"
  shows "findCompletedRedeemReplay rq d' = Some r"
proof -
  obtain res s where run: "runWithBoundedFinancialRetries (redeem_attempt env rq a b sched clk)
      (redeem_onConflict rq others) redeem_retry_options (d, None) = (res, s)" by (metis surj_pair)
  show ?thesis
  proof (cases res)
    case (Inl e)
    with assms run have "redeem_recover env rq e s = (Inr r, d')" by (simp add: redeem_transaction_def)
    then show ?thesis
      by (auto simp: redeem_recover_def Let_def split: if_splits option.splits sum.splits prod.splits)
  next
    case (Inr x)
    with assms run have "x = r" "d' = fst s" by (simp_all add: redeem_transaction_def)
    with redeem_run.run_good[OF run[unfolded Inr]] show ?thesis by simp
  qed
qed

lemma redeem_stores:
  assumes "redeem env sched others clk tenantId actor key dto d = (Inr r, d')"
  obtains rq where "redeem_prepare env tenantId actor key dto = Inr rq"
    and "findCompletedRedeemReplay rq d' = Some r"
  using assms
  by (auto simp: redeem_def Let_def redeem_lookup_Some split: sum.splits option.splits prod.splits
      dest: redeem_transaction_stores)

lemma redeem_prepare_fields:
  "redeem_prepare env tenantId actor key dto = Inr rq \<Longrightarrow> rq_tenantId rq = tenantId \<and> rq_actor rq = actor"
  by (auto simp: redeem_prepare_def Let_def res_bind_eq_Inr split: if_splits)

lemma cleanup_unexpired:
  assumes "\<forall>x\<in>set (idempotencyRecords d). is_record t a e k x \<longrightarrow> now < idr_expiresAt x"
  shows "cleanupExpiredIdempotencyRecords t a e k now d = d"
proof -
  have "filter (\<lambda>x. \<not> (is_record t a e k x \<and> idr_expiresAt x \<le> now)) (idempotencyRecords d) = idempotencyRecords d"
    using assms by (auto simp: filter_id_conv)
  then show ?thesis by (simp add: cleanupExpiredIdempotencyRecords_def idempotencyRecord_deleteMany_def)
qed

text \<open>What one call meets: the engine and the other sessions, and the clock.\<close>

type_synonym world = "(nat \<Rightarrow> db \<Rightarrow> db \<times> svc_error option) \<times> (nat \<Rightarrow> db \<Rightarrow> db) \<times> (nat \<Rightarrow> int)"

definition records_live :: "world \<Rightarrow> db \<Rightarrow> bool" where
  "records_live w d = (\<forall>x\<in>set (idempotencyRecords d). snd (snd w) 0 < idr_expiresAt x)"

definition redeem_in :: "env \<Rightarrow> string \<Rightarrow> AuthContext \<Rightarrow> string option \<Rightarrow> RedeemTransactionDto \<Rightarrow>
    world \<Rightarrow> db \<Rightarrow> (svc_error + json) \<times> db" where
  "redeem_in env tenantId actor key dto w =
     redeem env (fst w) (fst (snd w)) (snd (snd w)) tenantId actor key dto"

definition redeem_replay :: "env \<Rightarrow> string \<Rightarrow> AuthContext \<Rightarrow> string option \<Rightarrow> RedeemTransactionDto \<Rightarrow>
    db \<Rightarrow> json option" where
  "redeem_replay env tenantId actor key dto d =
     (case redeem_prepare env tenantId actor key dto of
        Inl e \<Rightarrow> None | Inr rq \<Rightarrow> findCompletedRedeemReplay rq d)"

interpretation redeem_idem: idempotent_call "redeem_in env tenantId actor key dto"
  "redeem_replay env tenantId actor key dto" records_live for env tenantId actor key dto
proof unfold_locales
  fix w r and d d' :: db
  assume "redeem_in env tenantId actor key dto w d = (Inr r, d')"
  then show "redeem_replay env tenantId actor key dto d' = Some r"
    unfolding redeem_in_def by (rule redeem_stores) (simp add: redeem_replay_def)
next
  fix w r and d :: db
  assume "redeem_replay env tenantId actor key dto d = Some r" and live: "records_live w d"
  then obtain rq where p: "redeem_prepare env tenantId actor key dto = Inr rq"
    and r: "findCompletedRedeemReplay rq d = Some r" by (auto simp: redeem_replay_def split: sum.splits)
  have "cleanupExpiredIdempotencyRecords tenantId (actor_id actor) REDEEM_ENDPOINT (rq_key rq)
      (snd (snd w) 0) d = d"
    by (rule cleanup_unexpired) (use live in \<open>simp add: records_live_def\<close>)
  with p r show "redeem_in env tenantId actor key dto w d = (Inr r, d)"
    by (simp add: redeem_in_def redeem_def redeem_lookup_Some[THEN iffD2])
qed


text \<open>
  A key that is taken by an unexpired record with another request hash is refused with
  \<open>IDEMPOTENCY_CONFLICT\<close> before anything is written.
\<close>

theorem redeem_key_reuse_refused:
  assumes "redeem_prepare env tenantId actor key dto = Inr rq"
    and "idempotencyRecord_findUnique tenantId (actor_id actor) REDEEM_ENDPOINT (rq_key rq) d = Some x"
    and "idr_requestHash x \<noteq> rq_requestHash rq"
    and "\<forall>y\<in>set (idempotencyRecords d). clk 0 < idr_expiresAt y"
  shows "redeem env sched others clk tenantId actor key dto d = (Inl idempotency_conflict, d)"
proof -
  have "cleanupExpiredIdempotencyRecords tenantId (actor_id actor) REDEEM_ENDPOINT (rq_key rq) (clk 0) d = d"
    by (rule cleanup_unexpired) (use assms(4) in blast)
  with assms(1-3) redeem_prepare_fields[OF assms(1)] show ?thesis
    by (simp add: redeem_def redeem_lookup_def)
qed

subsection \<open>Failure\<close>

definition redeem_view :: "db \<Rightarrow> (CreditLot list \<times> LoyaltyLedgerEntry list) \<times> Receipt list \<times> Redemption list \<times>
    RedemptionAllocation list \<times> Approval list \<times> SmsMessage list" where
  "redeem_view d = (money_view d, receipts d, redemptions d, redemptionAllocations d, approvals d, smsMessages d)"

lemma recordDuplicateReceiptAttempt_view:
  "recordDuplicateReceiptAttempt env rq cx i d = Inr (u, d') \<Longrightarrow> redeem_view d' = redeem_view d"
  by (rule tx_frameD[OF recordDuplicateReceiptAttempt_frame]) (auto simp: redeem_view_def)

interpretation redeem_alone: retried_rollback "redeem_attempt env rq a b alone clk"
  "redeem_onConflict rq (\<lambda>_ d. d)" "\<lambda>s. redeem_view (fst s)" for env rq a b clk
proof unfold_locales
  fix k e and s s' :: redeem_state
  assume "redeem_attempt env rq a b alone clk k s = (Inl e, s')"
  then show "redeem_view (fst s') = redeem_view (fst s)"
    by (auto simp: redeem_attempt_def alone_def split: prod.splits option.splits sum.splits
        dest: recordDuplicateReceiptAttempt_view)
next
  fix k and s :: redeem_state
  show "redeem_view (fst (snd (redeem_onConflict rq (\<lambda>_ d. d) k s))) = redeem_view (fst s)"
    by (simp add: redeem_onConflict_def Let_def)
qed

text \<open>
  A redemption that fails while no other session is at work leaves no trace in the lots, the ledger, the
  receipts, the redemptions, their allocations, the approvals and the messages; what it may leave is the record of a duplicate
  receipt.
\<close>

theorem redeem_failure_rolls_back:
  assumes "redeem env alone (\<lambda>_ d. d) clk tenantId actor key dto d = (Inl e, d')"
  shows "redeem_view d' = redeem_view d"
proof -
  have tr: "redeem_view t' = redeem_view t"
    if "redeem_transaction env rq a b alone (\<lambda>_ d. d) clk t = (Inl e', t')" for rq a b t t' e'
  proof -
    obtain res s where run: "runWithBoundedFinancialRetries (redeem_attempt env rq a b alone clk)
        (redeem_onConflict rq (\<lambda>_ d. d)) redeem_retry_options (t, None) = (res, s)" by (metis surj_pair)
    with that obtain e0 where res: "res = Inl e0" by (cases res) (auto simp: redeem_transaction_def)
    have "redeem_view (fst s) = redeem_view t"
      using redeem_alone.run_rollback[OF run[unfolded res]] by simp
    moreover have "redeem_recover env rq e0 s = (Inl e', t')"
      using that run res by (simp add: redeem_transaction_def)
    ultimately show ?thesis
      by (auto simp: redeem_recover_def Let_def split: if_splits option.splits sum.splits prod.splits
          dest: recordDuplicateReceiptAttempt_view)
  qed
  have cl: "redeem_view (cleanupExpiredIdempotencyRecords t a ep k now d) = redeem_view d" for t a ep k now
    by (simp add: cleanupExpiredIdempotencyRecords_def redeem_view_def)
  show ?thesis
    using assms tr by (auto simp: redeem_def Let_def cl split: sum.splits option.splits prod.splits)
qed

subsection \<open>A redemption at the demonstration shop\<close>

definition demo_redeem_dto :: "int \<Rightarrow> RedeemTransactionDto" where
  "demo_redeem_dto requested = \<lparr> dto_cardSerialNumber = '' sc-01'', dto_posReceiptNumber = ''r-17'',
     dto_basketAmountKobo = 200000, dto_requestedRedemptionKobo = requested, dto_occurredAt = ''x'' \<rparr>"

definition demo_rq :: "int \<Rightarrow> redeem_request" where
  "demo_rq requested =
     \<lparr> rq_tenantId = ''T'', rq_actor = demo_cashier, rq_key = ''k1'', rq_posReceiptNumber = ''r-17'',
       rq_normalizedPos = ''R-17'', rq_cardSerialNumber = ''SC-01'', rq_occurredAt = demo_now,
       rq_deviceId = ''D'',
       rq_requestHash = redeem_hashRequest demo_env (JObj
           [(''tenantId'', JStr ''T''), (''actorId'', JStr ''U''), (''cardSerialNumber'', JStr ''SC-01''),
            (''posReceiptNumber'', JStr ''R-17''), (''basketAmountKobo'', JNum 200000),
            (''requestedRedemptionKobo'', JNum requested), (''occurredAt'', json_date demo_now),
            (''deviceId'', JStr ''D'')]) \<rparr>"

definition demo_cx :: redeem_context where
  "demo_cx = \<lparr> cx_device = hd (devices demo_db), cx_card = hd (cards demo_db),
     cx_customer = hd (customers demo_db), cx_branchId = ''B'', cx_receiptWeekStart = 1708905600000 \<rparr>"

abbreviation demo_redeem :: "int \<Rightarrow> db \<Rightarrow> (svc_error + json) \<times> db" where
  "demo_redeem requested \<equiv> redeem demo_env alone (\<lambda>_ d. d) (\<lambda>_. demo_now) ''T'' demo_cashier (Some ''k1'')
     (demo_redeem_dto requested)"

lemma demo_prepare: "redeem_prepare demo_env ''T'' demo_cashier (Some ''k1'') (demo_redeem_dto requested)
    = Inr (demo_rq requested)"
proof -
  have "redeem_normalizeIdempotencyKey (Some ''k1'') = Inr ''k1''"
    "normalizeBoundedText ''r-17'' ''posReceiptNumber'' = Inr ''r-17''"
    "normalizeReceiptIdentity ''r-17'' = ''R-17''" "normalizeCardSerial '' sc-01'' = Inr ''SC-01''"
    by code_simp+
  moreover have "redeem_parseDate demo_env ''x'' ''occurredAt'' = Inr demo_now"
    by (simp add: redeem_parseDate_def demo_env_def)
  ultimately show ?thesis
    by (simp add: redeem_prepare_def demo_redeem_dto_def demo_rq_def demo_cashier_def truthy_def
        json_opt_str_def opt_json_def Let_def)
qed

lemma demo_checks: "redeem_checks demo_env (demo_rq requested) demo_db = Inr demo_cx"
proof -
  have "redeem_deriveReceiptWeekStart demo_env demo_now ''Africa/Lagos'' 1 = Inr 1708905600000"
    by code_simp
  moreover have "js_toUpperCase ''SC-01'' = ''SC-01''" by code_simp
  ultimately show ?thesis
    by (simp add: redeem_checks_def demo_rq_def demo_cx_def demo_db_def demo_cashier_def truthy_def
        device_with_branch_def card_by_serial_def card_customer_def res_unless_def Let_def)
qed

lemma demo_redeem_unfold:
  assumes "isSafeInteger requested" and "0 < requested"
  shows "demo_redeem requested demo_db =
    redeem_transaction demo_env (demo_rq requested) requested 200000 alone (\<lambda>_ d. d) (\<lambda>_. demo_now) demo_db"
proof -
  have e: "idempotencyRecords demo_db = []" by (simp add: demo_db_def)
  have "cleanupExpiredIdempotencyRecords ''T'' (actor_id demo_cashier) REDEEM_ENDPOINT
      (rq_key (demo_rq requested)) demo_now demo_db = demo_db"
    by (rule cleanup_unexpired) (simp add: e)
  moreover have "redeem_lookup (demo_rq requested) demo_db = Inr None"
    by (simp add: redeem_lookup_def idempotencyRecord_findUnique_def e)
  moreover have "redeem_amounts (demo_redeem_dto requested) (rq_occurredAt (demo_rq requested)) demo_now
      = Inr (requested, 200000)"
    using assms by (simp add: redeem_amounts_def redeem_toSafePositiveBigInt_def demo_redeem_dto_def demo_rq_def
        assertRedemptionTimestampAllowed_def MAX_POS_FUTURE_SKEW_MS_def MAX_POS_PAST_SKEW_MS_def
        isSafeInteger_def MAX_SAFE_INTEGER_def)
  ultimately show ?thesis by (simp add: redeem_def demo_prepare)
qed

lemma demo_attempt:
  "redeem_attempt demo_env (demo_rq requested) requested 200000 alone (\<lambda>_. demo_now) k (demo_db, v) =
     (case redeem_execute demo_env (demo_rq requested) demo_cx requested 200000 demo_now demo_db of
        Inl e \<Rightarrow> (Inl e, (demo_db, Some demo_cx))
      | Inr (response, d') \<Rightarrow> (Inr response, (d', Some demo_cx)))"
  by (simp add: redeem_attempt_def alone_def demo_checks receipt_by_identity_def)
    (simp add: demo_db_def)

lemma demo_execute:
  obtains r d' where
    "redeem_execute demo_env (demo_rq 60000) demo_cx 60000 200000 demo_now demo_db = Inr (r, d')"
    and "json_get r ''state'' = JStr ''CONFIRMED''"
    and "\<forall>x\<in>set (idempotencyRecords d'). demo_now < idr_expiresAt x"
proof -
  have "map_sum (\<lambda>e. e) (\<lambda>r. (json_get (fst r) ''state'',
        list_all (\<lambda>x. demo_now < idr_expiresAt x) (idempotencyRecords (snd r))))
      (redeem_execute demo_env (demo_rq 60000) demo_cx 60000 200000 demo_now demo_db)
      = Inr (JStr ''CONFIRMED'', True)"
    by code_simp
  then show thesis by (rule committed_result) (use that in \<open>auto simp: list_all_iff\<close>)
qed

lemma demo_redeem_confirmed:
  obtains r d' where "demo_redeem 60000 demo_db = (Inr r, d')"
    and "\<forall>x\<in>set (idempotencyRecords d'). demo_now < idr_expiresAt x"
proof -
  obtain r d' where e: "redeem_execute demo_env (demo_rq 60000) demo_cx 60000 200000 demo_now demo_db = Inr (r, d')"
    and x: "\<forall>x\<in>set (idempotencyRecords d'). demo_now < idr_expiresAt x"
    by (rule demo_execute)
  have "isSafeInteger 60000" by (simp add: isSafeInteger_def MAX_SAFE_INTEGER_def)
  then have "demo_redeem 60000 demo_db = (Inr r, d')"
    by (simp add: demo_redeem_unfold redeem_transaction_def runWithBoundedFinancialRetries_def
        redeem_retry_options_def numeral_3_eq_3 demo_attempt e)
  with x that show thesis by blast
qed

theorem redeem_execute_balance_witness:
  "\<exists>r d'. redeem_execute demo_env (demo_rq 60000) demo_cx 60000 200000 demo_now demo_db = Inr (r, d')
     \<and> active_balance (''T'', ''C'') demo_now d' = 120000 + 2800 - 60000"
proof -
  obtain r d' where e: "redeem_execute demo_env (demo_rq 60000) demo_cx 60000 200000 demo_now demo_db = Inr (r, d')"
    by (rule demo_execute)
  have p: "map_sum (\<lambda>e. e) (\<lambda>p. (rpol_requiresApproval p, resolveEarnRateBps demo_env (rpol_earnPolicy p)))
     (redeem_evaluate demo_env (demo_rq 60000) demo_cx 60000 200000 demo_now demo_db) = Inr (False, 200)"
    by code_simp
  have b: "active_balance (''T'', ''C'') demo_now demo_db = 120000" by code_simp
  have c: "rq_tenantId (demo_rq 60000) = ''T''" "cd_customerId (cx_card demo_cx) = ''C''"
    "demo_now < addUtcMonthsClamped (rq_occurredAt (demo_rq 60000)) 12"
    by (simp_all add: demo_rq_def demo_cx_def demo_db_def) code_simp
  from redeem_execute_balance[OF e demo_lots_wf, of "(''T'', ''C'')"] p b c e show ?thesis by auto
qed


definition demo_taken_key :: IdempotencyRecord where
  "demo_taken_key = \<lparr> idr_tenantId = ''T'', idr_actorId = ''U'', idr_endpoint = REDEEM_ENDPOINT,
     idr_idempotencyKey = ''k1'', idr_requestHash = ''another'', idr_responseJson = Some JNull,
     idr_status = IdempotencyRecordStatus.COMPLETED, idr_expiresAt = demo_now + 1 \<rparr>"

theorem redeem_key_reuse_refused_witness:
  "demo_redeem 60000 (demo_db\<lparr>idempotencyRecords := [demo_taken_key]\<rparr>)
     = (Inl idempotency_conflict, demo_db\<lparr>idempotencyRecords := [demo_taken_key]\<rparr>)"
proof -
  have h: "idr_requestHash demo_taken_key \<noteq> rq_requestHash (demo_rq 60000)" by code_simp
  have k: "idempotencyRecord_findUnique ''T'' (actor_id demo_cashier) REDEEM_ENDPOINT (rq_key (demo_rq 60000))
      (demo_db\<lparr>idempotencyRecords := [demo_taken_key]\<rparr>) = Some demo_taken_key"
    by (simp add: idempotencyRecord_findUnique_def is_record_def demo_taken_key_def demo_cashier_def demo_rq_def)
  show ?thesis
    by (rule redeem_key_reuse_refused[OF demo_prepare k h]) (simp add: demo_taken_key_def)
qed

theorem redeem_failure_rolls_back_witness:
  "\<exists>e d'. demo_redeem 10 demo_db = (Inl e, d') \<and> redeem_view d' = redeem_view demo_db"
proof -
  have "(case redeem_evaluate demo_env (demo_rq 10) demo_cx 10 200000 demo_now demo_db of
      Inl e \<Rightarrow> e = DomainHttpException 422 ''MINIMUM_REDEMPTION_NOT_MET''
        ''Requested redemption is below the minimum amount'' | Inr _ \<Rightarrow> False)"
    by code_simp
  then have "redeem_execute demo_env (demo_rq 10) demo_cx 10 200000 demo_now demo_db =
      Inl (DomainHttpException 422 ''MINIMUM_REDEMPTION_NOT_MET''
        ''Requested redemption is below the minimum amount'')"
    by (simp add: redeem_execute_def split: sum.splits)
  moreover have "isSafeInteger 10" by (simp add: isSafeInteger_def MAX_SAFE_INTEGER_def)
  ultimately obtain e d' where r: "demo_redeem 10 demo_db = (Inl e, d')"
    by (simp add: demo_redeem_unfold redeem_transaction_def runWithBoundedFinancialRetries_def
        redeem_retry_options_def numeral_3_eq_3 demo_attempt redeem_recover_def isUniqueIdempotencyConflict_def
        isUniqueReceiptConflict_def isUniqueRedemptionTransactionConflict_def p2002Target_def Let_def)
  from redeem_failure_rolls_back[OF r] r show ?thesis by blast
qed

text \<open>
  A redemption keeps the books balanced whatever it returns and however often it is retried,
  as long as the sessions it races with do.
\<close>

theorem redeem_keeps_books:
  assumes "books_balance d" and "polite (\<lambda>_. 0) sched others"
  shows "books_balance (snd (redeem env sched others clk tenantId actor key dto d))"
  using redeem_money[OF _ assms(2)] assms(1) unfolding books_balance_money_at .

end
