(* ===== verification/Adjustments.thy ===== *)
theory Adjustments
  imports Redemptions
begin

text \<open>
  \<^verbatim>\<open>src/modules/adjustments/adjustments.service.ts\<close>: manual credits and debits by an administrator.
  \<open>createAdjustment\<close> has its own retry loop and its own wait for the response of a concurrent call.
  The clock readings of one call are \<open>clk 0\<close> (clean-up) and \<open>clk (3 * k)\<close> to \<open>clk (3 * k + 2)\<close>
  in attempt \<open>k\<close>; \<open>sched\<close> is what the engine and other sessions do before attempt \<open>k\<close>,
  \<open>others (3 * k + i)\<close> what other sessions commit before the \<open>i\<close>-th read of the wait after it
  (\<open>k = 0\<close> for the wait before the first attempt).
\<close>

subsection \<open>Request\<close>

record CreateAdjustmentDto =
  adto_customerId :: string
  adto_kind :: AdjustmentKind
  adto_amountKobo :: int
  adto_reason :: string
  adto_effectiveAt :: string

record adjustment_request =
  aq_tenantId :: string
  aq_actor :: AuthContext
  aq_key :: string
  aq_customerId :: string
  aq_kind :: AdjustmentKind
  aq_amountKobo :: int
  aq_reason :: string
  aq_effectiveAt :: int
  aq_requestHash :: string

definition ADJUSTMENTS_ENDPOINT :: string where
  "ADJUSTMENTS_ENDPOINT = ''POST /api/v1/adjustments''"

definition ADJUSTMENT_RETRY_ATTEMPTS :: nat where "ADJUSTMENT_RETRY_ATTEMPTS = 3"

definition adjustment_normalizeIdempotencyKey :: "string option \<Rightarrow> svc_error + string" where
  "adjustment_normalizeIdempotencyKey v =
     (let normalized = (case v of None \<Rightarrow> [] | Some k \<Rightarrow> js_trim k) in
      if normalized = [] then Inl (validation_error ''Idempotency-Key header is required'')
      else Inr normalized)"

definition normalizeReason :: "string \<Rightarrow> svc_error + string" where
  "normalizeReason v =
     (let normalized = js_trim v in
      if normalized = [] then Inl (validation_error ''Reason is required'')
      else if length normalized > 500 then Inl (validation_error ''Reason must be at most 500 characters'')
      else Inr normalized)"

definition parseRequiredEffectiveAt :: "env \<Rightarrow> string \<Rightarrow> svc_error + int" where
  "parseRequiredEffectiveAt env v =
     (if v = [] then Inl (validation_error ''effectiveAt is required'')
      else case dateParse env v of
        None \<Rightarrow> Inl (validation_error ''effectiveAt must be a valid ISO 8601 date-time'')
      | Some t \<Rightarrow> Inr t)"

definition adjustment_toSafePositiveBigInt :: "int \<Rightarrow> string \<Rightarrow> svc_error + int" where
  "adjustment_toSafePositiveBigInt v field =
     (if v \<le> 0 then Inl (validation_error (field @ '' must be a positive integer'')) else Inr v)"

definition adjustment_hashRequest :: "env \<Rightarrow> json \<Rightarrow> string" where
  "adjustment_hashRequest env input = sha256hex env (JSON_stringify input)"

definition adjustment_prepare ::
  "env \<Rightarrow> string \<Rightarrow> AuthContext \<Rightarrow> string option \<Rightarrow> CreateAdjustmentDto \<Rightarrow> svc_error + adjustment_request" where
  "adjustment_prepare env tenantId actor idempotencyKey dto =
     (if actor_role actor \<noteq> UserRole.ADMIN
      then Inl (DomainHttpException 403 ''ADJUSTMENT_FORBIDDEN'' ''Admin role is required'')
      else
        res_bind (adjustment_normalizeIdempotencyKey idempotencyKey) (\<lambda>normalizedKey.
        res_bind (normalizeReason (adto_reason dto)) (\<lambda>reason.
        res_bind (parseRequiredEffectiveAt env (adto_effectiveAt dto)) (\<lambda>effectiveAt.
        let requestHash = adjustment_hashRequest env (JObj
              [(''tenantId'', JStr tenantId), (''actorId'', JStr (actor_id actor)),
               (''customerId'', JStr (adto_customerId dto)), (''kind'', JStr (kind_str (adto_kind dto))),
               (''amountKobo'', JNum (adto_amountKobo dto)), (''reason'', JStr reason),
               (''effectiveAt'', json_date effectiveAt)]) in
        res_bind (adjustment_toSafePositiveBigInt (adto_amountKobo dto) ''amountKobo'') (\<lambda>amountKobo.
        if amountKobo > config_or env ''ADJUSTMENT_AMOUNT_CEILING_KOBO'' 100000000
        then Inl (validation_error ''Adjustment amount exceeds the configured ceiling'')
        else Inr
          \<lparr> aq_tenantId = tenantId, aq_actor = actor, aq_key = normalizedKey,
            aq_customerId = adto_customerId dto, aq_kind = adto_kind dto, aq_amountKobo = amountKobo,
            aq_reason = reason, aq_effectiveAt = effectiveAt, aq_requestHash = requestHash \<rparr>)))))"

subsection \<open>Idempotency records\<close>

text \<open>The clean-up of this service does not look at the endpoint of a record.\<close>

definition adjustment_cleanup :: "string \<Rightarrow> string \<Rightarrow> string \<Rightarrow> int \<Rightarrow> db \<Rightarrow> db" where
  "adjustment_cleanup tenantId actorId key now =
     idempotencyRecord_deleteMany (\<lambda>x. idr_tenantId x = tenantId \<and> idr_actorId x = actorId
       \<and> idr_idempotencyKey x = key \<and> idr_expiresAt x \<le> now)"

definition adjustment_record :: "adjustment_request \<Rightarrow> db \<Rightarrow> IdempotencyRecord option" where
  "adjustment_record aq d =
     idempotencyRecord_findUnique (aq_tenantId aq) (actor_id (aq_actor aq)) ADJUSTMENTS_ENDPOINT (aq_key aq) d"

definition persistAdjustmentIdempotency :: "adjustment_request \<Rightarrow> json \<Rightarrow> int \<Rightarrow> unit dbtx" where
  "persistAdjustmentIdempotency aq response nowMs =
     require_updated (idempotencyRecord_updateMany
       (is_record (aq_tenantId aq) (actor_id (aq_actor aq)) ADJUSTMENTS_ENDPOINT (aq_key aq))
       (\<lambda>x. x\<lparr>idr_requestHash := aq_requestHash aq, idr_responseJson := Some response,
              idr_status := IdempotencyRecordStatus.COMPLETED,
              idr_expiresAt := nowMs + IDP_EXPIRY_MS\<rparr>))"

fun adjustment_wait ::
  "adjustment_request \<Rightarrow> (nat \<Rightarrow> db \<Rightarrow> db) \<Rightarrow> nat \<Rightarrow> nat \<Rightarrow> db \<Rightarrow> (svc_error + json option) \<times> db" where
  "adjustment_wait aq others i 0 d = (Inr None, d)"
| "adjustment_wait aq others i (Suc left) d =
     (let d1 = others i d in
      case adjustment_record aq d1 of
        None \<Rightarrow> (Inl idempotency_conflict, d1)
      | Some r \<Rightarrow>
          if idr_requestHash r \<noteq> aq_requestHash aq then (Inl idempotency_conflict, d1)
          else case idr_responseJson r of
            Some response \<Rightarrow> (Inr (Some response), d1)
          | None \<Rightarrow> adjustment_wait aq others (i + 1) left d1)"

definition waitForAdjustmentReplay ::
  "adjustment_request \<Rightarrow> (nat \<Rightarrow> db \<Rightarrow> db) \<Rightarrow> db \<Rightarrow> (svc_error + json option) \<times> db" where
  "waitForAdjustmentReplay aq others d = adjustment_wait aq others 1 ADJUSTMENT_RETRY_ATTEMPTS d"

subsection \<open>The transaction\<close>

definition adjustment_customer :: "adjustment_request \<Rightarrow> db \<Rightarrow> svc_error + Customer" where
  "adjustment_customer aq d =
     (case find (\<lambda>c. cu_tenantId c = aq_tenantId aq \<and> cu_id c = aq_customerId aq) (customers d) of
        None \<Rightarrow> Inl (DomainHttpException 404 ''CUSTOMER_NOT_FOUND'' ''Customer not found'')
      | Some c \<Rightarrow>
          if cu_status c \<noteq> CustomerStatus.ACTIVE \<or> cu_isStaff c
          then Inl (DomainHttpException 404 ''CUSTOMER_NOT_FOUND'' ''Customer not found'')
          else Inr c)"

definition adjustment_rows :: "env \<Rightarrow> adjustment_request \<Rightarrow> Customer \<Rightarrow> (LoyaltyLedgerEntry \<times> Adjustment) dbtx" where
  "adjustment_rows env aq customer =
     tx_bind (loyaltyLedgerEntry_create env (\<lambda>new_id.
       \<lparr> le_id = new_id, le_tenantId = aq_tenantId aq, le_customerId = cu_id customer,
         le_receiptId = None, le_type = LedgerEntryType.ADJUSTMENT,
         le_direction = (case aq_kind aq of AdjustmentKind.CREDIT \<Rightarrow> LedgerEntryDirection.CREDIT
                                          | AdjustmentKind.DEBIT \<Rightarrow> LedgerEntryDirection.DEBIT),
         le_amountKobo = aq_amountKobo aq, le_correlationId = aq_requestHash aq,
         le_reversesEntryId = None, le_createdByTenantId = actor_tenantId (aq_actor aq),
         le_createdBy = actor_id (aq_actor aq), le_effectiveAt = aq_effectiveAt aq \<rparr>)) (\<lambda>entry.
     tx_bind (adjustment_create env (\<lambda>new_id.
       \<lparr> adj_id = new_id, adj_tenantId = aq_tenantId aq, adj_customerId = cu_id customer,
         adj_kind = aq_kind aq, adj_amountKobo = aq_amountKobo aq, adj_reason = aq_reason aq,
         adj_createdByTenantId = actor_tenantId (aq_actor aq), adj_createdBy = actor_id (aq_actor aq),
         adj_ledgerEntryId = le_id entry, adj_effectiveAt = aq_effectiveAt aq \<rparr>)) (\<lambda>adjustment.
     tx_return (entry, adjustment)))"

definition adjustment_notify ::
  "env \<Rightarrow> adjustment_request \<Rightarrow> Customer \<Rightarrow> string \<Rightarrow> string \<Rightarrow> int \<Rightarrow> int \<Rightarrow> unit dbtx" where
  "adjustment_notify env aq customer entryId adjustmentId remaining now =
     (let payload = buildBalanceAdjustedSmsPayload entryId adjustmentId (aq_kind aq)
            (cu_phoneE164 customer) None (aq_amountKobo aq) (Some remaining) in
      tx_bind (outboxEvent_create env (\<lambda>new_id.
        \<lparr> ob_id = new_id, ob_tenantId = aq_tenantId aq, ob_aggregateType = ''adjustment'',
          ob_aggregateId = adjustmentId, ob_eventType = ''sms.send'', ob_payload = payload,
          ob_nextAttemptAt = Some now \<rparr>)) (\<lambda>event.
      tx_bind (smsMessage_create env (\<lambda>new_id.
        \<lparr> sms_id = new_id, sms_tenantId = aq_tenantId aq, sms_receiptId = None,
          sms_outboxEventId = ob_id event, sms_ledgerEntryId = Some entryId,
          sms_redemptionId = None, sms_adjustmentId = Some adjustmentId,
          sms_phoneE164 = cu_phoneE164 customer, sms_template = ''balance-adjusted'',
          sms_payload = payload, sms_status = SmsMessageStatus.QUEUED, sms_queuedAt = now \<rparr>)) (\<lambda>_.
      recordWithClient (aq_tenantId aq) (Some (actor_id (aq_actor aq)))
        (case aq_kind aq of AdjustmentKind.CREDIT \<Rightarrow> ''adjustment.credit''
                          | AdjustmentKind.DEBIT \<Rightarrow> ''adjustment.debit'')
        ''adjustment'' (Some adjustmentId)
        (JObj [(''reason'', JStr (aq_reason aq)), (''amountKobo'', JNum (js_Number (aq_amountKobo aq))),
               (''effectiveAt'', json_date (aq_effectiveAt aq))]))))"

definition adjustment_response ::
  "adjustment_request \<Rightarrow> string \<Rightarrow> string \<Rightarrow> string \<Rightarrow> int \<Rightarrow> PersistedAllocation list \<Rightarrow> CreditLot option \<Rightarrow> json" where
  "adjustment_response aq customerId entryId adjustmentId remaining allocations lot =
     JObj
      [(''id'', JStr adjustmentId), (''transactionId'', JStr entryId),
       (''adjustmentId'', JStr adjustmentId), (''customerId'', JStr customerId),
       (''kind'', JStr (kind_str (aq_kind aq))), (''amountKobo'', JNum (js_Number (aq_amountKobo aq))),
       (''newActiveBalanceKobo'', JNum (js_Number remaining)),
       (''allocations'', JArr (map allocation_json allocations)),
       (''creditLot'', opt_json (\<lambda>l. JObj [(''id'', JStr (lot_id l)), (''expiresAt'', json_date (lot_expiresAt l))]) lot),
       (''smsStatus'', JStr (sms_status_str SmsMessageStatus.QUEUED)),
       (''occurredAt'', json_date (aq_effectiveAt aq))]"

definition adjustment_credit :: "env \<Rightarrow> adjustment_request \<Rightarrow> Customer \<Rightarrow> int \<Rightarrow> json dbtx" where
  "adjustment_credit env aq customer now =
     tx_bind (adjustment_rows env aq customer) (\<lambda>(entry, adjustment).
     tx_bind (creditLot_create env (\<lambda>new_id.
       \<lparr> lot_id = new_id, lot_tenantId = aq_tenantId aq, lot_customerId = cu_id customer,
         lot_earnLedgerEntryId = le_id entry, lot_originalAmountKobo = aq_amountKobo aq,
         lot_remainingAmountKobo = aq_amountKobo aq, lot_earnedAt = aq_effectiveAt aq,
         lot_expiresAt = adjustment_addMonths (aq_effectiveAt aq)
           (config_or env ''ADJUSTMENT_CREDIT_EXPIRY_MONTHS'' 12) \<rparr>)) (\<lambda>lot.
     tx_bind (tx_read (getActiveBalanceKobo (aq_tenantId aq) (cu_id customer) now)) (\<lambda>remaining.
     tx_bind (adjustment_notify env aq customer (le_id entry) (adj_id adjustment) remaining now) (\<lambda>_.
     tx_return (adjustment_response aq (cu_id customer) (le_id entry) (adj_id adjustment) remaining [] (Some lot))))))"

definition adjustment_debit :: "env \<Rightarrow> adjustment_request \<Rightarrow> Customer \<Rightarrow> int \<Rightarrow> json dbtx" where
  "adjustment_debit env aq customer now =
     tx_bind (adjustment_rows env aq customer) (\<lambda>(entry, adjustment).
     tx_bind (allocateDebit env
       \<lparr> in_tenantId = aq_tenantId aq, in_customerId = cu_id customer, in_creditLotId = None,
         in_debitLedgerEntryId = le_id entry, in_amountKobo = aq_amountKobo aq, in_now = now,
         in_redemptionId = None, in_adjustmentId = Some (adj_id adjustment),
         in_excludedCreditLotIds = [] \<rparr>) (\<lambda>allocations.
     tx_bind (tx_read (getActiveBalanceKobo (aq_tenantId aq) (cu_id customer) now)) (\<lambda>remaining.
     tx_bind (adjustment_notify env aq customer (le_id entry) (adj_id adjustment) remaining now) (\<lambda>_.
     tx_return (adjustment_response aq (cu_id customer) (le_id entry) (adj_id adjustment) remaining allocations None)))))"

definition adjustment_transaction :: "env \<Rightarrow> adjustment_request \<Rightarrow> (nat \<Rightarrow> int) \<Rightarrow> json dbtx" where
  "adjustment_transaction env aq t =
     tx_bind (idempotencyRecord_create
       \<lparr> idr_tenantId = aq_tenantId aq, idr_actorId = actor_id (aq_actor aq),
         idr_endpoint = ADJUSTMENTS_ENDPOINT, idr_idempotencyKey = aq_key aq,
         idr_requestHash = aq_requestHash aq, idr_responseJson = None,
         idr_status = IdempotencyRecordStatus.PENDING, idr_expiresAt = t 0 + IDP_EXPIRY_MS \<rparr>) (\<lambda>_.
     tx_bind (tx_check (adjustment_customer aq)) (\<lambda>customer.
     tx_bind (case aq_kind aq of
         AdjustmentKind.CREDIT \<Rightarrow> adjustment_credit env aq customer (t 1)
       | AdjustmentKind.DEBIT \<Rightarrow> adjustment_debit env aq customer (t 1)) (\<lambda>response.
     tx_bind (persistAdjustmentIdempotency aq response (t 2)) (\<lambda>_.
     tx_return response))))"

subsection \<open>Attempts and the whole call\<close>

definition adjustment_conflict :: "svc_error \<Rightarrow> bool" where
  "adjustment_conflict e =
     (case e of PrismaKnownRequestError code _ _ \<Rightarrow> code = ''P2034'' \<or> code = ''P2002'' | _ \<Rightarrow> False)"

definition adjustment_transaction_conflict :: svc_error where
  "adjustment_transaction_conflict = DomainHttpException 503 ''ADJUSTMENT_TRANSACTION_CONFLICT''
     ''Adjustment transaction conflicted; retry the request''"

fun adjustment_loop ::
  "env \<Rightarrow> adjustment_request \<Rightarrow> (nat \<Rightarrow> db \<Rightarrow> db \<times> svc_error option) \<Rightarrow> (nat \<Rightarrow> db \<Rightarrow> db) \<Rightarrow> (nat \<Rightarrow> int) \<Rightarrow>
   nat \<Rightarrow> nat \<Rightarrow> db \<Rightarrow> (svc_error + json) \<times> db" where
  "adjustment_loop env aq sched others clk k 0 d = (Inl adjustment_transaction_conflict, d)"
| "adjustment_loop env aq sched others clk k (Suc left) d =
     (case run_transaction sched k (adjustment_transaction env aq (\<lambda>i. clk (3 * k + i))) d of
        (Inr response, d1) \<Rightarrow> (Inr response, d1)
      | (Inl e, d1) \<Rightarrow>
          if adjustment_conflict e then
            (case waitForAdjustmentReplay aq (\<lambda>i. others (3 * k + i)) d1 of
               (Inl e', d2) \<Rightarrow> (Inl e', d2)
             | (Inr (Some replay), d2) \<Rightarrow> (Inr replay, d2)
             | (Inr None, d2) \<Rightarrow> adjustment_loop env aq sched others clk (k + 1) left d2)
          else (Inl e, d1))"

definition createAdjustment ::
  "env \<Rightarrow> (nat \<Rightarrow> db \<Rightarrow> db \<times> svc_error option) \<Rightarrow> (nat \<Rightarrow> db \<Rightarrow> db) \<Rightarrow> (nat \<Rightarrow> int) \<Rightarrow>
   string \<Rightarrow> AuthContext \<Rightarrow> string option \<Rightarrow> CreateAdjustmentDto \<Rightarrow> db \<Rightarrow> (svc_error + json) \<times> db" where
  "createAdjustment env sched others clk tenantId actor idempotencyKey dto d =
     (case adjustment_prepare env tenantId actor idempotencyKey dto of
        Inl e \<Rightarrow> (Inl e, d)
      | Inr aq \<Rightarrow>
         let d1 = adjustment_cleanup tenantId (actor_id actor) (aq_key aq) (clk 0) d in
         (case adjustment_record aq d1 of
            None \<Rightarrow> adjustment_loop env aq sched others clk 1 ADJUSTMENT_RETRY_ATTEMPTS d1
          | Some existing \<Rightarrow>
             if idr_requestHash existing \<noteq> aq_requestHash aq then (Inl idempotency_conflict, d1)
             else case idr_responseJson existing of
               Some response \<Rightarrow> (Inr response, d1)
             | None \<Rightarrow>
                (case waitForAdjustmentReplay aq others d1 of
                   (Inl e, d2) \<Rightarrow> (Inl e, d2)
                 | (Inr (Some replay), d2) \<Rightarrow> (Inr replay, d2)
                 | (Inr None, d2) \<Rightarrow>
                     (Inl (DomainHttpException 409 ''IDEMPOTENCY_IN_PROGRESS''
                             ''Idempotency key is still being processed''), d2))))"

subsection \<open>Effect of a committed adjustment\<close>

abbreviation adjustment_account :: "adjustment_request \<Rightarrow> account" where
  "adjustment_account aq \<equiv> (aq_tenantId aq, aq_customerId aq)"

definition adjustment_signed :: "adjustment_request \<Rightarrow> int" where
  "adjustment_signed aq = (case aq_kind aq of AdjustmentKind.CREDIT \<Rightarrow> aq_amountKobo aq
                                            | AdjustmentKind.DEBIT \<Rightarrow> - aq_amountKobo aq)"

lemma adjustment_rows_effect:
  assumes "adjustment_rows env aq customer d = Inr (p, d')"
  shows "creditLots d' = creditLots d" and "idempotencyRecords d' = idempotencyRecords d"
    and "money_at f d \<Longrightarrow> money_at (bump f (aq_tenantId aq, cu_id customer) (adjustment_signed aq)) d'"
proof -
  from assms obtain mk e d1 mka a where le: "loyaltyLedgerEntry_create env mk d = Inr (e, d1)"
    and ad: "adjustment_create env mka d1 = Inr (a, d')"
    and mk: "\<And>i. ledger_account (mk i) = (aq_tenantId aq, cu_id customer)"
      "\<And>i. signed_kobo (mk i) = adjustment_signed aq"
    by (fastforce simp: adjustment_rows_def tx_bind_eq_Inr ledger_account_def signed_kobo_def
        adjustment_signed_def split: AdjustmentKind.splits)
  show "creditLots d' = creditLots d"
    using tx_frameD[OF loyaltyLedgerEntry_create_frame le, of creditLots]
      tx_frameD[OF adjustment_create_frame ad, of creditLots] by simp
  show "idempotencyRecords d' = idempotencyRecords d"
    using tx_frameD[OF loyaltyLedgerEntry_create_frame le, of idempotencyRecords]
      tx_frameD[OF adjustment_create_frame ad, of idempotencyRecords] by simp
  show "money_at (bump f (aq_tenantId aq, cu_id customer) (adjustment_signed aq)) d'" if "money_at f d"
    using tx_specD[OF loyaltyLedgerEntry_create_money[OF mk] that le] ad
    by (rule money_at_frameD) (rule adjustment_create_frame, simp)
qed

lemma adjustment_rows_entry:
  assumes "adjustment_rows env aq customer d = Inr (p, d')"
  shows "\<exists>e. ledgerEntries d' = ledgerEntries d @ [e] \<and> ledger_account e = (aq_tenantId aq, cu_id customer)
    \<and> signed_kobo e = adjustment_signed aq"
proof -
  from assms obtain mk e d1 mka a where le: "loyaltyLedgerEntry_create env mk d = Inr (e, d1)"
    and ad: "adjustment_create env mka d1 = Inr (a, d')"
    and mk: "\<And>i. ledger_account (mk i) = (aq_tenantId aq, cu_id customer)"
      "\<And>i. signed_kobo (mk i) = adjustment_signed aq"
    by (fastforce simp: adjustment_rows_def tx_bind_eq_Inr ledger_account_def signed_kobo_def
        adjustment_signed_def split: AdjustmentKind.splits)
  have "ledgerEntries d' = ledgerEntries d1" using tx_frameD[OF adjustment_create_frame ad, of ledgerEntries] by simp
  with le mk show ?thesis by (auto simp: loyaltyLedgerEntry_create_def create_row_eq_Inr)
qed

lemma adjustment_notify_frame [frame_intros]:
  assumes "\<And>d v w. f (d\<lparr>idCounter := w, outboxEvents := v\<rparr>) = f d"
    and "\<And>d v w. f (d\<lparr>idCounter := w, smsMessages := v\<rparr>) = f d"
    and "\<And>d v. f (d\<lparr>auditLogs := v\<rparr>) = f d"
  shows "tx_frame f (adjustment_notify env aq customer e i remaining now)"
  unfolding adjustment_notify_def Let_def by (intro frame_intros assms)

lemma adjustment_credit_stages:
  assumes "adjustment_credit env aq customer now d = Inr (response, d')"
  obtains entry adjustment d1 lot d2 where
    "adjustment_rows env aq customer d = Inr ((entry, adjustment), d1)"
    "creditLot_create env (\<lambda>new_id.
       \<lparr> lot_id = new_id, lot_tenantId = aq_tenantId aq, lot_customerId = cu_id customer,
         lot_earnLedgerEntryId = le_id entry, lot_originalAmountKobo = aq_amountKobo aq,
         lot_remainingAmountKobo = aq_amountKobo aq, lot_earnedAt = aq_effectiveAt aq,
         lot_expiresAt = adjustment_addMonths (aq_effectiveAt aq)
           (config_or env ''ADJUSTMENT_CREDIT_EXPIRY_MONTHS'' 12) \<rparr>) d1 = Inr (lot, d2)"
    "adjustment_notify env aq customer (le_id entry) (adj_id adjustment)
       (getActiveBalanceKobo (aq_tenantId aq) (cu_id customer) now d2) now d2 = Inr ((), d')"
    "response = adjustment_response aq (cu_id customer) (le_id entry) (adj_id adjustment)
       (getActiveBalanceKobo (aq_tenantId aq) (cu_id customer) now d2) [] (Some lot)"
  using assms by (auto simp: adjustment_credit_def tx_bind_eq_Inr split: prod.splits)

lemma adjustment_debit_stages:
  assumes "adjustment_debit env aq customer now d = Inr (response, d')"
  obtains entry adjustment d1 as d2 where
    "adjustment_rows env aq customer d = Inr ((entry, adjustment), d1)"
    "allocateDebit env
       \<lparr> in_tenantId = aq_tenantId aq, in_customerId = cu_id customer, in_creditLotId = None,
         in_debitLedgerEntryId = le_id entry, in_amountKobo = aq_amountKobo aq, in_now = now,
         in_redemptionId = None, in_adjustmentId = Some (adj_id adjustment),
         in_excludedCreditLotIds = [] \<rparr> d1 = Inr (as, d2)"
    "adjustment_notify env aq customer (le_id entry) (adj_id adjustment)
       (getActiveBalanceKobo (aq_tenantId aq) (cu_id customer) now d2) now d2 = Inr ((), d')"
    "response = adjustment_response aq (cu_id customer) (le_id entry) (adj_id adjustment)
       (getActiveBalanceKobo (aq_tenantId aq) (cu_id customer) now d2) as None"
  using assms by (auto simp: adjustment_debit_def tx_bind_eq_Inr split: prod.splits)

lemma adjustment_response_balance:
  "json_get (adjustment_response aq c e i remaining as lot) ''newActiveBalanceKobo'' = JNum (js_Number remaining)"
  by (simp add: adjustment_response_def json_get_def)

text \<open>What an adjustment adds to the active balance of its account.\<close>

definition adjustment_change :: "env \<Rightarrow> adjustment_request \<Rightarrow> int \<Rightarrow> int" where
  "adjustment_change env aq now =
     (case aq_kind aq of
        AdjustmentKind.CREDIT \<Rightarrow>
          if now < adjustment_addMonths (aq_effectiveAt aq) (config_or env ''ADJUSTMENT_CREDIT_EXPIRY_MONTHS'' 12)
          then aq_amountKobo aq else 0
      | AdjustmentKind.DEBIT \<Rightarrow> - aq_amountKobo aq)"

lemma adjustment_credit_effect:
  assumes "adjustment_credit env aq customer now d = Inr (response, d')" and "money_at f d"
    and "aq_kind aq = AdjustmentKind.CREDIT" and "0 < aq_amountKobo aq"
  shows "money_at f d'"
    and "active_balance a now d' = active_balance a now d
      + (if a = (aq_tenantId aq, cu_id customer) then adjustment_change env aq now else 0)"
    and "json_get response ''newActiveBalanceKobo''
      = JNum (js_Number (active_balance (aq_tenantId aq, cu_id customer) now d'))"
proof -
  obtain entry adjustment d1 lot d2 where
    rows: "adjustment_rows env aq customer d = Inr ((entry, adjustment), d1)"
    and cl: "creditLot_create env (\<lambda>new_id.
       \<lparr> lot_id = new_id, lot_tenantId = aq_tenantId aq, lot_customerId = cu_id customer,
         lot_earnLedgerEntryId = le_id entry, lot_originalAmountKobo = aq_amountKobo aq,
         lot_remainingAmountKobo = aq_amountKobo aq, lot_earnedAt = aq_effectiveAt aq,
         lot_expiresAt = adjustment_addMonths (aq_effectiveAt aq)
           (config_or env ''ADJUSTMENT_CREDIT_EXPIRY_MONTHS'' 12) \<rparr>) d1 = Inr (lot, d2)"
    and no: "adjustment_notify env aq customer (le_id entry) (adj_id adjustment)
       (getActiveBalanceKobo (aq_tenantId aq) (cu_id customer) now d2) now d2 = Inr ((), d')"
    and re: "response = adjustment_response aq (cu_id customer) (le_id entry) (adj_id adjustment)
       (getActiveBalanceKobo (aq_tenantId aq) (cu_id customer) now d2) [] (Some lot)"
    by (rule adjustment_credit_stages[OF assms(1)])
  note r = adjustment_rows_effect[OF rows]
  have "money_at f d2"
    using tx_specD[OF creditLot_create_money r(3)[OF assms(2)] cl, of "(aq_tenantId aq, cu_id customer)"
        "aq_amountKobo aq"] assms(3,4) by (simp add: adjustment_signed_def lot_account_def lot_ok_def)
  then show "money_at f d'" using no by (rule money_at_frameD) (rule adjustment_notify_frame; simp)
  have same: "creditLots d' = creditLots d2"
    using tx_frameD[OF adjustment_notify_frame no, of creditLots] by simp
  then have b: "active_balance x now d' = active_balance x now d2" for x
    by (simp add: active_balance_def getActiveBalanceKobo_def)
  have "creditLots d2 = creditLots d @ [lot]"
    using cl r(1) by (auto simp: creditLot_create_def create_row_eq_Inr)
  moreover have "lot_account lot = (aq_tenantId aq, cu_id customer)"
    "lot_remainingAmountKobo lot = aq_amountKobo aq"
    "lot_expiresAt lot = adjustment_addMonths (aq_effectiveAt aq)
           (config_or env ''ADJUSTMENT_CREDIT_EXPIRY_MONTHS'' 12)"
    using cl by (auto simp: creditLot_create_def create_row_eq_Inr lot_account_def)
  ultimately show "active_balance a now d' = active_balance a now d
      + (if a = (aq_tenantId aq, cu_id customer) then adjustment_change env aq now else 0)"
    using assms(3,4) unfolding b
    by (auto simp: active_balance_def getActiveBalanceKobo_def activeCreditLotWhere_def lot_account_def
        adjustment_change_def)
  show "json_get response ''newActiveBalanceKobo''
      = JNum (js_Number (active_balance (aq_tenantId aq, cu_id customer) now d'))"
    unfolding b re adjustment_response_balance by (simp add: active_balance_def)
qed

lemma adjustment_debit_effect:
  assumes "adjustment_debit env aq customer now d = Inr (response, d')" and "money_at f d"
    and "aq_kind aq = AdjustmentKind.DEBIT"
  shows "money_at f d'"
    and "active_balance a now d' = active_balance a now d
      + (if a = (aq_tenantId aq, cu_id customer) then adjustment_change env aq now else 0)"
    and "json_get response ''newActiveBalanceKobo''
      = JNum (js_Number (active_balance (aq_tenantId aq, cu_id customer) now d'))"
proof -
  let ?in = "\<lambda>e i. \<lparr> in_tenantId = aq_tenantId aq, in_customerId = cu_id customer, in_creditLotId = None,
         in_debitLedgerEntryId = e, in_amountKobo = aq_amountKobo aq, in_now = now,
         in_redemptionId = None, in_adjustmentId = Some i, in_excludedCreditLotIds = [] \<rparr>"
  obtain entry adjustment d1 as d2 where
    rows: "adjustment_rows env aq customer d = Inr ((entry, adjustment), d1)"
    and al: "allocateDebit env (?in (le_id entry) (adj_id adjustment)) d1 = Inr (as, d2)"
    and no: "adjustment_notify env aq customer (le_id entry) (adj_id adjustment)
       (getActiveBalanceKobo (aq_tenantId aq) (cu_id customer) now d2) now d2 = Inr ((), d')"
    and re: "response = adjustment_response aq (cu_id customer) (le_id entry) (adj_id adjustment)
       (getActiveBalanceKobo (aq_tenantId aq) (cu_id customer) now d2) as None"
    by (rule adjustment_debit_stages[OF assms(1)])
  note r = adjustment_rows_effect[OF rows]
  note eff = allocateDebit_effect[OF al r(3)[OF assms(2)]]
  have "money_at f d2" using eff(3) assms(3) by (simp add: adjustment_signed_def)
  then show "money_at f d'" using no by (rule money_at_frameD) (rule adjustment_notify_frame; simp)
  have same: "creditLots d' = creditLots d2"
    using tx_frameD[OF adjustment_notify_frame no, of creditLots] by simp
  then have b: "active_balance x now d' = active_balance x now d2" for x
    by (simp add: active_balance_def getActiveBalanceKobo_def)
  have "lots_wf d1" using r(3)[OF assms(2)] by (simp add: money_at_def)
  from fifo.debits_account[OF this al, of a] r(1) assms(3)
  show "active_balance a now d' = active_balance a now d
      + (if a = (aq_tenantId aq, cu_id customer) then adjustment_change env aq now else 0)"
    unfolding b by (simp add: debit_account_def adjustment_change_def active_balance_def getActiveBalanceKobo_def)
  show "json_get response ''newActiveBalanceKobo''
      = JNum (js_Number (active_balance (aq_tenantId aq, cu_id customer) now d'))"
    unfolding b re adjustment_response_balance by (simp add: active_balance_def)
qed

lemma adjustment_customer_Inr:
  "adjustment_customer aq d = Inr c \<Longrightarrow> cu_id c = aq_customerId aq \<and> cu_tenantId c = aq_tenantId aq
     \<and> c \<in> set (customers d) \<and> cu_status c = CustomerStatus.ACTIVE \<and> \<not> cu_isStaff c"
  by (auto simp: adjustment_customer_def find_Some_iff split: option.splits if_splits)

lemma adjustment_transaction_stages:
  assumes "adjustment_transaction env aq t d = Inr (response, d')"
  obtains customer d1 d2 where
    "idempotencyRecord_create
       \<lparr> idr_tenantId = aq_tenantId aq, idr_actorId = actor_id (aq_actor aq),
         idr_endpoint = ADJUSTMENTS_ENDPOINT, idr_idempotencyKey = aq_key aq,
         idr_requestHash = aq_requestHash aq, idr_responseJson = None,
         idr_status = IdempotencyRecordStatus.PENDING, idr_expiresAt = t 0 + IDP_EXPIRY_MS \<rparr> d = Inr ((), d1)"
    "adjustment_customer aq d1 = Inr customer"
    "(case aq_kind aq of AdjustmentKind.CREDIT \<Rightarrow> adjustment_credit env aq customer (t 1)
        | AdjustmentKind.DEBIT \<Rightarrow> adjustment_debit env aq customer (t 1)) d1 = Inr (response, d2)"
    "persistAdjustmentIdempotency aq response (t 2) d2 = Inr ((), d')"
  using assms by (auto simp: adjustment_transaction_def tx_bind_eq_Inr tx_check_eq_Inr)

lemma persistAdjustmentIdempotency_frame [frame_intros]:
  "(\<And>d v. f (d\<lparr>idempotencyRecords := v\<rparr>) = f d) \<Longrightarrow> tx_frame f (persistAdjustmentIdempotency aq r n)"
  unfolding persistAdjustmentIdempotency_def by (intro frame_intros)

lemma adjustment_transaction_effect:
  assumes "adjustment_transaction env aq t d = Inr (response, d')" and "money_at f d" and "0 < aq_amountKobo aq"
  shows "money_at f d'"
    and "active_balance a (t 1) d' = active_balance a (t 1) d
      + (if a = adjustment_account aq then adjustment_change env aq (t 1) else 0)"
    and "json_get response ''newActiveBalanceKobo''
      = JNum (js_Number (active_balance (adjustment_account aq) (t 1) d'))"
proof -
  obtain customer d1 d2 where
    ic: "idempotencyRecord_create
       \<lparr> idr_tenantId = aq_tenantId aq, idr_actorId = actor_id (aq_actor aq),
         idr_endpoint = ADJUSTMENTS_ENDPOINT, idr_idempotencyKey = aq_key aq,
         idr_requestHash = aq_requestHash aq, idr_responseJson = None,
         idr_status = IdempotencyRecordStatus.PENDING, idr_expiresAt = t 0 + IDP_EXPIRY_MS \<rparr> d = Inr ((), d1)"
    and cu: "adjustment_customer aq d1 = Inr customer"
    and body: "(case aq_kind aq of AdjustmentKind.CREDIT \<Rightarrow> adjustment_credit env aq customer (t 1)
        | AdjustmentKind.DEBIT \<Rightarrow> adjustment_debit env aq customer (t 1)) d1 = Inr (response, d2)"
    and pe: "persistAdjustmentIdempotency aq response (t 2) d2 = Inr ((), d')"
    by (rule adjustment_transaction_stages[OF assms(1)])
  have c: "cu_id customer = aq_customerId aq" using adjustment_customer_Inr[OF cu] by simp
  have m1: "money_at f d1" using assms(2) ic by (rule money_at_frameD) (rule idempotencyRecord_create_frame, simp)
  have v1: "creditLots d1 = creditLots d"
    using tx_frameD[OF idempotencyRecord_create_frame ic, of creditLots] by simp
  have v2: "creditLots d' = creditLots d2"
    using tx_frameD[OF persistAdjustmentIdempotency_frame pe, of creditLots] by simp
  have b: "active_balance x (t 1) d' = active_balance x (t 1) d2" "active_balance x (t 1) d1 = active_balance x (t 1) d"
    for x using v1 v2 by (simp_all add: active_balance_def getActiveBalanceKobo_def)
  have e: "money_at f d2 \<and> active_balance a (t 1) d2 = active_balance a (t 1) d1
      + (if a = adjustment_account aq then adjustment_change env aq (t 1) else 0)
      \<and> json_get response ''newActiveBalanceKobo''
      = JNum (js_Number (active_balance (adjustment_account aq) (t 1) d2))"
  proof (cases "aq_kind aq")
    case CREDIT
    with body have "adjustment_credit env aq customer (t 1) d1 = Inr (response, d2)" by simp
    from adjustment_credit_effect[OF this m1 CREDIT assms(3)] show ?thesis by (simp add: c)
  next
    case DEBIT
    with body have "adjustment_debit env aq customer (t 1) d1 = Inr (response, d2)" by simp
    from adjustment_debit_effect[OF this m1 DEBIT] show ?thesis by (simp add: c)
  qed
  then have "money_at f d2" by simp
  then show "money_at f d'" using pe by (rule money_at_frameD) (rule persistAdjustmentIdempotency_frame, simp)
  show "active_balance a (t 1) d' = active_balance a (t 1) d
      + (if a = adjustment_account aq then adjustment_change env aq (t 1) else 0)"
    and "json_get response ''newActiveBalanceKobo''
      = JNum (js_Number (active_balance (adjustment_account aq) (t 1) d'))"
    unfolding b(1) using e b(2)[of a] by simp_all
qed

lemma adjustment_transaction_books:
  assumes "adjustment_transaction env aq t d = Inr (response, d')"
  obtains e where "ledgerEntries d' = ledgerEntries d @ [e]" and "ledger_account e = adjustment_account aq"
    and "signed_kobo e = adjustment_signed aq"
proof -
  obtain customer d1 d2 where
    ic: "idempotencyRecord_create
       \<lparr> idr_tenantId = aq_tenantId aq, idr_actorId = actor_id (aq_actor aq),
         idr_endpoint = ADJUSTMENTS_ENDPOINT, idr_idempotencyKey = aq_key aq,
         idr_requestHash = aq_requestHash aq, idr_responseJson = None,
         idr_status = IdempotencyRecordStatus.PENDING, idr_expiresAt = t 0 + IDP_EXPIRY_MS \<rparr> d = Inr ((), d1)"
    and cu: "adjustment_customer aq d1 = Inr customer"
    and body: "(case aq_kind aq of AdjustmentKind.CREDIT \<Rightarrow> adjustment_credit env aq customer (t 1)
        | AdjustmentKind.DEBIT \<Rightarrow> adjustment_debit env aq customer (t 1)) d1 = Inr (response, d2)"
    and pe: "persistAdjustmentIdempotency aq response (t 2) d2 = Inr ((), d')"
    by (rule adjustment_transaction_stages[OF assms])
  have f: "tx_frame ledgerEntries (allocateDebit env i)" "tx_frame ledgerEntries (creditLot_create env mk)"
    "tx_frame ledgerEntries (adjustment_notify env aq customer e a rem (t 1))" for i mk e a rem
    by (intro frame_intros; simp)+
  note same = f[THEN tx_frameD]
  obtain p d3 where rows: "adjustment_rows env aq customer d1 = Inr (p, d3)" and l2: "ledgerEntries d2 = ledgerEntries d3"
  proof (cases "aq_kind aq")
    case CREDIT
    with body have "adjustment_credit env aq customer (t 1) d1 = Inr (response, d2)" by simp
    then show ?thesis by (rule adjustment_credit_stages) (drule same, drule same, erule that, simp)
  next
    case DEBIT
    with body have "adjustment_debit env aq customer (t 1) d1 = Inr (response, d2)" by simp
    then show ?thesis by (rule adjustment_debit_stages) (drule same, drule same, erule that, simp)
  qed
  have "ledgerEntries d1 = ledgerEntries d" using tx_frameD[OF idempotencyRecord_create_frame ic, of ledgerEntries] by simp
  moreover have "ledgerEntries d' = ledgerEntries d2" using tx_frameD[OF persistAdjustmentIdempotency_frame pe, of ledgerEntries] by simp
  moreover have "cu_id customer = aq_customerId aq" using adjustment_customer_Inr[OF cu] by simp
  moreover obtain e where "ledgerEntries d3 = ledgerEntries d1 @ [e]" "ledger_account e = (aq_tenantId aq, cu_id customer)"
    "signed_kobo e = adjustment_signed aq" using adjustment_rows_entry[OF rows] by blast
  ultimately show thesis using l2 by (intro that[of e]) simp_all
qed

text \<open>
  C15: an adjustment that commits books one entry of exactly its amount on the customer's account. A debit was
  covered by the active balance and lowers it by the amount. A credit raises it by the amount, unless the lot it creates, which expires
  the configured number of months after the effective date, has expired by then: such a credit leaves
  every active balance as it was. Every other account keeps its balance, and the balance reported is the one after it.
\<close>

theorem adjustment_transaction_balance:
  assumes "adjustment_transaction env aq t d = Inr (response, d')" and "lots_wf d" and "0 < aq_amountKobo aq"
  shows "(\<exists>e. ledgerEntries d' = ledgerEntries d @ [e] \<and> ledger_account e = adjustment_account aq
        \<and> signed_kobo e = (case aq_kind aq of AdjustmentKind.CREDIT \<Rightarrow> aq_amountKobo aq | AdjustmentKind.DEBIT \<Rightarrow> - aq_amountKobo aq))
    \<and> active_balance a (t 1) d' = active_balance a (t 1) d
      + (if a \<noteq> adjustment_account aq then 0
         else case aq_kind aq of
           AdjustmentKind.CREDIT \<Rightarrow>
             if t 1 < adjustment_addMonths (aq_effectiveAt aq) (config_or env ''ADJUSTMENT_CREDIT_EXPIRY_MONTHS'' 12)
             then aq_amountKobo aq else 0
         | AdjustmentKind.DEBIT \<Rightarrow> - aq_amountKobo aq)
    \<and> (aq_kind aq = AdjustmentKind.DEBIT \<longrightarrow> aq_amountKobo aq \<le> active_balance (adjustment_account aq) (t 1) d)
    \<and> json_get response ''newActiveBalanceKobo''
      = JNum (js_Number (active_balance (adjustment_account aq) (t 1) d'))"
proof -
  have m: "money_at (imbalance d) d" using assms(2) by (simp add: money_at_def)
  note e = adjustment_transaction_effect[OF assms(1) m assms(3)]
  have "aq_kind aq = AdjustmentKind.DEBIT \<longrightarrow> aq_amountKobo aq \<le> active_balance (adjustment_account aq) (t 1) d"
    using e(2)[of "adjustment_account aq"] active_balance_nonneg[of "adjustment_account aq" "t 1" d']
    by (auto simp: adjustment_change_def)
  moreover obtain x where "ledgerEntries d' = ledgerEntries d @ [x]" "ledger_account x = adjustment_account aq"
    "signed_kobo x = adjustment_signed aq" by (rule adjustment_transaction_books[OF assms(1)])
  ultimately show ?thesis using e(2)[of a] e(3) by (simp add: adjustment_change_def adjustment_signed_def)
qed

subsection \<open>Books\<close>

lemma adjustment_prepare_fields:
  assumes "adjustment_prepare env tenantId actor key dto = Inr aq"
  shows "aq_tenantId aq = tenantId" and "aq_actor aq = actor" and "0 < aq_amountKobo aq"
    and "actor_role actor = UserRole.ADMIN"
    and "aq_amountKobo aq \<le> config_or env ''ADJUSTMENT_AMOUNT_CEILING_KOBO'' 100000000"
  using assms by (auto simp: adjustment_prepare_def adjustment_toSafePositiveBigInt_def Let_def res_bind_eq_Inr
      split: if_splits)

context session_invariant
begin

lemma adjustment_wait_keeps:
  assumes "P d" and "\<And>k d. P d \<Longrightarrow> P (others k d)"
  shows "P (snd (adjustment_wait aq others i n d))"
  using assms(1)
proof (induction n arbitrary: i d)
  case (Suc n)
  have "P (others i d)" using assms(2) Suc.prems .
  with Suc.IH show ?case by (auto simp: Let_def split: option.splits)
qed simp

lemma waitForAdjustmentReplay_keeps:
  assumes "P d" and "session_keeps P sched others"
  shows "P (snd (waitForAdjustmentReplay aq (\<lambda>i. others (m + i)) d))"
  unfolding waitForAdjustmentReplay_def
  by (rule adjustment_wait_keeps) (use assms in \<open>auto dest: session_keepsD\<close>)

lemma adjustment_loop_keeps:
  assumes "P d" and "session_keeps P sched others" and "\<And>t. tx_keeps P (adjustment_transaction env aq t)"
  shows "P (snd (adjustment_loop env aq sched others clk k n d))"
  using assms(1)
proof (induction n arbitrary: k d)
  case (Suc n)
  obtain r d1 where run: "run_transaction sched k (adjustment_transaction env aq (\<lambda>i. clk (3 * k + i))) d = (r, d1)"
    by (metis surj_pair)
  have m1: "P d1" by (rule run_transaction_keeps[OF Suc.prems assms(2,3) run])
  have w: "P (snd (waitForAdjustmentReplay aq (\<lambda>i. others (3 * k + i)) d1))"
    by (rule waitForAdjustmentReplay_keeps[OF m1 assms(2)])
  show ?case
    using m1 w Suc.IH[OF w] by (auto simp: run split: sum.splits prod.splits option.splits)
qed simp

lemma adjustment_cleanup_keeps: "P (adjustment_cleanup t a k now d) = P d"
  by (simp add: adjustment_cleanup_def deleteMany_keeps)

lemma createAdjustment_keeps:
  assumes "P d" and "session_keeps P sched others"
    and "\<And>aq t. 0 < aq_amountKobo aq \<Longrightarrow> tx_keeps P (adjustment_transaction env aq t)"
  shows "P (snd (createAdjustment env sched others clk tenantId actor key dto d))"
proof (cases "adjustment_prepare env tenantId actor key dto")
  case (Inl e)
  with assms show ?thesis by (simp add: createAdjustment_def)
next
  case (Inr aq)
  let ?d = "adjustment_cleanup tenantId (actor_id actor) (aq_key aq) (clk 0) d"
  have m: "P ?d" using assms(1) by (simp add: adjustment_cleanup_keeps)
  note l = adjustment_loop_keeps[OF m assms(2) assms(3)[OF adjustment_prepare_fields(3)[OF Inr]]]
  note w = waitForAdjustmentReplay_keeps[OF m assms(2), of aq 0]
  show ?thesis
    using m w l[of clk 1 ADJUSTMENT_RETRY_ATTEMPTS]
    by (auto simp: createAdjustment_def Inr Let_def split: sum.splits option.splits prod.splits)
qed

end

subsection \<open>Idempotency\<close>

definition adjustment_replay :: "adjustment_request \<Rightarrow> db \<Rightarrow> json option" where
  "adjustment_replay aq d =
     (case adjustment_record aq d of
        None \<Rightarrow> None
      | Some x \<Rightarrow> if idr_requestHash x = aq_requestHash aq then idr_responseJson x else None)"

lemma adjustment_body_frame [frame_intros]:
  "tx_frame idempotencyRecords (case k of AdjustmentKind.CREDIT \<Rightarrow> adjustment_credit env aq customer now
        | AdjustmentKind.DEBIT \<Rightarrow> adjustment_debit env aq customer now)"
  by (cases k; simp only: AdjustmentKind.case adjustment_credit_def adjustment_debit_def adjustment_rows_def)
    (intro frame_intros; simp)+

lemma adjustment_transaction_stores:
  assumes "adjustment_transaction env aq t d = Inr (response, d')"
  shows "adjustment_replay aq d' = Some response"
proof -
  obtain customer d1 d2 where
    ic: "idempotencyRecord_create
       \<lparr> idr_tenantId = aq_tenantId aq, idr_actorId = actor_id (aq_actor aq),
         idr_endpoint = ADJUSTMENTS_ENDPOINT, idr_idempotencyKey = aq_key aq,
         idr_requestHash = aq_requestHash aq, idr_responseJson = None,
         idr_status = IdempotencyRecordStatus.PENDING, idr_expiresAt = t 0 + IDP_EXPIRY_MS \<rparr> d = Inr ((), d1)"
    and body: "(case aq_kind aq of AdjustmentKind.CREDIT \<Rightarrow> adjustment_credit env aq customer (t 1)
        | AdjustmentKind.DEBIT \<Rightarrow> adjustment_debit env aq customer (t 1)) d1 = Inr (response, d2)"
    and pe: "persistAdjustmentIdempotency aq response (t 2) d2 = Inr ((), d')"
    by (rule adjustment_transaction_stages[OF assms])
  have "adjustment_record aq d1 \<noteq> None"
    using idempotencyRecord_create_find[OF ic] by (simp add: adjustment_record_def)
  moreover have "adjustment_record aq d2 = adjustment_record aq d1"
    unfolding adjustment_record_def
    by (rule idempotencyRecord_findUnique_cong) (rule tx_frameD[OF adjustment_body_frame body])
  moreover have "adjustment_record aq d' = map_option
      (\<lambda>x. x\<lparr>idr_requestHash := aq_requestHash aq, idr_responseJson := Some response,
              idr_status := IdempotencyRecordStatus.COMPLETED, idr_expiresAt := t 2 + IDP_EXPIRY_MS\<rparr>)
      (adjustment_record aq d2)"
    unfolding adjustment_record_def
    using pe by (auto simp: persistAdjustmentIdempotency_def require_updated_eq_Inr is_record_def
        dest!: idempotencyRecord_updateMany_find)
  ultimately show ?thesis by (auto simp: adjustment_replay_def)
qed

lemma adjustment_wait_replay:
  "adjustment_wait aq others i n d = (Inr (Some r), d') \<Longrightarrow> adjustment_replay aq d' = Some r"
  by (induction n arbitrary: i d)
    (auto simp: Let_def adjustment_replay_def[of aq "others _ _"] split: option.splits if_splits)

lemma adjustment_loop_stores:
  "adjustment_loop env aq sched others clk k n d = (Inr r, d') \<Longrightarrow> adjustment_replay aq d' = Some r"
proof (induction n arbitrary: k d)
  case (Suc n)
  have tr: "adjustment_replay aq d1 = Some x"
    if "run_transaction sched k (adjustment_transaction env aq (\<lambda>i. clk (3 * k + i))) d = (Inr x, d1)" for x d1
    using that by (auto simp: run_transaction_def split: prod.splits option.splits sum.splits
        dest: adjustment_transaction_stores)
  from Suc show ?case
    by (auto simp: waitForAdjustmentReplay_def split: prod.splits sum.splits option.splits if_splits
        intro: tr adjustment_wait_replay)
qed simp

definition createAdjustment_in :: "env \<Rightarrow> string \<Rightarrow> AuthContext \<Rightarrow> string option \<Rightarrow> CreateAdjustmentDto \<Rightarrow>
    world \<Rightarrow> db \<Rightarrow> (svc_error + json) \<times> db" where
  "createAdjustment_in env tenantId actor key dto w =
     createAdjustment env (fst w) (fst (snd w)) (snd (snd w)) tenantId actor key dto"

definition createAdjustment_replay :: "env \<Rightarrow> string \<Rightarrow> AuthContext \<Rightarrow> string option \<Rightarrow> CreateAdjustmentDto \<Rightarrow>
    db \<Rightarrow> json option" where
  "createAdjustment_replay env tenantId actor key dto d =
     (case adjustment_prepare env tenantId actor key dto of
        Inl e \<Rightarrow> None | Inr aq \<Rightarrow> adjustment_replay aq d)"

lemma adjustment_cleanup_unexpired:
  assumes "\<forall>x\<in>set (idempotencyRecords d). now < idr_expiresAt x"
  shows "adjustment_cleanup t a k now d = d"
proof -
  have "filter (\<lambda>x. \<not> (idr_tenantId x = t \<and> idr_actorId x = a \<and> idr_idempotencyKey x = k
      \<and> idr_expiresAt x \<le> now)) (idempotencyRecords d) = idempotencyRecords d"
    using assms by (auto simp: filter_id_conv)
  then show ?thesis by (simp add: adjustment_cleanup_def idempotencyRecord_deleteMany_def)
qed

interpretation adjustment_idem: idempotent_call "createAdjustment_in env tenantId actor key dto"
  "createAdjustment_replay env tenantId actor key dto" records_live for env tenantId actor key dto
proof unfold_locales
  fix w r and d d' :: db
  assume "createAdjustment_in env tenantId actor key dto w d = (Inr r, d')"
  then show "createAdjustment_replay env tenantId actor key dto d' = Some r"
    by (auto simp: createAdjustment_in_def createAdjustment_def createAdjustment_replay_def Let_def
        waitForAdjustmentReplay_def adjustment_replay_def[of _ "adjustment_cleanup _ _ _ _ _"]
        split: sum.splits option.splits if_splits prod.splits
        dest: adjustment_loop_stores adjustment_wait_replay)
next
  fix w r and d :: db
  assume "createAdjustment_replay env tenantId actor key dto d = Some r" and live: "records_live w d"
  then obtain aq x where p: "adjustment_prepare env tenantId actor key dto = Inr aq"
    and r: "adjustment_record aq d = Some x" "idr_requestHash x = aq_requestHash aq" "idr_responseJson x = Some r"
    by (auto simp: createAdjustment_replay_def adjustment_replay_def split: sum.splits option.splits if_splits)
  have "adjustment_cleanup tenantId (actor_id actor) (aq_key aq) (snd (snd w) 0) d = d"
    by (rule adjustment_cleanup_unexpired) (use live in \<open>simp add: records_live_def\<close>)
  with p r show "createAdjustment_in env tenantId actor key dto w d = (Inr r, d)"
    by (simp add: createAdjustment_in_def createAdjustment_def)
qed

lemma adjustment_cleanup_record:
  assumes "adjustment_record aq d = Some x" and "now < idr_expiresAt x"
  shows "adjustment_record aq (adjustment_cleanup t a k now d) = Some x"
  using assms unfolding adjustment_record_def idempotencyRecord_findUnique_def
  by (auto simp: adjustment_cleanup_def idempotencyRecord_deleteMany_def intro!: find_filter_Some)

text \<open>
  An adjustment that returned a response returns it again when the request is repeated with its key
  before its record expires. The repetition changes nothing but what its clean-up deletes: records of the actor under the same
  key that have expired, of whatever endpoint.
\<close>

lemma createAdjustment_idempotent:
  assumes "createAdjustment env sched others clk tenantId actor key dto d = (Inr r, d')"
    and "adjustment_prepare env tenantId actor key dto = Inr aq"
    and "\<And>x. adjustment_record aq d' = Some x \<Longrightarrow> clk' 0 < idr_expiresAt x"
  shows "createAdjustment env sched' others' clk' tenantId actor key dto d'
    = (Inr r, adjustment_cleanup tenantId (actor_id actor) (aq_key aq) (clk' 0) d')"
proof -
  have "createAdjustment_replay env tenantId actor key dto d' = Some r"
    using adjustment_idem.call_stores[of env tenantId actor key dto "(sched, others, clk)"] assms(1)
    by (simp add: createAdjustment_in_def)
  then obtain x where x: "adjustment_record aq d' = Some x" "idr_requestHash x = aq_requestHash aq" "idr_responseJson x = Some r"
    using assms(2) by (auto simp: createAdjustment_replay_def adjustment_replay_def split: option.splits if_splits)
  from adjustment_cleanup_record[OF x(1) assms(3)[OF x(1)]] x assms(2) show ?thesis by (simp add: createAdjustment_def)
qed

text \<open>
  C16: a serialization failure is never retried: when the engine aborts the first attempt and no
  session has stored the key, the caller gets \<open>IDEMPOTENCY_CONFLICT\<close> at once, although two
  attempts are left and the key was never used.
\<close>

theorem createAdjustment_never_retries:
  assumes "adjustment_prepare env tenantId actor key dto = Inr aq"
    and "adjustment_record aq (adjustment_cleanup tenantId (actor_id actor) (aq_key aq) (clk 0) d) = None"
    and "sched 1 (adjustment_cleanup tenantId (actor_id actor) (aq_key aq) (clk 0) d)
      = (d1, Some (PrismaKnownRequestError ''P2034'' [] msg))"
    and "adjustment_record aq (others 4 d1) = None"
  shows "createAdjustment env sched others clk tenantId actor key dto d = (Inl idempotency_conflict, others 4 d1)"
  using assms
  by (simp add: createAdjustment_def Let_def ADJUSTMENT_RETRY_ATTEMPTS_def eval_nat_numeral run_transaction_def
      adjustment_conflict_def waitForAdjustmentReplay_def)

subsection \<open>Adjustments at the demonstration shop\<close>

definition demo_adjustment_dto :: "AdjustmentKind \<Rightarrow> int \<Rightarrow> CreateAdjustmentDto" where
  "demo_adjustment_dto kind amount =
     \<lparr> adto_customerId = ''C'', adto_kind = kind, adto_amountKobo = amount, adto_reason = '' goodwill '',
       adto_effectiveAt = ''x'' \<rparr>"

definition demo_aq :: "AdjustmentKind \<Rightarrow> int \<Rightarrow> adjustment_request" where
  "demo_aq kind amount =
     \<lparr> aq_tenantId = ''T'', aq_actor = demo_admin, aq_key = ''k2'', aq_customerId = ''C'', aq_kind = kind,
       aq_amountKobo = amount, aq_reason = ''goodwill'', aq_effectiveAt = demo_now,
       aq_requestHash = adjustment_hashRequest demo_env (JObj
              [(''tenantId'', JStr ''T''), (''actorId'', JStr ''W''),
               (''customerId'', JStr ''C''), (''kind'', JStr (kind_str kind)),
               (''amountKobo'', JNum amount), (''reason'', JStr ''goodwill''),
               (''effectiveAt'', json_date demo_now)]) \<rparr>"

abbreviation demo_adjust :: "AdjustmentKind \<Rightarrow> int \<Rightarrow> db \<Rightarrow> (svc_error + json) \<times> db" where
  "demo_adjust kind amount \<equiv> createAdjustment demo_env alone (\<lambda>_ d. d) (\<lambda>_. demo_now) ''T'' demo_admin
     (Some ''k2'') (demo_adjustment_dto kind amount)"

lemma demo_adjustment_prepare:
  assumes "0 < amount" and "amount \<le> 100000000"
  shows "adjustment_prepare demo_env ''T'' demo_admin (Some ''k2'') (demo_adjustment_dto kind amount)
    = Inr (demo_aq kind amount)"
proof -
  have "adjustment_normalizeIdempotencyKey (Some ''k2'') = Inr ''k2''" "normalizeReason '' goodwill '' = Inr ''goodwill''"
    by code_simp+
  with assms show ?thesis
    by (simp add: adjustment_prepare_def demo_adjustment_dto_def demo_aq_def demo_admin_def demo_env_def
        parseRequiredEffectiveAt_def adjustment_toSafePositiveBigInt_def config_or_def Let_def)
qed

lemma demo_adjustment_debit:
  obtains r d' where "adjustment_transaction demo_env (demo_aq AdjustmentKind.DEBIT 50000) (\<lambda>_. demo_now) demo_db
      = Inr (r, d')"
    and "\<forall>x\<in>set (idempotencyRecords d'). demo_now < idr_expiresAt x"
proof -
  have "map_sum (\<lambda>e. e) (\<lambda>r. list_all (\<lambda>x. demo_now < idr_expiresAt x) (idempotencyRecords (snd r)))
      (adjustment_transaction demo_env (demo_aq AdjustmentKind.DEBIT 50000) (\<lambda>_. demo_now) demo_db) = Inr True"
    by code_simp
  then show thesis by (rule committed_result) (use that in \<open>auto simp: list_all_iff\<close>)
qed

lemma demo_adjust_debit:
  obtains r d' where "demo_adjust AdjustmentKind.DEBIT 50000 demo_db = (Inr r, d')"
    and "\<forall>x\<in>set (idempotencyRecords d'). demo_now < idr_expiresAt x"
proof -
  obtain r d' where t: "adjustment_transaction demo_env (demo_aq AdjustmentKind.DEBIT 50000) (\<lambda>_. demo_now) demo_db
      = Inr (r, d')" and x: "\<forall>x\<in>set (idempotencyRecords d'). demo_now < idr_expiresAt x"
    by (rule demo_adjustment_debit)
  have e: "idempotencyRecords demo_db = []" by (simp add: demo_db_def)
  have "adjustment_cleanup t a k n demo_db = demo_db" for t a k n
    by (rule adjustment_cleanup_unexpired) (simp add: e)
  moreover have "adjustment_record aq demo_db = None" for aq
    by (simp add: adjustment_record_def idempotencyRecord_findUnique_def e)
  ultimately have "demo_adjust AdjustmentKind.DEBIT 50000 demo_db = (Inr r, d')"
    by (simp add: createAdjustment_def demo_adjustment_prepare Let_def ADJUSTMENT_RETRY_ATTEMPTS_def
        numeral_3_eq_3 run_transaction_alone t)
  with x that show thesis by blast
qed

theorem adjustment_transaction_balance_witness:
  "\<exists>r d'. adjustment_transaction demo_env (demo_aq AdjustmentKind.DEBIT 50000) (\<lambda>_. demo_now) demo_db
       = Inr (r, d') \<and> active_balance (''T'', ''C'') demo_now d' = 70000"
proof -
  obtain r d' where t: "adjustment_transaction demo_env (demo_aq AdjustmentKind.DEBIT 50000) (\<lambda>_. demo_now) demo_db
      = Inr (r, d')" by (rule demo_adjustment_debit)
  have b: "active_balance (''T'', ''C'') demo_now demo_db = 120000" by code_simp
  show ?thesis
    using adjustment_transaction_balance[OF t demo_lots_wf, of "(''T'', ''C'')"] t b
    by (auto simp: demo_aq_def adjustment_change_def)
qed

theorem createAdjustment_never_retries_witness:
  "createAdjustment demo_env (\<lambda>k d. (d, if k = 1 then Some (PrismaKnownRequestError ''P2034'' [] ''conflict'') else None))
     (\<lambda>_ d. d) (\<lambda>_. demo_now) ''T'' demo_admin (Some ''k2'') (demo_adjustment_dto AdjustmentKind.CREDIT 50000) demo_db
   = (Inl idempotency_conflict, demo_db)"
proof -
  have e: "idempotencyRecords demo_db = []" by (simp add: demo_db_def)
  have c: "adjustment_cleanup t a k n demo_db = demo_db" for t a k n
    by (rule adjustment_cleanup_unexpired) (simp add: e)
  have n: "adjustment_record aq demo_db = None" for aq
    by (simp add: adjustment_record_def idempotencyRecord_findUnique_def e)
  show ?thesis
    by (rule createAdjustment_never_retries[OF demo_adjustment_prepare]) (simp_all add: c n)
qed

end
