(* ===== verification/Credit_Expiry.thy ===== *)
theory Credit_Expiry
  imports Lot_Allocation Messages Retry
begin

text \<open>
  \<^verbatim>\<open>src/modules/credit-expiry/credit-expiry.service.ts\<close> and
  \<^verbatim>\<open>src/common/system/system-actor.service.ts\<close>: the sweep that writes off lots whose expiry date has
  passed, in batches, with a ledger entry and an evidence row per lot in the name of the tenant's
  system user. \<open>SKIP LOCKED\<close> leaves out the rows other transactions hold: \<open>locked\<close>.
\<close>

subsection \<open>The system actor\<close>

definition SYSTEM_USERNAME :: string where
  "SYSTEM_USERNAME = ''system@shopcity.internal''"

definition system_user :: "string \<Rightarrow> db \<Rightarrow> User option" where
  "system_user tenantId d =
     find (\<lambda>u. us_tenantId u = tenantId \<and> us_username u = SYSTEM_USERNAME) (users d)"

definition check_system_user :: "User \<Rightarrow> svc_error + string" where
  "check_system_user u =
     (if us_role u \<noteq> UserRole.SYSTEM
      then Inl (PlainError ''existing system actor username is not bound to SYSTEM role'')
      else if us_status u \<noteq> UserStatus.ACTIVE
      then Inl (PlainError ''existing system actor must remain ACTIVE'')
      else Inr (us_id u))"

definition isUniqueConstraintError :: "svc_error \<Rightarrow> bool" where
  "isUniqueConstraintError e = (case e of PrismaKnownRequestError code _ _ \<Rightarrow> code = ''P2002'' | _ \<Rightarrow> False)"

definition getOrCreate :: "env \<Rightarrow> string \<Rightarrow> string dbtx" where
  "getOrCreate env tenantId = (\<lambda>d.
     case system_user tenantId d of
       Some existing \<Rightarrow> tx_lift (check_system_user existing) d
     | None \<Rightarrow>
        (case user_create env (\<lambda>new_id.
           \<lparr> us_id = new_id, us_tenantId = tenantId, us_branchId = None, us_username = SYSTEM_USERNAME,
             us_role = UserRole.SYSTEM, us_status = UserStatus.ACTIVE \<rparr>) d of
           Inr (u, d') \<Rightarrow> Inr (us_id u, d')
         | Inl e \<Rightarrow>
            if \<not> isUniqueConstraintError e then Inl e
            else (case system_user tenantId d of
                    None \<Rightarrow> Inl e
                  | Some raced \<Rightarrow> tx_lift (check_system_user raced) d)))"

subsection \<open>The sweep\<close>

record ExpirySweepResult =
  sw_examined :: nat
  sw_expiredLots :: nat
  sw_expiredAmountKobo :: int

definition dueLots :: "(string \<Rightarrow> bool) \<Rightarrow> int \<Rightarrow> db \<Rightarrow> CreditLot list" where
  "dueLots locked now d =
     sort_key lot_order
       (filter (\<lambda>l. lot_expiresAt l \<le> now \<and> lot_remainingAmountKobo l > 0 \<and> \<not> locked (lot_id l))
         (creditLots d))"

definition lockDueLots :: "(string \<Rightarrow> bool) \<Rightarrow> int \<Rightarrow> nat \<Rightarrow> db \<Rightarrow> CreditLot list" where
  "lockDueLots locked now batchSize d = take batchSize (dueLots locked now d)"

definition expire_lot :: "env \<Rightarrow> string \<Rightarrow> CreditLot \<Rightarrow> unit dbtx" where
  "expire_lot env systemActorId lot =
     (let amountKobo = lot_remainingAmountKobo lot in
      tx_bind (loyaltyLedgerEntry_create env (\<lambda>new_id.
        \<lparr> le_id = new_id, le_tenantId = lot_tenantId lot, le_customerId = lot_customerId lot,
          le_receiptId = None, le_type = LedgerEntryType.EXPIRY,
          le_direction = LedgerEntryDirection.DEBIT, le_amountKobo = amountKobo,
          le_correlationId = ''credit-expiry:'' @ lot_id lot, le_reversesEntryId = None,
          le_createdByTenantId = lot_tenantId lot, le_createdBy = systemActorId,
          le_effectiveAt = lot_expiresAt lot \<rparr>)) (\<lambda>entry.
      tx_bind (creditExpiry_create env (\<lambda>new_id.
        \<lparr> ce_id = new_id, ce_tenantId = lot_tenantId lot, ce_customerId = lot_customerId lot,
          ce_creditLotId = lot_id lot, ce_ledgerEntryId = le_id entry, ce_amountKobo = amountKobo,
          ce_expiredAt = lot_expiresAt lot \<rparr>)) (\<lambda>_.
      tx_bind (decrement_lot (lot_tenantId lot) (lot_customerId lot) (lot_id lot) amountKobo) (\<lambda>count.
      tx_bind (tx_unless (count = 1)
        (PrismaKnownRequestError ''P2034'' [] ''credit expiry lot changed during sweep'')) (\<lambda>_.
      recordWithClient (lot_tenantId lot) (Some systemActorId) ''credit.expire'' ''credit_lot''
        (Some (lot_id lot))
        (JObj [(''ledgerEntryId'', JStr (le_id entry)), (''amountKobo'', JStr (show_int amountKobo)),
               (''expiredAt'', json_date (lot_expiresAt lot))]))))))"

fun expire_lots ::
  "env \<Rightarrow> CreditLot list \<Rightarrow> (string \<Rightarrow> string option) \<Rightarrow> nat \<Rightarrow> int \<Rightarrow> (nat \<times> int) dbtx" where
  "expire_lots env [] actors n acc = tx_return (n, acc)"
| "expire_lots env (lot # lots) actors n acc =
     (if lot_remainingAmountKobo lot \<le> 0 then expire_lots env lots actors n acc
      else
        tx_bind (case actors (lot_tenantId lot) of
                   Some a \<Rightarrow> tx_return a
                 | None \<Rightarrow> getOrCreate env (lot_tenantId lot)) (\<lambda>actor.
        tx_bind (expire_lot env actor lot) (\<lambda>_.
        expire_lots env lots (actors(lot_tenantId lot \<mapsto> actor)) (n + 1)
          (acc + lot_remainingAmountKobo lot))))"

definition expire_batch :: "env \<Rightarrow> (string \<Rightarrow> bool) \<Rightarrow> int \<Rightarrow> nat \<Rightarrow> ExpirySweepResult dbtx" where
  "expire_batch env locked now batchSize =
     tx_bind (tx_read (lockDueLots locked now batchSize)) (\<lambda>lots.
     if lots = [] then tx_return \<lparr> sw_examined = 0, sw_expiredLots = 0, sw_expiredAmountKobo = 0 \<rparr>
     else
       tx_bind (expire_lots env lots Map.empty 0 0) (\<lambda>(n, acc).
       tx_return \<lparr> sw_examined = length lots, sw_expiredLots = n, sw_expiredAmountKobo = acc \<rparr>))"

definition expiry_retry_options :: retry_options where
  "expiry_retry_options =
     \<lparr> opt_attempts = 5, opt_conflictCode = ''CREDIT_EXPIRY_TRANSACTION_CONFLICT'',
       opt_conflictMessage = ''Credit expiry sweep conflicted; retry the sweep'' \<rparr>"

definition expireDueCredit ::
  "env \<Rightarrow> (nat \<Rightarrow> db \<Rightarrow> db \<times> svc_error option) \<Rightarrow> (string \<Rightarrow> bool) \<Rightarrow> int \<Rightarrow> int \<Rightarrow> db \<Rightarrow>
   (svc_error + ExpirySweepResult) \<times> db" where
  "expireDueCredit env sched locked now batchSize d =
     (if batchSize \<le> 0 then (Inl (BadRequestException ''batchSize must be a positive integer''), d)
      else runWithBoundedFinancialRetries
             (\<lambda>k. run_transaction sched k (expire_batch env locked now (nat batchSize)))
             no_replay expiry_retry_options d)"

subsection \<open>Effect of the sweep\<close>

lemma getOrCreate_frame [frame_intros]:
  "(\<And>d v w. f (d\<lparr>idCounter := w, users := v\<rparr>) = f d) \<Longrightarrow> tx_frame f (getOrCreate env t)"
  using user_create_frame[of f env]
  by (auto simp: tx_frame_def getOrCreate_def tx_lift_eq_Inr split: option.splits sum.splits if_splits)

definition emptied :: "string set \<Rightarrow> CreditLot list \<Rightarrow> CreditLot list" where
  "emptied ids ls = map (\<lambda>l. if lot_id l \<in> ids then l\<lparr>lot_remainingAmountKobo := 0\<rparr> else l) ls"

lemma decrement_empties:
  assumes "lots_wf d" and "lot \<in> set (creditLots d)"
    and "decrement_lot (lot_tenantId lot) (lot_customerId lot) (lot_id lot) (lot_remainingAmountKobo lot) d
         = Inr (n, d')"
  shows "creditLots d' = emptied {lot_id lot} (creditLots d)"
proof -
  have l: "lot_remainingAmountKobo l = lot_remainingAmountKobo lot \<and> lot_tenantId l = lot_tenantId lot
      \<and> lot_customerId l = lot_customerId lot" if "l \<in> set (creditLots d)" "lot_id l = lot_id lot" for l
    using lot_unique[OF assms(1) that(1) assms(2) that(2)] by simp
  show ?thesis
    using assms(3) by (auto simp: decrement_lot_eq_Inr updated_def emptied_def l)
qed

lemma expire_lot_effect:
  assumes "expire_lot env actor lot d = Inr (u, d')" and "money_at f d" and "lot \<in> set (creditLots d)"
    and "0 < lot_remainingAmountKobo lot"
  shows "money_at f d'" and "creditLots d' = emptied {lot_id lot} (creditLots d)"
proof -
  let ?a = "(lot_tenantId lot, lot_customerId lot)" and ?v = "lot_remainingAmountKobo lot"
  from assms(1) obtain entry mk d1 mkc ex d2 d3 where
    le: "loyaltyLedgerEntry_create env mk d = Inr (entry, d1)"
    and mk: "\<And>i. ledger_account (mk i) = ?a" "\<And>i. signed_kobo (mk i) = - ?v"
    and ce: "creditExpiry_create env mkc d1 = Inr (ex, d2)"
    and dl: "decrement_lot (lot_tenantId lot) (lot_customerId lot) (lot_id lot) ?v d2 = Inr (1, d3)"
    and au: "money_view d' = money_view d3"
    by (fastforce simp: expire_lot_def Let_def tx_bind_eq_Inr recordWithClient_def auditLog_create_def
        ledger_account_def signed_kobo_def)
  have m1: "money_at (bump f ?a (- ?v)) d1"
    using tx_specD[OF loyaltyLedgerEntry_create_money[OF mk] assms(2) le] .
  have m2: "money_at (bump f ?a (- ?v)) d2"
    using m1 ce by (rule money_at_frameD) (rule creditExpiry_create_frame, simp)
  have "money_at (bump (bump f ?a (- ?v)) ?a ?v) d3"
    by (rule decrement_lot_money[OF m2 dl]) (use assms(4) in simp)
  then show "money_at f d'" using money_at_view[OF au] by simp
  have same: "creditLots d2 = creditLots d"
    using tx_frameD[OF loyaltyLedgerEntry_create_frame le, of creditLots]
      tx_frameD[OF creditExpiry_create_frame ce, of creditLots] by simp
  have "lots_wf d2" using m2 by (simp add: money_at_def)
  from decrement_empties[OF this _ dl] same assms(3) au
  show "creditLots d' = emptied {lot_id lot} (creditLots d)" by simp
qed

lemma emptied_emptied: "emptied A (emptied B ls) = emptied (A \<union> B) ls"
  by (auto simp: emptied_def)

lemma emptied_keeps: "l \<in> set ls \<Longrightarrow> lot_id l \<notin> A \<Longrightarrow> l \<in> set (emptied A ls)"
  by (force simp: emptied_def)

lemma expire_lots_effect:
  assumes "expire_lots env lots actors n acc d = Inr ((n', acc'), d')" and "money_at f d"
    and "distinct (map lot_id lots)" and "set lots \<subseteq> set (creditLots d)"
    and "\<forall>l\<in>set lots. 0 < lot_remainingAmountKobo l"
  shows "money_at f d' \<and> creditLots d' = emptied (lot_id ` set lots) (creditLots d)
    \<and> n' = n + length lots \<and> acc' = acc + sum_list (map lot_remainingAmountKobo lots)"
  using assms
proof (induction lots arbitrary: actors n acc d)
  case Nil
  then show ?case by (simp add: emptied_def)
next
  case (Cons lot lots)
  from Cons.prems(1,5) obtain actor d1 d2 where
    ac: "(case actors (lot_tenantId lot) of Some a \<Rightarrow> tx_return a
          | None \<Rightarrow> getOrCreate env (lot_tenantId lot)) d = Inr (actor, d1)"
    and ex: "expire_lot env actor lot d1 = Inr ((), d2)"
    and rest: "expire_lots env lots (actors(lot_tenantId lot \<mapsto> actor)) (n + 1)
          (acc + lot_remainingAmountKobo lot) d2 = Inr ((n', acc'), d')"
    by (auto simp: tx_bind_eq_Inr)
  have fr: "tx_frame money_view (case actors (lot_tenantId lot) of Some a \<Rightarrow> tx_return a
          | None \<Rightarrow> getOrCreate env (lot_tenantId lot))"
    by (intro frame_intros) simp
  have m1: "money_at f d1" using Cons.prems(2) ac fr by (rule money_at_frameD)
  have same: "creditLots d1 = creditLots d" using tx_frameD[OF fr ac] by simp
  have in1: "lot \<in> set (creditLots d1)" using Cons.prems(4) same by simp
  have pos: "0 < lot_remainingAmountKobo lot" using Cons.prems(5) by simp
  note e = expire_lot_effect[OF ex m1 in1 pos]
  have "set lots \<subseteq> set (creditLots d2)"
  proof
    fix x
    assume x: "x \<in> set lots"
    then have "lot_id x \<noteq> lot_id lot" using Cons.prems(3) by (auto simp: image_iff)
    with x Cons.prems(4) show "x \<in> set (creditLots d2)"
      unfolding e(2) same by (auto intro!: emptied_keeps)
  qed
  with Cons.IH[OF rest e(1)] Cons.prems(3,5) show ?case
    by (simp add: e(2) same emptied_emptied)
qed

lemma dueLots_facts:
  assumes "lots_wf d"
  shows "distinct (map lot_id (dueLots locked now d))" and "set (dueLots locked now d) \<subseteq> set (creditLots d)"
    and "\<forall>l\<in>set (dueLots locked now d). 0 < lot_remainingAmountKobo l \<and> lot_expiresAt l \<le> now"
  using assms by (auto simp: dueLots_def lots_wf_def distinct_map inj_on_def)

lemma expire_batch_effect:
  assumes "expire_batch env locked now n d = Inr (r, d')" and "money_at f d"
  shows "money_at f d'"
    and "creditLots d' = emptied (lot_id ` set (lockDueLots locked now n d)) (creditLots d)"
    and "sw_examined r = length (lockDueLots locked now n d)" and "sw_expiredLots r = sw_examined r"
    and "sw_expiredAmountKobo r = sum_list (map lot_remainingAmountKobo (lockDueLots locked now n d))"
proof -
  let ?due = "lockDueLots locked now n d"
  have wf: "lots_wf d" using assms(2) by (simp add: money_at_def)
  note facts = dueLots_facts[OF wf, of locked now]
  have di: "distinct (map lot_id ?due)"
    unfolding lockDueLots_def take_map[symmetric] using facts(1) by (rule distinct_take)
  have sub: "set ?due \<subseteq> set (creditLots d)" and pos: "\<forall>l\<in>set ?due. 0 < lot_remainingAmountKobo l"
    using facts(2,3) by (auto simp: lockDueLots_def dest: in_set_takeD)
  have "money_at f d' \<and> creditLots d' = emptied (lot_id ` set ?due) (creditLots d)
    \<and> sw_examined r = length ?due \<and> sw_expiredLots r = length ?due
    \<and> sw_expiredAmountKobo r = sum_list (map lot_remainingAmountKobo ?due)"
  proof (cases "?due = []")
    case True
    with assms show ?thesis by (auto simp: expire_batch_def tx_bind_def emptied_def)
  next
    case False
    with assms(1) obtain n' acc' where x: "expire_lots env ?due Map.empty 0 0 d = Inr ((n', acc'), d')"
      and r: "r = \<lparr> sw_examined = length ?due, sw_expiredLots = n', sw_expiredAmountKobo = acc' \<rparr>"
      by (auto simp: expire_batch_def tx_bind_eq_Inr)
    from expire_lots_effect[OF x assms(2) di sub pos] r show ?thesis by simp
  qed
  then show "money_at f d'"
    and "creditLots d' = emptied (lot_id ` set ?due) (creditLots d)"
    and "sw_examined r = length ?due" and "sw_expiredLots r = sw_examined r"
    and "sw_expiredAmountKobo r = sum_list (map lot_remainingAmountKobo ?due)" by simp_all
qed

interpretation sweep_run: retried "\<lambda>k. run_transaction sched k (expire_batch env locked now n)" no_replay
  "\<lambda>d. session_invariant P \<and> session_keeps P sched (\<lambda>_ d. d) \<and> tx_keeps P (expire_batch env locked now n) \<longrightarrow> P d"
  for sched env locked now n P
proof unfold_locales
  fix d k
  let ?a = "session_invariant P \<and> session_keeps P sched (\<lambda>_ d. d) \<and> tx_keeps P (expire_batch env locked now n)"
  obtain r d' where run: "run_transaction sched k (expire_batch env locked now n) d = (r, d')" by (metis surj_pair)
  assume "?a \<longrightarrow> P d"
  then show "?a \<longrightarrow> P (snd (run_transaction sched k (expire_batch env locked now n) d))"
    using session_invariant.run_transaction_keeps[OF _ _ _ _ run, of P] by (auto simp: run)
qed (simp add: no_replay_def)

text \<open>The whole call keeps what its batch keeps, conflicts and retries included.\<close>

lemma expireDueCredit_keeps:
  assumes "P d" and "session_invariant P" and "session_keeps P sched (\<lambda>_ d. d)"
    and "\<And>n. tx_keeps P (expire_batch env locked now n)"
  shows "P (snd (expireDueCredit env sched locked now batchSize d))"
  using sweep_run.run_inv[where P = P and sched = sched and s = d] assms
  by (auto simp: expireDueCredit_def)

text \<open>
  C25: a sweep that commits empties exactly the first \<open>batchSize\<close> due lots, oldest expiry first:
  what is still due afterwards is the rest of the list, in the same order, and the amount it
  reports is what those lots held.
\<close>

theorem expire_batch_progress:
  assumes "expire_batch env locked now n d = Inr (r, d')" and "lots_wf d"
  shows "dueLots locked now d' = drop n (dueLots locked now d)
    \<and> sw_expiredLots r = min n (length (dueLots locked now d))
    \<and> sw_expiredAmountKobo r = sum_list (map lot_remainingAmountKobo (take n (dueLots locked now d)))
    \<and> lots_wf d'"
proof -
  let ?due = "dueLots locked now d" and ?p = "\<lambda>l. lot_expiresAt l \<le> now \<and> lot_remainingAmountKobo l > 0 \<and> \<not> locked (lot_id l)"
  have m: "money_at (imbalance d) d" using assms(2) by (simp add: money_at_def)
  note e = expire_batch_effect[OF assms(1) m]
  note facts = dueLots_facts[OF assms(2), of locked now]
  define ids where "ids = lot_id ` set (take n ?due)"
  have f: "filter ?p (emptied ids ls) = filter (\<lambda>l. lot_id l \<notin> ids) (filter ?p ls)" for ls
    by (induction ls) (auto simp: emptied_def)
  have "distinct (map lot_id (take n ?due @ drop n ?due))" using facts(1) by simp
  then have "filter (\<lambda>l. lot_id l \<notin> ids) (take n ?due @ drop n ?due) = drop n ?due"
    by (auto simp: ids_def filter_empty_conv filter_id_conv simp del: append_take_drop_id)
  then have "filter (\<lambda>l. lot_id l \<notin> ids) ?due = drop n ?due" by simp
  moreover have "creditLots d' = emptied ids (creditLots d)" using e(2) by (simp add: lockDueLots_def ids_def)
  ultimately have "dueLots locked now d' = drop n ?due"
    by (simp add: dueLots_def f filter_sort)
  moreover have "lots_wf d'" using e(1) by (simp add: money_at_def)
  ultimately show ?thesis using e(3-5) by (simp add: lockDueLots_def)
qed

text \<open>
  C26: writing off expired lots never costs a customer spendable credit: at the time of the sweep
  and at every later time the active balance of every account is what it was, and the books stay
  balanced.
\<close>

theorem expire_batch_spares_active:
  assumes "expire_batch env locked now n d = Inr (r, d')" and "books_balance d" and "now \<le> t"
  shows "active_balance a t d' = active_balance a t d \<and> books_balance d'"
proof -
  have m: "money_at (\<lambda>_. 0) d" using assms(2) by (simp add: books_balance_money_at)
  then have wf: "lots_wf d" by (simp add: money_at_def)
  note e = expire_batch_effect[OF assms(1) m]
  define ids where "ids = lot_id ` set (lockDueLots locked now n d)"
  have dead: "lot_expiresAt l \<le> t" if "l \<in> set (creditLots d)" "lot_id l \<in> ids" for l
  proof -
    from that(2) obtain k where k: "k \<in> set (dueLots locked now d)" "lot_id k = lot_id l"
      by (auto simp: ids_def lockDueLots_def dest: in_set_takeD)
    then have "k = l" using lot_unique[OF wf _ that(1)] dueLots_facts(2)[OF wf] by blast
    with k(1) dueLots_facts(3)[OF wf] assms(3) show ?thesis by fastforce
  qed
  have "sum_where (activeCreditLotWhere (fst a) (snd a) t) lot_remainingAmountKobo (emptied ids ls)
      = sum_where (activeCreditLotWhere (fst a) (snd a) t) lot_remainingAmountKobo ls"
    if "\<forall>l\<in>set ls. lot_id l \<in> ids \<longrightarrow> lot_expiresAt l \<le> t" for ls
    using that by (induction ls) (auto simp: emptied_def activeCreditLotWhere_def)
  with dead e(2) have "active_balance a t d' = active_balance a t d"
    by (simp add: active_balance_def getActiveBalanceKobo_def ids_def)
  with e(1) show ?thesis by (simp add: books_balance_money_at)
qed

definition demo_expired_db :: db where
  "demo_expired_db = demo_db\<lparr>creditLots := [demo_lot ''l1'' ''e1'' 30000 1700000000001,
     demo_lot ''l2'' ''e2'' 90000 1730000000000]\<rparr>"

lemma demo_expired_wf: "lots_wf demo_expired_db" "books_balance demo_expired_db"
proof -
  show wf: "lots_wf demo_expired_db" by (simp add: lots_wf_def demo_expired_db_def demo_lot_def lot_ok_def)
  show "books_balance demo_expired_db"
    by (simp add: books_balance_def wf ledger_net_def lots_total_def)
      (simp add: demo_expired_db_def demo_db_def demo_lot_def demo_entry_def ledger_account_def
        lot_account_def signed_kobo_def)
qed

lemma demo_sweep:
  obtains r d' where "expire_batch demo_env (\<lambda>_. False) demo_now 10 demo_expired_db = Inr (r, d')"
proof -
  have "map_sum (\<lambda>e. e) (\<lambda>r. sw_expiredLots (fst r))
      (expire_batch demo_env (\<lambda>_. False) demo_now 10 demo_expired_db) = Inr 1"
    by code_simp
  then show thesis by (rule committed_result) (use that in blast)
qed

theorem expire_batch_progress_witness:
  "\<exists>r d'. expire_batch demo_env (\<lambda>_. False) demo_now 10 demo_expired_db = Inr (r, d')
     \<and> dueLots (\<lambda>_. False) demo_now d' = [] \<and> sw_expiredAmountKobo r = 30000"
proof -
  obtain r d' where r: "expire_batch demo_env (\<lambda>_. False) demo_now 10 demo_expired_db = Inr (r, d')"
    by (rule demo_sweep)
  have "dueLots (\<lambda>_. False) demo_now demo_expired_db = [demo_lot ''l1'' ''e1'' 30000 1700000000001]"
    by code_simp
  with expire_batch_progress[OF r demo_expired_wf(1)] r show ?thesis by (auto simp: demo_lot_def)
qed

theorem expire_batch_spares_active_witness:
  "\<exists>r d'. expire_batch demo_env (\<lambda>_. False) demo_now 10 demo_expired_db = Inr (r, d')
     \<and> active_balance (''T'', ''C'') demo_now d' = 90000 \<and> books_balance d'"
proof -
  obtain r d' where r: "expire_batch demo_env (\<lambda>_. False) demo_now 10 demo_expired_db = Inr (r, d')"
    by (rule demo_sweep)
  have "active_balance (''T'', ''C'') demo_now demo_expired_db = 90000" by code_simp
  with expire_batch_spares_active[OF r demo_expired_wf(2) order_refl, of "(''T'', ''C'')"] r
  show ?thesis by auto
qed

end
