(* ===== verification/Lot_Evidence.thy ===== *)
theory Lot_Evidence
  imports Credit_Expiry
begin

text \<open>
  The evidence behind a lot. Every kobo that has left a lot is recorded: in an allocation of a debit
  that no restoration has put back, or in a credit expiry. The database checks this equation in the
  trigger function \<open>validate_credit_lot_balance_evidence_for_lot\<close> of
  \<^verbatim>\<open>prisma/migrations/20260813_sprint_5_credit_expiry_foundation/migration.sql\<close>; here it is an
  invariant of the services, so the trigger never rejects one of their transactions. As in
  \<open>Accounts\<close>, \<open>evidence_at g\<close> carries the gap of each lot in the middle of a transaction.
\<close>

subsection \<open>The equation\<close>

definition allocated_kobo :: "db \<Rightarrow> string \<Rightarrow> string \<Rightarrow> int" where
  "allocated_kobo d t i =
     sum_where (\<lambda>a. ra_tenantId a = t \<and> ra_creditLotId a = i) ra_amountKobo (redemptionAllocations d)"

definition restores :: "RedemptionAllocation \<Rightarrow> AllocationRestoration \<Rightarrow> bool" where
  "restores a r = (ra_tenantId a = ar_tenantId r \<and> ra_id a = ar_allocationId r)"

definition restored_kobo :: "db \<Rightarrow> string \<Rightarrow> string \<Rightarrow> int" where
  "restored_kobo d t i =
     sum_where (\<lambda>r. list_ex (\<lambda>a. restores a r \<and> ra_tenantId a = t \<and> ra_creditLotId a = i)
       (redemptionAllocations d)) ar_amountKobo (allocationRestorations d)"

definition expired_kobo :: "db \<Rightarrow> string \<Rightarrow> string \<Rightarrow> int" where
  "expired_kobo d t i =
     sum_where (\<lambda>x. ce_tenantId x = t \<and> ce_creditLotId x = i) ce_amountKobo (creditExpiries d)"

definition expected_remaining :: "db \<Rightarrow> CreditLot \<Rightarrow> int" where
  "expected_remaining d l =
     lot_originalAmountKobo l - allocated_kobo d (lot_tenantId l) (lot_id l)
       + restored_kobo d (lot_tenantId l) (lot_id l) - expired_kobo d (lot_tenantId l) (lot_id l)"

definition lot_gap :: "db \<Rightarrow> CreditLot \<Rightarrow> int" where
  "lot_gap d l = lot_remainingAmountKobo l - expected_remaining d l"

text \<open>The rows the evidence rests on exist, and no allocation is restored beyond its amount.\<close>

definition is_lot :: "string \<Rightarrow> string \<Rightarrow> CreditLot \<Rightarrow> bool" where
  "is_lot t i l = (lot_tenantId l = t \<and> lot_id l = i)"

definition allocation_ok :: "db \<Rightarrow> RedemptionAllocation \<Rightarrow> bool" where
  "allocation_ok d a = (restoredAmount a d \<le> ra_amountKobo a
     \<and> list_ex (is_lot (ra_tenantId a) (ra_creditLotId a)) (creditLots d))"

definition restoration_ok :: "db \<Rightarrow> AllocationRestoration \<Rightarrow> bool" where
  "restoration_ok d r = list_ex (\<lambda>a. restores a r) (redemptionAllocations d)"

definition expiry_ok :: "db \<Rightarrow> CreditExpiry \<Rightarrow> bool" where
  "expiry_ok d x = (0 \<le> ce_amountKobo x \<and> list_ex (is_lot (ce_tenantId x) (ce_creditLotId x)) (creditLots d))"

definition evidence_at :: "(string \<Rightarrow> int) \<Rightarrow> db \<Rightarrow> bool" where
  "evidence_at g d =
     (distinct (map lot_id (creditLots d)) \<and> distinct (map ra_id (redemptionAllocations d))
      \<and> list_all (allocation_ok d) (redemptionAllocations d)
      \<and> list_all (restoration_ok d) (allocationRestorations d)
      \<and> list_all (expiry_ok d) (creditExpiries d)
      \<and> list_all (\<lambda>l. lot_gap d l = g (lot_id l)) (creditLots d))"

definition lots_evidenced :: "db \<Rightarrow> bool" where
  "lots_evidenced d = evidence_at (\<lambda>_. 0) d"

abbreviation evidence_view ::
  "db \<Rightarrow> CreditLot list \<times> RedemptionAllocation list \<times> AllocationRestoration list \<times> CreditExpiry list" where
  "evidence_view d \<equiv> (creditLots d, redemptionAllocations d, allocationRestorations d, creditExpiries d)"

lemmas evidence_defs = allocated_kobo_def restored_kobo_def expired_kobo_def expected_remaining_def lot_gap_def
  allocation_ok_def restoration_ok_def expiry_ok_def restoredAmount_def

lemma evidence_at_view: "evidence_view d' = evidence_view d \<Longrightarrow> evidence_at g d' = evidence_at g d"
  by (simp add: evidence_at_def evidence_defs[abs_def])

lemma lots_evidenced_view: "evidence_view d' = evidence_view d \<Longrightarrow> lots_evidenced d' = lots_evidenced d"
  unfolding lots_evidenced_def by (rule evidence_at_view)

lemma evidence_at_frameD:
  "evidence_at g d \<Longrightarrow> m d = Inr (x, d') \<Longrightarrow> tx_frame evidence_view m \<Longrightarrow> evidence_at g d'"
  by (drule (1) tx_frameD) (use evidence_at_view[of d' d g] in simp)

subsection \<open>What an allocation still owes\<close>

lemma distinct_key_unique:
  "distinct (map key xs) \<Longrightarrow> x \<in> set xs \<Longrightarrow> y \<in> set xs \<Longrightarrow> key x = key y \<Longrightarrow> x = y"
  by (auto simp: distinct_map dest: inj_onD)

lemma sum_where_unique_key:
  assumes "distinct (map key as)"
  shows "sum_where (\<lambda>a. p a \<and> key a = k) (\<lambda>_. v) as = (if list_ex (\<lambda>a. key a = k \<and> p a) as then v else 0)"
  using assms
proof (induction as)
  case (Cons a as)
  have "sum_where (\<lambda>a. p a \<and> key a = k) (\<lambda>_. v) as = 0 \<and> \<not> list_ex (\<lambda>a. key a = k \<and> p a) as"
    if "key a = k"
  proof -
    have "k \<notin> key ` set as" using Cons.prems that by auto
    then have "filter (\<lambda>a. p a \<and> key a = k) as = []" "\<not> list_ex (\<lambda>a. key a = k \<and> p a) as"
      by (auto simp: list_ex_iff filter_empty_conv)
    then show ?thesis by (simp add: sum_where_def)
  qed
  with Cons show ?case by auto
qed simp

lemma sum_where_none: "(\<And>x. x \<in> set xs \<Longrightarrow> \<not> p x) \<Longrightarrow> sum_where p v xs = 0"
  by (induction xs) auto

lemma sum_where_add: "sum_where p (\<lambda>a. v a + w a) xs = sum_where p v xs + sum_where p w xs"
  by (induction xs) auto

lemma sum_where_if: "sum_where p (\<lambda>a. if q a then v else 0) xs = sum_where (\<lambda>a. p a \<and> q a) (\<lambda>_. v) xs"
  by (induction xs) auto

lemma sum_where_diff: "sum_where p (\<lambda>a. v a - w a) xs = sum_where p v xs - sum_where p w xs"
  by (induction xs) auto

lemma restored_by_allocation:
  assumes "distinct (map ra_id as)"
  shows "sum_where (\<lambda>r. list_ex (\<lambda>a. restores a r \<and> q a) as) ar_amountKobo rs =
    sum_where q (\<lambda>a. sum_where (\<lambda>r. ar_tenantId r = ra_tenantId a \<and> ar_allocationId r = ra_id a)
      ar_amountKobo rs) as"
proof (induction rs)
  case Nil
  have "sum_where q (\<lambda>_. 0) xs = 0" for xs :: "RedemptionAllocation list" by (induction xs) auto
  then show ?case by simp
next
  case (Cons r rs)
  have "sum_where q (\<lambda>a. if ar_tenantId r = ra_tenantId a \<and> ar_allocationId r = ra_id a then ar_amountKobo r else 0) as
      = sum_where (\<lambda>a. (q a \<and> ar_tenantId r = ra_tenantId a) \<and> ra_id a = ar_allocationId r) (\<lambda>_. ar_amountKobo r) as"
    unfolding sum_where_if by (rule sum_where_cong) auto
  also have "\<dots> = (if list_ex (\<lambda>a. restores a r \<and> q a) as then ar_amountKobo r else 0)"
    unfolding sum_where_unique_key[OF assms] by (auto simp: list_ex_iff restores_def)
  finally show ?case using Cons.IH by (simp add: sum_where_add)
qed

lemma evidence_owed:
  assumes "evidence_at g d"
  shows "allocated_kobo d t i - restored_kobo d t i =
    sum_where (\<lambda>a. ra_tenantId a = t \<and> ra_creditLotId a = i) (\<lambda>a. ra_amountKobo a - restoredAmount a d)
      (redemptionAllocations d)"
  using assms restored_by_allocation[of "redemptionAllocations d" "\<lambda>a. ra_tenantId a = t \<and> ra_creditLotId a = i"
      "allocationRestorations d"]
  by (simp add: evidence_at_def allocated_kobo_def restored_kobo_def restoredAmount_def sum_where_diff)

text \<open>What an allocation still owes fits back into its lot.\<close>

lemma evidence_room:
  assumes "evidence_at g d" and "l \<in> set (creditLots d)" and "a \<in> set (redemptionAllocations d)"
    and "ra_tenantId a = lot_tenantId l" and "ra_creditLotId a = lot_id l"
  shows "lot_remainingAmountKobo l + (ra_amountKobo a - restoredAmount a d)
    \<le> lot_originalAmountKobo l + g (lot_id l)"
proof -
  let ?on = "\<lambda>a. ra_tenantId a = lot_tenantId l \<and> ra_creditLotId a = lot_id l"
  have "ra_amountKobo a - restoredAmount a d \<le>
      sum_where ?on (\<lambda>a. ra_amountKobo a - restoredAmount a d) (redemptionAllocations d)"
    using assms(1,3-5) by (intro sum_where_ge_member)
      (auto simp: evidence_at_def allocation_ok_def list_all_iff)
  moreover have "0 \<le> expired_kobo d (lot_tenantId l) (lot_id l)"
    using assms(1) unfolding expired_kobo_def
    by (intro sum_where_nonneg) (auto simp: evidence_at_def expiry_ok_def list_all_iff)
  moreover have "lot_gap d l = g (lot_id l)" using assms(1,2) by (simp add: evidence_at_def list_all_iff)
  ultimately show ?thesis
    using evidence_owed[OF assms(1), of "lot_tenantId l" "lot_id l"]
    by (simp add: lot_gap_def expected_remaining_def)
qed

subsection \<open>Effect of the operations on the evidence\<close>

definition shift :: "(string \<Rightarrow> int) \<Rightarrow> string \<Rightarrow> int \<Rightarrow> string \<Rightarrow> int" where
  "shift g i v = g(i := g i + v)"

lemma shift_shift [simp]: "shift (shift g i v) i w = shift g i (v + w)"
  by (simp add: shift_def add.assoc)

lemma shift_zero [simp]: "shift g i 0 = g"
  by (simp add: shift_def)

lemma shift_commute: "shift (shift g i v) j w = shift (shift g j w) i v"
  by (auto simp: shift_def fun_eq_iff)

lemma redemptionAllocation_create_evidence:
  assumes "redemptionAllocation_create env mk d = Inr (a, d')" and "evidence_at g d"
    and "\<And>i. 0 \<le> ra_amountKobo (mk i)" and "l \<in> set (creditLots d)"
    and "\<And>i. is_lot (ra_tenantId (mk i)) (ra_creditLotId (mk i)) l"
  shows "evidence_at (shift g (ra_creditLotId a) (ra_amountKobo a)) d'"
proof -
  from assms(1) have a: "a = mk (genId env (idCounter d))"
    and d': "d' = d\<lparr>idCounter := Suc (idCounter d), redemptionAllocations := redemptionAllocations d @ [a]\<rparr>"
    and new: "ra_id a \<notin> ra_id ` set (redemptionAllocations d)"
    by (auto simp: redemptionAllocation_create_def create_row_eq_Inr first_violation_None
        redemptionAllocation_constraints_def list_ex_iff split: if_splits)
  have lot: "is_lot (ra_tenantId a) (ra_creditLotId a) l" "0 \<le> ra_amountKobo a" using assms(3,5) a by auto
  note e = assms(2)[unfolded evidence_at_def]
  have notnew: "\<not> restores a r" if "r \<in> set (allocationRestorations d)" for r
    using that e new by (force simp: list_all_iff restoration_ok_def list_ex_iff restores_def)
  have sums: "restored_kobo d' t i = restored_kobo d t i" "expired_kobo d' t i = expired_kobo d t i"
    "allocated_kobo d' t i = allocated_kobo d t i
      + (if ra_tenantId a = t \<and> ra_creditLotId a = i then ra_amountKobo a else 0)" for t i
  proof -
    show "restored_kobo d' t i = restored_kobo d t i"
      unfolding restored_kobo_def d' using notnew by (auto intro!: sum_where_cong)
  qed (simp_all add: allocated_kobo_def expired_kobo_def d')
  have gap: "lot_gap d' m = shift g (ra_creditLotId a) (ra_amountKobo a) (lot_id m)"
    if "m \<in> set (creditLots d)" for m
  proof -
    have "m = l" if "lot_id m = ra_creditLotId a"
      using e \<open>m \<in> set (creditLots d)\<close> assms(4) lot(1) that
      by (intro distinct_key_unique[of lot_id "creditLots d"]) (simp_all add: is_lot_def)
    then have "lot_id m = ra_creditLotId a \<Longrightarrow> lot_tenantId m = ra_tenantId a"
      using lot(1) by (simp add: is_lot_def)
    moreover have "lot_gap d m = g (lot_id m)" using e that by (simp add: list_all_iff)
    ultimately show ?thesis by (auto simp: lot_gap_def expected_remaining_def shift_def sums)
  qed
  have "restoredAmount a d = 0"
    unfolding restoredAmount_def by (rule sum_where_none) (use notnew in \<open>fastforce simp: restores_def\<close>)
  then have "allocation_ok d' a"
    using lot assms(4) by (auto simp: allocation_ok_def restoredAmount_def d' list_ex_iff)
  then show ?thesis
    unfolding evidence_at_def using e new gap
    by (auto simp: d' evidence_defs[abs_def] list_all_iff)
qed

text \<open>A change of the one lot with a given id.\<close>

lemma updated_is_lot:
  "list_ex (is_lot u j) (updated p (\<lambda>l. l\<lparr>lot_remainingAmountKobo := h l\<rparr>) ls) = list_ex (is_lot u j) ls"
  by (induction ls) (auto simp: updated_def is_lot_def)

lemma lot_change_evidence:
  assumes "evidence_at g d" and "r \<in> set (creditLots d)" and "p r" and "\<And>l. p l \<Longrightarrow> lot_id l = i"
    and d': "d' = d\<lparr>creditLots := updated p (\<lambda>l. l\<lparr>lot_remainingAmountKobo := h l\<rparr>) (creditLots d)\<rparr>"
    and "h r = lot_remainingAmountKobo r + w"
  shows "evidence_at (shift g i w) d'"
proof -
  note e = assms(1)[unfolded evidence_at_def]
  have r: "m = r" if "m \<in> set (creditLots d)" "lot_id m = i" for m
    using e that assms(2-4) by (intro distinct_key_unique[of lot_id "creditLots d"]) simp_all
  have "lot_gap d' m = shift g i w (lot_id m)" if m: "m \<in> set (creditLots d')" for m
  proof -
    obtain l where l: "l \<in> set (creditLots d)" "m = (if p l then l\<lparr>lot_remainingAmountKobo := h l\<rparr> else l)"
      using m by (auto simp: d' updated_def)
    have "lot_gap d l = g (lot_id l)" using e l(1) by (simp add: list_all_iff)
    moreover have "p l = (lot_id l = i)" using r[OF l(1)] assms(3,4) by auto
    moreover have "lot_id l = i \<Longrightarrow> h l = lot_remainingAmountKobo l + w" using r[OF l(1)] assms(6) by simp
    ultimately show ?thesis by (auto simp: l(2) d' evidence_defs shift_def)
  qed
  then show ?thesis
    using e unfolding evidence_at_def
    by (auto simp: d' allocation_ok_def restoration_ok_def expiry_ok_def restoredAmount_def list_all_iff updated_is_lot)
qed

lemma decrement_lot_exists:
  assumes "decrement_lot t c i v d = Inr (1, d')"
  shows "\<exists>l\<in>set (creditLots d). is_lot t i l"
proof -
  from assms have "count_where (\<lambda>l. lot_id l = i \<and> (lot_tenantId l = t \<and> lot_customerId l = c
      \<and> v \<le> lot_remainingAmountKobo l)) (creditLots d) = 1" by (simp add: decrement_lot_eq_Inr)
  then show ?thesis by (rule count_where_oneE) (auto simp: is_lot_def)
qed

lemma decrement_lot_evidence:
  assumes "decrement_lot t c i v d = Inr (1, d')" and "evidence_at g d"
  shows "evidence_at (shift g i (- v)) d'"
proof -
  let ?q = "\<lambda>l. lot_id l = i \<and> (lot_tenantId l = t \<and> lot_customerId l = c \<and> v \<le> lot_remainingAmountKobo l)"
  from assms(1) have "count_where ?q (creditLots d) = 1" by (simp add: decrement_lot_eq_Inr)
  then obtain r where r: "r \<in> set (creditLots d)" "?q r" by (rule count_where_oneE)
  show ?thesis
    by (rule lot_change_evidence[where p = ?q and r = r and h = "\<lambda>l. lot_remainingAmountKobo l - v" and d = d])
      (use assms r in \<open>simp_all add: decrement_lot_eq_Inr\<close>)
qed

lemma creditLot_create_evidence:
  assumes "creditLot_create env mk d = Inr (l, d')" and "evidence_at g d" and "g (lot_id l) = 0"
    and "\<And>i. lot_remainingAmountKobo (mk i) = lot_originalAmountKobo (mk i)"
  shows "evidence_at g d'"
proof -
  from assms(1) have l: "l = mk (genId env (idCounter d))"
    and d': "d' = d\<lparr>idCounter := Suc (idCounter d), creditLots := creditLots d @ [l]\<rparr>"
    and new: "lot_id l \<notin> lot_id ` set (creditLots d)"
    by (auto simp: creditLot_create_def create_row_eq_Inr first_violation_None
        creditLot_constraints_def list_ex_iff split: if_splits)
  note e = assms(2)[unfolded evidence_at_def]
  have fresh: "\<not> list_ex (is_lot t (lot_id l)) (creditLots d)" for t
    using new by (auto simp: list_ex_iff is_lot_def image_iff)
  have no: "ra_creditLotId a \<noteq> lot_id l" if "a \<in> set (redemptionAllocations d)" for a
  proof -
    have "allocation_ok d a" using that e by (simp add: list_all_iff)
    then show ?thesis using fresh unfolding allocation_ok_def by metis
  qed
  have nx: "ce_creditLotId x \<noteq> lot_id l" if "x \<in> set (creditExpiries d)" for x
  proof -
    have "expiry_ok d x" using that e by (simp add: list_all_iff)
    then show ?thesis using fresh unfolding expiry_ok_def by metis
  qed
  have "allocated_kobo d' t (lot_id l) = 0" for t
    unfolding allocated_kobo_def by (rule sum_where_none) (use no in \<open>simp add: d'\<close>)
  moreover have "expired_kobo d' t (lot_id l) = 0" for t
    unfolding expired_kobo_def by (rule sum_where_none) (use nx in \<open>simp add: d'\<close>)
  moreover have "restored_kobo d' t (lot_id l) = 0" for t
    unfolding restored_kobo_def by (rule sum_where_none) (use no in \<open>simp add: d' list_ex_iff\<close>)
  ultimately have "lot_gap d' l = 0" using assms(4) by (simp add: lot_gap_def expected_remaining_def l)
  then show ?thesis
    unfolding evidence_at_def using e new assms(3)
    by (auto simp: d' evidence_defs[abs_def] list_all_iff)
qed

lemma creditExpiry_create_evidence:
  assumes "creditExpiry_create env mk d = Inr (x, d')" and "evidence_at g d"
    and "\<And>i. 0 \<le> ce_amountKobo (mk i)" and "l \<in> set (creditLots d)"
    and "\<And>i. is_lot (ce_tenantId (mk i)) (ce_creditLotId (mk i)) l"
  shows "evidence_at (shift g (ce_creditLotId x) (ce_amountKobo x)) d'"
proof -
  from assms(1) have x: "x = mk (genId env (idCounter d))"
    and d': "d' = d\<lparr>idCounter := Suc (idCounter d), creditExpiries := creditExpiries d @ [x]\<rparr>"
    by (simp_all add: creditExpiry_create_def create_row_eq_Inr)
  have lot: "is_lot (ce_tenantId x) (ce_creditLotId x) l" "0 \<le> ce_amountKobo x" using assms(3,5) x by auto
  note e = assms(2)[unfolded evidence_at_def]
  have "lot_gap d' m = shift g (ce_creditLotId x) (ce_amountKobo x) (lot_id m)" if "m \<in> set (creditLots d)" for m
  proof -
    have "m = l" if "lot_id m = ce_creditLotId x"
      using e \<open>m \<in> set (creditLots d)\<close> assms(4) lot(1) that
      by (intro distinct_key_unique[of lot_id "creditLots d"]) (simp_all add: is_lot_def)
    then have "lot_id m = ce_creditLotId x \<Longrightarrow> lot_tenantId m = ce_tenantId x"
      using lot(1) by (simp add: is_lot_def)
    moreover have "lot_gap d m = g (lot_id m)" using e that by (simp add: list_all_iff)
    ultimately show ?thesis by (auto simp: d' evidence_defs shift_def)
  qed
  moreover have "expiry_ok d' x" using lot assms(4) by (auto simp: expiry_ok_def d' list_ex_iff)
  ultimately show ?thesis
    unfolding evidence_at_def using e
    by (auto simp: d' allocation_ok_def restoration_ok_def expiry_ok_def restoredAmount_def list_all_iff)
qed

lemma allocationRestoration_create_evidence:
  assumes "allocationRestoration_create env mk d = Inr (r, d')" and "evidence_at g d"
    and "a \<in> set (redemptionAllocations d)" and "\<And>i. restores a (mk i)"
    and "\<And>i. restoredAmount a d + ar_amountKobo (mk i) \<le> ra_amountKobo a"
  shows "evidence_at (shift g (ra_creditLotId a) (- ar_amountKobo r)) d'"
proof -
  from assms(1) have r: "r = mk (genId env (idCounter d))"
    and d': "d' = d\<lparr>idCounter := Suc (idCounter d), allocationRestorations := allocationRestorations d @ [r]\<rparr>"
    by (simp_all add: allocationRestoration_create_def create_row_eq_Inr)
  have ar: "restores a r" "restoredAmount a d + ar_amountKobo r \<le> ra_amountKobo a" using assms(4,5) r by auto
  note e = assms(2)[unfolded evidence_at_def]
  have un: "b = a" if "b \<in> set (redemptionAllocations d)" "restores b r" for b
    using e that assms(3) ar(1) by (intro distinct_key_unique[of ra_id "redemptionAllocations d"]) (simp_all add: restores_def)
  have sums: "restored_kobo d' t i = restored_kobo d t i
      + (if ra_tenantId a = t \<and> ra_creditLotId a = i then ar_amountKobo r else 0)" for t i
  proof -
    have "list_ex (\<lambda>b. restores b r \<and> ra_tenantId b = t \<and> ra_creditLotId b = i) (redemptionAllocations d)
        = (ra_tenantId a = t \<and> ra_creditLotId a = i)"
      unfolding list_ex_iff using un ar(1) assms(3) by blast
    then show ?thesis by (simp add: restored_kobo_def d')
  qed
  obtain l where l: "l \<in> set (creditLots d)" "is_lot (ra_tenantId a) (ra_creditLotId a) l"
    using e assms(3) by (auto simp: list_all_iff allocation_ok_def list_ex_iff)
  have "lot_gap d' m = shift g (ra_creditLotId a) (- ar_amountKobo r) (lot_id m)" if "m \<in> set (creditLots d)" for m
  proof -
    have "m = l" if "lot_id m = ra_creditLotId a"
      using e \<open>m \<in> set (creditLots d)\<close> l that
      by (intro distinct_key_unique[of lot_id "creditLots d"]) (simp_all add: is_lot_def)
    then have "lot_id m = ra_creditLotId a \<Longrightarrow> lot_tenantId m = ra_tenantId a" using l(2) by (simp add: is_lot_def)
    moreover have "lot_gap d m = g (lot_id m)" using e that by (simp add: list_all_iff)
    moreover have "allocated_kobo d' t i = allocated_kobo d t i" "expired_kobo d' t i = expired_kobo d t i" for t i
      by (simp_all add: d' allocated_kobo_def expired_kobo_def)
    ultimately show ?thesis by (auto simp: sums lot_gap_def expected_remaining_def shift_def)
  qed
  moreover have "allocation_ok d' b" if "b \<in> set (redemptionAllocations d)" for b
  proof -
    have "(ra_tenantId b = ar_tenantId r \<and> ra_id b = ar_allocationId r) = (b = a)"
      using un[OF that] ar(1) unfolding restores_def by blast
    then have "restoredAmount b d' = restoredAmount b d + (if b = a then ar_amountKobo r else 0)"
      by (auto simp: restoredAmount_def d' restores_def)
    then show ?thesis using e that ar(2) by (auto simp: allocation_ok_def list_all_iff d')
  qed
  moreover have "restoration_ok d' r" using ar(1) assms(3) by (auto simp: restoration_ok_def d' list_ex_iff)
  moreover have "restoration_ok d' = restoration_ok d" "expiry_ok d' = expiry_ok d"
    by (simp_all add: fun_eq_iff d' restoration_ok_def expiry_ok_def)
  moreover have "creditLots d' = creditLots d" "redemptionAllocations d' = redemptionAllocations d"
    "creditExpiries d' = creditExpiries d" "allocationRestorations d' = allocationRestorations d @ [r]"
    by (simp_all add: d')
  ultimately show ?thesis unfolding evidence_at_def using e by (simp add: list_all_iff)
qed

subsection \<open>Debits and expiries leave evidence\<close>

definition owing :: "(string \<Rightarrow> int) \<Rightarrow> PersistedAllocation list \<Rightarrow> string \<Rightarrow> int" where
  "owing g as i = g i + sum_where (\<lambda>a. pa_creditLotId a = i) pa_amountKobo as"

lemma owing_Nil: "owing g [] = g"
  by (simp add: owing_def fun_eq_iff)

lemma owing_Cons: "owing g (a # as) = owing (shift g (pa_creditLotId a) (pa_amountKobo a)) as"
  by (auto simp: owing_def shift_def fun_eq_iff)

lemma owing_paid: "shift (owing g (a # as)) (pa_creditLotId a) (- pa_amountKobo a) = owing g as"
  by (auto simp: owing_def shift_def fun_eq_iff)

lemma createAllocations_evidence:
  assumes "createAllocations env input as d = Inr (u, d')" and "evidence_at g d"
    and "\<And>a. a \<in> set as \<Longrightarrow> 0 \<le> pa_amountKobo a
      \<and> (\<exists>l\<in>set (creditLots d). is_lot (in_tenantId input) (pa_creditLotId a) l)"
  shows "evidence_at (owing g as) d'"
  using assms
proof (induction as arbitrary: d g)
  case Nil
  then show ?case by (simp add: createAllocations_def owing_Nil)
next
  case (Cons a as)
  let ?mk = "\<lambda>i. \<lparr> ra_id = i, ra_tenantId = in_tenantId input, ra_redemptionId = in_redemptionId input,
         ra_adjustmentId = in_adjustmentId input, ra_redemptionLedgerEntryId = in_debitLedgerEntryId input,
         ra_creditLotId = pa_creditLotId a, ra_amountKobo = pa_amountKobo a,
         ra_allocationOrder = pa_allocationOrder a \<rparr>"
  from Cons.prems(1) obtain row d1 where c: "redemptionAllocation_create env ?mk d = Inr (row, d1)"
    and rest: "createAllocations env input as d1 = Inr (u, d')"
    by (auto simp: createAllocations_def tx_bind_eq_Inr)
  have row: "row = ?mk (genId env (idCounter d))" and lots: "creditLots d1 = creditLots d"
    using c by (auto simp: redemptionAllocation_create_def create_row_eq_Inr)
  obtain l where "l \<in> set (creditLots d)" "is_lot (in_tenantId input) (pa_creditLotId a) l" "0 \<le> pa_amountKobo a"
    using Cons.prems(3)[of a] by auto
  then have "evidence_at (shift g (pa_creditLotId a) (pa_amountKobo a)) d1"
    using redemptionAllocation_create_evidence[OF c Cons.prems(2)] row by simp
  with rest show ?case
    unfolding owing_Cons by (rule Cons.IH) (use Cons.prems(3) lots in auto)
qed

lemma applyAllocations_evidence:
  "tx_for as (applyAllocation input) d = Inr (u, d') \<Longrightarrow> evidence_at (owing g as) d \<Longrightarrow> evidence_at g d'"
proof (induction as arbitrary: d)
  case Nil
  then show ?case by (simp add: owing_Nil)
next
  case (Cons a as)
  from Cons.prems(1) obtain d1 where
    a: "decrement_lot (in_tenantId input) (in_customerId input) (pa_creditLotId a) (pa_amountKobo a) d = Inr (1, d1)"
    and rest: "tx_for as (applyAllocation input) d1 = Inr (u, d')"
    by (auto simp: tx_bind_eq_Inr applyAllocation_eq_Inr)
  from decrement_lot_evidence[OF a Cons.prems(2)] have "evidence_at (owing g as) d1" by (simp add: owing_paid)
  with rest show ?case by (rule Cons.IH)
qed

lemma persistAllocations_evidence:
  assumes "persistAllocations env input as d = Inr (u, d')" and "evidence_at g d"
    and "\<And>a. a \<in> set as \<Longrightarrow> 0 \<le> pa_amountKobo a
      \<and> (\<exists>l\<in>set (creditLots d). is_lot (in_tenantId input) (pa_creditLotId a) l)"
  shows "evidence_at g d'"
  using assms(1) createAllocations_evidence[OF _ assms(2,3)]
  by (auto simp: persistAllocations_def tx_bind_eq_Inr intro: applyAllocations_evidence)

text \<open>What a body does to the evidence: nothing.\<close>

definition evidence_kept :: "db \<Rightarrow> db \<Rightarrow> bool" where
  "evidence_kept d d' = (lots_evidenced d \<longrightarrow> lots_evidenced d')"

interpretation evidence: tx_order evidence_kept
  by unfold_locales (auto simp: evidence_kept_def)

interpretation evidence_inv: session_invariant lots_evidenced
  by unfold_locales (rule lots_evidenced_view; simp)+

lemma evidence_kept_view: "evidence_view d' = evidence_view d \<Longrightarrow> evidence_kept d d'"
  using lots_evidenced_view[of d' d] by (auto simp: evidence_kept_def)

lemma evidence_kept_frame: "tx_frame evidence_view m \<Longrightarrow> tx_rel evidence_kept m"
  by (erule evidence.rel_frame) (rule evidence_kept_view)

lemma evidence_keeps: "tx_rel evidence_kept m \<Longrightarrow> tx_keeps lots_evidenced m"
  by (auto simp: tx_keeps_def tx_spec_def tx_rel_def evidence_kept_def)

lemma allocateDebit_evidence: "tx_rel evidence_kept (allocateDebit env input)"
proof (rule tx_relI, unfold evidence_kept_def lots_evidenced_def, rule impI)
  fix d as d'
  assume a: "allocateDebit env input d = Inr (as, d')" and e: "evidence_at (\<lambda>_. 0) d"
  from a have pos: "0 < in_amountKobo input"
    and plan: "planAllocations (eligibleLots input d) (in_amountKobo input) = Inr as"
    and pe: "persistAllocations env input as d = Inr ((), d')"
    by (auto simp: allocateDebit_def tx_bind_eq_Inr tx_lift_eq_Inr lockEligibleLots_def
        validateDebitAllocationTarget_def split: if_splits)
  show "evidence_at (\<lambda>_. 0) d'"
    by (rule persistAllocations_evidence[OF pe e])
      (use planAllocations_Inr(2)[OF plan eligibleLots_positive pos] in
        \<open>fastforce simp: eligibleLots_def activeCreditLotWhere_def is_lot_def\<close>)
qed

lemma allocateDebitFromExactLot_evidence: "tx_rel evidence_kept (allocateDebitFromExactLot env input)"
proof (rule tx_relI, unfold evidence_kept_def lots_evidenced_def, rule impI)
  fix d as d'
  assume a: "allocateDebitFromExactLot env input d = Inr (as, d')" and e: "evidence_at (\<lambda>_. 0) d"
  from a obtain lot where pos: "0 < in_amountKobo input" and lot: "lockExactLot input d = Inr (lot, d)"
    and plan: "planAllocations [lot] (in_amountKobo input) = Inr as"
    and pe: "persistAllocations env input as d = Inr ((), d')"
    by (auto simp: allocateDebitFromExactLot_def tx_bind_eq_Inr tx_lift_eq_Inr lockExactLot_def
        validateDebitAllocationTarget_def split: if_splits list.splits)
  have l: "lot \<in> set (creditLots d)" "lot_tenantId lot = in_tenantId input" "0 < lot_remainingAmountKobo lot"
    using lot pos by (auto simp: lockExactLot_def filter_eq_Cons_iff split: list.splits)
  show "evidence_at (\<lambda>_. 0) d'"
    by (rule persistAllocations_evidence[OF pe e])
      (use planAllocations_Inr(2)[OF plan _ pos] l in \<open>fastforce simp: is_lot_def\<close>)
qed

lemma creditLot_create_evidenced:
  "(\<And>i. lot_remainingAmountKobo (mk i) = lot_originalAmountKobo (mk i)) \<Longrightarrow>
   tx_rel evidence_kept (creditLot_create env mk)"
  by (auto simp: tx_rel_def evidence_kept_def lots_evidenced_def intro: creditLot_create_evidence)

lemma expire_lot_evidence:
  assumes "0 \<le> lot_remainingAmountKobo lot"
  shows "tx_rel evidence_kept (expire_lot env actor lot)"
proof (rule tx_relI, unfold evidence_kept_def lots_evidenced_def, rule impI)
  fix d u d'
  assume x: "expire_lot env actor lot d = Inr (u, d')" and e: "evidence_at (\<lambda>_. 0) d"
  let ?mk = "\<lambda>e i. \<lparr> ce_id = i, ce_tenantId = lot_tenantId lot, ce_customerId = lot_customerId lot,
          ce_creditLotId = lot_id lot, ce_ledgerEntryId = e, ce_amountKobo = lot_remainingAmountKobo lot,
          ce_expiredAt = lot_expiresAt lot \<rparr>"
  from x obtain mkl entry d1 row d2 d3 where le: "loyaltyLedgerEntry_create env mkl d = Inr (entry, d1)"
    and cx: "creditExpiry_create env (?mk (le_id entry)) d1 = Inr (row, d2)"
    and dl: "decrement_lot (lot_tenantId lot) (lot_customerId lot) (lot_id lot) (lot_remainingAmountKobo lot) d2
      = Inr (1, d3)"
    and ev: "evidence_view d' = evidence_view d3"
    by (auto simp: expire_lot_def tx_bind_eq_Inr Let_def recordWithClient_def auditLog_create_def)
  have e1: "evidence_at (\<lambda>_. 0) d1"
    using e le by (rule evidence_at_frameD) (rule loyaltyLedgerEntry_create_frame, simp)
  have row: "row = ?mk (le_id entry) (genId env (idCounter d1))" and same: "creditLots d2 = creditLots d1"
    using cx by (auto simp: creditExpiry_create_def create_row_eq_Inr)
  obtain l where l: "l \<in> set (creditLots d2)" "is_lot (lot_tenantId lot) (lot_id lot) l"
    using decrement_lot_exists[OF dl] by blast
  have "evidence_at (shift (\<lambda>_. 0) (lot_id lot) (lot_remainingAmountKobo lot)) d2"
    using creditExpiry_create_evidence[OF cx e1 _ _ , of l] l assms same row by simp
  from decrement_lot_evidence[OF dl this] have "evidence_at (\<lambda>_. 0) d3" by simp
  with ev show "evidence_at (\<lambda>_. 0) d'" using evidence_at_view[of d' d3] by simp
qed

lemma expire_lots_evidence: "tx_rel evidence_kept (expire_lots env lots actors n acc)"
proof (induction lots arbitrary: actors n acc)
  case (Cons lot lots)
  have "tx_rel evidence_kept (getOrCreate env t)" for t
    by (rule evidence_kept_frame) (rule getOrCreate_frame, simp)
  then have "tx_rel evidence_kept (case actors (lot_tenantId lot) of Some a \<Rightarrow> tx_return a
      | None \<Rightarrow> getOrCreate env (lot_tenantId lot))"
    by (simp add: evidence.rel_simple split: option.split)
  then show ?case
    unfolding expire_lots.simps by (intro evidence.rel_intros Cons.IH expire_lot_evidence) simp_all
qed (simp add: evidence.rel_simple)

lemma expire_batch_evidence: "tx_rel evidence_kept (expire_batch env locked now n)"
  unfolding expire_batch_def by (intro evidence.rel_intros expire_lots_evidence)

end
