(* ===== verification/Reversals.thy ===== *)
theory Reversals
  imports Adjustments Lot_Evidence
begin

text \<open>
  \<^verbatim>\<open>src/modules/reversals/reversals.service.ts\<close>: a committed ledger entry is undone by a
  compensating entry. Earned credit and credit adjustments are taken back out of the lot they made,
  provided nothing was spent from it; redemptions and debit adjustments are put back into the lots
  they were taken from, allocation by allocation; and a receipt that both redeemed and earned is
  undone as a pair. \<open>clk 0\<close> is the clock of the clean-up; attempt \<open>k\<close> reads \<open>clk (3 * k)\<close> for the
  expiry of its pending record, \<open>clk (3 * k + 1)\<close> as \<open>now\<close> and \<open>clk (3 * k + 2)\<close> when it stores the
  response. A ledger entry has the one status \<open>CONFIRMED\<close>, so the comparisons with it are left out.
\<close>

subsection \<open>Request\<close>

record reverse_request =
  rv_tenantId :: string
  rv_actor :: AuthContext
  rv_transactionId :: string
  rv_reason :: string
  rv_requestHash :: string
  rv_key :: string

definition REVERSE_ENDPOINT :: string where
  "REVERSE_ENDPOINT = ''POST /api/v1/transactions/{transactionId}/reverse''"

definition REVERSAL_RETRY_ATTEMPTS :: nat where "REVERSAL_RETRY_ATTEMPTS = 3"

definition reverse_normalizeIdempotencyKey :: "string option \<Rightarrow> svc_error + string" where
  "reverse_normalizeIdempotencyKey v =
     (let normalized = (case v of None \<Rightarrow> [] | Some k \<Rightarrow> js_trim k) in
      if normalized = [] then Inl (validation_error ''Idempotency-Key header is required'')
      else Inr normalized)"

definition reverse_normalizeReason :: "string \<Rightarrow> svc_error + string" where
  "reverse_normalizeReason v =
     (let normalized = js_trim v in
      if normalized = [] then Inl (validation_error ''Reversal reason is required'')
      else if length normalized > 500
      then Inl (validation_error ''Reversal reason must be at most 500 characters'')
      else Inr normalized)"

definition reverse_hashRequest :: "env \<Rightarrow> string \<Rightarrow> string \<Rightarrow> string \<Rightarrow> string \<Rightarrow> string" where
  "reverse_hashRequest env tenantId actorId transactionId reason =
     sha256hex env (JSON_stringify (JObj
       [(''tenantId'', JStr tenantId), (''actorId'', JStr actorId),
        (''transactionId'', JStr transactionId), (''reason'', JStr reason)]))"

subsection \<open>Rows related to a ledger entry\<close>

definition entry_by_id :: "string \<Rightarrow> string \<Rightarrow> db \<Rightarrow> LoyaltyLedgerEntry option" where
  "entry_by_id tenantId i d = find (\<lambda>e. le_tenantId e = tenantId \<and> le_id e = i) (ledgerEntries d)"

definition entry_customer :: "LoyaltyLedgerEntry \<Rightarrow> db \<Rightarrow> Customer option" where
  "entry_customer e d = find (\<lambda>c. cu_tenantId c = le_tenantId e \<and> cu_id c = le_customerId e) (customers d)"

definition entry_redemption :: "LoyaltyLedgerEntry \<Rightarrow> db \<Rightarrow> Redemption option" where
  "entry_redemption e d =
     find (\<lambda>r. rd_tenantId r = le_tenantId e \<and> rd_ledgerEntryId r = Some (le_id e)) (redemptions d)"

definition entry_lot :: "LoyaltyLedgerEntry \<Rightarrow> db \<Rightarrow> CreditLot option" where
  "entry_lot e d =
     find (\<lambda>l. lot_tenantId l = le_tenantId e \<and> lot_earnLedgerEntryId l = le_id e) (creditLots d)"

definition entry_adjustment :: "LoyaltyLedgerEntry \<Rightarrow> db \<Rightarrow> Adjustment option" where
  "entry_adjustment e d =
     find (\<lambda>a. adj_tenantId a = le_tenantId e \<and> adj_ledgerEntryId a = le_id e) (adjustments d)"

definition reversedByEntries :: "LoyaltyLedgerEntry \<Rightarrow> db \<Rightarrow> LoyaltyLedgerEntry list" where
  "reversedByEntries e d =
     filter (\<lambda>x. le_tenantId x = le_tenantId e \<and> le_reversesEntryId x = Some (le_id e)) (ledgerEntries d)"

definition receiptEffects :: "string \<Rightarrow> string \<Rightarrow> db \<Rightarrow> LoyaltyLedgerEntry list" where
  "receiptEffects tenantId receiptId d =
     filter (\<lambda>e. le_tenantId e = tenantId \<and> le_receiptId e = Some receiptId) (ledgerEntries d)"

text \<open>The receipt of an entry: its own, or that of the redemption it settles.\<close>

definition originalReceiptId :: "LoyaltyLedgerEntry \<Rightarrow> db \<Rightarrow> string option" where
  "originalReceiptId e d =
     (case le_receiptId e of Some r \<Rightarrow> Some r | None \<Rightarrow> map_option rd_receiptId (entry_redemption e d))"

definition candidateReceiptId :: "string \<Rightarrow> string \<Rightarrow> db \<Rightarrow> string option" where
  "candidateReceiptId tenantId transactionId d =
     (case entry_by_id tenantId transactionId d of
        None \<Rightarrow> None
      | Some e \<Rightarrow> (case originalReceiptId e d of Some [] \<Rightarrow> None | r \<Rightarrow> r))"

definition pairedReceiptId :: "string \<Rightarrow> string \<Rightarrow> db \<Rightarrow> string option" where
  "pairedReceiptId tenantId transactionId d =
     (case candidateReceiptId tenantId transactionId d of
        None \<Rightarrow> None
      | Some r \<Rightarrow>
          let effects = receiptEffects tenantId r d in
          if length effects = 2 \<and> list_ex (\<lambda>e. le_type e = LedgerEntryType.EARN) effects
             \<and> list_ex (\<lambda>e. le_type e = LedgerEntryType.REDEEM) effects
          then Some r else None)"

subsection \<open>Errors\<close>

definition alreadyReversed :: svc_error where
  "alreadyReversed = DomainHttpException 409 ''TRANSACTION_ALREADY_REVERSED'' ''Transaction already has a reversal''"

definition transaction_not_found :: svc_error where
  "transaction_not_found = DomainHttpException 404 ''TRANSACTION_NOT_FOUND'' ''Transaction not found''"

definition reversal_transaction_conflict :: svc_error where
  "reversal_transaction_conflict = DomainHttpException 503 ''REVERSAL_TRANSACTION_CONFLICT''
     ''Transaction reversal conflicted; retry the request''"

fun error_message :: "svc_error \<Rightarrow> string" where
  "error_message (DomainHttpException _ _ message) = message"
| "error_message (BadRequestException message) = message"
| "error_message (ConflictException message) = message"
| "error_message (RangeError message) = message"
| "error_message (PlainError message) = message"
| "error_message (PrismaKnownRequestError _ _ message) = message"

definition is_word_char :: "char \<Rightarrow> bool" where
  "is_word_char c =
     (let n = of_char c :: nat in (48 \<le> n \<and> n \<le> 57) \<or> (65 \<le> n \<and> n \<le> 90) \<or> (97 \<le> n \<and> n \<le> 122) \<or> n = 95)"

definition word_starts :: "string \<Rightarrow> string \<Rightarrow> bool" where
  "word_starts w s = (is_prefix w s \<and> (case drop (length w) s of [] \<Rightarrow> True | c # _ \<Rightarrow> \<not> is_word_char c))"

text \<open>The pattern \<open>\b40001\b\<close>: the digits as a word of their own.\<close>

fun has_word :: "bool \<Rightarrow> string \<Rightarrow> string \<Rightarrow> bool" where
  "has_word after_word w [] = False"
| "has_word after_word w (c # cs) =
     ((\<not> after_word \<and> word_starts w (c # cs)) \<or> has_word (is_word_char c) w cs)"

definition reverse_isTransactionConflict :: "svc_error \<Rightarrow> bool" where
  "reverse_isTransactionConflict e =
     ((case e of PrismaKnownRequestError code meta _ \<Rightarrow> code = ''P2034'' \<or> hasPostgresSerializationCode meta
               | _ \<Rightarrow> False)
      \<or> has_word False ''40001'' (error_message e)
      \<or> list_ex (\<lambda>phrase. js_includes (js_toUpperCase (error_message e)) (js_toUpperCase phrase))
          [''Response from the Engine was empty'',
           ''Transaction failed due to a write conflict or a deadlock'',
           ''Engine is not yet connected''])"

definition reverse_isIdempotencyConflict :: "svc_error \<Rightarrow> bool" where
  "reverse_isIdempotencyConflict e =
     (case e of PrismaKnownRequestError code _ _ \<Rightarrow> code = ''P2002'' | _ \<Rightarrow> False)"

subsection \<open>Idempotency records\<close>

text \<open>Like that of the adjustments, the clean-up does not look at the endpoint of a record.\<close>

definition reverse_cleanup :: "string \<Rightarrow> string \<Rightarrow> string \<Rightarrow> int \<Rightarrow> db \<Rightarrow> db" where
  "reverse_cleanup tenantId actorId key now =
     idempotencyRecord_deleteMany (\<lambda>x. idr_tenantId x = tenantId \<and> idr_actorId x = actorId
       \<and> idr_idempotencyKey x = key \<and> idr_expiresAt x \<le> now)"

definition reverse_record :: "reverse_request \<Rightarrow> db \<Rightarrow> IdempotencyRecord option" where
  "reverse_record rv d =
     idempotencyRecord_findUnique (rv_tenantId rv) (actor_id (rv_actor rv)) REVERSE_ENDPOINT (rv_key rv) d"

definition reverse_pending :: "reverse_request \<Rightarrow> int \<Rightarrow> IdempotencyRecord" where
  "reverse_pending rv expiresAt =
     \<lparr> idr_tenantId = rv_tenantId rv, idr_actorId = actor_id (rv_actor rv),
       idr_endpoint = REVERSE_ENDPOINT, idr_idempotencyKey = rv_key rv,
       idr_requestHash = rv_requestHash rv, idr_responseJson = None,
       idr_status = IdempotencyRecordStatus.PENDING, idr_expiresAt = expiresAt \<rparr>"

text \<open>The key is claimed, or the response already stored under it is found.\<close>

definition reverse_claim :: "reverse_request \<Rightarrow> int \<Rightarrow> json option dbtx" where
  "reverse_claim rv nowMs =
     tx_bind (tx_read (reverse_record rv)) (\<lambda>existing.
     case existing of
       None \<Rightarrow> tx_bind (idempotencyRecord_create (reverse_pending rv (nowMs + IDP_EXPIRY_MS))) (\<lambda>_. tx_return None)
     | Some x \<Rightarrow>
         if idr_requestHash x \<noteq> rv_requestHash rv then tx_throw idempotency_conflict
         else case idr_responseJson x of
           None \<Rightarrow> tx_throw (DomainHttpException 409 ''IDEMPOTENCY_IN_PROGRESS''
                              ''Idempotency key is still being processed'')
         | Some response \<Rightarrow> tx_return (Some response))"

definition persistReverseIdempotency :: "reverse_request \<Rightarrow> json \<Rightarrow> int \<Rightarrow> unit dbtx" where
  "persistReverseIdempotency rv response nowMs =
     require_updated (idempotencyRecord_updateMany
       (is_record (rv_tenantId rv) (actor_id (rv_actor rv)) REVERSE_ENDPOINT (rv_key rv))
       (\<lambda>x. x\<lparr>idr_requestHash := rv_requestHash rv, idr_responseJson := Some response,
              idr_status := IdempotencyRecordStatus.COMPLETED,
              idr_expiresAt := nowMs + IDP_EXPIRY_MS\<rparr>))"

subsection \<open>Notification and response\<close>

definition persistReverseNotification ::
  "env \<Rightarrow> string \<Rightarrow> string \<Rightarrow> string \<Rightarrow> string \<Rightarrow> string option \<Rightarrow> int \<Rightarrow> unit dbtx" where
  "persistReverseNotification env tenantId phoneE164 reversalLedgerEntryId originalTransactionId receiptId occurredAt =
     (let payload = buildTransactionReversedSmsPayload originalTransactionId phoneE164 receiptId in
      tx_bind (outboxEvent_create env (\<lambda>new_id.
        \<lparr> ob_id = new_id, ob_tenantId = tenantId, ob_aggregateType = ''reversal'',
          ob_aggregateId = reversalLedgerEntryId, ob_eventType = ''fraud.evaluate'',
          ob_payload = JObj [(''kind'', JStr ''transaction.reversed''),
            (''reversalLedgerEntryId'', JStr reversalLedgerEntryId),
            (''originalTransactionId'', JStr originalTransactionId),
            (''receiptId'', json_opt_str receiptId), (''occurredAt'', json_date occurredAt)],
          ob_nextAttemptAt = Some occurredAt \<rparr>)) (\<lambda>_.
      tx_bind (outboxEvent_create env (\<lambda>new_id.
        \<lparr> ob_id = new_id, ob_tenantId = tenantId, ob_aggregateType = ''ledger-entry'',
          ob_aggregateId = reversalLedgerEntryId, ob_eventType = ''sms.send'', ob_payload = payload,
          ob_nextAttemptAt = Some occurredAt \<rparr>)) (\<lambda>event.
      tx_void (smsMessage_create env (\<lambda>new_id.
        \<lparr> sms_id = new_id, sms_tenantId = tenantId, sms_receiptId = receiptId,
          sms_outboxEventId = ob_id event, sms_ledgerEntryId = Some reversalLedgerEntryId,
          sms_redemptionId = None, sms_adjustmentId = None, sms_phoneE164 = phoneE164,
          sms_template = ''transaction-reversed'', sms_payload = payload,
          sms_status = SmsMessageStatus.QUEUED, sms_queuedAt = occurredAt \<rparr>)))))"

fun ledger_type_str :: "LedgerEntryType \<Rightarrow> string" where
  "ledger_type_str LedgerEntryType.EARN = ''EARN''"
| "ledger_type_str LedgerEntryType.REDEEM = ''REDEEM''"
| "ledger_type_str LedgerEntryType.REVERSAL = ''REVERSAL''"
| "ledger_type_str LedgerEntryType.ADJUSTMENT = ''ADJUSTMENT''"
| "ledger_type_str LedgerEntryType.EXPIRY = ''EXPIRY''"

definition toReversalAllocations :: "PersistedAllocation list \<Rightarrow> json" where
  "toReversalAllocations allocations =
     JArr (map (\<lambda>a. JObj [(''creditLotId'', JStr (pa_creditLotId a)),
       (''amountKobo'', JNum (js_Number (pa_amountKobo a))),
       (''allocationOrder'', JNum (pa_allocationOrder a)), (''expiresAt'', json_date (pa_expiresAt a))]) allocations)"

definition restorations_json :: "PlannedRestoration list \<Rightarrow> json" where
  "restorations_json plan =
     JArr (map (\<lambda>r. JObj [(''allocationId'', JStr (pl_allocationId r)),
       (''creditLotId'', JStr (pl_creditLotId r)), (''amountKobo'', JNum (js_Number (pl_amountKobo r)))]) plan)"

definition reverse_audit :: "reverse_request \<Rightarrow> string \<Rightarrow> string \<Rightarrow> int \<Rightarrow> unit dbtx" where
  "reverse_audit rv originalId reversalId amount =
     recordWithClient (rv_tenantId rv) (Some (actor_id (rv_actor rv))) ''transaction.reversed''
       ''ledger-entry'' (Some originalId)
       (JObj [(''reason'', JStr (rv_reason rv)), (''reversalLedgerEntryId'', JStr reversalId),
              (''reversedAmountKobo'', JNum (js_Number amount))])"

definition reverse_response ::
  "LoyaltyLedgerEntry \<Rightarrow> string \<Rightarrow> int \<Rightarrow> int \<Rightarrow> json \<Rightarrow> json \<Rightarrow> int \<Rightarrow> json" where
  "reverse_response original reversalId amount remaining allocations restorations now =
     JObj
      [(''id'', JStr reversalId), (''transactionId'', JStr reversalId),
       (''originalTransactionId'', JStr (le_id original)),
       (''originalTransactionType'', JStr (ledger_type_str (le_type original))),
       (''reversedAmountKobo'', JNum (js_Number amount)),
       (''newActiveBalanceKobo'', JNum (js_Number remaining)),
       (''allocations'', allocations), (''restorations'', restorations),
       (''smsStatus'', JStr (sms_status_str SmsMessageStatus.QUEUED)),
       (''occurredAt'', json_date now), (''requestedAt'', json_date now)]"

subsection \<open>Compensating entries\<close>

definition compensating_entry ::
  "reverse_request \<Rightarrow> LoyaltyLedgerEntry \<Rightarrow> LedgerEntryType \<Rightarrow> LedgerEntryDirection \<Rightarrow> int \<Rightarrow> string \<Rightarrow> int \<Rightarrow>
   string \<Rightarrow> LoyaltyLedgerEntry" where
  "compensating_entry rv original ty direction amount correlationId now new_id =
     \<lparr> le_id = new_id, le_tenantId = rv_tenantId rv, le_customerId = le_customerId original,
       le_receiptId = None, le_type = ty, le_direction = direction, le_amountKobo = amount,
       le_correlationId = correlationId, le_reversesEntryId = Some (le_id original),
       le_createdByTenantId = actor_tenantId (rv_actor rv), le_createdBy = actor_id (rv_actor rv),
       le_effectiveAt = now \<rparr>"

text \<open>Credit is taken back out of the lot it made.\<close>

definition take_back ::
  "env \<Rightarrow> reverse_request \<Rightarrow> LoyaltyLedgerEntry \<Rightarrow> string \<Rightarrow> int \<Rightarrow> string \<Rightarrow> int \<Rightarrow>
   (LoyaltyLedgerEntry \<times> PersistedAllocation list) dbtx" where
  "take_back env rv original lotId amount correlationId now =
     tx_bind (loyaltyLedgerEntry_create env
       (compensating_entry rv original LedgerEntryType.ADJUSTMENT LedgerEntryDirection.DEBIT amount correlationId now)) (\<lambda>entry.
     tx_bind (adjustment_create env (\<lambda>new_id.
       \<lparr> adj_id = new_id, adj_tenantId = rv_tenantId rv, adj_customerId = le_customerId original,
         adj_kind = AdjustmentKind.DEBIT, adj_amountKobo = amount, adj_reason = rv_reason rv,
         adj_createdByTenantId = actor_tenantId (rv_actor rv), adj_createdBy = actor_id (rv_actor rv),
         adj_ledgerEntryId = le_id entry, adj_effectiveAt = now \<rparr>)) (\<lambda>adjustment.
     tx_bind (allocateDebitFromExactLot env
       \<lparr> in_tenantId = rv_tenantId rv, in_customerId = le_customerId original, in_creditLotId = Some lotId,
         in_debitLedgerEntryId = le_id entry, in_amountKobo = amount, in_now = now,
         in_redemptionId = None, in_adjustmentId = Some (adj_id adjustment),
         in_excludedCreditLotIds = [] \<rparr>) (\<lambda>allocations.
     tx_return (entry, allocations))))"

text \<open>A debit is put back where it was taken from.\<close>

definition increment_lot :: "string \<Rightarrow> string \<Rightarrow> string \<Rightarrow> int \<Rightarrow> nat dbtx" where
  "increment_lot tenantId customerId lotId amount =
     creditLot_updateMany
       (\<lambda>l. lot_id l = lotId \<and> (lot_tenantId l = tenantId \<and> lot_customerId l = customerId))
       (\<lambda>l. l\<lparr>lot_remainingAmountKobo := lot_remainingAmountKobo l + amount\<rparr>)"

definition put_back_one ::
  "env \<Rightarrow> string \<Rightarrow> string \<Rightarrow> string \<Rightarrow> string \<Rightarrow> PlannedRestoration \<Rightarrow> unit dbtx" where
  "put_back_one env message tenantId customerId reversalId r =
     tx_bind (increment_lot tenantId customerId (pl_creditLotId r) (pl_amountKobo r)) (\<lambda>count.
     tx_bind (tx_unless (count = 1) (reviewRequired message)) (\<lambda>_.
     tx_void (allocationRestoration_create env (\<lambda>new_id.
       \<lparr> ar_id = new_id, ar_tenantId = tenantId, ar_allocationId = pl_allocationId r,
         ar_reversalLedgerEntryId = reversalId, ar_amountKobo = pl_amountKobo r \<rparr>))))"

definition put_back ::
  "env \<Rightarrow> string \<Rightarrow> reverse_request \<Rightarrow> LoyaltyLedgerEntry \<Rightarrow> PlannedRestoration list \<Rightarrow> int \<Rightarrow> string \<Rightarrow> int \<Rightarrow>
   LoyaltyLedgerEntry dbtx" where
  "put_back env message rv original plan amount correlationId now =
     tx_bind (loyaltyLedgerEntry_create env
       (compensating_entry rv original LedgerEntryType.REVERSAL LedgerEntryDirection.CREDIT amount correlationId now)) (\<lambda>entry.
     tx_bind (tx_for plan (put_back_one env message (rv_tenantId rv) (le_customerId original) (le_id entry))) (\<lambda>_.
     tx_return entry))"

definition redemption_reversed :: "reverse_request \<Rightarrow> string \<Rightarrow> int \<Rightarrow> unit dbtx" where
  "redemption_reversed rv entryId now =
     tx_void (redemption_updateMany
       (\<lambda>r. rd_tenantId r = rv_tenantId rv \<and> rd_ledgerEntryId r = Some entryId)
       (\<lambda>r. r\<lparr>rd_status := RedemptionStatus.REVERSED, rd_reversedAt := Some now\<rparr>))"

subsection \<open>One entry\<close>

definition reverse_finish ::
  "env \<Rightarrow> reverse_request \<Rightarrow> LoyaltyLedgerEntry \<Rightarrow> Customer \<Rightarrow> string option \<Rightarrow> string \<Rightarrow> int \<Rightarrow> json \<Rightarrow> json \<Rightarrow>
   int \<Rightarrow> int \<Rightarrow> json dbtx" where
  "reverse_finish env rv original customer receiptId reversalId amount allocations restorations now nowMs =
     tx_bind (tx_read (getActiveBalanceKobo (rv_tenantId rv) (le_customerId original) now)) (\<lambda>remaining.
     tx_bind (persistReverseNotification env (rv_tenantId rv) (cu_phoneE164 customer) reversalId
       (le_id original) receiptId now) (\<lambda>_.
     tx_bind (reverse_audit rv (le_id original) reversalId amount) (\<lambda>_.
     let response = reverse_response original reversalId amount remaining allocations restorations now in
     tx_bind (persistReverseIdempotency rv response nowMs) (\<lambda>_.
     tx_return response))))"

definition reversible_lot :: "LoyaltyLedgerEntry \<Rightarrow> int \<Rightarrow> db \<Rightarrow> svc_error + CreditLot" where
  "reversible_lot original now d =
     (case entry_lot original d of
        None \<Rightarrow> Inl (reviewRequired ''Original credit lot is missing'')
      | Some lot \<Rightarrow>
          if lot_expiresAt lot \<le> now then Inl (reviewRequired ''Original credit lot is expired'')
          else if lot_remainingAmountKobo lot \<noteq> lot_originalAmountKobo lot
          then Inl (reviewRequired ''Original credit lot has already been consumed'')
          else Inr lot)"

definition reverse_credit ::
  "env \<Rightarrow> reverse_request \<Rightarrow> LoyaltyLedgerEntry \<Rightarrow> Customer \<Rightarrow> string option \<Rightarrow> string \<Rightarrow> int \<Rightarrow> int \<Rightarrow> int \<Rightarrow> json dbtx" where
  "reverse_credit env rv original customer receiptId lotId amount now nowMs =
     tx_bind (take_back env rv original lotId amount (rv_requestHash rv) now) (\<lambda>(entry, allocations).
     reverse_finish env rv original customer receiptId (le_id entry) amount
       (toReversalAllocations allocations) (JArr []) now nowMs)"

definition reverse_earn ::
  "env \<Rightarrow> reverse_request \<Rightarrow> LoyaltyLedgerEntry \<Rightarrow> Customer \<Rightarrow> int \<Rightarrow> int \<Rightarrow> json dbtx" where
  "reverse_earn env rv original customer now nowMs =
     tx_bind (tx_check (reversible_lot original now)) (\<lambda>lot.
     reverse_credit env rv original customer (le_receiptId original) (lot_id lot)
       (lot_originalAmountKobo lot) now nowMs)"

definition reverse_adjustment_credit ::
  "env \<Rightarrow> reverse_request \<Rightarrow> LoyaltyLedgerEntry \<Rightarrow> Customer \<Rightarrow> int \<Rightarrow> int \<Rightarrow> json dbtx" where
  "reverse_adjustment_credit env rv original customer now nowMs =
     tx_bind (tx_read (entry_adjustment original)) (\<lambda>found.
     case found of
       None \<Rightarrow> tx_throw (reviewRequired ''Original adjustment is missing'')
     | Some adjustment \<Rightarrow>
         tx_bind (tx_check (reversible_lot original now)) (\<lambda>lot.
         reverse_credit env rv original customer None (lot_id lot) (adj_amountKobo adjustment) now nowMs))"

definition reverse_debit ::
  "env \<Rightarrow> reverse_request \<Rightarrow> LoyaltyLedgerEntry \<Rightarrow> Customer \<Rightarrow> string option \<Rightarrow> bool \<Rightarrow> int \<Rightarrow> int \<Rightarrow> json dbtx" where
  "reverse_debit env rv original customer receiptId settles now nowMs =
     tx_bind (tx_check (planRestorations (rv_tenantId rv) (le_id original) now)) (\<lambda>plan.
     let amount = sum_list (map pl_amountKobo plan) in
     tx_bind (put_back env ''Original credit lot changed during reversal'' rv original plan amount
       (rv_requestHash rv) now) (\<lambda>entry.
     tx_bind (if settles then redemption_reversed rv (le_id original) now else tx_return ()) (\<lambda>_.
     reverse_finish env rv original customer receiptId (le_id entry) amount
       (JArr []) (restorations_json plan) now nowMs)))"

definition reverse_redeem ::
  "env \<Rightarrow> reverse_request \<Rightarrow> LoyaltyLedgerEntry \<Rightarrow> Customer \<Rightarrow> int \<Rightarrow> int \<Rightarrow> json dbtx" where
  "reverse_redeem env rv original customer now nowMs =
     tx_bind (tx_read (originalReceiptId original)) (\<lambda>receiptId.
     reverse_debit env rv original customer receiptId True now nowMs)"

definition reverse_adjustment_debit ::
  "env \<Rightarrow> reverse_request \<Rightarrow> LoyaltyLedgerEntry \<Rightarrow> Customer \<Rightarrow> int \<Rightarrow> int \<Rightarrow> json dbtx" where
  "reverse_adjustment_debit env rv original customer now nowMs =
     reverse_debit env rv original customer None False now nowMs"

definition reverse_entry ::
  "env \<Rightarrow> reverse_request \<Rightarrow> LoyaltyLedgerEntry \<Rightarrow> Customer \<Rightarrow> int \<Rightarrow> int \<Rightarrow> json dbtx" where
  "reverse_entry env rv original customer now nowMs =
     (case (le_type original, le_direction original) of
        (LedgerEntryType.EARN, LedgerEntryDirection.CREDIT) \<Rightarrow> reverse_earn env rv original customer now nowMs
      | (LedgerEntryType.REDEEM, LedgerEntryDirection.DEBIT) \<Rightarrow> reverse_redeem env rv original customer now nowMs
      | (LedgerEntryType.ADJUSTMENT, LedgerEntryDirection.CREDIT) \<Rightarrow>
          reverse_adjustment_credit env rv original customer now nowMs
      | (LedgerEntryType.ADJUSTMENT, LedgerEntryDirection.DEBIT) \<Rightarrow>
          reverse_adjustment_debit env rv original customer now nowMs
      | _ \<Rightarrow> tx_throw (reviewRequired ''Transaction type cannot be reversed automatically''))"

subsection \<open>A receipt that redeemed and earned\<close>

record settlement_pair =
  sp_earn :: LoyaltyLedgerEntry
  sp_redeem :: LoyaltyLedgerEntry
  sp_redemption :: Redemption
  sp_customer :: Customer

definition required_customer :: "LoyaltyLedgerEntry \<Rightarrow> db \<Rightarrow> svc_error + Customer" where
  "required_customer e d =
     (case entry_customer e d of
        None \<Rightarrow> Inl (PlainError ''Inconsistent query result: customer is required'')
      | Some c \<Rightarrow> Inr c)"

definition pair_ok ::
  "reverse_request \<Rightarrow> string \<Rightarrow> LoyaltyLedgerEntry \<Rightarrow> LoyaltyLedgerEntry \<Rightarrow> Customer \<Rightarrow> Customer \<Rightarrow> Redemption \<Rightarrow> bool" where
  "pair_ok rv receiptId earnEntry redeemEntry earnCustomer redeemCustomer redemption =
     (le_direction earnEntry = LedgerEntryDirection.CREDIT \<and> le_direction redeemEntry = LedgerEntryDirection.DEBIT
      \<and> le_receiptId earnEntry = Some receiptId \<and> le_receiptId redeemEntry = Some receiptId
      \<and> le_customerId earnEntry = le_customerId redeemEntry
      \<and> cu_tenantId earnCustomer = rv_tenantId rv \<and> cu_tenantId redeemCustomer = rv_tenantId rv
      \<and> le_correlationId earnEntry = le_correlationId redeemEntry @ '':earn''
      \<and> rd_tenantId redemption = rv_tenantId rv \<and> rd_customerId redemption = le_customerId redeemEntry
      \<and> rd_receiptId redemption = receiptId \<and> rd_ledgerEntryId redemption = Some (le_id redeemEntry)
      \<and> (rd_status redemption = RedemptionStatus.CONFIRMED \<or> rd_status redemption = RedemptionStatus.REVERSED)
      \<and> rd_confirmedAmountKobo redemption = Some (le_amountKobo redeemEntry))"

definition malformed_pair :: svc_error where
  "malformed_pair = reviewRequired ''Receipt settlement pair is malformed or already partially reversed''"

definition load_pair ::
  "reverse_request \<Rightarrow> string \<Rightarrow> LoyaltyLedgerEntry list \<Rightarrow> db \<Rightarrow> svc_error + settlement_pair" where
  "load_pair rv receiptId entries d =
     (let earns = filter (\<lambda>e. le_type e = LedgerEntryType.EARN) entries;
          redeems = filter (\<lambda>e. le_type e = LedgerEntryType.REDEEM) entries in
      if length entries \<noteq> 2 \<or> length earns \<noteq> 1 \<or> length redeems \<noteq> 1
      then Inl (reviewRequired ''Receipt settlement effects are incomplete or inconsistent'')
      else
        case (entry_by_id (rv_tenantId rv) (le_id (hd earns)) d, entry_by_id (rv_tenantId rv) (le_id (hd redeems)) d) of
          (Some earnEntry, Some redeemEntry) \<Rightarrow>
            res_bind (required_customer earnEntry d) (\<lambda>earnCustomer.
            res_bind (required_customer redeemEntry d) (\<lambda>redeemCustomer.
            case entry_redemption redeemEntry d of
              None \<Rightarrow> Inl malformed_pair
            | Some redemption \<Rightarrow>
                if pair_ok rv receiptId earnEntry redeemEntry earnCustomer redeemCustomer redemption
                then Inr \<lparr> sp_earn = earnEntry, sp_redeem = redeemEntry, sp_redemption = redemption,
                           sp_customer = redeemCustomer \<rparr>
                else Inl malformed_pair))
        | _ \<Rightarrow> Inl malformed_pair)"

text \<open>The history of a pair that was reversed before.\<close>

definition js_endsWith :: "string \<Rightarrow> string \<Rightarrow> bool" where
  "js_endsWith s suffix = is_prefix (rev suffix) (rev s)"

definition is_hex64 :: "string \<Rightarrow> bool" where
  "is_hex64 s = (length s = 64 \<and>
     list_all (\<lambda>c. let n = of_char c :: nat in (97 \<le> n \<and> n \<le> 102) \<or> (48 \<le> n \<and> n \<le> 57)) s)"

definition groupCorrelation :: "LoyaltyLedgerEntry \<Rightarrow> string" where
  "groupCorrelation e =
     (if js_endsWith (le_correlationId e) '':earn-reversal''
      then take (length (le_correlationId e) - length '':earn-reversal'') (le_correlationId e) else [])"

definition adjustment_allocations :: "Adjustment \<Rightarrow> db \<Rightarrow> RedemptionAllocation list" where
  "adjustment_allocations a d =
     sort_key ra_allocationOrder (filter (\<lambda>x. ra_tenantId x = adj_tenantId a \<and> ra_adjustmentId x = Some (adj_id a))
       (redemptionAllocations d))"

definition allocation_restorations :: "RedemptionAllocation \<Rightarrow> db \<Rightarrow> AllocationRestoration list" where
  "allocation_restorations a d =
     filter (\<lambda>r. ar_tenantId r = ra_tenantId a \<and> ar_allocationId r = ra_id a) (allocationRestorations d)"

definition entry_restorations :: "LoyaltyLedgerEntry \<Rightarrow> db \<Rightarrow> AllocationRestoration list" where
  "entry_restorations e d =
     filter (\<lambda>r. ar_tenantId r = le_tenantId e \<and> ar_reversalLedgerEntryId r = le_id e) (allocationRestorations d)"

definition earn_taken_back :: "reverse_request \<Rightarrow> LoyaltyLedgerEntry \<Rightarrow> LoyaltyLedgerEntry \<Rightarrow> db \<Rightarrow> bool" where
  "earn_taken_back rv earnEntry compensation d =
     (le_type compensation = LedgerEntryType.ADJUSTMENT \<and> le_direction compensation = LedgerEntryDirection.DEBIT
      \<and> le_amountKobo compensation = le_amountKobo earnEntry \<and> le_tenantId compensation = rv_tenantId rv
      \<and> le_customerId compensation = le_customerId earnEntry \<and> le_receiptId compensation = None
      \<and> is_hex64 (groupCorrelation compensation) \<and> le_correlationId compensation = groupCorrelation compensation @ '':earn-reversal''
      \<and> (case entry_adjustment compensation d of
           None \<Rightarrow> False
         | Some adj \<Rightarrow>
             adj_tenantId adj = rv_tenantId rv \<and> adj_customerId adj = le_customerId earnEntry
             \<and> adj_kind adj = AdjustmentKind.DEBIT \<and> adj_amountKobo adj = le_amountKobo earnEntry
             \<and> adj_ledgerEntryId adj = le_id compensation
             \<and> (case adjustment_allocations adj d of
                  [a] \<Rightarrow> ra_tenantId a = rv_tenantId rv \<and> ra_adjustmentId a = Some (adj_id adj)
                    \<and> ra_redemptionLedgerEntryId a = le_id compensation
                    \<and> Some (ra_creditLotId a) = map_option lot_id (entry_lot earnEntry d)
                    \<and> ra_amountKobo a = le_amountKobo earnEntry \<and> ra_allocationOrder a = 1
                | _ \<Rightarrow> False))
      \<and> (case entry_lot earnEntry d of
           None \<Rightarrow> False
         | Some lot \<Rightarrow> lot_originalAmountKobo lot = le_amountKobo earnEntry \<and> lot_remainingAmountKobo lot = 0))"

definition redeem_put_back ::
  "reverse_request \<Rightarrow> settlement_pair \<Rightarrow> LoyaltyLedgerEntry \<Rightarrow> LoyaltyLedgerEntry \<Rightarrow> db \<Rightarrow> bool" where
  "redeem_put_back rv pair earnComp compensation d =
     (let redeemEntry = sp_redeem pair;
          allocations = debitAllocations (le_tenantId redeemEntry) (le_id redeemEntry) d;
          restored = entry_restorations compensation d in
      le_type compensation = LedgerEntryType.REVERSAL \<and> le_direction compensation = LedgerEntryDirection.CREDIT
      \<and> le_amountKobo compensation = le_amountKobo redeemEntry \<and> le_tenantId compensation = rv_tenantId rv
      \<and> le_customerId compensation = le_customerId redeemEntry \<and> le_receiptId compensation = None
      \<and> le_correlationId compensation = groupCorrelation earnComp @ '':redeem-reversal''
      \<and> entry_adjustment compensation d = None
      \<and> debitAllocations (le_tenantId compensation) (le_id compensation) d = []
      \<and> rd_status (sp_redemption pair) = RedemptionStatus.REVERSED
      \<and> length restored = length allocations
      \<and> list_all (\<lambda>r. case find (\<lambda>a. ra_id a = ar_allocationId r) allocations of
             None \<Rightarrow> False
           | Some a \<Rightarrow> ar_amountKobo r = ra_amountKobo a \<and> 0 < ar_amountKobo r) restored
      \<and> list_all (\<lambda>a. case allocation_restorations a d of
             [r] \<Rightarrow> ar_reversalLedgerEntryId r = le_id compensation \<and> ar_amountKobo r = ra_amountKobo a
           | _ \<Rightarrow> False) allocations)"

definition completed_history ::
  "reverse_request \<Rightarrow> settlement_pair \<Rightarrow> db \<Rightarrow> svc_error + LoyaltyLedgerEntry \<times> LoyaltyLedgerEntry" where
  "completed_history rv pair d =
     (case (reversedByEntries (sp_earn pair) d, reversedByEntries (sp_redeem pair) d) of
        ([e], [r]) \<Rightarrow>
          let completed = filter (\<lambda>x. le_tenantId x = rv_tenantId rv \<and> (le_id x = le_id e \<or> le_id x = le_id r))
                (ledgerEntries d) in
          (case (find (\<lambda>x. le_reversesEntryId x = Some (le_id (sp_earn pair))) completed,
                 find (\<lambda>x. le_reversesEntryId x = Some (le_id (sp_redeem pair))) completed) of
             (Some earnComp, Some redeemComp) \<Rightarrow>
               if length completed = 2 \<and> earn_taken_back rv (sp_earn pair) earnComp d
                  \<and> redeem_put_back rv pair earnComp redeemComp d
               then Inr (earnComp, redeemComp)
               else Inl (reviewRequired ''Completed settlement reversal history is inconsistent'')
           | _ \<Rightarrow> Inl (reviewRequired ''Completed settlement reversal history is inconsistent''))
      | _ \<Rightarrow> Inl (reviewRequired ''Settlement reversal history is partial''))"

text \<open>A stored response is returned again only if it tells the history as it is.\<close>

definition json_items :: "json \<Rightarrow> json list" where
  "json_items j = (case j of JArr xs \<Rightarrow> xs | _ \<Rightarrow> [])"

definition restorations_match :: "json \<Rightarrow> RedemptionAllocation list \<Rightarrow> bool" where
  "restorations_match replay allocations =
     (let items = json_items (json_get replay ''restorations'') in
      length items = length allocations
      \<and> list_all (\<lambda>x. case find (\<lambda>a. JStr (ra_id a) = json_get x ''allocationId'') allocations of
             None \<Rightarrow> False
           | Some a \<Rightarrow> json_get x ''creditLotId'' = JStr (ra_creditLotId a)
               \<and> json_get x ''amountKobo'' = JNum (js_Number (ra_amountKobo a))) items)"

definition earn_allocations_match :: "json \<Rightarrow> LoyaltyLedgerEntry \<Rightarrow> db \<Rightarrow> bool" where
  "earn_allocations_match replay earnEntry d =
     (case json_items (json_get replay ''allocations'') of
        [x] \<Rightarrow> Some (json_get x ''creditLotId'') = map_option (\<lambda>l. JStr (lot_id l)) (entry_lot earnEntry d)
               \<and> json_get x ''amountKobo'' = JNum (js_Number (le_amountKobo earnEntry))
      | _ \<Rightarrow> False)"

definition replay_matches ::
  "string \<Rightarrow> settlement_pair \<Rightarrow> LoyaltyLedgerEntry \<Rightarrow> LoyaltyLedgerEntry \<Rightarrow> json \<Rightarrow> db \<Rightarrow> bool" where
  "replay_matches receiptId pair earnComp redeemComp replay d =
     (let earnEntry = sp_earn pair; redeemEntry = sp_redeem pair; original = json_get replay ''originalTransactionId'' in
      json_get replay ''receiptId'' = JStr receiptId
      \<and> json_get replay ''originalEarnTransactionId'' = JStr (le_id earnEntry)
      \<and> json_get replay ''originalRedemptionTransactionId'' = JStr (le_id redeemEntry)
      \<and> json_get replay ''earnReversalTransactionId'' = JStr (le_id earnComp)
      \<and> json_get replay ''redemptionReversalTransactionId'' = JStr (le_id redeemComp)
      \<and> json_get replay ''earnRemovedAmountKobo'' = JNum (js_Number (le_amountKobo earnEntry))
      \<and> json_get replay ''redeemedRestoredAmountKobo'' = JNum (js_Number (le_amountKobo redeemEntry))
      \<and> json_get replay ''reversedAmountKobo'' = JNum (js_Number (le_amountKobo earnEntry + le_amountKobo redeemEntry))
      \<and> (original = JStr (le_id earnEntry) \<or> original = JStr (le_id redeemEntry))
      \<and> (let selected = (if original = JStr (le_id earnEntry) then earnComp else redeemComp);
             ty = (if original = JStr (le_id earnEntry) then le_type earnEntry else le_type redeemEntry) in
         json_get replay ''id'' = JStr (le_id selected) \<and> json_get replay ''transactionId'' = JStr (le_id selected)
         \<and> json_get replay ''originalTransactionType'' = JStr (ledger_type_str ty))
      \<and> restorations_match replay (debitAllocations (le_tenantId redeemEntry) (le_id redeemEntry) d)
      \<and> earn_allocations_match replay earnEntry d)"

text \<open>What the pair's history says: an error, a response to return, or nothing, to go on.\<close>

definition pair_history ::
  "reverse_request \<Rightarrow> string \<Rightarrow> json option \<Rightarrow> settlement_pair \<Rightarrow> db \<Rightarrow> svc_error + json option" where
  "pair_history rv receiptId existing pair d =
     (let evidence = (reversedByEntries (sp_earn pair) d \<noteq> [] \<or> reversedByEntries (sp_redeem pair) d \<noteq> []) in
      if rd_status (sp_redemption pair) = RedemptionStatus.REVERSED \<and> \<not> evidence
      then Inl (reviewRequired ''Redemption status is reversed without reversal evidence'')
      else if existing \<noteq> None \<and> \<not> evidence
      then Inl (reviewRequired ''Completed idempotency response has no matching reversal evidence'')
      else if evidence
      then
        res_bind (completed_history rv pair d) (\<lambda>(earnComp, redeemComp).
        case existing of
          None \<Rightarrow> Inl alreadyReversed
        | Some replay \<Rightarrow>
            if replay_matches receiptId pair earnComp redeemComp replay d then Inr (Some replay)
            else Inl (reviewRequired ''Stored grouped response does not match completed reversal history''))
      else Inr None)"

definition pair_earn_lot :: "reverse_request \<Rightarrow> settlement_pair \<Rightarrow> int \<Rightarrow> db \<Rightarrow> svc_error + CreditLot" where
  "pair_earn_lot rv pair now d =
     (let earnEntry = sp_earn pair;
          e = reviewRequired ''Settlement Earn lot is missing, consumed, or inconsistent'' in
      case entry_lot earnEntry d of
        None \<Rightarrow> Inl e
      | Some lot \<Rightarrow>
          if lot_tenantId lot \<noteq> rv_tenantId rv \<or> lot_customerId lot \<noteq> le_customerId earnEntry
             \<or> lot_earnLedgerEntryId lot \<noteq> le_id earnEntry \<or> lot_originalAmountKobo lot \<noteq> le_amountKobo earnEntry
             \<or> lot_remainingAmountKobo lot \<noteq> lot_originalAmountKobo lot \<or> lot_expiresAt lot \<le> now
          then Inl e else Inr lot)"

definition pair_allocation_ok :: "reverse_request \<Rightarrow> settlement_pair \<Rightarrow> CreditLot \<Rightarrow> db \<Rightarrow> RedemptionAllocation \<Rightarrow> bool" where
  "pair_allocation_ok rv pair earnLot d a =
     (ra_tenantId a = rv_tenantId rv \<and> ra_redemptionId a = Some (rd_id (sp_redemption pair))
      \<and> ra_creditLotId a \<noteq> lot_id earnLot \<and> 0 < ra_amountKobo a
      \<and> (case allocationLot a d of
           None \<Rightarrow> False
         | Some lot \<Rightarrow>
             lot_tenantId lot = rv_tenantId rv \<and> lot_customerId lot = le_customerId (sp_redeem pair)
             \<and> ra_amountKobo a \<le> lot_originalAmountKobo lot
             \<and> lot_remainingAmountKobo lot + ra_amountKobo a \<le> lot_originalAmountKobo lot)
      \<and> allocation_restorations a d = [])"

definition pair_plan ::
  "reverse_request \<Rightarrow> settlement_pair \<Rightarrow> CreditLot \<Rightarrow> int \<Rightarrow> db \<Rightarrow> svc_error + PlannedRestoration list" where
  "pair_plan rv pair earnLot now d =
     (let redeemEntry = sp_redeem pair; allocations = debitAllocations (le_tenantId redeemEntry) (le_id redeemEntry) d in
      if allocations = [] \<or> \<not> list_all (pair_allocation_ok rv pair earnLot d) allocations
         \<or> sum_list (map ra_amountKobo allocations) \<noteq> le_amountKobo redeemEntry
      then Inl (reviewRequired ''Redemption allocation history is inconsistent or partially restored'')
      else
        res_bind (planRestorations (rv_tenantId rv) (le_id redeemEntry) now d) (\<lambda>plan.
        if sum_list (map pl_amountKobo plan) \<noteq> le_amountKobo redeemEntry
        then Inl (reviewRequired ''Redemption allocations are not fully restorable'')
        else Inr plan))"

definition exact_lot_used :: "PersistedAllocation list \<Rightarrow> CreditLot \<Rightarrow> int \<Rightarrow> bool" where
  "exact_lot_used allocations earnLot amount =
     (case allocations of [a] \<Rightarrow> pa_creditLotId a = lot_id earnLot \<and> js_Number (pa_amountKobo a) = amount
                        | _ \<Rightarrow> False)"

definition pair_response ::
  "string \<Rightarrow> string \<Rightarrow> settlement_pair \<Rightarrow> string \<Rightarrow> string \<Rightarrow> int \<Rightarrow> PersistedAllocation list \<Rightarrow> PlannedRestoration list \<Rightarrow>
   int \<Rightarrow> json" where
  "pair_response receiptId originalId pair earnReversalId redeemReversalId remaining allocations plan now =
     (let earnEntry = sp_earn pair; redeemEntry = sp_redeem pair;
          reversalId = (if originalId = le_id earnEntry then earnReversalId else redeemReversalId);
          ty = (if originalId = le_id earnEntry then le_type earnEntry else le_type redeemEntry) in
      JObj
       [(''receiptId'', JStr receiptId), (''originalRedemptionTransactionId'', JStr (le_id redeemEntry)),
        (''originalEarnTransactionId'', JStr (le_id earnEntry)),
        (''redemptionReversalTransactionId'', JStr redeemReversalId),
        (''earnReversalTransactionId'', JStr earnReversalId),
        (''earnRemovedAmountKobo'', JNum (js_Number (le_amountKobo earnEntry))),
        (''redeemedRestoredAmountKobo'', JNum (js_Number (le_amountKobo redeemEntry))),
        (''id'', JStr reversalId), (''transactionId'', JStr reversalId),
        (''originalTransactionId'', JStr originalId),
        (''originalTransactionType'', JStr (ledger_type_str ty)),
        (''reversedAmountKobo'', JNum (js_Number (le_amountKobo earnEntry + le_amountKobo redeemEntry))),
        (''newActiveBalanceKobo'', JNum (js_Number remaining)),
        (''allocations'', toReversalAllocations allocations), (''restorations'', restorations_json plan),
        (''smsStatus'', JStr (sms_status_str SmsMessageStatus.QUEUED)),
        (''occurredAt'', json_date now), (''requestedAt'', json_date now)])"

definition pair_audit :: "reverse_request \<Rightarrow> string \<Rightarrow> settlement_pair \<Rightarrow> string \<Rightarrow> string \<Rightarrow> unit dbtx" where
  "pair_audit rv receiptId pair earnReversalId redeemReversalId =
     recordWithClient (rv_tenantId rv) (Some (actor_id (rv_actor rv))) ''transaction.reversed''
       ''receipt'' (Some receiptId)
       (JObj [(''reason'', JStr (rv_reason rv)),
              (''originalEarnTransactionId'', JStr (le_id (sp_earn pair))),
              (''originalRedemptionTransactionId'', JStr (le_id (sp_redeem pair))),
              (''earnReversalTransactionId'', JStr earnReversalId),
              (''redemptionReversalTransactionId'', JStr redeemReversalId),
              (''earnRemovedAmountKobo'', JNum (js_Number (le_amountKobo (sp_earn pair)))),
              (''redeemedRestoredAmountKobo'', JNum (js_Number (le_amountKobo (sp_redeem pair))))])"

text \<open>The writes of a grouped reversal: the two compensating entries and the moves of credit.\<close>

definition pair_moves ::
  "env \<Rightarrow> reverse_request \<Rightarrow> settlement_pair \<Rightarrow> CreditLot \<Rightarrow> PlannedRestoration list \<Rightarrow> int \<Rightarrow>
   (LoyaltyLedgerEntry \<times> LoyaltyLedgerEntry \<times> PersistedAllocation list) dbtx" where
  "pair_moves env rv pair earnLot plan now =
     (let earnEntry = sp_earn pair; redeemEntry = sp_redeem pair in
      tx_bind (take_back env rv earnEntry (lot_id earnLot) (le_amountKobo earnEntry)
        (rv_requestHash rv @ '':earn-reversal'') now) (\<lambda>(earnReversal, allocations).
      tx_bind (tx_unless (exact_lot_used allocations earnLot (le_amountKobo earnEntry))
        (reviewRequired ''Earn reversal allocation did not use the exact lot'')) (\<lambda>_.
      tx_bind (put_back env ''Original credit lot changed during grouped reversal'' rv redeemEntry plan
        (le_amountKobo redeemEntry) (rv_requestHash rv @ '':redeem-reversal'') now) (\<lambda>redeemReversal.
      tx_bind (redemption_reversed rv (le_id redeemEntry) now) (\<lambda>_.
      tx_return (earnReversal, redeemReversal, allocations))))))"

definition pair_finish ::
  "env \<Rightarrow> reverse_request \<Rightarrow> string \<Rightarrow> string \<Rightarrow> settlement_pair \<Rightarrow> PlannedRestoration list \<Rightarrow> string \<Rightarrow> string \<Rightarrow>
   PersistedAllocation list \<Rightarrow> int \<Rightarrow> int \<Rightarrow> json dbtx" where
  "pair_finish env rv receiptId originalId pair plan earnReversalId redeemReversalId allocations now nowMs =
     tx_bind (tx_read (getActiveBalanceKobo (rv_tenantId rv) (le_customerId (sp_redeem pair)) now)) (\<lambda>remaining.
     tx_bind (persistReverseNotification env (rv_tenantId rv) (cu_phoneE164 (sp_customer pair)) earnReversalId
       originalId (Some receiptId) now) (\<lambda>_.
     tx_bind (pair_audit rv receiptId pair earnReversalId redeemReversalId) (\<lambda>_.
     let response = pair_response receiptId originalId pair earnReversalId redeemReversalId remaining
           allocations plan now in
     tx_bind (persistReverseIdempotency rv response nowMs) (\<lambda>_.
     tx_return response))))"

definition pair_writes ::
  "env \<Rightarrow> reverse_request \<Rightarrow> string \<Rightarrow> string \<Rightarrow> settlement_pair \<Rightarrow> CreditLot \<Rightarrow> PlannedRestoration list \<Rightarrow> int \<Rightarrow> int \<Rightarrow>
   json dbtx" where
  "pair_writes env rv receiptId originalId pair earnLot plan now nowMs =
     tx_bind (pair_moves env rv pair earnLot plan now) (\<lambda>(earnReversal, redeemReversal, allocations).
     pair_finish env rv receiptId originalId pair plan (le_id earnReversal) (le_id redeemReversal) allocations now nowMs)"

definition reversePairedSettlement ::
  "env \<Rightarrow> reverse_request \<Rightarrow> string \<Rightarrow> string \<Rightarrow> LoyaltyLedgerEntry list \<Rightarrow> json option \<Rightarrow> int \<Rightarrow> int \<Rightarrow> json dbtx" where
  "reversePairedSettlement env rv originalId receiptId entries existing now nowMs =
     tx_bind (tx_check (load_pair rv receiptId entries)) (\<lambda>pair.
     tx_bind (tx_check (pair_history rv receiptId existing pair)) (\<lambda>replay.
     case replay of
       Some response \<Rightarrow> tx_return response
     | None \<Rightarrow>
         tx_bind (tx_check (pair_earn_lot rv pair now)) (\<lambda>earnLot.
         tx_bind (tx_check (pair_plan rv pair earnLot now)) (\<lambda>plan.
         pair_writes env rv receiptId originalId pair earnLot plan now nowMs))))"

subsection \<open>The transaction\<close>

definition reverse_original :: "reverse_request \<Rightarrow> db \<Rightarrow> svc_error + LoyaltyLedgerEntry \<times> Customer" where
  "reverse_original rv d =
     (case entry_by_id (rv_tenantId rv) (rv_transactionId rv) d of
        None \<Rightarrow> Inl transaction_not_found
      | Some original \<Rightarrow>
          res_bind (required_customer original d) (\<lambda>customer.
          if truthy (actor_branchId (rv_actor rv)) \<and> actor_branchId (rv_actor rv) \<noteq> Some (cu_branchId customer)
          then Inl transaction_not_found
          else Inr (original, customer)))"

text \<open>The entries of the original's receipt; the foreign keys make that receipt exist.\<close>

definition receiptLedgerEntries :: "LoyaltyLedgerEntry \<Rightarrow> db \<Rightarrow> LoyaltyLedgerEntry list" where
  "receiptLedgerEntries original d =
     (case originalReceiptId original d of None \<Rightarrow> [] | Some r \<Rightarrow> receiptEffects (le_tenantId original) r d)"

definition is_paired :: "LoyaltyLedgerEntry \<Rightarrow> db \<Rightarrow> bool" where
  "is_paired original d =
     (truthy (originalReceiptId original d)
      \<and> list_ex (\<lambda>e. le_id e \<noteq> le_id original) (receiptLedgerEntries original d))"

definition reverse_single ::
  "env \<Rightarrow> reverse_request \<Rightarrow> LoyaltyLedgerEntry \<Rightarrow> Customer \<Rightarrow> json option \<Rightarrow> int \<Rightarrow> int \<Rightarrow> json dbtx" where
  "reverse_single env rv original customer existing now nowMs =
     (case existing of
        Some response \<Rightarrow> tx_return response
      | None \<Rightarrow>
          tx_bind (tx_read (reversedByEntries original)) (\<lambda>reversals.
          if reversals \<noteq> [] then tx_throw alreadyReversed
          else reverse_entry env rv original customer now nowMs))"

definition reverse_transaction :: "env \<Rightarrow> reverse_request \<Rightarrow> (nat \<Rightarrow> int) \<Rightarrow> json dbtx" where
  "reverse_transaction env rv t =
     tx_bind (reverse_claim rv (t 0)) (\<lambda>existing.
     tx_bind (tx_check (reverse_original rv)) (\<lambda>(original, customer).
     tx_bind (tx_read (\<lambda>d. (is_paired original d, originalReceiptId original d, receiptLedgerEntries original d)))
       (\<lambda>(paired, receiptId, entries).
     if paired
     then reversePairedSettlement env rv (le_id original) (the receiptId) entries existing (t 1) (t 2)
     else reverse_single env rv original customer existing (t 1) (t 2))))"

subsection \<open>Attempts and the whole call\<close>

fun reverse_loop ::
  "env \<Rightarrow> reverse_request \<Rightarrow> (nat \<Rightarrow> db \<Rightarrow> db \<times> svc_error option) \<Rightarrow> (nat \<Rightarrow> int) \<Rightarrow> nat \<Rightarrow> nat \<Rightarrow> db \<Rightarrow>
   (svc_error + json) \<times> db" where
  "reverse_loop env rv sched clk k 0 d = (Inl reversal_transaction_conflict, d)"
| "reverse_loop env rv sched clk k (Suc left) d =
     (case run_transaction sched k (reverse_transaction env rv (\<lambda>i. clk (3 * k + i))) d of
        (Inr response, d1) \<Rightarrow> (Inr response, d1)
      | (Inl e, d1) \<Rightarrow>
          if reverse_isTransactionConflict e \<or> reverse_isIdempotencyConflict e
          then reverse_loop env rv sched clk (k + 1) left d1
          else (Inl e, d1))"

definition runReverseTransaction ::
  "env \<Rightarrow> reverse_request \<Rightarrow> (nat \<Rightarrow> db \<Rightarrow> db \<times> svc_error option) \<Rightarrow> (nat \<Rightarrow> int) \<Rightarrow> db \<Rightarrow>
   (svc_error + json) \<times> db" where
  "runReverseTransaction env rv sched clk d = reverse_loop env rv sched clk 1 REVERSAL_RETRY_ATTEMPTS d"

definition reverse_prepare ::
  "env \<Rightarrow> string \<Rightarrow> AuthContext \<Rightarrow> string \<Rightarrow> string option \<Rightarrow> string \<Rightarrow> db \<Rightarrow> svc_error + reverse_request" where
  "reverse_prepare env tenantId actor transactionId idempotencyKey dto_reason d =
     res_bind (reverse_normalizeIdempotencyKey idempotencyKey) (\<lambda>normalizedKey.
     res_bind (reverse_normalizeReason dto_reason) (\<lambda>reason.
     Inr \<lparr> rv_tenantId = tenantId, rv_actor = actor, rv_transactionId = transactionId, rv_reason = reason,
           rv_requestHash = reverse_hashRequest env tenantId (actor_id actor)
             (case pairedReceiptId tenantId transactionId d of Some r \<Rightarrow> r | None \<Rightarrow> transactionId) reason,
           rv_key = normalizedKey \<rparr>))"

definition grouped_hash :: "env \<Rightarrow> reverse_request \<Rightarrow> db \<Rightarrow> string option" where
  "grouped_hash env rv d =
     map_option (\<lambda>r. reverse_hashRequest env (rv_tenantId rv) (actor_id (rv_actor rv)) r (rv_reason rv))
       (candidateReceiptId (rv_tenantId rv) (rv_transactionId rv) d)"

definition reverse_precheck :: "bool \<Rightarrow> string option \<Rightarrow> reverse_request \<Rightarrow> IdempotencyRecord option \<Rightarrow> svc_error + json option" where
  "reverse_precheck paired groupedRequestHash rv existing =
     (case existing of
        None \<Rightarrow> Inr None
      | Some x \<Rightarrow>
          if truthy groupedRequestHash \<and> Some (idr_requestHash x) = groupedRequestHash \<and> \<not> paired
          then Inl (reviewRequired ''Previously grouped receipt no longer has its exact settlement pair'')
          else if idr_requestHash x \<noteq> rv_requestHash rv then Inl idempotency_conflict
          else if paired then Inr None
          else Inr (idr_responseJson x))"

definition reverse ::
  "env \<Rightarrow> (nat \<Rightarrow> db \<Rightarrow> db \<times> svc_error option) \<Rightarrow> (nat \<Rightarrow> int) \<Rightarrow> string \<Rightarrow> AuthContext \<Rightarrow> string \<Rightarrow>
   string option \<Rightarrow> string \<Rightarrow> db \<Rightarrow> (svc_error + json) \<times> db" where
  "reverse env sched clk tenantId actor transactionId idempotencyKey dto_reason d =
     (case reverse_prepare env tenantId actor transactionId idempotencyKey dto_reason d of
        Inl e \<Rightarrow> (Inl e, d)
      | Inr rv \<Rightarrow>
          let paired = (pairedReceiptId tenantId transactionId d \<noteq> None);
              d1 = reverse_cleanup tenantId (actor_id actor) (rv_key rv) (clk 0) d in
          (case reverse_precheck paired (grouped_hash env rv d) rv (reverse_record rv d1) of
             Inl e \<Rightarrow> (Inl e, d1)
           | Inr (Some response) \<Rightarrow> (Inr response, d1)
           | Inr None \<Rightarrow> runReverseTransaction env rv sched clk d1))"

subsection \<open>Putting credit back\<close>

lemma increment_lot_as_decrement:
  assumes "lots_wf d" and "0 \<le> v"
  shows "increment_lot t c i v d = decrement_lot t c i (- v) d"
proof -
  have "(lot_id l = i \<and> lot_tenantId l = t \<and> lot_customerId l = c) =
      (lot_id l = i \<and> lot_tenantId l = t \<and> lot_customerId l = c \<and> - v \<le> lot_remainingAmountKobo l)"
    if "l \<in> set (creditLots d)" for l
    using assms that by (auto simp: lots_wf_def list_all_iff lot_ok_def)
  then show ?thesis
    by (auto simp: increment_lot_def decrement_lot_def creditLot_updateMany_def count_where_def updated_def
        intro!: arg_cong[where f = length] filter_cong)
qed

lemma increment_lot_frame [frame_intros]:
  "(\<And>d v. f (d\<lparr>creditLots := v\<rparr>) = f d) \<Longrightarrow> tx_frame f (increment_lot t c i v)"
  unfolding increment_lot_def by (intro frame_intros)

lemma put_back_one_frame [frame_intros]:
  assumes "\<And>d v. f (d\<lparr>creditLots := v\<rparr>) = f d"
    and "\<And>d v w. f (d\<lparr>idCounter := w, allocationRestorations := v\<rparr>) = f d"
  shows "tx_frame f (put_back_one env message t c e r)"
  unfolding put_back_one_def by (intro frame_intros assms)

text \<open>What makes a lot take the amount back: there is room for it.\<close>

lemma increment_lot_effect:
  assumes "increment_lot t c i v d = Inr (1, d')" and "money_at f d" and "0 \<le> v"
    and "\<And>l. l \<in> set (creditLots d) \<Longrightarrow> is_lot t i l \<Longrightarrow> lot_remainingAmountKobo l + v \<le> lot_originalAmountKobo l"
    and "\<And>l. l \<in> set (creditLots d) \<Longrightarrow> lot_id l = i \<Longrightarrow> now < lot_expiresAt l"
  shows "money_at (bump f (t, c) (- v)) d'" and "lot_frame d' = lot_frame d"
    and "active_balance a now d' = active_balance a now d + (if a = (t, c) then v else 0)"
proof -
  have d: "lots_wf d" "imbalance d = f" using assms(2) by (simp_all add: money_at_def)
  have dec: "decrement_lot t c i (- v) d = Inr (1, d')"
    using assms(1) increment_lot_as_decrement[OF d(1) assms(3)] by simp
  have dist: "distinct (map lot_id (creditLots d))" using d(1) by (simp add: lots_wf_def)
  have led: "ledgerEntries d' = ledgerEntries d" using dec by (simp add: decrement_lot_eq_Inr)
  have tot: "lots_total d' x = lots_total d x + (if x = (t, c) then v else 0)" for x
    unfolding lots_total_def using decrement_lot_sum[OF dist dec, of "\<lambda>l. lot_account l = x" "x = (t, c)"]
    by (auto simp: lot_account_def)
  have wf: "lots_wf d'"
  proof -
    have "lot_ok m" if "m \<in> set (creditLots d')" for m
      using that d(1) assms(3,4) dec
      by (auto simp: decrement_lot_eq_Inr updated_def lots_wf_def list_all_iff lot_ok_def is_lot_def)
    then show ?thesis using dist dec by (auto simp: lots_wf_def list_all_iff decrement_lot_eq_Inr)
  qed
  show "money_at (bump f (t, c) (- v)) d'"
    using wf tot d(2) by (auto simp: money_at_def imbalance_def ledger_net_def led bump_def fun_eq_iff)
  show "lot_frame d' = lot_frame d" by (rule decrement_lot_frame_rows[OF dec])
  have "sum_where (unexpired (fst a) (snd a) now) lot_remainingAmountKobo (creditLots d') =
    sum_where (unexpired (fst a) (snd a) now) lot_remainingAmountKobo (creditLots d) - (if a = (t, c) then - v else 0)"
    using dist dec by (rule decrement_lot_sum) (use assms(5) in \<open>auto simp: unexpired_def lot_account_def\<close>)
  then show "active_balance a now d' = active_balance a now d + (if a = (t, c) then v else 0)"
    using d(1) wf by (auto simp: active_balance_def active_balance_unexpired)
qed

text \<open>A plan that still describes what its allocations owe.\<close>

definition restorable :: "string \<Rightarrow> PlannedRestoration list \<Rightarrow> db \<Rightarrow> bool" where
  "restorable t plan d =
     (distinct (map pl_allocationId plan) \<and>
      list_all (\<lambda>r. 0 < pl_amountKobo r \<and> list_ex (\<lambda>a. ra_tenantId a = t \<and> ra_id a = pl_allocationId r
        \<and> ra_creditLotId a = pl_creditLotId r \<and> restoredAmount a d + pl_amountKobo r = ra_amountKobo a)
        (redemptionAllocations d)) plan)"

lemma put_back_one_effect:
  assumes "put_back_one env message t c e r d = Inr (u, d')" and "lots_evidenced d" and "money_at f d"
    and "restorable t (r # plan) d"
    and "\<And>l. l \<in> set (creditLots d) \<Longrightarrow> lot_id l = pl_creditLotId r \<Longrightarrow> now < lot_expiresAt l"
  shows "lots_evidenced d'" and "money_at (bump f (t, c) (- pl_amountKobo r)) d'" and "restorable t plan d'"
    and "lot_frame d' = lot_frame d"
    and "active_balance x now d' = active_balance x now d + (if x = (t, c) then pl_amountKobo r else 0)"
proof -
  let ?mk = "\<lambda>i. \<lparr> ar_id = i, ar_tenantId = t, ar_allocationId = pl_allocationId r,
         ar_reversalLedgerEntryId = e, ar_amountKobo = pl_amountKobo r \<rparr>"
  from assms(1) obtain d1 row where inc: "increment_lot t c (pl_creditLotId r) (pl_amountKobo r) d = Inr (1, d1)"
    and res: "allocationRestoration_create env ?mk d1 = Inr (row, d')"
    by (auto simp: put_back_one_def tx_bind_eq_Inr)
  from assms(4) obtain a where pos: "0 < pl_amountKobo r" and a: "a \<in> set (redemptionAllocations d)" "ra_tenantId a = t"
    "ra_id a = pl_allocationId r" "ra_creditLotId a = pl_creditLotId r"
    "restoredAmount a d + pl_amountKobo r = ra_amountKobo a"
    and plan: "distinct (map pl_allocationId plan)" "pl_allocationId r \<notin> pl_allocationId ` set plan"
    by (auto simp: restorable_def list_ex_iff)
  have ev: "evidence_at (\<lambda>_. 0) d" using assms(2) by (simp add: lots_evidenced_def)
  have room: "lot_remainingAmountKobo l + pl_amountKobo r \<le> lot_originalAmountKobo l"
    if "l \<in> set (creditLots d)" "is_lot t (pl_creditLotId r) l" for l
    using evidence_room[OF ev that(1) a(1)] that(2) a by (simp add: is_lot_def)
  have i: "money_at (bump f (t, c) (- pl_amountKobo r)) d1" "lot_frame d1 = lot_frame d"
    "active_balance x now d1 = active_balance x now d + (if x = (t, c) then pl_amountKobo r else 0)" for x
    by (rule increment_lot_effect[OF inc assms(3) less_imp_le[OF pos]]; use room assms(5) in blast)+
  have wf: "lots_wf d" using assms(3) by (simp add: money_at_def)
  have "evidence_at (shift (\<lambda>_. 0) (pl_creditLotId r) (pl_amountKobo r)) d1"
    using decrement_lot_evidence[OF _ ev, of t c "pl_creditLotId r" "- pl_amountKobo r" d1] inc
      increment_lot_as_decrement[OF wf less_imp_le[OF pos]] by simp
  moreover have al: "redemptionAllocations d1 = redemptionAllocations d" "allocationRestorations d1 = allocationRestorations d"
    using tx_frameD[OF increment_lot_frame inc, of redemptionAllocations]
      tx_frameD[OF increment_lot_frame inc, of allocationRestorations] by simp_all
  moreover have row: "row = ?mk (genId env (idCounter d1))"
    and d': "d' = d1\<lparr>idCounter := Suc (idCounter d1), allocationRestorations := allocationRestorations d1 @ [row]\<rparr>"
    using res by (auto simp: allocationRestoration_create_def create_row_eq_Inr)
  moreover have "restoredAmount b d1 = restoredAmount b d" for b by (simp add: restoredAmount_def al)
  ultimately show "lots_evidenced d'"
    using allocationRestoration_create_evidence[OF res, of "shift (\<lambda>_. 0) (pl_creditLotId r) (pl_amountKobo r)" a] a
    by (simp add: restores_def lots_evidenced_def)
  show "money_at (bump f (t, c) (- pl_amountKobo r)) d'"
    using i(1) res by (rule money_at_frameD) (rule allocationRestoration_create_frame, simp)
  show "lot_frame d' = lot_frame d" using i(2) by (simp add: d' lot_frame_def)
  show "active_balance x now d' = active_balance x now d + (if x = (t, c) then pl_amountKobo r else 0)"
    using i(3)[of x] by (simp add: d' active_balance_def getActiveBalanceKobo_def)
  have same: "restoredAmount b d' = restoredAmount b d" if "ra_id b \<noteq> pl_allocationId r" for b
    using that by (auto simp: restoredAmount_def d' al row)
  show "restorable t plan d'"
    unfolding restorable_def list_all_iff
  proof (intro conjI ballI)
    fix q
    assume q: "q \<in> set plan"
    with assms(4) obtain b where b: "b \<in> set (redemptionAllocations d)" "ra_tenantId b = t" "ra_id b = pl_allocationId q"
      "ra_creditLotId b = pl_creditLotId q" "restoredAmount b d + pl_amountKobo q = ra_amountKobo b"
      by (auto simp: restorable_def list_all_iff list_ex_iff)
    moreover have "ra_id b \<noteq> pl_allocationId r" using plan(2) q b(3) by (metis image_eqI)
    ultimately show "list_ex (\<lambda>a. ra_tenantId a = t \<and> ra_id a = pl_allocationId q
        \<and> ra_creditLotId a = pl_creditLotId q \<and> restoredAmount a d' + pl_amountKobo q = ra_amountKobo a)
        (redemptionAllocations d')"
      using same by (auto simp: list_ex_iff d' al)
    show "0 < pl_amountKobo q" using assms(4) q by (simp add: restorable_def list_all_iff)
  qed (rule plan(1))
qed

lemma put_back_all_effect:
  assumes "tx_for plan (put_back_one env message t c e) d = Inr (u, d')" and "lots_evidenced d" and "money_at f d"
    and "restorable t plan d"
    and "\<And>r l. r \<in> set plan \<Longrightarrow> l \<in> set (creditLots d) \<Longrightarrow> lot_id l = pl_creditLotId r \<Longrightarrow> now < lot_expiresAt l"
  shows "lots_evidenced d' \<and> money_at (bump f (t, c) (- sum_list (map pl_amountKobo plan))) d'
    \<and> (\<forall>x. active_balance x now d' = active_balance x now d
          + (if x = (t, c) then sum_list (map pl_amountKobo plan) else 0))"
  using assms
proof (induction plan arbitrary: d f)
  case Nil
  then show ?case by simp
next
  case (Cons r plan)
  from Cons.prems(1) obtain d1 where r: "put_back_one env message t c e r d = Inr ((), d1)"
    and rest: "tx_for plan (put_back_one env message t c e) d1 = Inr (u, d')"
    by (auto simp: tx_bind_eq_Inr)
  have now: "\<And>l. l \<in> set (creditLots d) \<Longrightarrow> lot_id l = pl_creditLotId r \<Longrightarrow> now < lot_expiresAt l"
    by (rule Cons.prems(5)[OF list.set_intros(1)])
  have o: "lots_evidenced d1" "money_at (bump f (t, c) (- pl_amountKobo r)) d1" "restorable t plan d1"
    "lot_frame d1 = lot_frame d"
    "active_balance x now d1 = active_balance x now d + (if x = (t, c) then pl_amountKobo r else 0)" for x
    by (rule put_back_one_effect[OF r Cons.prems(2,3,4)]; use now in blast)+
  have live: "now < lot_expiresAt l" if "q \<in> set plan" "l \<in> set (creditLots d1)" "lot_id l = pl_creditLotId q" for q l
    using lot_frame_expiry[OF o(4) that(2)] Cons.prems(5)[of q] that by (metis list.set_intros(2))
  have "lots_evidenced d' \<and> money_at (bump (bump f (t, c) (- pl_amountKobo r)) (t, c)
      (- sum_list (map pl_amountKobo plan))) d'
    \<and> (\<forall>x. active_balance x now d' = active_balance x now d1
          + (if x = (t, c) then sum_list (map pl_amountKobo plan) else 0))"
    by (rule Cons.IH[OF rest o(1,2,3)]) (rule live)
  then show ?case unfolding bump_bump using o(5) by (simp add: algebra_simps)
qed

lemma list_all2_member:
  assumes "list_all2 P xs ys"
  shows "x \<in> set xs \<Longrightarrow> \<exists>y\<in>set ys. P x y" and "y \<in> set ys \<Longrightarrow> \<exists>x\<in>set xs. P x y"
  using assms by (induction rule: list_all2_induct) auto

lemma planRestorations_restorable:
  assumes "planRestorations t e now d = Inr plan" and "lots_evidenced d"
  shows "restorable t plan d"
    and "\<And>r l. r \<in> set plan \<Longrightarrow> l \<in> set (creditLots d) \<Longrightarrow> lot_id l = pl_creditLotId r \<Longrightarrow> now < lot_expiresAt l"
    and "\<And>a. a \<in> set (debitAllocations t e d) \<Longrightarrow> restoredAmount a d \<noteq> ra_amountKobo a \<Longrightarrow>
      ra_id a \<in> pl_allocationId ` set plan"
    and "pl_allocationId ` set plan \<subseteq> ra_id ` set (debitAllocations t e d)"
proof -
  let ?as = "debitAllocations t e d"
  from assms(1) obtain ps where ps: "list_all2 (\<lambda>a p. planRestoration now d a = Inr p) ?as ps"
    and plan: "plan = filter (\<lambda>r. pl_amountKobo r > 0) ps"
    by (auto simp: planRestorations_def map_results_Inr[symmetric] Let_def split: sum.splits if_splits)
  have ev: "distinct (map ra_id (redemptionAllocations d))" "distinct (map lot_id (creditLots d))"
    using assms(2) by (simp_all add: lots_evidenced_def evidence_at_def)
  have ids: "map pl_allocationId ps = map ra_id ?as"
    using ps by (induction rule: list_all2_induct) (auto dest: planRestoration_Inr)
  have "distinct (map ra_id ?as)"
    using ev(1) by (auto simp: debitAllocations_def distinct_map inj_on_def)
  then have dist: "distinct (map pl_allocationId plan)"
    unfolding plan ids[symmetric] by (simp add: distinct_map_filter)
  have each: "\<exists>a\<in>set ?as. planRestoration now d a = Inr r" if "r \<in> set ps" for r
    using list_all2_member(2)[OF ps that] .
  show "restorable t plan d"
    unfolding restorable_def list_all_iff list_ex_iff
  proof (intro conjI ballI dist)
    fix r
    assume r: "r \<in> set plan"
    then show "0 < pl_amountKobo r" by (simp add: plan)
    from r each[of r] obtain a where "a \<in> set ?as" "planRestoration now d a = Inr r" by (auto simp: plan)
    then show "\<exists>a\<in>set (redemptionAllocations d). ra_tenantId a = t \<and> ra_id a = pl_allocationId r
        \<and> ra_creditLotId a = pl_creditLotId r \<and> restoredAmount a d + pl_amountKobo r = ra_amountKobo a"
      by (intro bexI[of _ a]) (auto simp: debitAllocations_def dest!: planRestoration_Inr)
  qed
  show "now < lot_expiresAt l" if "r \<in> set plan" "l \<in> set (creditLots d)" "lot_id l = pl_creditLotId r" for r l
  proof -
    from that(1) each[of r] obtain a where "planRestoration now d a = Inr r" by (auto simp: plan)
    then obtain m where m: "m \<in> set (creditLots d)" "lot_id m = pl_creditLotId r" "now < lot_expiresAt m"
      by (auto dest!: planRestoration_Inr)
    then have "m = l" using distinct_key_unique[OF ev(2) m(1) that(2)] that(3) by simp
    with m(3) show ?thesis by simp
  qed
  show "ra_id a \<in> pl_allocationId ` set plan" if "a \<in> set ?as" "restoredAmount a d \<noteq> ra_amountKobo a" for a
  proof -
    from list_all2_member(1)[OF ps that(1)] obtain p where p: "p \<in> set ps" "planRestoration now d a = Inr p" ..
    note q = planRestoration_Inr[OF p(2)]
    then have "0 < pl_amountKobo p" using that(2) by linarith
    with p(1) q show ?thesis unfolding plan by (auto simp: image_iff intro!: bexI[of _ p])
  qed
  have "pl_allocationId ` set plan \<subseteq> set (map pl_allocationId ps)" by (auto simp: plan)
  then show "pl_allocationId ` set plan \<subseteq> ra_id ` set ?as" unfolding ids by simp
qed

subsection \<open>Frames\<close>

lemma persistReverseNotification_frame [frame_intros]:
  assumes "\<And>d v w. f (d\<lparr>idCounter := w, outboxEvents := v\<rparr>) = f d"
    and "\<And>d v w. f (d\<lparr>idCounter := w, smsMessages := v\<rparr>) = f d"
  shows "tx_frame f (persistReverseNotification env t p e og r now)"
  unfolding persistReverseNotification_def Let_def by (intro frame_intros assms)

lemma reverse_records_frame [frame_intros]:
  assumes "\<And>d v. f (d\<lparr>idempotencyRecords := v\<rparr>) = f d"
  shows "tx_frame f (persistReverseIdempotency rv response now)" and "tx_frame f (reverse_claim rv now)"
  unfolding persistReverseIdempotency_def reverse_claim_def by (intro frame_intros assms)+

lemma reverse_audit_frame [frame_intros]:
  assumes "\<And>d v. f (d\<lparr>auditLogs := v\<rparr>) = f d"
  shows "tx_frame f (reverse_audit rv og e amount)" and "tx_frame f (pair_audit rv r p e1 e2)"
  unfolding reverse_audit_def pair_audit_def by (intro frame_intros assms)+

lemma redemption_reversed_frame [frame_intros]:
  "(\<And>d v. f (d\<lparr>redemptions := v\<rparr>) = f d) \<Longrightarrow> tx_frame f (redemption_reversed rv e now)"
  unfolding redemption_reversed_def by (intro frame_intros)

lemma reverse_finish_frame [frame_intros]:
  assumes "\<And>d v w. f (d\<lparr>idCounter := w, outboxEvents := v\<rparr>) = f d"
    and "\<And>d v w. f (d\<lparr>idCounter := w, smsMessages := v\<rparr>) = f d"
    and "\<And>d v. f (d\<lparr>auditLogs := v\<rparr>) = f d" and "\<And>d v. f (d\<lparr>idempotencyRecords := v\<rparr>) = f d"
  shows "tx_frame f (reverse_finish env rv og c r e amount as rs now nowMs)"
  unfolding reverse_finish_def Let_def by (intro frame_intros assms)

subsection \<open>Effect of a committed reversal\<close>

text \<open>
  How a body moves the credit that is active at \<open>now\<close>: on evidenced lots it keeps the evidence and
  the accounts, and each account's active balance moves by what the ledger says.
\<close>

definition moves_credit :: "int \<Rightarrow> db \<Rightarrow> db \<Rightarrow> bool" where
  "moves_credit now d d' =
     (lots_evidenced d \<longrightarrow> lots_wf d \<longrightarrow>
        lots_evidenced d' \<and> lots_wf d' \<and> imbalance d' = imbalance d
        \<and> (\<forall>a. active_balance a now d' - active_balance a now d = ledger_net d' a - ledger_net d a))"

interpretation moves: tx_order "moves_credit now" for now
proof unfold_locales
  fix s t u :: db
  assume "moves_credit now s t" and "moves_credit now t u"
  then show "moves_credit now s u" unfolding moves_credit_def by (smt (verit, best))
qed (simp add: moves_credit_def)

abbreviation reversal_view where
  "reversal_view d \<equiv> (creditLots d, redemptionAllocations d, allocationRestorations d, creditExpiries d, ledgerEntries d)"

lemma moves_credit_frame: "tx_frame reversal_view m \<Longrightarrow> tx_rel (moves_credit now) m"
proof (erule moves.rel_frame)
  fix d d' :: db
  assume "reversal_view d' = reversal_view d"
  then show "moves_credit now d d'"
    using lots_evidenced_view[of d' d]
    by (simp add: moves_credit_def lots_wf_def imbalance_def lots_total_def ledger_net_def fun_eq_iff
        active_balance_def getActiveBalanceKobo_def)
qed

lemma ledger_create_net:
  "loyaltyLedgerEntry_create env mk d = Inr (e, d') \<Longrightarrow>
   ledger_net d' a = ledger_net d a + (if ledger_account e = a then signed_kobo e else 0)"
  by (auto simp: loyaltyLedgerEntry_create_def create_row_eq_Inr ledger_net_def)

lemma compensating_entry_account [simp]:
  "ledger_account (compensating_entry rv og ty dir v c now i) = (rv_tenantId rv, le_customerId og)"
  "signed_kobo (compensating_entry rv og ty LedgerEntryDirection.DEBIT v c now i) = - v"
  "signed_kobo (compensating_entry rv og ty LedgerEntryDirection.CREDIT v c now i) = v"
  by (simp_all add: compensating_entry_def ledger_account_def signed_kobo_def)

lemma take_back_stages:
  assumes "take_back env rv og lotId amount c now d = Inr ((entry, as), d')"
  obtains adj d1 d2 where
    "loyaltyLedgerEntry_create env
       (compensating_entry rv og LedgerEntryType.ADJUSTMENT LedgerEntryDirection.DEBIT amount c now) d = Inr (entry, d1)"
    "adjustment_create env (\<lambda>new_id.
       \<lparr> adj_id = new_id, adj_tenantId = rv_tenantId rv, adj_customerId = le_customerId og,
         adj_kind = AdjustmentKind.DEBIT, adj_amountKobo = amount, adj_reason = rv_reason rv,
         adj_createdByTenantId = actor_tenantId (rv_actor rv), adj_createdBy = actor_id (rv_actor rv),
         adj_ledgerEntryId = le_id entry, adj_effectiveAt = now \<rparr>) d1 = Inr (adj, d2)"
    "allocateDebitFromExactLot env
       \<lparr> in_tenantId = rv_tenantId rv, in_customerId = le_customerId og, in_creditLotId = Some lotId,
         in_debitLedgerEntryId = le_id entry, in_amountKobo = amount, in_now = now,
         in_redemptionId = None, in_adjustmentId = Some (adj_id adj), in_excludedCreditLotIds = [] \<rparr> d2 = Inr (as, d')"
  using assms by (auto simp: take_back_def tx_bind_eq_Inr)

lemma take_back_moves: "tx_rel (moves_credit now) (take_back env rv og lotId amount c now)"
proof (rule tx_relI, unfold moves_credit_def, intro impI)
  fix d p d'
  assume t: "take_back env rv og lotId amount c now d = Inr (p, d')" and ev: "lots_evidenced d" and wf: "lots_wf d"
  obtain entry as where p: "p = (entry, as)" by (cases p)
  let ?a = "(rv_tenantId rv, le_customerId og)"
  obtain adj d1 d2 where le: "loyaltyLedgerEntry_create env
       (compensating_entry rv og LedgerEntryType.ADJUSTMENT LedgerEntryDirection.DEBIT amount c now) d = Inr (entry, d1)"
    and ad: "adjustment_create env (\<lambda>new_id.
       \<lparr> adj_id = new_id, adj_tenantId = rv_tenantId rv, adj_customerId = le_customerId og,
         adj_kind = AdjustmentKind.DEBIT, adj_amountKobo = amount, adj_reason = rv_reason rv,
         adj_createdByTenantId = actor_tenantId (rv_actor rv), adj_createdBy = actor_id (rv_actor rv),
         adj_ledgerEntryId = le_id entry, adj_effectiveAt = now \<rparr>) d1 = Inr (adj, d2)"
    and al: "allocateDebitFromExactLot env
       \<lparr> in_tenantId = rv_tenantId rv, in_customerId = le_customerId og, in_creditLotId = Some lotId,
         in_debitLedgerEntryId = le_id entry, in_amountKobo = amount, in_now = now,
         in_redemptionId = None, in_adjustmentId = Some (adj_id adj), in_excludedCreditLotIds = [] \<rparr> d2 = Inr (as, d')"
      (is "allocateDebitFromExactLot env ?in d2 = _")
    by (rule take_back_stages[OF t[unfolded p]])
  have m0: "money_at (imbalance d) d" using wf by (simp add: money_at_def)
  have m1: "money_at (bump (imbalance d) ?a (- amount)) d1"
    by (rule tx_specD[OF loyaltyLedgerEntry_create_money m0 le]) simp_all
  have m2: "money_at (bump (imbalance d) ?a (- amount)) d2"
    using m1 ad by (rule money_at_frameD) (rule adjustment_create_frame, simp)
  note e = allocateDebitFromExactLot_effect[OF al m2]
  have m: "money_at (imbalance d) d'" using e(3) by (simp add: debit_account_def)
  have "evidence_view d2 = evidence_view d"
    using tx_frameD[OF loyaltyLedgerEntry_create_frame le, of evidence_view]
      tx_frameD[OF adjustment_create_frame ad, of evidence_view] by simp
  then have ev2: "lots_evidenced d2" and lots: "creditLots d2 = creditLots d"
    using ev lots_evidenced_view[of d2 d] by auto
  have "lots_evidenced d'"
    using tx_relD[OF allocateDebitFromExactLot_evidence al] ev2 by (simp add: evidence_kept_def)
  moreover have "ledger_net d' a = ledger_net d a + (if ?a = a then - amount else 0)" for a
  proof -
    have "ledgerEntries d' = ledgerEntries d1"
      using tx_frameD[OF allocateDebit_frame(2) al, of ledgerEntries] tx_frameD[OF adjustment_create_frame ad, of ledgerEntries]
      by simp
    moreover have "entry = compensating_entry rv og LedgerEntryType.ADJUSTMENT LedgerEntryDirection.DEBIT amount c now
        (genId env (idCounter d))"
      using le by (simp add: loyaltyLedgerEntry_create_def create_row_eq_Inr)
    ultimately show ?thesis using ledger_create_net[OF le, of a] by (simp add: ledger_net_def)
  qed
  moreover have "active_balance a now d' = active_balance a now d - (if a = ?a then amount else 0)" for a
    using e(5)[of "fst a" "snd a"] lots
    by (cases a) (simp add: active_balance_def debit_account_def getActiveBalanceKobo_def)
  ultimately show "lots_evidenced d' \<and> lots_wf d' \<and> imbalance d' = imbalance d
      \<and> (\<forall>a. active_balance a now d' - active_balance a now d = ledger_net d' a - ledger_net d a)"
    using m by (auto simp: money_at_def)
qed

lemma put_back_moves:
  assumes "put_back env message rv og plan amount c now d = Inr (entry, d')"
    and "restorable (rv_tenantId rv) plan d" and "amount = sum_list (map pl_amountKobo plan)"
    and "\<And>r l. r \<in> set plan \<Longrightarrow> l \<in> set (creditLots d) \<Longrightarrow> lot_id l = pl_creditLotId r \<Longrightarrow> now < lot_expiresAt l"
  shows "moves_credit now d d'"
  unfolding moves_credit_def
proof (intro impI)
  assume ev: "lots_evidenced d" and wf: "lots_wf d"
  let ?a = "(rv_tenantId rv, le_customerId og)"
  let ?mk = "compensating_entry rv og LedgerEntryType.REVERSAL LedgerEntryDirection.CREDIT amount c now"
  from assms(1) obtain d1 where le: "loyaltyLedgerEntry_create env ?mk d = Inr (entry, d1)"
    and pb: "tx_for plan (put_back_one env message (rv_tenantId rv) (le_customerId og) (le_id entry)) d1 = Inr ((), d')"
    by (auto simp: put_back_def tx_bind_eq_Inr)
  have view: "evidence_view d1 = evidence_view d"
    using tx_frameD[OF loyaltyLedgerEntry_create_frame le, of evidence_view] by simp
  have m1: "money_at (bump (imbalance d) ?a amount) d1"
    by (rule tx_specD[OF loyaltyLedgerEntry_create_money _ le]) (use wf in \<open>simp_all add: money_at_def\<close>)
  have ev1: "lots_evidenced d1" using ev lots_evidenced_view[OF view] by simp
  have r1: "restorable (rv_tenantId rv) plan d1"
    using assms(2) view by (simp add: restorable_def restoredAmount_def)
  have b: "lots_evidenced d' \<and> money_at (bump (bump (imbalance d) ?a amount) ?a (- sum_list (map pl_amountKobo plan))) d'
    \<and> (\<forall>x. active_balance x now d' = active_balance x now d1
          + (if x = ?a then sum_list (map pl_amountKobo plan) else 0))"
    by (rule put_back_all_effect[OF pb ev1 m1 r1]) (use assms(4) view in auto)
  have "ledgerEntries d' = ledgerEntries d1"
    using tx_frameD[OF tx_frame_for pb, of ledgerEntries] put_back_one_frame[of ledgerEntries] by simp
  moreover have "entry = ?mk (genId env (idCounter d))"
    using le by (simp add: loyaltyLedgerEntry_create_def create_row_eq_Inr)
  ultimately have "ledger_net d' a = ledger_net d a + (if ?a = a then amount else 0)" for a
    using ledger_create_net[OF le, of a] by (simp add: ledger_net_def)
  moreover have "active_balance a now d1 = active_balance a now d" for a
    using view by (simp add: active_balance_def getActiveBalanceKobo_def)
  ultimately show "lots_evidenced d' \<and> lots_wf d' \<and> imbalance d' = imbalance d
      \<and> (\<forall>a. active_balance a now d' - active_balance a now d = ledger_net d' a - ledger_net d a)"
    using b assms(3) by (auto simp: money_at_def)
qed

text \<open>Taking credit back leaves a plan for other allocations as it was.\<close>

lemma createAllocations_rows:
  "createAllocations env input as d = Inr (u, d') \<Longrightarrow>
   \<exists>new. redemptionAllocations d' = redemptionAllocations d @ new \<and> length new = length as
     \<and> list_all2 (\<lambda>a n. ra_tenantId n = in_tenantId input \<and> ra_redemptionId n = in_redemptionId input
         \<and> ra_adjustmentId n = in_adjustmentId input \<and> ra_redemptionLedgerEntryId n = in_debitLedgerEntryId input
         \<and> ra_creditLotId n = pa_creditLotId a \<and> ra_amountKobo n = pa_amountKobo a
         \<and> ra_allocationOrder n = pa_allocationOrder a) as new"
proof (induction as arbitrary: d)
  case (Cons a as)
  then obtain mk row d1 where c: "redemptionAllocation_create env mk d = Inr (row, d1)"
    and mk: "mk = (\<lambda>i. \<lparr> ra_id = i, ra_tenantId = in_tenantId input, ra_redemptionId = in_redemptionId input,
         ra_adjustmentId = in_adjustmentId input, ra_redemptionLedgerEntryId = in_debitLedgerEntryId input,
         ra_creditLotId = pa_creditLotId a, ra_amountKobo = pa_amountKobo a,
         ra_allocationOrder = pa_allocationOrder a \<rparr>)"
    and rest: "createAllocations env input as d1 = Inr (u, d')"
    by (auto simp: createAllocations_def tx_bind_eq_Inr)
  from Cons.IH[OF rest] obtain new where new: "redemptionAllocations d' = redemptionAllocations d1 @ new"
    "length new = length as"
    "list_all2 (\<lambda>a n. ra_tenantId n = in_tenantId input \<and> ra_redemptionId n = in_redemptionId input
         \<and> ra_adjustmentId n = in_adjustmentId input \<and> ra_redemptionLedgerEntryId n = in_debitLedgerEntryId input
         \<and> ra_creditLotId n = pa_creditLotId a \<and> ra_amountKobo n = pa_amountKobo a
         \<and> ra_allocationOrder n = pa_allocationOrder a) as new"
    by blast
  have "redemptionAllocations d1 = redemptionAllocations d @ [row]" "row = mk (genId env (idCounter d))"
    using c by (auto simp: redemptionAllocation_create_def create_row_eq_Inr)
  with new show ?case by (intro exI[of _ "row # new"]) (simp add: mk)
qed (simp add: createAllocations_def)

lemma exact_debit_rows:
  assumes "allocateDebitFromExactLot env input d = Inr (as, d')"
  obtains new where "redemptionAllocations d' = redemptionAllocations d @ new"
    "list_all2 (\<lambda>a n. ra_tenantId n = in_tenantId input \<and> ra_redemptionId n = in_redemptionId input
         \<and> ra_adjustmentId n = in_adjustmentId input \<and> ra_redemptionLedgerEntryId n = in_debitLedgerEntryId input
         \<and> ra_creditLotId n = pa_creditLotId a \<and> ra_amountKobo n = pa_amountKobo a
         \<and> ra_allocationOrder n = pa_allocationOrder a) as new"
    "allocationRestorations d' = allocationRestorations d"
proof -
  from assms obtain d1 where c: "createAllocations env input as d = Inr ((), d1)"
    and ap: "tx_for as (applyAllocation input) d1 = Inr ((), d')"
    by (auto simp: allocateDebitFromExactLot_def persistAllocations_def tx_bind_eq_Inr tx_lift_eq_Inr
        lockExactLot_def split: list.splits)
  have "redemptionAllocations d' = redemptionAllocations d1" "allocationRestorations d' = allocationRestorations d1"
    using tx_frameD[OF tx_frame_for ap, of redemptionAllocations] applyAllocation_frame[of redemptionAllocations]
      tx_frameD[OF tx_frame_for ap, of allocationRestorations] applyAllocation_frame[of allocationRestorations] by simp_all
  moreover have "allocationRestorations d1 = allocationRestorations d"
    using tx_frameD[OF createAllocations_frame c, of allocationRestorations] by simp
  ultimately show thesis using createAllocations_rows[OF c] that by auto
qed

lemma take_back_plan:
  assumes "take_back env rv og lotId amount c now d = Inr (p, d')" and "lots_wf d"
  shows "restorable t plan d \<Longrightarrow> restorable t plan d'" and "lot_frame d' = lot_frame d"
proof -
  obtain entry as where p: "p = (entry, as)" by (cases p)
  obtain adj d1 d2 input where le: "loyaltyLedgerEntry_create env
       (compensating_entry rv og LedgerEntryType.ADJUSTMENT LedgerEntryDirection.DEBIT amount c now) d = Inr (entry, d1)"
    and ad: "adjustment_create env (\<lambda>new_id.
       \<lparr> adj_id = new_id, adj_tenantId = rv_tenantId rv, adj_customerId = le_customerId og,
         adj_kind = AdjustmentKind.DEBIT, adj_amountKobo = amount, adj_reason = rv_reason rv,
         adj_createdByTenantId = actor_tenantId (rv_actor rv), adj_createdBy = actor_id (rv_actor rv),
         adj_ledgerEntryId = le_id entry, adj_effectiveAt = now \<rparr>) d1 = Inr (adj, d2)"
    and al: "allocateDebitFromExactLot env input d2 = Inr (as, d')"
    using assms(1) unfolding p by (elim take_back_stages) blast
  have view: "evidence_view d2 = evidence_view d"
    using tx_frameD[OF loyaltyLedgerEntry_create_frame le, of evidence_view]
      tx_frameD[OF adjustment_create_frame ad, of evidence_view] by simp
  have "money_at (imbalance d2) d2" using assms(2) view by (simp add: money_at_def lots_wf_def)
  from allocateDebitFromExactLot_effect(4)[OF al this] show "lot_frame d' = lot_frame d"
    using view by (simp add: lot_frame_def)
  show "restorable t plan d'" if "restorable t plan d"
    by (rule exact_debit_rows[OF al]) (use that view in \<open>simp add: restorable_def restoredAmount_def list_all_iff\<close>)
qed

subsection \<open>The transaction and the accounts\<close>

lemma reverse_finish_moves: "tx_rel (moves_credit now) (reverse_finish env rv og c r e amount as rs now' nowMs)"
  by (rule moves_credit_frame) (rule reverse_finish_frame; simp)

lemma pair_finish_frame [frame_intros]:
  assumes "\<And>d v w. f (d\<lparr>idCounter := w, outboxEvents := v\<rparr>) = f d"
    and "\<And>d v w. f (d\<lparr>idCounter := w, smsMessages := v\<rparr>) = f d"
    and "\<And>d v. f (d\<lparr>auditLogs := v\<rparr>) = f d" and "\<And>d v. f (d\<lparr>idempotencyRecords := v\<rparr>) = f d"
  shows "tx_frame f (pair_finish env rv r og pair plan e1 e2 as now nowMs)"
  unfolding pair_finish_def Let_def by (intro frame_intros assms)

lemma pair_finish_moves: "tx_rel (moves_credit now) (pair_finish env rv r og pair plan e1 e2 as now' nowMs)"
  by (rule moves_credit_frame) (rule pair_finish_frame; simp)

lemma redemption_reversed_moves: "tx_rel (moves_credit now) (redemption_reversed rv e now')"
  by (rule moves_credit_frame) (rule redemption_reversed_frame, simp)

lemma reverse_credit_moves: "tx_rel (moves_credit now) (reverse_credit env rv og c r lotId amount now nowMs)"
  unfolding reverse_credit_def by (intro moves.rel_intros take_back_moves reverse_finish_moves)

lemma reverse_debit_moves: "tx_rel (moves_credit now) (reverse_debit env rv og c r settles now nowMs)"
proof (rule tx_relI)
  fix d response d'
  assume "reverse_debit env rv og c r settles now nowMs d = Inr (response, d')"
  then obtain plan entry d1 where plan: "planRestorations (rv_tenantId rv) (le_id og) now d = Inr plan"
    and pb: "put_back env ''Original credit lot changed during reversal'' rv og plan (sum_list (map pl_amountKobo plan))
      (rv_requestHash rv) now d = Inr (entry, d1)"
    and rest: "tx_bind (if settles then redemption_reversed rv (le_id og) now else tx_return ()) (\<lambda>_.
      reverse_finish env rv og c r (le_id entry) (sum_list (map pl_amountKobo plan))
       (JArr []) (restorations_json plan) now nowMs) d1 = Inr (response, d')"
    by (auto simp: reverse_debit_def tx_bind_eq_Inr[of "tx_check _"] tx_bind_eq_Inr[of "put_back _ _ _ _ _ _ _ _"]
        tx_check_eq_Inr Let_def)
  have "tx_rel (moves_credit now) (tx_bind (if settles then redemption_reversed rv (le_id og) now else tx_return ()) (\<lambda>_.
      reverse_finish env rv og c r (le_id entry) (sum_list (map pl_amountKobo plan))
       (JArr []) (restorations_json plan) now nowMs))"
    by (intro moves.rel_intros reverse_finish_moves redemption_reversed_moves)
  note m2 = tx_relD[OF this rest]
  show "moves_credit now d d'"
  proof (cases "lots_evidenced d")
    case True
    note p = planRestorations_restorable[OF plan True]
    show ?thesis by (rule moves.R_trans[OF put_back_moves[OF pb p(1) refl] m2]) (rule p(2))
  qed (simp add: moves_credit_def)
qed

lemma reverse_entry_moves: "tx_rel (moves_credit now) (reverse_entry env rv og c now nowMs)"
  unfolding reverse_entry_def reverse_earn_def reverse_adjustment_credit_def reverse_redeem_def reverse_adjustment_debit_def
  by (auto split: LedgerEntryType.split LedgerEntryDirection.split option.split
      intro!: moves.rel_intros reverse_credit_moves reverse_debit_moves)

lemma pair_moves_moves:
  assumes "pair_moves env rv pair earnLot plan now d = Inr (x, d')"
    and "pair_plan rv pair earnLot now d = Inr plan"
  shows "moves_credit now d d'"
proof (cases "lots_evidenced d \<and> lots_wf d")
  case True
  have plan: "planRestorations (rv_tenantId rv) (le_id (sp_redeem pair)) now d = Inr plan"
    and amt: "sum_list (map pl_amountKobo plan) = le_amountKobo (sp_redeem pair)"
    using assms(2) by (auto simp: pair_plan_def Let_def res_bind_eq_Inr split: if_splits)
  from assms(1) obtain q d1 entry d2 where
    tb: "take_back env rv (sp_earn pair) (lot_id earnLot) (le_amountKobo (sp_earn pair))
        (rv_requestHash rv @ '':earn-reversal'') now d = Inr (q, d1)"
    and pb: "put_back env ''Original credit lot changed during grouped reversal'' rv (sp_redeem pair) plan
        (le_amountKobo (sp_redeem pair)) (rv_requestHash rv @ '':redeem-reversal'') now d1 = Inr (entry, d2)"
    and rr: "redemption_reversed rv (le_id (sp_redeem pair)) now d2 = Inr ((), d')"
    by (auto simp: pair_moves_def Let_def tx_bind_eq_Inr split: prod.splits)
  note p = planRestorations_restorable[OF plan] and tp = take_back_plan[OF tb]
  have live: "now < lot_expiresAt l"
    if "r \<in> set plan" "l \<in> set (creditLots d1)" "lot_id l = pl_creditLotId r" for r l
    using lot_frame_expiry[OF tp(2) that(2)] p(2)[OF _ that(1)] that(3) True by metis
  have "moves_credit now d d1" by (rule tx_relD[OF take_back_moves tb])
  moreover have "moves_credit now d1 d2"
    by (rule put_back_moves[OF pb tp(1)[OF _ p(1)] amt[symmetric]]) (use True live in auto)
  moreover have "moves_credit now d2 d'"
    by (rule tx_relD[OF redemption_reversed_moves rr])
  ultimately show ?thesis by (blast intro: moves.R_trans)
qed (auto simp: moves_credit_def)

lemma reversePairedSettlement_moves:
  "tx_rel (moves_credit now) (reversePairedSettlement env rv og receiptId entries existing now nowMs)"
proof (rule tx_relI)
  fix d response d'
  assume "reversePairedSettlement env rv og receiptId entries existing now nowMs d = Inr (response, d')"
  then consider "d' = d" | pair earnLot plan where "pair_plan rv pair earnLot now d = Inr plan"
    "pair_writes env rv receiptId og pair earnLot plan now nowMs d = Inr (response, d')"
    by (auto simp: reversePairedSettlement_def tx_bind_eq_Inr tx_check_eq_Inr split: option.splits)
  then show "moves_credit now d d'"
  proof cases
    case 2
    from 2(2) obtain e1 e2 as d1 where m: "pair_moves env rv pair earnLot plan now d = Inr ((e1, e2, as), d1)"
      and rest: "pair_finish env rv receiptId og pair plan (le_id e1) (le_id e2) as now nowMs d1 = Inr (response, d')"
      by (auto simp: pair_writes_def tx_bind_eq_Inr)
    have "moves_credit now d1 d'" by (rule tx_relD[OF pair_finish_moves rest])
    with pair_moves_moves[OF m 2(1)] show ?thesis by (rule moves.R_trans)
  qed (simp add: moves.R_refl)
qed

lemma reverse_transaction_moves: "tx_rel (moves_credit (t 1)) (reverse_transaction env rv t)"
proof -
  have "tx_rel (moves_credit (t 1)) (reverse_claim rv (t 0))"
    by (rule moves_credit_frame) (rule reverse_records_frame, simp)
  then show ?thesis
    unfolding reverse_transaction_def reverse_single_def
    by (auto split: option.split intro!: moves.rel_intros reversePairedSettlement_moves reverse_entry_moves)
qed

text \<open>
  C17: a reversal that commits keeps the books and the evidence of the lots, and moves the active
  balance of every account by exactly what it adds to the ledger of that account.
\<close>

theorem reverse_transaction_balance:
  assumes "reverse_transaction env rv t d = Inr (response, d')"
    and "books_balance d" and "lots_evidenced d"
  shows "books_balance d' \<and> lots_evidenced d'
    \<and> (\<forall>a. active_balance a (t 1) d' - active_balance a (t 1) d = ledger_net d' a - ledger_net d a)"
  using tx_relD[OF reverse_transaction_moves assms(1)] assms(2,3)
  by (auto simp: moves_credit_def books_balance_def imbalance_def fun_eq_iff)

subsection \<open>What a reversal adds to the ledger\<close>

lemma take_back_ledger:
  assumes "take_back env rv og lotId amount c now d = Inr ((entry, as), d')"
  shows "ledgerEntries d' = ledgerEntries d @ [entry]"
    and "\<exists>i. entry = compensating_entry rv og LedgerEntryType.ADJUSTMENT LedgerEntryDirection.DEBIT amount c now i"
proof -
  obtain adj d1 d2 input where le: "loyaltyLedgerEntry_create env
       (compensating_entry rv og LedgerEntryType.ADJUSTMENT LedgerEntryDirection.DEBIT amount c now) d = Inr (entry, d1)"
    and ad: "adjustment_create env (\<lambda>new_id.
       \<lparr> adj_id = new_id, adj_tenantId = rv_tenantId rv, adj_customerId = le_customerId og,
         adj_kind = AdjustmentKind.DEBIT, adj_amountKobo = amount, adj_reason = rv_reason rv,
         adj_createdByTenantId = actor_tenantId (rv_actor rv), adj_createdBy = actor_id (rv_actor rv),
         adj_ledgerEntryId = le_id entry, adj_effectiveAt = now \<rparr>) d1 = Inr (adj, d2)"
    and al: "allocateDebitFromExactLot env input d2 = Inr (as, d')"
    using assms by (elim take_back_stages) blast
  show "ledgerEntries d' = ledgerEntries d @ [entry]"
    using le tx_frameD[OF adjustment_create_frame ad, of ledgerEntries]
      tx_frameD[OF allocateDebit_frame(2) al, of ledgerEntries]
    by (auto simp: loyaltyLedgerEntry_create_def create_row_eq_Inr)
  show "\<exists>i. entry = compensating_entry rv og LedgerEntryType.ADJUSTMENT LedgerEntryDirection.DEBIT amount c now i"
    using le by (auto simp: loyaltyLedgerEntry_create_def create_row_eq_Inr)
qed

lemma put_back_ledger:
  assumes "put_back env message rv og plan amount c now d = Inr (entry, d')"
  shows "ledgerEntries d' = ledgerEntries d @ [entry]"
    and "\<exists>i. entry = compensating_entry rv og LedgerEntryType.REVERSAL LedgerEntryDirection.CREDIT amount c now i"
proof -
  from assms obtain d1 where le: "loyaltyLedgerEntry_create env
      (compensating_entry rv og LedgerEntryType.REVERSAL LedgerEntryDirection.CREDIT amount c now) d = Inr (entry, d1)"
    and pb: "tx_for plan (put_back_one env message (rv_tenantId rv) (le_customerId og) (le_id entry)) d1 = Inr ((), d')"
    by (auto simp: put_back_def tx_bind_eq_Inr)
  show "ledgerEntries d' = ledgerEntries d @ [entry]"
    using le tx_frameD[OF tx_frame_for pb, of ledgerEntries] put_back_one_frame[of ledgerEntries]
    by (auto simp: loyaltyLedgerEntry_create_def create_row_eq_Inr)
  show "\<exists>i. entry = compensating_entry rv og LedgerEntryType.REVERSAL LedgerEntryDirection.CREDIT amount c now i"
    using le by (auto simp: loyaltyLedgerEntry_create_def create_row_eq_Inr)
qed

text \<open>An entry that undoes another: same account, opposite direction, and a reference to it.\<close>

definition compensates :: "LoyaltyLedgerEntry \<Rightarrow> LoyaltyLedgerEntry \<Rightarrow> bool" where
  "compensates og c = (le_reversesEntryId c = Some (le_id og) \<and> ledger_account c = ledger_account og
     \<and> le_direction c \<noteq> le_direction og)"

lemma compensating_entry_compensates:
  assumes "le_tenantId og = rv_tenantId rv" and "dir \<noteq> le_direction og"
  shows "compensates og (compensating_entry rv og ty dir v c now i)"
  using assms by (simp add: compensates_def compensating_entry_def ledger_account_def)

lemma reverse_finish_ledger: "tx_frame ledgerEntries (reverse_finish env rv og c r e amount as rs now nowMs)"
  by (rule reverse_finish_frame; simp)

lemma reverse_credit_ledger:
  assumes "reverse_credit env rv og customer r lotId amount now nowMs d = Inr (response, d')"
    and "le_tenantId og = rv_tenantId rv" and "le_direction og = LedgerEntryDirection.CREDIT"
  shows "\<exists>c. ledgerEntries d' = ledgerEntries d @ [c] \<and> compensates og c"
proof -
  from assms(1) obtain entry as d1 where t: "take_back env rv og lotId amount (rv_requestHash rv) now d = Inr ((entry, as), d1)"
    and f: "reverse_finish env rv og customer r (le_id entry) amount (toReversalAllocations as) (JArr []) now nowMs d1
      = Inr (response, d')"
    by (auto simp: reverse_credit_def tx_bind_eq_Inr)
  from take_back_ledger[OF t] tx_frameD[OF reverse_finish_ledger f] compensating_entry_compensates[of og rv] assms(2,3)
  show ?thesis by auto
qed

lemma reverse_debit_ledger:
  assumes "reverse_debit env rv og customer r settles now nowMs d = Inr (response, d')"
    and "le_tenantId og = rv_tenantId rv" and "le_direction og = LedgerEntryDirection.DEBIT"
  shows "\<exists>c. ledgerEntries d' = ledgerEntries d @ [c] \<and> compensates og c"
proof -
  from assms(1) obtain plan entry d1 d2 where
    p: "put_back env ''Original credit lot changed during reversal'' rv og plan (sum_list (map pl_amountKobo plan))
      (rv_requestHash rv) now d = Inr (entry, d1)"
    and s: "(if settles then redemption_reversed rv (le_id og) now else tx_return ()) d1 = Inr ((), d2)"
    and f: "reverse_finish env rv og customer r (le_id entry) (sum_list (map pl_amountKobo plan)) (JArr [])
      (restorations_json plan) now nowMs d2 = Inr (response, d')"
    by (auto simp: reverse_debit_def tx_bind_eq_Inr tx_check_eq_Inr Let_def)
  have "ledgerEntries d2 = ledgerEntries d1"
    using s tx_frameD[OF redemption_reversed_frame, of ledgerEntries] by (auto split: if_splits)
  with put_back_ledger[OF p] tx_frameD[OF reverse_finish_ledger f] compensating_entry_compensates[of og rv] assms(2,3)
  show ?thesis by auto
qed

lemma reverse_entry_ledger:
  assumes "reverse_entry env rv og customer now nowMs d = Inr (response, d')" and "le_tenantId og = rv_tenantId rv"
  shows "\<exists>c. ledgerEntries d' = ledgerEntries d @ [c] \<and> compensates og c"
  using assms
  by (auto simp: reverse_entry_def reverse_earn_def reverse_adjustment_credit_def reverse_redeem_def
      reverse_adjustment_debit_def tx_bind_eq_Inr[of "tx_check _"] tx_bind_eq_Inr[of "tx_read _"] tx_check_eq_Inr
      split: LedgerEntryType.splits LedgerEntryDirection.splits option.splits
      intro: reverse_credit_ledger reverse_debit_ledger)

lemma entry_by_id_Some:
  "entry_by_id t i d = Some e \<Longrightarrow> e \<in> set (ledgerEntries d) \<and> le_tenantId e = t \<and> le_id e = i"
  by (auto simp: entry_by_id_def find_Some_iff)

lemma load_pair_stages:
  assumes "load_pair rv receiptId entries d = Inr pair"
  obtains i j c1 c2 where "entry_by_id (rv_tenantId rv) i d = Some (sp_earn pair)"
    "entry_by_id (rv_tenantId rv) j d = Some (sp_redeem pair)"
    "entry_redemption (sp_redeem pair) d = Some (sp_redemption pair)"
    "pair_ok rv receiptId (sp_earn pair) (sp_redeem pair) c1 c2 (sp_redemption pair)"
  using assms
  by (auto simp: load_pair_def Let_def res_bind_eq_Inr split: if_split_asm option.split_asm)

lemma load_pair_Inr:
  assumes "load_pair rv receiptId entries d = Inr pair"
  shows "sp_earn pair \<in> set (ledgerEntries d)" "sp_redeem pair \<in> set (ledgerEntries d)"
    "le_tenantId (sp_earn pair) = rv_tenantId rv" "le_tenantId (sp_redeem pair) = rv_tenantId rv"
    "le_direction (sp_earn pair) = LedgerEntryDirection.CREDIT" "le_direction (sp_redeem pair) = LedgerEntryDirection.DEBIT"
    "le_customerId (sp_earn pair) = le_customerId (sp_redeem pair)"
    "entry_redemption (sp_redeem pair) d = Some (sp_redemption pair)"
proof -
  obtain i j c1 c2 where e: "entry_by_id (rv_tenantId rv) i d = Some (sp_earn pair)"
    "entry_by_id (rv_tenantId rv) j d = Some (sp_redeem pair)"
    and r: "entry_redemption (sp_redeem pair) d = Some (sp_redemption pair)"
    and ok: "pair_ok rv receiptId (sp_earn pair) (sp_redeem pair) c1 c2 (sp_redemption pair)"
    by (rule load_pair_stages[OF assms])
  from entry_by_id_Some[OF e(1)] entry_by_id_Some[OF e(2)]
  show "sp_earn pair \<in> set (ledgerEntries d)" "sp_redeem pair \<in> set (ledgerEntries d)"
    "le_tenantId (sp_earn pair) = rv_tenantId rv" "le_tenantId (sp_redeem pair) = rv_tenantId rv" by simp_all
  show "entry_redemption (sp_redeem pair) d = Some (sp_redemption pair)" by (rule r)
  show "le_direction (sp_earn pair) = LedgerEntryDirection.CREDIT" "le_direction (sp_redeem pair) = LedgerEntryDirection.DEBIT"
    "le_customerId (sp_earn pair) = le_customerId (sp_redeem pair)"
    using ok by (simp_all add: pair_ok_def)
qed

lemma pair_writes_stages:
  assumes "pair_writes env rv receiptId og pair earnLot plan now nowMs d = Inr (response, d')"
  obtains e1 as d1 e2 d2 d3 where
    "take_back env rv (sp_earn pair) (lot_id earnLot) (le_amountKobo (sp_earn pair))
        (rv_requestHash rv @ '':earn-reversal'') now d = Inr ((e1, as), d1)"
    "exact_lot_used as earnLot (le_amountKobo (sp_earn pair))"
    "put_back env ''Original credit lot changed during grouped reversal'' rv (sp_redeem pair) plan
        (le_amountKobo (sp_redeem pair)) (rv_requestHash rv @ '':redeem-reversal'') now d1 = Inr (e2, d2)"
    "redemption_reversed rv (le_id (sp_redeem pair)) now d2 = Inr ((), d3)"
    "pair_finish env rv receiptId og pair plan (le_id e1) (le_id e2) as now nowMs d3 = Inr (response, d')"
  using assms by (auto simp: pair_writes_def pair_moves_def Let_def tx_bind_eq_Inr split: prod.splits)

lemma pair_writes_ledger:
  assumes "pair_writes env rv receiptId og pair earnLot plan now nowMs d = Inr (response, d')"
    and "load_pair rv receiptId entries d = Inr pair"
  obtains c1 c2 where "ledgerEntries d' = ledgerEntries d @ [c1, c2]"
    "compensates (sp_earn pair) c1" "le_amountKobo c1 = le_amountKobo (sp_earn pair)"
    "compensates (sp_redeem pair) c2" "le_amountKobo c2 = le_amountKobo (sp_redeem pair)"
proof -
  note lp = load_pair_Inr[OF assms(2)]
  obtain e1 as d1 e2 d2 d3 where
    t: "take_back env rv (sp_earn pair) (lot_id earnLot) (le_amountKobo (sp_earn pair))
        (rv_requestHash rv @ '':earn-reversal'') now d = Inr ((e1, as), d1)"
    and p: "put_back env ''Original credit lot changed during grouped reversal'' rv (sp_redeem pair) plan
        (le_amountKobo (sp_redeem pair)) (rv_requestHash rv @ '':redeem-reversal'') now d1 = Inr (e2, d2)"
    and r: "redemption_reversed rv (le_id (sp_redeem pair)) now d2 = Inr ((), d3)"
    and f: "pair_finish env rv receiptId og pair plan (le_id e1) (le_id e2) as now nowMs d3 = Inr (response, d')"
    by (rule pair_writes_stages[OF assms(1)])
  have "ledgerEntries d3 = ledgerEntries d2" "ledgerEntries d' = ledgerEntries d3"
    using tx_frameD[OF redemption_reversed_frame r, of ledgerEntries] tx_frameD[OF pair_finish_frame f, of ledgerEntries]
    by simp_all
  with take_back_ledger(1)[OF t] put_back_ledger(1)[OF p] have "ledgerEntries d' = ledgerEntries d @ [e1, e2]" by simp
  moreover obtain i j where e: "e1 = compensating_entry rv (sp_earn pair) LedgerEntryType.ADJUSTMENT LedgerEntryDirection.DEBIT
        (le_amountKobo (sp_earn pair)) (rv_requestHash rv @ '':earn-reversal'') now i"
      "e2 = compensating_entry rv (sp_redeem pair) LedgerEntryType.REVERSAL LedgerEntryDirection.CREDIT
        (le_amountKobo (sp_redeem pair)) (rv_requestHash rv @ '':redeem-reversal'') now j"
    using take_back_ledger(2)[OF t] put_back_ledger(2)[OF p] by blast
  moreover have "compensates (sp_earn pair) e1" "compensates (sp_redeem pair) e2"
    unfolding e by (rule compensating_entry_compensates; use lp in simp)+
  moreover have "le_amountKobo e1 = le_amountKobo (sp_earn pair)" "le_amountKobo e2 = le_amountKobo (sp_redeem pair)"
    unfolding e by (simp_all add: compensating_entry_def)
  ultimately show thesis using that by blast
qed

text \<open>The response stored under the key of a request.\<close>

definition reverse_replay :: "reverse_request \<Rightarrow> db \<Rightarrow> json option" where
  "reverse_replay rv d =
     (case reverse_record rv d of
        None \<Rightarrow> None
      | Some x \<Rightarrow> if idr_requestHash x = rv_requestHash rv then idr_responseJson x else None)"

lemma reverse_claim_cases:
  assumes "reverse_claim rv now d = Inr (existing, d1)"
  obtains response where "existing = Some response" "reverse_replay rv d = Some response" "d1 = d"
  | "existing = None" "reverse_record rv d = None"
    "idempotencyRecord_create (reverse_pending rv (now + IDP_EXPIRY_MS)) d = Inr ((), d1)"
  using assms
  by (auto simp: reverse_claim_def reverse_replay_def tx_bind_eq_Inr split: option.split_asm if_split_asm) metis

lemma reverse_transaction_stages:
  assumes "reverse_transaction env rv t d = Inr (response, d')"
  obtains existing d1 og customer where "reverse_claim rv (t 0) d = Inr (existing, d1)"
    "reverse_original rv d1 = Inr (og, customer)" "is_paired og d1"
    "reversePairedSettlement env rv (le_id og) (the (originalReceiptId og d1)) (receiptLedgerEntries og d1) existing
       (t 1) (t 2) d1 = Inr (response, d')"
  | existing d1 og customer where "reverse_claim rv (t 0) d = Inr (existing, d1)"
    "reverse_original rv d1 = Inr (og, customer)" "\<not> is_paired og d1"
    "reverse_single env rv og customer existing (t 1) (t 2) d1 = Inr (response, d')"
proof -
  from assms obtain existing d1 og customer where c: "reverse_claim rv (t 0) d = Inr (existing, d1)"
    and o: "reverse_original rv d1 = Inr (og, customer)"
    and r: "(if is_paired og d1 then reversePairedSettlement env rv (le_id og) (the (originalReceiptId og d1))
        (receiptLedgerEntries og d1) existing (t 1) (t 2)
      else reverse_single env rv og customer existing (t 1) (t 2)) d1 = Inr (response, d')"
    by (auto simp: reverse_transaction_def tx_bind_eq_Inr[of "reverse_claim _ _"] tx_bind_eq_Inr[of "tx_check _"]
        tx_bind_eq_Inr[of "tx_read _"] tx_check_eq_Inr split del: if_split)
  show thesis using c o r that by (cases "is_paired og d1") simp_all
qed

lemma reverse_original_Inr:
  "reverse_original rv d = Inr (og, customer) \<Longrightarrow>
   og \<in> set (ledgerEntries d) \<and> le_tenantId og = rv_tenantId rv \<and> le_id og = rv_transactionId rv"
  by (auto simp: reverse_original_def res_bind_eq_Inr dest: entry_by_id_Some split: option.split_asm if_split_asm)

lemma pair_history_Inr:
  assumes "pair_history rv receiptId existing pair d = Inr replay"
  shows "replay = None \<Longrightarrow> existing = None \<and> reversedByEntries (sp_earn pair) d = [] \<and> reversedByEntries (sp_redeem pair) d = []"
    and "replay = Some response \<Longrightarrow> existing = Some response"
  using assms by (auto simp: pair_history_def Let_def res_bind_eq_Inr split: if_split_asm option.split_asm)

text \<open>
  How a committed run ended: with the stored response, with one compensating entry, or with the two
  of a receipt, for entries nothing had reversed before.
\<close>

definition reversal_entries :: "db \<Rightarrow> LoyaltyLedgerEntry list \<Rightarrow> bool" where
  "reversal_entries d new =
     (length new \<le> 2 \<and> list_all (\<lambda>c. list_ex (\<lambda>og. compensates og c \<and> reversedByEntries og d = []) (ledgerEntries d)) new)"

lemma reverse_single_ledger:
  assumes "reverse_single env rv og customer existing now nowMs d = Inr (response, d')"
    and "og \<in> set (ledgerEntries d)" and "le_tenantId og = rv_tenantId rv"
  shows "(existing = Some response \<and> d' = d)
    \<or> (existing = None \<and> (\<exists>new. ledgerEntries d' = ledgerEntries d @ new \<and> new \<noteq> [] \<and> reversal_entries d new))"
proof (cases existing)
  case (Some r)
  with assms(1) show ?thesis by (simp add: reverse_single_def)
next
  case None
  with assms(1) have "reversedByEntries og d = []" "reverse_entry env rv og customer now nowMs d = Inr (response, d')"
    by (auto simp: reverse_single_def tx_bind_eq_Inr split: if_split_asm)
  with reverse_entry_ledger[OF _ assms(3)] obtain c where "ledgerEntries d' = ledgerEntries d @ [c]" "compensates og c"
    by blast
  with None assms(2) \<open>reversedByEntries og d = []\<close> show ?thesis
    by (auto simp: reversal_entries_def list_ex_iff intro!: exI[of _ "[c]"] bexI[of _ og])
qed

lemma reversePairedSettlement_ledger:
  assumes "reversePairedSettlement env rv og receiptId entries existing now nowMs d = Inr (response, d')"
  shows "(existing = Some response \<and> d' = d)
    \<or> (existing = None \<and> (\<exists>new. ledgerEntries d' = ledgerEntries d @ new \<and> new \<noteq> [] \<and> reversal_entries d new))"
proof -
  from assms obtain pair replay where lp: "load_pair rv receiptId entries d = Inr pair"
    and ph: "pair_history rv receiptId existing pair d = Inr replay"
    and rest: "(case replay of Some response \<Rightarrow> tx_return response
     | None \<Rightarrow> tx_bind (tx_check (pair_earn_lot rv pair now)) (\<lambda>earnLot.
         tx_bind (tx_check (pair_plan rv pair earnLot now)) (\<lambda>plan.
         pair_writes env rv receiptId og pair earnLot plan now nowMs))) d = Inr (response, d')"
    by (auto simp: reversePairedSettlement_def tx_bind_eq_Inr[of "tx_check (load_pair _ _ _)"]
        tx_bind_eq_Inr[of "tx_check (pair_history _ _ _ _)"] tx_check_eq_Inr)
  show ?thesis
  proof (cases replay)
    case (Some r)
    with rest pair_history_Inr(2)[OF ph] show ?thesis by simp
  next
    case None
    with rest obtain earnLot plan where "pair_writes env rv receiptId og pair earnLot plan now nowMs d = Inr (response, d')"
      by (auto simp: tx_bind_eq_Inr tx_check_eq_Inr)
    then obtain c1 c2 where c: "ledgerEntries d' = ledgerEntries d @ [c1, c2]"
      "compensates (sp_earn pair) c1" "compensates (sp_redeem pair) c2"
      by (rule pair_writes_ledger[OF _ lp])
    have "reversal_entries d [c1, c2]"
      using c(2,3) pair_history_Inr(1)[OF ph None] load_pair_Inr(1,2)[OF lp]
      by (auto simp: reversal_entries_def list_ex_iff)
    with c(1) pair_history_Inr(1)[OF ph None] show ?thesis by blast
  qed
qed

text \<open>
  C18: what a committed reversal leaves in the ledger: either nothing, when the key had a stored
  response, which it returns without any other change; or one or two new entries, each on the
  account of the entry it refers to, in the opposite direction, and for an entry nothing had
  reversed before.
\<close>

theorem reverse_transaction_compensates:
  assumes "reverse_transaction env rv t d = Inr (response, d')"
  shows "(reverse_replay rv d = Some response \<and> d' = d)
    \<or> (\<exists>new. ledgerEntries d' = ledgerEntries d @ new \<and> new \<noteq> [] \<and> length new \<le> 2
        \<and> (\<forall>c\<in>set new. \<exists>og\<in>set (ledgerEntries d). compensates og c \<and> reversedByEntries og d = []))"
proof -
  obtain existing d1 where cl: "reverse_claim rv (t 0) d = Inr (existing, d1)"
    and out: "(existing = Some response \<and> d' = d1)
    \<or> (existing = None \<and> (\<exists>new. ledgerEntries d' = ledgerEntries d1 @ new \<and> new \<noteq> [] \<and> reversal_entries d1 new))"
    using assms
  proof (cases rule: reverse_transaction_stages)
    case (1 existing d1 og customer)
    then show thesis using that reversePairedSettlement_ledger by blast
  next
    case (2 existing d1 og customer)
    then show thesis using that reverse_single_ledger[OF 2(4)] reverse_original_Inr[OF 2(2)] by blast
  qed
  have led: "ledgerEntries d1 = ledgerEntries d"
    using tx_frameD[OF reverse_records_frame(2) cl, of ledgerEntries] by simp
  from cl show ?thesis
  proof (cases rule: reverse_claim_cases)
    case (1 r)
    with out show ?thesis by auto
  next
    case 2
    with out obtain new where "ledgerEntries d' = ledgerEntries d @ new" "new \<noteq> []" "reversal_entries d1 new"
      using led by auto
    then show ?thesis
      by (auto simp: reversal_entries_def reversedByEntries_def led list_all_iff list_ex_iff)
  qed
qed

subsection \<open>The whole call\<close>

context session_invariant
begin

lemma reverse_loop_keeps:
  assumes "P d" and "session_keeps P sched (\<lambda>_ d. d)" and "\<And>t. tx_keeps P (reverse_transaction env rv t)"
  shows "P (snd (reverse_loop env rv sched clk k n d))"
  using assms(1)
proof (induction n arbitrary: k d)
  case (Suc n)
  obtain r d1 where r: "run_transaction sched k (reverse_transaction env rv (\<lambda>i. clk (3 * k + i))) d = (r, d1)"
    by fastforce
  have "P d1" by (rule run_transaction_keeps[OF Suc.prems assms(2,3) r])
  with Suc.IH[OF this] r show ?case by (auto split: sum.splits)
qed simp

lemma reverse_keeps:
  assumes "P d" and "session_keeps P sched (\<lambda>_ d. d)" and "\<And>rv t. tx_keeps P (reverse_transaction env rv t)"
  shows "P (snd (reverse env sched clk tenantId actor transactionId key reason d))"
proof (cases "reverse_prepare env tenantId actor transactionId key reason d")
  case (Inr rv)
  have m: "P (reverse_cleanup tenantId (actor_id actor) (rv_key rv) (clk 0) d)"
    using assms(1) by (simp add: reverse_cleanup_def deleteMany_keeps)
  show ?thesis
    using m reverse_loop_keeps[OF m assms(2,3)]
    by (auto simp: reverse_def Inr Let_def runReverseTransaction_def split: sum.splits option.splits)
qed (use assms in \<open>simp add: reverse_def\<close>)

end

lemma persistReverseIdempotency_replay:
  assumes "persistReverseIdempotency rv response now d = Inr (u, d')"
  shows "reverse_replay rv d' = Some response"
proof -
  have "reverse_record rv d \<noteq> None"
    using assms by (auto simp: persistReverseIdempotency_def require_updated_eq_Inr idempotencyRecord_updateMany_def
        count_where_def filter_empty_conv reverse_record_def idempotencyRecord_findUnique_def find_None_iff)
  moreover have "reverse_record rv d' = map_option (\<lambda>x. x\<lparr>idr_requestHash := rv_requestHash rv,
      idr_responseJson := Some response, idr_status := IdempotencyRecordStatus.COMPLETED,
      idr_expiresAt := now + IDP_EXPIRY_MS\<rparr>) (reverse_record rv d)"
    using assms by (auto simp: persistReverseIdempotency_def require_updated_eq_Inr is_record_def reverse_record_def
        dest!: idempotencyRecord_updateMany_find)
  ultimately show ?thesis by (auto simp: reverse_replay_def)
qed

lemma reverse_finish_replay:
  "reverse_finish env rv og c r e amount as rs now nowMs d = Inr (response, d') \<Longrightarrow> reverse_replay rv d' = Some response"
  by (auto simp: reverse_finish_def Let_def tx_bind_eq_Inr dest: persistReverseIdempotency_replay)

lemma pair_finish_replay:
  "pair_finish env rv r og pair plan e1 e2 as now nowMs d = Inr (response, d') \<Longrightarrow> reverse_replay rv d' = Some response"
  by (auto simp: pair_finish_def Let_def tx_bind_eq_Inr dest: persistReverseIdempotency_replay)

lemma reverse_entry_replay:
  "reverse_entry env rv og c now nowMs d = Inr (response, d') \<Longrightarrow> reverse_replay rv d' = Some response"
  by (auto simp: reverse_entry_def reverse_earn_def reverse_adjustment_credit_def reverse_redeem_def
      reverse_adjustment_debit_def reverse_credit_def reverse_debit_def tx_bind_eq_Inr tx_check_eq_Inr Let_def
      split: LedgerEntryType.splits LedgerEntryDirection.splits option.splits dest!: reverse_finish_replay)

lemma reverse_transaction_stores:
  assumes "reverse_transaction env rv t d = Inr (response, d')"
  shows "reverse_replay rv d' = Some response"
  using assms
proof (cases rule: reverse_transaction_stages)
  case (1 existing d1 og customer)
  consider "existing = Some response" "d' = d1" | pair earnLot plan where
    "pair_writes env rv (the (originalReceiptId og d1)) (le_id og) pair earnLot plan (t 1) (t 2) d1 = Inr (response, d')"
    using 1(4) pair_history_Inr(2)
    by (fastforce simp: reversePairedSettlement_def tx_bind_eq_Inr tx_check_eq_Inr split: option.split_asm)
  then show ?thesis
  proof cases
    case 1
    with \<open>reverse_claim rv (t 0) d = Inr (existing, d1)\<close> show ?thesis by (elim reverse_claim_cases) auto
  next
    case 2
    then show ?thesis by (elim pair_writes_stages) (rule pair_finish_replay)
  qed
next
  case (2 existing d1 og customer)
  show ?thesis
  proof (cases existing)
    case (Some r)
    with 2(1,4) show ?thesis by (elim reverse_claim_cases) (auto simp: reverse_single_def)
  next
    case None
    with 2(4) have "reverse_entry env rv og customer (t 1) (t 2) d1 = Inr (response, d')"
      by (auto simp: reverse_single_def tx_bind_eq_Inr split: if_split_asm)
    then show ?thesis by (rule reverse_entry_replay)
  qed
qed

lemma reverse_loop_stores:
  "reverse_loop env rv sched clk k n d = (Inr response, d') \<Longrightarrow> reverse_replay rv d' = Some response"
proof (induction n arbitrary: k d)
  case (Suc n)
  have tr: "reverse_replay rv d1 = Some x"
    if "run_transaction sched k (reverse_transaction env rv (\<lambda>i. clk (3 * k + i))) d = (Inr x, d1)" for x d1
    using that by (auto simp: run_transaction_def split: prod.splits option.splits sum.splits
        dest: reverse_transaction_stores)
  from Suc show ?case by (auto split: prod.splits sum.splits if_splits intro: tr)
qed simp

lemma reverse_precheck_Inr:
  "reverse_precheck False g rv existing = Inr (Some response) \<Longrightarrow>
   \<exists>x. existing = Some x \<and> idr_requestHash x = rv_requestHash rv \<and> idr_responseJson x = Some response"
  by (auto simp: reverse_precheck_def split: option.split_asm if_split_asm)

lemma reverse_stores:
  assumes "reverse env sched clk tenantId actor transactionId key reason d = (Inr response, d')"
    and "reverse_prepare env tenantId actor transactionId key reason d = Inr rv"
  shows "reverse_replay rv d' = Some response"
proof -
  let ?d = "reverse_cleanup tenantId (actor_id actor) (rv_key rv) (clk 0) d"
  let ?p = "pairedReceiptId tenantId transactionId d \<noteq> None"
  consider "reverse_precheck ?p (grouped_hash env rv d) rv (reverse_record rv ?d) = Inr (Some response)" "d' = ?d"
    | "runReverseTransaction env rv sched clk ?d = (Inr response, d')"
    using assms by (auto simp: reverse_def Let_def split: sum.split_asm option.split_asm)
  then show ?thesis
  proof cases
    case 1
    then have "\<not> ?p" by (auto simp: reverse_precheck_def split: option.split_asm if_split_asm)
    with 1 show ?thesis by (auto simp: reverse_replay_def dest!: reverse_precheck_Inr)
  qed (auto simp: runReverseTransaction_def dest: reverse_loop_stores)
qed

lemma reverse_cleanup_unexpired:
  assumes "\<forall>x\<in>set (idempotencyRecords d). now < idr_expiresAt x"
  shows "reverse_cleanup t a k now d = d"
  using adjustment_cleanup_unexpired[OF assms] by (simp add: adjustment_cleanup_def reverse_cleanup_def)

lemma reverse_prepare_unpaired:
  assumes "pairedReceiptId tenantId transactionId d = None" and "pairedReceiptId tenantId transactionId d' = None"
  shows "reverse_prepare env tenantId actor transactionId key reason d' = reverse_prepare env tenantId actor transactionId key reason d"
  using assms by (simp add: reverse_prepare_def)

lemma reverse_cleanup_record:
  assumes "reverse_record rv d = Some x" and "now < idr_expiresAt x"
  shows "reverse_record rv (reverse_cleanup t a k now d) = Some x"
  using assms unfolding reverse_record_def idempotencyRecord_findUnique_def
  by (auto simp: reverse_cleanup_def idempotencyRecord_deleteMany_def intro!: find_filter_Some)

text \<open>
  The reversal of an entry that is not one of a pair is idempotent: once it returned a response, a
  repetition with the same key before its record expires returns that response, if the hash tells the
  transaction from its receipt. It changes nothing but what its clean-up deletes: records of the actor under the same
  key that have expired, of whatever endpoint.
\<close>

lemma reverse_idempotent:
  assumes "reverse env sched clk tenantId actor transactionId key reason d = (Inr r, d')"
    and "reverse_prepare env tenantId actor transactionId key reason d = Inr rv"
    and "pairedReceiptId tenantId transactionId d = None" and "pairedReceiptId tenantId transactionId d' = None"
    and "\<And>q. candidateReceiptId tenantId transactionId d' = Some q \<Longrightarrow>
      reverse_hashRequest env tenantId (actor_id actor) q (js_trim reason)
      \<noteq> reverse_hashRequest env tenantId (actor_id actor) transactionId (js_trim reason)"
    and "\<And>x. reverse_record rv d' = Some x \<Longrightarrow> clk' 0 < idr_expiresAt x"
  shows "reverse env sched' clk' tenantId actor transactionId key reason d'
    = (Inr r, reverse_cleanup tenantId (actor_id actor) (rv_key rv) (clk' 0) d')"
proof -
  note p = assms(2)
  have p': "reverse_prepare env tenantId actor transactionId key reason d' = Inr rv"
    using p reverse_prepare_unpaired[OF assms(3,4)] by simp
  from reverse_stores[OF assms(1) p] obtain x where x: "reverse_record rv d' = Some x"
    "idr_requestHash x = rv_requestHash rv" "idr_responseJson x = Some r"
    by (auto simp: reverse_replay_def split: option.split_asm if_split_asm)
  have rv: "rv_requestHash rv = reverse_hashRequest env tenantId (actor_id actor) transactionId (js_trim reason)"
    "rv_reason rv = js_trim reason" "rv_tenantId rv = tenantId" "rv_actor rv = actor" "rv_transactionId rv = transactionId"
    using p assms(3) by (auto simp: reverse_prepare_def res_bind_eq_Inr reverse_normalizeReason_def Let_def split: if_split_asm)
  have "grouped_hash env rv d' \<noteq> Some (rv_requestHash rv)"
    using assms(5) by (auto simp: grouped_hash_def rv)
  then have "reverse_precheck False (grouped_hash env rv d') rv (Some x) = Inr (Some r)"
    using x(2,3) by (auto simp: reverse_precheck_def)
  with reverse_cleanup_record[OF x(1) assms(6)[OF x(1)]] assms(4) show ?thesis
    by (simp add: reverse_def p')
qed

subsection \<open>What a reversal leaves alone\<close>

lemma take_back_frame [frame_intros]:
  assumes "\<And>d v w. f (d\<lparr>idCounter := w, ledgerEntries := v\<rparr>) = f d"
    and "\<And>d v w. f (d\<lparr>idCounter := w, adjustments := v\<rparr>) = f d"
    and "\<And>d v. f (d\<lparr>creditLots := v\<rparr>) = f d"
    and "\<And>d v w. f (d\<lparr>idCounter := w, redemptionAllocations := v\<rparr>) = f d"
  shows "tx_frame f (take_back env rv og lotId amount c now)"
  unfolding take_back_def by (intro frame_intros assms)

lemma put_back_frame [frame_intros]:
  assumes "\<And>d v w. f (d\<lparr>idCounter := w, ledgerEntries := v\<rparr>) = f d"
    and "\<And>d v. f (d\<lparr>creditLots := v\<rparr>) = f d"
    and "\<And>d v w. f (d\<lparr>idCounter := w, allocationRestorations := v\<rparr>) = f d"
  shows "tx_frame f (put_back env message rv og plan amount c now)"
  unfolding put_back_def by (intro frame_intros assms)

lemma reverse_transaction_approvals: "tx_frame approvals (reverse_transaction env rv t)"
proof -
  have "tx_frame approvals (reverse_entry env rv og c now nowMs)" for og c now nowMs
    unfolding reverse_entry_def reverse_earn_def reverse_adjustment_credit_def reverse_redeem_def
      reverse_adjustment_debit_def reverse_credit_def reverse_debit_def Let_def
    by (cases "le_type og"; cases "le_direction og"; simp only: prod.case LedgerEntryType.case LedgerEntryDirection.case;
        intro frame_intros; simp)
  then have e: "tx_frame approvals (reverse_single env rv og c existing now nowMs)" for og c existing now nowMs
    unfolding reverse_single_def by (intro frame_intros)
  have "tx_frame approvals (reversePairedSettlement env rv og r entries existing now nowMs)" for og r entries existing now nowMs
    unfolding reversePairedSettlement_def pair_writes_def pair_moves_def Let_def by (intro frame_intros; simp)
  with e show ?thesis unfolding reverse_transaction_def by (intro frame_intros; simp)
qed

subsection \<open>Reversals at the demonstration shop\<close>

lemma persistReverseIdempotency_succeeds:
  "reverse_record rv d \<noteq> None \<Longrightarrow> \<exists>d'. persistReverseIdempotency rv response now d = Inr ((), d')"
  by (auto simp: persistReverseIdempotency_def require_updated_eq_Inr idempotencyRecord_updateMany_def count_where_def
      filter_empty_conv reverse_record_def idempotencyRecord_findUnique_def find_Some_iff)

lemma reverse_finish_succeeds:
  assumes "persistReverseNotification env (rv_tenantId rv) (cu_phoneE164 c) e (le_id og) r now d = Inr ((), d1)"
    and "reverse_record rv d1 \<noteq> None"
  shows "\<exists>response d'. reverse_finish env rv og c r e amount as rs now nowMs d = Inr (response, d')"
proof -
  obtain d2 where a: "reverse_audit rv (le_id og) e amount d1 = Inr ((), d2)" "idempotencyRecords d2 = idempotencyRecords d1"
    by (simp add: reverse_audit_def recordWithClient_def auditLog_create_def)
  have "reverse_record rv d2 \<noteq> None"
    using assms(2) a(2) idempotencyRecord_findUnique_cong[of d2 d1] by (simp add: reverse_record_def)
  from persistReverseIdempotency_succeeds[OF this] obtain d3 where
    "persistReverseIdempotency rv (reverse_response og e amount (getActiveBalanceKobo (rv_tenantId rv) (le_customerId og) now d)
      as rs now) nowMs d2 = Inr ((), d3)" by blast
  with assms(1) a(1) show ?thesis by (simp add: reverse_finish_def Let_def)
qed

lemma reverse_finish_records:
  assumes "reverse_finish env rv og c r e amount as rs now nowMs d = Inr (response, d')"
    and "\<forall>x\<in>set (idempotencyRecords d). t < idr_expiresAt x" and "t < nowMs + IDP_EXPIRY_MS"
  shows "\<forall>x\<in>set (idempotencyRecords d'). t < idr_expiresAt x"
proof -
  from assms(1) obtain d1 d2 where n: "persistReverseNotification env (rv_tenantId rv) (cu_phoneE164 c) e (le_id og) r now d = Inr ((), d1)"
    and a: "reverse_audit rv (le_id og) e amount d1 = Inr ((), d2)"
    and p: "persistReverseIdempotency rv response nowMs d2 = Inr ((), d')"
    by (auto simp: reverse_finish_def Let_def tx_bind_eq_Inr)
  have "idempotencyRecords d2 = idempotencyRecords d"
    using tx_frameD[OF persistReverseNotification_frame n, of idempotencyRecords]
      tx_frameD[OF reverse_audit_frame(1) a, of idempotencyRecords] by simp
  with p assms(2,3) show ?thesis
    by (auto simp: persistReverseIdempotency_def require_updated_eq_Inr idempotencyRecord_updateMany_def updated_def)
qed

definition demo_rv :: reverse_request where
  "demo_rv = \<lparr> rv_tenantId = ''T'', rv_actor = demo_admin, rv_transactionId = ''e1'', rv_reason = ''mistake'',
     rv_requestHash = reverse_hashRequest demo_env ''T'' ''W'' ''e1'' ''mistake'', rv_key = ''k9'' \<rparr>"

abbreviation demo_customer :: Customer where
  "demo_customer \<equiv> hd (customers demo_db)"

abbreviation demo_earned :: LoyaltyLedgerEntry where
  "demo_earned \<equiv> demo_entry ''e1'' 30000"

lemma demo_reverse_stages:
  "case reverse_claim demo_rv demo_now demo_db of Inl e \<Rightarrow> False | Inr (x, s1) \<Rightarrow> x = None \<and>
     reverse_original demo_rv s1 = Inr (demo_earned, demo_customer) \<and> \<not> is_paired demo_earned s1 \<and>
     reversedByEntries demo_earned s1 = [] \<and>
     reversible_lot demo_earned demo_now s1 = Inr (demo_lot ''l1'' ''e1'' 30000 1720000000000) \<and>
     (case take_back demo_env demo_rv demo_earned ''l1'' 30000 (rv_requestHash demo_rv) demo_now s1 of
        Inl e \<Rightarrow> False
      | Inr (p, s2) \<Rightarrow> ledger_net s2 (''T'', ''C'') = 90000
         \<and> list_all (\<lambda>x. demo_now < idr_expiresAt x) (idempotencyRecords s2)
         \<and> candidateReceiptId ''T'' ''e1'' s2 = None \<and>
         (case persistReverseNotification demo_env (rv_tenantId demo_rv) (cu_phoneE164 demo_customer) (le_id (fst p))
            (le_id demo_earned) None demo_now s2 of
            Inl e \<Rightarrow> False
          | Inr (u, s3) \<Rightarrow> reverse_record demo_rv s3 \<noteq> None))"
  by code_simp

lemma candidateReceiptId_cong:
  assumes "ledgerEntries d = ledgerEntries d'" and "redemptions d = redemptions d'"
  shows "candidateReceiptId t i d = candidateReceiptId t i d'"
proof -
  have "originalReceiptId e d = originalReceiptId e d'" for e
    using assms by (simp add: originalReceiptId_def entry_redemption_def split: option.split)
  with assms(1) show ?thesis by (simp add: candidateReceiptId_def entry_by_id_def cong: option.case_cong)
qed

lemma demo_reverse_run:
  obtains r d' where "reverse_transaction demo_env demo_rv (\<lambda>_. demo_now) demo_db = Inr (r, d')"
    and "ledger_net d' (''T'', ''C'') = 90000" and "\<forall>x\<in>set (idempotencyRecords d'). demo_now < idr_expiresAt x"
    and "candidateReceiptId ''T'' ''e1'' d' = None"
proof -
  from demo_reverse_stages obtain x s1 p s2 u s3 where cl: "reverse_claim demo_rv demo_now demo_db = Inr (x, s1)"
    and o: "x = None" "reverse_original demo_rv s1 = Inr (demo_earned, demo_customer)" "\<not> is_paired demo_earned s1"
      "reversedByEntries demo_earned s1 = []"
      "reversible_lot demo_earned demo_now s1 = Inr (demo_lot ''l1'' ''e1'' 30000 1720000000000)"
    and tb: "take_back demo_env demo_rv demo_earned ''l1'' 30000 (rv_requestHash demo_rv) demo_now s1 = Inr (p, s2)"
    and s2: "ledger_net s2 (''T'', ''C'') = 90000" "list_all (\<lambda>x. demo_now < idr_expiresAt x) (idempotencyRecords s2)"
      "candidateReceiptId ''T'' ''e1'' s2 = None"
    and no: "persistReverseNotification demo_env (rv_tenantId demo_rv) (cu_phoneE164 demo_customer) (le_id (fst p))
            (le_id demo_earned) None demo_now s2 = Inr (u, s3)" "reverse_record demo_rv s3 \<noteq> None"
    by (elim succeeds_caseE conjE) blast
  obtain r d' where f: "reverse_finish demo_env demo_rv demo_earned demo_customer None (le_id (fst p)) 30000
      (toReversalAllocations (snd p)) (JArr []) demo_now demo_now s2 = Inr (r, d')"
    using reverse_finish_succeeds[of demo_env demo_rv demo_customer "le_id (fst p)" demo_earned None demo_now s2 s3] no
    by fastforce
  have e: "le_type demo_earned = LedgerEntryType.EARN" "le_direction demo_earned = LedgerEntryDirection.CREDIT"
    "le_receiptId demo_earned = None" "lot_id (demo_lot ''l1'' ''e1'' 30000 1720000000000) = ''l1''"
    "lot_originalAmountKobo (demo_lot ''l1'' ''e1'' 30000 1720000000000) = 30000"
    by (simp_all add: demo_entry_def demo_lot_def)
  have "reverse_transaction demo_env demo_rv (\<lambda>_. demo_now) demo_db = Inr (r, d')"
    using cl o tb f
    by (simp add: reverse_transaction_def reverse_single_def reverse_entry_def reverse_earn_def reverse_credit_def e split_beta)
  moreover have "(ledgerEntries d', redemptions d') = (ledgerEntries s2, redemptions s2)"
    using tx_frameD[OF reverse_finish_frame f, of "\<lambda>d. (ledgerEntries d, redemptions d)"] by simp
  then have "ledger_net d' (''T'', ''C'') = 90000" "candidateReceiptId ''T'' ''e1'' d' = None"
    using s2(1,3) candidateReceiptId_cong[of d' s2] by (simp_all add: ledger_net_def)
  moreover have "\<forall>x\<in>set (idempotencyRecords d'). demo_now < idr_expiresAt x"
    by (rule reverse_finish_records[OF f]) (use s2(2) in \<open>auto simp: list_all_iff IDP_EXPIRY_MS_def\<close>)
  ultimately show thesis using that by blast
qed

lemma demo_evidenced: "lots_evidenced demo_db"
  by code_simp

theorem reverse_transaction_balance_witness:
  "\<exists>r d'. reverse_transaction demo_env demo_rv (\<lambda>_. demo_now) demo_db = Inr (r, d')
     \<and> books_balance d' \<and> active_balance (''T'', ''C'') demo_now d' = 90000"
proof -
  obtain r d' where t: "reverse_transaction demo_env demo_rv (\<lambda>_. demo_now) demo_db = Inr (r, d')"
    and n: "ledger_net d' (''T'', ''C'') = 90000" by (rule demo_reverse_run)
  have b: "active_balance (''T'', ''C'') demo_now demo_db = 120000" "ledger_net demo_db (''T'', ''C'') = 120000"
    by code_simp+
  from reverse_transaction_balance[OF t demo_books_balance demo_evidenced] n b
  have "books_balance d'" "active_balance (''T'', ''C'') demo_now d' = 90000"
    by (auto dest: spec[of _ "(''T'', ''C'')"] simp del: split_paired_All)
  with t show ?thesis by blast
qed

theorem reverse_transaction_compensates_witness:
  "\<exists>r d' new. reverse_transaction demo_env demo_rv (\<lambda>_. demo_now) demo_db = Inr (r, d')
     \<and> ledgerEntries d' = ledgerEntries demo_db @ new \<and> new \<noteq> []"
proof -
  obtain r d' where t: "reverse_transaction demo_env demo_rv (\<lambda>_. demo_now) demo_db = Inr (r, d')"
    by (rule demo_reverse_run)
  have "reverse_replay demo_rv demo_db = None" by code_simp
  with reverse_transaction_compensates[OF t] t show ?thesis by auto
qed

abbreviation demo_reverse :: "db \<Rightarrow> (svc_error + json) \<times> db" where
  "demo_reverse \<equiv> reverse demo_env alone (\<lambda>_. demo_now) ''T'' demo_admin ''e1'' (Some ''k9'') ''mistake''"

lemma demo_reverse_prepare:
  "reverse_prepare demo_env ''T'' demo_admin ''e1'' (Some ''k9'') ''mistake'' demo_db = Inr demo_rv"
proof -
  have n: "reverse_normalizeIdempotencyKey (Some ''k9'') = Inr ''k9''" "reverse_normalizeReason ''mistake'' = Inr ''mistake''"
    "pairedReceiptId ''T'' ''e1'' demo_db = None"
    by code_simp+
  show ?thesis unfolding reverse_prepare_def n by (simp add: demo_rv_def demo_admin_def)
qed

lemma demo_reverse_call:
  assumes "reverse_transaction demo_env demo_rv (\<lambda>_. demo_now) demo_db = Inr (r, d')"
  shows "demo_reverse demo_db = (Inr r, d')"
proof -
  note p = demo_reverse_prepare
  have n: "pairedReceiptId ''T'' ''e1'' demo_db = None" by code_simp
  have c: "reverse_cleanup ''T'' (actor_id demo_admin) (rv_key demo_rv) demo_now demo_db = demo_db"
    by (rule reverse_cleanup_unexpired) (simp add: demo_db_def)
  have "reverse_record demo_rv demo_db = None"
    by (simp add: reverse_record_def idempotencyRecord_findUnique_def demo_db_def)
  then show ?thesis
    using assms
    by (simp add: reverse_def p c n reverse_precheck_def runReverseTransaction_def REVERSAL_RETRY_ATTEMPTS_def numeral_3_eq_3
        run_transaction_alone)
qed

end
