(* ===== verification/Reversal_Roundtrip.thy ===== *)
theory Reversal_Roundtrip
  imports Reversals
begin

text \<open>
  Undoing is exact: the lots are followed through a debit and its reversal, and every lot ends with
  what it held before.
\<close>

subsection \<open>Lots under a debit and its restoration\<close>

definition adjusted :: "(string \<Rightarrow> int) \<Rightarrow> CreditLot list \<Rightarrow> CreditLot list" where
  "adjusted h ls = map (\<lambda>l. l\<lparr>lot_remainingAmountKobo := lot_remainingAmountKobo l + h (lot_id l)\<rparr>) ls"

lemma adjusted_adjusted: "adjusted h (adjusted k ls) = adjusted (\<lambda>i. k i + h i) ls"
  by (simp add: adjusted_def add.assoc)

lemma adjusted_zero: "(\<And>i. h i = 0) \<Longrightarrow> adjusted h ls = ls"
  by (simp add: adjusted_def)

lemma adjusted_ids [simp]: "map lot_id (adjusted h ls) = map lot_id ls"
  by (simp add: adjusted_def comp_def)

lemma updated_one_lot:
  assumes "distinct (map lot_id ls)" and "count_where p ls = 1" and "\<And>l. p l \<Longrightarrow> lot_id l = i"
    and "\<And>l. g l = lot_remainingAmountKobo l + v"
  shows "updated p (\<lambda>l. l\<lparr>lot_remainingAmountKobo := g l\<rparr>) ls = adjusted (\<lambda>j. if j = i then v else 0) ls"
proof -
  from assms(2) obtain r where r: "r \<in> set ls" "p r" by (rule count_where_oneE)
  have "p l = (lot_id l = i)" if "l \<in> set ls" for l
    using distinct_key_unique[OF assms(1) that r(1)] assms(3) r(2) by auto
  then show ?thesis using assms(4) by (auto simp: updated_def adjusted_def)
qed

lemma decrement_lot_lots:
  assumes "decrement_lot t c i v d = Inr (1, d')" and "distinct (map lot_id (creditLots d))"
  shows "creditLots d' = adjusted (\<lambda>j. if j = i then - v else 0) (creditLots d)"
  using assms(1) updated_one_lot[OF assms(2), of "\<lambda>l. lot_id l = i \<and> (lot_tenantId l = t \<and> lot_customerId l = c
           \<and> v \<le> lot_remainingAmountKobo l)" i "\<lambda>l. lot_remainingAmountKobo l - v" "- v"]
  by (simp add: decrement_lot_eq_Inr)

lemma increment_lot_lots:
  assumes "increment_lot t c i v d = Inr (1, d')" and "distinct (map lot_id (creditLots d))"
  shows "creditLots d' = adjusted (\<lambda>j. if j = i then v else 0) (creditLots d)"
  using assms(1) updated_one_lot[OF assms(2), of "\<lambda>l. lot_id l = i \<and> (lot_tenantId l = t \<and> lot_customerId l = c)"
      i "\<lambda>l. lot_remainingAmountKobo l + v" v]
  by (auto simp: increment_lot_def creditLot_updateMany_def)

lemma applyAllocations_lots:
  "tx_for as (applyAllocation input) d = Inr (u, d') \<Longrightarrow> distinct (map lot_id (creditLots d)) \<Longrightarrow>
   creditLots d' = adjusted (\<lambda>i. - sum_where (\<lambda>a. pa_creditLotId a = i) pa_amountKobo as) (creditLots d)"
proof (induction as arbitrary: d)
  case (Cons a as)
  from Cons.prems(1) obtain d1 where
    a: "decrement_lot (in_tenantId input) (in_customerId input) (pa_creditLotId a) (pa_amountKobo a) d = Inr (1, d1)"
    and rest: "tx_for as (applyAllocation input) d1 = Inr (u, d')"
    by (auto simp: tx_bind_eq_Inr applyAllocation_eq_Inr)
  note l = decrement_lot_lots[OF a Cons.prems(2)]
  from Cons.IH[OF rest] Cons.prems(2) show ?case
    by (simp add: l adjusted_adjusted) (auto simp: adjusted_def)
qed (simp add: adjusted_zero)

lemma put_back_lots:
  "tx_for plan (put_back_one env message t c e) d = Inr (u, d') \<Longrightarrow> distinct (map lot_id (creditLots d)) \<Longrightarrow>
   creditLots d' = adjusted (\<lambda>i. sum_where (\<lambda>r. pl_creditLotId r = i) pl_amountKobo plan) (creditLots d)"
proof (induction plan arbitrary: d)
  case (Cons r plan)
  from Cons.prems(1) obtain d2 where one: "put_back_one env message t c e r d = Inr ((), d2)"
    and rest: "tx_for plan (put_back_one env message t c e) d2 = Inr (u, d')"
    by (auto simp: tx_bind_eq_Inr)
  from one obtain d1 mk row where i: "increment_lot t c (pl_creditLotId r) (pl_amountKobo r) d = Inr (1, d1)"
    and ar: "allocationRestoration_create env mk d1 = Inr (row, d2)"
    by (auto simp: put_back_one_def tx_bind_eq_Inr)
  have "creditLots d2 = creditLots d1"
    using tx_frameD[OF allocationRestoration_create_frame ar, of creditLots] by simp
  with increment_lot_lots[OF i Cons.prems(2)] Cons.IH[OF rest] Cons.prems(2) show ?case
    by (simp add: adjusted_adjusted) (auto simp: adjusted_def)
qed (simp add: adjusted_zero)

lemma sum_where_perm: "mset xs = mset ys \<Longrightarrow> sum_where p v xs = sum_where p v ys"
  unfolding sum_where_def by (metis mset_filter mset_map sum_mset_sum_list)

lemma sum_where_list_all2:
  "list_all2 (\<lambda>x y. p x = q y \<and> v x = w y) xs ys \<Longrightarrow> sum_where p v xs = sum_where q w ys"
  by (induction rule: list_all2_induct) auto

text \<open>What the plan puts back into a lot is what the allocations of the debit still owe it.\<close>

lemma planRestorations_per_lot:
  assumes "planRestorations t e now d = Inr plan"
  shows "sum_where (\<lambda>r. pl_creditLotId r = i) pl_amountKobo plan =
    sum_where (\<lambda>a. ra_creditLotId a = i) (\<lambda>a. ra_amountKobo a - restoredAmount a d) (debitAllocations t e d)"
proof -
  from assms obtain ps where ps: "list_all2 (\<lambda>a p. planRestoration now d a = Inr p) (debitAllocations t e d) ps"
    and plan: "plan = filter (\<lambda>r. pl_amountKobo r > 0) ps"
    by (auto simp: planRestorations_def map_results_Inr[symmetric] Let_def split: sum.splits if_splits)
  have "list_all2 (\<lambda>a p. pl_creditLotId p = ra_creditLotId a \<and> pl_amountKobo p = ra_amountKobo a - restoredAmount a d
      \<and> 0 \<le> pl_amountKobo p) (debitAllocations t e d) ps"
    using ps by (rule list_all2_mono) (auto dest: planRestoration_Inr)
  then have "sum_where (\<lambda>r. pl_creditLotId r = i) pl_amountKobo (filter (\<lambda>r. pl_amountKobo r > 0) ps) =
      sum_where (\<lambda>a. ra_creditLotId a = i) (\<lambda>a. ra_amountKobo a - restoredAmount a d) (debitAllocations t e d)"
    by (induction rule: list_all2_induct) auto
  then show ?thesis by (simp add: plan)
qed

lemma debit_then_restore:
  assumes "allocateDebit env input d = Inr (as, d1)" and "lots_evidenced d"
    and "\<And>a. a \<in> set (redemptionAllocations d) \<Longrightarrow> ra_redemptionLedgerEntryId a \<noteq> in_debitLedgerEntryId input"
    and "evidence_view d2 = evidence_view d1"
    and "planRestorations (in_tenantId input) (in_debitLedgerEntryId input) now d2 = Inr plan"
    and "evidence_view d3 = evidence_view d2"
    and "tx_for plan (put_back_one env' message t c e) d3 = Inr (u, d4)"
  shows "creditLots d4 = creditLots d"
proof -
  let ?t = "in_tenantId input" and ?e = "in_debitLedgerEntryId input"
  from assms(1) obtain dc where cr: "createAllocations env input as d = Inr ((), dc)"
    and ap: "tx_for as (applyAllocation input) dc = Inr ((), d1)"
    by (auto simp: allocateDebit_def persistAllocations_def tx_bind_eq_Inr tx_lift_eq_Inr lockEligibleLots_def)
  have lots: "creditLots dc = creditLots d" and rs: "allocationRestorations dc = allocationRestorations d"
    using tx_frameD[OF createAllocations_frame cr, of creditLots]
      tx_frameD[OF createAllocations_frame cr, of allocationRestorations] by simp_all
  have "redemptionAllocations d1 = redemptionAllocations dc" "allocationRestorations d1 = allocationRestorations dc"
    using tx_frameD[OF tx_frame_for ap, of redemptionAllocations] applyAllocation_frame[of redemptionAllocations]
      tx_frameD[OF tx_frame_for ap, of allocationRestorations] applyAllocation_frame[of allocationRestorations] by simp_all
  moreover obtain new where new: "redemptionAllocations dc = redemptionAllocations d @ new"
    and l2: "list_all2 (\<lambda>a n. ra_tenantId n = ?t \<and> ra_redemptionId n = in_redemptionId input
         \<and> ra_adjustmentId n = in_adjustmentId input \<and> ra_redemptionLedgerEntryId n = ?e
         \<and> ra_creditLotId n = pa_creditLotId a \<and> ra_amountKobo n = pa_amountKobo a
         \<and> ra_allocationOrder n = pa_allocationOrder a) as new"
    using createAllocations_rows[OF cr] by blast
  ultimately have v2: "redemptionAllocations d2 = redemptionAllocations d @ new"
    "allocationRestorations d2 = allocationRestorations d"
    using assms(4) rs by simp_all
  have mine: "ra_tenantId n = ?t \<and> ra_redemptionLedgerEntryId n = ?e" if "n \<in> set new" for n
    using list_all2_member(2)[OF l2 that] by blast
  have "filter (\<lambda>a. ra_tenantId a = ?t \<and> ra_redemptionLedgerEntryId a = ?e) (redemptionAllocations d2) = new"
    using assms(3) mine by (auto simp: v2 filter_id_conv filter_empty_conv)
  then have da: "mset (debitAllocations ?t ?e d2) = mset new" by (simp add: debitAllocations_def)
  have "lots_evidenced d1" using tx_relD[OF allocateDebit_evidence assms(1)] assms(2) by (simp add: evidence_kept_def)
  then have dist: "distinct (map ra_id (redemptionAllocations d @ new))"
    using assms(4) v2 by (simp add: lots_evidenced_def evidence_at_def)
  have unrestored: "restoredAmount n d2 = 0" if "n \<in> set new" for n
  proof -
    have "\<not> (ar_tenantId r = ra_tenantId n \<and> ar_allocationId r = ra_id n)" if "r \<in> set (allocationRestorations d)" for r
    proof -
      obtain a where "a \<in> set (redemptionAllocations d)" "restores a r"
        using assms(2) \<open>r \<in> set (allocationRestorations d)\<close> by (auto simp: lots_evidenced_def evidence_at_def list_all_iff restoration_ok_def list_ex_iff)
      then show ?thesis using dist \<open>n \<in> set new\<close> by (auto simp: restores_def)
    qed
    then show ?thesis unfolding restoredAmount_def v2 by (intro sum_where_none) blast
  qed
  have same: "sum_where (\<lambda>r. pl_creditLotId r = i) pl_amountKobo plan = sum_where (\<lambda>a. pa_creditLotId a = i) pa_amountKobo as" for i
  proof -
    have "sum_where (\<lambda>r. pl_creditLotId r = i) pl_amountKobo plan =
        sum_where (\<lambda>a. ra_creditLotId a = i) (\<lambda>a. ra_amountKobo a - restoredAmount a d2) new"
      unfolding planRestorations_per_lot[OF assms(5)] by (rule sum_where_perm[OF da])
    also have "\<dots> = sum_where (\<lambda>a. ra_creditLotId a = i) ra_amountKobo new"
      by (rule sum_where_cong) (simp add: unrestored)
    also have "\<dots> = sum_where (\<lambda>a. pa_creditLotId a = i) pa_amountKobo as"
      by (rule sum_where_list_all2[symmetric]) (use l2 in \<open>auto elim: list_all2_mono\<close>)
    finally show ?thesis .
  qed
  have ids: "distinct (map lot_id (creditLots d))"
    using assms(2) by (simp add: lots_evidenced_def evidence_at_def)
  note a = applyAllocations_lots[OF ap, unfolded lots, OF ids]
  have "creditLots d3 = creditLots d1" using assms(4,6) by simp
  with put_back_lots[OF assms(7)] ids show ?thesis
    by (simp add: a adjusted_adjusted same adjusted_zero)
qed

subsection \<open>A debit adjustment and its reversal\<close>

text \<open>The foreign keys from allocations and redemptions to the ledger.\<close>

definition ledger_refs :: "db \<Rightarrow> bool" where
  "ledger_refs d =
     (list_all (\<lambda>a. list_ex (\<lambda>e. le_id e = ra_redemptionLedgerEntryId a) (ledgerEntries d)) (redemptionAllocations d)
      \<and> list_all (\<lambda>r. rd_ledgerEntryId r = None \<or> list_ex (\<lambda>e. Some (le_id e) = rd_ledgerEntryId r) (ledgerEntries d))
          (redemptions d))"

lemma adjustment_debit_run:
  assumes "adjustment_transaction env aq t d = Inr (response, d1)" and "aq_kind aq = AdjustmentKind.DEBIT"
  obtains entry dr input as da where
    "ledgerEntries d1 = ledgerEntries d @ [entry]" "le_tenantId entry = aq_tenantId aq" "le_receiptId entry = None"
    "le_type entry = LedgerEntryType.ADJUSTMENT" "le_direction entry = LedgerEntryDirection.DEBIT"
    "list_all (\<lambda>e. le_id e \<noteq> le_id entry) (ledgerEntries d)" "redemptions d1 = redemptions d"
    "evidence_view dr = evidence_view d" "allocateDebit env input dr = Inr (as, da)"
    "in_tenantId input = aq_tenantId aq" "in_debitLedgerEntryId input = le_id entry"
    "evidence_view d1 = evidence_view da"
proof -
  obtain customer d0 d2 where
    ic: "idempotencyRecord_create
       \<lparr> idr_tenantId = aq_tenantId aq, idr_actorId = actor_id (aq_actor aq),
         idr_endpoint = ADJUSTMENTS_ENDPOINT, idr_idempotencyKey = aq_key aq,
         idr_requestHash = aq_requestHash aq, idr_responseJson = None,
         idr_status = IdempotencyRecordStatus.PENDING, idr_expiresAt = t 0 + IDP_EXPIRY_MS \<rparr> d = Inr ((), d0)"
    and b: "(case aq_kind aq of AdjustmentKind.CREDIT \<Rightarrow> adjustment_credit env aq customer (t 1)
        | AdjustmentKind.DEBIT \<Rightarrow> adjustment_debit env aq customer (t 1)) d0 = Inr (response, d2)"
    and pe: "persistAdjustmentIdempotency aq response (t 2) d2 = Inr ((), d1)"
    by (rule adjustment_transaction_stages[OF assms(1)])
  from b assms(2) have body: "adjustment_debit env aq customer (t 1) d0 = Inr (response, d2)" by simp
  obtain entry adjustment dr as da where
    rows: "adjustment_rows env aq customer d0 = Inr ((entry, adjustment), dr)"
    and al: "allocateDebit env
       \<lparr> in_tenantId = aq_tenantId aq, in_customerId = cu_id customer, in_creditLotId = None,
         in_debitLedgerEntryId = le_id entry, in_amountKobo = aq_amountKobo aq, in_now = t 1,
         in_redemptionId = None, in_adjustmentId = Some (adj_id adjustment),
         in_excludedCreditLotIds = [] \<rparr> dr = Inr (as, da)" (is "allocateDebit env ?in dr = _")
    and no: "adjustment_notify env aq customer (le_id entry) (adj_id adjustment)
       (getActiveBalanceKobo (aq_tenantId aq) (cu_id customer) (t 1) da) (t 1) da = Inr ((), d2)"
    by (rule adjustment_debit_stages[OF body])
  let ?f = "\<lambda>d. (evidence_view d, redemptions d, ledgerEntries d)"
  have f1: "?f d0 = ?f d" using tx_frameD[OF idempotencyRecord_create_frame ic, of ?f] by simp
  have f2: "?f d2 = ?f da" using tx_frameD[OF adjustment_notify_frame no, of ?f] by simp
  have f3: "?f d1 = ?f d2" using tx_frameD[OF persistAdjustmentIdempotency_frame pe, of ?f] by simp
  have f4: "ledgerEntries da = ledgerEntries dr" "redemptions da = redemptions dr"
    using tx_frameD[OF allocateDebit_frame(1) al, of ledgerEntries] tx_frameD[OF allocateDebit_frame(1) al, of redemptions]
    by simp_all
  from rows have "ledgerEntries dr = ledgerEntries d0 @ [entry] \<and> le_tenantId entry = aq_tenantId aq
      \<and> le_receiptId entry = None \<and> le_type entry = LedgerEntryType.ADJUSTMENT
      \<and> le_direction entry = LedgerEntryDirection.DEBIT \<and> list_all (\<lambda>e. le_id e \<noteq> le_id entry) (ledgerEntries d0)
      \<and> redemptions dr = redemptions d0 \<and> evidence_view dr = evidence_view d0"
    using assms(2)
    by (auto simp: adjustment_rows_def tx_bind_eq_Inr loyaltyLedgerEntry_create_def adjustment_create_def create_row_eq_Inr
        first_violation_None loyaltyLedgerEntry_constraints_def list_ex_iff list_all_iff split: if_split_asm)
  then show thesis
    by (intro that[of entry dr ?in as da]) (use f1 f2 f3 f4 al in auto)
qed

lemma reverse_debit_run:
  assumes "reverse_debit env rv og c r settles now nowMs d = Inr (response, d')"
  obtains plan message e dp u d4 where "planRestorations (rv_tenantId rv) (le_id og) now d = Inr plan"
    "evidence_view dp = evidence_view d"
    "tx_for plan (put_back_one env message (rv_tenantId rv) (le_customerId og) e) dp = Inr (u, d4)"
    "evidence_view d' = evidence_view d4"
proof -
  from assms obtain plan entry d1 d2 where pl: "planRestorations (rv_tenantId rv) (le_id og) now d = Inr plan"
    and p: "put_back env ''Original credit lot changed during reversal'' rv og plan (sum_list (map pl_amountKobo plan))
      (rv_requestHash rv) now d = Inr (entry, d1)"
    and s: "(if settles then redemption_reversed rv (le_id og) now else tx_return ()) d1 = Inr ((), d2)"
    and f: "reverse_finish env rv og c r (le_id entry) (sum_list (map pl_amountKobo plan)) (JArr [])
      (restorations_json plan) now nowMs d2 = Inr (response, d')"
    by (auto simp: reverse_debit_def tx_bind_eq_Inr tx_check_eq_Inr Let_def)
  from p obtain mk dp u where le: "loyaltyLedgerEntry_create env mk d = Inr (entry, dp)"
    and fo: "tx_for plan (put_back_one env ''Original credit lot changed during reversal'' (rv_tenantId rv)
      (le_customerId og) (le_id entry)) dp = Inr (u, d1)"
    by (auto simp: put_back_def tx_bind_eq_Inr)
  have "evidence_view dp = evidence_view d" using tx_frameD[OF loyaltyLedgerEntry_create_frame le, of evidence_view] by simp
  moreover have "evidence_view d2 = evidence_view d1"
    using s tx_frameD[OF redemption_reversed_frame, of evidence_view] by (auto split: if_splits)
  moreover have "evidence_view d' = evidence_view d2" using tx_frameD[OF reverse_finish_frame f, of evidence_view] by simp
  ultimately show thesis using that[OF pl _ fo] by simp
qed

text \<open>
  C19: a debit adjustment and its reversal cancel: whatever lots the debit drew on, after both have
  committed every lot of the database is what it was before.
\<close>

theorem adjustment_debit_reversed:
  assumes "adjustment_transaction env aq t d = Inr (response, d1)" and "aq_kind aq = AdjustmentKind.DEBIT"
    and "lots_evidenced d" and "ledger_refs d"
    and "rv_tenantId rv = aq_tenantId aq" and "rv_transactionId rv = le_id (last (ledgerEntries d1))"
    and "reverse_record rv d1 = None"
    and "reverse_transaction env' rv t' d1 = Inr (response', d2)"
  shows "creditLots d2 = creditLots d"
proof -
  obtain entry dr input as da where
    e: "ledgerEntries d1 = ledgerEntries d @ [entry]" "le_tenantId entry = aq_tenantId aq" "le_receiptId entry = None"
    "le_type entry = LedgerEntryType.ADJUSTMENT" "le_direction entry = LedgerEntryDirection.DEBIT"
    "list_all (\<lambda>e. le_id e \<noteq> le_id entry) (ledgerEntries d)" "redemptions d1 = redemptions d"
    and v: "evidence_view dr = evidence_view d" and al: "allocateDebit env input dr = Inr (as, da)"
    and i: "in_tenantId input = aq_tenantId aq" "in_debitLedgerEntryId input = le_id entry"
    and v1: "evidence_view d1 = evidence_view da"
    by (rule adjustment_debit_run[OF assms(1,2)])
  obtain existing dc where cl: "reverse_claim rv (t' 0) d1 = Inr (existing, dc)"
    using assms(8) by (auto elim: reverse_transaction_stages)
  have none: "existing = None" using cl assms(7) by (elim reverse_claim_cases) (auto simp: reverse_replay_def)
  have fc: "(evidence_view dc, redemptions dc, ledgerEntries dc) = (evidence_view d1, redemptions d1, ledgerEntries d1)"
    using tx_frameD[OF reverse_records_frame(2) cl, of "\<lambda>d. (evidence_view d, redemptions d, ledgerEntries d)"] by simp
  have nr: "entry_redemption entry dc = None"
    using assms(4) e(6,7) fc by (force simp: entry_redemption_def find_None_iff ledger_refs_def list_all_iff list_ex_iff)
  have np: "\<not> is_paired entry dc"
    by (simp add: is_paired_def originalReceiptId_def e(3) nr truthy_def)
  have "find (\<lambda>x. le_tenantId x = rv_tenantId rv \<and> le_id x = rv_transactionId rv) (ledgerEntries d) = None"
    using e(6) assms(6) by (auto simp: find_None_iff list_all_iff e(1))
  then have found: "entry_by_id (rv_tenantId rv) (rv_transactionId rv) dc = Some entry"
    using fc e(1,2) assms(5,6) by (simp add: entry_by_id_def find_append_None)
  have og: "og = entry" if "reverse_original rv dc = Inr (og, customer)" for og customer
    using that by (auto simp: reverse_original_def found res_bind_eq_Inr split: if_split_asm)
  obtain customer where run: "reverse_single env' rv entry customer existing (t' 1) (t' 2) dc = Inr (response', d2)"
    using assms(8) cl np og by (elim reverse_transaction_stages) auto
  then have "reverse_debit env' rv entry customer None False (t' 1) (t' 2) dc = Inr (response', d2)"
    by (auto simp: none reverse_single_def tx_bind_eq_Inr reverse_entry_def e(4,5) reverse_adjustment_debit_def
        split: if_split_asm)
  then obtain plan message x dp u d4 where plan: "planRestorations (rv_tenantId rv) (le_id entry) (t' 1) dc = Inr plan"
    and vp: "evidence_view dp = evidence_view dc"
    and pb: "tx_for plan (put_back_one env' message (rv_tenantId rv) (le_customerId entry) x) dp = Inr (u, d4)"
    and v2: "evidence_view d2 = evidence_view d4"
    by (rule reverse_debit_run)
  have ev: "lots_evidenced dr" using assms(3) lots_evidenced_view[OF v] by simp
  have "ra_redemptionLedgerEntryId a \<noteq> in_debitLedgerEntryId input" if "a \<in> set (redemptionAllocations dr)" for a
    using assms(4) that v e(6) by (force simp: i ledger_refs_def list_all_iff list_ex_iff)
  then have "creditLots d4 = creditLots dr"
    using debit_then_restore[OF al ev, of dc "t' 1" plan dp env' message "rv_tenantId rv" "le_customerId entry" x u d4]
      plan vp pb fc v1 i assms(5) by simp
  then show ?thesis using v v2 by simp
qed

subsection \<open>A debit taken back at the demonstration shop\<close>

abbreviation demo_undo :: "db \<Rightarrow> reverse_request" where
  "demo_undo d \<equiv> demo_rv\<lparr>rv_transactionId := le_id (last (ledgerEntries d))\<rparr>"

lemma demo_undo_stages:
  "case adjustment_transaction demo_env (demo_aq AdjustmentKind.DEBIT 50000) (\<lambda>_. demo_now) demo_db of
     Inl e \<Rightarrow> False
   | Inr (r, d1) \<Rightarrow> reverse_record demo_rv d1 = None \<and>
      (let og = last (ledgerEntries d1) in
       case reverse_claim demo_rv demo_now d1 of
         Inl e \<Rightarrow> False
       | Inr (x, s1) \<Rightarrow> x = None \<and> reverse_original (demo_undo d1) s1 = Inr (og, demo_customer) \<and> \<not> is_paired og s1
          \<and> reversedByEntries og s1 = [] \<and> le_type og = LedgerEntryType.ADJUSTMENT
          \<and> le_direction og = LedgerEntryDirection.DEBIT \<and>
          (case tx_check (planRestorations ''T'' (le_id og) demo_now) s1 of
             Inl e \<Rightarrow> False
           | Inr (plan, s) \<Rightarrow>
             (case put_back demo_env ''Original credit lot changed during reversal'' (demo_undo d1) og plan
                (sum_list (map pl_amountKobo plan)) (rv_requestHash demo_rv) demo_now s of
                Inl e \<Rightarrow> False
              | Inr (entry, s2) \<Rightarrow>
                (case persistReverseNotification demo_env ''T'' (cu_phoneE164 demo_customer) (le_id entry)
                   (le_id og) None demo_now s2 of
                   Inl e \<Rightarrow> False
                 | Inr (u, s3) \<Rightarrow> reverse_record demo_rv s3 \<noteq> None))))"
  by code_simp

theorem adjustment_debit_reversed_witness:
  "\<exists>r d1 r' d2. adjustment_transaction demo_env (demo_aq AdjustmentKind.DEBIT 50000) (\<lambda>_. demo_now) demo_db = Inr (r, d1)
     \<and> reverse_transaction demo_env (demo_undo d1) (\<lambda>_. demo_now) d1 = Inr (r', d2)
     \<and> creditLots d2 = creditLots demo_db"
proof -
  from demo_undo_stages obtain r d1 s1 plan s entry s2 u s3 where
    a: "adjustment_transaction demo_env (demo_aq AdjustmentKind.DEBIT 50000) (\<lambda>_. demo_now) demo_db = Inr (r, d1)"
    and n: "reverse_record demo_rv d1 = None" and cl: "reverse_claim demo_rv demo_now d1 = Inr (None, s1)"
    and og: "reverse_original (demo_undo d1) s1 = Inr (last (ledgerEntries d1), demo_customer)"
      "\<not> is_paired (last (ledgerEntries d1)) s1" "reversedByEntries (last (ledgerEntries d1)) s1 = []"
      "le_type (last (ledgerEntries d1)) = LedgerEntryType.ADJUSTMENT"
      "le_direction (last (ledgerEntries d1)) = LedgerEntryDirection.DEBIT"
    and pl: "tx_check (planRestorations ''T'' (le_id (last (ledgerEntries d1))) demo_now) s1 = Inr (plan, s)"
    and pb: "put_back demo_env ''Original credit lot changed during reversal'' (demo_undo d1) (last (ledgerEntries d1)) plan
        (sum_list (map pl_amountKobo plan)) (rv_requestHash demo_rv) demo_now s = Inr (entry, s2)"
    and no: "persistReverseNotification demo_env ''T'' (cu_phoneE164 demo_customer) (le_id entry)
        (le_id (last (ledgerEntries d1))) None demo_now s2 = Inr (u, s3)" "reverse_record demo_rv s3 \<noteq> None"
    unfolding Let_def by (elim succeeds_caseE conjE) blast
  have rv: "rv_tenantId (demo_undo d1) = ''T''" "reverse_record (demo_undo d1) = reverse_record demo_rv"
    "reverse_claim (demo_undo d1) = reverse_claim demo_rv" "rv_requestHash (demo_undo d1) = rv_requestHash demo_rv"
    by (simp_all add: demo_rv_def reverse_record_def reverse_claim_def reverse_pending_def fun_eq_iff split: option.split)
  obtain r' d2 where f: "reverse_finish demo_env (demo_undo d1) (last (ledgerEntries d1)) demo_customer None (le_id entry)
      (sum_list (map pl_amountKobo plan)) (JArr []) (restorations_json plan) demo_now demo_now s2 = Inr (r', d2)"
    using reverse_finish_succeeds[of demo_env "demo_undo d1" demo_customer "le_id entry" "last (ledgerEntries d1)" None demo_now s2 s3]
      no rv by fastforce
  have t: "reverse_transaction demo_env (demo_undo d1) (\<lambda>_. demo_now) d1 = Inr (r', d2)"
    using cl og pl pb f rv
    by (simp add: reverse_transaction_def reverse_single_def reverse_entry_def reverse_adjustment_debit_def reverse_debit_def
        Let_def split_beta)
  have "ledger_refs demo_db" by code_simp
  from adjustment_debit_reversed[OF a _ demo_evidenced this _ _ _ t] n rv a t show ?thesis
    by (auto simp: demo_aq_def demo_rv_def)
qed

end
