(* ===== verification/Earn.thy ===== *)
theory Earn
  imports Redemptions
begin

text \<open>
  \<^verbatim>\<open>src/modules/loyalty/loyalty.service.ts\<close>, \<open>LoyaltyService.earn\<close>: the capture of a purchase
  receipt. A receipt of an ordinary purchase earns credit at once; a large purchase and a late claim
  wait for a supervisor. The method is split at its blank lines into stages. The clock readings of
  one call are \<open>clk 0\<close> (clean-up), \<open>clk 1\<close> (receipt of the request), \<open>clk 2\<close> (timestamp check) and
  \<open>clk (2 + k)\<close> (attempt \<open>k\<close>); \<open>sched\<close> is what other sessions commit before attempt \<open>k\<close> and whether
  the engine aborts it, \<open>others k\<close> what they commit before its error handling reads.
\<close>

subsection \<open>Request\<close>

record EarnTransactionDto =
  edto_posReceiptNumber :: string
  edto_cardSerialNumber :: string
  edto_purchaseAmountKobo :: int
  edto_occurredAt :: string
  edto_overrideReason :: "string option"

record earn_request =
  eq_tenantId :: string
  eq_actor :: AuthContext
  eq_key :: string
  eq_rawPosReceiptNumber :: string
  eq_posReceiptNumber :: string
  eq_normalizedPos :: string
  eq_cardSerialNumber :: string
  eq_purchaseAmountKobo :: int
  eq_occurredAt :: int
  eq_overrideReason :: "string option"
  eq_requestHash :: string

definition EARN_ENDPOINT :: string where
  "EARN_ENDPOINT = ''POST /api/v1/transactions/earn''"

definition APPROVAL_REASON_CODE :: string where
  "APPROVAL_REASON_CODE = ''PURCHASE_ABOVE_APPROVAL_THRESHOLD''"

definition LATE_RECEIPT_APPROVAL_REASON_CODE :: string where
  "LATE_RECEIPT_APPROVAL_REASON_CODE = ''LATE_RECEIPT_CLAIM''"

definition LATE_RECEIPT_CLAIM_AGE_MS :: int where
  "LATE_RECEIPT_CLAIM_AGE_MS = 7 * 24 * 60 * 60 * 1000"

definition EARN_SERIALIZATION_RETRY_ATTEMPTS :: nat where "EARN_SERIALIZATION_RETRY_ATTEMPTS = 3"

definition earn_normalizeIdempotencyKey :: "string option \<Rightarrow> svc_error + string" where
  "earn_normalizeIdempotencyKey key =
     (let normalized = (case key of None \<Rightarrow> [] | Some k \<Rightarrow> js_trim k) in
      if normalized = [] then Inl (BadRequestException ''Idempotency-Key header is required'')
      else Inr normalized)"

definition normalizeReceiptNumber :: "string \<Rightarrow> svc_error + string" where
  "normalizeReceiptNumber v =
     (let normalized = js_trim v in
      if normalized = [] then Inl (BadRequestException ''posReceiptNumber is required'')
      else Inr normalized)"

definition earn_parseDate :: "env \<Rightarrow> string \<Rightarrow> string \<Rightarrow> svc_error + int" where
  "earn_parseDate env v fieldName =
     (case dateParse env v of
        None \<Rightarrow> Inl (BadRequestException (fieldName @ '' must be a valid date-time''))
      | Some t \<Rightarrow> Inr t)"

definition earn_hashRequest :: "env \<Rightarrow> json \<Rightarrow> string" where
  "earn_hashRequest env payload = sha256hex env (stableStringify payload)"

definition undefined_str :: "string option \<Rightarrow> json" where
  "undefined_str v = (case v of None \<Rightarrow> JUndefined | Some s \<Rightarrow> JStr s)"

definition earn_prepare ::
  "env \<Rightarrow> string \<Rightarrow> AuthContext \<Rightarrow> string option \<Rightarrow> EarnTransactionDto \<Rightarrow> svc_error + earn_request" where
  "earn_prepare env tenantId actor idempotencyKey dto =
     res_bind (earn_normalizeIdempotencyKey idempotencyKey) (\<lambda>normalizedKey.
     res_bind (normalizeReceiptNumber (edto_posReceiptNumber dto)) (\<lambda>posReceiptNumber.
     let normalizedPos = normalizeReceiptIdentity posReceiptNumber in
     res_bind (earn_parseDate env (edto_occurredAt dto) ''occurredAt'') (\<lambda>occurredAt.
     let overrideReason = map_option js_trim (edto_overrideReason dto) in
     res_bind (normalizeCardSerial (edto_cardSerialNumber dto)) (\<lambda>cardSerialNumber.
     Inr
       \<lparr> eq_tenantId = tenantId, eq_actor = actor, eq_key = normalizedKey,
         eq_rawPosReceiptNumber = edto_posReceiptNumber dto,
         eq_posReceiptNumber = posReceiptNumber, eq_normalizedPos = normalizedPos,
         eq_cardSerialNumber = cardSerialNumber, eq_purchaseAmountKobo = edto_purchaseAmountKobo dto,
         eq_occurredAt = occurredAt, eq_overrideReason = overrideReason,
         eq_requestHash = earn_hashRequest env (JObj
           [(''tenantId'', JStr tenantId), (''actorId'', JStr (actor_id actor)),
            (''cardSerialNumber'', JStr cardSerialNumber), (''posReceiptNumber'', JStr normalizedPos),
            (''purchaseAmountKobo'', JNum (edto_purchaseAmountKobo dto)),
            (''occurredAt'', json_date occurredAt), (''deviceId'', json_opt_str (session_deviceId actor)),
            (''overrideReason'', undefined_str overrideReason)]) \<rparr>))))"

text \<open>The lookup before anything is checked: a stored response, an error or going on.\<close>

definition earn_record :: "earn_request \<Rightarrow> db \<Rightarrow> IdempotencyRecord option" where
  "earn_record eq d =
     idempotencyRecord_findUnique (eq_tenantId eq) (actor_id (eq_actor eq)) EARN_ENDPOINT (eq_key eq) d"

definition earn_lookup :: "earn_request \<Rightarrow> db \<Rightarrow> svc_error + json option" where
  "earn_lookup eq d =
     (case earn_record eq d of
        None \<Rightarrow> Inr None
      | Some existing \<Rightarrow>
          if idr_requestHash existing \<noteq> eq_requestHash eq then Inl idempotency_conflict
          else case idr_responseJson existing of
            Some response \<Rightarrow> Inr (Some response)
          | None \<Rightarrow> Inl (ConflictException ''Idempotency key is still being processed''))"

definition findCompletedEarnReplay :: "earn_request \<Rightarrow> db \<Rightarrow> json option" where
  "findCompletedEarnReplay eq d =
     (case earn_record eq d of
        None \<Rightarrow> None
      | Some replay \<Rightarrow> if idr_requestHash replay = eq_requestHash eq then idr_responseJson replay else None)"

subsection \<open>Checks before the transaction\<close>

definition assertPurchaseAmountAllowed :: "int \<Rightarrow> env \<Rightarrow> EarnPolicyValues option \<Rightarrow> svc_error + unit" where
  "assertPurchaseAmountAllowed purchaseAmountKobo env policy =
     (if \<not> isSafeInteger purchaseAmountKobo
      then Inl (BadRequestException ''purchaseAmountKobo must be a safe integer'')
      else if purchaseAmountKobo > (case policy of
             Some p \<Rightarrow> js_Number (ep_purchaseAmountCeilingKobo p)
           | None \<Rightarrow> config_or env ''PURCHASE_AMOUNT_CEILING_KOBO'' 100000000)
      then Inl (BadRequestException ''purchaseAmountKobo exceeds the allowed maximum'')
      else Inr ())"

definition assertOverrideAllowed :: "UserRole \<Rightarrow> string option \<Rightarrow> bool \<Rightarrow> svc_error + bool" where
  "assertOverrideAllowed role overrideReason future =
     (if role = UserRole.CASHIER
      then Inl (BadRequestException (''occurredAt cannot be '' @ (if future then ''in the future'' else ''too old'')))
      else if \<not> truthy overrideReason
      then Inl (BadRequestException ''overrideReason is required for timestamp overrides'')
      else Inr True)"

definition assertReceiptTimestampAllowed ::
  "UserRole \<Rightarrow> int \<Rightarrow> string option \<Rightarrow> bool \<Rightarrow> int \<Rightarrow> svc_error + bool" where
  "assertReceiptTimestampAllowed role occurredAt overrideReason isLateReceiptClaim nowMs =
     (let skewMs = occurredAt - nowMs in
      if skewMs > MAX_POS_FUTURE_SKEW_MS then assertOverrideAllowed role overrideReason True
      else if skewMs < - MAX_POS_PAST_SKEW_MS \<and> \<not> (isLateReceiptClaim \<and> role = UserRole.CASHIER)
      then assertOverrideAllowed role overrideReason False
      else Inr False)"

text \<open>What the call knows when the transaction starts.\<close>

record earn_plan =
  epl_policy :: "EarnPolicyValues option"
  epl_deviceId :: string
  epl_late :: bool
  epl_override :: bool

definition earn_checks_before :: "env \<Rightarrow> earn_request \<Rightarrow> (nat \<Rightarrow> int) \<Rightarrow> db \<Rightarrow> svc_error + earn_plan" where
  "earn_checks_before env eq clk d =
     (let actor = eq_actor eq in
      if \<not> truthy (session_deviceId actor)
      then Inl (DomainHttpException 400 ''SESSION_DEVICE_REQUIRED'' ''Session device is required'')
      else
        let policy = (if truthy (actor_branchId actor)
              then map_option earn_policy_of
                     (policyConfiguration_findUnique (eq_tenantId eq) (the (actor_branchId actor)) d)
              else None) in
        res_bind (assertPurchaseAmountAllowed (eq_purchaseAmountKobo eq) env policy) (\<lambda>_.
        let late = (clk 1 - eq_occurredAt eq > LATE_RECEIPT_CLAIM_AGE_MS) in
        res_bind (assertReceiptTimestampAllowed (actor_role actor) (eq_occurredAt eq)
                    (eq_overrideReason eq) late (clk 2)) (\<lambda>overrideApplied.
        Inr \<lparr> epl_policy = policy, epl_deviceId = the (session_deviceId actor), epl_late = late,
              epl_override = overrideApplied \<rparr>)))"

subsection \<open>Checks inside the transaction\<close>

definition earn_checks :: "env \<Rightarrow> earn_request \<Rightarrow> string \<Rightarrow> db \<Rightarrow> svc_error + redeem_context" where
  "earn_checks env eq deviceId d =
     res_bind (case device_with_branch (eq_tenantId eq) deviceId d of
         Some (dev, br) \<Rightarrow>
           if dev_status dev \<noteq> DeviceStatus.ACTIVE \<or> br_status br \<noteq> BranchStatus.ACTIVE
           then Inl (DomainHttpException 400 ''DEVICE_NOT_ACTIVE'' ''Device is not active'')
           else Inr (dev, br)
       | None \<Rightarrow> Inl (DomainHttpException 400 ''DEVICE_NOT_ACTIVE'' ''Device is not active'')) (\<lambda>(dev, br).
     res_bind (res_unless
         (\<not> (truthy (actor_branchId (eq_actor eq)) \<and> actor_branchId (eq_actor eq) \<noteq> Some (dev_branchId dev)))
         (DomainHttpException 400 ''DEVICE_BRANCH_MISMATCH'' ''Device does not belong to cashier branch'')) (\<lambda>_.
     res_bind (case card_by_serial (eq_tenantId eq) (eq_cardSerialNumber eq) d of
         Some (cd, cu) \<Rightarrow>
           if cd_status cd \<noteq> CardStatus.ACTIVE \<or> cu_status cu \<noteq> CustomerStatus.ACTIVE \<or> cu_isStaff cu
           then Inl (DomainHttpException 404 ''CARD_NOT_FOUND'' ''Card not found'')
           else Inr (cd, cu)
       | None \<Rightarrow> Inl (DomainHttpException 404 ''CARD_NOT_FOUND'' ''Card not found'')) (\<lambda>(cd, cu).
     let branchId = (case actor_branchId (eq_actor eq) of Some b \<Rightarrow> b | None \<Rightarrow> dev_branchId dev) in
     res_bind (res_unless (branchId \<noteq> [])
         (DomainHttpException 400 ''BRANCH_CONTEXT_REQUIRED'' ''Branch context is required'')) (\<lambda>_.
     res_bind (deriveReceiptWeekStart BadRequestException (tzDate env) (eq_occurredAt eq)
                 (br_timezone br) (br_receiptWeekStartDay br)) (\<lambda>receiptWeekStart.
     Inr \<lparr> cx_device = dev, cx_card = cd, cx_customer = cu, cx_branchId = branchId,
           cx_receiptWeekStart = receiptWeekStart \<rparr>)))))"

definition earn_capture :: "env \<Rightarrow> earn_request \<Rightarrow> earn_plan \<Rightarrow> ReceiptCaptureStatus \<times> string option" where
  "earn_capture env eq plan =
     (let amountCaptureStatus = resolveEarnCaptureStatus (eq_purchaseAmountKobo eq) env (epl_policy plan) in
      (if epl_late plan then ReceiptCaptureStatus.PENDING_APPROVAL else amountCaptureStatus,
       if epl_late plan then Some LATE_RECEIPT_APPROVAL_REASON_CODE
       else if amountCaptureStatus = ReceiptCaptureStatus.PENDING_APPROVAL then Some APPROVAL_REASON_CODE
       else None))"

definition earn_receipt ::
  "env \<Rightarrow> earn_request \<Rightarrow> redeem_context \<Rightarrow> ReceiptCaptureStatus \<Rightarrow> string option \<Rightarrow> int \<Rightarrow> Receipt dbtx" where
  "earn_receipt env eq cx captureStatus approvalReasonCode now =
     (let actor = eq_actor eq;
          pending = (captureStatus = ReceiptCaptureStatus.PENDING_APPROVAL) in
      receipt_create env (\<lambda>new_id.
        \<lparr> rc_id = new_id, rc_tenantId = eq_tenantId eq, rc_branchId = cx_branchId cx,
          rc_customerId = cd_customerId (cx_card cx), rc_cardId = cd_id (cx_card cx),
          rc_deviceId = Some (dev_id (cx_device cx)), rc_posReceiptNumber = eq_posReceiptNumber eq,
          rc_normalizedPosReceiptNumber = eq_normalizedPos eq,
          rc_receiptWeekStart = cx_receiptWeekStart cx, rc_purchaseAmountKobo = eq_purchaseAmountKobo eq,
          rc_occurredAt = eq_occurredAt eq, rc_capturedByTenantId = actor_tenantId actor,
          rc_capturedBy = actor_id actor, rc_captureStatus = captureStatus,
          rc_reviewStatus = (if pending then ReceiptReviewStatus.PENDING else ReceiptReviewStatus.APPROVED),
          rc_approvalReasonCode = approvalReasonCode,
          rc_reviewedAt = (if pending then None else Some now),
          rc_reviewedByTenantId = (if pending then None else Some (actor_tenantId actor)),
          rc_reviewedBy = (if pending then None else Some (actor_id actor)),
          rc_approvedByTenantId = (if pending then None else Some (actor_tenantId actor)),
          rc_approvedBy = (if pending then None else Some (actor_id actor)),
          rc_approvedAt = (if pending then None else Some now),
          rc_capturedAt = now \<rparr>))"

subsection \<open>The two ends of the transaction\<close>

definition earn_finish ::
  "earn_request \<Rightarrow> string \<Rightarrow> string \<Rightarrow> (string \<times> json) list \<Rightarrow> (string \<times> json) list \<Rightarrow> int \<Rightarrow> json dbtx" where
  "earn_finish eq action receiptId response extra now =
     tx_bind (persistCompletedIdempotencyResponse EARN_ENDPOINT (eq_tenantId eq) (actor_id (eq_actor eq))
                (eq_key eq) (eq_requestHash eq) (JObj response) now) (\<lambda>_.
     tx_bind (recordWithClient (eq_tenantId eq) (Some (actor_id (eq_actor eq))) action ''receipt''
                (Some receiptId) (JObj (response @ extra))) (\<lambda>_.
     tx_return (JObj response)))"

definition earn_pending_response ::
  "earn_request \<Rightarrow> redeem_context \<Rightarrow> Receipt \<Rightarrow> string \<Rightarrow> string option \<Rightarrow> int \<Rightarrow> (string \<times> json) list" where
  "earn_pending_response eq cx receipt approvalId approvalReasonCode now =
     [(''id'', JStr (rc_id receipt)), (''transactionId'', JNull), (''state'', JStr ''PENDING_APPROVAL''),
      (''receiptId'', JStr (rc_id receipt)), (''approvalId'', JStr approvalId),
      (''tenantId'', JStr (eq_tenantId eq)), (''branchId'', JStr (cx_branchId cx)),
      (''deviceId'', JStr (dev_id (cx_device cx))), (''customerId'', JStr (cd_customerId (cx_card cx))),
      (''cardSerialNumber'', JStr (cd_barcodeValue (cx_card cx))),
      (''posReceiptNumber'', JStr (rc_posReceiptNumber receipt)),
      (''purchaseAmountKobo'', JNum (eq_purchaseAmountKobo eq)), (''creditKobo'', JNull),
      (''captureStatus'', JStr (capture_str (rc_captureStatus receipt))),
      (''availableBalanceKobo'', JNull), (''expiresAt'', JNull), (''smsStatus'', JNull),
      (''occurredAt'', json_date (eq_occurredAt eq)), (''capturedAt'', json_date now),
      (''reviewStatus'', JStr ''PENDING''), (''reasonCode'', json_opt_str approvalReasonCode)]"

definition earn_hold ::
  "env \<Rightarrow> earn_request \<Rightarrow> earn_plan \<Rightarrow> redeem_context \<Rightarrow> Receipt \<Rightarrow> string option \<Rightarrow> int \<Rightarrow> json dbtx" where
  "earn_hold env eq plan cx receipt approvalReasonCode now =
     tx_bind (approval_create env (\<lambda>new_id.
       \<lparr> ap_id = new_id, ap_tenantId = eq_tenantId eq, ap_receiptId = Some (rc_id receipt),
         ap_redemptionId = None, ap_targetType = ApprovalTargetType.EARN,
         ap_status = ApprovalStatus.PENDING, ap_requestedByTenantId = actor_tenantId (eq_actor eq),
         ap_requestedBy = actor_id (eq_actor eq), ap_reasonCode = approvalReasonCode,
         ap_policyVersion = getEarnApprovalPolicyVersion env (epl_policy plan),
         ap_expiresAt = now + APPROVAL_EXPIRY_MS,
         ap_decisionByTenantId = None, ap_decisionBy = None, ap_decisionReason = None,
         ap_requestedAt = now, ap_decidedAt = None, ap_executedAt = None \<rparr>)) (\<lambda>approval.
     tx_bind (outboxEvent_create env (\<lambda>new_id.
       \<lparr> ob_id = new_id, ob_tenantId = eq_tenantId eq, ob_aggregateType = ''receipt'',
         ob_aggregateId = rc_id receipt, ob_eventType = ''fraud.evaluate'',
         ob_payload = JObj [(''receiptId'', JStr (rc_id receipt)), (''approvalId'', JStr (ap_id approval)),
           (''tenantId'', JStr (eq_tenantId eq)), (''branchId'', JStr (cx_branchId cx)),
           (''cashierId'', JStr (actor_id (eq_actor eq))),
           (''customerId'', JStr (cd_customerId (cx_card cx))), (''occurredAt'', json_date now),
           (''reasonCode'', json_opt_str approvalReasonCode)],
         ob_nextAttemptAt = Some now \<rparr>)) (\<lambda>_.
     earn_finish eq ''earn.request.approval_required'' (rc_id receipt)
       (earn_pending_response eq cx receipt (ap_id approval) approvalReasonCode now) [] now))"

definition calculateCreditKobo :: "int \<Rightarrow> env \<Rightarrow> EarnPolicyValues option \<Rightarrow> svc_error + int" where
  "calculateCreditKobo purchaseAmountKobo env policy =
     calculateEarnAmountKobo purchaseAmountKobo (resolveEarnRateBps env policy)"

definition earn_credit ::
  "env \<Rightarrow> earn_request \<Rightarrow> redeem_context \<Rightarrow> Receipt \<Rightarrow> int \<Rightarrow> (LoyaltyLedgerEntry \<times> CreditLot) dbtx" where
  "earn_credit env eq cx receipt creditKobo =
     tx_bind (loyaltyLedgerEntry_create env (\<lambda>new_id.
       \<lparr> le_id = new_id, le_tenantId = eq_tenantId eq, le_customerId = cd_customerId (cx_card cx),
         le_receiptId = Some (rc_id receipt), le_type = LedgerEntryType.EARN,
         le_direction = LedgerEntryDirection.CREDIT, le_amountKobo = creditKobo,
         le_correlationId = eq_requestHash eq, le_reversesEntryId = None,
         le_createdByTenantId = actor_tenantId (eq_actor eq), le_createdBy = actor_id (eq_actor eq),
         le_effectiveAt = eq_occurredAt eq \<rparr>)) (\<lambda>entry.
     tx_bind (creditLot_create env (\<lambda>new_id.
       \<lparr> lot_id = new_id, lot_tenantId = eq_tenantId eq, lot_customerId = cd_customerId (cx_card cx),
         lot_earnLedgerEntryId = le_id entry, lot_originalAmountKobo = creditKobo,
         lot_remainingAmountKobo = creditKobo, lot_earnedAt = eq_occurredAt eq,
         lot_expiresAt = addUtcMonthsClamped (eq_occurredAt eq) 12 \<rparr>)) (\<lambda>lot.
     tx_return (entry, lot)))"

definition earn_notify ::
  "env \<Rightarrow> earn_request \<Rightarrow> redeem_context \<Rightarrow> Receipt \<Rightarrow> string \<Rightarrow> int \<Rightarrow> int \<Rightarrow> SmsMessageStatus dbtx" where
  "earn_notify env eq cx receipt entryId creditKobo now =
     (let payload = buildEarnConfirmedSmsPayload (rc_id receipt) entryId (cd_customerId (cx_card cx))
            (cu_phoneE164 (cx_customer cx)) creditKobo in
      tx_bind (outboxEvent_create env (\<lambda>new_id.
        \<lparr> ob_id = new_id, ob_tenantId = eq_tenantId eq, ob_aggregateType = ''receipt'',
          ob_aggregateId = rc_id receipt, ob_eventType = ''sms.send'', ob_payload = payload,
          ob_nextAttemptAt = Some now \<rparr>)) (\<lambda>event.
      tx_bind (smsMessage_create env (\<lambda>new_id.
        \<lparr> sms_id = new_id, sms_tenantId = eq_tenantId eq, sms_receiptId = Some (rc_id receipt),
          sms_outboxEventId = ob_id event, sms_ledgerEntryId = None,
          sms_redemptionId = None, sms_adjustmentId = None,
          sms_phoneE164 = cu_phoneE164 (cx_customer cx), sms_template = ''earn-confirmed'',
          sms_payload = payload, sms_status = SmsMessageStatus.QUEUED, sms_queuedAt = now \<rparr>)) (\<lambda>msg.
      tx_bind (outboxEvent_create env (\<lambda>new_id.
        \<lparr> ob_id = new_id, ob_tenantId = eq_tenantId eq, ob_aggregateType = ''receipt'',
          ob_aggregateId = rc_id receipt, ob_eventType = ''fraud.evaluate'',
          ob_payload = JObj [(''receiptId'', JStr (rc_id receipt))],
          ob_nextAttemptAt = Some now \<rparr>)) (\<lambda>_.
      tx_return (sms_status msg)))))"

definition earn_confirmed_response ::
  "earn_request \<Rightarrow> redeem_context \<Rightarrow> Receipt \<Rightarrow> string \<Rightarrow> int \<Rightarrow> int \<Rightarrow> CreditLot \<Rightarrow> SmsMessageStatus \<Rightarrow>
   int \<Rightarrow> (string \<times> json) list" where
  "earn_confirmed_response eq cx receipt entryId creditKobo balance lot status now =
     [(''id'', JStr (rc_id receipt)), (''transactionId'', JStr entryId), (''state'', JStr ''CONFIRMED''),
      (''receiptId'', JStr (rc_id receipt)), (''ledgerEntryId'', JStr entryId),
      (''tenantId'', JStr (eq_tenantId eq)), (''branchId'', JStr (cx_branchId cx)),
      (''deviceId'', JStr (dev_id (cx_device cx))), (''customerId'', JStr (cd_customerId (cx_card cx))),
      (''cardSerialNumber'', JStr (cd_barcodeValue (cx_card cx))),
      (''posReceiptNumber'', JStr (rc_posReceiptNumber receipt)),
      (''purchaseAmountKobo'', JNum (eq_purchaseAmountKobo eq)), (''creditKobo'', JNum (js_Number creditKobo)),
      (''captureStatus'', JStr (capture_str (rc_captureStatus receipt))),
      (''availableBalanceKobo'', JNum (js_Number balance)),
      (''expiresAt'', json_date (lot_expiresAt lot)), (''smsStatus'', JStr (sms_status_str status)),
      (''occurredAt'', json_date (eq_occurredAt eq)), (''capturedAt'', json_date now),
      (''reviewStatus'', JStr ''APPROVED'')]"

definition earn_confirm ::
  "env \<Rightarrow> earn_request \<Rightarrow> earn_plan \<Rightarrow> redeem_context \<Rightarrow> Receipt \<Rightarrow> int \<Rightarrow> json dbtx" where
  "earn_confirm env eq plan cx receipt now =
     tx_bind (tx_lift (calculateCreditKobo (eq_purchaseAmountKobo eq) env (epl_policy plan))) (\<lambda>creditKobo.
     tx_bind (earn_credit env eq cx receipt creditKobo) (\<lambda>(entry, lot).
     tx_bind (earn_notify env eq cx receipt (le_id entry) creditKobo now) (\<lambda>status.
     tx_bind (tx_read (getActiveBalanceKobo (eq_tenantId eq) (cd_customerId (cx_card cx)) now)) (\<lambda>balance.
     tx_bind (earn_finish eq ''earn.confirmed'' (rc_id receipt)
                (earn_confirmed_response eq cx receipt (le_id entry) creditKobo balance lot status now)
                [(''creditLotId'', JStr (lot_id lot))] now) (\<lambda>response.
     tx_bind (if epl_override plan
              then recordWithClient (eq_tenantId eq) (Some (actor_id (eq_actor eq)))
                     ''earn.timestamp_override'' ''receipt'' (Some (rc_id receipt))
                     (JObj [(''overrideReason'', undefined_str (eq_overrideReason eq)),
                            (''occurredAt'', json_date (eq_occurredAt eq))])
              else tx_return ()) (\<lambda>_.
     tx_return response))))))"

definition earn_execute :: "env \<Rightarrow> earn_request \<Rightarrow> earn_plan \<Rightarrow> redeem_context \<Rightarrow> int \<Rightarrow> json dbtx" where
  "earn_execute env eq plan cx now =
     (case earn_capture env eq plan of (captureStatus, approvalReasonCode) \<Rightarrow>
      tx_bind (earn_receipt env eq cx captureStatus approvalReasonCode now) (\<lambda>receipt.
      if captureStatus = ReceiptCaptureStatus.PENDING_APPROVAL
      then earn_hold env eq plan cx receipt approvalReasonCode now
      else earn_confirm env eq plan cx receipt now))"

subsection \<open>Duplicate receipts\<close>

text \<open>\<open>recordDuplicateReceiptAttempt\<close> runs in a transaction of its own.\<close>

record DuplicateReceiptAttemptInput =
  di_tenantId :: string
  di_receiptId :: string
  di_originalReceiptId :: string
  di_branchId :: string
  di_cashierId :: string
  di_customerId :: string
  di_deviceId :: string
  di_normalizedPos :: string
  di_receiptWeekStart :: int
  di_occurredAt :: int

definition earn_duplicate :: "earn_request \<Rightarrow> redeem_context \<Rightarrow> string \<Rightarrow> string \<Rightarrow> DuplicateReceiptAttemptInput" where
  "earn_duplicate eq cx receiptId originalReceiptId =
     \<lparr> di_tenantId = eq_tenantId eq, di_receiptId = receiptId, di_originalReceiptId = originalReceiptId,
       di_branchId = cx_branchId cx, di_cashierId = actor_id (eq_actor eq),
       di_customerId = cd_customerId (cx_card cx), di_deviceId = dev_id (cx_device cx),
       di_normalizedPos = eq_normalizedPos eq, di_receiptWeekStart = cx_receiptWeekStart cx,
       di_occurredAt = eq_occurredAt eq \<rparr>"

definition duplicate_fields :: "DuplicateReceiptAttemptInput \<Rightarrow> (string \<times> json) list" where
  "duplicate_fields i =
     [(''originalReceiptId'', JStr (di_originalReceiptId i)), (''duplicateReceiptId'', JStr (di_receiptId i)),
      (''branchId'', JStr (di_branchId i)), (''cashierId'', JStr (di_cashierId i)),
      (''customerId'', JStr (di_customerId i)), (''deviceId'', JStr (di_deviceId i)),
      (''normalizedPosReceiptNumber'', JStr (di_normalizedPos i)),
      (''receiptWeekStart'', json_date (di_receiptWeekStart i)),
      (''occurredAt'', json_date (di_occurredAt i))]"

definition earn_recordDuplicateReceiptAttempt :: "env \<Rightarrow> DuplicateReceiptAttemptInput \<Rightarrow> unit dbtx" where
  "earn_recordDuplicateReceiptAttempt env i =
     tx_bind (recordWithClient (di_tenantId i) (Some (di_cashierId i))
        ''RECEIPT_DUPLICATE_ATTEMPT_RECORDED'' ''RECEIPT'' (Some (di_originalReceiptId i))
        (JObj (duplicate_fields i))) (\<lambda>_.
     tx_void (outboxEvent_create env (\<lambda>new_id.
       \<lparr> ob_id = new_id, ob_tenantId = di_tenantId i, ob_aggregateType = ''receipt'',
         ob_aggregateId = di_originalReceiptId i, ob_eventType = ''fraud.evaluate'',
         ob_payload = JObj ((''ruleCode'', JStr ''FR-DUP-001'') # duplicate_fields i),
         ob_nextAttemptAt = None \<rparr>)))"

subsection \<open>Errors\<close>

fun error_message :: "svc_error \<Rightarrow> string" where
  "error_message (DomainHttpException status code message) = message"
| "error_message (BadRequestException message) = message"
| "error_message (ConflictException message) = message"
| "error_message (RangeError message) = message"
| "error_message (PlainError message) = message"
| "error_message (PrismaKnownRequestError code target message) = message"

definition earn_isUniqueIdempotencyConflict :: "svc_error \<Rightarrow> bool" where
  "earn_isUniqueIdempotencyConflict e = p2002Target e [''actorId'', ''endpoint'', ''idempotencyKey'']"

definition earn_isUniqueReceiptConflict :: "svc_error \<Rightarrow> bool" where
  "earn_isUniqueReceiptConflict e =
     p2002Target e [''tenantId'', ''branchId'', ''receiptWeekStart'', ''normalizedPosReceiptNumber'']"

definition isTransactionConflict :: "svc_error \<Rightarrow> bool" where
  "isTransactionConflict e =
     ((case e of PrismaKnownRequestError code target message \<Rightarrow> code = ''P2034'' | _ \<Rightarrow> False)
      \<or> js_includes (error_message e) ''could not serialize access due to concurrent update''
      \<or> js_includes (error_message e)
          ''could not serialize access due to read/write dependencies among transactions'')"

definition earn_transaction_conflict :: svc_error where
  "earn_transaction_conflict = DomainHttpException 503 ''EARN_TRANSACTION_CONFLICT''
     ''Earn transaction conflicted; retry the request''"

subsection \<open>Attempts and the whole call\<close>

text \<open>
  The variables of the method that outlive an attempt: the context of the last attempt that got
  past its checks, and the receipt it found to be a duplicate of.
\<close>

record earn_vars =
  ev_cx :: "redeem_context option"
  ev_duplicate :: "string option"

definition earn_attempt ::
  "env \<Rightarrow> earn_request \<Rightarrow> earn_plan \<Rightarrow> (nat \<Rightarrow> db \<Rightarrow> db \<times> svc_error option) \<Rightarrow> (nat \<Rightarrow> int) \<Rightarrow>
   nat \<Rightarrow> earn_vars \<Rightarrow> db \<Rightarrow> (svc_error + json) \<times> earn_vars \<times> db" where
  "earn_attempt env eq plan sched clk k vars d0 =
     (case sched k d0 of
        (d, Some e) \<Rightarrow> (Inl e, vars, d)
      | (d, None) \<Rightarrow>
         (case earn_checks env eq (epl_deviceId plan) d of
            Inl e \<Rightarrow> (Inl e, vars, d)
          | Inr cx \<Rightarrow>
             (case receipt_by_identity (eq_tenantId eq) (cx_branchId cx) (cx_receiptWeekStart cx)
                     (eq_normalizedPos eq) d of
                Some dup \<Rightarrow>
                  (Inl receipt_already_used, vars\<lparr>ev_cx := Some cx, ev_duplicate := Some (rc_id dup)\<rparr>, d)
              | None \<Rightarrow>
                  (case earn_execute env eq plan cx (clk (2 + k)) d of
                     Inl e \<Rightarrow> (Inl e, vars\<lparr>ev_cx := Some cx\<rparr>, d)
                   | Inr (response, d') \<Rightarrow> (Inr response, vars\<lparr>ev_cx := Some cx\<rparr>, d')))))"

text \<open>The \<open>catch\<close> block: the outcome of the call, or \<open>None\<close> to go on with the next attempt.\<close>

definition earn_duplicate_receipt :: "env \<Rightarrow> earn_request \<Rightarrow> earn_vars \<Rightarrow> db \<Rightarrow> svc_error \<times> db" where
  "earn_duplicate_receipt env eq vars d =
     (case ev_cx vars of
        None \<Rightarrow> (receipt_already_used, d)
      | Some cx \<Rightarrow>
         (case receipt_by_identity (eq_tenantId eq) (cx_branchId cx) (cx_receiptWeekStart cx)
                 (eq_normalizedPos eq) d of
            None \<Rightarrow> (receipt_already_used, d)
          | Some dup \<Rightarrow>
             (case earn_recordDuplicateReceiptAttempt env
                     (earn_duplicate eq cx (eq_posReceiptNumber eq) (rc_id dup)) d of
                Inl e \<Rightarrow> (e, d)
              | Inr (_, d') \<Rightarrow> (receipt_already_used, d'))))"

definition earn_catch ::
  "env \<Rightarrow> earn_request \<Rightarrow> svc_error \<Rightarrow> earn_vars \<Rightarrow> db \<Rightarrow> (svc_error + json) option \<times> db" where
  "earn_catch env eq e vars d =
     (case (ev_duplicate vars, ev_cx vars) of
        (Some original, Some cx) \<Rightarrow>
          (case earn_recordDuplicateReceiptAttempt env
                  (earn_duplicate eq cx (eq_rawPosReceiptNumber eq) original) d of
             Inl e' \<Rightarrow> (Some (Inl e'), d)
           | Inr (_, d') \<Rightarrow> (Some (Inl e), d'))
      | _ \<Rightarrow>
          if earn_isUniqueIdempotencyConflict e then
            (case findCompletedEarnReplay eq d of
               Some r \<Rightarrow> (Some (Inr r), d) | None \<Rightarrow> (Some (Inl idempotency_conflict), d))
          else if earn_isUniqueReceiptConflict e then
            (case findCompletedEarnReplay eq d of
               Some r \<Rightarrow> (Some (Inr r), d)
             | None \<Rightarrow> (let (e', d') = earn_duplicate_receipt env eq vars d in (Some (Inl e'), d')))
          else if isTransactionConflict e then (map_option Inr (findCompletedEarnReplay eq d), d)
          else (Some (Inl e), d))"

fun earn_loop ::
  "env \<Rightarrow> earn_request \<Rightarrow> earn_plan \<Rightarrow> (nat \<Rightarrow> db \<Rightarrow> db \<times> svc_error option) \<Rightarrow> (nat \<Rightarrow> db \<Rightarrow> db) \<Rightarrow>
   (nat \<Rightarrow> int) \<Rightarrow> nat \<Rightarrow> nat \<Rightarrow> earn_vars \<Rightarrow> db \<Rightarrow> (svc_error + json) \<times> db" where
  "earn_loop env eq plan sched others clk k 0 vars d = (Inl earn_transaction_conflict, d)"
| "earn_loop env eq plan sched others clk k (Suc left) vars d =
     (case earn_attempt env eq plan sched clk k vars d of
        (Inr response, vars1, d1) \<Rightarrow> (Inr response, d1)
      | (Inl e, vars1, d1) \<Rightarrow>
         (case earn_catch env eq e vars1 (others k d1) of
            (Some result, d2) \<Rightarrow> (result, d2)
          | (None, d2) \<Rightarrow> earn_loop env eq plan sched others clk (k + 1) left vars1 d2))"

definition earn ::
  "env \<Rightarrow> (nat \<Rightarrow> db \<Rightarrow> db \<times> svc_error option) \<Rightarrow> (nat \<Rightarrow> db \<Rightarrow> db) \<Rightarrow> (nat \<Rightarrow> int) \<Rightarrow>
   string \<Rightarrow> AuthContext \<Rightarrow> string option \<Rightarrow> EarnTransactionDto \<Rightarrow> db \<Rightarrow> (svc_error + json) \<times> db" where
  "earn env sched others clk tenantId actor idempotencyKey dto d =
     (case earn_prepare env tenantId actor idempotencyKey dto of
        Inl e \<Rightarrow> (Inl e, d)
      | Inr eq \<Rightarrow>
         let d1 = cleanupExpiredIdempotencyRecords tenantId (actor_id actor) EARN_ENDPOINT (eq_key eq) (clk 0) d in
         (case earn_lookup eq d1 of
            Inl e \<Rightarrow> (Inl e, d1)
          | Inr (Some response) \<Rightarrow> (Inr response, d1)
          | Inr None \<Rightarrow>
             (case earn_checks_before env eq clk d1 of
                Inl e \<Rightarrow> (Inl e, d1)
              | Inr plan \<Rightarrow>
                 earn_loop env eq plan sched others clk 1 EARN_SERIALIZATION_RETRY_ATTEMPTS
                   \<lparr> ev_cx = None, ev_duplicate = None \<rparr> d1)))"

subsection \<open>Credit and its lot\<close>

text \<open>
  A ledger credit and the lot that backs it, created together: the books stay as they were and the
  active balance of the account grows by the amount until the lot expires.
\<close>

lemma backed_credit:
  assumes "loyaltyLedgerEntry_create env mk d = Inr (entry, d1)" and "creditLot_create env mkl d1 = Inr (lot, d')"
    and "\<And>i. ledger_account (mk i) = a" and "\<And>i. signed_kobo (mk i) = v"
    and "\<And>i. lot_account (mkl i) = a" and "\<And>i. lot_remainingAmountKobo (mkl i) = v"
    and "\<And>i. lot_originalAmountKobo (mkl i) = v" and "\<And>i. lot_expiresAt (mkl i) = x" and "0 \<le> v"
  shows "money_at f d \<Longrightarrow> money_at f d'"
    and "active_balance b now d' = active_balance b now d + (if b = a \<and> now < x then v else 0)"
proof -
  show "money_at f d'" if "money_at f d"
  proof -
    have "money_at (bump f a v) d1" using tx_specD[OF loyaltyLedgerEntry_create_money[OF assms(3,4)] that assms(1)] .
    moreover have "lot_ok (mkl i)" for i using assms(6,7,9) by (simp add: lot_ok_def)
    ultimately show ?thesis using tx_specD[OF creditLot_create_money[OF assms(5,6)] _ assms(2)] by fastforce
  qed
  obtain i where l: "lot = mkl i" "creditLots d' = creditLots d1 @ [lot]"
    using assms(2) by (auto simp: creditLot_create_def create_row_eq_Inr)
  moreover have "creditLots d1 = creditLots d"
    using tx_frameD[OF loyaltyLedgerEntry_create_frame assms(1), of creditLots] by simp
  ultimately show "active_balance b now d' = active_balance b now d + (if b = a \<and> now < x then v else 0)"
    using assms(5)[of i] assms(6)[of i] assms(8)[of i] assms(9)
    by (auto simp: active_balance_def getActiveBalanceKobo_def activeCreditLotWhere_def lot_account_def)
qed

subsection \<open>Frames of the stages\<close>

lemma earn_receipt_frame [frame_intros]:
  "(\<And>d v w. f (d\<lparr>idCounter := w, receipts := v\<rparr>) = f d) \<Longrightarrow> tx_frame f (earn_receipt env eq cx cs rc now)"
  unfolding earn_receipt_def Let_def by (intro frame_intros)

lemma earn_finish_frame [frame_intros]:
  assumes "\<And>d v. f (d\<lparr>idempotencyRecords := v\<rparr>) = f d" and "\<And>d v. f (d\<lparr>auditLogs := v\<rparr>) = f d"
  shows "tx_frame f (earn_finish eq action i response extra now)"
  unfolding earn_finish_def persistCompletedIdempotencyResponse_def by (intro frame_intros assms)

lemma earn_notify_frame [frame_intros]:
  assumes "\<And>d v w. f (d\<lparr>idCounter := w, outboxEvents := v\<rparr>) = f d"
    and "\<And>d v w. f (d\<lparr>idCounter := w, smsMessages := v\<rparr>) = f d"
  shows "tx_frame f (earn_notify env eq cx receipt e c now)"
  unfolding earn_notify_def Let_def by (intro frame_intros assms)

lemma earn_hold_frame [frame_intros]:
  assumes "\<And>d v w. f (d\<lparr>idCounter := w, approvals := v\<rparr>) = f d"
    and "\<And>d v w. f (d\<lparr>idCounter := w, outboxEvents := v\<rparr>) = f d"
    and "\<And>d v. f (d\<lparr>idempotencyRecords := v\<rparr>) = f d" and "\<And>d v. f (d\<lparr>auditLogs := v\<rparr>) = f d"
  shows "tx_frame f (earn_hold env eq plan cx receipt rc now)"
  unfolding earn_hold_def by (intro frame_intros assms)

lemma earn_recordDuplicateReceiptAttempt_frame [frame_intros]:
  assumes "\<And>d v. f (d\<lparr>auditLogs := v\<rparr>) = f d"
    and "\<And>d v w. f (d\<lparr>idCounter := w, outboxEvents := v\<rparr>) = f d"
  shows "tx_frame f (earn_recordDuplicateReceiptAttempt env i)"
  unfolding earn_recordDuplicateReceiptAttempt_def by (intro frame_intros assms)

subsection \<open>Effect of a committed capture\<close>

abbreviation earn_account :: "earn_request \<Rightarrow> redeem_context \<Rightarrow> account" where
  "earn_account eq cx \<equiv> (eq_tenantId eq, cd_customerId (cx_card cx))"

lemma earn_confirm_stages:
  assumes "earn_confirm env eq plan cx receipt now d = Inr (response, d')"
  obtains creditKobo entry lot d1 d2 status d3 where
    "calculateCreditKobo (eq_purchaseAmountKobo eq) env (epl_policy plan) = Inr creditKobo"
    "earn_credit env eq cx receipt creditKobo d = Inr ((entry, lot), d1)"
    "earn_notify env eq cx receipt (le_id entry) creditKobo now d1 = Inr (status, d2)"
    "earn_finish eq ''earn.confirmed'' (rc_id receipt)
       (earn_confirmed_response eq cx receipt (le_id entry) creditKobo
          (getActiveBalanceKobo (eq_tenantId eq) (cd_customerId (cx_card cx)) now d2) lot status now)
       [(''creditLotId'', JStr (lot_id lot))] now d2 = Inr (response, d3)"
    "money_view d' = money_view d3" "idempotencyRecords d' = idempotencyRecords d3"
  using assms
  by (auto simp: earn_confirm_def tx_bind_eq_Inr tx_lift_eq_Inr recordWithClient_def auditLog_create_def
      split: prod.splits if_splits)

lemma earn_credit_effect:
  assumes "earn_credit env eq cx receipt v d = Inr (p, d')" and "0 \<le> v"
  shows "money_at f d \<Longrightarrow> money_at f d'"
    and "active_balance a now d' = active_balance a now d
      + (if a = earn_account eq cx \<and> now < addUtcMonthsClamped (eq_occurredAt eq) 12 then v else 0)"
proof -
  from assms(1) obtain mk entry d1 mkl lot where
    c: "loyaltyLedgerEntry_create env mk d = Inr (entry, d1)" "creditLot_create env mkl d1 = Inr (lot, d')"
    and m: "\<And>i. ledger_account (mk i) = earn_account eq cx" "\<And>i. signed_kobo (mk i) = v"
      "\<And>i. lot_account (mkl i) = earn_account eq cx" "\<And>i. lot_remainingAmountKobo (mkl i) = v"
      "\<And>i. lot_originalAmountKobo (mkl i) = v"
      "\<And>i. lot_expiresAt (mkl i) = addUtcMonthsClamped (eq_occurredAt eq) 12"
    by (fastforce simp: earn_credit_def tx_bind_eq_Inr ledger_account_def signed_kobo_def lot_account_def)
  note b = backed_credit[OF c m assms(2)]
  show "money_at f d \<Longrightarrow> money_at f d'" by (rule b(1))
  show "active_balance a now d' = active_balance a now d
      + (if a = earn_account eq cx \<and> now < addUtcMonthsClamped (eq_occurredAt eq) 12 then v else 0)"
    by (rule b(2))
qed

lemma earn_replay_cong:
  "idempotencyRecords d = idempotencyRecords d' \<Longrightarrow> findCompletedEarnReplay eq d = findCompletedEarnReplay eq d'"
  by (simp add: findCompletedEarnReplay_def earn_record_def idempotencyRecord_findUnique_def)

lemma earn_finish_stores:
  assumes "earn_finish eq action i response extra now d = Inr (r, d')"
  shows "r = JObj response" and "findCompletedEarnReplay eq d' = Some r"
proof -
  from assms obtain d1 where p: "persistCompletedIdempotencyResponse EARN_ENDPOINT (eq_tenantId eq)
      (actor_id (eq_actor eq)) (eq_key eq) (eq_requestHash eq) (JObj response) now d = Inr ((), d1)"
    and r: "r = JObj response" and i: "idempotencyRecords d' = idempotencyRecords d1"
    by (auto simp: earn_finish_def tx_bind_eq_Inr recordWithClient_def auditLog_create_def)
  show "r = JObj response" by (rule r)
  show "findCompletedEarnReplay eq d' = Some r"
    using idempotencyRecord_create_find[OF p[unfolded persistCompletedIdempotencyResponse_def]] r
    unfolding earn_replay_cong[OF i] by (simp add: findCompletedEarnReplay_def earn_record_def)
qed

lemma earn_confirm_effect:
  assumes "earn_confirm env eq plan cx receipt now d = Inr (response, d')"
  obtains creditKobo where
    "calculateCreditKobo (eq_purchaseAmountKobo eq) env (epl_policy plan) = Inr creditKobo"
    "\<And>f. money_at f d \<Longrightarrow> money_at f d'"
    "\<And>a. active_balance a now d' = active_balance a now d
      + (if a = earn_account eq cx \<and> now < addUtcMonthsClamped (eq_occurredAt eq) 12 then creditKobo else 0)"
    "json_get response ''availableBalanceKobo'' = JNum (js_Number (active_balance (earn_account eq cx) now d'))"
    "findCompletedEarnReplay eq d' = Some response"
proof -
  obtain creditKobo entry lot d1 d2 status d3 where
    ca: "calculateCreditKobo (eq_purchaseAmountKobo eq) env (epl_policy plan) = Inr creditKobo"
    and cr: "earn_credit env eq cx receipt creditKobo d = Inr ((entry, lot), d1)"
    and no: "earn_notify env eq cx receipt (le_id entry) creditKobo now d1 = Inr (status, d2)"
    and fi: "earn_finish eq ''earn.confirmed'' (rc_id receipt)
       (earn_confirmed_response eq cx receipt (le_id entry) creditKobo
          (getActiveBalanceKobo (eq_tenantId eq) (cd_customerId (cx_card cx)) now d2) lot status now)
       [(''creditLotId'', JStr (lot_id lot))] now d2 = Inr (response, d3)"
    and v: "money_view d' = money_view d3" and i: "idempotencyRecords d' = idempotencyRecords d3"
    by (rule earn_confirm_stages[OF assms])
  have nn: "0 \<le> creditKobo" using ca by (simp add: calculateCreditKobo_def calculateEarnAmountKobo_nonneg)
  have v2: "money_view d2 = money_view d1" by (rule tx_frameD[OF earn_notify_frame no]) simp_all
  have v3: "money_view d3 = money_view d2" by (rule tx_frameD[OF earn_finish_frame fi]) simp_all
  have v': "money_view d' = money_view d1" using v v2 v3 by simp
  have b: "active_balance a now d' = active_balance a now d1" "active_balance a now d2 = active_balance a now d1" for a
    using v' v2 by (simp_all add: active_balance_def getActiveBalanceKobo_def)
  have "response = JObj (earn_confirmed_response eq cx receipt (le_id entry) creditKobo
          (getActiveBalanceKobo (eq_tenantId eq) (cd_customerId (cx_card cx)) now d2) lot status now)"
    by (rule earn_finish_stores(1)[OF fi])
  then have j: "json_get response ''availableBalanceKobo'' = JNum (js_Number (active_balance (earn_account eq cx) now d'))"
    using b[of "earn_account eq cx"] by (simp add: earn_confirmed_response_def json_get_def active_balance_def)
  show thesis
  proof (rule that[OF ca])
    show "money_at f d \<Longrightarrow> money_at f d'" for f
      using earn_credit_effect(1)[OF cr nn] money_at_view[OF v'] by blast
    show "active_balance a now d' = active_balance a now d
      + (if a = earn_account eq cx \<and> now < addUtcMonthsClamped (eq_occurredAt eq) 12 then creditKobo else 0)" for a
      unfolding b by (rule earn_credit_effect(2)[OF cr nn])
    show "json_get response ''availableBalanceKobo'' = JNum (js_Number (active_balance (earn_account eq cx) now d'))"
      by (rule j)
    show "findCompletedEarnReplay eq d' = Some response"
      unfolding earn_replay_cong[OF i] by (rule earn_finish_stores(2)[OF fi])
  qed
qed

lemma earn_execute_stages:
  assumes "earn_execute env eq plan cx now d = Inr (response, d')"
  obtains receipt d1 where
    "earn_receipt env eq cx (fst (earn_capture env eq plan)) (snd (earn_capture env eq plan)) now d = Inr (receipt, d1)"
    "(if fst (earn_capture env eq plan) = ReceiptCaptureStatus.PENDING_APPROVAL
      then earn_hold env eq plan cx receipt (snd (earn_capture env eq plan)) now
      else earn_confirm env eq plan cx receipt now) d1 = Inr (response, d')"
  using assms unfolding earn_execute_def case_prod_beta by (elim tx_bindE) (rule that)

text \<open>
  The facts about a committed capture the services build on: either it is held and no money moves,
  or the account earns the rounded-up share.
\<close>

lemma earn_execute_effect:
  assumes "earn_execute env eq plan cx now d = Inr (response, d')"
  shows "money_at f d \<Longrightarrow> money_at f d'" and "findCompletedEarnReplay eq d' = Some response"
    and "if fst (earn_capture env eq plan) = ReceiptCaptureStatus.PENDING_APPROVAL
         then money_view d' = money_view d
         else \<exists>v. calculateCreditKobo (eq_purchaseAmountKobo eq) env (epl_policy plan) = Inr v
           \<and> (\<forall>a. active_balance a now d' = active_balance a now d
                + (if a = earn_account eq cx \<and> now < addUtcMonthsClamped (eq_occurredAt eq) 12 then v else 0))
           \<and> json_get response ''availableBalanceKobo'' = JNum (js_Number (active_balance (earn_account eq cx) now d'))"
proof -
  let ?c = "fst (earn_capture env eq plan)" and ?r = "snd (earn_capture env eq plan)"
  obtain receipt d1 where re: "earn_receipt env eq cx ?c ?r now d = Inr (receipt, d1)"
    and fin: "(if ?c = ReceiptCaptureStatus.PENDING_APPROVAL then earn_hold env eq plan cx receipt ?r now
      else earn_confirm env eq plan cx receipt now) d1 = Inr (response, d')"
    by (rule earn_execute_stages[OF assms])
  have v1: "money_view d1 = money_view d" by (rule tx_frameD[OF earn_receipt_frame re]) simp
  have b1: "active_balance a now d1 = active_balance a now d" for a
    using v1 by (simp add: active_balance_def getActiveBalanceKobo_def)
  have "(money_at f d \<longrightarrow> money_at f d') \<and> findCompletedEarnReplay eq d' = Some response
    \<and> (if ?c = ReceiptCaptureStatus.PENDING_APPROVAL then money_view d' = money_view d
         else \<exists>v. calculateCreditKobo (eq_purchaseAmountKobo eq) env (epl_policy plan) = Inr v
           \<and> (\<forall>a. active_balance a now d' = active_balance a now d
                + (if a = earn_account eq cx \<and> now < addUtcMonthsClamped (eq_occurredAt eq) 12 then v else 0))
           \<and> json_get response ''availableBalanceKobo'' = JNum (js_Number (active_balance (earn_account eq cx) now d')))"
  proof (cases "?c = ReceiptCaptureStatus.PENDING_APPROVAL")
    case True
    then have h: "earn_hold env eq plan cx receipt ?r now d1 = Inr (response, d')" using fin by simp
    have "money_view d' = money_view d" using tx_frameD[OF earn_hold_frame h, of money_view] v1 by simp
    moreover have "findCompletedEarnReplay eq d' = Some response"
      using h by (auto simp: earn_hold_def tx_bind_eq_Inr dest: earn_finish_stores(2))
    ultimately show ?thesis using True money_at_view[of d' d f] by simp
  next
    case False
    then have c: "earn_confirm env eq plan cx receipt now d1 = Inr (response, d')" using fin by simp
    show ?thesis
      by (rule earn_confirm_effect[OF c]) (use False b1 money_at_view[OF v1] in auto)
  qed
  then show "money_at f d \<Longrightarrow> money_at f d'" and "findCompletedEarnReplay eq d' = Some response"
    and "if ?c = ReceiptCaptureStatus.PENDING_APPROVAL then money_view d' = money_view d
         else \<exists>v. calculateCreditKobo (eq_purchaseAmountKobo eq) env (epl_policy plan) = Inr v
           \<and> (\<forall>a. active_balance a now d' = active_balance a now d
                + (if a = earn_account eq cx \<and> now < addUtcMonthsClamped (eq_occurredAt eq) 12 then v else 0))
           \<and> json_get response ''availableBalanceKobo'' = JNum (js_Number (active_balance (earn_account eq cx) now d'))"
    by blast+
qed

text \<open>
  C14: a capture that commits either is held for approval (a late claim, or a purchase above the
  approval threshold) and touches no lot and no ledger entry, or raises the active balance of the
  card's customer by the rounded-up share of the purchase, reports that balance and leaves every
  other account alone.
\<close>

theorem earn_execute_balance:
  assumes "earn_execute env eq plan cx now d = Inr (response, d')"
  shows "if epl_late plan \<or> approvalThresholdKobo env (epl_policy plan) < eq_purchaseAmountKobo eq
    then money_view d' = money_view d
    else active_balance a now d' = active_balance a now d
           + (if a = earn_account eq cx \<and> now < addUtcMonthsClamped (eq_occurredAt eq) 12
              then (eq_purchaseAmountKobo eq * resolveEarnRateBps env (epl_policy plan) + 9999) div 10000 else 0)
         \<and> json_get response ''availableBalanceKobo'' = JNum (js_Number (active_balance (earn_account eq cx) now d'))"
proof -
  have "fst (earn_capture env eq plan) = ReceiptCaptureStatus.PENDING_APPROVAL \<longleftrightarrow>
      epl_late plan \<or> approvalThresholdKobo env (epl_policy plan) < eq_purchaseAmountKobo eq"
    by (simp add: earn_capture_def resolveEarnCaptureStatus_def Let_def)
  with earn_execute_effect(3)[OF assms] show ?thesis
    by (cases a) (auto simp: calculateCreditKobo_def calculateEarnAmountKobo_Inr)
qed

subsection \<open>Books\<close>

context session_invariant
begin

lemma earn_attempt_keeps:
  assumes "P d" and "session_keeps P sched others" and "\<And>cx now. tx_keeps P (earn_execute env eq plan cx now)"
    and "earn_attempt env eq plan sched clk k vars d = (r, vars', d')"
  shows "P d'"
  using session_keepsD(1)[OF assms(2,1), of k] assms(4)
  by (auto simp: earn_attempt_def split: prod.splits option.splits sum.splits dest: tx_keepsD[OF assms(3)])

lemma earn_recordDuplicateReceiptAttempt_keeps:
  "earn_recordDuplicateReceiptAttempt env i d = Inr (u, d') \<Longrightarrow> P d' = P d"
  by (rule tx_frameD[OF earn_recordDuplicateReceiptAttempt_frame]) (simp_all add: P_audit P_outbox)

lemma earn_catch_keeps:
  assumes "P d" and "earn_catch env eq e vars d = (r, d')"
  shows "P d'"
  using assms earn_recordDuplicateReceiptAttempt_keeps
  by (auto simp: earn_catch_def earn_duplicate_receipt_def Let_def split: option.splits sum.splits prod.splits if_splits)

lemma earn_loop_keeps:
  assumes "P d" and "session_keeps P sched others" and "\<And>cx now. tx_keeps P (earn_execute env eq plan cx now)"
  shows "P (snd (earn_loop env eq plan sched others clk k n vars d))"
  using assms(1)
proof (induction n arbitrary: k vars d)
  case (Suc n)
  obtain r vars1 d1 where at: "earn_attempt env eq plan sched clk k vars d = (r, vars1, d1)"
    by (metis surj_pair)
  have m1: "P d1" by (rule earn_attempt_keeps[OF Suc.prems assms(2,3) at])
  note m2 = session_keepsD(2)[OF assms(2) m1, of k]
  show ?case
    using m1 earn_catch_keeps[OF m2] Suc.IH
    by (auto simp: at split: sum.splits prod.splits option.splits)
qed simp

lemma earn_keeps:
  assumes "P d" and "session_keeps P sched others" and "\<And>eq plan cx now. tx_keeps P (earn_execute env eq plan cx now)"
  shows "P (snd (earn env sched others clk tenantId actor key dto d))"
  using assms(1) earn_loop_keeps[OF _ assms(2,3)] cleanup_keeps
  by (auto simp: earn_def Let_def split: sum.splits option.splits)

end

lemma earn_money:
  assumes "money_at f d" and "polite f sched others"
  shows "money_at f (snd (earn env sched others clk tenantId actor key dto d))"
  using assms by (rule money_inv.earn_keeps) (auto simp: tx_keeps_def intro!: tx_specI dest: earn_execute_effect(1))

subsection \<open>Idempotency\<close>

lemma earn_lookup_Some: "earn_lookup eq d = Inr (Some r) \<longleftrightarrow> findCompletedEarnReplay eq d = Some r"
  by (auto simp: earn_lookup_def findCompletedEarnReplay_def split: option.splits)

lemma earn_attempt_stores:
  "earn_attempt env eq plan sched clk k vars d = (Inr r, vars', d') \<Longrightarrow> findCompletedEarnReplay eq d' = Some r"
  by (auto simp: earn_attempt_def split: prod.splits option.splits sum.splits dest: earn_execute_effect(2))

lemma earn_catch_replays:
  "earn_catch env eq e vars d = (Some (Inr r), d') \<Longrightarrow> findCompletedEarnReplay eq d' = Some r"
  by (auto simp: earn_catch_def Let_def split: option.splits sum.splits prod.splits if_splits)

lemma earn_loop_stores:
  "earn_loop env eq plan sched others clk k n vars d = (Inr r, d') \<Longrightarrow> findCompletedEarnReplay eq d' = Some r"
proof (induction n arbitrary: k vars d)
  case (Suc n)
  then show ?case
    by (auto split: prod.splits sum.splits option.splits dest: earn_attempt_stores earn_catch_replays)
qed simp

definition earn_in :: "env \<Rightarrow> string \<Rightarrow> AuthContext \<Rightarrow> string option \<Rightarrow> EarnTransactionDto \<Rightarrow>
    world \<Rightarrow> db \<Rightarrow> (svc_error + json) \<times> db" where
  "earn_in env tenantId actor key dto w =
     earn env (fst w) (fst (snd w)) (snd (snd w)) tenantId actor key dto"

definition earn_replay :: "env \<Rightarrow> string \<Rightarrow> AuthContext \<Rightarrow> string option \<Rightarrow> EarnTransactionDto \<Rightarrow>
    db \<Rightarrow> json option" where
  "earn_replay env tenantId actor key dto d =
     (case earn_prepare env tenantId actor key dto of
        Inl e \<Rightarrow> None | Inr eq \<Rightarrow> findCompletedEarnReplay eq d)"

interpretation earn_idem: idempotent_call "earn_in env tenantId actor key dto"
  "earn_replay env tenantId actor key dto" records_live for env tenantId actor key dto
proof unfold_locales
  fix w r and d d' :: db
  assume "earn_in env tenantId actor key dto w d = (Inr r, d')"
  then show "earn_replay env tenantId actor key dto d' = Some r"
    by (auto simp: earn_in_def earn_def earn_replay_def Let_def earn_lookup_Some
        split: sum.splits option.splits dest: earn_loop_stores)
next
  fix w r and d :: db
  assume "earn_replay env tenantId actor key dto d = Some r" and live: "records_live w d"
  then obtain eq where p: "earn_prepare env tenantId actor key dto = Inr eq"
    and r: "findCompletedEarnReplay eq d = Some r" by (auto simp: earn_replay_def split: sum.splits)
  have "cleanupExpiredIdempotencyRecords tenantId (actor_id actor) EARN_ENDPOINT (eq_key eq)
      (snd (snd w) 0) d = d"
    by (rule cleanup_unexpired) (use live in \<open>simp add: records_live_def\<close>)
  with p r show "earn_in env tenantId actor key dto w d = (Inr r, d)"
    by (simp add: earn_in_def earn_def earn_lookup_Some[THEN iffD2])
qed

text \<open>
  A capture that returned a response returns it again every time the request is repeated with
  its key while the records are unexpired, and no repetition changes anything.
\<close>

theorem earn_idempotent:
  assumes "earn env sched others clk tenantId actor key dto d = (Inr r, d')"
    and "\<forall>w\<in>set ws. \<forall>x\<in>set (idempotencyRecords d'). snd (snd w) 0 < idr_expiresAt x"
  shows "run_calls (\<lambda>(sched, others, clk). earn env sched others clk tenantId actor key dto) ws d'
    = (map (\<lambda>_. Inr r) ws, d')"
proof -
  have "(\<lambda>(sched, others, clk). earn env sched others clk tenantId actor key dto) = earn_in env tenantId actor key dto"
    by (simp add: earn_in_def fun_eq_iff)
  then show ?thesis
    using earn_idem.calls_again[of env tenantId actor key dto "(sched, others, clk)" d r d' ws] assms
    by (simp add: earn_in_def records_live_def)
qed

subsection \<open>A receipt is captured once\<close>

definition receipt_identity :: "Receipt \<Rightarrow> string \<times> string \<times> int \<times> string" where
  "receipt_identity r = (rc_tenantId r, rc_branchId r, rc_receiptWeekStart r, rc_normalizedPosReceiptNumber r)"

definition earn_receipt_view ::
  "db \<Rightarrow> (CreditLot list \<times> LoyaltyLedgerEntry list) \<times> Receipt list \<times> Approval list \<times> SmsMessage list" where
  "earn_receipt_view d = (money_view d, receipts d, approvals d, smsMessages d)"

lemma earn_recordDuplicateReceiptAttempt_view:
  "earn_recordDuplicateReceiptAttempt env i d = Inr (u, d') \<Longrightarrow> earn_receipt_view d' = earn_receipt_view d"
  by (rule tx_frameD[OF earn_recordDuplicateReceiptAttempt_frame]) (auto simp: earn_receipt_view_def)

text \<open>
  When the receipt of a request that passes the checks is already captured for the branch and
  week and no other session is at work, the call fails, nothing is earned, no receipt, approval or message is added, and the
  attempt is recorded under the receipt captured first: in the audit log and as the event the rule \<open>FR-DUP-001\<close> is
  evaluated on.
\<close>

theorem earn_duplicate_refused:
  assumes "earn_prepare env tenantId actor key dto = Inr eq"
    and "earn_lookup eq d = Inr None" and "\<forall>x\<in>set (idempotencyRecords d). clk 0 < idr_expiresAt x"
    and "earn_checks_before env eq clk d = Inr plan" and "earn_checks env eq (epl_deviceId plan) d = Inr cx"
    and "dup \<in> set (receipts d)"
    and "receipt_identity dup = (eq_tenantId eq, cx_branchId cx, cx_receiptWeekStart cx, eq_normalizedPos eq)"
  shows "\<exists>e d'. earn env alone (\<lambda>_ d. d) clk tenantId actor key dto d = (Inl e, d')
    \<and> earn_receipt_view d' = earn_receipt_view d
    \<and> (e = receipt_already_used \<longrightarrow> (\<exists>r log. r \<in> set (receipts d) \<and> receipt_identity r = receipt_identity dup
         \<and> auditLogs d' = auditLogs d @ [log] \<and> au_entityId log = Some (rc_id r)
         \<and> au_action log = ''RECEIPT_DUPLICATE_ATTEMPT_RECORDED''
         \<and> (\<exists>ev. outboxEvents d' = outboxEvents d @ [ev] \<and> ob_eventType ev = ''fraud.evaluate'' \<and> ob_aggregateId ev = rc_id r
            \<and> json_get (ob_payload ev) ''ruleCode'' = JStr ''FR-DUP-001'')))"
proof -
  let ?p = "\<lambda>x. rc_tenantId x = eq_tenantId eq \<and> rc_branchId x = cx_branchId cx
      \<and> rc_receiptWeekStart x = cx_receiptWeekStart cx \<and> rc_normalizedPosReceiptNumber x = eq_normalizedPos eq"
  have "?p dup" using assms(7) by (simp add: receipt_identity_def)
  with assms(6) have "receipt_by_identity (eq_tenantId eq) (cx_branchId cx) (cx_receiptWeekStart cx)
      (eq_normalizedPos eq) d \<noteq> None"
    by (auto simp: receipt_by_identity_def find_None_iff)
  then obtain r where r: "receipt_by_identity (eq_tenantId eq) (cx_branchId cx) (cx_receiptWeekStart cx)
      (eq_normalizedPos eq) d = Some r" by blast
  then have rin: "r \<in> set (receipts d)" "receipt_identity r = receipt_identity dup"
    using assms(7) by (auto simp: receipt_by_identity_def find_Some_iff receipt_identity_def)
  have cl: "cleanupExpiredIdempotencyRecords tenantId (actor_id actor) EARN_ENDPOINT (eq_key eq) (clk 0) d = d"
    by (rule cleanup_unexpired) (use assms(3) in blast)
  have at: "earn_attempt env eq plan alone clk (Suc 0) \<lparr> ev_cx = None, ev_duplicate = None \<rparr> d
      = (Inl receipt_already_used, \<lparr> ev_cx = Some cx, ev_duplicate = Some (rc_id r) \<rparr>, d)"
    using assms(5) r by (simp add: earn_attempt_def alone_def)
  let ?i = "earn_duplicate eq cx (eq_rawPosReceiptNumber eq) (rc_id r)"
  have call: "earn env alone (\<lambda>_ d. d) clk tenantId actor key dto d =
      (case earn_recordDuplicateReceiptAttempt env ?i d of
         Inl e' \<Rightarrow> (Inl e', d) | Inr (u, d') \<Rightarrow> (Inl receipt_already_used, d'))"
    using assms(1,2,4) by (simp add: earn_def cl EARN_SERIALIZATION_RETRY_ATTEMPTS_def numeral_3_eq_3 at earn_catch_def
        split: sum.splits)
  show ?thesis
  proof (cases "earn_recordDuplicateReceiptAttempt env ?i d")
    case (Inl e)
    then have "e \<noteq> receipt_already_used"
      by (auto simp: earn_recordDuplicateReceiptAttempt_def tx_bind_eq_Inl tx_void_def recordWithClient_def
          auditLog_create_def outboxEvent_create_def create_row_def fresh_id_def outboxEvent_constraints_def p2002_def
          receipt_already_used_def Let_def split: option.splits if_splits)
    with Inl call show ?thesis by auto
  next
    case (Inr p)
    obtain u d' where p: "earn_recordDuplicateReceiptAttempt env ?i d = Inr (u, d')" using Inr by (cases p) simp
    have "\<exists>log. auditLogs d' = auditLogs d @ [log] \<and> au_entityId log = Some (rc_id r)
         \<and> au_action log = ''RECEIPT_DUPLICATE_ATTEMPT_RECORDED''
         \<and> (\<exists>ev. outboxEvents d' = outboxEvents d @ [ev] \<and> ob_eventType ev = ''fraud.evaluate'' \<and> ob_aggregateId ev = rc_id r
            \<and> json_get (ob_payload ev) ''ruleCode'' = JStr ''FR-DUP-001'')"
      using p by (auto simp: earn_recordDuplicateReceiptAttempt_def tx_bind_eq_Inr recordWithClient_def
          auditLog_create_def outboxEvent_create_def create_row_eq_Inr earn_duplicate_def json_get_def)
    with call p earn_recordDuplicateReceiptAttempt_view[OF p] rin show ?thesis by auto
  qed
qed

subsection \<open>Captures at the demonstration shop\<close>

definition demo_earn_dto :: EarnTransactionDto where
  "demo_earn_dto = \<lparr> edto_posReceiptNumber = '' r-18'', edto_cardSerialNumber = ''sc-01'',
     edto_purchaseAmountKobo = 150025, edto_occurredAt = ''x'', edto_overrideReason = None \<rparr>"

definition demo_eq :: earn_request where
  "demo_eq = \<lparr> eq_tenantId = ''T'', eq_actor = demo_cashier, eq_key = ''k3'',
     eq_rawPosReceiptNumber = '' r-18'', eq_posReceiptNumber = ''r-18'', eq_normalizedPos = ''R-18'',
     eq_cardSerialNumber = ''SC-01'', eq_purchaseAmountKobo = 150025, eq_occurredAt = demo_now,
     eq_overrideReason = None,
     eq_requestHash = earn_hashRequest demo_env (JObj
       [(''tenantId'', JStr ''T''), (''actorId'', JStr ''U''), (''cardSerialNumber'', JStr ''SC-01''),
        (''posReceiptNumber'', JStr ''R-18''), (''purchaseAmountKobo'', JNum 150025),
        (''occurredAt'', json_date demo_now), (''deviceId'', JStr ''D''), (''overrideReason'', JUndefined)]) \<rparr>"

definition demo_plan :: earn_plan where
  "demo_plan = \<lparr> epl_policy = None, epl_deviceId = ''D'', epl_late = False, epl_override = False \<rparr>"

abbreviation demo_earn :: "db \<Rightarrow> (svc_error + json) \<times> db" where
  "demo_earn \<equiv> earn demo_env alone (\<lambda>_ d. d) (\<lambda>_. demo_now) ''T'' demo_cashier (Some ''k3'') demo_earn_dto"

lemma demo_earn_prepare: "earn_prepare demo_env ''T'' demo_cashier (Some ''k3'') demo_earn_dto = Inr demo_eq"
proof -
  have "earn_normalizeIdempotencyKey (Some ''k3'') = Inr ''k3''" "normalizeReceiptNumber '' r-18'' = Inr ''r-18''"
    "normalizeReceiptIdentity ''r-18'' = ''R-18''" "normalizeCardSerial ''sc-01'' = Inr ''SC-01''"
    by code_simp+
  moreover have "earn_parseDate demo_env ''x'' ''occurredAt'' = Inr demo_now"
    by (simp add: earn_parseDate_def demo_env_def)
  ultimately show ?thesis
    by (simp add: earn_prepare_def demo_earn_dto_def demo_eq_def demo_cashier_def
        json_opt_str_def opt_json_def undefined_str_def Let_def)
qed

lemma demo_earn_checks_before:
  assumes "policyConfigurations d = []"
  shows "earn_checks_before demo_env demo_eq (\<lambda>_. demo_now) d = Inr demo_plan"
  using assms by (simp add: earn_checks_before_def demo_eq_def demo_cashier_def demo_plan_def truthy_def Let_def
      policyConfiguration_findUnique_def assertPurchaseAmountAllowed_def isSafeInteger_def MAX_SAFE_INTEGER_def
      config_or_def demo_env_def LATE_RECEIPT_CLAIM_AGE_MS_def assertReceiptTimestampAllowed_def
      MAX_POS_FUTURE_SKEW_MS_def MAX_POS_PAST_SKEW_MS_def)

lemma demo_earn_checks:
  assumes "devices d = devices demo_db" and "branches d = branches demo_db" and "cards d = cards demo_db"
    and "customers d = customers demo_db"
  shows "earn_checks demo_env demo_eq ''D'' d = Inr demo_cx"
proof -
  have "deriveReceiptWeekStart BadRequestException (tzDate demo_env) demo_now ''Africa/Lagos'' 1 = Inr 1708905600000"
    by code_simp
  moreover have "js_toUpperCase ''SC-01'' = ''SC-01''" by code_simp
  ultimately show ?thesis
    using assms by (simp add: earn_checks_def demo_eq_def demo_cx_def demo_cashier_def truthy_def
        device_with_branch_def card_by_serial_def card_customer_def res_unless_def Let_def demo_db_def)
qed

lemma earn_finish_succeeds:
  assumes "idempotencyRecords d = []"
  obtains d' where "earn_finish eq action i response extra now d = Inr (JObj response, d')"
    and "\<forall>x\<in>set (idempotencyRecords d'). idr_expiresAt x = now + IDP_EXPIRY_MS"
  using assms that
  by (auto simp: earn_finish_def persistCompletedIdempotencyResponse_def idempotencyRecord_create_def
      recordWithClient_def auditLog_create_def tx_bind_def)

lemma demo_earn_before_response:
  "(case earn_receipt demo_env demo_eq demo_cx ReceiptCaptureStatus.CAPTURED None demo_now demo_db of
      Inl e \<Rightarrow> False
    | Inr (receipt, d1) \<Rightarrow>
       (case earn_credit demo_env demo_eq demo_cx receipt 3001 d1 of
          Inl e \<Rightarrow> False
        | Inr (p, d2) \<Rightarrow>
           (case earn_notify demo_env demo_eq demo_cx receipt (le_id (fst p)) 3001 demo_now d2 of
              Inl e \<Rightarrow> False
            | Inr (status, d3) \<Rightarrow> idempotencyRecords d3 = [])))"
  by code_simp

lemma demo_earn_execute:
  obtains r d' where "earn_execute demo_env demo_eq demo_plan demo_cx demo_now demo_db = Inr (r, d')"
    and "\<forall>x\<in>set (idempotencyRecords d'). demo_now < idr_expiresAt x"
proof -
  have c: "earn_capture demo_env demo_eq demo_plan = (ReceiptCaptureStatus.CAPTURED, None)"
    "calculateCreditKobo (eq_purchaseAmountKobo demo_eq) demo_env (epl_policy demo_plan) = Inr 3001"
    "epl_override demo_plan = False"
    by (simp_all add: earn_capture_def demo_eq_def demo_plan_def resolveEarnCaptureStatus_def Let_def
        approvalThresholdKobo_def flagThresholdKobo_def config_or_def demo_env_def calculateCreditKobo_def
        calculateEarnAmountKobo_ok resolveEarnRateBps_def)
  obtain receipt d1 p d2 status d3 where
    s1: "earn_receipt demo_env demo_eq demo_cx ReceiptCaptureStatus.CAPTURED None demo_now demo_db = Inr (receipt, d1)"
    and p: "earn_credit demo_env demo_eq demo_cx receipt 3001 d1 = Inr (p, d2)"
    and n: "earn_notify demo_env demo_eq demo_cx receipt (le_id (fst p)) 3001 demo_now d2 = Inr (status, d3)"
    and i: "idempotencyRecords d3 = []"
    using demo_earn_before_response by (elim succeeds_caseE) (rule that)
  obtain entry lot where e: "p = (entry, lot)" by (cases p)
  note s = s1 p[unfolded e] n[unfolded e fst_conv]
  define response where "response = earn_confirmed_response demo_eq demo_cx receipt (le_id entry) 3001
    (getActiveBalanceKobo (eq_tenantId demo_eq) (cd_customerId (cx_card demo_cx)) demo_now d3) lot status demo_now"
  obtain d' where f: "earn_finish demo_eq ''earn.confirmed'' (rc_id receipt) response
      [(''creditLotId'', JStr (lot_id lot))] demo_now d3 = Inr (JObj response, d')"
    and x: "\<forall>x\<in>set (idempotencyRecords d'). idr_expiresAt x = demo_now + IDP_EXPIRY_MS"
    by (rule earn_finish_succeeds[OF i])
  have "earn_execute demo_env demo_eq demo_plan demo_cx demo_now demo_db = Inr (JObj response, d')"
    using s f by (simp add: earn_execute_def earn_confirm_def c response_def)
  moreover have "\<forall>x\<in>set (idempotencyRecords d'). demo_now < idr_expiresAt x"
    using x by (simp add: IDP_EXPIRY_MS_def)
  ultimately show thesis by (rule that)
qed

lemma demo_earn_confirmed:
  obtains r d' where "demo_earn demo_db = (Inr r, d')"
    and "\<forall>x\<in>set (idempotencyRecords d'). demo_now < idr_expiresAt x"
proof -
  obtain r d' where e: "earn_execute demo_env demo_eq demo_plan demo_cx demo_now demo_db = Inr (r, d')"
    and x: "\<forall>x\<in>set (idempotencyRecords d'). demo_now < idr_expiresAt x" by (rule demo_earn_execute)
  have i: "idempotencyRecords demo_db = []" and n: "receipts demo_db = []" "policyConfigurations demo_db = []"
    by (simp_all add: demo_db_def)
  have "cleanupExpiredIdempotencyRecords ''T'' (actor_id demo_cashier) EARN_ENDPOINT (eq_key demo_eq)
      demo_now demo_db = demo_db" by (rule cleanup_unexpired) (simp add: i)
  moreover have "earn_lookup demo_eq demo_db = Inr None"
    by (simp add: earn_lookup_def earn_record_def idempotencyRecord_findUnique_def i)
  moreover have "epl_deviceId demo_plan = ''D''" by (simp add: demo_plan_def)
  ultimately have "demo_earn demo_db = (Inr r, d')"
    by (simp add: earn_def demo_earn_prepare demo_earn_checks_before n EARN_SERIALIZATION_RETRY_ATTEMPTS_def
        numeral_3_eq_3 earn_attempt_def alone_def demo_earn_checks receipt_by_identity_def e)
  with x that show thesis by blast
qed

theorem earn_execute_balance_witness:
  "\<exists>r d'. earn_execute demo_env demo_eq demo_plan demo_cx demo_now demo_db = Inr (r, d')
     \<and> active_balance (''T'', ''C'') demo_now d' = 120000 + 3001"
proof -
  obtain r d' where e: "earn_execute demo_env demo_eq demo_plan demo_cx demo_now demo_db = Inr (r, d')"
    by (rule demo_earn_execute)
  have b: "active_balance (''T'', ''C'') demo_now demo_db = 120000" by code_simp
  have c: "eq_tenantId demo_eq = ''T''" "cd_customerId (cx_card demo_cx) = ''C''"
    "demo_now < addUtcMonthsClamped (eq_occurredAt demo_eq) 12" "eq_purchaseAmountKobo demo_eq = 150025"
    "epl_late demo_plan = False" "approvalThresholdKobo demo_env (epl_policy demo_plan) = 20000000"
    "resolveEarnRateBps demo_env (epl_policy demo_plan) = 200"
    by (simp_all add: demo_eq_def demo_plan_def demo_cx_def demo_db_def approvalThresholdKobo_def config_or_def
        demo_env_def resolveEarnRateBps_def) code_simp
  from earn_execute_balance[OF e, of "(''T'', ''C'')"] b c e show ?thesis by auto
qed

theorem earn_idempotent_witness:
  "\<exists>r d'. demo_earn demo_db = (Inr r, d') \<and> demo_earn d' = (Inr r, d')"
proof -
  obtain r d' where d: "demo_earn demo_db = (Inr r, d')"
    and x: "\<forall>x\<in>set (idempotencyRecords d'). demo_now < idr_expiresAt x" by (rule demo_earn_confirmed)
  from earn_idempotent[OF d, of "[(alone, \<lambda>_ d. d, \<lambda>_. demo_now)]"] x d show ?thesis
    by (auto split: prod.splits)
qed

definition demo_receipt :: Receipt where
  "demo_receipt =
     \<lparr> rc_id = ''Q'', rc_tenantId = ''T'', rc_branchId = ''B'', rc_customerId = ''C'', rc_cardId = ''K'',
       rc_deviceId = Some ''D'', rc_posReceiptNumber = ''r-18'', rc_normalizedPosReceiptNumber = ''R-18'',
       rc_receiptWeekStart = 1708905600000, rc_purchaseAmountKobo = 150025, rc_occurredAt = demo_now,
       rc_capturedByTenantId = ''T'', rc_capturedBy = ''U'', rc_captureStatus = ReceiptCaptureStatus.CAPTURED,
       rc_reviewStatus = ReceiptReviewStatus.APPROVED, rc_approvalReasonCode = None, rc_reviewedAt = None,
       rc_reviewedByTenantId = None, rc_reviewedBy = None, rc_approvedByTenantId = None, rc_approvedBy = None,
       rc_approvedAt = None, rc_capturedAt = demo_now \<rparr>"

theorem earn_duplicate_refused_witness:
  "\<exists>e d'. demo_earn (demo_db\<lparr>receipts := [demo_receipt]\<rparr>) = (Inl e, d')
     \<and> receipts d' = [demo_receipt] \<and> money_view d' = money_view demo_db"
proof -
  let ?d = "demo_db\<lparr>receipts := [demo_receipt]\<rparr>"
  have i: "idempotencyRecords ?d = []" and n: "policyConfigurations ?d = []" by (simp_all add: demo_db_def)
  have l: "earn_lookup demo_eq ?d = Inr None"
    by (simp add: earn_lookup_def earn_record_def idempotencyRecord_findUnique_def i)
  have c: "earn_checks demo_env demo_eq (epl_deviceId demo_plan) ?d = Inr demo_cx"
    by (simp add: demo_plan_def demo_earn_checks)
  have r: "receipt_identity demo_receipt = (eq_tenantId demo_eq, cx_branchId demo_cx, cx_receiptWeekStart demo_cx,
      eq_normalizedPos demo_eq)"
    by (simp add: receipt_identity_def demo_receipt_def demo_eq_def demo_cx_def)
  from earn_duplicate_refused[OF demo_earn_prepare l _ demo_earn_checks_before[OF n] c _ r] i
  show ?thesis by (auto simp: earn_receipt_view_def)
qed

text \<open>
  Capturing a receipt keeps the books balanced whatever it returns and however often it is
  retried, as long as the sessions it races with do.
\<close>

theorem earn_keeps_books:
  assumes "books_balance d" and "polite (\<lambda>_. 0) sched others"
  shows "books_balance (snd (earn env sched others clk tenantId actor key dto d))"
  using earn_money[OF _ assms(2)] assms(1) unfolding books_balance_money_at .

end
