(* ===== verification/Approval_Expiry.thy ===== *)
theory Approval_Expiry
  imports Messages Lot_Allocation
begin

text \<open>
  \<^verbatim>\<open>src/common/approval-expiry.ts\<close> and the sweep of \<^verbatim>\<open>src/jobs/approval-expiry.worker.ts\<close>: a pending
  approval whose time is over is expired together with the receipt and the redemption it holds.
  The life of an approval is the relation \<open>approval_step\<close>; what an operation may do to the approvals
  of a database is \<open>approvals_follow\<close>. The timer of the worker is not modelled.
\<close>

subsection \<open>The life of an approval\<close>

inductive approval_step :: "ApprovalStatus \<Rightarrow> ApprovalStatus \<Rightarrow> bool" where
  approve: "approval_step ApprovalStatus.PENDING ApprovalStatus.APPROVED"
| execute: "approval_step ApprovalStatus.APPROVED ApprovalStatus.EXECUTED"
| reject: "approval_step ApprovalStatus.PENDING ApprovalStatus.REJECTED"
| expire: "approval_step ApprovalStatus.PENDING ApprovalStatus.EXPIRED"

inductive_cases approval_step_EXECUTED: "approval_step ApprovalStatus.EXECUTED s"
inductive_cases approval_step_REJECTED: "approval_step ApprovalStatus.REJECTED s"
inductive_cases approval_step_EXPIRED: "approval_step ApprovalStatus.EXPIRED s"

definition decided :: "ApprovalStatus \<Rightarrow> bool" where
  "decided s = (s = ApprovalStatus.EXECUTED \<or> s = ApprovalStatus.REJECTED \<or> s = ApprovalStatus.EXPIRED)"

lemma decided_final: "approval_step\<^sup>*\<^sup>* s s' \<Longrightarrow> decided s \<Longrightarrow> s' = s"
  by (induction rule: converse_rtranclp_induct)
    (auto simp: decided_def elim: approval_step_EXECUTED approval_step_REJECTED approval_step_EXPIRED)

lemma approval_steps [intro, simp]:
  "approval_step\<^sup>*\<^sup>* ApprovalStatus.PENDING ApprovalStatus.APPROVED"
  "approval_step\<^sup>*\<^sup>* ApprovalStatus.APPROVED ApprovalStatus.EXECUTED"
  "approval_step\<^sup>*\<^sup>* ApprovalStatus.PENDING ApprovalStatus.REJECTED"
  "approval_step\<^sup>*\<^sup>* ApprovalStatus.PENDING ApprovalStatus.EXPIRED"
  by (blast intro: approval_step.intros)+

text \<open>
  Every approval there was is still there, in its place, and has moved along the steps only; new
  approvals come after, and ids stay unique.
\<close>

definition approval_moves :: "Approval \<Rightarrow> Approval \<Rightarrow> bool" where
  "approval_moves a b = (ap_id b = ap_id a \<and> ap_tenantId b = ap_tenantId a \<and> ap_targetType b = ap_targetType a
     \<and> ap_requestedBy b = ap_requestedBy a \<and> approval_step\<^sup>*\<^sup>* (ap_status a) (ap_status b))"

definition approvals_follow :: "db \<Rightarrow> db \<Rightarrow> bool" where
  "approvals_follow d d' =
     ((\<exists>kept new. approvals d' = kept @ new \<and> list_all2 approval_moves (approvals d) kept)
      \<and> (distinct (map ap_id (approvals d)) \<longrightarrow> distinct (map ap_id (approvals d'))))"

lemma approval_moves_refl [simp]: "approval_moves a a"
  by (simp add: approval_moves_def)

lemma approval_moves_trans: "approval_moves a b \<Longrightarrow> approval_moves b c \<Longrightarrow> approval_moves a c"
  by (auto simp: approval_moves_def)

lemma approval_moves_ids: "list_all2 approval_moves as bs \<Longrightarrow> map ap_id bs = map ap_id as"
  by (induction rule: list_all2_induct) (auto simp: approval_moves_def)

lemma approvals_follow_append:
  assumes "approvals d' = approvals d @ new" and "distinct (map ap_id (approvals d)) \<Longrightarrow> distinct (map ap_id (approvals d @ new))"
  shows "approvals_follow d d'"
  unfolding approvals_follow_def by (rule conjI, rule exI[of _ "approvals d"]) (use assms in \<open>auto simp: list_all2_same\<close>)

lemma approvals_follow_same: "approvals d' = approvals d \<Longrightarrow> approvals_follow d d'"
  by (rule approvals_follow_append[where new = "[]"]) simp_all

lemma approvals_follow_refl [simp]: "approvals_follow d d"
  by (rule approvals_follow_same) simp

lemma approvals_follow_trans [trans]:
  assumes "approvals_follow d1 d2" and "approvals_follow d2 d3"
  shows "approvals_follow d1 d3"
proof -
  obtain k1 n1 k2 n2 where 1: "approvals d2 = k1 @ n1" "list_all2 approval_moves (approvals d1) k1"
    and 2: "approvals d3 = k2 @ n2" "list_all2 approval_moves (approvals d2) k2"
    using assms by (auto simp: approvals_follow_def)
  from 2(2) obtain k3 n3 where 3: "k2 = k3 @ n3" "list_all2 approval_moves k1 k3"
    unfolding 1(1) by (auto simp: list_all2_append1)
  have "list_all2 approval_moves (approvals d1) k3"
    using 1(2) 3(2) by (rule list_all2_trans[rotated]) (rule approval_moves_trans)
  moreover have "approvals d3 = k3 @ n3 @ n2" using 2(1) 3(1) by simp
  ultimately show ?thesis using assms by (auto simp: approvals_follow_def)
qed

lemma approvals_follow_updated:
  assumes "approvals d' = updated p f (approvals d)" and "\<And>a. a \<in> set (approvals d) \<Longrightarrow> p a \<Longrightarrow> approval_moves a (f a)"
  shows "approvals_follow d d'"
proof -
  have "list_all2 approval_moves xs (updated p f xs)" if "\<And>a. a \<in> set xs \<Longrightarrow> p a \<Longrightarrow> approval_moves a (f a)" for xs
    using that by (induction xs) (auto simp: updated_def)
  then have l: "list_all2 approval_moves (approvals d) (approvals d')" using assms by metis
  then have "\<exists>kept new. approvals d' = kept @ new \<and> list_all2 approval_moves (approvals d) kept" by (metis append_Nil2)
  with approval_moves_ids[OF l] show ?thesis by (simp add: approvals_follow_def)
qed

interpretation follow: tx_order approvals_follow
  by unfold_locales (auto intro: approvals_follow_trans)

lemma approval_create_follows: "tx_rel approvals_follow (approval_create env mk)"
  by (rule tx_relI, rule approvals_follow_append)
    (auto simp: approval_create_def create_row_eq_Inr approval_constraints_def first_violation_None list_ex_iff split: if_splits)

lemmas approvals_follow_frame = follow.rel_frame[OF _ approvals_follow_same]

subsection \<open>Expiring one approval\<close>

record ApprovalExpiryRecord =
  ax_id :: string
  ax_tenantId :: string
  ax_targetType :: ApprovalTargetType
  ax_receiptId :: "string option"
  ax_redemptionId :: "string option"
  ax_redemptionReceiptId :: "string option"

record ApprovalExpiryActor =
  aa_tenantId :: string
  aa_id :: string

definition approval_already_decided :: svc_error where
  "approval_already_decided = DomainHttpException 409 ''APPROVAL_ALREADY_DECIDED''
     ''Approval has already been decided''"

definition is_approval :: "string \<Rightarrow> string \<Rightarrow> ApprovalStatus \<Rightarrow> Approval \<Rightarrow> bool" where
  "is_approval tenantId i status a = (ap_tenantId a = tenantId \<and> ap_id a = i \<and> ap_status a = status)"

definition expire_approval_row :: "ApprovalExpiryRecord \<Rightarrow> int \<Rightarrow> ApprovalExpiryActor option \<Rightarrow> unit dbtx" where
  "expire_approval_row approval now actor =
     tx_bind (approval_updateMany (is_approval (ax_tenantId approval) (ax_id approval) ApprovalStatus.PENDING)
       (\<lambda>a. a\<lparr>ap_status := ApprovalStatus.EXPIRED, ap_decidedAt := Some now,
              ap_decisionByTenantId := map_option aa_tenantId actor, ap_decisionBy := map_option aa_id actor,
              ap_decisionReason := Some ''approval expired''\<rparr>)) (\<lambda>count.
     tx_unless (count = 1) approval_already_decided)"

definition expire_receipt_row ::
  "ApprovalExpiryRecord \<Rightarrow> string option \<Rightarrow> int \<Rightarrow> ApprovalExpiryActor option \<Rightarrow> unit dbtx" where
  "expire_receipt_row approval receiptId now actor =
     (if truthy receiptId then
        tx_bind (receipt_updateMany
          (\<lambda>r. rc_tenantId r = ax_tenantId approval \<and> Some (rc_id r) = receiptId
             \<and> rc_captureStatus r = ReceiptCaptureStatus.PENDING_APPROVAL
             \<and> rc_reviewStatus r = ReceiptReviewStatus.PENDING)
          (\<lambda>r. r\<lparr>rc_reviewStatus := ReceiptReviewStatus.REJECTED, rc_reviewedAt := Some now,
                 rc_reviewedByTenantId := map_option aa_tenantId actor, rc_reviewedBy := map_option aa_id actor,
                 rc_approvedAt := None, rc_approvedByTenantId := None, rc_approvedBy := None\<rparr>)) (\<lambda>count.
        tx_unless (count = 1) approval_already_decided)
      else tx_return ())"

definition expire_redemption_row :: "ApprovalExpiryRecord \<Rightarrow> int \<Rightarrow> unit dbtx" where
  "expire_redemption_row approval now =
     (if truthy (ax_redemptionId approval) then
        tx_bind (redemption_updateMany
          (\<lambda>r. rd_tenantId r = ax_tenantId approval \<and> Some (rd_id r) = ax_redemptionId approval
             \<and> rd_status r = RedemptionStatus.PENDING_APPROVAL)
          (\<lambda>r. r\<lparr>rd_status := RedemptionStatus.EXPIRED, rd_rejectedAt := Some now\<rparr>)) (\<lambda>count.
        tx_unless (count = 1) approval_already_decided)
      else tx_return ())"

definition expireApproval ::
  "ApprovalExpiryRecord \<Rightarrow> int \<Rightarrow> ApprovalExpiryActor option \<Rightarrow> ApprovalExpiryActor option \<Rightarrow> unit dbtx" where
  "expireApproval approval now actor detectedBy =
     (let receiptId = (case ax_receiptId approval of Some r \<Rightarrow> Some r | None \<Rightarrow> ax_redemptionReceiptId approval) in
      tx_bind (expire_approval_row approval now actor) (\<lambda>_.
      tx_bind (expire_receipt_row approval receiptId now actor) (\<lambda>_.
      tx_bind (expire_redemption_row approval now) (\<lambda>_.
      recordWithClient (ax_tenantId approval) (map_option aa_id actor) ''approval.expire'' ''approval''
        (Some (ax_id approval))
        (JObj [(''expiredAt'', json_date now), (''targetType'', JStr (target_str (ax_targetType approval))),
               (''receiptId'', json_opt_str receiptId), (''redemptionId'', json_opt_str (ax_redemptionId approval)),
               (''detectedByTenantId'', json_opt_str (map_option aa_tenantId detectedBy)),
               (''detectedBy'', json_opt_str (map_option aa_id detectedBy))])))))"

subsection \<open>The sweep\<close>

definition redemption_of_approval :: "Approval \<Rightarrow> db \<Rightarrow> Redemption option" where
  "redemption_of_approval a d =
     (case ap_redemptionId a of None \<Rightarrow> None
      | Some i \<Rightarrow> find (\<lambda>r. rd_tenantId r = ap_tenantId a \<and> rd_id r = i) (redemptions d))"

definition overdue_row :: "db \<Rightarrow> Approval \<Rightarrow> ApprovalExpiryRecord" where
  "overdue_row d a =
     \<lparr> ax_id = ap_id a, ax_tenantId = ap_tenantId a, ax_targetType = ap_targetType a,
       ax_receiptId = ap_receiptId a, ax_redemptionId = ap_redemptionId a,
       ax_redemptionReceiptId = map_option rd_receiptId (redemption_of_approval a d) \<rparr>"

definition overdueApprovals :: "(string \<Rightarrow> bool) \<Rightarrow> int \<Rightarrow> db \<Rightarrow> Approval list" where
  "overdueApprovals locked now d =
     sort_key (\<lambda>a. (ap_expiresAt a, ap_requestedAt a, ap_id a))
       (filter (\<lambda>a. ap_status a = ApprovalStatus.PENDING \<and> ap_expiresAt a \<le> now \<and> \<not> locked (ap_id a)) (approvals d))"

definition APPROVAL_EXPIRY_SWEEP_BATCH_SIZE :: nat where "APPROVAL_EXPIRY_SWEEP_BATCH_SIZE = 50"

definition expireOverdueApprovals :: "(string \<Rightarrow> bool) \<Rightarrow> nat \<Rightarrow> int \<Rightarrow> nat dbtx" where
  "expireOverdueApprovals locked batchSize now =
     tx_bind (tx_read (\<lambda>d. map (overdue_row d) (take batchSize (overdueApprovals locked now d)))) (\<lambda>overdue.
     tx_bind (tx_for overdue (\<lambda>approval.
       expireApproval approval now None
         (Some \<lparr> aa_tenantId = ax_tenantId approval, aa_id = ''approval-expiry-worker'' \<rparr>))) (\<lambda>_.
     tx_return (length overdue)))"

subsection \<open>Effect of an expiry\<close>

definition expired :: "int \<Rightarrow> ApprovalExpiryActor option \<Rightarrow> Approval \<Rightarrow> Approval" where
  "expired now actor a = a\<lparr>ap_status := ApprovalStatus.EXPIRED, ap_decidedAt := Some now,
     ap_decisionByTenantId := map_option aa_tenantId actor, ap_decisionBy := map_option aa_id actor,
     ap_decisionReason := Some ''approval expired''\<rparr>"

lemma expire_rows_frame [frame_intros]:
  "(\<And>d v. f (d\<lparr>approvals := v\<rparr>) = f d) \<Longrightarrow> tx_frame f (expire_approval_row x now actor)"
  "(\<And>d v. f (d\<lparr>receipts := v\<rparr>) = f d) \<Longrightarrow> tx_frame f (expire_receipt_row x rid now actor)"
  "(\<And>d v. f (d\<lparr>redemptions := v\<rparr>) = f d) \<Longrightarrow> tx_frame f (expire_redemption_row x now)"
  unfolding expire_approval_row_def expire_receipt_row_def expire_redemption_row_def by (auto intro!: frame_intros)

lemma expireApproval_frame [frame_intros]:
  assumes "\<And>d v. f (d\<lparr>approvals := v\<rparr>) = f d" and "\<And>d v. f (d\<lparr>receipts := v\<rparr>) = f d"
    and "\<And>d v. f (d\<lparr>redemptions := v\<rparr>) = f d" and "\<And>d v. f (d\<lparr>auditLogs := v\<rparr>) = f d"
  shows "tx_frame f (expireApproval x now actor by)"
  unfolding expireApproval_def Let_def by (intro frame_intros assms)

lemma expireApproval_approvals:
  assumes "expireApproval x now actor by d = Inr (u, d')"
  shows "approvals d' = updated (is_approval (ax_tenantId x) (ax_id x) ApprovalStatus.PENDING) (expired now actor) (approvals d)"
    and "count_where (is_approval (ax_tenantId x) (ax_id x) ApprovalStatus.PENDING) (approvals d) = 1"
proof -
  let ?rid = "case ax_receiptId x of Some r \<Rightarrow> Some r | None \<Rightarrow> ax_redemptionReceiptId x"
  from assms obtain d1 d2 d3 where a: "expire_approval_row x now actor d = Inr ((), d1)"
    and r: "expire_receipt_row x ?rid now actor d1 = Inr ((), d2)"
    and e: "expire_redemption_row x now d2 = Inr ((), d3)"
    and l: "approvals d' = approvals d3"
    by (auto simp: expireApproval_def Let_def tx_bind_eq_Inr recordWithClient_def auditLog_create_def)
  have "approvals d3 = approvals d1"
    using tx_frameD[OF expire_rows_frame(2) r, of approvals] tx_frameD[OF expire_rows_frame(3) e, of approvals] by simp
  moreover have "expired now actor = (\<lambda>a. a\<lparr>ap_status := ApprovalStatus.EXPIRED, ap_decidedAt := Some now,
     ap_decisionByTenantId := map_option aa_tenantId actor, ap_decisionBy := map_option aa_id actor,
     ap_decisionReason := Some ''approval expired''\<rparr>)" by (simp add: fun_eq_iff expired_def)
  ultimately show "approvals d' = updated (is_approval (ax_tenantId x) (ax_id x) ApprovalStatus.PENDING)
      (expired now actor) (approvals d)"
    and "count_where (is_approval (ax_tenantId x) (ax_id x) ApprovalStatus.PENDING) (approvals d) = 1"
    using a l by (auto simp: expire_approval_row_def tx_bind_eq_Inr approval_updateMany_def)
qed

lemma expireApproval_follows: "expireApproval x now actor by d = Inr (u, d') \<Longrightarrow> approvals_follow d d'"
  by (rule approvals_follow_updated[OF expireApproval_approvals(1)])
    (auto simp: is_approval_def approval_moves_def expired_def)

lemma expireApproval_view: "expireApproval x now actor by d = Inr (u, d') \<Longrightarrow> money_view d' = money_view d"
  by (rule tx_frameD[OF expireApproval_frame]) simp_all

lemma approval_unique:
  "distinct (map ap_id as) \<Longrightarrow> a \<in> set as \<Longrightarrow> b \<in> set as \<Longrightarrow> ap_id a = ap_id b \<Longrightarrow> a = b"
  unfolding distinct_map by (blast dest: inj_onD)

definition expired_ids :: "int \<Rightarrow> string set \<Rightarrow> Approval list \<Rightarrow> Approval list" where
  "expired_ids now ids as = map (\<lambda>a. if ap_id a \<in> ids then expired now None a else a) as"

lemma expired_ids_simps:
  "expired_ids now A (expired_ids now B as) = expired_ids now (A \<union> B) as" "map ap_id (expired_ids now A as) = map ap_id as"
  "expired_ids now {} as = as"
  by (auto simp: expired_ids_def expired_def)

lemma expired_ids_keeps: "a \<in> set as \<Longrightarrow> ap_id a \<notin> A \<Longrightarrow> a \<in> set (expired_ids now A as)"
  by (force simp: expired_ids_def)

lemma expireApproval_ids:
  assumes "expireApproval (overdue_row d0 a) now None by d = Inr (u, d')" and "a \<in> set (approvals d)"
    and "ap_status a = ApprovalStatus.PENDING" and "distinct (map ap_id (approvals d))"
  shows "approvals d' = expired_ids now {ap_id a} (approvals d)"
proof -
  have "is_approval (ap_tenantId a) (ap_id a) ApprovalStatus.PENDING b \<longleftrightarrow> ap_id b = ap_id a"
    if "b \<in> set (approvals d)" for b
    using approval_unique[OF assms(4,2) that] assms(3) by (auto simp: is_approval_def)
  then show ?thesis
    using expireApproval_approvals(1)[OF assms(1)] by (simp add: overdue_row_def updated_def expired_ids_def)
qed

lemma expire_all_effect:
  assumes "tx_for (map (overdue_row d0) as) (\<lambda>x. expireApproval x now None (by x)) d = Inr (u, d')"
    and "set as \<subseteq> set (approvals d)" and "\<forall>a\<in>set as. ap_status a = ApprovalStatus.PENDING"
    and "distinct (map ap_id as)" and "distinct (map ap_id (approvals d))"
  shows "approvals d' = expired_ids now (ap_id ` set as) (approvals d) \<and> money_view d' = money_view d
    \<and> approvals_follow d d'"
  using assms
proof (induction as arbitrary: d)
  case Nil
  then show ?case by (simp add: expired_ids_simps)
next
  case (Cons a as)
  from Cons.prems(1) obtain d1 where e: "expireApproval (overdue_row d0 a) now None (by (overdue_row d0 a)) d = Inr ((), d1)"
    and rest: "tx_for (map (overdue_row d0) as) (\<lambda>x. expireApproval x now None (by x)) d1 = Inr (u, d')"
    by (auto simp: tx_bind_eq_Inr)
  have d1: "approvals d1 = expired_ids now {ap_id a} (approvals d)"
    by (rule expireApproval_ids[OF e]) (use Cons.prems in auto)
  have "set as \<subseteq> set (approvals d1)"
    using Cons.prems(2,4) unfolding d1 by (auto intro!: expired_ids_keeps simp: image_iff)
  from Cons.IH[OF rest this] Cons.prems(3-5) expireApproval_view[OF e] expireApproval_follows[OF e] show ?case
    by (auto simp: d1 expired_ids_simps intro: approvals_follow_trans)
qed

lemma overdueApprovals_facts:
  assumes "distinct (map ap_id (approvals d))"
  shows "distinct (map ap_id (overdueApprovals locked now d))"
    and "set (overdueApprovals locked now d) \<subseteq> set (approvals d)"
    and "\<forall>a\<in>set (overdueApprovals locked now d). ap_status a = ApprovalStatus.PENDING"
  using assms by (auto simp: overdueApprovals_def distinct_map inj_on_def)

lemma expireOverdueApprovals_effect:
  assumes "expireOverdueApprovals locked n now d = Inr (n', d')" and "distinct (map ap_id (approvals d))"
  shows "approvals d' = expired_ids now (ap_id ` set (take n (overdueApprovals locked now d))) (approvals d)"
    and "money_view d' = money_view d" and "approvals_follow d d'"
    and "n' = min n (length (overdueApprovals locked now d))"
proof -
  let ?due = "take n (overdueApprovals locked now d)"
  note f = overdueApprovals_facts[OF assms(2), of locked now]
  from assms(1) have loop: "tx_for (map (overdue_row d) ?due) (\<lambda>x. expireApproval x now None
      (Some \<lparr> aa_tenantId = ax_tenantId x, aa_id = ''approval-expiry-worker'' \<rparr>)) d = Inr ((), d')"
    and c: "n' = length ?due" by (auto simp: expireOverdueApprovals_def tx_bind_eq_Inr)
  have "distinct (map ap_id ?due)" unfolding take_map[symmetric] using f(1) by (rule distinct_take)
  from expire_all_effect[OF loop _ _ this assms(2)] f(2,3)
  show "approvals d' = expired_ids now (ap_id ` set ?due) (approvals d)"
    and "money_view d' = money_view d" and "approvals_follow d d'" by (auto dest: in_set_takeD)
  show "n' = min n (length (overdueApprovals locked now d))" using c by simp
qed

text \<open>
  C24: a sweep that commits expires exactly the first \<open>batchSize\<close> overdue approvals, the earliest
  deadline first: their status becomes \<open>EXPIRED\<close> at the sweep's time, with nobody as the one who decided, every
  other approval is untouched, what is overdue afterwards is the rest of the list, and no money moves.
\<close>

theorem expireOverdueApprovals_progress:
  assumes "expireOverdueApprovals locked n now d = Inr (n', d')" and "distinct (map ap_id (approvals d))"
  shows "approvals d' = map (\<lambda>a. if a \<in> set (take n (overdueApprovals locked now d))
        then a\<lparr>ap_status := ApprovalStatus.EXPIRED, ap_decidedAt := Some now, ap_decisionByTenantId := None, ap_decisionBy := None,
          ap_decisionReason := Some ''approval expired''\<rparr> else a) (approvals d)
    \<and> overdueApprovals locked now d' = drop n (overdueApprovals locked now d)
    \<and> n' = min n (length (overdueApprovals locked now d)) \<and> money_view d' = money_view d
    \<and> approvals_follow d d'"
proof -
  let ?due = "overdueApprovals locked now d"
  let ?p = "\<lambda>a. ap_status a = ApprovalStatus.PENDING \<and> ap_expiresAt a \<le> now \<and> \<not> locked (ap_id a)"
  note e = expireOverdueApprovals_effect[OF assms]
  note facts = overdueApprovals_facts[OF assms(2), of locked now]
  define ids where "ids = ap_id ` set (take n ?due)"
  have f: "filter ?p (expired_ids now ids as) = filter (\<lambda>a. ap_id a \<notin> ids) (filter ?p as)" for as
    by (induction as) (auto simp: expired_ids_def expired_def)
  have "distinct (map ap_id (take n ?due @ drop n ?due))" using facts(1) by simp
  then have "filter (\<lambda>a. ap_id a \<notin> ids) (take n ?due @ drop n ?due) = drop n ?due"
    by (auto simp: ids_def filter_empty_conv filter_id_conv simp del: append_take_drop_id)
  then have "filter (\<lambda>a. ap_id a \<notin> ids) ?due = drop n ?due" by simp
  moreover have "approvals d' = expired_ids now ids (approvals d)" unfolding ids_def by (rule e(1))
  ultimately have o: "overdueApprovals locked now d' = drop n ?due"
    by (simp add: overdueApprovals_def f filter_sort)
  have "ap_id a \<in> ids \<longleftrightarrow> a \<in> set (take n ?due)" if "a \<in> set (approvals d)" for a
    using approval_unique[OF assms(2) _ that] facts(2) by (auto simp: ids_def dest: in_set_takeD)
  then have "approvals d' = map (\<lambda>a. if a \<in> set (take n ?due)
        then a\<lparr>ap_status := ApprovalStatus.EXPIRED, ap_decidedAt := Some now, ap_decisionByTenantId := None, ap_decisionBy := None,
          ap_decisionReason := Some ''approval expired''\<rparr> else a) (approvals d)"
    unfolding e(1) ids_def[symmetric] expired_ids_def by (simp add: expired_def)
  with o e(2-4) show ?thesis by blast
qed

subsection \<open>A held receipt at the demonstration shop\<close>

definition demo_held_receipt :: Receipt where
  "demo_held_receipt =
     \<lparr> rc_id = ''R'', rc_tenantId = ''T'', rc_branchId = ''B'', rc_customerId = ''C'', rc_cardId = ''K'',
       rc_deviceId = Some ''D'', rc_posReceiptNumber = ''R-9'', rc_normalizedPosReceiptNumber = ''R-9'',
       rc_receiptWeekStart = 0, rc_purchaseAmountKobo = 30000000, rc_occurredAt = demo_now,
       rc_capturedByTenantId = ''T'', rc_capturedBy = ''U'',
       rc_captureStatus = ReceiptCaptureStatus.PENDING_APPROVAL, rc_reviewStatus = ReceiptReviewStatus.PENDING,
       rc_approvalReasonCode = None, rc_reviewedAt = None, rc_reviewedByTenantId = None, rc_reviewedBy = None,
       rc_approvedByTenantId = None, rc_approvedBy = None, rc_approvedAt = None, rc_capturedAt = demo_now \<rparr>"

definition demo_approval :: Approval where
  "demo_approval =
     \<lparr> ap_id = ''A'', ap_tenantId = ''T'', ap_receiptId = Some ''R'', ap_redemptionId = None,
       ap_targetType = ApprovalTargetType.EARN, ap_status = ApprovalStatus.PENDING,
       ap_requestedByTenantId = ''T'', ap_requestedBy = ''U'', ap_reasonCode = None, ap_policyVersion = ''legacy'',
       ap_expiresAt = demo_now + 1000, ap_decisionByTenantId = None, ap_decisionBy = None,
       ap_decisionReason = None, ap_requestedAt = demo_now, ap_decidedAt = None, ap_executedAt = None \<rparr>"

definition demo_held_db :: db where
  "demo_held_db = demo_db\<lparr>receipts := [demo_held_receipt], approvals := [demo_approval]\<rparr>"

lemma demo_held_distinct: "distinct (map ap_id (approvals demo_held_db))"
  by (simp add: demo_held_db_def)

theorem expireOverdueApprovals_progress_witness:
  "\<exists>d'. expireOverdueApprovals (\<lambda>_. False) APPROVAL_EXPIRY_SWEEP_BATCH_SIZE (demo_now + 1000) demo_held_db = Inr (1, d')
    \<and> overdueApprovals (\<lambda>_. False) (demo_now + 1000) d' = []
    \<and> map ap_status (approvals d') = [ApprovalStatus.EXPIRED]"
proof -
  have "map_sum (\<lambda>e. e) (\<lambda>r. (fst r, map ap_status (approvals (snd r))))
      (expireOverdueApprovals (\<lambda>_. False) APPROVAL_EXPIRY_SWEEP_BATCH_SIZE (demo_now + 1000) demo_held_db)
    = Inr (1, [ApprovalStatus.EXPIRED])" by code_simp
  then obtain n d' where c: "expireOverdueApprovals (\<lambda>_. False) APPROVAL_EXPIRY_SWEEP_BATCH_SIZE (demo_now + 1000)
      demo_held_db = Inr (n, d')" and r: "n = 1" "map ap_status (approvals d') = [ApprovalStatus.EXPIRED]"
    by (rule committed_result) simp
  have "length (overdueApprovals (\<lambda>_. False) (demo_now + 1000) demo_held_db) = 1" by code_simp
  with expireOverdueApprovals_progress[OF c demo_held_distinct] c r show ?thesis
    by (auto simp: APPROVAL_EXPIRY_SWEEP_BATCH_SIZE_def)
qed

end
