(* ===== verification/Approvals.thy ===== *)
theory Approvals
  imports Earn Approval_Expiry
begin

text \<open>
  \<^verbatim>\<open>src/modules/loyalty/loyalty.service.ts\<close>, \<open>LoyaltyService.decideApproval\<close> and
  \<open>decideRedemptionApproval\<close>: a supervisor approves or rejects a receipt or a redemption held for
  approval. The row locks of \<open>lockApprovalExecutionRows\<close> change nothing a transaction that runs as a
  whole can see. The clock readings of one call are \<open>clk 0\<close> (clean-up), \<open>clk 1\<close> (expiry of the
  idempotency record), \<open>clk 2\<close> (the decision) and \<open>clk 3\<close> (clean-up in the error handling);
  \<open>sched\<close> is what other sessions commit before the transaction and whether the engine aborts it,
  \<open>others 0\<close> what they commit before the response is stored and \<open>others 1\<close> what they commit before
  the error handling reads.
\<close>

subsection \<open>Request\<close>

datatype ApprovalDecision = APPROVED | REJECTED

fun decision_str :: "ApprovalDecision \<Rightarrow> string" where
  "decision_str ApprovalDecision.APPROVED = ''APPROVED''"
| "decision_str ApprovalDecision.REJECTED = ''REJECTED''"

record decision_request =
  dq_tenantId :: string
  dq_actor :: AuthContext
  dq_approvalId :: string
  dq_decision :: ApprovalDecision
  dq_reason :: string
  dq_key :: string
  dq_requestHash :: string

definition APPROVAL_ENDPOINT :: string where
  "APPROVAL_ENDPOINT = ''POST /api/v1/approvals/:id/decision''"

definition LEGACY_APPROVAL_POLICY_VERSION :: string where
  "LEGACY_APPROVAL_POLICY_VERSION = ''legacy''"

definition decision_prepare ::
  "env \<Rightarrow> string \<Rightarrow> AuthContext \<Rightarrow> string \<Rightarrow> ApprovalDecision \<Rightarrow> string \<Rightarrow> string option \<Rightarrow> svc_error + decision_request" where
  "decision_prepare env tenantId actor approvalId decision reason idempotencyKey =
     (let normalizedReason = js_trim reason in
      res_bind (earn_normalizeIdempotencyKey idempotencyKey) (\<lambda>normalizedKey.
      Inr \<lparr> dq_tenantId = tenantId, dq_actor = actor, dq_approvalId = approvalId, dq_decision = decision,
            dq_reason = normalizedReason, dq_key = normalizedKey,
            dq_requestHash = earn_hashRequest env (JObj
              [(''tenantId'', JStr tenantId), (''actorId'', JStr (actor_id actor)),
               (''approvalId'', JStr approvalId), (''decision'', JStr (decision_str decision)),
               (''reason'', JStr normalizedReason)]) \<rparr>))"

definition decision_record :: "decision_request \<Rightarrow> db \<Rightarrow> IdempotencyRecord option" where
  "decision_record dq d =
     idempotencyRecord_findUnique (dq_tenantId dq) (actor_id (dq_actor dq)) APPROVAL_ENDPOINT (dq_key dq) d"

definition findApprovalIdempotency :: "decision_request \<Rightarrow> int \<Rightarrow> db \<Rightarrow> IdempotencyRecord option \<times> db" where
  "findApprovalIdempotency dq now d =
     (let d1 = cleanupExpiredIdempotencyRecords (dq_tenantId dq) (actor_id (dq_actor dq)) APPROVAL_ENDPOINT
                 (dq_key dq) now d in
      (case decision_record dq d1 of
         None \<Rightarrow> (None, d1)
       | Some existing \<Rightarrow>
           if idr_requestHash existing \<noteq> dq_requestHash dq
           then (Some (existing\<lparr>idr_responseJson := None\<rparr>), d1) else (Some existing, d1)))"

subsection \<open>The approval and what it holds\<close>

definition requireBranchScope :: "AuthContext \<Rightarrow> svc_error + string option" where
  "requireBranchScope actor =
     (if actor_role actor = UserRole.ADMIN then Inr None
      else if \<not> truthy (actor_branchId actor)
      then Inl (DomainHttpException 403 ''BRANCH_SCOPE_REQUIRED'' ''Branch scope is required'')
      else Inr (actor_branchId actor))"

definition receipt_by_id :: "string \<Rightarrow> string \<Rightarrow> db \<Rightarrow> Receipt option" where
  "receipt_by_id tenantId i d = find (\<lambda>r. rc_tenantId r = tenantId \<and> rc_id r = i) (receipts d)"

definition approval_receipt :: "Approval \<Rightarrow> db \<Rightarrow> Receipt option" where
  "approval_receipt a d = (case ap_receiptId a of None \<Rightarrow> None | Some i \<Rightarrow> receipt_by_id (ap_tenantId a) i d)"

definition redemption_receipt :: "Redemption \<Rightarrow> db \<Rightarrow> Receipt option" where
  "redemption_receipt r d = receipt_by_id (rd_tenantId r) (rd_receiptId r) d"

definition in_branch :: "string \<Rightarrow> Receipt option \<Rightarrow> bool" where
  "in_branch branchId r = (case r of None \<Rightarrow> False | Some x \<Rightarrow> rc_branchId x = branchId)"

definition findScopedApproval :: "decision_request \<Rightarrow> db \<Rightarrow> svc_error + Approval option" where
  "findScopedApproval dq d =
     res_bind (requireBranchScope (dq_actor dq)) (\<lambda>branchId.
     Inr (find (\<lambda>a. ap_tenantId a = dq_tenantId dq \<and> ap_id a = dq_approvalId dq
       \<and> (case branchId of
            None \<Rightarrow> True
          | Some b \<Rightarrow> in_branch b (approval_receipt a d)
              \<or> in_branch b (Option.bind (redemption_of_approval a d) (\<lambda>r. redemption_receipt r d))))
       (approvals d)))"

definition approval_not_found :: svc_error where
  "approval_not_found = DomainHttpException 404 ''APPROVAL_NOT_FOUND'' ''Approval not found''"

definition approval_decidable :: "decision_request \<Rightarrow> Approval \<Rightarrow> svc_error + unit" where
  "approval_decidable dq approval =
     (if ap_requestedByTenantId approval = actor_tenantId (dq_actor dq)
         \<and> ap_requestedBy approval = actor_id (dq_actor dq)
      then Inl (DomainHttpException 400 ''APPROVAL_SELF_DECISION_FORBIDDEN'' ''Requester cannot decide own approval'')
      else if ap_status approval \<noteq> ApprovalStatus.PENDING then Inl approval_already_decided
      else Inr ())"

text \<open>The approval as it is read again under the row locks.\<close>

definition locked_approval :: "decision_request \<Rightarrow> string \<Rightarrow> db \<Rightarrow> svc_error + Approval" where
  "locked_approval dq i d =
     (case find (\<lambda>a. ap_tenantId a = dq_tenantId dq \<and> ap_id a = i) (approvals d) of
        None \<Rightarrow> Inl approval_not_found
      | Some fresh \<Rightarrow>
          if ap_status fresh \<noteq> ApprovalStatus.PENDING then Inl approval_already_decided else Inr fresh)"

definition decision_approval :: "decision_request \<Rightarrow> db \<Rightarrow> svc_error + Approval" where
  "decision_approval dq d =
     res_bind (findScopedApproval dq d) (\<lambda>found.
     case found of
       None \<Rightarrow> Inl approval_not_found
     | Some approval \<Rightarrow>
         res_bind (approval_decidable dq approval) (\<lambda>_. locked_approval dq (ap_id approval) d))"

text \<open>The rows a receipt belongs to, as the query includes them; only the device is optional.\<close>

record receipt_rows =
  rr_branch :: Branch
  rr_card :: Card
  rr_customer :: Customer
  rr_device :: "Device option"

definition includedRows :: "Receipt \<Rightarrow> db \<Rightarrow> svc_error + receipt_rows" where
  "includedRows r d =
     (case (find (\<lambda>b. br_tenantId b = rc_tenantId r \<and> br_id b = rc_branchId r) (branches d),
            find (\<lambda>c. cd_tenantId c = rc_tenantId r \<and> cd_id c = rc_cardId r) (cards d),
            find (\<lambda>c. cu_tenantId c = rc_tenantId r \<and> cu_id c = rc_customerId r) (customers d)) of
        (Some b, Some c, Some cu) \<Rightarrow>
          Inr \<lparr> rr_branch = b, rr_card = c, rr_customer = cu,
                rr_device = Option.bind (rc_deviceId r)
                  (\<lambda>i. find (\<lambda>x. dev_tenantId x = rc_tenantId r \<and> dev_id x = i) (devices d)) \<rparr>
      | _ \<Rightarrow> Inl (PlainError ''Inconsistent query result''))"

definition rows_eligible :: "receipt_rows \<Rightarrow> bool" where
  "rows_eligible rr =
     (\<not> (br_status (rr_branch rr) \<noteq> BranchStatus.ACTIVE
         \<or> map_option dev_status (rr_device rr) \<noteq> Some DeviceStatus.ACTIVE
         \<or> cd_status (rr_card rr) \<noteq> CardStatus.ACTIVE
         \<or> cu_status (rr_customer rr) \<noteq> CustomerStatus.ACTIVE
         \<or> cu_isStaff (rr_customer rr)))"

definition toApprovalExpiryRecord :: "Approval \<Rightarrow> db \<Rightarrow> ApprovalExpiryRecord" where
  "toApprovalExpiryRecord a d =
     \<lparr> ax_id = ap_id a, ax_tenantId = ap_tenantId a, ax_targetType = ap_targetType a,
       ax_receiptId = ap_receiptId a, ax_redemptionId = ap_redemptionId a,
       ax_redemptionReceiptId = map_option rd_receiptId (redemption_of_approval a d) \<rparr>"

subsection \<open>Steps of a decision\<close>

datatype decision_outcome = Expired | Decided json

definition decide_row :: "decision_request \<Rightarrow> ApprovalStatus \<Rightarrow> int \<Rightarrow> unit dbtx" where
  "decide_row dq status now =
     tx_bind (approval_updateMany (is_approval (dq_tenantId dq) (dq_approvalId dq) ApprovalStatus.PENDING)
       (\<lambda>a. a\<lparr>ap_status := status, ap_decidedAt := Some now,
              ap_decisionByTenantId := Some (actor_tenantId (dq_actor dq)),
              ap_decisionBy := Some (actor_id (dq_actor dq)), ap_decisionReason := Some (dq_reason dq)\<rparr>)) (\<lambda>count.
     tx_unless (count = 1) approval_already_decided)"

definition execute_row :: "decision_request \<Rightarrow> int \<Rightarrow> unit dbtx" where
  "execute_row dq now =
     tx_bind (approval_updateMany (is_approval (dq_tenantId dq) (dq_approvalId dq) ApprovalStatus.APPROVED)
       (\<lambda>a. a\<lparr>ap_status := ApprovalStatus.EXECUTED, ap_executedAt := Some now\<rparr>)) (\<lambda>count.
     tx_unless (count = 1) (DomainHttpException 409 ''APPROVAL_EXECUTION_FAILED'' ''Approval execution did not complete''))"

definition review_receipt :: "decision_request \<Rightarrow> string \<Rightarrow> bool \<Rightarrow> int \<Rightarrow> unit dbtx" where
  "review_receipt dq receiptId approved now =
     require_updated (receipt_updateMany (\<lambda>r. rc_tenantId r = dq_tenantId dq \<and> rc_id r = receiptId)
       (\<lambda>r. r\<lparr>rc_reviewStatus := (if approved then ReceiptReviewStatus.APPROVED else ReceiptReviewStatus.REJECTED),
              rc_reviewedAt := Some now, rc_reviewedByTenantId := Some (actor_tenantId (dq_actor dq)),
              rc_reviewedBy := Some (actor_id (dq_actor dq)),
              rc_approvedAt := (if approved then Some now else None),
              rc_approvedByTenantId := (if approved then Some (actor_tenantId (dq_actor dq)) else None),
              rc_approvedBy := (if approved then Some (actor_id (dq_actor dq)) else None)\<rparr>))"

definition decision_audit :: "decision_request \<Rightarrow> string \<Rightarrow> string \<Rightarrow> string \<Rightarrow> (string \<times> json) list \<Rightarrow> unit dbtx" where
  "decision_audit dq action entityType entityId extra =
     recordWithClient (dq_tenantId dq) (Some (actor_id (dq_actor dq))) action entityType (Some entityId)
       (JObj ([(''decision'', JStr (decision_str (dq_decision dq))), (''reason'', JStr (dq_reason dq))] @ extra))"

definition decision_actor :: "decision_request \<Rightarrow> ApprovalExpiryActor" where
  "decision_actor dq = \<lparr> aa_tenantId = actor_tenantId (dq_actor dq), aa_id = actor_id (dq_actor dq) \<rparr>"

definition decision_expire :: "decision_request \<Rightarrow> Approval \<Rightarrow> int \<Rightarrow> decision_outcome dbtx" where
  "decision_expire dq approval now =
     tx_bind (tx_read (toApprovalExpiryRecord approval)) (\<lambda>row.
     tx_bind (expireApproval row now None (Some (decision_actor dq))) (\<lambda>_.
     tx_return Expired))"

subsection \<open>A receipt held for approval\<close>

definition assertApprovalPolicyStillPermitsExecution ::
  "int \<Rightarrow> env \<Rightarrow> string \<Rightarrow> string option \<Rightarrow> svc_error + unit" where
  "assertApprovalPolicyStillPermitsExecution purchaseAmountKobo env expectedPolicyVersion reasonCode =
     (let currentPolicyVersion = getEarnApprovalPolicyVersion env None in
      if purchaseAmountKobo > config_or env ''PURCHASE_AMOUNT_CEILING_KOBO'' 100000000
      then Inl (DomainHttpException 422 ''APPROVAL_POLICY_CHANGED''
                  ''Approval can no longer be executed under the current policy ceiling'')
      else if expectedPolicyVersion \<noteq> LEGACY_APPROVAL_POLICY_VERSION
            \<and> expectedPolicyVersion \<noteq> currentPolicyVersion
      then Inl (DomainHttpException 422 ''APPROVAL_POLICY_CHANGED''
                  ''Approval policy changed after the request was captured'')
      else if reasonCode \<noteq> Some LATE_RECEIPT_APPROVAL_REASON_CODE
            \<and> resolveEarnCaptureStatus purchaseAmountKobo env None \<noteq> ReceiptCaptureStatus.PENDING_APPROVAL
      then Inl (DomainHttpException 422 ''APPROVAL_POLICY_CHANGED''
                  ''Approval is no longer required under the current policy'')
      else Inr ())"

definition reject_receipt :: "decision_request \<Rightarrow> string \<Rightarrow> int \<Rightarrow> decision_outcome dbtx" where
  "reject_receipt dq receiptId now =
     tx_bind (decide_row dq ApprovalStatus.REJECTED now) (\<lambda>_.
     tx_bind (review_receipt dq receiptId False now) (\<lambda>_.
     tx_bind (decision_audit dq ''approval.reject'' ''approval'' (dq_approvalId dq)
                [(''decidedAt'', json_date now)]) (\<lambda>_.
     tx_return (Decided (JObj
       [(''id'', JStr (dq_approvalId dq)), (''status'', JStr ''REJECTED''), (''receiptId'', JStr receiptId),
        (''reason'', JStr (dq_reason dq)), (''decidedAt'', json_date now), (''executedAt'', JNull)])))))"

definition approve_receipt_checks ::
  "env \<Rightarrow> decision_request \<Rightarrow> Approval \<Rightarrow> Receipt \<Rightarrow> receipt_rows \<Rightarrow> svc_error + unit" where
  "approve_receipt_checks env dq approval receipt rr =
     (if rc_captureStatus receipt \<noteq> ReceiptCaptureStatus.PENDING_APPROVAL
         \<or> rc_reviewStatus receipt \<noteq> ReceiptReviewStatus.PENDING
      then Inl (DomainHttpException 400 ''RECEIPT_NOT_ELIGIBLE'' ''Receipt does not require review'')
      else if rc_capturedByTenantId receipt = actor_tenantId (dq_actor dq)
         \<and> rc_capturedBy receipt = actor_id (dq_actor dq)
      then Inl (DomainHttpException 400 ''REVIEW_SELF_DECISION_FORBIDDEN''
                  ''Capturing cashier cannot review the same receipt'')
      else if \<not> rows_eligible rr
      then Inl (DomainHttpException 422 ''RECEIPT_NO_LONGER_ELIGIBLE'' ''Receipt is no longer eligible'')
      else assertApprovalPolicyStillPermitsExecution (js_Number (rc_purchaseAmountKobo receipt)) env
             (ap_policyVersion approval) (ap_reasonCode approval))"

definition approve_credit ::
  "env \<Rightarrow> decision_request \<Rightarrow> Approval \<Rightarrow> Receipt \<Rightarrow> int \<Rightarrow> LoyaltyLedgerEntry dbtx" where
  "approve_credit env dq approval receipt creditKobo =
     tx_bind (loyaltyLedgerEntry_create env (\<lambda>new_id.
       \<lparr> le_id = new_id, le_tenantId = dq_tenantId dq, le_customerId = rc_customerId receipt,
         le_receiptId = Some (rc_id receipt), le_type = LedgerEntryType.EARN,
         le_direction = LedgerEntryDirection.CREDIT, le_amountKobo = creditKobo,
         le_correlationId = ''approval:'' @ ap_id approval, le_reversesEntryId = None,
         le_createdByTenantId = actor_tenantId (dq_actor dq), le_createdBy = actor_id (dq_actor dq),
         le_effectiveAt = rc_occurredAt receipt \<rparr>)) (\<lambda>entry.
     tx_bind (creditLot_create env (\<lambda>new_id.
       \<lparr> lot_id = new_id, lot_tenantId = dq_tenantId dq, lot_customerId = rc_customerId receipt,
         lot_earnLedgerEntryId = le_id entry, lot_originalAmountKobo = creditKobo,
         lot_remainingAmountKobo = creditKobo, lot_earnedAt = rc_occurredAt receipt,
         lot_expiresAt = addUtcMonthsClamped (rc_occurredAt receipt) 12 \<rparr>)) (\<lambda>_.
     tx_return entry))"

definition approve_notify ::
  "env \<Rightarrow> decision_request \<Rightarrow> Receipt \<Rightarrow> receipt_rows \<Rightarrow> string \<Rightarrow> int \<Rightarrow> int \<Rightarrow> unit dbtx" where
  "approve_notify env dq receipt rr entryId creditKobo now =
     (let payload = JObj [(''version'', JNum 1), (''receiptId'', JStr (rc_id receipt)),
            (''transactionId'', JStr entryId), (''customerId'', JStr (rc_customerId receipt)),
            (''phoneE164'', JStr (cu_phoneE164 (rr_customer rr))), (''template'', JStr ''earn-confirmed''),
            (''creditKobo'', JStr (show_int creditKobo))] in
      tx_bind (outboxEvent_create env (\<lambda>new_id.
        \<lparr> ob_id = new_id, ob_tenantId = dq_tenantId dq, ob_aggregateType = ''receipt'',
          ob_aggregateId = rc_id receipt, ob_eventType = ''sms.send'', ob_payload = payload,
          ob_nextAttemptAt = Some now \<rparr>)) (\<lambda>event.
      tx_void (smsMessage_create env (\<lambda>new_id.
        \<lparr> sms_id = new_id, sms_tenantId = dq_tenantId dq, sms_receiptId = Some (rc_id receipt),
          sms_outboxEventId = ob_id event, sms_ledgerEntryId = None,
          sms_redemptionId = None, sms_adjustmentId = None,
          sms_phoneE164 = cu_phoneE164 (rr_customer rr), sms_template = ''earn-confirmed'',
          sms_payload = payload, sms_status = SmsMessageStatus.QUEUED, sms_queuedAt = now \<rparr>))))"

definition no_earn_entry :: "decision_request \<Rightarrow> Receipt \<Rightarrow> db \<Rightarrow> svc_error + unit" where
  "no_earn_entry dq receipt d =
     res_unless (\<not> list_ex (\<lambda>e. le_tenantId e = dq_tenantId dq \<and> le_receiptId e = Some (rc_id receipt)
                   \<and> le_type e = LedgerEntryType.EARN) (ledgerEntries d))
       (DomainHttpException 409 ''LEDGER_ENTRY_ALREADY_EXISTS'' ''Ledger entry already exists'')"

definition approve_receipt ::
  "env \<Rightarrow> decision_request \<Rightarrow> Approval \<Rightarrow> Receipt \<Rightarrow> receipt_rows \<Rightarrow> int \<Rightarrow> decision_outcome dbtx" where
  "approve_receipt env dq approval receipt rr now =
     tx_bind (tx_lift (approve_receipt_checks env dq approval receipt rr)) (\<lambda>_.
     tx_bind (decide_row dq ApprovalStatus.APPROVED now) (\<lambda>_.
     tx_bind (tx_lift (calculateCreditKobo (js_Number (rc_purchaseAmountKobo receipt)) env None)) (\<lambda>creditKobo.
     tx_bind (tx_check (no_earn_entry dq receipt)) (\<lambda>_.
     tx_bind (approve_credit env dq approval receipt creditKobo) (\<lambda>entry.
     tx_bind (approve_notify env dq receipt rr (le_id entry) creditKobo now) (\<lambda>_.
     tx_bind (review_receipt dq (rc_id receipt) True now) (\<lambda>_.
     tx_bind (execute_row dq now) (\<lambda>_.
     tx_bind (decision_audit dq ''approval.execute'' ''approval'' (dq_approvalId dq)
                [(''executedAt'', json_date now), (''ledgerEntryId'', JStr (le_id entry))]) (\<lambda>_.
     tx_return (Decided (JObj
       [(''id'', JStr (dq_approvalId dq)), (''status'', JStr ''EXECUTED''), (''receiptId'', JStr (rc_id receipt)),
        (''ledgerEntryId'', JStr (le_id entry)), (''creditKobo'', JNum (js_Number creditKobo)),
        (''reason'', JStr (dq_reason dq)), (''decidedAt'', json_date now),
        (''executedAt'', json_date now)])))))))))))"

definition receipt_target :: "Approval \<Rightarrow> db \<Rightarrow> svc_error + (Receipt \<times> receipt_rows)" where
  "receipt_target approval d =
     (case approval_receipt approval d of
        Some receipt \<Rightarrow>
          if truthy (ap_receiptId approval) then map_sum (\<lambda>e. e) (\<lambda>rr. (receipt, rr)) (includedRows receipt d)
          else Inl (DomainHttpException 422 ''UNSUPPORTED_APPROVAL_TARGET''
                 ''This approval target is not available through the earn approval workflow yet'')
      | None \<Rightarrow> Inl (DomainHttpException 422 ''UNSUPPORTED_APPROVAL_TARGET''
                 ''This approval target is not available through the earn approval workflow yet''))"

definition decideReceiptApproval :: "env \<Rightarrow> decision_request \<Rightarrow> Approval \<Rightarrow> int \<Rightarrow> decision_outcome dbtx" where
  "decideReceiptApproval env dq approval now =
     tx_bind (tx_check (receipt_target approval)) (\<lambda>(receipt, rr).
     if ap_expiresAt approval \<le> now then decision_expire dq approval now
     else if dq_decision dq = ApprovalDecision.REJECTED then reject_receipt dq (rc_id receipt) now
     else approve_receipt env dq approval receipt rr now)"

subsection \<open>A redemption held for approval\<close>

definition assertRedemptionApprovalPolicyStillPermitsExecution ::
  "env \<Rightarrow> int \<Rightarrow> int \<Rightarrow> int \<Rightarrow> string \<Rightarrow> svc_error + unit" where
  "assertRedemptionApprovalPolicyStillPermitsExecution env requestedAmountKobo basketAmountKobo activeBalanceKobo
      expectedPolicyVersion =
     (let currentPolicy = redemption_evaluate env requestedAmountKobo basketAmountKobo activeBalanceKobo None in
      if expectedPolicyVersion \<noteq> pr_policyVersion currentPolicy
      then Inl (DomainHttpException 422 ''APPROVAL_POLICY_CHANGED''
                  ''Approval policy changed after the request was captured'')
      else if requestedAmountKobo < pr_minimumRedemptionKobo currentPolicy
      then Inl (DomainHttpException 422 ''MINIMUM_REDEMPTION_NOT_MET''
                  ''Requested redemption is below the minimum amount'')
      else if requestedAmountKobo > pr_maximumAllowedKobo currentPolicy
      then Inl (DomainHttpException 422 ''INSUFFICIENT_BALANCE''
                  ''Active balance is lower than requested redemption amount'')
      else if requestedAmountKobo \<le> pr_approvalThresholdKobo currentPolicy
      then Inl (DomainHttpException 422 ''APPROVAL_POLICY_CHANGED''
                  ''Approval is no longer required under the current redemption policy'')
      else Inr ())"

definition reject_redemption :: "decision_request \<Rightarrow> Redemption \<Rightarrow> Receipt \<Rightarrow> int \<Rightarrow> decision_outcome dbtx" where
  "reject_redemption dq redemption receipt now =
     tx_bind (decide_row dq ApprovalStatus.REJECTED now) (\<lambda>_.
     tx_bind (require_updated (redemption_updateMany (is_redemption (dq_tenantId dq) (rd_id redemption))
       (\<lambda>r. r\<lparr>rd_status := RedemptionStatus.REJECTED, rd_rejectedAt := Some now\<rparr>))) (\<lambda>_.
     tx_bind (review_receipt dq (rc_id receipt) False now) (\<lambda>_.
     tx_bind (decision_audit dq ''redemption.rejected'' ''redemption'' (rd_id redemption)
                [(''decidedAt'', json_date now)]) (\<lambda>_.
     tx_bind (decision_audit dq ''redemption.approval.reject'' ''approval'' (dq_approvalId dq)
                [(''decidedAt'', json_date now)]) (\<lambda>_.
     tx_return (Decided (JObj
       [(''id'', JStr (dq_approvalId dq)), (''status'', JStr ''REJECTED''), (''receiptId'', JStr (rc_id receipt)),
        (''redemptionId'', JStr (rd_id redemption)), (''reason'', JStr (dq_reason dq)),
        (''decidedAt'', json_date now), (''executedAt'', JNull)])))))))"

definition approve_redemption_checks ::
  "env \<Rightarrow> decision_request \<Rightarrow> Approval \<Rightarrow> Redemption \<Rightarrow> Receipt \<Rightarrow> receipt_rows \<Rightarrow> int \<Rightarrow> db \<Rightarrow>
   svc_error + EarnPolicyValues option" where
  "approve_redemption_checks env dq approval redemption receipt rr now d =
     (if rd_status redemption \<noteq> RedemptionStatus.PENDING_APPROVAL
         \<or> rc_captureStatus receipt \<noteq> ReceiptCaptureStatus.PENDING_APPROVAL
         \<or> rc_reviewStatus receipt \<noteq> ReceiptReviewStatus.PENDING
      then Inl approval_already_decided
      else if \<not> rows_eligible rr
      then Inl (DomainHttpException 422 ''REDEMPTION_NO_LONGER_ELIGIBLE'' ''Redemption is no longer eligible'')
      else
        let configuredPolicy = policyConfiguration_findUnique (dq_tenantId dq) (rd_branchId redemption) d;
            earnPolicy = map_option earn_policy_of configuredPolicy;
            activeBalanceKobo = getActiveBalanceKobo (dq_tenantId dq) (rd_customerId redemption) now d;
            currentRedemptionPolicy = redemption_evaluate env (rd_requestedAmountKobo redemption)
              (rd_basketAmountKobo redemption) activeBalanceKobo (map_option redemption_policy_of configuredPolicy);
            currentSettlementPolicyVersion = buildSettlementPolicyVersion env
              (pr_policyVersion currentRedemptionPolicy) (getEarnApprovalPolicyVersion env earnPolicy);
            expectedApprovalPolicyVersion = (if isSettlementPolicyVersion (ap_policyVersion approval)
              then currentSettlementPolicyVersion else pr_policyVersion currentRedemptionPolicy) in
        if ap_policyVersion approval \<noteq> expectedApprovalPolicyVersion
        then Inl (DomainHttpException 422 ''APPROVAL_POLICY_CHANGED''
                    ''Approval policy changed after the request was captured'')
        else if rd_basketAmountKobo redemption > (case earnPolicy of
               Some p \<Rightarrow> ep_purchaseAmountCeilingKobo p
             | None \<Rightarrow> config_or env ''PURCHASE_AMOUNT_CEILING_KOBO'' 100000000)
        then Inl (DomainHttpException 422 ''APPROVAL_POLICY_CHANGED''
                    ''Approval can no longer be executed under the current policy ceiling'')
        else if ap_reasonCode approval = Some APPROVAL_REASON_CODE
            \<and> resolveEarnCaptureStatus (js_Number (rd_basketAmountKobo redemption)) env earnPolicy
                \<noteq> ReceiptCaptureStatus.PENDING_APPROVAL
        then Inl (DomainHttpException 422 ''APPROVAL_POLICY_CHANGED''
                    ''Approval is no longer required under the current Earn policy'')
        else
          res_bind (assertRedemptionApprovalPolicyStillPermitsExecution env (rd_requestedAmountKobo redemption)
            (rd_basketAmountKobo redemption) activeBalanceKobo (rd_policyVersion redemption)) (\<lambda>_.
          Inr earnPolicy))"

definition approval_settlement_input ::
  "env \<Rightarrow> decision_request \<Rightarrow> Approval \<Rightarrow> Redemption \<Rightarrow> Receipt \<Rightarrow> receipt_rows \<Rightarrow> EarnPolicyValues option \<Rightarrow> int \<Rightarrow>
   RedemptionSettlementInput" where
  "approval_settlement_input env dq approval redemption receipt rr earnPolicy now =
     \<lparr> si_tenantId = dq_tenantId dq, si_customerId = rd_customerId redemption,
       si_receiptId = rc_id receipt, si_redemptionId = rd_id redemption,
       si_basketAmountKobo = rd_basketAmountKobo redemption,
       si_redeemedAmountKobo = rd_requestedAmountKobo redemption,
       si_occurredAt = rc_occurredAt receipt, si_now = now,
       si_actorTenantId = actor_tenantId (dq_actor dq), si_actorId = actor_id (dq_actor dq),
       si_correlationId = ''redemption-approval:'' @ ap_id approval,
       si_phoneE164 = cu_phoneE164 (rr_customer rr), si_earnRateBps = resolveEarnRateBps env earnPolicy \<rparr>"

definition redemption_decision_response ::
  "decision_request \<Rightarrow> Redemption \<Rightarrow> Receipt \<Rightarrow> RedemptionSettlementResult \<Rightarrow> int \<Rightarrow> json" where
  "redemption_decision_response dq redemption receipt settlement now =
     JObj
       [(''id'', JStr (dq_approvalId dq)), (''status'', JStr ''EXECUTED''), (''receiptId'', JStr (rc_id receipt)),
        (''redemptionId'', JStr (rd_id redemption)),
        (''ledgerEntryId'', JStr (sr_redemptionLedgerEntryId settlement)),
        (''redeemedAmountKobo'', JNum (js_Number (rd_requestedAmountKobo redemption))),
        (''netPaidAmountKobo'', JNum (js_Number (sr_netPaidAmountKobo settlement))),
        (''earnedKobo'', JNum (js_Number (sr_earnedKobo settlement))),
        (''earnTransactionId'', json_opt_str (sr_earnLedgerEntryId settlement)),
        (''remainingBalanceKobo'', JNum (js_Number (sr_remainingBalanceKobo settlement))),
        (''reason'', JStr (dq_reason dq)), (''decidedAt'', json_date now), (''executedAt'', json_date now)]"

definition approve_redemption ::
  "env \<Rightarrow> decision_request \<Rightarrow> Approval \<Rightarrow> Redemption \<Rightarrow> Receipt \<Rightarrow> receipt_rows \<Rightarrow> int \<Rightarrow> decision_outcome dbtx" where
  "approve_redemption env dq approval redemption receipt rr now =
     tx_bind (tx_check (approve_redemption_checks env dq approval redemption receipt rr now)) (\<lambda>earnPolicy.
     tx_bind (decide_row dq ApprovalStatus.APPROVED now) (\<lambda>_.
     tx_bind (executeRedemptionSettlement env
        (approval_settlement_input env dq approval redemption receipt rr earnPolicy now)) (\<lambda>settlement.
     tx_bind (review_receipt dq (rc_id receipt) True now) (\<lambda>_.
     tx_bind (execute_row dq now) (\<lambda>_.
     tx_bind (decision_audit dq ''redemption.approval.execute'' ''approval'' (dq_approvalId dq)
        [(''executedAt'', json_date now), (''ledgerEntryId'', JStr (sr_redemptionLedgerEntryId settlement)),
         (''earnLedgerEntryId'', json_opt_str (sr_earnLedgerEntryId settlement)),
         (''redeemedAmountKobo'', JNum (js_Number (rd_requestedAmountKobo redemption))),
         (''netPaidAmountKobo'', JNum (js_Number (sr_netPaidAmountKobo settlement))),
         (''earnedKobo'', JNum (js_Number (sr_earnedKobo settlement))),
         (''remainingBalanceKobo'', JNum (js_Number (sr_remainingBalanceKobo settlement)))]) (\<lambda>_.
     tx_return (Decided (redemption_decision_response dq redemption receipt settlement now))))))))"

definition redemption_target :: "Approval \<Rightarrow> db \<Rightarrow> svc_error + (Redemption \<times> Receipt \<times> receipt_rows)" where
  "redemption_target approval d =
     (case redemption_of_approval approval d of
        Some redemption \<Rightarrow>
          if \<not> truthy (ap_redemptionId approval) \<or> truthy (ap_receiptId approval)
          then Inl (DomainHttpException 422 ''UNSUPPORTED_APPROVAL_TARGET'' ''Redemption approval target is invalid'')
          else (case redemption_receipt redemption d of
              None \<Rightarrow> Inl (PlainError ''Inconsistent query result'')
            | Some receipt \<Rightarrow> map_sum (\<lambda>e. e) (\<lambda>rr. (redemption, receipt, rr)) (includedRows receipt d))
      | None \<Rightarrow> Inl (DomainHttpException 422 ''UNSUPPORTED_APPROVAL_TARGET''
                   ''Redemption approval target is invalid''))"

definition decideRedemptionApproval :: "env \<Rightarrow> decision_request \<Rightarrow> Approval \<Rightarrow> int \<Rightarrow> decision_outcome dbtx" where
  "decideRedemptionApproval env dq approval now =
     tx_bind (tx_check (redemption_target approval)) (\<lambda>(redemption, receipt, rr).
     if ap_expiresAt approval \<le> now then decision_expire dq approval now
     else if dq_decision dq = ApprovalDecision.REJECTED then reject_redemption dq redemption receipt now
     else approve_redemption env dq approval redemption receipt rr now)"

subsection \<open>The whole call\<close>

definition decision_pending :: "decision_request \<Rightarrow> int \<Rightarrow> IdempotencyRecord" where
  "decision_pending dq expiresAt =
     \<lparr> idr_tenantId = dq_tenantId dq, idr_actorId = actor_id (dq_actor dq),
       idr_endpoint = APPROVAL_ENDPOINT, idr_idempotencyKey = dq_key dq,
       idr_requestHash = dq_requestHash dq, idr_responseJson = None,
       idr_status = IdempotencyRecordStatus.PENDING, idr_expiresAt = expiresAt \<rparr>"

definition decision_transaction :: "env \<Rightarrow> decision_request \<Rightarrow> (nat \<Rightarrow> int) \<Rightarrow> decision_outcome dbtx" where
  "decision_transaction env dq clk =
     tx_bind (idempotencyRecord_create (decision_pending dq (clk 1 + IDP_EXPIRY_MS))) (\<lambda>_.
     tx_bind (tx_check (decision_approval dq)) (\<lambda>approval.
     if ap_targetType approval = ApprovalTargetType.REDEEM
     then decideRedemptionApproval env dq approval (clk 2)
     else decideReceiptApproval env dq approval (clk 2)))"

definition store_decision :: "decision_request \<Rightarrow> json \<Rightarrow> unit dbtx" where
  "store_decision dq response =
     require_updated (idempotencyRecord_updateMany
       (is_record (dq_tenantId dq) (actor_id (dq_actor dq)) APPROVAL_ENDPOINT (dq_key dq))
       (\<lambda>x. x\<lparr>idr_status := IdempotencyRecordStatus.COMPLETED, idr_responseJson := Some response\<rparr>))"

definition approval_expired :: svc_error where
  "approval_expired = DomainHttpException 422 ''APPROVAL_EXPIRED'' ''Approval has expired''"

definition decision_catch :: "decision_request \<Rightarrow> int \<Rightarrow> svc_error \<Rightarrow> db \<Rightarrow> (svc_error + json) \<times> db" where
  "decision_catch dq now e d =
     (if earn_isUniqueIdempotencyConflict e then
        (case findApprovalIdempotency dq now d of
           (replay, d1) \<Rightarrow>
             (case Option.bind replay idr_responseJson of
                Some response \<Rightarrow> (Inr response, d1)
              | None \<Rightarrow> (Inl idempotency_conflict, d1)))
      else if isTransactionConflict e then (Inl approval_already_decided, d)
      else (Inl e, d))"

definition decideApproval ::
  "env \<Rightarrow> (nat \<Rightarrow> db \<Rightarrow> db \<times> svc_error option) \<Rightarrow> (nat \<Rightarrow> db \<Rightarrow> db) \<Rightarrow> (nat \<Rightarrow> int) \<Rightarrow>
   string \<Rightarrow> AuthContext \<Rightarrow> string \<Rightarrow> ApprovalDecision \<Rightarrow> string \<Rightarrow> string option \<Rightarrow> db \<Rightarrow> (svc_error + json) \<times> db" where
  "decideApproval env sched others clk tenantId actor approvalId decision reason idempotencyKey d =
     (case decision_prepare env tenantId actor approvalId decision reason idempotencyKey of
        Inl e \<Rightarrow> (Inl e, d)
      | Inr dq \<Rightarrow>
         (case findApprovalIdempotency dq (clk 0) d of
            (Some existing, d1) \<Rightarrow>
              (case idr_responseJson existing of
                 Some response \<Rightarrow> (Inr response, d1)
               | None \<Rightarrow> (Inl idempotency_conflict, d1))
          | (None, d1) \<Rightarrow>
              if dq_reason dq = [] then (Inl (BadRequestException ''Decision reason is required''), d1)
              else
                (case run_transaction sched 1 (decision_transaction env dq clk) d1 of
                   (Inl e, d2) \<Rightarrow> decision_catch dq (clk 3) e (others 1 d2)
                 | (Inr Expired, d2) \<Rightarrow> decision_catch dq (clk 3) approval_expired (others 1 d2)
                 | (Inr (Decided response), d2) \<Rightarrow>
                     (case store_decision dq response (others 0 d2) of
                        Inl e \<Rightarrow> decision_catch dq (clk 3) e (others 1 (others 0 d2))
                      | Inr (_, d3) \<Rightarrow> (Inr response, d3)))))"

text \<open>The receipt endpoints of \<^verbatim>\<open>src/modules/approvals/approvals.service.ts\<close>, kept for older clients.\<close>

definition findApprovalByReceiptId :: "string \<Rightarrow> string \<Rightarrow> db \<Rightarrow> Approval option" where
  "findApprovalByReceiptId tenantId receiptId d =
     find (\<lambda>a. ap_tenantId a = tenantId \<and> ap_receiptId a = Some receiptId) (approvals d)"

definition legacy_backfill_required :: svc_error where
  "legacy_backfill_required = DomainHttpException 409 ''LEGACY_APPROVAL_BACKFILL_REQUIRED''
     ''Legacy receipt requires backfill before approval decisions are accepted''"

definition approveReceipt ::
  "env \<Rightarrow> (nat \<Rightarrow> db \<Rightarrow> db \<times> svc_error option) \<Rightarrow> (nat \<Rightarrow> db \<Rightarrow> db) \<Rightarrow> (nat \<Rightarrow> int) \<Rightarrow>
   string \<Rightarrow> AuthContext \<Rightarrow> string \<Rightarrow> string option \<Rightarrow> db \<Rightarrow> (svc_error + json) \<times> db" where
  "approveReceipt env sched others clk tenantId actor receiptId idempotencyKey d =
     (case findApprovalByReceiptId tenantId receiptId d of
        None \<Rightarrow> (Inl legacy_backfill_required, d)
      | Some approval \<Rightarrow> decideApproval env sched others clk tenantId actor (ap_id approval)
          ApprovalDecision.APPROVED ''legacy receipt approval'' idempotencyKey d)"

definition rejectReceipt ::
  "env \<Rightarrow> (nat \<Rightarrow> db \<Rightarrow> db \<times> svc_error option) \<Rightarrow> (nat \<Rightarrow> db \<Rightarrow> db) \<Rightarrow> (nat \<Rightarrow> int) \<Rightarrow>
   string \<Rightarrow> AuthContext \<Rightarrow> string \<Rightarrow> string option \<Rightarrow> db \<Rightarrow> (svc_error + json) \<times> db" where
  "rejectReceipt env sched others clk tenantId actor receiptId idempotencyKey d =
     (case findApprovalByReceiptId tenantId receiptId d of
        None \<Rightarrow> (Inl legacy_backfill_required, d)
      | Some approval \<Rightarrow> decideApproval env sched others clk tenantId actor (ap_id approval)
          ApprovalDecision.REJECTED ''legacy receipt rejection'' idempotencyKey d)"

subsection \<open>Frames of the steps\<close>

lemma decide_row_frame [frame_intros]:
  "(\<And>d v. f (d\<lparr>approvals := v\<rparr>) = f d) \<Longrightarrow> tx_frame f (decide_row dq s now)"
  unfolding decide_row_def by (intro frame_intros)

lemma execute_row_frame [frame_intros]:
  "(\<And>d v. f (d\<lparr>approvals := v\<rparr>) = f d) \<Longrightarrow> tx_frame f (execute_row dq now)"
  unfolding execute_row_def by (intro frame_intros)

lemma review_receipt_frame [frame_intros]:
  "(\<And>d v. f (d\<lparr>receipts := v\<rparr>) = f d) \<Longrightarrow> tx_frame f (review_receipt dq i b now)"
  unfolding review_receipt_def by (intro frame_intros)

lemma decision_audit_frame [frame_intros]:
  "(\<And>d v. f (d\<lparr>auditLogs := v\<rparr>) = f d) \<Longrightarrow> tx_frame f (decision_audit dq a et i x)"
  unfolding decision_audit_def by (intro frame_intros)

lemma approve_notify_frame [frame_intros]:
  assumes "\<And>d v w. f (d\<lparr>idCounter := w, outboxEvents := v\<rparr>) = f d"
    and "\<And>d v w. f (d\<lparr>idCounter := w, smsMessages := v\<rparr>) = f d"
  shows "tx_frame f (approve_notify env dq receipt rr e c now)"
  unfolding approve_notify_def Let_def by (intro frame_intros assms)

lemma reject_receipt_frame [frame_intros]:
  assumes "\<And>d v. f (d\<lparr>approvals := v\<rparr>) = f d" and "\<And>d v. f (d\<lparr>receipts := v\<rparr>) = f d"
    and "\<And>d v. f (d\<lparr>auditLogs := v\<rparr>) = f d"
  shows "tx_frame f (reject_receipt dq i now)"
  unfolding reject_receipt_def by (intro frame_intros assms)

lemma reject_redemption_frame [frame_intros]:
  assumes "\<And>d v. f (d\<lparr>approvals := v\<rparr>) = f d" and "\<And>d v. f (d\<lparr>receipts := v\<rparr>) = f d"
    and "\<And>d v. f (d\<lparr>redemptions := v\<rparr>) = f d" and "\<And>d v. f (d\<lparr>auditLogs := v\<rparr>) = f d"
  shows "tx_frame f (reject_redemption dq redemption receipt now)"
  unfolding reject_redemption_def by (intro frame_intros assms)

lemma decision_expire_frame [frame_intros]:
  assumes "\<And>d v. f (d\<lparr>approvals := v\<rparr>) = f d" and "\<And>d v. f (d\<lparr>receipts := v\<rparr>) = f d"
    and "\<And>d v. f (d\<lparr>redemptions := v\<rparr>) = f d" and "\<And>d v. f (d\<lparr>auditLogs := v\<rparr>) = f d"
  shows "tx_frame f (decision_expire dq approval now)"
  unfolding decision_expire_def by (intro frame_intros assms)

subsection \<open>What a decision does to accounts and approvals\<close>

lemma settle_frames [frame_intros]:
  assumes "\<And>d v w. f (d\<lparr>idCounter := w, ledgerEntries := v\<rparr>) = f d" and "\<And>d v. f (d\<lparr>redemptions := v\<rparr>) = f d"
    and "\<And>d v. f (d\<lparr>creditLots := v\<rparr>) = f d" and "\<And>d v w. f (d\<lparr>idCounter := w, creditLots := v\<rparr>) = f d"
    and "\<And>d v w. f (d\<lparr>idCounter := w, redemptionAllocations := v\<rparr>) = f d"
  shows "tx_frame f (settle_debit env i)" and "tx_frame f (settle_earn env i earned)"
  unfolding settle_debit_def settle_earn_def by (intro frame_intros assms)+

lemma executeRedemptionSettlement_approvals: "tx_frame approvals (executeRedemptionSettlement env i)"
  unfolding executeRedemptionSettlement_def Let_def by (intro frame_intros) simp_all

lemma approve_credit_effect:
  assumes "approve_credit env dq approval receipt v d = Inr (entry, d')" and "0 \<le> v"
  shows "money_at f d \<Longrightarrow> money_at f d'"
    and "active_balance a now d' = active_balance a now d
      + (if a = (dq_tenantId dq, rc_customerId receipt) \<and> now < addUtcMonthsClamped (rc_occurredAt receipt) 12
         then v else 0)"
proof -
  let ?a = "(dq_tenantId dq, rc_customerId receipt)"
  from assms(1) obtain mk d1 mkl lot where
    c: "loyaltyLedgerEntry_create env mk d = Inr (entry, d1)" "creditLot_create env mkl d1 = Inr (lot, d')"
    and m: "\<And>i. ledger_account (mk i) = ?a" "\<And>i. signed_kobo (mk i) = v"
      "\<And>i. lot_account (mkl i) = ?a" "\<And>i. lot_remainingAmountKobo (mkl i) = v"
      "\<And>i. lot_originalAmountKobo (mkl i) = v"
      "\<And>i. lot_expiresAt (mkl i) = addUtcMonthsClamped (rc_occurredAt receipt) 12"
    by (fastforce simp: approve_credit_def tx_bind_eq_Inr ledger_account_def signed_kobo_def lot_account_def)
  note b = backed_credit[OF c m assms(2)]
  show "money_at f d \<Longrightarrow> money_at f d'" by (rule b(1))
  show "active_balance a now d' = active_balance a now d
      + (if a = ?a \<and> now < addUtcMonthsClamped (rc_occurredAt receipt) 12 then v else 0)" by (rule b(2))
qed

lemma approve_credit_approvals: "tx_frame approvals (approve_credit env dq approval receipt v)"
  unfolding approve_credit_def by (intro frame_intros) simp_all

lemma calculateCreditKobo_nonneg: "calculateCreditKobo p env policy = Inr v \<Longrightarrow> 0 \<le> v"
  unfolding calculateCreditKobo_def by (rule calculateEarnAmountKobo_nonneg)

lemma decision_steps_view:
  "tx_frame money_view (decide_row dq s now)" "tx_frame money_view (execute_row dq now)"
  "tx_frame money_view (review_receipt dq i b now)" "tx_frame money_view (decision_audit dq a et e x)"
  "tx_frame money_view (approve_notify env dq receipt rr e c now)" "tx_frame money_view (reject_receipt dq i now)"
  "tx_frame money_view (reject_redemption dq redemption receipt now)"
  "tx_frame money_view (decision_expire dq approval now)" "tx_frame money_view (idempotencyRecord_create r)"
  by (intro frame_intros; simp)+

lemmas decision_steps_money = decision_steps_view[THEN money_kept_frame]

lemma settlement_money_kept: "tx_rel money_kept (executeRedemptionSettlement env si)"
  by (auto intro!: tx_relI simp: money_kept_def dest: executeRedemptionSettlement_money)

lemma approve_credit_money_kept: "0 \<le> v \<Longrightarrow> tx_rel money_kept (approve_credit env dq approval receipt v)"
  by (auto intro!: tx_relI simp: money_kept_def dest: approve_credit_effect(1))

lemma approve_receipt_money: "tx_rel money_kept (approve_receipt env dq approval receipt rr now)"
  unfolding approve_receipt_def
  by (intro money.rel_intros decision_steps_money approve_credit_money_kept)
    (auto simp: tx_lift_eq_Inr dest: calculateCreditKobo_nonneg)

lemma approve_redemption_money: "tx_rel money_kept (approve_redemption env dq approval redemption receipt rr now)"
  unfolding approve_redemption_def by (intro money.rel_intros decision_steps_money settlement_money_kept)

lemma decision_transaction_money: "tx_rel money_kept (decision_transaction env dq clk)"
  unfolding decision_transaction_def decideRedemptionApproval_def decideReceiptApproval_def
  by (intro money.rel_intros decision_steps_money approve_receipt_money approve_redemption_money)

lemma decide_row_follows:
  "approval_step\<^sup>*\<^sup>* ApprovalStatus.PENDING s \<Longrightarrow> tx_rel approvals_follow (decide_row dq s now)"
  by (auto simp: tx_rel_def decide_row_def tx_bind_eq_Inr approval_updateMany_def is_approval_def
      approval_moves_def intro!: approvals_follow_updated)

lemma execute_row_follows: "tx_rel approvals_follow (execute_row dq now)"
  by (auto simp: tx_rel_def execute_row_def tx_bind_eq_Inr approval_updateMany_def is_approval_def
      approval_moves_def intro!: approvals_follow_updated)

lemma decision_steps_approvals:
  "tx_frame approvals (review_receipt dq i b now)" "tx_frame approvals (decision_audit dq a et e x)"
  "tx_frame approvals (approve_notify env dq receipt rr e c now)"
  "tx_frame approvals (require_updated (redemption_updateMany p g))"
  "tx_frame approvals (idempotencyRecord_create r)"
  by (intro frame_intros; simp)+

lemmas decision_steps_follow = decision_steps_approvals[THEN approvals_follow_frame]
  executeRedemptionSettlement_approvals[THEN approvals_follow_frame]
  approve_credit_approvals[THEN approvals_follow_frame] execute_row_follows

lemma expireApproval_rel: "tx_rel approvals_follow (expireApproval row now a b)"
  by (rule tx_relI) (rule expireApproval_follows)

lemma decision_branches_follow:
  "tx_rel approvals_follow (reject_receipt dq i now)" "tx_rel approvals_follow (reject_redemption dq redemption receipt now)"
  "tx_rel approvals_follow (approve_receipt env dq approval receipt rr now)"
  "tx_rel approvals_follow (approve_redemption env dq approval redemption receipt rr now)"
  "tx_rel approvals_follow (decision_expire dq approval now)"
  unfolding reject_receipt_def reject_redemption_def approve_receipt_def approve_redemption_def decision_expire_def
  by (intro follow.rel_intros decision_steps_follow decide_row_follows expireApproval_rel; simp)+

lemma decision_transaction_follows: "tx_rel approvals_follow (decision_transaction env dq clk)"
  unfolding decision_transaction_def decideRedemptionApproval_def decideReceiptApproval_def
  by (intro follow.rel_intros decision_steps_follow decision_branches_follow)

subsection \<open>Following a whole call\<close>

text \<open>
  Outside its transaction a call writes idempotency records only, so whatever does not look at
  them sees the transaction and the other sessions alone.
\<close>

context session_invariant
begin

lemma findApprovalIdempotency_keeps: "findApprovalIdempotency dq now d = (r, d') \<Longrightarrow> P d' = P d"
  by (auto simp: findApprovalIdempotency_def cleanup_keeps Let_def split: option.splits if_splits)

lemma store_decision_keeps: "store_decision dq response d = Inr (u, d') \<Longrightarrow> P d' = P d"
  by (auto simp: store_decision_def require_updated_def tx_bind_eq_Inr idempotencyRecord_updateMany_def P_idempotency)

lemma decision_catch_keeps: "P (snd (decision_catch dq now e d)) = P d"
  using findApprovalIdempotency_keeps by (auto simp: decision_catch_def split: prod.splits option.splits)

lemma decideApproval_keeps:
  assumes "P d" and "session_keeps P sched others" and "\<And>dq clk. tx_keeps P (decision_transaction env dq clk)"
  shows "P (snd (decideApproval env sched others clk tenantId actor approvalId decision reason key d))"
proof (cases "decision_prepare env tenantId actor approvalId decision reason key")
  case (Inr dq)
  obtain r d1 where f: "findApprovalIdempotency dq (clk 0) d = (r, d1)" by (metis surj_pair)
  have d1: "P d1" using findApprovalIdempotency_keeps[OF f] assms(1) by simp
  obtain o' d2 where t: "run_transaction sched (Suc 0) (decision_transaction env dq clk) d1 = (o', d2)" by (metis surj_pair)
  have d2: "P d2" by (rule run_transaction_keeps[OF d1 assms(2,3) t])
  have s: "store_decision dq response (others 0 d2) = Inr (u, t') \<Longrightarrow> P t'" for t' u response
    using store_decision_keeps session_keepsD(2)[OF assms(2) d2] by blast
  note c = decision_catch_keeps[THEN iffD2, OF session_keepsD(2)[OF assms(2)]]
  show ?thesis
    using d1 d2 s c[OF d2] c[OF session_keepsD(2)[OF assms(2) d2]]
    by (auto simp: decideApproval_def Inr f t split: option.splits sum.splits decision_outcome.splits prod.splits)
qed (simp add: decideApproval_def assms(1))

end

interpretation follow_inv: session_invariant "approvals_follow d0" for d0
  by unfold_locales (simp_all add: approvals_follow_def)

text \<open>What a body does to the approvals, as a property to keep.\<close>

lemma follows_keeps: "tx_rel approvals_follow m \<Longrightarrow> tx_keeps (approvals_follow d0) m"
  by (auto simp: tx_keeps_def tx_spec_def tx_rel_def intro: approvals_follow_trans)

lemma approvals_follow_decided:
  assumes "approvals_follow d d'" and "i < length (approvals d)"
  shows "i < length (approvals d')" and "approval_moves (approvals d ! i) (approvals d' ! i)"
  using assms by (auto simp: approvals_follow_def list_all2_conv_all_nth nth_append)

subsection \<open>Who decides, and what moves\<close>

lemma decision_transaction_stages:
  assumes "decision_transaction env dq clk d = Inr (outcome, d')"
  obtains approval d1 where "idempotencyRecord_create (decision_pending dq (clk 1 + IDP_EXPIRY_MS)) d = Inr ((), d1)"
    "decision_approval dq d1 = Inr approval"
    "(if ap_targetType approval = ApprovalTargetType.REDEEM then decideRedemptionApproval env dq approval (clk 2)
      else decideReceiptApproval env dq approval (clk 2)) d1 = Inr (outcome, d')"
proof -
  from assms obtain approval d1 u where "idempotencyRecord_create (decision_pending dq (clk 1 + IDP_EXPIRY_MS)) d = Inr (u, d1)"
    "decision_approval dq d1 = Inr approval"
    "(if ap_targetType approval = ApprovalTargetType.REDEEM then decideRedemptionApproval env dq approval (clk 2)
      else decideReceiptApproval env dq approval (clk 2)) d1 = Inr (outcome, d')"
    unfolding decision_transaction_def by (elim tx_bindE) (metis tx_check_eq_Inr)
  then show thesis by (intro that) simp_all
qed

lemma idempotencyRecord_create_view:
  "idempotencyRecord_create row d = Inr (u, d') \<Longrightarrow> (\<And>d v. g (d\<lparr>idempotencyRecords := v\<rparr>) = g d) \<Longrightarrow> g d' = g d"
  by (auto simp: idempotencyRecord_create_def split: if_splits)

lemma find_SomeD: "find p xs = Some x \<Longrightarrow> x \<in> set xs \<and> p x"
  by (auto simp: find_Some_iff)

lemma findScopedApproval_Some:
  "findScopedApproval dq d = Inr (Some a) \<Longrightarrow> a \<in> set (approvals d) \<and> ap_id a = dq_approvalId dq"
  by (auto simp: findScopedApproval_def res_bind_eq_Inr dest: find_SomeD)

lemma locked_approval_Inr:
  "locked_approval dq i d = Inr a \<Longrightarrow> a \<in> set (approvals d) \<and> ap_tenantId a = dq_tenantId dq \<and> ap_id a = i
     \<and> ap_status a = ApprovalStatus.PENDING"
  by (auto simp: locked_approval_def dest!: find_SomeD split: option.split_asm if_split_asm)

lemma decision_approval_Inr:
  assumes "decision_approval dq d = Inr approval" and "distinct (map ap_id (approvals d))"
  shows "approval \<in> set (approvals d)" "ap_tenantId approval = dq_tenantId dq" "ap_id approval = dq_approvalId dq"
    "ap_status approval = ApprovalStatus.PENDING"
    "(ap_requestedByTenantId approval, ap_requestedBy approval) \<noteq> (actor_tenantId (dq_actor dq), actor_id (dq_actor dq))"
proof -
  from assms(1) obtain a where g: "findScopedApproval dq d = Inr (Some a)" and c: "approval_decidable dq a = Inr ()"
    and l: "locked_approval dq (ap_id a) d = Inr approval"
    by (auto simp: decision_approval_def res_bind_eq_Inr split: option.split_asm)
  note f = findScopedApproval_Some[OF g] locked_approval_Inr[OF l]
  with approval_unique[OF assms(2), of approval a] have "approval = a" by simp
  with f c show "approval \<in> set (approvals d)" "ap_tenantId approval = dq_tenantId dq"
    "ap_id approval = dq_approvalId dq" "ap_status approval = ApprovalStatus.PENDING"
    "(ap_requestedByTenantId approval, ap_requestedBy approval) \<noteq> (actor_tenantId (dq_actor dq), actor_id (dq_actor dq))"
    by (auto simp: approval_decidable_def)
qed

lemma not_expired_branches:
  "reject_receipt dq i now d \<noteq> Inr (Expired, d')" "reject_redemption dq rd rc now d \<noteq> Inr (Expired, d')"
  "approve_receipt env dq a rc rr now d \<noteq> Inr (Expired, d')"
  "approve_redemption env dq a rd rc rr now d \<noteq> Inr (Expired, d')"
  unfolding reject_receipt_def reject_redemption_def approve_receipt_def approve_redemption_def
  by (rule notI, elim tx_bindE, simp only: tx_return_apply sum.inject prod.inject decision_outcome.distinct simp_thms)+

lemma decision_expire_Expired: "decision_expire dq approval now d = Inr (outcome, d') \<Longrightarrow> outcome = Expired"
  by (auto simp: decision_expire_def elim!: tx_bindE)

text \<open>The path a decision that commits took, and what it ran on.\<close>

inductive decision_ran ::
  "env \<Rightarrow> decision_request \<Rightarrow> Approval \<Rightarrow> int \<Rightarrow> db \<Rightarrow> decision_outcome \<Rightarrow> db \<Rightarrow> bool"
  for env dq approval now d where
  expiring: "ap_expiresAt approval \<le> now \<Longrightarrow> decision_expire dq approval now d = Inr (Expired, d') \<Longrightarrow>
    decision_ran env dq approval now d Expired d'"
| rejecting_receipt: "now < ap_expiresAt approval \<Longrightarrow> dq_decision dq = ApprovalDecision.REJECTED \<Longrightarrow>
    reject_receipt dq i now d = Inr (Decided r, d') \<Longrightarrow> decision_ran env dq approval now d (Decided r) d'"
| rejecting_redemption: "now < ap_expiresAt approval \<Longrightarrow> dq_decision dq = ApprovalDecision.REJECTED \<Longrightarrow>
    reject_redemption dq rd rc now d = Inr (Decided r, d') \<Longrightarrow> decision_ran env dq approval now d (Decided r) d'"
| approving_receipt: "now < ap_expiresAt approval \<Longrightarrow> dq_decision dq = ApprovalDecision.APPROVED \<Longrightarrow>
    ap_targetType approval = ApprovalTargetType.EARN \<Longrightarrow> receipt_target approval d = Inr (receipt, rr) \<Longrightarrow>
    approve_receipt env dq approval receipt rr now d = Inr (Decided r, d') \<Longrightarrow>
    decision_ran env dq approval now d (Decided r) d'"
| approving_redemption: "now < ap_expiresAt approval \<Longrightarrow> dq_decision dq = ApprovalDecision.APPROVED \<Longrightarrow>
    ap_targetType approval = ApprovalTargetType.REDEEM \<Longrightarrow>
    redemption_target approval d = Inr (redemption, receipt, rr) \<Longrightarrow>
    approve_redemption env dq approval redemption receipt rr now d = Inr (Decided r, d') \<Longrightarrow>
    decision_ran env dq approval now d (Decided r) d'"

inductive_cases decision_ran_ExpiredE: "decision_ran env dq approval now d Expired d'"

lemma decision_dispatch:
  assumes "(if ap_expiresAt approval \<le> now then decision_expire dq approval now
    else if dq_decision dq = ApprovalDecision.REJECTED then reject else approve) d = Inr (outcome, d')"
    and "\<And>x. reject d \<noteq> Inr (Expired, x)" and "\<And>x. approve d \<noteq> Inr (Expired, x)"
  obtains "ap_expiresAt approval \<le> now" "outcome = Expired" "decision_expire dq approval now d = Inr (Expired, d')"
  | r where "now < ap_expiresAt approval" "dq_decision dq = ApprovalDecision.REJECTED" "outcome = Decided r"
      "reject d = Inr (Decided r, d')"
  | r where "now < ap_expiresAt approval" "dq_decision dq = ApprovalDecision.APPROVED" "outcome = Decided r"
      "approve d = Inr (Decided r, d')"
proof (cases "ap_expiresAt approval \<le> now")
  case True
  with assms(1) decision_expire_Expired show ?thesis by (intro that(1)) (simp, metis+)
next
  case False
  show ?thesis
  proof (cases outcome)
    case Expired
    with False assms show ?thesis by (cases "dq_decision dq") simp_all
  next
    case (Decided r)
    with False assms(1) that(2,3) show ?thesis by (cases "dq_decision dq") simp_all
  qed
qed

lemma decideReceiptApproval_ran:
  assumes "decideReceiptApproval env dq approval now d = Inr (outcome, d')"
    and "ap_targetType approval \<noteq> ApprovalTargetType.REDEEM"
  shows "decision_ran env dq approval now d outcome d'"
proof -
  from assms(1) obtain receipt rr where t: "receipt_target approval d = Inr (receipt, rr)"
    and b: "(if ap_expiresAt approval \<le> now then decision_expire dq approval now
       else if dq_decision dq = ApprovalDecision.REJECTED then reject_receipt dq (rc_id receipt) now
       else approve_receipt env dq approval receipt rr now) d = Inr (outcome, d')"
    unfolding decideReceiptApproval_def by (elim tx_bindE) (auto simp only: tx_check_eq_Inr split: prod.splits)
  have "ap_targetType approval = ApprovalTargetType.EARN" using assms(2) by (cases "ap_targetType approval") auto
  with b not_expired_branches(1,3) t show ?thesis
    by (elim decision_dispatch) (simp_all only: decision_ran.intros simp_thms)
qed

lemma decideRedemptionApproval_ran:
  assumes "decideRedemptionApproval env dq approval now d = Inr (outcome, d')"
    and "ap_targetType approval = ApprovalTargetType.REDEEM"
  shows "decision_ran env dq approval now d outcome d'"
proof -
  from assms(1) obtain redemption receipt rr where t: "redemption_target approval d = Inr (redemption, receipt, rr)"
    and b: "(if ap_expiresAt approval \<le> now then decision_expire dq approval now
       else if dq_decision dq = ApprovalDecision.REJECTED then reject_redemption dq redemption receipt now
       else approve_redemption env dq approval redemption receipt rr now) d = Inr (outcome, d')"
    unfolding decideRedemptionApproval_def by (elim tx_bindE) (auto simp only: tx_check_eq_Inr split: prod.splits)
  with not_expired_branches(2,4) assms(2) show ?thesis
    by (elim decision_dispatch) (simp_all only: decision_ran.intros simp_thms)
qed

lemma decision_transaction_ran:
  assumes "decision_transaction env dq clk d = Inr (outcome, d')"
  obtains approval d1 where "idempotencyRecord_create (decision_pending dq (clk 1 + IDP_EXPIRY_MS)) d = Inr ((), d1)"
    "decision_approval dq d1 = Inr approval" "decision_ran env dq approval (clk 2) d1 outcome d'"
proof (rule decision_transaction_stages[OF assms])
  fix approval d1
  assume a: "idempotencyRecord_create (decision_pending dq (clk 1 + IDP_EXPIRY_MS)) d = Inr ((), d1)"
    "decision_approval dq d1 = Inr approval"
    and b: "(if ap_targetType approval = ApprovalTargetType.REDEEM then decideRedemptionApproval env dq approval (clk 2)
      else decideReceiptApproval env dq approval (clk 2)) d1 = Inr (outcome, d')"
  from b have "decision_ran env dq approval (clk 2) d1 outcome d'"
    by (cases "ap_targetType approval = ApprovalTargetType.REDEEM")
      (simp_all add: decideReceiptApproval_ran decideRedemptionApproval_ran)
  with a show thesis by (rule that)
qed

lemma decision_ran_view:
  assumes "decision_ran env dq approval now d outcome d'" and "outcome = Expired \<or> dq_decision dq = ApprovalDecision.REJECTED"
  shows "money_view d' = money_view d"
  using assms
proof cases
  case expiring
  show ?thesis by (rule tx_frameD[OF decision_steps_view(8) expiring(3)])
next
  case rejecting_receipt
  show ?thesis by (rule tx_frameD[OF decision_steps_view(6) rejecting_receipt(4)])
next
  case rejecting_redemption
  show ?thesis by (rule tx_frameD[OF decision_steps_view(7) rejecting_redemption(4)])
qed auto

lemma decision_ran_expired_iff:
  "decision_ran env dq approval now d outcome d' \<Longrightarrow> outcome = Expired \<longleftrightarrow> ap_expiresAt approval \<le> now"
  by (cases rule: decision_ran.cases) auto

text \<open>
  C21: a decision that commits is about a pending approval of the tenant that somebody else
  requested; past its deadline it only expires, and an expiry or a rejection moves no money.
\<close>

theorem decision_four_eyes:
  assumes "decision_transaction env dq clk d = Inr (outcome, d')" and "distinct (map ap_id (approvals d))"
  shows "\<exists>a\<in>set (approvals d). ap_id a = dq_approvalId dq \<and> ap_tenantId a = dq_tenantId dq
      \<and> ap_status a = ApprovalStatus.PENDING
      \<and> (ap_requestedByTenantId a, ap_requestedBy a) \<noteq> (actor_tenantId (dq_actor dq), actor_id (dq_actor dq))
      \<and> (outcome = Expired \<longleftrightarrow> ap_expiresAt a \<le> clk 2)
      \<and> (outcome = Expired \<or> dq_decision dq = ApprovalDecision.REJECTED \<longrightarrow> money_view d' = money_view d)"
proof -
  obtain a d1 where i: "idempotencyRecord_create (decision_pending dq (clk 1 + IDP_EXPIRY_MS)) d = Inr ((), d1)"
    and da: "decision_approval dq d1 = Inr a" and ran: "decision_ran env dq a (clk 2) d1 outcome d'"
    by (rule decision_transaction_ran[OF assms(1)])
  have v: "approvals d1 = approvals d" "money_view d1 = money_view d"
    by (rule idempotencyRecord_create_view[OF i]; simp)+
  note a = decision_approval_Inr[OF da assms(2)[folded v(1)], unfolded v(1)]
  from a decision_ran_expired_iff[OF ran] decision_ran_view[OF ran] v(2) show ?thesis by (metis (no_types))
qed

lemma approve_receipt_stages:
  assumes "approve_receipt env dq approval receipt rr now d = Inr (outcome, d')"
  obtains u creditKobo d1 entry d2 where "approve_receipt_checks env dq approval receipt rr = Inr u"
    "calculateCreditKobo (js_Number (rc_purchaseAmountKobo receipt)) env None = Inr creditKobo"
    "money_view d1 = money_view d" "no_earn_entry dq receipt d1 = Inr ()"
    "approve_credit env dq approval receipt creditKobo d1 = Inr (entry, d2)" "money_view d' = money_view d2"
proof -
  from assms obtain u d1 u1 d2 c d3 u2 d4 e d5 u3 d6 u4 d7 u5 d8 u6 d9 where
    s: "tx_lift (approve_receipt_checks env dq approval receipt rr) d = Inr (u, d1)"
    "decide_row dq ApprovalStatus.APPROVED now d1 = Inr (u1, d2)"
    "tx_lift (calculateCreditKobo (js_Number (rc_purchaseAmountKobo receipt)) env None) d2 = Inr (c, d3)"
    "tx_check (no_earn_entry dq receipt) d3 = Inr (u2, d4)"
    "approve_credit env dq approval receipt c d4 = Inr (e, d5)"
    "approve_notify env dq receipt rr (le_id e) c now d5 = Inr (u3, d6)"
    "review_receipt dq (rc_id receipt) True now d6 = Inr (u4, d7)"
    "execute_row dq now d7 = Inr (u5, d8)"
    "decision_audit dq ''approval.execute'' ''approval'' (dq_approvalId dq)
       [(''executedAt'', json_date now), (''ledgerEntryId'', JStr (le_id e))] d8 = Inr (u6, d9)" and f: "d9 = d'"
    unfolding approve_receipt_def by (elim tx_bindE) (simp only: tx_return_apply sum.inject prod.inject)
  note v = decision_steps_view[THEN tx_frameD]
  have "money_view d4 = money_view d" using v(1)[OF s(2)] s(1,3,4) by (simp add: tx_lift_eq_Inr tx_check_eq_Inr)
  moreover have "money_view d' = money_view d5" using v(5)[OF s(6)] v(3)[OF s(7)] v(2)[OF s(8)] v(4)[OF s(9)] f by simp
  ultimately show thesis using s by (intro that[of u c d4 e d5]) (simp_all add: tx_lift_eq_Inr tx_check_eq_Inr)
qed

lemma approve_redemption_stages:
  assumes "approve_redemption env dq approval redemption receipt rr now d = Inr (outcome, d')"
  obtains earnPolicy d1 settlement d2 where
    "approve_redemption_checks env dq approval redemption receipt rr now d = Inr earnPolicy"
    "money_view d1 = money_view d"
    "executeRedemptionSettlement env
        (approval_settlement_input env dq approval redemption receipt rr earnPolicy now) d1 = Inr (settlement, d2)"
    "money_view d' = money_view d2"
proof -
  from assms obtain p d1 u1 d2 x d3 u3 d4 u4 d5 u5 d6 extra where
    s: "tx_check (approve_redemption_checks env dq approval redemption receipt rr now) d = Inr (p, d1)"
    "decide_row dq ApprovalStatus.APPROVED now d1 = Inr (u1, d2)"
    "executeRedemptionSettlement env
        (approval_settlement_input env dq approval redemption receipt rr p now) d2 = Inr (x, d3)"
    "review_receipt dq (rc_id receipt) True now d3 = Inr (u3, d4)" "execute_row dq now d4 = Inr (u4, d5)"
    "decision_audit dq ''redemption.approval.execute'' ''approval'' (dq_approvalId dq) extra d5 = Inr (u5, d6)"
    and f: "d6 = d'"
    unfolding approve_redemption_def by (elim tx_bindE) (simp only: tx_return_apply sum.inject prod.inject)
  note v = decision_steps_view[THEN tx_frameD]
  have "money_view d2 = money_view d" using v(1)[OF s(2)] s(1) by (simp add: tx_check_eq_Inr)
  moreover have "money_view d' = money_view d3" using v(3)[OF s(4)] v(2)[OF s(5)] v(4)[OF s(6)] f by simp
  ultimately show thesis using s by (intro that[of p d2 x d3]) (simp_all add: tx_check_eq_Inr)
qed

lemma active_balance_view: "money_view d' = money_view d \<Longrightarrow> active_balance a now d' = active_balance a now d"
  by (simp add: active_balance_def getActiveBalanceKobo_def)

text \<open>What an approved receipt and an approved redemption change on the customer's active balance.\<close>

definition receipt_change :: "env \<Rightarrow> Receipt \<Rightarrow> int \<Rightarrow> int" where
  "receipt_change env rc now =
     (if now < addUtcMonthsClamped (rc_occurredAt rc) 12
      then (js_Number (rc_purchaseAmountKobo rc) * resolveEarnRateBps env None + 9999) div 10000 else 0)"

definition redemption_change :: "env \<Rightarrow> EarnPolicyValues option \<Rightarrow> Redemption \<Rightarrow> Receipt \<Rightarrow> int \<Rightarrow> int" where
  "redemption_change env policy rd rc now =
     (if now < addUtcMonthsClamped (rc_occurredAt rc) 12
      then ((rd_basketAmountKobo rd - rd_requestedAmountKobo rd) * resolveEarnRateBps env policy + 9999) div 10000
      else 0) - rd_requestedAmountKobo rd"

lemma approve_receipt_effect:
  assumes "approve_receipt env dq approval receipt rr now d = Inr (outcome, d')"
  shows "active_balance b now d' = active_balance b now d
      + (if b = (dq_tenantId dq, rc_customerId receipt) then receipt_change env receipt now else 0)"
    and "(rc_capturedByTenantId receipt, rc_capturedBy receipt) \<noteq> (actor_tenantId (dq_actor dq), actor_id (dq_actor dq))"
    and "\<forall>e\<in>set (ledgerEntries d). le_tenantId e = dq_tenantId dq \<and> le_receiptId e = Some (rc_id receipt)
           \<longrightarrow> le_type e \<noteq> LedgerEntryType.EARN"
proof -
  obtain u v d1 entry d2 where c: "approve_receipt_checks env dq approval receipt rr = Inr u"
    "calculateCreditKobo (js_Number (rc_purchaseAmountKobo receipt)) env None = Inr v"
    and m: "money_view d1 = money_view d" and n: "no_earn_entry dq receipt d1 = Inr ()"
    and k: "approve_credit env dq approval receipt v d1 = Inr (entry, d2)" and m': "money_view d' = money_view d2"
    by (rule approve_receipt_stages[OF assms])
  show "(rc_capturedByTenantId receipt, rc_capturedBy receipt) \<noteq> (actor_tenantId (dq_actor dq), actor_id (dq_actor dq))"
    using c(1) by (auto simp: approve_receipt_checks_def split: if_splits)
  show "\<forall>e\<in>set (ledgerEntries d). le_tenantId e = dq_tenantId dq \<and> le_receiptId e = Some (rc_id receipt)
           \<longrightarrow> le_type e \<noteq> LedgerEntryType.EARN"
    using n m by (auto simp: no_earn_entry_def list_ex_iff)
  show "active_balance b now d' = active_balance b now d
      + (if b = (dq_tenantId dq, rc_customerId receipt) then receipt_change env receipt now else 0)"
    using approve_credit_effect(2)[OF k calculateCreditKobo_nonneg[OF c(2)], of b now] c(2)
    by (simp add: active_balance_view[OF m] active_balance_view[OF m'] receipt_change_def
        calculateCreditKobo_def calculateEarnAmountKobo_Inr)
qed

lemma approve_redemption_checks_policy:
  "approve_redemption_checks env dq approval redemption receipt rr now d = Inr policy \<Longrightarrow>
   policy = map_option earn_policy_of (policyConfiguration_findUnique (dq_tenantId dq) (rd_branchId redemption) d)"
  by (simp add: approve_redemption_checks_def Let_def res_bind_eq_Inr split: if_split_asm)

lemma approve_redemption_effect:
  assumes "approve_redemption env dq approval redemption receipt rr now d = Inr (outcome, d')" and "lots_wf d"
  shows "active_balance b now d' = active_balance b now d
      + (if b = (dq_tenantId dq, rd_customerId redemption) then redemption_change env
           (map_option earn_policy_of (policyConfiguration_findUnique (dq_tenantId dq) (rd_branchId redemption) d))
           redemption receipt now else 0)"
proof -
  obtain p d1 x d2 where c: "approve_redemption_checks env dq approval redemption receipt rr now d = Inr p"
    and m: "money_view d1 = money_view d"
    and x: "executeRedemptionSettlement env
        (approval_settlement_input env dq approval redemption receipt rr p now) d1 = Inr (x, d2)"
    and m': "money_view d' = money_view d2"
    by (rule approve_redemption_stages[OF assms(1)])
  have "lots_wf d1" using assms(2) m by (simp add: lots_wf_def)
  from settlement_effect[OF x this, of b] show ?thesis
    unfolding approve_redemption_checks_policy[OF c, symmetric]
    by (simp add: active_balance_view[OF m] active_balance_view[OF m'] redemption_change_def approval_settlement_input_def)
qed

lemma map_sum_eq_Inr: "map_sum f g r = Inr y \<longleftrightarrow> (\<exists>x. r = Inr x \<and> y = g x)"
  by (cases r) auto

lemma receipt_target_Inr:
  "receipt_target a d = Inr (rc, rr) \<Longrightarrow> rc \<in> set (receipts d) \<and> ap_receiptId a = Some (rc_id rc)"
  by (cases "ap_receiptId a")
    (auto simp: receipt_target_def map_sum_eq_Inr approval_receipt_def receipt_by_id_def dest!: find_SomeD
      split: option.split_asm if_split_asm)

lemma redemption_target_Inr:
  "redemption_target a d = Inr (rd, rc, rr) \<Longrightarrow> rd \<in> set (redemptions d) \<and> ap_redemptionId a = Some (rd_id rd)
     \<and> rc \<in> set (receipts d) \<and> rd_receiptId rd = rc_id rc"
  by (cases "ap_redemptionId a")
    (auto simp: redemption_target_def map_sum_eq_Inr redemption_of_approval_def redemption_receipt_def receipt_by_id_def
      dest!: find_SomeD split: option.split_asm if_split_asm)


subsection \<open>Replays\<close>

definition decision_replay :: "decision_request \<Rightarrow> db \<Rightarrow> json option" where
  "decision_replay dq d =
     (case decision_record dq d of
        None \<Rightarrow> None
      | Some x \<Rightarrow> if idr_requestHash x = dq_requestHash dq then idr_responseJson x else None)"

lemma findApprovalIdempotency_unexpired:
  assumes "\<forall>x\<in>set (idempotencyRecords d). now < idr_expiresAt x"
  shows "findApprovalIdempotency dq now d =
    (map_option (\<lambda>x. if idr_requestHash x \<noteq> dq_requestHash dq then x\<lparr>idr_responseJson := None\<rparr> else x)
      (decision_record dq d), d)"
proof -
  have "cleanupExpiredIdempotencyRecords t a e k now d = d" for t a e k
    by (rule cleanup_unexpired) (use assms in blast)
  then show ?thesis by (simp add: findApprovalIdempotency_def Let_def split: option.split)
qed

lemma findApprovalIdempotency_replay:
  assumes "findApprovalIdempotency dq now d = (found, d')"
  shows "Option.bind found idr_responseJson = decision_replay dq d'"
proof -
  let ?c = "cleanupExpiredIdempotencyRecords (dq_tenantId dq) (actor_id (dq_actor dq)) APPROVAL_ENDPOINT (dq_key dq) now d"
  have d': "?c = d'"
    using assms by (auto simp: findApprovalIdempotency_def Let_def split: option.split_asm if_split_asm)
  show ?thesis
    using assms[symmetric] unfolding findApprovalIdempotency_def Let_def d'
    by (cases "decision_record dq d'") (auto simp: decision_replay_def split: if_split_asm)
qed

lemma decision_keeps_records:
  "tx_frame idempotencyRecords (decision_expire dq a now)" "tx_frame idempotencyRecords (reject_receipt dq i now)"
  "tx_frame idempotencyRecords (reject_redemption dq rd rc now)"
  "tx_frame idempotencyRecords (approve_receipt env dq a rc rr now)"
  "tx_frame idempotencyRecords (approve_redemption env dq a rd rc rr now)"
  unfolding approve_receipt_def approve_redemption_def approve_credit_def executeRedemptionSettlement_def Let_def
  by (intro frame_intros; simp)+

lemma decision_ran_records:
  assumes "decision_ran env dq a now d outcome d'"
  shows "idempotencyRecords d' = idempotencyRecords d"
  using assms by cases (blast intro: decision_keeps_records[THEN tx_frameD])+

lemma decision_transaction_record:
  assumes "decision_transaction env dq clk d = Inr (outcome, d')"
  shows "decision_record dq d' = Some (decision_pending dq (clk 1 + IDP_EXPIRY_MS))"
    and "idempotencyRecords d' = idempotencyRecords d @ [decision_pending dq (clk 1 + IDP_EXPIRY_MS)]"
proof -
  obtain a d1 where i: "idempotencyRecord_create (decision_pending dq (clk 1 + IDP_EXPIRY_MS)) d = Inr ((), d1)"
    and ran: "decision_ran env dq a (clk 2) d1 outcome d'"
    by (rule decision_transaction_ran[OF assms])
  note r = decision_ran_records[OF ran]
  have "decision_record dq d' = decision_record dq d1"
    unfolding decision_record_def by (rule idempotencyRecord_findUnique_cong[OF r])
  also have "\<dots> = Some (decision_pending dq (clk 1 + IDP_EXPIRY_MS))"
    using idempotencyRecord_create_find[OF i] by (simp add: decision_record_def decision_pending_def)
  finally show "decision_record dq d' = Some (decision_pending dq (clk 1 + IDP_EXPIRY_MS))" .
  show "idempotencyRecords d' = idempotencyRecords d @ [decision_pending dq (clk 1 + IDP_EXPIRY_MS)]"
    using i r by (auto simp: idempotencyRecord_create_def split: if_splits)
qed

lemma store_decision_replay:
  assumes "store_decision dq response d = Inr (u, d')" and "decision_record dq d = Some x"
    and "idr_requestHash x = dq_requestHash dq"
  shows "decision_replay dq d' = Some response"
proof -
  from assms(1) obtain n where "idempotencyRecord_updateMany
      (is_record (dq_tenantId dq) (actor_id (dq_actor dq)) APPROVAL_ENDPOINT (dq_key dq))
      (\<lambda>x. x\<lparr>idr_status := IdempotencyRecordStatus.COMPLETED, idr_responseJson := Some response\<rparr>) d = Inr (n, d')"
    by (auto simp: store_decision_def require_updated_def tx_bind_eq_Inr)
  from idempotencyRecord_updateMany_find[OF this] assms(2,3) show ?thesis
    by (simp add: decision_replay_def decision_record_def is_record_def)
qed

text \<open>
  C22: a decision that finds its approval overdue reports \<open>APPROVAL_EXPIRED\<close> and expires it, but the
  pending idempotency record it committed stays: until that record expires, repeating the request
  with its key answers \<open>IDEMPOTENCY_CONFLICT\<close>, and nothing else happens.
\<close>

theorem decideApproval_expired_key:
  assumes "decision_prepare env tenantId actor approvalId decision reason key = Inr dq" and "dq_reason dq \<noteq> []"
    and "\<forall>x\<in>set (idempotencyRecords d). clk 0 < idr_expiresAt x" and "decision_record dq d = None"
    and "decision_transaction env dq clk d = Inr (Expired, d')"
    and "\<forall>x\<in>set (idempotencyRecords d'). clk' 0 < idr_expiresAt x"
  shows "decideApproval env alone (\<lambda>_ d. d) clk tenantId actor approvalId decision reason key d = (Inl approval_expired, d')
    \<and> decideApproval env sched others clk' tenantId actor approvalId decision reason key d' = (Inl idempotency_conflict, d')"
proof -
  have e: "\<not> earn_isUniqueIdempotencyConflict approval_expired" "\<not> isTransactionConflict approval_expired" by code_simp+
  have "decideApproval env alone (\<lambda>_ d. d) clk tenantId actor approvalId decision reason key d = (Inl approval_expired, d')"
    using assms(2,4,5) e
    by (simp add: decideApproval_def assms(1) findApprovalIdempotency_unexpired[OF assms(3)] run_transaction_alone
        decision_catch_def)
  moreover have "idr_responseJson (decision_pending dq t) = None" "idr_requestHash (decision_pending dq t) = dq_requestHash dq"
    for t by (simp_all add: decision_pending_def)
  ultimately show ?thesis
    by (simp add: decideApproval_def[of _ sched] assms(1) findApprovalIdempotency_unexpired[OF assms(6)]
        decision_transaction_record(1)[OF assms(5)])
qed

text \<open>
  The contract of \<^theory_text>\<open>idempotent_call\<close> for a decision between whose transaction and the storing of
  its response no other session touches the record.
\<close>

definition decideApproval_in :: "env \<Rightarrow> string \<Rightarrow> AuthContext \<Rightarrow> string \<Rightarrow> ApprovalDecision \<Rightarrow> string \<Rightarrow> string option \<Rightarrow>
    world \<Rightarrow> db \<Rightarrow> (svc_error + json) \<times> db" where
  "decideApproval_in env tenantId actor approvalId decision reason key w =
     decideApproval env (fst w) (\<lambda>_ d. d) (snd (snd w)) tenantId actor approvalId decision reason key"

definition decideApproval_replay ::
  "env \<Rightarrow> string \<Rightarrow> AuthContext \<Rightarrow> string \<Rightarrow> ApprovalDecision \<Rightarrow> string \<Rightarrow> string option \<Rightarrow> db \<Rightarrow> json option" where
  "decideApproval_replay env tenantId actor approvalId decision reason key d =
     (case decision_prepare env tenantId actor approvalId decision reason key of
        Inl e \<Rightarrow> None | Inr dq \<Rightarrow> decision_replay dq d)"

lemma decision_catch_stores: "decision_catch dq now e d = (Inr r, d') \<Longrightarrow> decision_replay dq d' = Some r"
  by (auto simp: decision_catch_def dest!: findApprovalIdempotency_replay split: if_split_asm prod.split_asm option.split_asm)

lemma decided_stores:
  assumes "run_transaction sched k (decision_transaction env dq clk) d = (Inr (Decided r), d2)"
    and "store_decision dq r d2 = Inr (u, d')"
  shows "decision_replay dq d' = Some r"
proof -
  from assms(1) obtain s where "decision_transaction env dq clk s = Inr (Decided r, d2)"
    by (auto simp: run_transaction_def split: prod.splits option.splits sum.splits)
  from decision_transaction_record(1)[OF this] show ?thesis
    by (rule store_decision_replay[OF assms(2)]) (simp add: decision_pending_def)
qed

lemma decideApproval_stores:
  assumes "decideApproval env sched (\<lambda>_ d. d) clk tenantId actor approvalId decision reason key d = (Inr r, d')"
    and "decision_prepare env tenantId actor approvalId decision reason key = Inr dq"
  shows "decision_replay dq d' = Some r"
proof -
  obtain found d1 where f: "findApprovalIdempotency dq (clk 0) d = (found, d1)" by (metis surj_pair)
  obtain o' d2 where t: "run_transaction sched (Suc 0) (decision_transaction env dq clk) d1 = (o', d2)" by (metis surj_pair)
  note n = findApprovalIdempotency_replay[OF f]
  show ?thesis
  proof (cases found)
    case None
    with assms t decided_stores[of sched "Suc 0" env dq clk d1 r d2] decision_catch_stores show ?thesis
      by (auto simp: decideApproval_def f split: if_split_asm sum.split_asm decision_outcome.split_asm prod.split_asm)
  next
    case (Some x)
    with assms n show ?thesis by (auto simp: decideApproval_def f split: option.split_asm)
  qed
qed

interpretation decision_idem: idempotent_call "decideApproval_in env tenantId actor approvalId decision reason key"
  "decideApproval_replay env tenantId actor approvalId decision reason key" records_live
  for env tenantId actor approvalId decision reason key
proof unfold_locales
  fix w r and d d' :: db
  assume c: "decideApproval_in env tenantId actor approvalId decision reason key w d = (Inr r, d')"
  then obtain dq where "decision_prepare env tenantId actor approvalId decision reason key = Inr dq"
    by (cases "decision_prepare env tenantId actor approvalId decision reason key")
      (auto simp: decideApproval_in_def decideApproval_def)
  with c show "decideApproval_replay env tenantId actor approvalId decision reason key d' = Some r"
    by (simp add: decideApproval_in_def decideApproval_replay_def decideApproval_stores)
next
  fix w r and d :: db
  assume r: "decideApproval_replay env tenantId actor approvalId decision reason key d = Some r" and l: "records_live w d"
  then obtain dq where p: "decision_prepare env tenantId actor approvalId decision reason key = Inr dq"
    and y: "decision_replay dq d = Some r" by (auto simp: decideApproval_replay_def split: sum.splits)
  from y obtain x where "decision_record dq d = Some x" "idr_requestHash x = dq_requestHash dq" "idr_responseJson x = Some r"
    by (auto simp: decision_replay_def split: option.splits if_splits)
  with p l show "decideApproval_in env tenantId actor approvalId decision reason key w d = (Inr r, d)"
    by (simp add: decideApproval_in_def decideApproval_def findApprovalIdempotency_unexpired records_live_def)
qed

text \<open>
  A decision that returned a response returns it again every time it is repeated with its key
  while the records are unexpired, and no repetition decides, credits or debits anything again.
\<close>

theorem decideApproval_idempotent:
  assumes "decideApproval env sched (\<lambda>_ d. d) clk tenantId actor approvalId decision reason key d = (Inr r, d')"
    and "\<forall>w\<in>set ws. \<forall>x\<in>set (idempotencyRecords d'). snd (snd w) 0 < idr_expiresAt x"
  shows "run_calls (\<lambda>(sched, others :: nat \<Rightarrow> db \<Rightarrow> db, clk).
      decideApproval env sched (\<lambda>_ d. d) clk tenantId actor approvalId decision reason key) ws d' = (map (\<lambda>_. Inr r) ws, d')"
proof -
  have "(\<lambda>(sched, others :: nat \<Rightarrow> db \<Rightarrow> db, clk). decideApproval env sched (\<lambda>_ d. d) clk tenantId actor approvalId decision reason key)
      = decideApproval_in env tenantId actor approvalId decision reason key"
    by (simp add: decideApproval_in_def fun_eq_iff)
  then show ?thesis
    using decision_idem.calls_again[of env tenantId actor approvalId decision reason key "(sched, \<lambda>_ d. d, clk)" d r d' ws] assms
    by (simp add: decideApproval_in_def records_live_def)
qed

subsection \<open>The threshold an approved redemption must exceed\<close>

lemma approve_redemption_checks_threshold:
  "approve_redemption_checks env dq approval redemption receipt rr now d = Inr p \<Longrightarrow>
   config_or env ''REDEMPTION_APPROVAL_THRESHOLD_KOBO'' 500000 < rd_requestedAmountKobo redemption"
  by (simp add: approve_redemption_checks_def Let_def res_bind_eq_Inr redemption_evaluate_def
      assertRedemptionApprovalPolicyStillPermitsExecution_def split: if_split_asm)

text \<open>
  C23: an approval of a redemption is only ever executed when the request exceeds the redemption
  threshold of the environment. One that is held because of the purchase amount, or under the lower
  threshold of its branch, can only be rejected or expire.
\<close>

theorem executed_redemption_above_default_threshold:
  assumes "decision_transaction env dq clk d = Inr (Decided r, d')" and "dq_decision dq = ApprovalDecision.APPROVED"
    and "distinct (map ap_id (approvals d))"
    and "a \<in> set (approvals d)" and "ap_id a = dq_approvalId dq" and "ap_targetType a = ApprovalTargetType.REDEEM"
  shows "\<exists>rd\<in>set (redemptions d). ap_redemptionId a = Some (rd_id rd)
    \<and> config_or env ''REDEMPTION_APPROVAL_THRESHOLD_KOBO'' 500000 < rd_requestedAmountKobo rd"
proof -
  obtain a' d1 where i: "idempotencyRecord_create (decision_pending dq (clk 1 + IDP_EXPIRY_MS)) d = Inr ((), d1)"
    and da: "decision_approval dq d1 = Inr a'" and ran: "decision_ran env dq a' (clk 2) d1 (Decided r) d'"
    by (rule decision_transaction_ran[OF assms(1)])
  have v: "approvals d1 = approvals d" "redemptions d1 = redemptions d"
    by (rule idempotencyRecord_create_view[OF i]; simp)+
  note f = decision_approval_Inr[OF da assms(3)[folded v(1)], unfolded v(1)]
  have "a' = a" using approval_unique[OF assms(3) f(1) assms(4)] f(3) assms(5) by simp
  from ran[unfolded this] show ?thesis
  proof cases
    case (approving_redemption rd rc rr)
    obtain p where "approve_redemption_checks env dq a rd rc rr (clk 2) d1 = Inr p"
      by (rule approve_redemption_stages[OF approving_redemption(5)])
    from approve_redemption_checks_threshold[OF this] redemption_target_Inr[OF approving_redemption(4), unfolded v(2)]
    show ?thesis by blast
  qed (use assms(2,6) in auto)
qed

subsection \<open>Decisions at the demonstration shop\<close>

definition demo_dq :: "ApprovalDecision \<Rightarrow> decision_request" where
  "demo_dq decision =
     \<lparr> dq_tenantId = ''T'', dq_actor = demo_supervisor, dq_approvalId = ''A'', dq_decision = decision,
       dq_reason = ''ok'', dq_key = ''k4'',
       dq_requestHash = earn_hashRequest demo_env (JObj
              [(''tenantId'', JStr ''T''), (''actorId'', JStr ''V''), (''approvalId'', JStr ''A''),
               (''decision'', JStr (decision_str decision)), (''reason'', JStr ''ok'')]) \<rparr>"

abbreviation demo_decide :: "ApprovalDecision \<Rightarrow> (nat \<Rightarrow> int) \<Rightarrow> db \<Rightarrow> (svc_error + json) \<times> db" where
  "demo_decide decision clk \<equiv> decideApproval demo_env alone (\<lambda>_ d. d) clk ''T'' demo_supervisor ''A'' decision '' ok ''
     (Some ''k4'')"

lemma demo_decision_prepare:
  "decision_prepare demo_env ''T'' demo_supervisor ''A'' decision '' ok '' (Some ''k4'') = Inr (demo_dq decision)"
proof -
  have "earn_normalizeIdempotencyKey (Some ''k4'') = Inr ''k4''" "js_trim '' ok '' = ''ok''" by code_simp+
  then show ?thesis by (simp add: decision_prepare_def demo_dq_def demo_supervisor_def Let_def)
qed

lemma demo_held_records: "idempotencyRecords demo_held_db = []"
  by (simp add: demo_held_db_def demo_db_def)

lemma demo_held_money: "money_at f demo_held_db = money_at f demo_db"
  by (rule money_at_view) (simp add: demo_held_db_def)

lemma demo_rejects:
  obtains r d' where "decision_transaction demo_env (demo_dq ApprovalDecision.REJECTED) (\<lambda>_. demo_now) demo_held_db
      = Inr (Decided r, d')" and "map ap_status (approvals d') = [ApprovalStatus.REJECTED]"
proof -
  have "map_sum (\<lambda>e. e) (\<lambda>r. (fst r \<noteq> Expired, map ap_status (approvals (snd r))))
      (decision_transaction demo_env (demo_dq ApprovalDecision.REJECTED) (\<lambda>_. demo_now) demo_held_db)
    = Inr (True, [ApprovalStatus.REJECTED])" by code_simp
  then show thesis
  proof (rule committed_result)
    fix x d'
    assume "decision_transaction demo_env (demo_dq ApprovalDecision.REJECTED) (\<lambda>_. demo_now) demo_held_db = Inr (x, d')"
      and "(fst (x, d') \<noteq> Expired, map ap_status (approvals (snd (x, d')))) = (True, [ApprovalStatus.REJECTED])"
    then show thesis by (cases x) (auto intro: that)
  qed
qed

lemma demo_expires:
  obtains d' where "decision_transaction demo_env (demo_dq ApprovalDecision.APPROVED) (\<lambda>_. demo_now + 1000) demo_held_db
      = Inr (Expired, d')"
proof -
  have "map_sum (\<lambda>e. e) (\<lambda>r. fst r = Expired)
      (decision_transaction demo_env (demo_dq ApprovalDecision.APPROVED) (\<lambda>_. demo_now + 1000) demo_held_db)
    = Inr True" by code_simp
  then show thesis by (rule committed_result) (use that in auto)
qed

text \<open>The approval, step by step: thirty million kobo earn six hundred thousand.\<close>

definition demo_rows :: receipt_rows where
  "demo_rows = \<lparr> rr_branch = hd (branches demo_db), rr_card = hd (cards demo_db), rr_customer = hd (customers demo_db),
     rr_device = Some (hd (devices demo_db)) \<rparr>"

abbreviation demo_claimed_db :: db where
  "demo_claimed_db \<equiv> demo_held_db\<lparr>idempotencyRecords :=
     [decision_pending (demo_dq ApprovalDecision.APPROVED) (demo_now + IDP_EXPIRY_MS)]\<rparr>"

lemma demo_approve_steps:
  "(case decide_row (demo_dq ApprovalDecision.APPROVED) ApprovalStatus.APPROVED demo_now demo_claimed_db of
      Inl e \<Rightarrow> False
    | Inr (u1, d1) \<Rightarrow>
   (case approve_credit demo_env (demo_dq ApprovalDecision.APPROVED) demo_approval demo_held_receipt 600000 d1 of
      Inl e \<Rightarrow> False
    | Inr (entry, d2) \<Rightarrow>
   (case approve_notify demo_env (demo_dq ApprovalDecision.APPROVED) demo_held_receipt demo_rows (le_id entry) 600000
        demo_now d2 of
      Inl e \<Rightarrow> False
    | Inr (u2, d3) \<Rightarrow>
   (case review_receipt (demo_dq ApprovalDecision.APPROVED) ''R'' True demo_now d3 of
      Inl e \<Rightarrow> False
    | Inr (u3, d4) \<Rightarrow>
   (case execute_row (demo_dq ApprovalDecision.APPROVED) demo_now d4 of
      Inl e \<Rightarrow> False
    | Inr (u4, d5) \<Rightarrow>
   (case decision_audit (demo_dq ApprovalDecision.APPROVED) ''approval.execute'' ''approval'' ''A''
        [(''executedAt'', json_date demo_now), (''ledgerEntryId'', JStr (le_id entry))] d5 of
      Inl e \<Rightarrow> False
    | Inr (u5, d6) \<Rightarrow> no_earn_entry (demo_dq ApprovalDecision.APPROVED) demo_held_receipt d1 = Inr ()))))))"
  by code_simp

lemma demo_approve_checks:
  "decision_approval (demo_dq ApprovalDecision.APPROVED) demo_claimed_db = Inr demo_approval"
  "receipt_target demo_approval demo_claimed_db = Inr (demo_held_receipt, demo_rows)"
  "approve_receipt_checks demo_env (demo_dq ApprovalDecision.APPROVED) demo_approval demo_held_receipt demo_rows = Inr ()"
  "calculateCreditKobo (js_Number (rc_purchaseAmountKobo demo_held_receipt)) demo_env None = Inr 600000"
  by code_simp+

lemma demo_approves:
  obtains r d' where "decision_transaction demo_env (demo_dq ApprovalDecision.APPROVED) (\<lambda>_. demo_now) demo_held_db
      = Inr (Decided r, d')"
proof -
  let ?dq = "demo_dq ApprovalDecision.APPROVED"
  have dq: "dq_approvalId ?dq = ''A''" "rc_id demo_held_receipt = ''R''" "dq_decision ?dq = ApprovalDecision.APPROVED"
    "ap_targetType demo_approval = ApprovalTargetType.EARN" "\<not> ap_expiresAt demo_approval \<le> demo_now"
    by (simp_all add: demo_dq_def demo_held_receipt_def demo_approval_def)
  have i: "idempotencyRecord_create (decision_pending ?dq (demo_now + IDP_EXPIRY_MS)) demo_held_db = Inr ((), demo_claimed_db)"
    by (simp add: idempotencyRecord_create_def demo_held_records)
  obtain u1 d1 entry d2 u2 d3 u3 d4 u4 d5 u5 d6 where
    s: "decide_row ?dq ApprovalStatus.APPROVED demo_now demo_claimed_db = Inr (u1, d1)"
    "approve_credit demo_env ?dq demo_approval demo_held_receipt 600000 d1 = Inr (entry, d2)"
    "approve_notify demo_env ?dq demo_held_receipt demo_rows (le_id entry) 600000 demo_now d2 = Inr (u2, d3)"
    "review_receipt ?dq ''R'' True demo_now d3 = Inr (u3, d4)" "execute_row ?dq demo_now d4 = Inr (u4, d5)"
    "decision_audit ?dq ''approval.execute'' ''approval'' ''A''
        [(''executedAt'', json_date demo_now), (''ledgerEntryId'', JStr (le_id entry))] d5 = Inr (u5, d6)"
    "no_earn_entry ?dq demo_held_receipt d1 = Inr ()"
    using demo_approve_steps by (elim succeeds_caseE) (rule that)
  have "\<exists>r. approve_receipt demo_env ?dq demo_approval demo_held_receipt demo_rows demo_now demo_claimed_db = Inr (Decided r, d6)"
    by (simp add: approve_receipt_def demo_approve_checks(3,4) dq(1,2) s)
  then show thesis
    using that by (auto simp: decision_transaction_def i demo_approve_checks(1,2) dq(3-5) decideReceiptApproval_def)
qed

text \<open>A held redemption of six hundred thousand kobo, more than the default threshold.\<close>

definition demo_rich_db :: db where
  "demo_rich_db = demo_db\<lparr>
     ledgerEntries := ledgerEntries demo_db @ [demo_entry ''e3'' 1000000],
     creditLots := creditLots demo_db @ [demo_lot ''l3'' ''e3'' 1000000 1740000000000],
     receipts := [demo_held_receipt\<lparr>rc_purchaseAmountKobo := 3000000\<rparr>],
     redemptions := [(demo_redemption ''Q'')\<lparr>rd_receiptId := ''R'', rd_status := RedemptionStatus.PENDING_APPROVAL,
       rd_requestedAmountKobo := 600000, rd_basketAmountKobo := 3000000, rd_branchId := ''B'',
       rd_policyVersion := redemption_policyVersion demo_env None\<rparr>],
     approvals := [demo_approval\<lparr>ap_receiptId := None, ap_redemptionId := Some ''Q'',
       ap_targetType := ApprovalTargetType.REDEEM, ap_policyVersion := redemption_policyVersion demo_env None\<rparr>]\<rparr>"

abbreviation demo_rich_claimed_db :: db where
  "demo_rich_claimed_db \<equiv> demo_rich_db\<lparr>idempotencyRecords :=
     [decision_pending (demo_dq ApprovalDecision.APPROVED) (demo_now + IDP_EXPIRY_MS)]\<rparr>"

lemma demo_redeem_checks:
  "decision_approval (demo_dq ApprovalDecision.APPROVED) demo_rich_claimed_db = Inr (hd (approvals demo_rich_db))"
  "redemption_target (hd (approvals demo_rich_db)) demo_rich_claimed_db
     = Inr (hd (redemptions demo_rich_db), hd (receipts demo_rich_db), demo_rows)"
  "approve_redemption_checks demo_env (demo_dq ApprovalDecision.APPROVED) (hd (approvals demo_rich_db))
     (hd (redemptions demo_rich_db)) (hd (receipts demo_rich_db)) demo_rows demo_now demo_rich_claimed_db = Inr None"
  by code_simp+

lemma demo_redeem_steps:
  "(case decide_row (demo_dq ApprovalDecision.APPROVED) ApprovalStatus.APPROVED demo_now demo_rich_claimed_db of
      Inl e \<Rightarrow> False
    | Inr (u1, d1) \<Rightarrow>
   (case executeRedemptionSettlement demo_env (approval_settlement_input demo_env (demo_dq ApprovalDecision.APPROVED)
        (hd (approvals demo_rich_db)) (hd (redemptions demo_rich_db)) (hd (receipts demo_rich_db)) demo_rows None
        demo_now) d1 of
      Inl e \<Rightarrow> False
    | Inr (settlement, d2) \<Rightarrow>
   (case review_receipt (demo_dq ApprovalDecision.APPROVED) ''R'' True demo_now d2 of
      Inl e \<Rightarrow> False
    | Inr (u3, d3) \<Rightarrow>
   (case execute_row (demo_dq ApprovalDecision.APPROVED) demo_now d3 of
      Inl e \<Rightarrow> False
    | Inr (u4, d4) \<Rightarrow> True))))"
  by code_simp

lemma demo_redeem_approves:
  obtains r d' where "decision_transaction demo_env (demo_dq ApprovalDecision.APPROVED) (\<lambda>_. demo_now) demo_rich_db
      = Inr (Decided r, d')"
proof -
  let ?dq = "demo_dq ApprovalDecision.APPROVED" and ?a = "hd (approvals demo_rich_db)"
    and ?rd = "hd (redemptions demo_rich_db)" and ?rc = "hd (receipts demo_rich_db)"
  have dq: "rc_id ?rc = ''R''" "dq_decision ?dq = ApprovalDecision.APPROVED"
    "ap_targetType ?a = ApprovalTargetType.REDEEM" "\<not> ap_expiresAt ?a \<le> demo_now"
    by (simp_all add: demo_dq_def demo_rich_db_def demo_held_receipt_def demo_approval_def)
  have i: "idempotencyRecord_create (decision_pending ?dq (demo_now + IDP_EXPIRY_MS)) demo_rich_db = Inr ((), demo_rich_claimed_db)"
    by (simp add: idempotencyRecord_create_def demo_rich_db_def demo_db_def)
  obtain u1 d1 settlement d2 u3 d3 u4 d4 where
    s: "decide_row ?dq ApprovalStatus.APPROVED demo_now demo_rich_claimed_db = Inr (u1, d1)"
    "executeRedemptionSettlement demo_env (approval_settlement_input demo_env ?dq ?a ?rd ?rc demo_rows None demo_now) d1
       = Inr (settlement, d2)"
    "review_receipt ?dq ''R'' True demo_now d2 = Inr (u3, d3)" "execute_row ?dq demo_now d3 = Inr (u4, d4)"
    using demo_redeem_steps by (elim succeeds_caseE) (rule that)
  then have "\<exists>r d'. approve_redemption demo_env ?dq ?a ?rd ?rc demo_rows demo_now demo_rich_claimed_db = Inr (Decided r, d')"
    by (simp add: approve_redemption_def demo_redeem_checks(3) dq(1) decision_audit_def recordWithClient_def auditLog_create_def)
  then show thesis
    using that by (auto simp: decision_transaction_def i demo_redeem_checks(1,2) dq(2-4) decideRedemptionApproval_def)
qed

lemma demo_decide_rejects:
  obtains r d' where "demo_decide ApprovalDecision.REJECTED (\<lambda>_. demo_now) demo_held_db = (Inr r, d')"
    and "map ap_status (approvals d') = [ApprovalStatus.REJECTED]"
    and "\<forall>x\<in>set (idempotencyRecords d'). demo_now < idr_expiresAt x"
proof -
  let ?dq = "demo_dq ApprovalDecision.REJECTED"
  obtain r d2 where t: "decision_transaction demo_env ?dq (\<lambda>_. demo_now) demo_held_db = Inr (Decided r, d2)"
    and a: "map ap_status (approvals d2) = [ApprovalStatus.REJECTED]" by (rule demo_rejects)
  have i: "idempotencyRecords d2 = [decision_pending ?dq (demo_now + IDP_EXPIRY_MS)]"
    using decision_transaction_record(2)[OF t] by (simp add: demo_held_records)
  define d' where "d' = d2\<lparr>idempotencyRecords := updated
      (is_record (dq_tenantId ?dq) (actor_id (dq_actor ?dq)) APPROVAL_ENDPOINT (dq_key ?dq))
      (\<lambda>x. x\<lparr>idr_status := IdempotencyRecordStatus.COMPLETED, idr_responseJson := Some r\<rparr>) (idempotencyRecords d2)\<rparr>"
  have "store_decision ?dq r d2 = Inr ((), d')"
    by (simp add: store_decision_def require_updated_def tx_bind_def idempotencyRecord_updateMany_def tx_unless_def
        d'_def i count_where_def is_record_def decision_pending_def)
  moreover have "decision_record ?dq demo_held_db = None" "dq_reason ?dq \<noteq> []"
    by (simp_all add: decision_record_def idempotencyRecord_findUnique_def demo_held_records demo_dq_def)
  ultimately have "demo_decide ApprovalDecision.REJECTED (\<lambda>_. demo_now) demo_held_db = (Inr r, d')"
    by (simp add: decideApproval_def demo_decision_prepare findApprovalIdempotency_unexpired demo_held_records
        run_transaction_alone t)
  moreover have "\<forall>x\<in>set (idempotencyRecords d'). demo_now < idr_expiresAt x"
    by (simp add: d'_def i updated_def decision_pending_def IDP_EXPIRY_MS_def)
  moreover have "map ap_status (approvals d') = [ApprovalStatus.REJECTED]" using a by (simp add: d'_def)
  ultimately show thesis by (intro that)
qed

theorem decision_four_eyes_witness:
  "\<exists>r d'. decision_transaction demo_env (demo_dq ApprovalDecision.REJECTED) (\<lambda>_. demo_now) demo_held_db = Inr (Decided r, d')
     \<and> money_view d' = money_view demo_held_db"
proof -
  obtain r d' where t: "decision_transaction demo_env (demo_dq ApprovalDecision.REJECTED) (\<lambda>_. demo_now) demo_held_db
      = Inr (Decided r, d')" by (rule demo_rejects)
  from decision_four_eyes[OF t demo_held_distinct] t show ?thesis by (auto simp: demo_dq_def)
qed


theorem decideApproval_expired_key_witness:
  "\<exists>d'. demo_decide ApprovalDecision.APPROVED (\<lambda>_. demo_now + 1000) demo_held_db = (Inl approval_expired, d')
     \<and> demo_decide ApprovalDecision.APPROVED (\<lambda>_. demo_now + 2000) d' = (Inl idempotency_conflict, d')"
proof -
  let ?dq = "demo_dq ApprovalDecision.APPROVED"
  obtain d' where t: "decision_transaction demo_env ?dq (\<lambda>_. demo_now + 1000) demo_held_db = Inr (Expired, d')"
    by (rule demo_expires)
  have i: "idempotencyRecords d' = [decision_pending ?dq (demo_now + 1000 + IDP_EXPIRY_MS)]"
    using decision_transaction_record(2)[OF t] by (simp add: demo_held_records)
  have "dq_reason ?dq \<noteq> []" by (simp add: demo_dq_def)
  moreover have "decision_record ?dq demo_held_db = None"
    by (simp add: decision_record_def idempotencyRecord_findUnique_def demo_held_records)
  moreover have "\<forall>x\<in>set (idempotencyRecords d'). demo_now + 2000 < idr_expiresAt x"
    by (simp add: i decision_pending_def IDP_EXPIRY_MS_def)
  ultimately show ?thesis
    using decideApproval_expired_key[OF demo_decision_prepare _ _ _ t, of "\<lambda>_. demo_now + 2000" alone "\<lambda>_ d. d"]
    by (auto simp: demo_held_records)
qed

theorem decideApproval_idempotent_witness:
  "\<exists>r d'. demo_decide ApprovalDecision.REJECTED (\<lambda>_. demo_now) demo_held_db = (Inr r, d')
     \<and> demo_decide ApprovalDecision.REJECTED (\<lambda>_. demo_now) d' = (Inr r, d')"
proof -
  obtain r d' where c: "demo_decide ApprovalDecision.REJECTED (\<lambda>_. demo_now) demo_held_db = (Inr r, d')"
    and x: "\<forall>x\<in>set (idempotencyRecords d'). demo_now < idr_expiresAt x" by (rule demo_decide_rejects)
  from decideApproval_idempotent[OF c, of "[(alone, \<lambda>_ d. d, \<lambda>_. demo_now)]"] x c show ?thesis
    by (auto split: prod.splits)
qed

theorem executed_redemption_above_default_threshold_witness:
  "(\<exists>r d'. decision_transaction demo_env (demo_dq ApprovalDecision.APPROVED) (\<lambda>_. demo_now) demo_rich_db = Inr (Decided r, d'))
   \<and> (\<exists>rd\<in>set (redemptions demo_rich_db). rd_id rd = ''Q''
        \<and> config_or demo_env ''REDEMPTION_APPROVAL_THRESHOLD_KOBO'' 500000 < rd_requestedAmountKobo rd)"
proof -
  obtain r d' where t: "decision_transaction demo_env (demo_dq ApprovalDecision.APPROVED) (\<lambda>_. demo_now) demo_rich_db
      = Inr (Decided r, d')" by (rule demo_redeem_approves)
  have e: "dq_decision (demo_dq ApprovalDecision.APPROVED) = ApprovalDecision.APPROVED"
    "distinct (map ap_id (approvals demo_rich_db))" "hd (approvals demo_rich_db) \<in> set (approvals demo_rich_db)"
    "ap_id (hd (approvals demo_rich_db)) = dq_approvalId (demo_dq ApprovalDecision.APPROVED)"
    "ap_targetType (hd (approvals demo_rich_db)) = ApprovalTargetType.REDEEM"
    by (simp_all add: demo_dq_def demo_rich_db_def demo_approval_def)
  from executed_redemption_above_default_threshold[OF t e] t show ?thesis
    by (auto simp: demo_rich_db_def demo_redemption_def)
qed

end
