(* ===== verification/System.thy ===== *)
theory System
  imports Reversals Approvals
begin

text \<open>
  The services together. \<open>ledger_extends\<close> says that the ledger is a journal: entries are appended,
  never changed, and each refers to an entry no other entry refers to. The first part shows it,
  \<open>approvals_follow\<close> and \<open>evidence_kept\<close> for the transaction body of every service; the second lets the
  services run side by side, as the steps of one relation in which the sessions a call races with
  are steps themselves.
\<close>

subsection \<open>The ledger as a journal\<close>

definition reversed_ids :: "LoyaltyLedgerEntry list \<Rightarrow> string list" where
  "reversed_ids es = map (\<lambda>e. the (le_reversesEntryId e)) (filter (\<lambda>e. le_reversesEntryId e \<noteq> None) es)"

lemma reversed_ids_distinct:
  assumes "distinct (reversed_ids es)" and "i < j" and "j < length es" and "le_reversesEntryId (es ! i) \<noteq> None"
  shows "le_reversesEntryId (es ! i) \<noteq> le_reversesEntryId (es ! j)"
  using assms
proof (induction es arbitrary: i j)
  case (Cons e es)
  show ?case
  proof (cases i)
    case 0
    with Cons.prems obtain x where x: "le_reversesEntryId e = Some x" and d: "x \<notin> set (reversed_ids es)"
      by (auto simp: reversed_ids_def)
    have "e' \<in> set es \<Longrightarrow> le_reversesEntryId e' \<noteq> Some x" for e'
      using d by (force simp: reversed_ids_def)
    moreover have "(e # es) ! j \<in> set es" using 0 Cons.prems by (cases j) auto
    ultimately show ?thesis using 0 x by (metis nth_Cons_0)
  next
    case (Suc i')
    with Cons.prems obtain j' where "j = Suc j'" by (cases j) auto
    with Suc Cons.prems Cons.IH[of i' j'] show ?thesis by (auto simp: reversed_ids_def split: if_split_asm)
  qed
qed simp

definition ledger_unique :: "LoyaltyLedgerEntry list \<Rightarrow> bool" where
  "ledger_unique es = (distinct (map le_id es) \<and> distinct (map le_correlationId es) \<and> distinct (reversed_ids es))"

definition ledger_extends :: "db \<Rightarrow> db \<Rightarrow> bool" where
  "ledger_extends d d' = ((\<exists>new. ledgerEntries d' = ledgerEntries d @ new)
     \<and> (ledger_unique (ledgerEntries d) \<longrightarrow> ledger_unique (ledgerEntries d')))"

interpretation journal: tx_order ledger_extends
  by unfold_locales (auto simp: ledger_extends_def)

interpretation journal_inv: session_invariant "ledger_extends d0" for d0
  by unfold_locales (simp_all add: ledger_extends_def)

lemma ledger_extends_same: "ledgerEntries d' = ledgerEntries d \<Longrightarrow> ledger_extends d d'"
  by (simp add: ledger_extends_def)

lemmas ledger_extends_frame = journal.rel_frame[OF _ ledger_extends_same]

lemma extends_keeps: "tx_rel ledger_extends m \<Longrightarrow> tx_keeps (ledger_extends d0) m"
  by (auto simp: tx_keeps_def tx_spec_def tx_rel_def intro: journal.R_trans)

lemma loyaltyLedgerEntry_create_extends: "tx_rel ledger_extends (loyaltyLedgerEntry_create env mk)"
  by (auto simp: tx_rel_def ledger_extends_def loyaltyLedgerEntry_create_def create_row_eq_Inr ledger_unique_def
      reversed_ids_def first_violation_None loyaltyLedgerEntry_constraints_def list_ex_iff same_key_def
      split: if_split_asm)

lemma journal_frames:
  "tx_frame ledgerEntries (redeem_rows env rq cx pol a b now)"
  "tx_frame ledgerEntries (redeem_hold env rq cx pol a b now rc rd)"
  "tx_frame ledgerEntries (redeem_finish rq ac i resp now)"
  "tx_frame ledgerEntries (outboxEvent_create env mko)"
  "tx_frame ledgerEntries (redemption_confirm t r l x now)"
  "tx_frame ledgerEntries (allocateDebit env input)"
  "tx_frame ledgerEntries (creditLot_create env mkl)"
  "tx_frame ledgerEntries (settle_notify env si e ee np ek rem)"
  "tx_frame ledgerEntries (earn_receipt env eq cx cs rco now)"
  "tx_frame ledgerEntries (earn_hold env eq plan cx rc rco now)"
  "tx_frame ledgerEntries (earn_notify env eq cx rc e c now)"
  "tx_frame ledgerEntries (earn_finish eq ac i respl extra now)"
  "tx_frame ledgerEntries (recordWithClient t ai ac et ei m)"
  by (intro frame_intros; simp)+

lemma journal_frames2:
  "tx_frame ledgerEntries (adjustment_create env mka)"
  "tx_frame ledgerEntries (adjustment_notify env aq customer e ai rem now)"
  "tx_frame ledgerEntries (idempotencyRecord_create row)"
  "tx_frame ledgerEntries (persistAdjustmentIdempotency aq resp now)"
  "tx_frame ledgerEntries (creditExpiry_create env mke)"
  "tx_frame ledgerEntries (decrement_lot t c i v)"
  "tx_frame ledgerEntries (getOrCreate env t)"
  "tx_frame ledgerEntries (decide_row dq s now)" "tx_frame ledgerEntries (execute_row dq now)"
  "tx_frame ledgerEntries (review_receipt dq i b now)" "tx_frame ledgerEntries (decision_audit dq ac et ei x)"
  "tx_frame ledgerEntries (approve_notify env dq rc rr e cr now)"
  "tx_frame ledgerEntries (reject_receipt dq i now)" "tx_frame ledgerEntries (reject_redemption dq rd rc now)"
  "tx_frame ledgerEntries (decision_expire dq a now)" "tx_frame ledgerEntries (expireApproval ax now act by)"
  by (intro frame_intros; simp)+

lemmas journal_leaves = journal_frames[THEN ledger_extends_frame] journal_frames2[THEN ledger_extends_frame]
  loyaltyLedgerEntry_create_extends

lemma executeRedemptionSettlement_extends: "tx_rel ledger_extends (executeRedemptionSettlement env i)"
  unfolding executeRedemptionSettlement_def settle_debit_def settle_earn_def Let_def
  by (intro journal.rel_intros journal_leaves)

lemma redeem_execute_bind:
  "redeem_execute env rq cx a b now =
     tx_bind (tx_check (redeem_evaluate env rq cx a b now)) (\<lambda>pol.
     tx_bind (redeem_rows env rq cx pol a b now) (\<lambda>(receipt, redemption).
       if rpol_requiresApproval pol then redeem_hold env rq cx pol a b now receipt redemption
       else redeem_settle env rq cx pol a b now receipt redemption))"
  by (simp add: fun_eq_iff redeem_execute_def tx_bind_def[of "tx_check _"] tx_check_def split: sum.split)

lemma redeem_execute_extends: "tx_rel ledger_extends (redeem_execute env rq cx a b now)"
  unfolding redeem_execute_bind redeem_settle_def
  by (intro journal.rel_intros journal_leaves executeRedemptionSettlement_extends)

lemma earn_execute_extends: "tx_rel ledger_extends (earn_execute env eq plan cx now)"
  unfolding earn_execute_def earn_confirm_def earn_credit_def
  by (intro journal.rel_intros journal_leaves)

lemma adjustment_transaction_extends: "tx_rel ledger_extends (adjustment_transaction env aq t)"
  unfolding adjustment_transaction_def adjustment_credit_def adjustment_debit_def adjustment_rows_def
  by (cases "aq_kind aq"; simp only: AdjustmentKind.case; intro journal.rel_intros journal_leaves)

lemma expire_lots_extends: "tx_rel ledger_extends (expire_lots env lots actors n acc)"
proof (induction lots arbitrary: actors n acc)
  case (Cons lot lots)
  show ?case
    unfolding expire_lots.simps expire_lot_def Let_def
    by (cases "actors (lot_tenantId lot)"; simp only: option.case; intro journal.rel_intros journal_leaves Cons.IH)
qed (simp add: journal.rel_simple)

lemma expire_batch_extends: "tx_rel ledger_extends (expire_batch env locked now n)"
  unfolding expire_batch_def by (intro journal.rel_intros expire_lots_extends)

lemma decision_transaction_extends: "tx_rel ledger_extends (decision_transaction env dq clk)"
  unfolding decision_transaction_def decideRedemptionApproval_def decideReceiptApproval_def
    approve_receipt_def approve_redemption_def approve_credit_def
  by (intro journal.rel_intros journal_leaves executeRedemptionSettlement_extends)

lemma expireOverdueApprovals_extends: "tx_rel ledger_extends (expireOverdueApprovals locked n now)"
  unfolding expireOverdueApprovals_def by (intro journal.rel_intros journal_leaves)

lemma journal_frames3:
  "tx_frame ledgerEntries (reverse_claim rv now)" "tx_frame ledgerEntries (persistReverseIdempotency rv resp now)"
  "tx_frame ledgerEntries (allocateDebitFromExactLot env input)"
  "tx_frame ledgerEntries (put_back_one env msg t c e r)" "tx_frame ledgerEntries (redemption_reversed rv e now)"
  "tx_frame ledgerEntries (reverse_finish env rv og cu rc e amount aj rj now nowMs)"
  "tx_frame ledgerEntries (pair_finish env rv ri e0 pair plan e1 e2 pas now nowMs)"
  by (intro frame_intros; simp)+

lemmas reverse_leaves = journal_leaves journal_frames3[THEN ledger_extends_frame]

lemma reverse_entry_extends: "tx_rel ledger_extends (reverse_entry env rv og c now nowMs)"
  unfolding reverse_entry_def reverse_earn_def reverse_adjustment_credit_def reverse_redeem_def
    reverse_adjustment_debit_def reverse_credit_def reverse_debit_def take_back_def put_back_def Let_def
  by (auto split: LedgerEntryType.split LedgerEntryDirection.split option.split
      intro!: journal.rel_intros reverse_leaves)

lemma reversePairedSettlement_extends:
  "tx_rel ledger_extends (reversePairedSettlement env rv e0 r entries existing now nowMs)"
  unfolding reversePairedSettlement_def pair_writes_def pair_moves_def take_back_def put_back_def Let_def
  by (auto split: option.split intro!: journal.rel_intros reverse_leaves)

lemma reverse_transaction_extends: "tx_rel ledger_extends (reverse_transaction env rv t)"
  unfolding reverse_transaction_def reverse_single_def
  by (auto split: option.split
      intro!: journal.rel_intros reverse_leaves reverse_entry_extends reversePairedSettlement_extends)

subsection \<open>The evidence in every service\<close>

lemma evidence_frames:
  "tx_frame evidence_view (redeem_rows env rq cx pol a b now)"
  "tx_frame evidence_view (redeem_hold env rq cx pol a b now rc rd)"
  "tx_frame evidence_view (redeem_finish rq ac i resp now)"
  "tx_frame evidence_view (outboxEvent_create env mko)"
  "tx_frame evidence_view (redemption_confirm t r l x now)"
  "tx_frame evidence_view (loyaltyLedgerEntry_create env mkl)"
  "tx_frame evidence_view (settle_notify env si e ee np ek rem)"
  "tx_frame evidence_view (earn_receipt env eq cx cs rco now)"
  "tx_frame evidence_view (earn_hold env eq plan cx rc rco now)"
  "tx_frame evidence_view (earn_notify env eq cx rc e c now)"
  "tx_frame evidence_view (earn_finish eq ac i respl extra now)"
  "tx_frame evidence_view (recordWithClient t ai ac et ei m)"
  by (intro frame_intros; simp)+

lemma evidence_frames2:
  "tx_frame evidence_view (adjustment_create env mka)"
  "tx_frame evidence_view (adjustment_notify env aq customer e ai rem now)"
  "tx_frame evidence_view (idempotencyRecord_create row)"
  "tx_frame evidence_view (persistAdjustmentIdempotency aq resp now)"
  "tx_frame evidence_view (decide_row dq s now)" "tx_frame evidence_view (execute_row dq now)"
  "tx_frame evidence_view (review_receipt dq i b now)" "tx_frame evidence_view (decision_audit dq ac et ei x)"
  "tx_frame evidence_view (approve_notify env dq rc rr e cr now)"
  "tx_frame evidence_view (reject_receipt dq i now)" "tx_frame evidence_view (reject_redemption dq rd rc now)"
  "tx_frame evidence_view (decision_expire dq a now)" "tx_frame evidence_view (expireApproval ax now act by)"
  by (intro frame_intros; simp)+

lemmas evidence_leaves = evidence_frames[THEN evidence_kept_frame] evidence_frames2[THEN evidence_kept_frame]
  allocateDebit_evidence creditLot_create_evidenced

lemma executeRedemptionSettlement_evidence: "tx_rel evidence_kept (executeRedemptionSettlement env i)"
  unfolding executeRedemptionSettlement_def settle_debit_def settle_earn_def Let_def
  by (intro evidence.rel_intros evidence_leaves) simp_all

lemma redeem_execute_evidence: "tx_rel evidence_kept (redeem_execute env rq cx a b now)"
  unfolding redeem_execute_bind redeem_settle_def
  by (intro evidence.rel_intros evidence_leaves executeRedemptionSettlement_evidence)

lemma earn_execute_evidence: "tx_rel evidence_kept (earn_execute env eq plan cx now)"
  unfolding earn_execute_def earn_confirm_def earn_credit_def
  by (intro evidence.rel_intros evidence_leaves) simp_all

lemma adjustment_transaction_evidence: "tx_rel evidence_kept (adjustment_transaction env aq t)"
  unfolding adjustment_transaction_def adjustment_credit_def adjustment_debit_def adjustment_rows_def
  by (cases "aq_kind aq"; simp only: AdjustmentKind.case; intro evidence.rel_intros evidence_leaves) simp_all

lemma decision_transaction_evidence: "tx_rel evidence_kept (decision_transaction env dq clk)"
  unfolding decision_transaction_def decideRedemptionApproval_def decideReceiptApproval_def
    approve_receipt_def approve_redemption_def approve_credit_def
  by (intro evidence.rel_intros evidence_leaves executeRedemptionSettlement_evidence) simp_all

lemma expireOverdueApprovals_evidence: "tx_rel evidence_kept (expireOverdueApprovals locked n now)"
  unfolding expireOverdueApprovals_def by (intro evidence.rel_intros evidence_leaves)

subsection \<open>The approvals in every service\<close>

lemma approvals_frames:
  "tx_frame approvals (redeem_rows env rq cx pol a b now)" "tx_frame approvals (redeem_finish rq ac i resp now)"
  "tx_frame approvals (outboxEvent_create env mko)" "tx_frame approvals (executeRedemptionSettlement env si)"
  "tx_frame approvals (earn_receipt env eq cx cs rco now)" "tx_frame approvals (earn_notify env eq cx rc e c now)"
  "tx_frame approvals (earn_finish eq ac i respl extra now)" "tx_frame approvals (recordWithClient t ai ac et ei m)"
  "tx_frame approvals (earn_credit env eq cx rc c)"
  by (rule executeRedemptionSettlement_approvals | (unfold earn_credit_def)?, intro frame_intros; simp)+

lemma adjustment_transaction_follows: "tx_rel approvals_follow (adjustment_transaction env aq t)"
  unfolding adjustment_transaction_def adjustment_credit_def adjustment_debit_def adjustment_rows_def
  by (rule approvals_follow_frame, cases "aq_kind aq"; simp only: AdjustmentKind.case; intro frame_intros; simp)

lemma expire_lots_approvals: "tx_frame approvals (expire_lots env lots actors n acc)"
proof (induction lots arbitrary: actors n acc)
  case (Cons lot lots)
  have "tx_frame approvals (expire_lot env a lot)" for a
    unfolding expire_lot_def Let_def by (intro frame_intros; simp)
  with Cons.IH show ?case
    unfolding expire_lots.simps by (intro frame_intros; simp)
qed (simp add: tx_frame_simple)

lemma expire_batch_follows: "tx_rel approvals_follow (expire_batch env locked now n)"
  unfolding expire_batch_def by (intro follow.rel_intros approvals_follow_frame[OF expire_lots_approvals])

lemmas follow_leaves = approvals_frames[THEN approvals_follow_frame] approval_create_follows

lemma redeem_execute_follows: "tx_rel approvals_follow (redeem_execute env rq cx a b now)"
  unfolding redeem_execute_bind redeem_settle_def redeem_hold_def by (intro follow.rel_intros follow_leaves)

lemma earn_execute_follows: "tx_rel approvals_follow (earn_execute env eq plan cx now)"
  unfolding earn_execute_def earn_confirm_def earn_hold_def by (intro follow.rel_intros follow_leaves)

lemma expireOverdueApprovals_follows: "tx_rel approvals_follow (expireOverdueApprovals locked n now)"
  unfolding expireOverdueApprovals_def by (intro follow.rel_intros expireApproval_rel)

lemma reverse_transaction_follows: "tx_rel approvals_follow (reverse_transaction env rv t)"
  by (rule approvals_follow_frame) (rule reverse_transaction_approvals)

subsection \<open>The services side by side\<close>

text \<open>
  The tables of money: what the services for customers, cards, policies and reminders leave alone.
\<close>

definition financial :: "db \<Rightarrow> Receipt list \<times> LoyaltyLedgerEntry list \<times> CreditLot list \<times> CreditExpiry list \<times> Redemption list
    \<times> RedemptionAllocation list \<times> AllocationRestoration list \<times> Adjustment list \<times> Approval list" where
  "financial d = (receipts d, ledgerEntries d, creditLots d, creditExpiries d, redemptions d, redemptionAllocations d,
     allocationRestorations d, adjustments d, approvals d)"

text \<open>
  A step is one call of a service, with whatever clock readings, arguments and answers of the lock
  manager, a run of a worker, or any change that leaves the tables of money alone. What the sessions it
  races with commit in its gaps is again made of steps.
\<close>

definition session_steps ::
  "(db \<Rightarrow> db \<Rightarrow> bool) \<Rightarrow> (nat \<Rightarrow> db \<Rightarrow> db \<times> svc_error option) \<Rightarrow> (nat \<Rightarrow> db \<Rightarrow> db) \<Rightarrow> bool" where
  "session_steps R sched others = ((\<forall>k t. R\<^sup>*\<^sup>* t (fst (sched k t))) \<and> (\<forall>k t. R\<^sup>*\<^sup>* t (others k t)))"

lemma session_steps_mono [mono]:
  assumes "\<And>x y. R x y \<longrightarrow> S x y"
  shows "session_steps R sched others \<longrightarrow> session_steps S sched others"
proof -
  have "R\<^sup>*\<^sup>* t u \<Longrightarrow> S\<^sup>*\<^sup>* t u" for t u
    by (rule rtranclp_mono[THEN predicate2D]) (use assms in auto)
  then show ?thesis by (simp add: session_steps_def)
qed

lemma session_steps_alone: "session_steps R alone (\<lambda>_ d. d)"
  by (simp add: session_steps_def alone_def)

inductive system_step :: "env \<Rightarrow> db \<Rightarrow> db \<Rightarrow> bool" for env where
  redeem: "session_steps (system_step env) sched others \<Longrightarrow>
    system_step env d (snd (redeem env sched others clk tenantId actor key dto d))"
| earn: "session_steps (system_step env) sched others \<Longrightarrow>
    system_step env d (snd (earn env sched others clk tenantId actor key edto d))"
| createAdjustment: "session_steps (system_step env) sched others \<Longrightarrow>
    system_step env d (snd (createAdjustment env sched others clk tenantId actor key adto d))"
| decideApproval: "session_steps (system_step env) sched others \<Longrightarrow>
    system_step env d (snd (decideApproval env sched others clk tenantId actor approvalId decision reason key d))"
| approveReceipt: "session_steps (system_step env) sched others \<Longrightarrow>
    system_step env d (snd (approveReceipt env sched others clk tenantId actor receiptId key d))"
| rejectReceipt: "session_steps (system_step env) sched others \<Longrightarrow>
    system_step env d (snd (rejectReceipt env sched others clk tenantId actor receiptId key d))"
| reverse: "session_steps (system_step env) sched (\<lambda>_ d. d) \<Longrightarrow>
    system_step env d (snd (reverse env sched clk tenantId actor transactionId key reason d))"
| expireDueCredit: "session_steps (system_step env) sched (\<lambda>_ d. d) \<Longrightarrow>
    system_step env d (snd (expireDueCredit env sched locked now batchSize d))"
| expireOverdueApprovals: "session_steps (system_step env) sched (\<lambda>_ d. d) \<Longrightarrow>
    system_step env d (snd (run_transaction sched 1 (expireOverdueApprovals locked n now) d))"
| administration: "financial d' = financial d \<Longrightarrow> system_step env d d'"

text \<open>
  The interface the whole system is proved against: a property the bodies of the services keep is
  kept by every run of the system.
\<close>

locale system_invariant = session_invariant P for P +
  fixes env :: env
  assumes redeem_body: "\<And>rq cx a b now. tx_keeps P (redeem_execute env rq cx a b now)"
    and earn_body: "\<And>eq plan cx now. tx_keeps P (earn_execute env eq plan cx now)"
    and adjustment_body: "\<And>aq t. 0 < aq_amountKobo aq \<Longrightarrow> tx_keeps P (adjustment_transaction env aq t)"
    and reverse_body: "\<And>rv t. tx_keeps P (reverse_transaction env rv t)"
    and expiry_body: "\<And>locked now n. tx_keeps P (expire_batch env locked now n)"
    and decision_body: "\<And>dq clk. tx_keeps P (decision_transaction env dq clk)"
    and overdue_body: "\<And>locked n now. tx_keeps P (expireOverdueApprovals locked n now)"
    and P_financial: "financial d' = financial d \<Longrightarrow> P d \<Longrightarrow> P d'"
begin

lemma session_steps_keep:
  assumes "session_steps (\<lambda>x y. system_step env x y \<and> (P x \<longrightarrow> P y)) sched others"
  shows "session_keeps P sched others"
proof -
  have "P x \<Longrightarrow> P y" if "(\<lambda>x y. system_step env x y \<and> (P x \<longrightarrow> P y))\<^sup>*\<^sup>* x y" for x y
    using that by (induction rule: rtranclp_induct) auto
  with assms show ?thesis unfolding session_steps_def session_keeps_def by blast
qed

lemma step_keeps: "system_step env d d' \<Longrightarrow> P d \<Longrightarrow> P d'"
proof (induction rule: system_step.induct)
  case (redeem sched others)
  show ?case by (rule redeem_invariant[OF redeem(2) session_invariant_axioms session_steps_keep[OF redeem(1)] redeem_body])
next
  case (earn sched others)
  show ?case by (rule earn_keeps[OF earn(2) session_steps_keep[OF earn(1)] earn_body])
next
  case (createAdjustment sched others)
  show ?case
    by (rule createAdjustment_keeps[OF createAdjustment(2) session_steps_keep[OF createAdjustment(1)] adjustment_body])
next
  case (decideApproval sched others)
  show ?case by (rule decideApproval_keeps[OF decideApproval(2) session_steps_keep[OF decideApproval(1)] decision_body])
next
  case (approveReceipt sched others)
  show ?case
    using approveReceipt(2) decideApproval_keeps[OF approveReceipt(2) session_steps_keep[OF approveReceipt(1)] decision_body]
    by (simp add: approveReceipt_def split: option.split)
next
  case (rejectReceipt sched others)
  show ?case
    using rejectReceipt(2) decideApproval_keeps[OF rejectReceipt(2) session_steps_keep[OF rejectReceipt(1)] decision_body]
    by (simp add: rejectReceipt_def split: option.split)
next
  case (reverse sched)
  show ?case by (rule reverse_keeps[OF reverse(2) session_steps_keep[OF reverse(1)] reverse_body])
next
  case (expireDueCredit sched)
  show ?case
    by (rule expireDueCredit_keeps[OF expireDueCredit(2) session_invariant_axioms
          session_steps_keep[OF expireDueCredit(1)] expiry_body])
next
  case (expireOverdueApprovals sched d locked n now)
  show ?case
    by (rule run_transaction_keeps[OF expireOverdueApprovals(2) session_steps_keep[OF expireOverdueApprovals(1)]
        overdue_body prod.collapse[symmetric]])
next
  case (administration d' d)
  then show ?case by (blast intro: P_financial)
qed

lemma run_keeps: "(system_step env)\<^sup>*\<^sup>* d d' \<Longrightarrow> P d \<Longrightarrow> P d'"
  by (induction rule: rtranclp_induct) (auto intro: step_keeps)

end

text \<open>
  The accounts and the evidence of the lots together: a reversal puts back what the evidence says is
  missing, so it keeps the lots within their bounds because the evidence is right.
\<close>

definition sound_at :: "(account \<Rightarrow> int) \<Rightarrow> db \<Rightarrow> bool" where
  "sound_at f d = (money_at f d \<and> lots_evidenced d)"

lemma sound_keeps:
  "(\<And>s x s'. money_at f s \<Longrightarrow> m s = Inr (x, s') \<Longrightarrow> money_at f s') \<Longrightarrow> tx_rel evidence_kept m \<Longrightarrow> tx_keeps (sound_at f) m"
  by (auto simp: tx_keeps_def tx_spec_def tx_rel_def evidence_kept_def sound_at_def)

lemma reverse_transaction_sound: "tx_keeps (sound_at f) (reverse_transaction env rv t)"
  unfolding tx_keeps_def
proof (rule tx_specI)
  fix s x s'
  assume "sound_at f s" and "reverse_transaction env rv t s = Inr (x, s')"
  with tx_relD[OF reverse_transaction_moves] show "sound_at f s'"
    by (auto simp: sound_at_def money_at_def moves_credit_def)
qed

lemma sound_financial: "financial d' = financial d \<Longrightarrow> sound_at f d \<Longrightarrow> sound_at f d'"
  using money_at_view[of d' d f] lots_evidenced_view[of d' d] by (simp add: sound_at_def financial_def)

interpretation sound_system: system_invariant "sound_at f" env for f env
proof unfold_locales
  show "tx_keeps (sound_at f) (reverse_transaction env rv t)" for rv t by (rule reverse_transaction_sound)
  show "sound_at f d'" if "financial d' = financial d" "sound_at f d" for d d' using that by (rule sound_financial)
  show "tx_keeps (sound_at f) (expireOverdueApprovals locked n now)" for locked n now
  proof (rule sound_keeps[OF _ expireOverdueApprovals_evidence])
    fix s x s'
    assume "money_at f s" and "expireOverdueApprovals locked n now s = Inr (x, s')"
    then show "money_at f s'"
      by (rule money_at_frameD) (unfold expireOverdueApprovals_def, intro frame_intros; simp)
  qed
qed (auto simp: sound_at_def money_inv.P_idempotency money_inv.P_audit money_inv.P_outbox
    evidence_inv.P_idempotency evidence_inv.P_audit evidence_inv.P_outbox
    intro!: sound_keeps redeem_execute_evidence earn_execute_evidence adjustment_transaction_evidence
      expire_batch_evidence decision_transaction_evidence
    dest: redeem_execute_money earn_execute_effect(1)
    adjustment_transaction_effect(1) expire_batch_effect(1) money_keptD[OF decision_transaction_money])

interpretation journal_system: system_invariant "ledger_extends d0" env for d0 env
  by unfold_locales (intro extends_keeps redeem_execute_extends earn_execute_extends adjustment_transaction_extends
      expire_batch_extends decision_transaction_extends expireOverdueApprovals_extends reverse_transaction_extends
    | simp add: financial_def ledger_extends_def)+

interpretation approvals_system: system_invariant "approvals_follow d0" env for d0 env
  by unfold_locales (rule follows_keeps, rule redeem_execute_follows earn_execute_follows
      adjustment_transaction_follows expire_batch_follows decision_transaction_follows
      expireOverdueApprovals_follows reverse_transaction_follows | simp add: financial_def approvals_follow_def)+

end
