(* ===== verification/Offline_Sync.thy ===== *)
theory Offline_Sync
  imports System
begin

text \<open>
  Captures made while a till was offline (\<^verbatim>\<open>modules/offline-sync/offline-sync.service.ts\<close>). A device
  sends its queued receipts in a batch; each record is claimed in the table \<open>OfflineSyncAttempt\<close>,
  checked against the session, and passed to \<open>earn\<close>; what came of it is stored in the claimed row
  and returned again when the record is sent again. The table belongs to this service alone, so the
  state is the database of the other services with the table beside it. The statements are single
  calls of the database, between which other sessions commit.
\<close>

subsection \<open>Data\<close>

datatype OfflineSyncStatus = CONFIRMED | PENDING_APPROVAL | REJECTED | RETRYABLE

record OfflineEarnBatchRecordInput =
  in_localId :: string
  in_idempotencyKey :: string
  in_cashierId :: string
  in_branchId :: string
  in_cardBarcode :: string
  in_receiptNumber :: string
  in_receiptWeekStart :: string
  in_purchaseAmountKobo :: int
  in_occurredAtLocal :: string

record OfflineEarnBatchRecordResult =
  out_localId :: string
  out_status :: OfflineSyncStatus
  out_transactionId :: "string option"
  out_approvalId :: "string option"
  out_creditEarnedKobo :: "int option"
  out_errorCode :: "string option"
  out_retryable :: bool

text \<open>The columns the service writes; \<open>id\<close> and the timestamps of the row are never read.\<close>

record OfflineSyncAttempt =
  osa_tenantId :: string
  osa_localId :: string
  osa_idempotencyKey :: string
  osa_requestHash :: string
  osa_cashierId :: string
  osa_branchId :: string
  osa_deviceId :: string
  osa_posReceiptNumber :: string
  osa_receiptWeekStartSubmitted :: int
  osa_purchaseAmountKobo :: int
  osa_occurredAt :: int
  osa_status :: OfflineSyncStatus
  osa_errorCode :: "string option"
  osa_responseJson :: "OfflineEarnBatchRecordResult option"
  osa_transactionId :: "string option"
  osa_approvalId :: "string option"
  osa_syncedAt :: "int option"

record sync_db =
  sdb :: db
  offlineSyncAttempts :: "OfflineSyncAttempt list"

record OfflineSyncPolicy =
  osp_maxRecords :: int
  osp_maxRecordAgeHours :: int

definition DEFAULT_OFFLINE_SYNC_MAX_RECORDS :: int where "DEFAULT_OFFLINE_SYNC_MAX_RECORDS = 100"

definition DEFAULT_OFFLINE_EARN_MAX_AGE_HOURS :: int where "DEFAULT_OFFLINE_EARN_MAX_AGE_HOURS = 72"

definition getOfflineSyncPolicy :: "env \<Rightarrow> OfflineSyncPolicy" where
  "getOfflineSyncPolicy env =
     \<lparr> osp_maxRecords = config_or env ''OFFLINE_SYNC_MAX_RECORDS'' DEFAULT_OFFLINE_SYNC_MAX_RECORDS,
       osp_maxRecordAgeHours = config_or env ''OFFLINE_EARN_MAX_AGE_HOURS'' DEFAULT_OFFLINE_EARN_MAX_AGE_HOURS \<rparr>"

text \<open>What one run of \<open>processRecord\<close> meets: the other sessions, the engine, the clocks.\<close>

record sync_world =
  sw_others :: "nat \<Rightarrow> sync_db \<Rightarrow> sync_db"
  sw_sched :: "nat \<Rightarrow> db \<Rightarrow> db \<times> svc_error option"
  sw_earnOthers :: "nat \<Rightarrow> db \<Rightarrow> db"
  sw_earnClk :: "nat \<Rightarrow> int"
  sw_now :: int
  sw_syncedAt :: int

subsection \<open>Normalisation\<close>

definition sync_normalizeReceiptNumber :: "string \<Rightarrow> svc_error + string" where
  "sync_normalizeReceiptNumber v =
     (let normalized = js_trim v in
      if normalized = [] then Inl (BadRequestException ''receiptNumber is required'') else Inr normalized)"

definition normalizeCardBarcode :: "string \<Rightarrow> svc_error + string" where
  "normalizeCardBarcode v =
     (case normalizeCardSerial v of
        Inl _ \<Rightarrow> Inl (BadRequestException ''cardBarcode is required'')
      | Inr serial \<Rightarrow> Inr serial)"

definition normalizeReceiptWeekStart :: "string \<Rightarrow> svc_error + string" where
  "normalizeReceiptWeekStart v =
     (let normalized = js_trim v in
      if normalized = [] then Inl (BadRequestException ''receiptWeekStart is required'') else Inr normalized)"

definition parseYmdDate :: "env \<Rightarrow> string \<Rightarrow> svc_error + int" where
  "parseYmdDate env v =
     res_bind (normalizeReceiptWeekStart v) (\<lambda>normalized.
     case dateParse env (normalized @ ''T00:00:00.000Z'') of
       None \<Rightarrow> Inl (BadRequestException ''receiptWeekStart must be a valid date'')
     | Some t \<Rightarrow> Inr t)"

definition sync_parseDate :: "env \<Rightarrow> string \<Rightarrow> string \<Rightarrow> svc_error + int" where
  "sync_parseDate env v fieldName =
     (case dateParse env v of
        None \<Rightarrow> Inl (BadRequestException (fieldName @ '' must be a valid date-time''))
      | Some t \<Rightarrow> Inr t)"

definition formatYmd :: "int \<Rightarrow> string" where
  "formatYmd t = take 10 (toISOString t)"

text \<open>\<open>%\<close> of JavaScript: the remainder has the sign of the dividend.\<close>

definition js_rem :: "int \<Rightarrow> int \<Rightarrow> int" where
  "js_rem a b = a - bigint_div a b * b"

definition sync_deriveReceiptWeekStart :: "env \<Rightarrow> int \<Rightarrow> string \<Rightarrow> int \<Rightarrow> svc_error + int" where
  "sync_deriveReceiptWeekStart env occurredAt timeZone receiptWeekStartDay =
     (case tzDate env timeZone occurredAt of
        None \<Rightarrow> Inl (BadRequestException ''Unable to derive receipt week start'')
      | Some (year, month, day) \<Rightarrow>
          let localWeekday = getUTCDay (date_UTC year (month - 1) day 0 0 0 0);
              deltaDays = js_rem (7 + localWeekday - receiptWeekStartDay) 7 in
          Inr (date_UTC year (month - 1) (day - deltaDays) 0 0 0 0))"

definition sync_requestHash :: "env \<Rightarrow> string \<Rightarrow> string \<Rightarrow> OfflineEarnBatchRecordInput \<Rightarrow> svc_error + string" where
  "sync_requestHash env tenantId deviceId rec =
     res_bind (normalizeCardBarcode (in_cardBarcode rec)) (\<lambda>cardBarcode.
     res_bind (sync_normalizeReceiptNumber (in_receiptNumber rec)) (\<lambda>receiptNumber.
     res_bind (normalizeReceiptWeekStart (in_receiptWeekStart rec)) (\<lambda>weekStart.
     Inr (sha256hex env (stableStringify (JObj
       [(''tenantId'', JStr tenantId), (''deviceId'', JStr deviceId), (''localId'', JStr (in_localId rec)),
        (''idempotencyKey'', JStr (in_idempotencyKey rec)), (''cashierId'', JStr (in_cashierId rec)),
        (''branchId'', JStr (in_branchId rec)), (''cardBarcode'', JStr cardBarcode),
        (''receiptNumber'', JStr receiptNumber), (''receiptWeekStart'', JStr weekStart),
        (''purchaseAmountKobo'', JNum (in_purchaseAmountKobo rec)),
        (''occurredAtLocal'', JStr (in_occurredAtLocal rec))]))))))"

subsection \<open>The table\<close>

definition is_attempt :: "string \<Rightarrow> string \<Rightarrow> string \<Rightarrow> OfflineSyncAttempt \<Rightarrow> bool" where
  "is_attempt tenantId deviceId localId a =
     (osa_tenantId a = tenantId \<and> osa_deviceId a = deviceId \<and> osa_localId a = localId)"

definition offlineSyncAttempt_findUnique :: "string \<Rightarrow> string \<Rightarrow> string \<Rightarrow> sync_db \<Rightarrow> OfflineSyncAttempt option" where
  "offlineSyncAttempt_findUnique tenantId deviceId localId s =
     find (is_attempt tenantId deviceId localId) (offlineSyncAttempts s)"

text \<open>The amount is an \<open>Int\<close> column of 32 bits; the engine refuses what does not fit.\<close>

definition fits_int4 :: "int \<Rightarrow> bool" where
  "fits_int4 n = (- (2 ^ 31) \<le> n \<and> n < 2 ^ 31)"

definition offlineSyncAttempt_create :: "OfflineSyncAttempt \<Rightarrow> sync_db \<Rightarrow> svc_error + sync_db" where
  "offlineSyncAttempt_create row s =
     (if \<not> fits_int4 (osa_purchaseAmountKobo row) then Inl (PlainError ''Unable to fit integer value into an INT4'')
      else if offlineSyncAttempt_findUnique (osa_tenantId row) (osa_deviceId row) (osa_localId row) s \<noteq> None
      then Inl (PrismaKnownRequestError ''P2002'' [''tenantId'', ''deviceId'', ''localId''] ''Unique constraint failed'')
      else Inr (s\<lparr>offlineSyncAttempts := offlineSyncAttempts s @ [row]\<rparr>))"

definition offlineSyncAttempt_update ::
  "string \<Rightarrow> string \<Rightarrow> string \<Rightarrow> (OfflineSyncAttempt \<Rightarrow> OfflineSyncAttempt) \<Rightarrow> sync_db \<Rightarrow> svc_error + sync_db" where
  "offlineSyncAttempt_update tenantId deviceId localId f s =
     (if offlineSyncAttempt_findUnique tenantId deviceId localId s = None then Inl p2025
      else Inr (s\<lparr>offlineSyncAttempts := updated (is_attempt tenantId deviceId localId) f (offlineSyncAttempts s)\<rparr>))"

definition sync_isUniqueConstraintError :: "svc_error \<Rightarrow> bool" where
  "sync_isUniqueConstraintError e = (case e of PrismaKnownRequestError code _ _ \<Rightarrow> code = ''P2002'' | _ \<Rightarrow> False)"

subsection \<open>Results\<close>

definition sync_failure :: "string \<Rightarrow> OfflineSyncStatus \<Rightarrow> string \<Rightarrow> OfflineEarnBatchRecordResult" where
  "sync_failure localId status code =
     \<lparr> out_localId = localId, out_status = status, out_transactionId = None, out_approvalId = None,
       out_creditEarnedKobo = None, out_errorCode = Some code, out_retryable = (status = RETRYABLE) \<rparr>"

definition buildRejectedResult :: "string \<Rightarrow> string \<Rightarrow> OfflineEarnBatchRecordResult" where
  "buildRejectedResult localId code = sync_failure localId REJECTED code"

definition readDomainCode :: "svc_error \<Rightarrow> string option" where
  "readDomainCode e = (case e of DomainHttpException _ code _ \<Rightarrow> Some code | _ \<Rightarrow> None)"

definition mapEarnFailure :: "string \<Rightarrow> svc_error \<Rightarrow> OfflineEarnBatchRecordResult" where
  "mapEarnFailure localId e =
     (case readDomainCode e of
        None \<Rightarrow> sync_failure localId RETRYABLE ''OFFLINE_SYNC_UNEXPECTED_ERROR''
      | Some code \<Rightarrow>
          if code = ''EARN_TRANSACTION_CONFLICT'' then sync_failure localId RETRYABLE code
          else if code = ''RECEIPT_ALREADY_USED'' then sync_failure localId REJECTED code
          else if code = ''CARD_NOT_FOUND'' then sync_failure localId REJECTED ''CARD_INACTIVE''
          else if code = ''DEVICE_NOT_ACTIVE'' \<or> code = ''DEVICE_BRANCH_MISMATCH''
          then sync_failure localId REJECTED ''SYNC_DEVICE_MISMATCH''
          else if code = ''IDEMPOTENCY_CONFLICT'' then sync_failure localId REJECTED code
          else sync_failure localId RETRYABLE code)"

definition json_string :: "json \<Rightarrow> string option" where
  "json_string j = (case j of JStr v \<Rightarrow> Some v | _ \<Rightarrow> None)"

definition json_number :: "json \<Rightarrow> int option" where
  "json_number j = (case j of JNum n \<Rightarrow> Some n | _ \<Rightarrow> None)"

definition sync_result :: "string \<Rightarrow> json \<Rightarrow> OfflineEarnBatchRecordResult" where
  "sync_result localId response =
     (if json_get response ''state'' = JStr ''PENDING_APPROVAL''
      then \<lparr> out_localId = localId, out_status = PENDING_APPROVAL, out_transactionId = None,
             out_approvalId = json_string (json_get response ''approvalId''), out_creditEarnedKobo = None,
             out_errorCode = None, out_retryable = False \<rparr>
      else \<lparr> out_localId = localId, out_status = CONFIRMED,
             out_transactionId = json_string (json_get response ''transactionId''), out_approvalId = None,
             out_creditEarnedKobo = json_number (json_get response ''creditKobo''),
             out_errorCode = None, out_retryable = False \<rparr>)"

definition persistResult ::
  "string \<Rightarrow> string \<Rightarrow> string \<Rightarrow> OfflineEarnBatchRecordResult \<Rightarrow> int \<Rightarrow> sync_db \<Rightarrow>
   (svc_error + OfflineEarnBatchRecordResult) \<times> sync_db" where
  "persistResult tenantId deviceId localId result syncedAt s =
     (case offlineSyncAttempt_update tenantId deviceId localId
         (\<lambda>a. a\<lparr>osa_status := out_status result, osa_errorCode := out_errorCode result,
                osa_transactionId := out_transactionId result, osa_approvalId := out_approvalId result,
                osa_responseJson := Some result, osa_syncedAt := Some syncedAt\<rparr>) s of
        Inl e \<Rightarrow> (Inl e, s)
      | Inr s' \<Rightarrow> (Inr result, s'))"

subsection \<open>Checks of a record\<close>

definition sync_checks_before ::
  "env \<Rightarrow> AuthContext \<Rightarrow> OfflineSyncPolicy \<Rightarrow> OfflineEarnBatchRecordInput \<Rightarrow> int \<Rightarrow>
   svc_error + string option \<times> int" where
  "sync_checks_before env actor policy rec now =
     (if in_cashierId rec \<noteq> actor_id actor then Inr (Some ''SYNC_ACTOR_MISMATCH'', 0)
      else if Some (in_branchId rec) \<noteq> actor_branchId actor then Inr (Some ''SYNC_BRANCH_MISMATCH'', 0)
      else
        res_bind (sync_parseDate env (in_occurredAtLocal rec) ''occurredAtLocal'') (\<lambda>occurredAt.
        Inr (if now - occurredAt > osp_maxRecordAgeHours policy * 3600000 then Some ''SYNC_RECORD_EXPIRED'' else None,
             occurredAt)))"

definition sync_check_device ::
  "env \<Rightarrow> string \<Rightarrow> string \<Rightarrow> OfflineEarnBatchRecordInput \<Rightarrow> int \<Rightarrow> db \<Rightarrow> svc_error + string option" where
  "sync_check_device env tenantId deviceId rec occurredAt d =
     (case device_with_branch tenantId deviceId d of
        None \<Rightarrow> Inr (Some ''SYNC_DEVICE_MISMATCH'')
      | Some (dev, br) \<Rightarrow>
          if dev_status dev \<noteq> DeviceStatus.ACTIVE \<or> br_status br \<noteq> BranchStatus.ACTIVE \<or> dev_branchId dev \<noteq> in_branchId rec
          then Inr (Some ''SYNC_DEVICE_MISMATCH'')
          else
            res_bind (sync_deriveReceiptWeekStart env occurredAt (br_timezone br) (br_receiptWeekStartDay br)) (\<lambda>derived.
            res_bind (normalizeReceiptWeekStart (in_receiptWeekStart rec)) (\<lambda>submitted.
            Inr (if submitted \<noteq> formatYmd derived then Some ''SYNC_WEEK_MISMATCH'' else None))))"

definition sync_check_card :: "string \<Rightarrow> OfflineEarnBatchRecordInput \<Rightarrow> db \<Rightarrow> svc_error + string option" where
  "sync_check_card tenantId rec d =
     res_bind (normalizeCardBarcode (in_cardBarcode rec)) (\<lambda>barcode.
     Inr (case card_by_serial tenantId barcode d of
            None \<Rightarrow> Some ''CARD_INACTIVE''
          | Some (cd, cu) \<Rightarrow>
              if cd_status cd \<noteq> CardStatus.ACTIVE \<or> cu_status cu \<noteq> CustomerStatus.ACTIVE then Some ''CARD_INACTIVE''
              else if cu_isStaff cu then Some ''STAFF_INELIGIBLE''
              else None))"

text \<open>The reads of the device and of the card are two statements; other sessions commit between them.\<close>

definition validateRecord ::
  "env \<Rightarrow> sync_world \<Rightarrow> string \<Rightarrow> AuthContext \<Rightarrow> string \<Rightarrow> OfflineSyncPolicy \<Rightarrow> OfflineEarnBatchRecordInput \<Rightarrow>
   sync_db \<Rightarrow> (svc_error + string option) \<times> sync_db" where
  "validateRecord env w tenantId actor deviceId policy rec s =
     (case sync_checks_before env actor policy rec (sw_now w) of
        Inl e \<Rightarrow> (Inl e, s)
      | Inr (Some code, _) \<Rightarrow> (Inr (Some code), s)
      | Inr (None, occurredAt) \<Rightarrow>
          (case sync_check_device env tenantId deviceId rec occurredAt (sdb s) of
             Inl e \<Rightarrow> (Inl e, s)
           | Inr (Some code) \<Rightarrow> (Inr (Some code), s)
           | Inr None \<Rightarrow> let s1 = sw_others w 2 s in (sync_check_card tenantId rec (sdb s1), s1)))"

subsection \<open>One record\<close>

definition OFFLINE_SYNC_REPLAY_RETRY_ATTEMPTS :: nat where "OFFLINE_SYNC_REPLAY_RETRY_ATTEMPTS = 8"

fun waitForOfflineSyncReplay ::
  "(nat \<Rightarrow> sync_db \<Rightarrow> sync_db) \<Rightarrow> string \<Rightarrow> string \<Rightarrow> string \<Rightarrow> string \<Rightarrow> nat \<Rightarrow> nat \<Rightarrow> sync_db \<Rightarrow>
   OfflineEarnBatchRecordResult option \<times> sync_db" where
  "waitForOfflineSyncReplay others tenantId deviceId localId requestHash k 0 s = (None, s)"
| "waitForOfflineSyncReplay others tenantId deviceId localId requestHash k (Suc left) s =
     (case offlineSyncAttempt_findUnique tenantId deviceId localId s of
        None \<Rightarrow> (None, s)
      | Some a \<Rightarrow>
          if osa_requestHash a \<noteq> requestHash then (None, s)
          else case osa_responseJson a of
            Some response \<Rightarrow> (Some response, s)
          | None \<Rightarrow> waitForOfflineSyncReplay others tenantId deviceId localId requestHash (k + 1) left (others k s))"

definition replay_attempt ::
  "sync_world \<Rightarrow> string \<Rightarrow> string \<Rightarrow> string \<Rightarrow> string \<Rightarrow> OfflineSyncAttempt \<Rightarrow> sync_db \<Rightarrow>
   OfflineEarnBatchRecordResult \<times> sync_db" where
  "replay_attempt w tenantId deviceId localId requestHash a s =
     (if osa_requestHash a \<noteq> requestHash then (sync_failure localId REJECTED ''SYNC_RECORD_CONFLICT'', s)
      else case osa_responseJson a of
        Some response \<Rightarrow> (response, s)
      | None \<Rightarrow>
          (case waitForOfflineSyncReplay (sw_others w) tenantId deviceId localId requestHash 6
              OFFLINE_SYNC_REPLAY_RETRY_ATTEMPTS (sw_others w 5 s) of
             (Some response, s') \<Rightarrow> (response, s')
           | (None, s') \<Rightarrow> (sync_failure localId RETRYABLE ''SYNC_RECORD_PROCESSING'', s')))"

definition sync_attempt :: "env \<Rightarrow> string \<Rightarrow> string \<Rightarrow> OfflineEarnBatchRecordInput \<Rightarrow> string \<Rightarrow> svc_error + OfflineSyncAttempt" where
  "sync_attempt env tenantId deviceId rec requestHash =
     res_bind (sync_normalizeReceiptNumber (in_receiptNumber rec)) (\<lambda>receiptNumber.
     res_bind (parseYmdDate env (in_receiptWeekStart rec)) (\<lambda>weekStart.
     res_bind (sync_parseDate env (in_occurredAtLocal rec) ''occurredAtLocal'') (\<lambda>occurredAt.
     Inr \<lparr> osa_tenantId = tenantId, osa_localId = in_localId rec, osa_idempotencyKey = in_idempotencyKey rec,
           osa_requestHash = requestHash, osa_cashierId = in_cashierId rec, osa_branchId = in_branchId rec,
           osa_deviceId = deviceId, osa_posReceiptNumber = receiptNumber, osa_receiptWeekStartSubmitted = weekStart,
           osa_purchaseAmountKobo = in_purchaseAmountKobo rec, osa_occurredAt = occurredAt, osa_status = RETRYABLE,
           osa_errorCode = None, osa_responseJson = None, osa_transactionId = None, osa_approvalId = None,
           osa_syncedAt = None \<rparr>)))"

definition sync_earn_dto :: "env \<Rightarrow> OfflineEarnBatchRecordInput \<Rightarrow> svc_error + EarnTransactionDto" where
  "sync_earn_dto env rec =
     res_bind (sync_normalizeReceiptNumber (in_receiptNumber rec)) (\<lambda>receiptNumber.
     res_bind (normalizeCardBarcode (in_cardBarcode rec)) (\<lambda>barcode.
     res_bind (sync_parseDate env (in_occurredAtLocal rec) ''occurredAtLocal'') (\<lambda>occurredAt.
     Inr \<lparr> edto_posReceiptNumber = receiptNumber, edto_cardSerialNumber = barcode,
           edto_purchaseAmountKobo = in_purchaseAmountKobo rec, edto_occurredAt = toISOString occurredAt,
           edto_overrideReason = None \<rparr>)))"

definition sync_earn ::
  "env \<Rightarrow> sync_world \<Rightarrow> string \<Rightarrow> AuthContext \<Rightarrow> OfflineEarnBatchRecordInput \<Rightarrow> sync_db \<Rightarrow>
   OfflineEarnBatchRecordResult \<times> sync_db" where
  "sync_earn env w tenantId actor rec s =
     (case sync_earn_dto env rec of
        Inl e \<Rightarrow> (mapEarnFailure (in_localId rec) e, s)
      | Inr dto \<Rightarrow>
          (case earn env (sw_sched w) (sw_earnOthers w) (sw_earnClk w) tenantId actor (Some (in_idempotencyKey rec)) dto (sdb s) of
             (Inl e, d) \<Rightarrow> (mapEarnFailure (in_localId rec) e, s\<lparr>sdb := d\<rparr>)
           | (Inr response, d) \<Rightarrow> (sync_result (in_localId rec) response, s\<lparr>sdb := d\<rparr>)))"

definition process_claimed ::
  "env \<Rightarrow> sync_world \<Rightarrow> string \<Rightarrow> AuthContext \<Rightarrow> string \<Rightarrow> OfflineSyncPolicy \<Rightarrow> OfflineEarnBatchRecordInput \<Rightarrow>
   sync_db \<Rightarrow> (svc_error + OfflineEarnBatchRecordResult) \<times> sync_db" where
  "process_claimed env w tenantId actor deviceId policy rec s =
     (case validateRecord env w tenantId actor deviceId policy rec (sw_others w 1 s) of
        (Inl e, s1) \<Rightarrow> (Inl e, s1)
      | (Inr (Some code), s1) \<Rightarrow>
          persistResult tenantId deviceId (in_localId rec) (buildRejectedResult (in_localId rec) code) (sw_syncedAt w)
            (sw_others w 3 s1)
      | (Inr None, s1) \<Rightarrow>
          (case sync_earn env w tenantId actor rec (sw_others w 3 s1) of
             (result, s2) \<Rightarrow>
               persistResult tenantId deviceId (in_localId rec) result (sw_syncedAt w) (sw_others w 4 s2)))"

text \<open>
  The method calls itself again when another session claimed the record between its lookup and its
  insert. Nothing bounds these calls in the code, so the model carries fuel; \<open>None\<close> is a run that
  has not returned. \<open>ws k\<close> is what the \<open>k\<close>-th call meets.
\<close>

fun processRecord ::
  "env \<Rightarrow> (nat \<Rightarrow> sync_world) \<Rightarrow> string \<Rightarrow> AuthContext \<Rightarrow> string \<Rightarrow> OfflineSyncPolicy \<Rightarrow> OfflineEarnBatchRecordInput \<Rightarrow>
   nat \<Rightarrow> nat \<Rightarrow> sync_db \<Rightarrow> ((svc_error + OfflineEarnBatchRecordResult) \<times> sync_db) option" where
  "processRecord env ws tenantId actor deviceId policy rec 0 k s = None"
| "processRecord env ws tenantId actor deviceId policy rec (Suc fuel) k s =
     (case sync_requestHash env tenantId deviceId rec of
        Inl e \<Rightarrow> Some (Inl e, s)
      | Inr requestHash \<Rightarrow>
          (case offlineSyncAttempt_findUnique tenantId deviceId (in_localId rec) s of
             Some a \<Rightarrow> Some (apfst Inr (replay_attempt (ws k) tenantId deviceId (in_localId rec) requestHash a s))
           | None \<Rightarrow>
               (case sync_attempt env tenantId deviceId rec requestHash of
                  Inl e \<Rightarrow> Some (Inl e, s)
                | Inr row \<Rightarrow>
                    let s1 = sw_others (ws k) 0 s in
                    (case offlineSyncAttempt_create row s1 of
                       Inl e \<Rightarrow>
                         if sync_isUniqueConstraintError e
                         then processRecord env ws tenantId actor deviceId policy rec fuel (k + 1) (sw_others (ws k) 1 s1)
                         else Some (Inl e, s1)
                     | Inr s2 \<Rightarrow> Some (process_claimed env (ws k) tenantId actor deviceId policy rec s2)))))"

subsection \<open>A batch\<close>

fun process_records ::
  "env \<Rightarrow> (nat \<Rightarrow> nat \<Rightarrow> sync_world) \<Rightarrow> string \<Rightarrow> AuthContext \<Rightarrow> string \<Rightarrow> OfflineSyncPolicy \<Rightarrow> nat \<Rightarrow> nat \<Rightarrow>
   OfflineEarnBatchRecordInput list \<Rightarrow> sync_db \<Rightarrow> ((svc_error + OfflineEarnBatchRecordResult list) \<times> sync_db) option" where
  "process_records env ws tenantId actor deviceId policy fuel i [] s = Some (Inr [], s)"
| "process_records env ws tenantId actor deviceId policy fuel i (rec # recs) s =
     (case processRecord env (ws i) tenantId actor deviceId policy rec fuel 0 s of
        None \<Rightarrow> None
      | Some (Inl e, s1) \<Rightarrow> Some (Inl e, s1)
      | Some (Inr result, s1) \<Rightarrow>
          map_option (apfst (map_sum (\<lambda>e. e) (Cons result)))
            (process_records env ws tenantId actor deviceId policy fuel (i + 1) recs s1))"

definition sync_gate :: "env \<Rightarrow> AuthContext \<Rightarrow> string \<Rightarrow> nat \<Rightarrow> svc_error + OfflineSyncPolicy" where
  "sync_gate env actor deviceId n =
     (if actor_role actor \<noteq> UserRole.CASHIER
      then Inl (DomainHttpException 403 ''SYNC_ACTOR_MISMATCH'' ''Offline earn sync requires a cashier session'')
      else if \<not> truthy (session_deviceId actor)
      then Inl (DomainHttpException 400 ''SYNC_DEVICE_MISMATCH'' ''Session device is required for offline sync'')
      else if session_deviceId actor \<noteq> Some deviceId
      then Inl (DomainHttpException 400 ''SYNC_DEVICE_MISMATCH''
                  ''Offline sync device does not match the authenticated session'')
      else if actor_branchId actor = None
      then Inl (DomainHttpException 400 ''SYNC_BRANCH_MISMATCH'' ''Branch context is required for offline sync'')
      else
        let policy = getOfflineSyncPolicy env in
        if int n > osp_maxRecords policy then Inl (BadRequestException ''Offline sync batch is too large'')
        else Inr policy)"

definition earnBatch ::
  "env \<Rightarrow> (nat \<Rightarrow> nat \<Rightarrow> sync_world) \<Rightarrow> string \<Rightarrow> AuthContext \<Rightarrow> string \<Rightarrow> OfflineEarnBatchRecordInput list \<Rightarrow> nat \<Rightarrow>
   sync_db \<Rightarrow> ((svc_error + OfflineEarnBatchRecordResult list) \<times> sync_db) option" where
  "earnBatch env ws tenantId actor deviceId recs fuel s =
     (case sync_gate env actor deviceId (length recs) of
        Inl e \<Rightarrow> Some (Inl e, s)
      | Inr policy \<Rightarrow> process_records env ws tenantId actor deviceId policy fuel 0 recs s)"

subsection \<open>Sessions around a batch\<close>

definition sync_sessions :: "env \<Rightarrow> sync_world \<Rightarrow> bool" where
  "sync_sessions env w = ((\<forall>i s. (system_step env)\<^sup>*\<^sup>* (sdb s) (sdb (sw_others w i s)))
     \<and> session_steps (system_step env) (sw_sched w) (sw_earnOthers w))"

text \<open>No session removes a claim or changes the hash it was made with.\<close>

definition attempts_kept :: "sync_db \<Rightarrow> sync_db \<Rightarrow> bool" where
  "attempts_kept s s' = (\<forall>t v l a. offlineSyncAttempt_findUnique t v l s = Some a \<longrightarrow>
     (\<exists>a'. offlineSyncAttempt_findUnique t v l s' = Some a' \<and> osa_requestHash a' = osa_requestHash a))"

definition keeps_attempts :: "sync_world \<Rightarrow> bool" where
  "keeps_attempts w = (\<forall>i s. attempts_kept s (sw_others w i s))"

lemma sync_sessionsD:
  assumes "sync_sessions env w"
  shows "(system_step env)\<^sup>*\<^sup>* d (sdb s) \<Longrightarrow> (system_step env)\<^sup>*\<^sup>* d (sdb (sw_others w i s))"
    and "system_step env d (snd (earn env (sw_sched w) (sw_earnOthers w) clk tenantId actor key dto d))"
  using assms unfolding sync_sessions_def by (blast intro: rtranclp_trans system_step.earn)+

lemma persistResult_sdb: "persistResult t v l r now s = (x, s') \<Longrightarrow> sdb s' = sdb s"
  by (auto simp: persistResult_def offlineSyncAttempt_update_def split: sum.splits if_splits)

lemma sync_earn_run:
  assumes "sync_sessions env w" and "sync_earn env w tenantId actor rec s = (r, s')"
  shows "(system_step env)\<^sup>*\<^sup>* (sdb s) (sdb s')"
proof (cases "sync_earn_dto env rec")
  case (Inr dto)
  let ?run = "earn env (sw_sched w) (sw_earnOthers w) (sw_earnClk w) tenantId actor (Some (in_idempotencyKey rec)) dto (sdb s)"
  have "sdb s' = snd ?run" using assms(2) Inr by (auto simp: sync_earn_def split: prod.splits sum.splits)
  with sync_sessionsD(2)[OF assms(1)] show ?thesis by (auto intro: r_into_rtranclp)
qed (use assms(2) in \<open>simp add: sync_earn_def\<close>)

lemma validateRecord_run:
  assumes "sync_sessions env w" and "validateRecord env w tenantId actor deviceId policy rec s = (r, s')"
  shows "(system_step env)\<^sup>*\<^sup>* (sdb s) (sdb s')"
  using assms(2) sync_sessionsD(1)[OF assms(1), of "sdb s" s 2]
  by (auto simp: validateRecord_def Let_def split: sum.splits option.splits prod.splits)

lemma process_claimed_run:
  assumes "sync_sessions env w" and "process_claimed env w tenantId actor deviceId policy rec s = (r, s')"
  shows "(system_step env)\<^sup>*\<^sup>* (sdb s) (sdb s')"
proof -
  note o = sync_sessionsD(1)[OF assms(1)]
  obtain v s1 where v: "validateRecord env w tenantId actor deviceId policy rec (sw_others w 1 s) = (v, s1)" by fastforce
  have r1: "(system_step env)\<^sup>*\<^sup>* (sdb s) (sdb s1)"
    by (rule rtranclp_trans[OF o[OF rtranclp.rtrancl_refl, of s 1] validateRecord_run[OF assms(1) v]])
  obtain e s2 where e: "sync_earn env w tenantId actor rec (sw_others w 3 s1) = (e, s2)" by fastforce
  have r2: "(system_step env)\<^sup>*\<^sup>* (sdb s) (sdb s2)" by (rule rtranclp_trans[OF o[OF r1, of 3] sync_earn_run[OF assms(1) e]])
  show ?thesis
    using assms(2) r1 o[OF r1, of 3] o[OF r2, of 4] v e persistResult_sdb
    by (fastforce simp: process_claimed_def split: sum.split_asm option.split_asm)
qed

lemma wait_run:
  assumes "sync_sessions env w" and "waitForOfflineSyncReplay (sw_others w) t v l h k n s = (r, s')"
  shows "(system_step env)\<^sup>*\<^sup>* (sdb s) (sdb s')"
  using assms(2)
proof (induction n arbitrary: k s)
  case (Suc n)
  then show ?case
    using sync_sessionsD(1)[OF assms(1), of "sdb s" s k]
    by (auto split: option.split_asm if_split_asm intro: rtranclp_trans)
qed simp

lemma replay_attempt_run:
  assumes "sync_sessions env w" and "replay_attempt w t v l h a s = (r, s')"
  shows "(system_step env)\<^sup>*\<^sup>* (sdb s) (sdb s')"
  using assms(2) sync_sessionsD(1)[OF assms(1), of "sdb s" s 5]
  by (auto simp: replay_attempt_def split: option.split_asm if_split_asm prod.split_asm
      intro: rtranclp_trans dest: wait_run[OF assms(1)])

lemma create_sdb: "offlineSyncAttempt_create row s = Inr s' \<Longrightarrow> sdb s' = sdb s"
  by (auto simp: offlineSyncAttempt_create_def split: if_splits)

lemma processRecord_run:
  assumes "\<And>k. sync_sessions env (ws k)"
  shows "processRecord env ws tenantId actor deviceId policy rec fuel k s = Some (r, s') \<Longrightarrow>
    (system_step env)\<^sup>*\<^sup>* (sdb s) (sdb s')"
proof (induction fuel arbitrary: k s)
  case (Suc fuel)
  note o = sync_sessionsD(1)[OF assms]
  let ?s1 = "sw_others (ws k) 0 s"
  have r1: "(system_step env)\<^sup>*\<^sup>* (sdb s) (sdb ?s1)" "(system_step env)\<^sup>*\<^sup>* (sdb s) (sdb (sw_others (ws k) 1 ?s1))"
    using o by blast+
  have c: "(system_step env)\<^sup>*\<^sup>* (sdb s) (sdb s')"
    if "offlineSyncAttempt_create row ?s1 = Inr s2" "process_claimed env (ws k) tenantId actor deviceId policy rec s2 = (r, s')"
    for row s2
    using r1(1) process_claimed_run[OF assms that(2)] create_sdb[OF that(1)] by (metis rtranclp_trans)
  have p: "(system_step env)\<^sup>*\<^sup>* (sdb s) (sdb s')"
    if "apfst Inr (replay_attempt (ws k) tenantId deviceId (in_localId rec) h a s) = (r, s')" for h a
    using that replay_attempt_run[OF assms] by (cases "replay_attempt (ws k) tenantId deviceId (in_localId rec) h a s") auto
  show ?case
    using Suc.prems r1 c p rtranclp_trans[OF r1(2) Suc.IH[of "k + 1"]]
    by (auto simp: Let_def split: sum.split_asm option.split_asm if_split_asm)
qed simp

text \<open>
  C7: an offline batch is nothing but calls of \<open>earn\<close> among the calls of the other sessions: whatever
  records it holds, however it ends, and whatever else commits meanwhile, what it does to the database
  is a run of the system, so everything shown of the runs of the system holds of offline batches.
\<close>

theorem earnBatch_refines_system:
  assumes "\<And>i k. sync_sessions env (ws i k)"
    and "earnBatch env ws tenantId actor deviceId recs fuel s = Some (r, s')"
  shows "(system_step env)\<^sup>*\<^sup>* (sdb s) (sdb s')"
proof -
  have "(system_step env)\<^sup>*\<^sup>* (sdb s) (sdb s')"
    if "process_records env ws tenantId actor deviceId policy fuel i recs s = Some (r, s')" for policy i r
    using that
  proof (induction recs arbitrary: i s r)
    case (Cons rec recs)
    from Cons.prems obtain r1 s1 where
      p: "processRecord env (ws i) tenantId actor deviceId policy rec fuel 0 s = Some (r1, s1)"
      and n: "s' = s1 \<or> (\<exists>rs. process_records env ws tenantId actor deviceId policy fuel (i + 1) recs s1 = Some (rs, s'))"
      by (auto split: option.split_asm sum.split_asm prod.split_asm)
    from processRecord_run[OF assms(1) p] n show ?case by (auto intro: rtranclp_trans dest!: Cons.IH)
  qed simp
  then show ?thesis using assms(2) by (auto simp: earnBatch_def split: sum.split_asm)
qed

subsection \<open>Claims stay, answers stay\<close>

lemma attempts_kept_refl [simp]: "attempts_kept s s"
  by (simp add: attempts_kept_def)

lemma attempts_kept_trans: "attempts_kept s s1 \<Longrightarrow> attempts_kept s1 s2 \<Longrightarrow> attempts_kept s s2"
  unfolding attempts_kept_def by metis

lemma attempts_kept_same: "offlineSyncAttempts s' = offlineSyncAttempts s \<Longrightarrow> attempts_kept s s'"
  by (simp add: attempts_kept_def offlineSyncAttempt_findUnique_def)

lemma keeps_attemptsD: "keeps_attempts w \<Longrightarrow> attempts_kept s s1 \<Longrightarrow> attempts_kept s (sw_others w i s1)"
  unfolding keeps_attempts_def using attempts_kept_trans by blast

lemma sync_earn_attempts: "sync_earn env w tenantId actor rec s = (r, s') \<Longrightarrow> offlineSyncAttempts s' = offlineSyncAttempts s"
  by (auto simp: sync_earn_def split: sum.splits prod.splits)

lemma validateRecord_kept:
  assumes "keeps_attempts w" and "validateRecord env w tenantId actor deviceId policy rec s = (r, s')"
  shows "attempts_kept s s'"
  using assms(2) keeps_attemptsD[OF assms(1) attempts_kept_refl, of s 2]
  by (auto simp: validateRecord_def Let_def split: sum.splits option.splits prod.splits)

text \<open>A record answered: its claim carries the hash of the request and a response.\<close>

definition answered :: "string \<Rightarrow> string \<Rightarrow> string \<Rightarrow> string \<Rightarrow> OfflineEarnBatchRecordResult \<Rightarrow> sync_db \<Rightarrow> bool" where
  "answered t v l h r s = (\<exists>a. offlineSyncAttempt_findUnique t v l s = Some a
     \<and> osa_requestHash a = h \<and> osa_responseJson a = Some r)"

lemma persistResult_answers:
  assumes "persistResult t v l r now s = (Inr r', s')"
    and "offlineSyncAttempt_findUnique t v l s = Some a" and "osa_requestHash a = h"
  shows "r' = r \<and> answered t v l h r s'"
proof -
  let ?f = "\<lambda>a. a\<lparr>osa_status := out_status r, osa_errorCode := out_errorCode r, osa_transactionId := out_transactionId r,
      osa_approvalId := out_approvalId r, osa_responseJson := Some r, osa_syncedAt := Some now\<rparr>"
  have "find (is_attempt t v l) (updated (is_attempt t v l) ?f xs) = map_option ?f (find (is_attempt t v l) xs)" for xs
    by (rule find_updated) (simp add: is_attempt_def)
  with assms show ?thesis
    by (auto simp: persistResult_def offlineSyncAttempt_update_def answered_def offlineSyncAttempt_findUnique_def
        split: sum.split_asm if_split_asm)
qed

lemma create_claims:
  assumes "offlineSyncAttempt_create row s = Inr s'"
  shows "offlineSyncAttempt_findUnique (osa_tenantId row) (osa_deviceId row) (osa_localId row) s' = Some row"
  using assms
  by (auto simp: offlineSyncAttempt_create_def offlineSyncAttempt_findUnique_def find_append_None is_attempt_def split: if_splits)

lemma process_claimed_answers:
  assumes "keeps_attempts w" and "process_claimed env w tenantId actor deviceId policy rec s = (Inr r, s')"
    and "offlineSyncAttempt_findUnique tenantId deviceId (in_localId rec) s = Some a"
  shows "answered tenantId deviceId (in_localId rec) (osa_requestHash a) r s'"
proof -
  have claim: "\<exists>a'. offlineSyncAttempt_findUnique tenantId deviceId (in_localId rec) s1 = Some a'
      \<and> osa_requestHash a' = osa_requestHash a" if "attempts_kept s s1" for s1
    using that assms(3) by (auto simp: attempts_kept_def)
  note o = keeps_attemptsD[OF assms(1)]
  obtain v s1 where v: "validateRecord env w tenantId actor deviceId policy rec (sw_others w 1 s) = (v, s1)" by fastforce
  have k1: "attempts_kept s (sw_others w 3 s1)"
    by (intro o attempts_kept_trans[OF o[OF attempts_kept_refl] validateRecord_kept[OF assms(1) v]])
  obtain e s2 where e: "sync_earn env w tenantId actor rec (sw_others w 3 s1) = (e, s2)" by fastforce
  have k2: "attempts_kept s (sw_others w 4 s2)"
    by (intro o attempts_kept_trans[OF k1 attempts_kept_same[OF sync_earn_attempts[OF e]]])
  show ?thesis
    using assms(2) v e claim[OF k1] claim[OF k2] persistResult_answers
    by (fastforce simp: process_claimed_def split: sum.split_asm option.split_asm)
qed

lemma wait_answers:
  "waitForOfflineSyncReplay others t v l h k n s = (Some r, s') \<Longrightarrow> answered t v l h r s'"
  by (induction n arbitrary: k s) (auto simp: answered_def split: option.split_asm if_split_asm)

definition unstored :: "OfflineEarnBatchRecordResult \<Rightarrow> bool" where
  "unstored r = (out_errorCode r = Some ''SYNC_RECORD_CONFLICT'' \<or> out_errorCode r = Some ''SYNC_RECORD_PROCESSING'')"

lemma replay_attempt_answers:
  assumes "replay_attempt w t v l h a s = (r, s')" and "\<not> unstored r" and "offlineSyncAttempt_findUnique t v l s = Some a"
  shows "answered t v l h r s'"
  using assms wait_answers
  by (auto simp: replay_attempt_def unstored_def sync_failure_def split: if_split_asm option.split_asm prod.split_asm)
    (auto simp: answered_def)

lemma processRecord_answers:
  assumes "\<And>k. keeps_attempts (ws k)" and "sync_requestHash env tenantId deviceId rec = Inr h"
  shows "processRecord env ws tenantId actor deviceId policy rec fuel k s = Some (Inr r, s') \<Longrightarrow> \<not> unstored r \<Longrightarrow>
    answered tenantId deviceId (in_localId rec) h r s'"
proof (induction fuel arbitrary: k s)
  case (Suc fuel)
  have row: "osa_tenantId row = tenantId \<and> osa_deviceId row = deviceId \<and> osa_localId row = in_localId rec
      \<and> osa_requestHash row = h" if "sync_attempt env tenantId deviceId rec h = Inr row" for row
    using that by (auto simp: sync_attempt_def res_bind_eq_Inr)
  show ?case
  proof (cases "offlineSyncAttempt_findUnique tenantId deviceId (in_localId rec) s")
    case (Some a)
    with Suc.prems assms(2) obtain "replay_attempt (ws k) tenantId deviceId (in_localId rec) h a s = (r, s')"
      by (cases "replay_attempt (ws k) tenantId deviceId (in_localId rec) h a s") auto
    then show ?thesis by (rule replay_attempt_answers[OF _ Suc.prems(2) Some])
  next
    case None
    show ?thesis
      using Suc.prems Suc.IH None assms(2) row create_claims process_claimed_answers[OF assms(1)]
      by (fastforce simp: Let_def split: sum.split_asm if_split_asm)
  qed
qed simp

lemma answered_replays:
  assumes "answered tenantId deviceId (in_localId rec) h r s" and "sync_requestHash env tenantId deviceId rec = Inr h"
  shows "processRecord env ws tenantId actor deviceId policy rec (Suc fuel) k s = Some (Inr r, s)"
  using assms by (auto simp: answered_def replay_attempt_def)

text \<open>
  C28: the first answer is final. Once a record was answered (with anything but the two codes that
  report a claim of another request or one in progress), sending it again, by whomever and whenever,
  returns the same answer, captures nothing and changes nothing. This includes the answers marked
  retryable: a record that met a transaction conflict is told to retry and never tried again.
\<close>

theorem offline_answer_final:
  assumes "\<And>k. keeps_attempts (ws k)"
    and "processRecord env ws tenantId actor deviceId policy rec fuel k s = Some (Inr r, s')"
    and "out_errorCode r \<noteq> Some ''SYNC_RECORD_CONFLICT''" and "out_errorCode r \<noteq> Some ''SYNC_RECORD_PROCESSING''"
  shows "processRecord env ws' tenantId actor' deviceId policy' rec (Suc fuel') k' s' = Some (Inr r, s')"
proof -
  obtain h where h: "sync_requestHash env tenantId deviceId rec = Inr h"
    using assms(2) by (cases fuel) (auto split: sum.split_asm)
  have "answered tenantId deviceId (in_localId rec) h r s'"
    using processRecord_answers[OF assms(1) h assms(2)] assms(3,4) by (simp add: unstored_def)
  then show ?thesis using h by (rule answered_replays)
qed

subsection \<open>A batch returns\<close>

lemma processRecord_returns:
  assumes "\<And>k. keeps_attempts (ws k)"
  shows "processRecord env ws tenantId actor deviceId policy rec (Suc (Suc fuel)) k s \<noteq> None"
proof -
  let ?s1 = "sw_others (ws k) 0 s" and ?find = "offlineSyncAttempt_findUnique tenantId deviceId (in_localId rec)"
  have row: "osa_tenantId row = tenantId \<and> osa_deviceId row = deviceId \<and> osa_localId row = in_localId rec"
    if "sync_attempt env tenantId deviceId rec h = Inr row" for row h
    using that by (auto simp: sync_attempt_def res_bind_eq_Inr)
  have again: "?find (sw_others (ws k) 1 ?s1) \<noteq> None"
    if "sync_attempt env tenantId deviceId rec h = Inr row" "offlineSyncAttempt_create row ?s1 = Inl e"
      "sync_isUniqueConstraintError e" for row e h
  proof -
    have "?find ?s1 \<noteq> None"
      using that row[OF that(1)] by (auto simp: offlineSyncAttempt_create_def sync_isUniqueConstraintError_def split: if_split_asm)
    then show ?thesis
      using keeps_attemptsD[OF assms[of k] attempts_kept_refl, of ?s1 1] by (fastforce simp: attempts_kept_def)
  qed
  show ?thesis using again by (auto simp: Let_def split: sum.split option.split) blast
qed

text \<open>
  C29: a batch always ends: as long as no session deletes a claim, a record is looked up at most
  twice, so two levels of the recursion are enough for every record of every batch.
\<close>

theorem earnBatch_terminates:
  assumes "\<And>i k. keeps_attempts (ws i k)"
  shows "\<exists>r s'. earnBatch env ws tenantId actor deviceId recs (Suc (Suc fuel)) s = Some (r, s')"
proof -
  have "process_records env ws tenantId actor deviceId policy (Suc (Suc fuel)) i recs s \<noteq> None" for policy i
  proof (induction recs arbitrary: i s)
    case (Cons rec recs)
    show ?case using processRecord_returns[of "ws i" env tenantId actor deviceId policy rec fuel 0 s] assms
        Cons.IH[of "i + 1"] by (auto simp del: processRecord.simps not_None_eq split: option.split sum.split)
  qed simp
  then show ?thesis by (auto simp: earnBatch_def split: sum.split)
qed

subsection \<open>A record that meets a conflict at the demonstration shop\<close>

definition demo_record :: OfflineEarnBatchRecordInput where
  "demo_record = \<lparr> in_localId = ''L1'', in_idempotencyKey = ''k3'', in_cashierId = ''U'', in_branchId = ''B'',
     in_cardBarcode = ''sc-01'', in_receiptNumber = '' r-18'', in_receiptWeekStart = ''2024-02-26'',
     in_purchaseAmountKobo = 150025, in_occurredAtLocal = ''x'' \<rparr>"

text \<open>A world in which nobody else is there and the engine aborts every transaction.\<close>

definition demo_busy :: sync_world where
  "demo_busy = \<lparr> sw_others = (\<lambda>_ s. s), sw_sched = (\<lambda>_ d. (d, Some (PrismaKnownRequestError ''P2034'' [] ''conflict''))),
     sw_earnOthers = (\<lambda>_ d. d), sw_earnClk = (\<lambda>_. demo_now), sw_now = demo_now, sw_syncedAt = demo_now \<rparr>"

definition demo_sync :: sync_db where
  "demo_sync = \<lparr> sdb = demo_db, offlineSyncAttempts = [] \<rparr>"

abbreviation demo_policy :: OfflineSyncPolicy where
  "demo_policy \<equiv> getOfflineSyncPolicy demo_env"

abbreviation demo_process :: "sync_db \<Rightarrow> ((svc_error + OfflineEarnBatchRecordResult) \<times> sync_db) option" where
  "demo_process \<equiv> processRecord demo_env (\<lambda>_. demo_busy) ''T'' demo_cashier ''D'' demo_policy demo_record 2 0"

lemma demo_claim:
  "case sync_requestHash demo_env ''T'' ''D'' demo_record of
     Inl e \<Rightarrow> False
   | Inr h \<Rightarrow>
       (case sync_attempt demo_env ''T'' ''D'' demo_record h of
          Inl e \<Rightarrow> False
        | Inr row \<Rightarrow> offlineSyncAttempt_create row demo_sync = Inr \<lparr> sdb = demo_db, offlineSyncAttempts = [row] \<rparr>
            \<and> is_attempt ''T'' ''D'' ''L1'' row)"
  by code_simp

lemma demo_sync_device: "sync_check_device demo_env ''T'' ''D'' demo_record demo_now demo_db = Inr None"
proof -
  have "device_with_branch ''T'' ''D'' demo_db = Some (hd (devices demo_db), hd (branches demo_db))"
    "sync_deriveReceiptWeekStart demo_env demo_now ''Africa/Lagos'' 1 = Inr 1708905600000"
    "formatYmd 1708905600000 = ''2024-02-26''" "normalizeReceiptWeekStart ''2024-02-26'' = Inr ''2024-02-26''"
    by code_simp+
  then show ?thesis by (simp add: sync_check_device_def demo_record_def demo_db_def)
qed

lemma demo_sync_valid:
  assumes "sdb s = demo_db"
  shows "validateRecord demo_env demo_busy ''T'' demo_cashier ''D'' demo_policy demo_record s = (Inr None, s)"
proof -
  have "sync_checks_before demo_env demo_cashier demo_policy demo_record demo_now = Inr (None, demo_now)"
    "sync_check_card ''T'' demo_record demo_db = Inr None"
    by code_simp+
  with assms demo_sync_device show ?thesis by (simp add: validateRecord_def demo_busy_def Let_def)
qed

lemma demo_sync_earn:
  assumes "sdb s = demo_db"
  shows "sync_earn demo_env demo_busy ''T'' demo_cashier demo_record s
    = (sync_failure ''L1'' RETRYABLE ''EARN_TRANSACTION_CONFLICT'', s)"
proof -
  let ?dto = "\<lparr> edto_posReceiptNumber = ''r-18'', edto_cardSerialNumber = ''SC-01'', edto_purchaseAmountKobo = 150025,
      edto_occurredAt = toISOString demo_now, edto_overrideReason = None \<rparr>"
  let ?eq = "demo_eq\<lparr>eq_rawPosReceiptNumber := ''r-18''\<rparr>"
  have p: "dateParse demo_env v = Some demo_now" for v by (simp add: demo_env_def)
  have n: "sync_normalizeReceiptNumber '' r-18'' = Inr ''r-18''" "normalizeCardBarcode ''sc-01'' = Inr ''SC-01''"
    "earn_normalizeIdempotencyKey (Some ''k3'') = Inr ''k3''" "normalizeReceiptNumber ''r-18'' = Inr ''r-18''"
    "normalizeReceiptIdentity ''r-18'' = ''R-18''" "normalizeCardSerial ''SC-01'' = Inr ''SC-01''"
    by code_simp+
  have dto: "sync_earn_dto demo_env demo_record = Inr ?dto"
    by (simp add: sync_earn_dto_def demo_record_def n sync_parseDate_def p)
  have eq: "earn_prepare demo_env ''T'' demo_cashier (Some ''k3'') ?dto = Inr ?eq"
    by (simp add: earn_prepare_def n earn_parseDate_def p demo_eq_def demo_cashier_def json_opt_str_def opt_json_def
        undefined_str_def Let_def)
  have plan: "earn_checks_before demo_env ?eq (\<lambda>_. demo_now) demo_db = Inr demo_plan"
    proof -
    have "earn_checks_before demo_env ?eq (\<lambda>_. demo_now) demo_db = earn_checks_before demo_env demo_eq (\<lambda>_. demo_now) demo_db"
      by (simp add: earn_checks_before_def Let_def)
    moreover have "policyConfigurations demo_db = []" by (simp add: demo_db_def)
    ultimately show ?thesis by (simp add: demo_earn_checks_before)
  qed
  have i: "idempotencyRecords demo_db = []" by (simp add: demo_db_def)
  have c: "cleanupExpiredIdempotencyRecords ''T'' a e k n demo_db = demo_db" for a e k n
    by (rule cleanup_unexpired) (simp add: i)
  have l: "earn_lookup ?eq demo_db = Inr None" "findCompletedEarnReplay ?eq demo_db = None"
    by (simp_all add: earn_lookup_def findCompletedEarnReplay_def earn_record_def idempotencyRecord_findUnique_def i)
  have e: "\<not> earn_isUniqueIdempotencyConflict (PrismaKnownRequestError ''P2034'' [] ''conflict'')"
    "\<not> earn_isUniqueReceiptConflict (PrismaKnownRequestError ''P2034'' [] ''conflict'')"
    "isTransactionConflict (PrismaKnownRequestError ''P2034'' [] ''conflict'')"
    "readDomainCode earn_transaction_conflict = Some ''EARN_TRANSACTION_CONFLICT''"
    by code_simp+
  have "earn demo_env (sw_sched demo_busy) (sw_earnOthers demo_busy) (sw_earnClk demo_busy) ''T'' demo_cashier (Some ''k3'') ?dto demo_db
      = (Inl earn_transaction_conflict, demo_db)"
    by (simp add: earn_def eq c l plan demo_busy_def EARN_SERIALIZATION_RETRY_ATTEMPTS_def numeral_3_eq_3 earn_attempt_def
        earn_catch_def e)
  then show ?thesis using assms dto e(4)
    by (simp add: sync_earn_def demo_record_def mapEarnFailure_def)
qed

lemma demo_conflict:
  obtains s' where "demo_process demo_sync = Some (Inr (sync_failure ''L1'' RETRYABLE ''EARN_TRANSACTION_CONFLICT''), s')"
    and "sdb s' = demo_db"
proof -
  from demo_claim obtain h row where h: "sync_requestHash demo_env ''T'' ''D'' demo_record = Inr h"
    and row: "sync_attempt demo_env ''T'' ''D'' demo_record h = Inr row"
    and c: "offlineSyncAttempt_create row demo_sync = Inr \<lparr> sdb = demo_db, offlineSyncAttempts = [row] \<rparr>"
    and a: "is_attempt ''T'' ''D'' ''L1'' row"
    by (auto split: sum.split_asm)
  let ?s = "\<lparr> sdb = demo_db, offlineSyncAttempts = [row] \<rparr>"
  obtain s' where p: "persistResult ''T'' ''D'' ''L1'' (sync_failure ''L1'' RETRYABLE ''EARN_TRANSACTION_CONFLICT'') demo_now ?s
      = (Inr (sync_failure ''L1'' RETRYABLE ''EARN_TRANSACTION_CONFLICT''), s')"
    using a by (simp add: persistResult_def offlineSyncAttempt_update_def offlineSyncAttempt_findUnique_def)
  have o: "sw_others demo_busy i s = s" "sw_syncedAt demo_busy = demo_now" for i s by (simp_all add: demo_busy_def)
  have "process_claimed demo_env demo_busy ''T'' demo_cashier ''D'' demo_policy demo_record ?s
      = (Inr (sync_failure ''L1'' RETRYABLE ''EARN_TRANSACTION_CONFLICT''), s')"
    using p demo_sync_valid[of ?s] demo_sync_earn[of ?s] by (simp add: process_claimed_def o demo_record_def)
  moreover have "offlineSyncAttempt_findUnique ''T'' ''D'' l demo_sync = None" for l
    by (simp add: demo_sync_def offlineSyncAttempt_findUnique_def)
  ultimately have "demo_process demo_sync = Some (Inr (sync_failure ''L1'' RETRYABLE ''EARN_TRANSACTION_CONFLICT''), s')"
    by (simp add: numeral_2_eq_2 h row c o Let_def)
  with that persistResult_sdb[OF p] show thesis by simp
qed

lemma demo_busy_polite: "sync_sessions demo_env demo_busy" "keeps_attempts demo_busy"
  by (simp_all add: sync_sessions_def session_steps_def keeps_attempts_def demo_busy_def)

theorem earnBatch_refines_system_witness:
  "\<exists>r s'. earnBatch demo_env (\<lambda>_ _. demo_busy) ''T'' demo_cashier ''D'' [demo_record] 2 demo_sync = Some (r, s')
     \<and> (system_step demo_env)\<^sup>*\<^sup>* demo_db (sdb s')"
proof -
  obtain s' where p: "demo_process demo_sync = Some (Inr (sync_failure ''L1'' RETRYABLE ''EARN_TRANSACTION_CONFLICT''), s')"
    by (rule demo_conflict)
  have "sync_gate demo_env demo_cashier ''D'' (length [demo_record]) = Inr demo_policy" by code_simp
  with p have b: "earnBatch demo_env (\<lambda>_ _. demo_busy) ''T'' demo_cashier ''D'' [demo_record] 2 demo_sync
      = Some (Inr [sync_failure ''L1'' RETRYABLE ''EARN_TRANSACTION_CONFLICT''], s')"
    by (simp add: earnBatch_def del: processRecord.simps)
  from earnBatch_refines_system[OF demo_busy_polite(1) b] b show ?thesis by (auto simp: demo_sync_def)
qed

theorem offline_answer_final_witness:
  "\<exists>r s'. demo_process demo_sync = Some (Inr r, s') \<and> out_retryable r \<and> demo_process s' = Some (Inr r, s')
     \<and> sdb s' = demo_db"
proof -
  obtain s' where p: "demo_process demo_sync = Some (Inr (sync_failure ''L1'' RETRYABLE ''EARN_TRANSACTION_CONFLICT''), s')"
    and d: "sdb s' = demo_db"
    by (rule demo_conflict)
  from offline_answer_final[OF demo_busy_polite(2) p, of "\<lambda>_. demo_busy" demo_cashier demo_policy 1 0] p d
  show ?thesis by (simp add: sync_failure_def numeral_2_eq_2 del: processRecord.simps)
qed

theorem earnBatch_terminates_witness:
  "\<exists>r s'. earnBatch demo_env (\<lambda>_ _. demo_busy) ''T'' demo_cashier ''D'' [demo_record, demo_record] 2 demo_sync = Some (r, s')"
  using earnBatch_terminates[of "\<lambda>_ _. demo_busy" demo_env "''T''" demo_cashier "''D''" "[demo_record, demo_record]" 0 demo_sync]
    demo_busy_polite(2) by (simp add: numeral_2_eq_2 del: processRecord.simps)

end
