(* ===== verification/Outbox_Store.thy ===== *)
theory Outbox_Store
  imports Messages
begin

text \<open>
  What the worker of the outbox (\<^verbatim>\<open>src/jobs/outbox-worker.runtime.ts\<close>) reads and writes. The services
  create events and messages with the columns of \<open>OutboxEvent\<close> and \<open>SmsMessage\<close>; the worker adds the
  columns of delivery, which start from the defaults of the schema. The state is the database of the
  services, the delivery rows, the fraud flags, and the requests the SMS provider has received.
\<close>

datatype OutboxEventStatus = PENDING | QUEUED | PUBLISHED | COMPLETED | FAILED

record OutboxRow = OutboxEvent +
  obr_status :: OutboxEventStatus
  obr_attempts :: nat
  obr_publishedAt :: "int option"
  obr_processedAt :: "int option"
  obr_deadLetteredAt :: "int option"
  obr_failureCategory :: "string option"
  obr_createdAt :: int
  obr_updatedAt :: int

record SmsRow = SmsMessage +
  smr_cardId :: "string option"
  smr_attempts :: nat
  smr_providerMessageId :: "string option"
  smr_lastError :: "string option"
  smr_lastAttemptAt :: "int option"
  smr_nextAttemptAt :: "int option"
  smr_deadLetteredAt :: "int option"
  smr_failureCategory :: "string option"
  smr_sentAt :: "int option"
  smr_nextDeliveryReportPollAt :: "int option"
  smr_deliveredAt :: "int option"
  smr_failedAt :: "int option"
  smr_suppressedAt :: "int option"

datatype FraudSeverity = LOW | MEDIUM | HIGH

datatype FraudFlagStatus = OPEN | ACKNOWLEDGED | RESOLVED

datatype FraudSubjectType = RECEIPT | LEDGER_ENTRY | REDEMPTION

record FraudFlag =
  fl_tenantId :: string
  fl_ruleCode :: string
  fl_severity :: FraudSeverity
  fl_status :: FraudFlagStatus
  fl_dedupeKey :: string
  fl_subjectType :: FraudSubjectType
  fl_subjectId :: string
  fl_branchId :: "string option"
  fl_cashierId :: "string option"
  fl_customerId :: "string option"
  fl_receiptId :: "string option"
  fl_ledgerEntryId :: "string option"
  fl_redemptionId :: "string option"
  fl_windowStart :: int
  fl_windowEnd :: "int option"
  fl_firstDetectedAt :: int
  fl_lastDetectedAt :: int
  fl_occurrenceCount :: nat
  fl_evidence :: json

record outbox_db =
  obd :: db
  obd_events :: "OutboxRow list"
  obd_messages :: "SmsRow list"
  obd_flags :: "FraudFlag list"
  obd_submissions :: "(string \<times> string) list"

text \<open>The row an event or a message starts as.\<close>

definition new_event :: "int \<Rightarrow> OutboxEvent \<Rightarrow> OutboxRow" where
  "new_event now e = OutboxEvent.extend e
     (OutboxRow.fields OutboxEventStatus.PENDING 0 None None None None now now)"

definition new_message :: "string option \<Rightarrow> SmsMessage \<Rightarrow> SmsRow" where
  "new_message cardId m = SmsMessage.extend m
     (SmsRow.fields cardId 0 None None None None None None None None None None None)"

definition is_event :: "string \<Rightarrow> string \<Rightarrow> OutboxRow \<Rightarrow> bool" where
  "is_event tenantId i e = (ob_tenantId e = tenantId \<and> ob_id e = i)"

definition is_message :: "string \<Rightarrow> string \<Rightarrow> SmsRow \<Rightarrow> bool" where
  "is_message tenantId eventId m = (sms_tenantId m = tenantId \<and> sms_outboxEventId m = eventId)"

definition event_findUnique :: "string \<Rightarrow> string \<Rightarrow> outbox_db \<Rightarrow> OutboxRow option" where
  "event_findUnique tenantId i s = find (is_event tenantId i) (obd_events s)"

definition message_findUnique :: "string \<Rightarrow> string \<Rightarrow> outbox_db \<Rightarrow> SmsRow option" where
  "message_findUnique tenantId eventId s = find (is_message tenantId eventId) (obd_messages s)"

definition event_updateMany :: "(OutboxRow \<Rightarrow> bool) \<Rightarrow> (OutboxRow \<Rightarrow> OutboxRow) \<Rightarrow> outbox_db \<Rightarrow> outbox_db" where
  "event_updateMany p f s = s\<lparr>obd_events := updated p f (obd_events s)\<rparr>"

definition message_updateMany :: "(SmsRow \<Rightarrow> bool) \<Rightarrow> (SmsRow \<Rightarrow> SmsRow) \<Rightarrow> outbox_db \<Rightarrow> nat \<times> outbox_db" where
  "message_updateMany p f s = (count_where p (obd_messages s), s\<lparr>obd_messages := updated p f (obd_messages s)\<rparr>)"

text \<open>\<open>update\<close> of a row that is not there throws.\<close>

definition event_update :: "string \<Rightarrow> string \<Rightarrow> (OutboxRow \<Rightarrow> OutboxRow) \<Rightarrow> outbox_db \<Rightarrow> svc_error + outbox_db" where
  "event_update tenantId i f s =
     (if event_findUnique tenantId i s = None then Inl p2025 else Inr (event_updateMany (is_event tenantId i) f s))"

definition message_update :: "string \<Rightarrow> string \<Rightarrow> (SmsRow \<Rightarrow> SmsRow) \<Rightarrow> outbox_db \<Rightarrow> svc_error + outbox_db" where
  "message_update tenantId eventId f s =
     (if message_findUnique tenantId eventId s = None then Inl p2025
      else Inr (snd (message_updateMany (is_message tenantId eventId) f s)))"

end
