(* ===== verification/Fraud.thy ===== *)
theory Fraud
  imports Outbox_Store Reversals
begin

text \<open>
  The fraud rules (\<^verbatim>\<open>src/jobs/fraud-behavior.runtime.ts\<close>, \<^verbatim>\<open>src/jobs/branch-day-window.ts\<close> and the part of
  \<^verbatim>\<open>src/jobs/outbox-worker.runtime.ts\<close> that evaluates an event): an event the services left in the outbox is
  looked at once, the rules that apply give findings, and the findings are recorded as flags, one per
  deduplication key.
\<close>

subsection \<open>Findings\<close>

record FraudFinding =
  ff_ruleCode :: string
  ff_severity :: FraudSeverity
  ff_dedupeKey :: string
  ff_subjectType :: FraudSubjectType
  ff_subjectId :: string
  ff_windowStart :: int
  ff_windowEnd :: "int option"
  ff_branchId :: "string option"
  ff_cashierId :: "string option"
  ff_customerId :: "string option"
  ff_receiptId :: "string option"
  ff_ledgerEntryId :: "string option"
  ff_redemptionId :: "string option"
  ff_evidence :: json

text \<open>
  Columns of the rows that only these rules read: when a ledger entry, an audit entry (by its place in
  the log) was created, when a card was replaced; and the calendar of the database and of \<open>Intl\<close>: whether
  two times fall on one local day (\<open>AT TIME ZONE\<close>), and the local date and time.
\<close>

record fraud_columns =
  fc_ledgerCreatedAt :: "string \<Rightarrow> int"
  fc_auditCreatedAt :: "nat \<Rightarrow> int"
  fc_cardReplacedAt :: "string \<Rightarrow> int option"
  fc_sameLocalDay :: "string \<Rightarrow> int \<Rightarrow> int \<Rightarrow> bool"
  fc_localDateTime :: "string \<Rightarrow> int \<Rightarrow> int \<times> int \<times> int \<times> int \<times> int \<times> int"

definition fraud_dedupeKey :: "string \<Rightarrow> string \<Rightarrow> string" where
  "fraud_dedupeKey ruleCode subjectId = ruleCode @ '':'' @ subjectId"

definition dayKey :: "int \<Rightarrow> string" where
  "dayKey t = take 10 (toISOString t)"

subsection \<open>The day of a branch\<close>

fun local_midnight_loop :: "(int \<Rightarrow> int \<times> int \<times> int \<times> int \<times> int \<times> int) \<Rightarrow> int \<Rightarrow> nat \<Rightarrow> int \<Rightarrow> int" where
  "local_midnight_loop parts target 0 guess = guess"
| "local_midnight_loop parts target (Suc left) guess =
     (case parts guess of (year, month, day, hour, minute, second) \<Rightarrow>
        let delta = date_UTC year (month - 1) day hour minute second 0 - target in
        if delta = 0 then guess else local_midnight_loop parts target left (guess - delta))"

definition localMidnightUtc :: "fraud_columns \<Rightarrow> string \<Rightarrow> int \<Rightarrow> int \<Rightarrow> int \<Rightarrow> int" where
  "localMidnightUtc fc timeZone year month day =
     (let target = date_UTC year (month - 1) day 0 0 0 0 in
      local_midnight_loop (fc_localDateTime fc timeZone) target 8 target)"

definition branchDayWindow :: "env \<Rightarrow> fraud_columns \<Rightarrow> int \<Rightarrow> string \<Rightarrow> int \<times> int" where
  "branchDayWindow env fc reference timeZone =
     (case (case tzDate env timeZone reference of None \<Rightarrow> (0, 0, 0) | Some p \<Rightarrow> p) of (year, month, day) \<Rightarrow>
        let nextDay = date_UTC year (month - 1) (day + 1) 0 0 0 0 in
        (localMidnightUtc fc timeZone year month day,
         localMidnightUtc fc timeZone (getUTCFullYear nextDay) (getUTCMonth nextDay + 1) (getUTCDate nextDay)))"

subsection \<open>The rules\<close>

definition window_evidence :: "(string \<times> json) list \<Rightarrow> int \<Rightarrow> int \<Rightarrow> json" where
  "window_evidence entries windowStart windowEnd =
     JObj (entries @ [(''windowStart'', json_date windowStart), (''windowEnd'', json_date windowEnd)])"

definition evaluateCardFrequency ::
  "env \<Rightarrow> string \<Rightarrow> string \<Rightarrow> string \<Rightarrow> string \<Rightarrow> int \<Rightarrow> int \<Rightarrow> int \<Rightarrow> FraudFinding list" where
  "evaluateCardFrequency env branchId cardId customerId receiptId countInLocalDay windowStart windowEnd =
     (let threshold = config_or env ''FRAUD_CARD_DAILY_COUNT_THRESHOLD'' 5 in
      if countInLocalDay < threshold then []
      else [\<lparr> ff_ruleCode = ''FR-CARD-001'', ff_severity = MEDIUM,
              ff_dedupeKey = fraud_dedupeKey ''FR-CARD-001'' (cardId @ '':'' @ dayKey windowStart),
              ff_subjectType = RECEIPT, ff_subjectId = cardId, ff_windowStart = windowStart,
              ff_windowEnd = Some windowEnd, ff_branchId = Some branchId, ff_cashierId = None,
              ff_customerId = Some customerId, ff_receiptId = Some receiptId, ff_ledgerEntryId = None,
              ff_redemptionId = None,
              ff_evidence = window_evidence [(''countInLocalDay'', JNum countInLocalDay), (''threshold'', JNum threshold)]
                windowStart windowEnd \<rparr>])"

definition cashier_ratioBps :: "int \<Rightarrow> int \<Rightarrow> int" where
  "cashier_ratioBps cashierValueKobo peerMedianValueKobo =
     (if peerMedianValueKobo = 0 then 0 else bigint_div (cashierValueKobo * 10000) peerMedianValueKobo)"

definition evaluateCashierAnomaly ::
  "env \<Rightarrow> string \<Rightarrow> string \<Rightarrow> int \<Rightarrow> int \<Rightarrow> int \<Rightarrow> int \<Rightarrow> int \<Rightarrow> int \<Rightarrow> FraudFinding list" where
  "evaluateCashierAnomaly env branchId cashierId cashierCount cashierValueKobo peerMedianValueKobo sampleSize
      windowStart windowEnd =
     (let threshold = config_or env ''FRAUD_CASHIER_VALUE_RATIO_THRESHOLD_BPS'' 15000;
          ratioBps = cashier_ratioBps cashierValueKobo peerMedianValueKobo in
      if sampleSize < config_or env ''FRAUD_CASHIER_MIN_SAMPLE_SIZE'' 5 then []
      else if ratioBps \<le> threshold then []
      else [\<lparr> ff_ruleCode = ''FR-CASH-001'', ff_severity = MEDIUM,
              ff_dedupeKey = fraud_dedupeKey ''FR-CASH-001'' (branchId @ '':'' @ cashierId @ '':'' @ dayKey windowStart),
              ff_subjectType = RECEIPT, ff_subjectId = cashierId, ff_windowStart = windowStart,
              ff_windowEnd = Some windowEnd, ff_branchId = Some branchId, ff_cashierId = Some cashierId,
              ff_customerId = None, ff_receiptId = None, ff_ledgerEntryId = None, ff_redemptionId = None,
              ff_evidence = window_evidence
                [(''sampleSize'', JNum sampleSize), (''cashierCount'', JNum cashierCount),
                 (''cashierValueKobo'', JStr (show_int cashierValueKobo)),
                 (''peerMedianValueKobo'', JStr (show_int peerMedianValueKobo)),
                 (''ratioBps'', JStr (show_int ratioBps)), (''thresholdBps'', JNum threshold)] windowStart windowEnd \<rparr>])"

definition evaluateRoundedValues ::
  "env \<Rightarrow> string \<Rightarrow> string \<Rightarrow> string \<Rightarrow> int \<Rightarrow> int \<Rightarrow> int \<Rightarrow> int \<Rightarrow> int \<Rightarrow> FraudFinding list" where
  "evaluateRoundedValues env branchId cashierId receiptId roundedCount sampleSize unitKobo windowStart windowEnd =
     (let minSampleSize = config_or env ''FRAUD_ROUNDED_VALUE_MIN_SAMPLE'' 5 in
      if sampleSize < minSampleSize \<or> roundedCount < minSampleSize then []
      else [\<lparr> ff_ruleCode = ''FR-ROUND-001'', ff_severity = LOW,
              ff_dedupeKey = fraud_dedupeKey ''FR-ROUND-001'' (branchId @ '':'' @ cashierId @ '':'' @ dayKey windowStart),
              ff_subjectType = RECEIPT, ff_subjectId = receiptId, ff_windowStart = windowStart,
              ff_windowEnd = Some windowEnd, ff_branchId = Some branchId, ff_cashierId = Some cashierId,
              ff_customerId = None, ff_receiptId = Some receiptId, ff_ledgerEntryId = None, ff_redemptionId = None,
              ff_evidence = window_evidence
                [(''roundedCount'', JNum roundedCount), (''sampleSize'', JNum sampleSize),
                 (''unitKobo'', JStr (show_int unitKobo))] windowStart windowEnd \<rparr>])"

definition evaluateReversalFrequency ::
  "env \<Rightarrow> string \<Rightarrow> string \<Rightarrow> int \<Rightarrow> int \<Rightarrow> int \<Rightarrow> FraudFinding list" where
  "evaluateReversalFrequency env branchId cashierId reversalCount windowStart windowEnd =
     (let threshold = config_or env ''FRAUD_REVERSAL_COUNT_THRESHOLD'' 3 in
      if reversalCount < threshold then []
      else [\<lparr> ff_ruleCode = ''FR-REV-001'', ff_severity = MEDIUM,
              ff_dedupeKey = fraud_dedupeKey ''FR-REV-001'' (branchId @ '':'' @ cashierId @ '':'' @ dayKey windowStart),
              ff_subjectType = LEDGER_ENTRY, ff_subjectId = cashierId, ff_windowStart = windowStart,
              ff_windowEnd = Some windowEnd, ff_branchId = Some branchId, ff_cashierId = Some cashierId,
              ff_customerId = None, ff_receiptId = None, ff_ledgerEntryId = None, ff_redemptionId = None,
              ff_evidence = window_evidence [(''reversalCount'', JNum reversalCount), (''threshold'', JNum threshold)]
                windowStart windowEnd \<rparr>])"

definition evaluateCardReplacementFrequency ::
  "env \<Rightarrow> string \<Rightarrow> string \<Rightarrow> string \<Rightarrow> int \<Rightarrow> int \<Rightarrow> int \<Rightarrow> FraudFinding list" where
  "evaluateCardReplacementFrequency env branchId customerId cardId replacementCount windowStart windowEnd =
     (let threshold = config_or env ''FRAUD_CARD_REPLACEMENT_COUNT_THRESHOLD'' 3 in
      if replacementCount < threshold then []
      else [\<lparr> ff_ruleCode = ''FR-REPL-001'', ff_severity = MEDIUM,
              ff_dedupeKey = fraud_dedupeKey ''FR-REPL-001'' (customerId @ '':'' @ dayKey windowStart),
              ff_subjectType = RECEIPT, ff_subjectId = cardId, ff_windowStart = windowStart,
              ff_windowEnd = Some windowEnd, ff_branchId = Some branchId, ff_cashierId = None,
              ff_customerId = Some customerId, ff_receiptId = Some cardId, ff_ledgerEntryId = None, ff_redemptionId = None,
              ff_evidence = window_evidence
                [(''replacementCount'', JNum replacementCount), (''threshold'', JNum threshold)] windowStart windowEnd \<rparr>])"

definition evaluateAuthFailuresRule :: "env \<Rightarrow> string \<Rightarrow> int \<Rightarrow> int \<Rightarrow> int \<Rightarrow> FraudFinding list" where
  "evaluateAuthFailuresRule env userId failureCount windowStart windowEnd =
     (let threshold = config_or env ''FRAUD_AUTH_FAILURE_COUNT_THRESHOLD'' 5 in
      if failureCount < threshold then []
      else [\<lparr> ff_ruleCode = ''FR-AUTH-001'', ff_severity = HIGH,
              ff_dedupeKey = fraud_dedupeKey ''FR-AUTH-001'' (userId @ '':'' @ dayKey windowStart),
              ff_subjectType = RECEIPT, ff_subjectId = userId, ff_windowStart = windowStart,
              ff_windowEnd = Some windowEnd, ff_branchId = None, ff_cashierId = None,
              ff_customerId = None, ff_receiptId = None, ff_ledgerEntryId = None, ff_redemptionId = None,
              ff_evidence = window_evidence
                [(''failureCount'', JNum failureCount), (''threshold'', JNum threshold)] windowStart windowEnd \<rparr>])"

subsection \<open>The counts behind the rules\<close>

definition countReceiptFrequency :: "fraud_columns \<Rightarrow> Receipt \<Rightarrow> string \<Rightarrow> db \<Rightarrow> int" where
  "countReceiptFrequency fc r timezone d =
     int (count_where (\<lambda>x. rc_tenantId x = rc_tenantId r \<and> rc_cardId x = rc_cardId r
       \<and> fc_sameLocalDay fc timezone (rc_occurredAt x) (rc_occurredAt r)) (receipts d))"

definition branch_day_receipts :: "fraud_columns \<Rightarrow> Receipt \<Rightarrow> string \<Rightarrow> db \<Rightarrow> Receipt list" where
  "branch_day_receipts fc r timezone d =
     filter (\<lambda>x. rc_tenantId x = rc_tenantId r \<and> rc_branchId x = rc_branchId r
       \<and> fc_sameLocalDay fc timezone (rc_occurredAt x) (rc_occurredAt r)) (receipts d)"

definition cashier_rows :: "Receipt list \<Rightarrow> (string \<times> int \<times> int) list" where
  "cashier_rows rs = map (\<lambda>c. (c, int (count_where (\<lambda>x. rc_capturedBy x = c) rs),
     sum_where (\<lambda>x. rc_capturedBy x = c) rc_purchaseAmountKobo rs)) (remdups (map rc_capturedBy rs))"

text \<open>The middle of the sorted values, or the truncated mean of the two in the middle.\<close>

definition medianBigInt :: "int list \<Rightarrow> int" where
  "medianBigInt vs =
     (let sorted = sort vs; middle = length vs div 2 in
      if vs = [] then 0
      else if odd (length vs) then sorted ! middle
      else bigint_div (sorted ! (middle - 1) + sorted ! middle) 2)"

definition loadCashierMetrics :: "env \<Rightarrow> fraud_columns \<Rightarrow> Receipt \<Rightarrow> string \<Rightarrow> db \<Rightarrow> int \<times> int \<times> int" where
  "loadCashierMetrics env fc r timezone d =
     (let rows = cashier_rows (branch_day_receipts fc r timezone d);
          current = find (\<lambda>(c, _). c = rc_capturedBy r) rows;
          peers = map (\<lambda>(_, n, v). bigint_div v n)
            (filter (\<lambda>(c, n, _). c \<noteq> rc_capturedBy r \<and> config_or env ''FRAUD_CASHIER_MIN_SAMPLE_SIZE'' 5 \<le> n) rows) in
      (case current of None \<Rightarrow> 0 | Some (_, n, _) \<Rightarrow> n,
       case current of None \<Rightarrow> 0 | Some (_, n, v) \<Rightarrow> if 0 < n then bigint_div v n else 0,
       medianBigInt peers))"

definition roundedValueUnitKobo :: "env \<Rightarrow> int" where
  "roundedValueUnitKobo env = config_or env ''FRAUD_ROUNDED_VALUE_UNIT_KOBO'' 1000"

definition loadRoundedReceiptCounts :: "env \<Rightarrow> fraud_columns \<Rightarrow> Receipt \<Rightarrow> string \<Rightarrow> db \<Rightarrow> int \<times> int" where
  "loadRoundedReceiptCounts env fc r timezone d =
     (let rs = filter (\<lambda>x. rc_capturedBy x = rc_capturedBy r) (branch_day_receipts fc r timezone d) in
      (int (count_where (\<lambda>x. rc_purchaseAmountKobo x mod roundedValueUnitKobo env = 0) rs), int (length rs)))"

definition evaluateReceiptBehavior :: "env \<Rightarrow> fraud_columns \<Rightarrow> string \<Rightarrow> string \<Rightarrow> db \<Rightarrow> FraudFinding list" where
  "evaluateReceiptBehavior env fc tenantId receiptId d =
     (case find (\<lambda>r. rc_tenantId r = tenantId \<and> rc_id r = receiptId) (receipts d) of
        None \<Rightarrow> []
      | Some r \<Rightarrow>
          (case find (\<lambda>b. br_tenantId b = rc_tenantId r \<and> br_id b = rc_branchId r) (branches d) of
             None \<Rightarrow> []
           | Some b \<Rightarrow>
               (case (branchDayWindow env fc (rc_occurredAt r) (br_timezone b), loadCashierMetrics env fc r (br_timezone b) d,
                      loadRoundedReceiptCounts env fc r (br_timezone b) d) of
                  ((windowStart, windowEnd), (cashierCount, cashierValue, peerMedian), (roundedCount, sampleSize)) \<Rightarrow>
                    evaluateCardFrequency env (rc_branchId r) (rc_cardId r) (rc_customerId r) (rc_id r)
                      (countReceiptFrequency fc r (br_timezone b) d) windowStart windowEnd
                    @ evaluateCashierAnomaly env (rc_branchId r) (rc_capturedBy r) cashierCount cashierValue peerMedian
                        cashierCount windowStart windowEnd
                    @ evaluateRoundedValues env (rc_branchId r) (rc_capturedBy r) (rc_id r) roundedCount sampleSize
                        (roundedValueUnitKobo env) windowStart windowEnd)))"

definition within :: "int \<Rightarrow> int \<Rightarrow> int \<Rightarrow> bool" where
  "within windowStart windowEnd t = (windowStart \<le> t \<and> t < windowEnd)"

definition evaluateCardReplacementBehavior ::
  "env \<Rightarrow> fraud_columns \<Rightarrow> string \<Rightarrow> string \<Rightarrow> int \<Rightarrow> int \<Rightarrow> db \<Rightarrow> FraudFinding list" where
  "evaluateCardReplacementBehavior env fc tenantId cardId windowStart windowEnd d =
     (case find (\<lambda>c. cd_tenantId c = tenantId \<and> cd_id c = cardId) (cards d) of
        None \<Rightarrow> []
      | Some crd \<Rightarrow>
          (case find (\<lambda>u. cu_tenantId u = cd_tenantId crd \<and> cu_id u = cd_customerId crd) (customers d) of
             None \<Rightarrow> []
           | Some customer \<Rightarrow>
               evaluateCardReplacementFrequency env (cu_branchId customer) (cd_customerId crd) (cd_id crd)
                 (int (count_where (\<lambda>c. cd_tenantId c = tenantId \<and> cd_customerId c = cd_customerId crd
                    \<and> (case fc_cardReplacedAt fc (cd_id c) of None \<Rightarrow> False | Some t \<Rightarrow> within windowStart windowEnd t)) (cards d)))
                 windowStart windowEnd))"

definition reversals_by :: "fraud_columns \<Rightarrow> string \<Rightarrow> string \<Rightarrow> int \<Rightarrow> int \<Rightarrow> db \<Rightarrow> int" where
  "reversals_by fc tenantId actorId windowStart windowEnd d =
     int (count_where (\<lambda>e. le_tenantId e = tenantId \<and> le_createdBy e = actorId \<and> le_reversesEntryId e \<noteq> None
       \<and> within windowStart windowEnd (fc_ledgerCreatedAt fc (le_id e))) (ledgerEntries d))"

definition evaluateReversalBehavior ::
  "env \<Rightarrow> fraud_columns \<Rightarrow> string \<Rightarrow> string \<Rightarrow> string \<Rightarrow> int \<Rightarrow> int \<Rightarrow> db \<Rightarrow> FraudFinding list" where
  "evaluateReversalBehavior env fc tenantId branchId cashierId windowStart windowEnd d =
     evaluateReversalFrequency env branchId cashierId (reversals_by fc tenantId cashierId windowStart windowEnd d)
       windowStart windowEnd"

definition evaluateAuthFailures ::
  "env \<Rightarrow> fraud_columns \<Rightarrow> string \<Rightarrow> string \<Rightarrow> int \<Rightarrow> int \<Rightarrow> db \<Rightarrow> FraudFinding list" where
  "evaluateAuthFailures env fc tenantId userId windowStart windowEnd d =
     (case find (\<lambda>u. us_tenantId u = tenantId \<and> us_id u = userId) (users d) of
        None \<Rightarrow> []
      | Some _ \<Rightarrow>
          evaluateAuthFailuresRule env userId
            (int (count_where (\<lambda>(i, a). au_tenantId a = tenantId \<and> au_actorId a = Some userId
               \<and> au_action a = ''auth.login.failed'' \<and> within windowStart windowEnd (fc_auditCreatedAt fc i))
               (enumerate 0 (auditLogs d))))
            windowStart windowEnd)"

subsection \<open>Recording findings\<close>

definition is_flag :: "string \<Rightarrow> string \<Rightarrow> FraudFlag \<Rightarrow> bool" where
  "is_flag tenantId key f = (fl_tenantId f = tenantId \<and> fl_dedupeKey f = key)"

definition new_flag :: "string \<Rightarrow> int \<Rightarrow> FraudFinding \<Rightarrow> FraudFlag" where
  "new_flag tenantId now x =
     \<lparr> fl_tenantId = tenantId, fl_ruleCode = ff_ruleCode x, fl_severity = ff_severity x, fl_status = OPEN,
       fl_dedupeKey = ff_dedupeKey x, fl_subjectType = ff_subjectType x, fl_subjectId = ff_subjectId x,
       fl_branchId = ff_branchId x, fl_cashierId = ff_cashierId x, fl_customerId = ff_customerId x,
       fl_receiptId = ff_receiptId x, fl_ledgerEntryId = ff_ledgerEntryId x, fl_redemptionId = ff_redemptionId x,
       fl_windowStart = ff_windowStart x, fl_windowEnd = ff_windowEnd x, fl_firstDetectedAt = now,
       fl_lastDetectedAt = now, fl_occurrenceCount = 1, fl_evidence = ff_evidence x \<rparr>"

definition seen_again :: "int \<Rightarrow> FraudFinding \<Rightarrow> FraudFlag \<Rightarrow> FraudFlag" where
  "seen_again now x f =
     f\<lparr>fl_ruleCode := ff_ruleCode x, fl_severity := ff_severity x, fl_subjectType := ff_subjectType x,
       fl_subjectId := ff_subjectId x, fl_branchId := ff_branchId x, fl_cashierId := ff_cashierId x,
       fl_customerId := ff_customerId x, fl_receiptId := ff_receiptId x, fl_ledgerEntryId := ff_ledgerEntryId x,
       fl_redemptionId := ff_redemptionId x, fl_windowStart := ff_windowStart x, fl_windowEnd := ff_windowEnd x,
       fl_lastDetectedAt := now, fl_occurrenceCount := fl_occurrenceCount f + 1, fl_evidence := ff_evidence x\<rparr>"

definition upsert_finding :: "string \<Rightarrow> int \<Rightarrow> FraudFinding \<Rightarrow> FraudFlag list \<Rightarrow> FraudFlag list" where
  "upsert_finding tenantId now x fs =
     (if find (is_flag tenantId (ff_dedupeKey x)) fs = None then fs @ [new_flag tenantId now x]
      else updated (is_flag tenantId (ff_dedupeKey x)) (seen_again now x) fs)"

definition recordFraudFindings :: "string \<Rightarrow> int \<Rightarrow> FraudFinding list \<Rightarrow> outbox_db \<Rightarrow> outbox_db" where
  "recordFraudFindings tenantId now xs s = s\<lparr>obd_flags := fold (upsert_finding tenantId now) xs (obd_flags s)\<rparr>"

subsection \<open>Evaluating an event\<close>

definition normalizeJsonPayload :: "json \<Rightarrow> json" where
  "normalizeJsonPayload payload = (case payload of JObj _ \<Rightarrow> payload | _ \<Rightarrow> JObj [(''value'', payload)])"

definition string_or :: "json \<Rightarrow> string \<Rightarrow> string \<Rightarrow> string" where
  "string_or payload key fallback = (case json_get payload key of JStr v \<Rightarrow> v | _ \<Rightarrow> fallback)"

definition readOutboxOccurredAt :: "env \<Rightarrow> json \<Rightarrow> int \<Rightarrow> int" where
  "readOutboxOccurredAt env payload now =
     (case json_get payload ''occurredAt'' of
        JStr v \<Rightarrow> (case dateParse env v of Some t \<Rightarrow> t | None \<Rightarrow> now)
      | _ \<Rightarrow> now)"

definition threshold_finding ::
  "string \<Rightarrow> FraudSeverity \<Rightarrow> Receipt \<Rightarrow> int \<Rightarrow> FraudFinding" where
  "threshold_finding ruleCode severity r threshold =
     \<lparr> ff_ruleCode = ruleCode, ff_severity = severity, ff_dedupeKey = fraud_dedupeKey ruleCode (rc_id r),
       ff_subjectType = RECEIPT, ff_subjectId = rc_id r, ff_windowStart = rc_receiptWeekStart r, ff_windowEnd = None,
       ff_branchId = Some (rc_branchId r), ff_cashierId = Some (rc_capturedBy r), ff_customerId = Some (rc_customerId r),
       ff_receiptId = Some (rc_id r), ff_ledgerEntryId = None, ff_redemptionId = None,
       ff_evidence = JObj [(''purchaseAmountKobo'', JStr (show_int (rc_purchaseAmountKobo r))), (''thresholdKobo'', JNum threshold),
         (''normalizedPosReceiptNumber'', JStr (rc_normalizedPosReceiptNumber r)), (''occurredAt'', json_date (rc_occurredAt r))] \<rparr>"

definition receipt_findings :: "env \<Rightarrow> fraud_columns \<Rightarrow> Receipt \<Rightarrow> db \<Rightarrow> FraudFinding list" where
  "receipt_findings env fc r d =
     (let flag = config_or env ''PURCHASE_FLAG_THRESHOLD_KOBO'' 10000000;
          approval = config_or env ''PURCHASE_APPROVAL_THRESHOLD_KOBO'' 20000000 in
      (if rc_purchaseAmountKobo r > flag then [threshold_finding ''FR-HV-001'' MEDIUM r flag] else [])
      @ (if rc_purchaseAmountKobo r > approval then [threshold_finding ''FR-HV-002'' HIGH r approval] else [])
      @ evaluateReceiptBehavior env fc (rc_tenantId r) (rc_id r) d)"

definition redemption_findings :: "env \<Rightarrow> Redemption \<Rightarrow> FraudFinding list" where
  "redemption_findings env r =
     (let threshold = config_or env ''REDEMPTION_APPROVAL_THRESHOLD_KOBO'' 500000 in
      if rd_requestedAmountKobo r > threshold
      then [\<lparr> ff_ruleCode = ''FR-HV-003'', ff_severity = HIGH, ff_dedupeKey = fraud_dedupeKey ''FR-HV-003'' (rd_id r),
              ff_subjectType = REDEMPTION, ff_subjectId = rd_id r, ff_windowStart = rd_requestedAt r, ff_windowEnd = None,
              ff_branchId = Some (rd_branchId r), ff_cashierId = Some (rd_requestedBy r),
              ff_customerId = Some (rd_customerId r), ff_receiptId = Some (rd_receiptId r), ff_ledgerEntryId = None,
              ff_redemptionId = Some (rd_id r),
              ff_evidence = JObj [(''requestedAmountKobo'', JStr (show_int (rd_requestedAmountKobo r))),
                (''thresholdKobo'', JNum threshold), (''occurredAt'', json_date (rd_requestedAt r))] \<rparr>]
      else [])"

definition duplicate_finding :: "env \<Rightarrow> string \<Rightarrow> json \<Rightarrow> int \<Rightarrow> svc_error + FraudFinding" where
  "duplicate_finding env aggregateId payload now =
     (let branchId = string_or payload ''branchId'' [];
          week = string_or payload ''receiptWeekStart'' (toISOString now);
          receiptId = string_or payload ''originalReceiptId'' aggregateId in
      case dateParse env week of
        None \<Rightarrow> Inl (PlainError ''Invalid value for argument windowStart: Provided Date object is invalid'')
      | Some start \<Rightarrow>
          Inr \<lparr> ff_ruleCode = ''FR-DUP-001'', ff_severity = HIGH,
                ff_dedupeKey = fraud_dedupeKey ''FR-DUP-001''
                  (branchId @ '':'' @ string_or payload ''normalizedPosReceiptNumber'' [] @ '':'' @ week),
                ff_subjectType = RECEIPT, ff_subjectId = receiptId, ff_windowStart = start, ff_windowEnd = None,
                ff_branchId = Some branchId, ff_cashierId = Some (string_or payload ''cashierId'' []),
                ff_customerId = Some (string_or payload ''customerId'' []), ff_receiptId = Some receiptId,
                ff_ledgerEntryId = None, ff_redemptionId = None, ff_evidence = payload \<rparr>)"

definition reversal_actor :: "json \<Rightarrow> string \<Rightarrow> string" where
  "reversal_actor payload aggregateId = string_or payload ''actorId'' (string_or payload ''cashierId'' aggregateId)"

definition event_findings :: "env \<Rightarrow> fraud_columns \<Rightarrow> OutboxRow \<Rightarrow> int \<Rightarrow> db \<Rightarrow> svc_error + FraudFinding list" where
  "event_findings env fc e now d =
     (let payload = normalizeJsonPayload (ob_payload e); occurredAt = readOutboxOccurredAt env payload now in
      if ob_eventType e \<noteq> ''fraud.evaluate'' then Inr []
      else if json_get payload ''ruleCode'' = JStr ''FR-DUP-001''
      then map_sum (\<lambda>x. x) (\<lambda>x. [x]) (duplicate_finding env (ob_aggregateId e) payload now)
      else if ob_aggregateType e = ''receipt'' then
        (case find (\<lambda>r. rc_tenantId r = ob_tenantId e \<and> rc_id r = ob_aggregateId e) (receipts d) of
           None \<Rightarrow> Inl (PlainError (''Receipt '' @ ob_aggregateId e @ '' not found for fraud evaluation''))
         | Some r \<Rightarrow> Inr (receipt_findings env fc r d))
      else if ob_aggregateType e = ''redemption'' then
        (case find (\<lambda>r. rd_tenantId r = ob_tenantId e \<and> rd_id r = ob_aggregateId e) (redemptions d) of
           None \<Rightarrow> Inl (PlainError (''Redemption '' @ ob_aggregateId e @ '' not found for fraud evaluation''))
         | Some r \<Rightarrow> Inr (redemption_findings env r))
      else if ob_aggregateType e = ''card'' then
        Inr (evaluateCardReplacementBehavior env fc (ob_tenantId e) (string_or payload ''cardId'' (ob_aggregateId e))
               (occurredAt - 30 * 24 * 60 * 60 * 1000) occurredAt d)
      else if ob_aggregateType e = ''reversal'' then
        Inr (evaluateReversalBehavior env fc (ob_tenantId e) (string_or payload ''branchId'' [])
               (reversal_actor payload (ob_aggregateId e)) (occurredAt - 24 * 60 * 60 * 1000) occurredAt d)
      else if ob_aggregateType e = ''auth-user'' then
        Inr (evaluateAuthFailures env fc (ob_tenantId e) (string_or payload ''userId'' (ob_aggregateId e))
               (occurredAt - 15 * 60 * 1000) occurredAt d)
      else Inr [])"

text \<open>
  The whole event is one transaction that holds the lock of its row: a run that throws leaves nothing.
\<close>

definition processFraudEvaluationEvent ::
  "env \<Rightarrow> fraud_columns \<Rightarrow> string \<Rightarrow> string \<Rightarrow> int \<Rightarrow> outbox_db \<Rightarrow> svc_error + outbox_db" where
  "processFraudEvaluationEvent env fc tenantId i now s =
     (case event_findUnique tenantId i s of
        None \<Rightarrow> Inr s
      | Some latest \<Rightarrow>
          if obr_processedAt latest \<noteq> None \<or> obr_status latest = OutboxEventStatus.COMPLETED then Inr s
          else
            res_bind (event_update tenantId i (\<lambda>e. e\<lparr>obr_status := OutboxEventStatus.COMPLETED,
                obr_processedAt := Some now, ob_nextAttemptAt := None, obr_updatedAt := now\<rparr>) s) (\<lambda>s1.
            res_bind (event_findings env fc latest now (obd s1)) (\<lambda>findings.
            Inr (recordFraudFindings (ob_tenantId latest) now findings s1))))"

subsection \<open>Flags\<close>

definition flag_count :: "string \<Rightarrow> string \<Rightarrow> FraudFlag list \<Rightarrow> nat" where
  "flag_count t k fs = (case find (is_flag t k) fs of None \<Rightarrow> 0 | Some f \<Rightarrow> fl_occurrenceCount f)"

definition flag_status :: "string \<Rightarrow> string \<Rightarrow> FraudFlag list \<Rightarrow> FraudFlagStatus option" where
  "flag_status t k fs = map_option fl_status (find (is_flag t k) fs)"

definition flag_key :: "FraudFlag \<Rightarrow> string \<times> string" where
  "flag_key f = (fl_tenantId f, fl_dedupeKey f)"

lemma is_flag_key: "is_flag t k f \<longleftrightarrow> flag_key f = (t, k)"
  by (auto simp: is_flag_def flag_key_def)

lemma seen_again_key [simp]: "flag_key (seen_again now x f) = flag_key f" "fl_status (seen_again now x f) = fl_status f"
  "fl_occurrenceCount (seen_again now x f) = fl_occurrenceCount f + 1"
  by (simp_all add: flag_key_def seen_again_def)

lemma find_updated_flag:
  "find (is_flag t k) (updated (is_flag t' k') (seen_again now x) fs)
    = map_option (\<lambda>f. if (t, k) = (t', k') then seen_again now x f else f) (find (is_flag t k) fs)"
  by (induction fs) (auto simp: updated_def is_flag_key)

lemma find_append: "find p (xs @ ys) = (case find p xs of None \<Rightarrow> find p ys | Some x \<Rightarrow> Some x)"
  by (induction xs) auto

lemma new_flag_key [simp]: "is_flag t' k (new_flag t now x) \<longleftrightarrow> t' = t \<and> k = ff_dedupeKey x"
  "flag_key (new_flag t now x) = (t, ff_dedupeKey x)" "fl_status (new_flag t now x) = OPEN"
  "fl_occurrenceCount (new_flag t now x) = 1"
  by (auto simp: is_flag_def flag_key_def new_flag_def)

lemma upsert_finding_effect:
  shows "distinct (map flag_key fs) \<Longrightarrow> distinct (map flag_key (upsert_finding t now x fs))"
    and "flag_count t' k (upsert_finding t now x fs)
      = flag_count t' k fs + (if t' = t \<and> ff_dedupeKey x = k then 1 else 0)"
    and "flag_status t' k fs \<noteq> None \<Longrightarrow> flag_status t' k (upsert_finding t now x fs) = flag_status t' k fs"
    and "flag_status t' k fs = None \<Longrightarrow> flag_status t' k (upsert_finding t now x fs)
      = (if t' = t \<and> ff_dedupeKey x = k then Some OPEN else None)"
proof -
  have "map flag_key (updated p (seen_again now x) fs) = map flag_key fs" for p by (simp add: updated_def)
  then show "distinct (map flag_key fs) \<Longrightarrow> distinct (map flag_key (upsert_finding t now x fs))"
    by (auto simp: upsert_finding_def find_None_iff is_flag_key)
  show "flag_count t' k (upsert_finding t now x fs) = flag_count t' k fs + (if t' = t \<and> ff_dedupeKey x = k then 1 else 0)"
    by (auto simp: upsert_finding_def flag_count_def find_updated_flag find_append split: option.split)
  show "flag_status t' k fs \<noteq> None \<Longrightarrow> flag_status t' k (upsert_finding t now x fs) = flag_status t' k fs"
    by (auto simp: upsert_finding_def flag_status_def find_updated_flag find_append split: option.split)
  show "flag_status t' k fs = None \<Longrightarrow> flag_status t' k (upsert_finding t now x fs)
      = (if t' = t \<and> ff_dedupeKey x = k then Some OPEN else None)"
    by (auto simp: upsert_finding_def flag_status_def find_updated_flag find_append split: option.split)
qed

text \<open>
  C31: however many findings come in, there is one flag per deduplication key; its count is the number
  of findings with that key, a flag that is there keeps its status, resolved or not, and a new one is open.
\<close>

theorem fraud_flags_deduplicated:
  assumes "distinct (map flag_key (obd_flags s))"
  shows "distinct (map flag_key (obd_flags (recordFraudFindings t now xs s)))
    \<and> flag_count t k (obd_flags (recordFraudFindings t now xs s))
        = flag_count t k (obd_flags s) + count_where (\<lambda>x. ff_dedupeKey x = k) xs
    \<and> flag_status t k (obd_flags (recordFraudFindings t now xs s))
        = (case flag_status t k (obd_flags s) of
             Some st \<Rightarrow> Some st
           | None \<Rightarrow> if count_where (\<lambda>x. ff_dedupeKey x = k) xs = 0 then None else Some OPEN)"
proof -
  have "distinct (map flag_key (fold (upsert_finding t now) xs fs))
    \<and> flag_count t k (fold (upsert_finding t now) xs fs) = flag_count t k fs + count_where (\<lambda>x. ff_dedupeKey x = k) xs
    \<and> flag_status t k (fold (upsert_finding t now) xs fs) = (case flag_status t k fs of
             Some st \<Rightarrow> Some st
           | None \<Rightarrow> if count_where (\<lambda>x. ff_dedupeKey x = k) xs = 0 then None else Some OPEN)"
    if "distinct (map flag_key fs)" for fs
    using that
  proof (induction xs arbitrary: fs)
    case (Cons x xs)
    from Cons.IH[OF upsert_finding_effect(1)[OF Cons.prems]] upsert_finding_effect(2-4)[where t' = t and k = k and t = t and now = now and x = x and fs = fs]
    show ?case
      by (auto simp: count_where_def split: option.split)
  qed (auto simp: count_where_def split: option.split)
  from this[OF assms] show ?thesis by (simp add: recordFraudFindings_def)
qed

subsection \<open>Redelivery\<close>

text \<open>
  C32: an event is evaluated once: after a run that committed, delivering the event again changes
  nothing, so no finding is counted twice because the queue repeats a job.
\<close>

theorem fraud_event_once:
  assumes "processFraudEvaluationEvent env fc tenantId i now s = Inr s'"
  shows "processFraudEvaluationEvent env' fc' tenantId i now' s' = Inr s'"
proof (cases "event_findUnique tenantId i s")
  case None
  with assms show ?thesis by (simp add: processFraudEvaluationEvent_def)
next
  case (Some latest)
  let ?f = "\<lambda>e. e\<lparr>obr_status := OutboxEventStatus.COMPLETED, obr_processedAt := Some now, ob_nextAttemptAt := None, obr_updatedAt := now\<rparr>"
  have u: "find (is_event tenantId i) (updated (is_event tenantId i) ?f xs) = map_option ?f (find (is_event tenantId i) xs)" for xs
    by (rule find_updated) (simp add: is_event_def)
  show ?thesis
  proof (cases "obr_processedAt latest \<noteq> None \<or> obr_status latest = OutboxEventStatus.COMPLETED")
    case True
    with assms Some show ?thesis by (auto simp: processFraudEvaluationEvent_def)
  next
    case False
    with assms Some have "event_findUnique tenantId i s' = Some (?f latest)"
      by (auto simp: processFraudEvaluationEvent_def res_bind_eq_Inr event_update_def event_updateMany_def
          recordFraudFindings_def event_findUnique_def u split: if_split_asm)
    then show ?thesis by (simp add: processFraudEvaluationEvent_def)
  qed
qed

subsection \<open>Reversals are not counted\<close>

text \<open>
  The event a reversal leaves for the rule on frequent reversals names no actor, so the rule looks
  for reversals made by a user whose id is that of the reversal entry. As no user has such an id, the
  count is zero and the rule stays silent, however many reversals the actor made.
\<close>

theorem reversal_rule_silent:
  assumes "persistReverseNotification env tenantId phone reversalId originalId receiptId occurredAt d = Inr ((), d')"
    and "e \<in> set (outboxEvents d')" and "e \<notin> set (outboxEvents d)" and "ob_eventType e = ''fraud.evaluate''"
    and "\<forall>x\<in>set (ledgerEntries d2). le_createdBy x \<noteq> reversalId"
    and "0 < config_or env2 ''FRAUD_REVERSAL_COUNT_THRESHOLD'' 3"
  shows "event_findings env2 fc (new_event created e) now d2 = Inr []"
proof -
  let ?payload = "JObj [(''kind'', JStr ''transaction.reversed''), (''reversalLedgerEntryId'', JStr reversalId),
      (''originalTransactionId'', JStr originalId), (''receiptId'', json_opt_str receiptId), (''occurredAt'', json_date occurredAt)]"
  have "ob_payload e = ?payload \<and> ob_aggregateType e = ''reversal'' \<and> ob_aggregateId e = reversalId"
    using assms(1-4)
    by (auto simp: persistReverseNotification_def Let_def tx_bind_eq_Inr tx_void_eq_Inr outboxEvent_create_def
        smsMessage_create_def create_row_eq_Inr)
  moreover have "ob_payload (new_event created e) = ob_payload e" "ob_aggregateType (new_event created e) = ob_aggregateType e"
    "ob_aggregateId (new_event created e) = ob_aggregateId e" "ob_eventType (new_event created e) = ob_eventType e"
    by (simp_all add: new_event_def OutboxEvent.defs)
  moreover have "reversals_by fc t reversalId a b d2 = 0" for t a b
    using assms(5) by (auto simp: reversals_by_def count_where_def filter_empty_conv)
  moreover have "reversal_actor ?payload reversalId = reversalId"
    by (simp add: reversal_actor_def string_or_def json_get_def)
  ultimately show ?thesis
    using assms(4,6)
    by (simp add: event_findings_def normalizeJsonPayload_def json_get_def evaluateReversalBehavior_def
        evaluateReversalFrequency_def Let_def)
qed

subsection \<open>The rules at the demonstration shop\<close>

definition demo_columns :: fraud_columns where
  "demo_columns = \<lparr> fc_ledgerCreatedAt = (\<lambda>_. demo_now), fc_auditCreatedAt = (\<lambda>_. demo_now), fc_cardReplacedAt = (\<lambda>_. None),
     fc_sameLocalDay = (\<lambda>_ t u. dayOf t = dayOf u), fc_localDateTime = (\<lambda>_ _. (2024, 2, 29, 0, 0, 0)) \<rparr>"

abbreviation demo_failures :: "FraudFinding list" where
  "demo_failures \<equiv> evaluateAuthFailuresRule demo_env ''U'' 7 0 900000"

definition demo_outbox :: "OutboxEvent list \<Rightarrow> outbox_db" where
  "demo_outbox es = \<lparr> obd = demo_db, obd_events = map (new_event demo_now) es, obd_messages = [], obd_flags = [],
     obd_submissions = [] \<rparr>"

theorem fraud_flags_deduplicated_witness:
  "flag_count ''T'' ''FR-AUTH-001:U:1970-01-01''
     (obd_flags (recordFraudFindings ''T'' demo_now (demo_failures @ demo_failures) (demo_outbox []))) = 2
   \<and> flag_status ''T'' ''FR-AUTH-001:U:1970-01-01''
     (obd_flags (recordFraudFindings ''T'' demo_now (demo_failures @ demo_failures) (demo_outbox []))) = Some OPEN"
proof -
  have k: "count_where (\<lambda>x. ff_dedupeKey x = ''FR-AUTH-001:U:1970-01-01'') (demo_failures @ demo_failures) = 2"
    by code_simp
  have e: "obd_flags (demo_outbox []) = []" by (simp add: demo_outbox_def)
  show ?thesis
    using fraud_flags_deduplicated[of "demo_outbox []" "''T''" demo_now "demo_failures @ demo_failures"
        "''FR-AUTH-001:U:1970-01-01''"]
    unfolding k e by (simp add: flag_count_def flag_status_def)
qed

definition demo_event :: OutboxEvent where
  "demo_event = \<lparr> ob_id = ''E'', ob_tenantId = ''T'', ob_aggregateType = ''auth-user'', ob_aggregateId = ''U'',
     ob_eventType = ''fraud.evaluate'', ob_payload = JObj [], ob_nextAttemptAt = None \<rparr>"

theorem fraud_event_once_witness:
  "\<exists>s'. processFraudEvaluationEvent demo_env demo_columns ''T'' ''E'' demo_now (demo_outbox [demo_event]) = Inr s'
     \<and> processFraudEvaluationEvent demo_env demo_columns ''T'' ''E'' (demo_now + 1) s' = Inr s'"
proof -
  have "case processFraudEvaluationEvent demo_env demo_columns ''T'' ''E'' demo_now (demo_outbox [demo_event]) of
      Inl e \<Rightarrow> False | Inr s' \<Rightarrow> True" by code_simp
  then obtain s' where s: "processFraudEvaluationEvent demo_env demo_columns ''T'' ''E'' demo_now (demo_outbox [demo_event]) = Inr s'"
    by (auto split: sum.split_asm)
  from fraud_event_once[OF s, of demo_env demo_columns "demo_now + 1"] s show ?thesis by blast
qed

theorem reversal_rule_silent_witness:
  "\<exists>d' e. persistReverseNotification demo_env ''T'' ''+2348000000000'' ''x9'' ''e1'' None demo_now demo_db = Inr ((), d')
     \<and> e \<in> set (outboxEvents d') \<and> event_findings demo_env demo_columns (new_event demo_now e) demo_now demo_db = Inr []"
proof -
  let ?run = "persistReverseNotification demo_env ''T'' ''+2348000000000'' ''x9'' ''e1'' None demo_now demo_db"
  have "case ?run of Inl e \<Rightarrow> False
    | Inr (u, d') \<Rightarrow> outboxEvents d' \<noteq> [] \<and> ob_eventType (hd (outboxEvents d')) = ''fraud.evaluate''"
    by code_simp
  then obtain d' where r: "?run = Inr ((), d')" and e: "outboxEvents d' \<noteq> []" "ob_eventType (hd (outboxEvents d')) = ''fraud.evaluate''"
    by (elim succeeds_caseE) auto
  have "\<forall>x\<in>set (ledgerEntries demo_db). le_createdBy x \<noteq> ''x9''" "outboxEvents demo_db = []"
    by (simp_all add: demo_db_def demo_entry_def)
  moreover have "0 < config_or demo_env ''FRAUD_REVERSAL_COUNT_THRESHOLD'' 3" by code_simp
  ultimately have "event_findings demo_env demo_columns (new_event demo_now (hd (outboxEvents d'))) demo_now demo_db = Inr []"
    using reversal_rule_silent[OF r hd_in_set[OF e(1)] _ e(2)] by simp
  with r e(1) show ?thesis by (meson hd_in_set)
qed

end
