(* ===== verification/Sms_Templates.thy ===== *)
theory Sms_Templates
  imports Messages Demo
begin

text \<open>
  Text messages (\<^verbatim>\<open>src/jobs/sms.templates.ts\<close>): the checks a stored payload has to pass before it is
  sent, and the text made from it. The builders the services use are in \<open>Messages\<close>; the two other
  builders are here. A payload is a JSON object; a check that throws is an \<open>Inl\<close>.
\<close>

subsection \<open>Reading a payload\<close>

datatype sms_error = SmsPayloadError string | SmsError string

definition sms_bind :: "sms_error + 'a \<Rightarrow> ('a \<Rightarrow> sms_error + 'b) \<Rightarrow> sms_error + 'b" where
  "sms_bind r f = (case r of Inl e \<Rightarrow> Inl e | Inr x \<Rightarrow> f x)"

definition readPayloadString :: "json \<Rightarrow> string \<Rightarrow> string option" where
  "readPayloadString payload key =
     (case json_get payload key of
        JStr v \<Rightarrow> if js_trim v = [] then None else Some (js_trim v)
      | _ \<Rightarrow> None)"

definition requirePayloadString :: "json \<Rightarrow> string \<Rightarrow> sms_error + string" where
  "requirePayloadString payload key =
     (case readPayloadString payload key of
        None \<Rightarrow> Inl (SmsPayloadError (''SMS payload is missing '' @ key))
      | Some v \<Rightarrow> Inr v)"

definition is_digit :: "char \<Rightarrow> bool" where
  "is_digit c = (48 \<le> (of_char c :: int) \<and> (of_char c :: int) \<le> 57)"

definition requirePayloadAmount :: "json \<Rightarrow> string \<Rightarrow> sms_error + string" where
  "requirePayloadAmount payload key =
     sms_bind (requirePayloadString payload key) (\<lambda>v.
     if list_all is_digit v then Inr v else Inl (SmsPayloadError (''SMS payload has an invalid '' @ key)))"

definition requirePayloadDateString :: "env \<Rightarrow> json \<Rightarrow> string \<Rightarrow> sms_error + string" where
  "requirePayloadDateString env payload key =
     sms_bind (requirePayloadString payload key) (\<lambda>v.
     if dateParse env v = None then Inl (SmsPayloadError (''SMS payload has an invalid '' @ key)) else Inr v)"

fun is_e164 :: "string \<Rightarrow> bool" where
  "is_e164 (p # c # ds) = (p = CHR ''+'' \<and> is_digit c \<and> c \<noteq> CHR ''0'' \<and> 7 \<le> length ds \<and> length ds \<le> 14
     \<and> list_all is_digit ds)"
| "is_e164 _ = False"

definition requirePayloadPhone :: "json \<Rightarrow> sms_error + unit" where
  "requirePayloadPhone payload =
     (case readPayloadString payload ''phoneE164'' of
        None \<Rightarrow> Inl (SmsPayloadError ''SMS payload has an invalid phoneE164'')
      | Some p \<Rightarrow> if is_e164 p then Inr () else Inl (SmsPayloadError ''SMS payload has an invalid phoneE164''))"

definition requirePayloadTemplate :: "json \<Rightarrow> string \<Rightarrow> sms_error + unit" where
  "requirePayloadTemplate payload expected =
     (if json_get payload ''version'' \<noteq> JNum 1 then Inl (SmsPayloadError ''SMS payload version must be 1'')
      else if readPayloadString payload ''template'' \<noteq> Some expected
      then Inl (SmsPayloadError (expected @ '' payload has an invalid or missing template''))
      else Inr ())"

fun sms_all :: "(sms_error + unit) list \<Rightarrow> sms_error + unit" where
  "sms_all [] = Inr ()"
| "sms_all (c # cs) = (case c of Inl e \<Rightarrow> Inl e | Inr _ \<Rightarrow> sms_all cs)"

definition sms_void :: "sms_error + 'a \<Rightarrow> sms_error + unit" where
  "sms_void r = map_sum (\<lambda>e. e) (\<lambda>_. ()) r"

text \<open>A field that may be absent or \<open>null\<close> and is checked otherwise.\<close>

definition nullish :: "json \<Rightarrow> bool" where
  "nullish j = (j = JUndefined \<or> j = JNull)"

definition if_given :: "json \<Rightarrow> string \<Rightarrow> (json \<Rightarrow> string \<Rightarrow> sms_error + string) \<Rightarrow> sms_error + unit" where
  "if_given payload key check = (if nullish (json_get payload key) then Inr () else sms_void (check payload key))"

subsection \<open>The checks of each template\<close>

text \<open>
  An amount that passed its check is a nonempty string, so the tests for empty amounts that follow it
  in \<open>assertEarnConfirmedPayload\<close> and \<open>assertRedemptionConfirmedPayload\<close> never throw.
\<close>

definition assertEarnConfirmedPayload :: "json \<Rightarrow> sms_error + unit" where
  "assertEarnConfirmedPayload p =
     sms_all [requirePayloadTemplate p ''earn-confirmed'', sms_void (requirePayloadString p ''receiptId''),
       sms_void (requirePayloadString p ''transactionId''), sms_void (requirePayloadString p ''customerId''),
       requirePayloadPhone p, sms_void (requirePayloadAmount p ''creditKobo'')]"

definition settlement_amounts :: "json \<Rightarrow> sms_error + unit" where
  "settlement_amounts p =
     (let hasNetPaid = (json_get p ''netPaidKobo'' \<noteq> JUndefined); hasEarned = (json_get p ''earnedKobo'' \<noteq> JUndefined) in
      if hasNetPaid \<noteq> hasEarned
      then Inl (SmsPayloadError ''redemption-confirmed settlement amounts must be supplied together'')
      else if hasNetPaid
      then sms_all [sms_void (requirePayloadAmount p ''netPaidKobo''), sms_void (requirePayloadAmount p ''earnedKobo''),
             if_given p ''earnTransactionId'' requirePayloadString]
      else Inr ())"

definition assertRedemptionConfirmedPayload :: "json \<Rightarrow> sms_error + unit" where
  "assertRedemptionConfirmedPayload p =
     sms_all [requirePayloadTemplate p ''redemption-confirmed'', sms_void (requirePayloadString p ''receiptId''),
       sms_void (requirePayloadString p ''transactionId''), sms_void (requirePayloadString p ''redemptionId''),
       sms_void (requirePayloadString p ''customerId''), requirePayloadPhone p,
       sms_void (requirePayloadAmount p ''redeemedKobo''), sms_void (requirePayloadAmount p ''remainingBalanceKobo''),
       settlement_amounts p]"

definition assertTransactionReversedPayload :: "json \<Rightarrow> sms_error + unit" where
  "assertTransactionReversedPayload p =
     sms_all [requirePayloadTemplate p ''transaction-reversed'', sms_void (requirePayloadString p ''transactionId''),
       requirePayloadPhone p, if_given p ''receiptId'' requirePayloadString]"

definition valid_kind :: "json \<Rightarrow> sms_error + unit" where
  "valid_kind p =
     sms_bind (requirePayloadString p ''kind'') (\<lambda>kind.
     if kind = ''CREDIT'' \<or> kind = ''DEBIT'' then Inr ()
     else Inl (SmsPayloadError ''balance-adjusted payload has an invalid kind''))"

definition assertBalanceAdjustedPayload :: "json \<Rightarrow> sms_error + unit" where
  "assertBalanceAdjustedPayload p =
     sms_all [requirePayloadTemplate p ''balance-adjusted'', sms_void (requirePayloadString p ''transactionId''),
       sms_void (requirePayloadString p ''adjustmentId''), valid_kind p, requirePayloadPhone p,
       sms_void (requirePayloadAmount p ''amountKobo''), if_given p ''remainingBalanceKobo'' requirePayloadAmount]"

definition assertCardReplacedPayload :: "json \<Rightarrow> sms_error + unit" where
  "assertCardReplacedPayload p =
     sms_all [requirePayloadTemplate p ''card-replaced'', requirePayloadPhone p,
       sms_void (requirePayloadString p ''previousCardId''), sms_void (requirePayloadString p ''replacementCardId''),
       sms_void (requirePayloadString p ''customerId''), sms_void (requirePayloadString p ''previousSerialSuffix''),
       sms_void (requirePayloadString p ''replacementSerialSuffix'')]"

definition assertCreditExpiryReminderPayload :: "env \<Rightarrow> json \<Rightarrow> sms_error + unit" where
  "assertCreditExpiryReminderPayload env p =
     sms_all [requirePayloadTemplate p ''credit-expiry-reminder-v1'', sms_void (requirePayloadString p ''customerId''),
       requirePayloadPhone p, sms_void (requirePayloadAmount p ''totalExpiringKobo''),
       sms_void (requirePayloadDateString env p ''earliestExpiresAt''),
       sms_void (requirePayloadDateString env p ''latestExpiresAt'')]"

text \<open>A template of another name is not checked.\<close>

definition validateSmsIntent :: "env \<Rightarrow> string \<Rightarrow> json \<Rightarrow> sms_error + unit" where
  "validateSmsIntent env template p =
     (if template = ''earn-confirmed'' then assertEarnConfirmedPayload p
      else if template = ''redemption-confirmed'' then assertRedemptionConfirmedPayload p
      else if template = ''transaction-reversed'' then assertTransactionReversedPayload p
      else if template = ''balance-adjusted'' then assertBalanceAdjustedPayload p
      else if template = ''card-replaced'' then assertCardReplacedPayload p
      else if template = ''credit-expiry-reminder-v1'' then assertCreditExpiryReminderPayload env p
      else Inr ())"

subsection \<open>The text\<close>

text \<open>\<open>BigInt\<close> of a string of digits.\<close>

definition digits_value :: "string \<Rightarrow> int" where
  "digits_value ds = foldl (\<lambda>v c. 10 * v + (of_char c - 48)) 0 ds"

definition formatKoboAsNaira :: "int \<Rightarrow> string" where
  "formatKoboAsNaira kobo =
     ''NGN '' @ show_int (bigint_div kobo 100) @ ''.''
       @ (let r = show_int (kobo - bigint_div kobo 100 * 100) in replicate (2 - length r) (CHR ''0'') @ r)"

definition naira_of :: "string \<Rightarrow> string" where
  "naira_of ds = formatKoboAsNaira (digits_value ds)"

definition or_unknown :: "string option \<Rightarrow> string" where
  "or_unknown v = (case v of None \<Rightarrow> ''unknown'' | Some s \<Rightarrow> s)"

definition renderEarnConfirmed :: "string option \<Rightarrow> json \<Rightarrow> sms_error + string" where
  "renderEarnConfirmed receiptId p =
     sms_bind (requirePayloadAmount p ''creditKobo'') (\<lambda>creditKobo.
     Inr (''ShopCity: Your receipt '' @ or_unknown receiptId @ '' earned '' @ naira_of creditKobo @ ''.''))"

definition renderRedemptionConfirmed :: "string option \<Rightarrow> json \<Rightarrow> sms_error + string" where
  "renderRedemptionConfirmed receiptId p =
     sms_bind (requirePayloadAmount p ''redeemedKobo'') (\<lambda>redeemed.
     sms_bind (requirePayloadAmount p ''remainingBalanceKobo'') (\<lambda>remaining.
     case (readPayloadString p ''netPaidKobo'', readPayloadString p ''earnedKobo'') of
       (Some netPaid, Some earned) \<Rightarrow>
         Inr (''ShopCity: Receipt '' @ or_unknown receiptId @ '' redeemed '' @ naira_of redeemed @ ''; paid ''
              @ naira_of netPaid @ '' and earned '' @ naira_of earned @ ''. Available credit '' @ naira_of remaining @ ''.'')
     | _ \<Rightarrow>
         Inr (''ShopCity: Redeemed '' @ naira_of redeemed @ '' from receipt '' @ or_unknown receiptId
              @ ''. Remaining balance '' @ naira_of remaining @ ''.'')))"

definition transaction_or_receipt :: "string option \<Rightarrow> json \<Rightarrow> string" where
  "transaction_or_receipt receiptId p =
     (case readPayloadString p ''transactionId'' of Some t \<Rightarrow> t | None \<Rightarrow> or_unknown receiptId)"

definition renderTransactionReversed :: "string option \<Rightarrow> json \<Rightarrow> sms_error + string" where
  "renderTransactionReversed receiptId p =
     Inr (''ShopCity: Your transaction '' @ transaction_or_receipt receiptId p @ '' was reversed.'')"

definition renderBalanceAdjusted :: "string option \<Rightarrow> json \<Rightarrow> sms_error + string" where
  "renderBalanceAdjusted receiptId p =
     sms_bind (requirePayloadAmount p ''amountKobo'') (\<lambda>amount.
     Inr (''ShopCity: Your balance was ''
          @ (if readPayloadString p ''kind'' = Some ''CREDIT'' then ''increased'' else ''reduced'')
          @ '' by '' @ naira_of amount @ '' for transaction '' @ transaction_or_receipt receiptId p @ ''.''
          @ (case readPayloadString p ''remainingBalanceKobo'' of
               None \<Rightarrow> []
             | Some v \<Rightarrow> '' Remaining balance '' @ naira_of v @ ''.'')))"

definition renderCardReplaced :: "json \<Rightarrow> sms_error + string" where
  "renderCardReplaced p =
     sms_bind (requirePayloadString p ''replacementSerialSuffix'') (\<lambda>suffix.
     Inr (''ShopCity: Your loyalty card ending '' @ suffix
          @ '' was replaced. If you did not request this, contact ShopCity.''))"

definition renderCreditExpiryReminder :: "json \<Rightarrow> sms_error + string" where
  "renderCreditExpiryReminder p =
     sms_bind (requirePayloadAmount p ''totalExpiringKobo'') (\<lambda>total.
     sms_bind (requirePayloadString p ''earliestExpiresAt'') (\<lambda>earliest.
     sms_bind (requirePayloadString p ''latestExpiresAt'') (\<lambda>latest.
     Inr (''ShopCity: '' @ naira_of total @ '' expires soon. Expiry window '' @ earliest @ '' to '' @ latest @ ''.''))))"

definition renderSmsMessage :: "env \<Rightarrow> string option \<Rightarrow> string \<Rightarrow> json \<Rightarrow> sms_error + string" where
  "renderSmsMessage env receiptId template p =
     sms_bind (validateSmsIntent env template p) (\<lambda>_.
     if template = ''earn-confirmed'' then renderEarnConfirmed receiptId p
     else if template = ''redemption-confirmed'' then renderRedemptionConfirmed receiptId p
     else if template = ''transaction-reversed'' then renderTransactionReversed receiptId p
     else if template = ''balance-adjusted'' then renderBalanceAdjusted receiptId p
     else if template = ''card-replaced'' then renderCardReplaced p
     else if template = ''credit-expiry-reminder-v1'' then renderCreditExpiryReminder p
     else Inl (SmsError (''Unsupported SMS template '' @ template)))"

subsection \<open>The other builders\<close>

definition last_four :: "string \<Rightarrow> string" where
  "last_four s = drop (length s - 4) s"

definition buildCardReplacedSmsPayload :: "string \<Rightarrow> string \<Rightarrow> string \<Rightarrow> string \<Rightarrow> string \<Rightarrow> string \<Rightarrow> json" where
  "buildCardReplacedSmsPayload previousCardId replacementCardId customerId phoneE164 previousSerial replacementSerial =
     JObj [(''version'', JNum 1), (''template'', JStr ''card-replaced''), (''phoneE164'', JStr phoneE164),
           (''previousCardId'', JStr previousCardId), (''replacementCardId'', JStr replacementCardId),
           (''customerId'', JStr customerId), (''previousSerialSuffix'', JStr (last_four previousSerial)),
           (''replacementSerialSuffix'', JStr (last_four replacementSerial))]"

definition buildCreditExpiryReminderSmsPayload :: "string \<Rightarrow> string \<Rightarrow> int \<Rightarrow> int \<Rightarrow> int \<Rightarrow> json" where
  "buildCreditExpiryReminderSmsPayload customerId phoneE164 totalExpiringKobo earliestExpiresAt latestExpiresAt =
     JObj [(''version'', JNum 1), (''customerId'', JStr customerId), (''phoneE164'', JStr phoneE164),
           (''template'', JStr ''credit-expiry-reminder-v1''), (''totalExpiringKobo'', JStr (show_int totalExpiringKobo)),
           (''earliestExpiresAt'', json_date earliestExpiresAt), (''latestExpiresAt'', json_date latestExpiresAt)]"

subsection \<open>Amounts in a payload\<close>

lemma of_char_digit: "0 \<le> n \<Longrightarrow> n < 10 \<Longrightarrow> (of_char (char_of (48 + n) :: char) :: int) = 48 + n"
  by (simp add: of_char_of)

lemma is_digit_char: "0 \<le> n \<Longrightarrow> n < 10 \<Longrightarrow> is_digit (char_of (48 + n :: int))"
  by (simp add: is_digit_def of_char_digit)

lemma show_digits_digits: "0 \<le> n \<Longrightarrow> show_digits n \<noteq> [] \<and> list_all is_digit (show_digits n)"
proof (induction n rule: show_digits.induct)
  case (1 n)
  then show ?case by (subst (1 2) show_digits.simps) (auto simp: is_digit_char)
qed

lemma digits_value_append: "digits_value (ds @ [c]) = 10 * digits_value ds + (of_char c - 48)"
  by (simp add: digits_value_def)

lemma digits_value_show: "0 \<le> n \<Longrightarrow> digits_value (show_digits n) = n"
proof (induction n rule: show_digits.induct)
  case (1 n)
  show ?case
  proof (cases "n < 10")
    case True
    with 1 show ?thesis by (subst show_digits.simps) (simp add: digits_value_def of_char_digit)
  next
    case False
    with 1 show ?thesis by (subst show_digits.simps) (simp add: digits_value_append of_char_digit)
  qed
qed

lemma digit_not_space: "is_digit c \<Longrightarrow> \<not> is_space c"
  by (auto simp: is_digit_def is_space_def)

lemma js_trim_digits: "ds \<noteq> [] \<Longrightarrow> list_all is_digit ds \<Longrightarrow> js_trim ds = ds"
  by (rule js_trim_fixed) (auto simp: digit_not_space list_all_iff)

lemma amount_string:
  assumes "0 \<le> n"
  shows "js_trim (show_int n) = show_int n" and "show_int n \<noteq> []" and "list_all is_digit (show_int n)"
    and "naira_of (show_int n) = formatKoboAsNaira n"
  using assms show_digits_digits[OF assms] js_trim_digits
  by (simp_all add: show_int_def naira_of_def digits_value_show)

subsection \<open>What the services build can be sent\<close>

text \<open>
  The payloads the services build: from ids and a phone number that are not blank and from amounts
  that are not negative. A name stored with the customer or the card is what it is; the number is one
  of \<open>customers\<close>, checked when the customer was registered.
\<close>

definition given :: "string \<Rightarrow> bool" where
  "given v = (js_trim v \<noteq> [])"

inductive built :: "env \<Rightarrow> string \<Rightarrow> json \<Rightarrow> bool" for env where
  earn: "given r \<Longrightarrow> given t \<Longrightarrow> given c \<Longrightarrow> is_e164 (js_trim ph) \<Longrightarrow> 0 \<le> credit \<Longrightarrow>
    built env ''earn-confirmed'' (buildEarnConfirmedSmsPayload r t c ph credit)"
| redemption: "given r \<Longrightarrow> given t \<Longrightarrow> given rd \<Longrightarrow> given c \<Longrightarrow> is_e164 (js_trim ph) \<Longrightarrow> 0 \<le> redeemed \<Longrightarrow> 0 \<le> remaining \<Longrightarrow>
    0 \<le> paid \<Longrightarrow> 0 \<le> earned \<Longrightarrow> (case e of Some v \<Rightarrow> given v | None \<Rightarrow> True) \<Longrightarrow>
    built env ''redemption-confirmed''
      (buildRedemptionConfirmedSmsPayload r t rd c ph redeemed (Some paid) (Some earned) (Some e) remaining)"
| reversal: "given t \<Longrightarrow> is_e164 (js_trim ph) \<Longrightarrow> (case r of Some v \<Rightarrow> given v | None \<Rightarrow> True) \<Longrightarrow>
    built env ''transaction-reversed'' (buildTransactionReversedSmsPayload t ph r)"
| adjustment: "given t \<Longrightarrow> given a \<Longrightarrow> is_e164 (js_trim ph) \<Longrightarrow> 0 \<le> amount \<Longrightarrow>
    (case remaining of Some v \<Rightarrow> 0 \<le> v | None \<Rightarrow> True) \<Longrightarrow>
    built env ''balance-adjusted'' (buildBalanceAdjustedSmsPayload t a kind ph r amount remaining)"
| card: "given p \<Longrightarrow> given q \<Longrightarrow> given c \<Longrightarrow> is_e164 (js_trim ph) \<Longrightarrow> given (last_four old) \<Longrightarrow> given (last_four new) \<Longrightarrow>
    built env ''card-replaced'' (buildCardReplacedSmsPayload p q c ph old new)"
| reminder: "given c \<Longrightarrow> is_e164 (js_trim ph) \<Longrightarrow> 0 \<le> kobo \<Longrightarrow>
    (\<And>x. x \<in> {earliest, latest} \<Longrightarrow> given (toISOString x) \<and> dateParse env (js_trim (toISOString x)) \<noteq> None) \<Longrightarrow>
    built env ''credit-expiry-reminder-v1'' (buildCreditExpiryReminderSmsPayload c ph kobo earliest latest)"

lemmas payload_checks = requirePayloadTemplate_def requirePayloadString_def requirePayloadAmount_def requirePayloadPhone_def
  requirePayloadDateString_def readPayloadString_def sms_void_def sms_bind_def if_given_def nullish_def json_get_def
  given_def json_opt_str_def opt_json_def json_date_def amount_string

lemma template_trimmed:
  "js_trim ''earn-confirmed'' = ''earn-confirmed''" "js_trim ''redemption-confirmed'' = ''redemption-confirmed''"
  "js_trim ''transaction-reversed'' = ''transaction-reversed''" "js_trim ''balance-adjusted'' = ''balance-adjusted''"
  "js_trim ''card-replaced'' = ''card-replaced''" "js_trim ''credit-expiry-reminder-v1'' = ''credit-expiry-reminder-v1''"
  "js_trim ''CREDIT'' = ''CREDIT''" "js_trim ''DEBIT'' = ''DEBIT''"
  by code_simp+

lemma phone_given: "is_e164 (js_trim v) \<Longrightarrow> (js_trim v = []) = False"
  by auto

lemmas template_names = template_trimmed phone_given

text \<open>
  A payload made by one of the builders from ids that are given, a phone number in E.164 form and a date
  that can be read passes the check of its template, and the text is made from it without an error. The phone number is the
  one point the services do not ensure: what a customer's row holds need not be in that form.
\<close>

theorem built_messages_render:
  assumes "built env template p"
  shows "validateSmsIntent env template p = Inr () \<and> (\<exists>text. renderSmsMessage env receiptId template p = Inr text)"
  using assms
proof cases
  case earn
  then show ?thesis
    by (simp add: renderSmsMessage_def validateSmsIntent_def assertEarnConfirmedPayload_def renderEarnConfirmed_def
        buildEarnConfirmedSmsPayload_def payload_checks template_names)
next
  case redemption
  then show ?thesis
    by (auto simp: renderSmsMessage_def validateSmsIntent_def assertRedemptionConfirmedPayload_def settlement_amounts_def
        renderRedemptionConfirmed_def buildRedemptionConfirmedSmsPayload_def payload_checks template_names
        split: option.split option.split_asm)
next
  case reversal
  then show ?thesis
    by (auto simp: renderSmsMessage_def validateSmsIntent_def assertTransactionReversedPayload_def renderTransactionReversed_def
        buildTransactionReversedSmsPayload_def payload_checks template_names split: option.split option.split_asm)
next
  case (adjustment t a ph amount remaining kind r)
  then show ?thesis
    by (cases kind) (auto simp: renderSmsMessage_def validateSmsIntent_def assertBalanceAdjustedPayload_def valid_kind_def
        renderBalanceAdjusted_def buildBalanceAdjustedSmsPayload_def payload_checks template_names
        split: option.split option.split_asm)
next
  case card
  then show ?thesis
    by (simp add: renderSmsMessage_def validateSmsIntent_def assertCardReplacedPayload_def renderCardReplaced_def
        buildCardReplacedSmsPayload_def payload_checks template_names)
next
  case reminder
  then show ?thesis
    by (simp add: renderSmsMessage_def validateSmsIntent_def assertCreditExpiryReminderPayload_def renderCreditExpiryReminder_def
        buildCreditExpiryReminderSmsPayload_def payload_checks template_names)
qed

theorem built_messages_render_witness:
  "\<exists>text. renderSmsMessage demo_env (Some ''R1'') ''earn-confirmed''
     (buildEarnConfirmedSmsPayload ''R1'' ''t1'' ''C'' ''+2348000000000'' 3001) = Inr text"
proof -
  have "given ''R1''" "given ''t1''" "given ''C''" "is_e164 (js_trim ''+2348000000000'')" by code_simp+
  from built_messages_render[OF built.earn[OF this, of 3001]] show ?thesis by simp
qed

end
