(* ===== verification/Outbox_Worker.thy ===== *)
theory Outbox_Worker
  imports Fraud Sms_Templates
begin

text \<open>
  The worker that empties the outbox (\<^verbatim>\<open>src/jobs/outbox-worker.runtime.ts\<close>): it recovers and publishes
  events that are due, handles the jobs of the queue, and polls the provider for delivery reports. Its
  statements are single calls of the database; other workers and services commit between them. The SMS
  provider and the queue are outside: what \<open>send\<close>, \<open>getDeliveryReport\<close> and \<open>publishOutboxEvent\<close> return is
  part of what a run meets. A request to the provider is noted in \<open>obd_submissions\<close>.
\<close>

subsection \<open>Configuration and surroundings\<close>

definition OUTBOX_RETRY_ATTEMPTS :: nat where "OUTBOX_RETRY_ATTEMPTS = 5"

record WorkerConfig =
  wc_publishBatchSize :: nat
  wc_deliveryReportPollIntervalMs :: int
  wc_deliveryReportPollBatchSize :: nat
  wc_retryDelayMs :: int
  wc_recoveryThresholdMs :: int

datatype SmsFailure = retryable | terminal

record SmsSendResult =
  sr_status :: SmsMessageStatus
  sr_providerMessageId :: "string option"
  sr_errorMessage :: "string option"
  sr_failureCategory :: "SmsFailure option"

record SmsDeliveryReport =
  dr_status :: SmsMessageStatus
  dr_providerMessageId :: string
  dr_occurredAt :: "int option"

record sms_provider =
  pv_requiresLocalSubmissionReservation :: bool
  pv_submissionReservationWindowMs :: "int option"
  pv_getDeliveryReport :: bool

text \<open>
  What a job meets: other sessions, the clock, the answer of the provider, and the reports
  (\<open>None\<close>: not configured; otherwise the error, if any, of materialising a branch or the tenant).
\<close>

record job_world =
  jw_others :: "nat \<Rightarrow> outbox_db \<Rightarrow> outbox_db"
  jw_clock :: "nat \<Rightarrow> int"
  jw_send :: "svc_error + SmsSendResult"
  jw_materialize :: "(string option \<Rightarrow> svc_error option) option"
  jw_newId :: string

datatype job_outcome = Finished | Discarded | Threw svc_error

abbreviation in_progress :: "string option" where
  "in_progress \<equiv> Some ''provider-submission-in-progress''"

definition settled :: "SmsMessageStatus \<Rightarrow> bool" where
  "settled st = (st = SmsMessageStatus.SENT \<or> st = SmsMessageStatus.DELIVERED \<or> st = SmsMessageStatus.SUPPRESSED)"

subsection \<open>Marking events and messages\<close>

definition markOutboxEventCompleted :: "OutboxRow \<Rightarrow> int \<Rightarrow> outbox_db \<Rightarrow> svc_error + outbox_db" where
  "markOutboxEventCompleted e now =
     event_update (ob_tenantId e) (ob_id e)
       (\<lambda>x. x\<lparr>obr_status := OutboxEventStatus.COMPLETED, obr_processedAt := Some now, ob_nextAttemptAt := None,
              obr_updatedAt := now\<rparr>)"

definition markOutboxEventDeadLettered :: "OutboxRow \<Rightarrow> string \<Rightarrow> int \<Rightarrow> outbox_db \<Rightarrow> svc_error + outbox_db" where
  "markOutboxEventDeadLettered e failureCategory now =
     event_update (ob_tenantId e) (ob_id e)
       (\<lambda>x. x\<lparr>obr_status := OutboxEventStatus.FAILED, ob_nextAttemptAt := None, obr_deadLetteredAt := Some now,
              obr_failureCategory := Some failureCategory, obr_updatedAt := now\<rparr>)"

definition markOutboxEventFailure :: "OutboxRow \<Rightarrow> string \<Rightarrow> int option \<Rightarrow> int \<Rightarrow> outbox_db \<Rightarrow> svc_error + outbox_db" where
  "markOutboxEventFailure e failureCategory nextAttemptAt now =
     event_update (ob_tenantId e) (ob_id e)
       (\<lambda>x. x\<lparr>obr_status := OutboxEventStatus.FAILED, ob_nextAttemptAt := nextAttemptAt,
              obr_failureCategory := Some failureCategory,
              obr_deadLetteredAt := (if nextAttemptAt = None then Some now else None), obr_updatedAt := now\<rparr>)"

definition failed_attempt :: "int \<Rightarrow> int option \<Rightarrow> int option \<Rightarrow> string \<Rightarrow> string \<Rightarrow> SmsRow \<Rightarrow> SmsRow" where
  "failed_attempt now nextAttemptAt deadLetteredAt failureCategory message x =
     x\<lparr>sms_status := SmsMessageStatus.FAILED, smr_attempts := smr_attempts x + 1, smr_failedAt := Some now,
       smr_lastAttemptAt := Some now, smr_nextAttemptAt := nextAttemptAt, smr_deadLetteredAt := deadLetteredAt,
       smr_failureCategory := Some failureCategory, smr_lastError := Some message\<rparr>"

definition markSmsMessageInvalidPayload :: "SmsRow \<Rightarrow> int \<Rightarrow> string \<Rightarrow> outbox_db \<Rightarrow> svc_error + outbox_db" where
  "markSmsMessageInvalidPayload m now message =
     message_update (sms_tenantId m) (sms_outboxEventId m) (failed_attempt now None (Some now) ''invalid-payload'' message)"

definition markSmsSubmissionOutcomeUnknown ::
  "SmsRow \<Rightarrow> OutboxRow \<Rightarrow> int \<Rightarrow> int \<Rightarrow> (outbox_db \<Rightarrow> outbox_db) \<Rightarrow> outbox_db \<Rightarrow> svc_error + outbox_db" where
  "markSmsSubmissionOutcomeUnknown m e now now2 others s =
     res_bind (message_update (sms_tenantId m) (sms_outboxEventId m)
       (failed_attempt now None (Some now) ''dead-lettered''
         ''Twilio submission outcome is unknown; verify provider history before manual replay'') s) (\<lambda>s1.
     markOutboxEventDeadLettered e ''provider-outcome-unknown'' now2 (others s1))"

text \<open>The update after an answer that is not \<open>FAILED\<close> (\<open>mapSmsDispatchResult\<close>).\<close>

definition mapSmsDispatchResult :: "SmsSendResult \<Rightarrow> int \<Rightarrow> SmsRow \<Rightarrow> SmsRow" where
  "mapSmsDispatchResult r now x =
     (case sr_status r of
        SmsMessageStatus.DELIVERED \<Rightarrow>
          x\<lparr>sms_status := SmsMessageStatus.DELIVERED, smr_attempts := smr_attempts x + 1,
            smr_providerMessageId := sr_providerMessageId r, smr_sentAt := Some now, smr_deliveredAt := Some now,
            smr_suppressedAt := None, smr_lastError := None, smr_lastAttemptAt := Some now, smr_nextAttemptAt := None,
            smr_deadLetteredAt := None, smr_failureCategory := None\<rparr>
      | SmsMessageStatus.SENT \<Rightarrow>
          x\<lparr>sms_status := SmsMessageStatus.SENT, smr_attempts := smr_attempts x + 1,
            smr_providerMessageId := sr_providerMessageId r, smr_sentAt := Some now, smr_suppressedAt := None,
            smr_lastError := None, smr_lastAttemptAt := Some now, smr_nextAttemptAt := None,
            smr_deadLetteredAt := None, smr_failureCategory := None\<rparr>
      | SmsMessageStatus.SUPPRESSED \<Rightarrow>
          x\<lparr>sms_status := SmsMessageStatus.SUPPRESSED, smr_attempts := smr_attempts x + 1,
            smr_providerMessageId := sr_providerMessageId r, smr_suppressedAt := Some now,
            smr_lastError := sr_errorMessage r, smr_lastAttemptAt := Some now, smr_nextAttemptAt := None,
            smr_deadLetteredAt := None, smr_failureCategory := None\<rparr>
      | _ \<Rightarrow>
          x\<lparr>sms_status := SmsMessageStatus.FAILED, smr_attempts := smr_attempts x + 1,
            smr_providerMessageId := sr_providerMessageId r, smr_failedAt := Some now,
            smr_lastError := Some (case sr_errorMessage r of Some e \<Rightarrow> e | None \<Rightarrow> ''SMS delivery failed''),
            smr_lastAttemptAt := Some now, smr_nextAttemptAt := None\<rparr>)"

subsection \<open>A message for an event that has none\<close>

definition readNumberField :: "json \<Rightarrow> string \<Rightarrow> int" where
  "readNumberField payload key = (case json_get payload key of JNum n \<Rightarrow> n | _ \<Rightarrow> 0)"

definition trimmed_field :: "json \<Rightarrow> string \<Rightarrow> string" where
  "trimmed_field payload key = js_trim (string_or payload key [])"

definition or_null :: "string \<Rightarrow> string option" where
  "or_null v = (if v = [] then None else Some v)"

definition missing_fields :: "json \<Rightarrow> bool" where
  "missing_fields payload =
     (let template = trimmed_field payload ''template'' in
      trimmed_field payload ''transactionId'' = [] \<and> template \<noteq> ''credit-expiry-reminder-v1'' \<and> template \<noteq> ''card-replaced''
      \<or> template = ''credit-expiry-reminder-v1'' \<and> trimmed_field payload ''customerId'' = []
      \<or> template = ''card-replaced'' \<and> trimmed_field payload ''replacementCardId'' = []
      \<or> trimmed_field payload ''phoneE164'' = [] \<or> template = [])"

definition sms_for_event :: "env \<Rightarrow> string \<Rightarrow> OutboxRow \<Rightarrow> int \<Rightarrow> string + SmsRow" where
  "sms_for_event env newId e now =
     (let payload = normalizeJsonPayload (ob_payload e); template = trimmed_field payload ''template'' in
      if ob_eventType e \<noteq> ''sms.send'' then Inl (''Unsupported outbox event type '' @ ob_eventType e)
      else if readNumberField payload ''version'' \<noteq> 1 then Inl (''Unsupported SMS payload version for '' @ ob_id e)
      else if missing_fields payload then Inl (''SmsMessage payload missing required fields for '' @ ob_id e)
      else case validateSmsIntent env template payload of
        Inl (SmsPayloadError message) \<Rightarrow> Inl message
      | Inl (SmsError message) \<Rightarrow> Inl message
      | Inr _ \<Rightarrow>
          Inr (new_message (or_null (trimmed_field payload ''replacementCardId''))
            \<lparr> sms_id = newId, sms_tenantId = ob_tenantId e, sms_receiptId = or_null (trimmed_field payload ''receiptId''),
              sms_outboxEventId = ob_id e, sms_ledgerEntryId = or_null (trimmed_field payload ''transactionId''),
              sms_redemptionId = or_null (trimmed_field payload ''redemptionId''),
              sms_adjustmentId = or_null (trimmed_field payload ''adjustmentId''),
              sms_phoneE164 = trimmed_field payload ''phoneE164'', sms_template = template, sms_payload = payload,
              sms_status = SmsMessageStatus.QUEUED, sms_queuedAt = now \<rparr>))"

text \<open>\<open>upsert\<close> with an empty update: the row that is there, or the new one.\<close>

definition createSmsMessageFromOutboxEvent ::
  "env \<Rightarrow> string \<Rightarrow> OutboxRow \<Rightarrow> int \<Rightarrow> outbox_db \<Rightarrow> string + SmsRow \<times> outbox_db" where
  "createSmsMessageFromOutboxEvent env newId e now s =
     (case sms_for_event env newId e now of
        Inl message \<Rightarrow> Inl message
      | Inr row \<Rightarrow>
          (case message_findUnique (ob_tenantId e) (ob_id e) s of
             Some m \<Rightarrow> Inr (m, s)
           | None \<Rightarrow> Inr (row, s\<lparr>obd_messages := obd_messages s @ [row]\<rparr>)))"

subsection \<open>Sending a message\<close>

definition dead_after :: "SmsRow \<Rightarrow> SmsFailure option \<Rightarrow> bool" where
  "dead_after m failure = (failure = Some terminal \<or> OUTBOX_RETRY_ATTEMPTS \<le> smr_attempts m + 1)"

definition retry_update :: "WorkerConfig \<Rightarrow> int \<Rightarrow> bool \<Rightarrow> string \<Rightarrow> SmsRow \<Rightarrow> SmsRow" where
  "retry_update cfg now dead message =
     failed_attempt now (if dead then None else Some (now + wc_retryDelayMs cfg)) (if dead then Some now else None)
       (if dead then ''dead-lettered'' else ''retryable-failure'') message"

definition retry_event :: "WorkerConfig \<Rightarrow> OutboxRow \<Rightarrow> int \<Rightarrow> bool \<Rightarrow> int \<Rightarrow> outbox_db \<Rightarrow> svc_error + outbox_db" where
  "retry_event cfg e now dead now2 =
     markOutboxEventFailure e (if dead then ''dead-lettered'' else ''retryable-failure'')
       (if dead then None else Some (now + wc_retryDelayMs cfg)) now2"

definition err_message :: "svc_error \<Rightarrow> string" where
  "err_message e = error_message e"

definition outcome_of :: "job_outcome \<Rightarrow> outbox_db \<Rightarrow> svc_error + outbox_db \<Rightarrow> job_outcome \<times> outbox_db" where
  "outcome_of ok s r = (case r of Inl e \<Rightarrow> (Threw e, s) | Inr s' \<Rightarrow> (ok, s'))"

text \<open>The \<open>catch\<close> block around \<open>send\<close> and the updates after it.\<close>

definition send_caught ::
  "WorkerConfig \<Rightarrow> job_world \<Rightarrow> bool \<Rightarrow> OutboxRow \<Rightarrow> SmsRow \<Rightarrow> int \<Rightarrow> svc_error \<Rightarrow> outbox_db \<Rightarrow> job_outcome \<times> outbox_db" where
  "send_caught cfg w reserved e m now err s =
     (if reserved
      then outcome_of Discarded s (markSmsSubmissionOutcomeUnknown m e now (jw_clock w 3) (jw_others w 9) s)
      else
        let dead = dead_after m None in
        (case message_update (sms_tenantId m) (sms_outboxEventId m) (retry_update cfg now dead (err_message err)) s of
           Inl err2 \<Rightarrow> (Threw err2, s)
         | Inr s1 \<Rightarrow> outcome_of (Threw err) s1 (retry_event cfg e now dead (jw_clock w 4) (jw_others w 9 s1))))"

definition after_answer ::
  "WorkerConfig \<Rightarrow> job_world \<Rightarrow> bool \<Rightarrow> OutboxRow \<Rightarrow> SmsRow \<Rightarrow> int \<Rightarrow> SmsSendResult \<Rightarrow> outbox_db \<Rightarrow> job_outcome \<times> outbox_db" where
  "after_answer cfg w reserved e m now r s =
     (if sr_status r = SmsMessageStatus.FAILED then
        let dead = dead_after m (sr_failureCategory r) in
        (case message_update (sms_tenantId m) (sms_outboxEventId m)
            (retry_update cfg now dead (case sr_errorMessage r of Some x \<Rightarrow> x | None \<Rightarrow> ''SMS delivery failed'')) s of
           Inl err \<Rightarrow> send_caught cfg w reserved e m now err (jw_others w 7 s)
         | Inr s1 \<Rightarrow>
             (case retry_event cfg e now dead (jw_clock w 2) (jw_others w 6 s1) of
                Inl err \<Rightarrow> send_caught cfg w reserved e m now err (jw_others w 8 (jw_others w 6 s1))
              | Inr s2 \<Rightarrow> (if dead then Discarded else Finished, s2)))
      else
        (case message_update (sms_tenantId m) (sms_outboxEventId m) (mapSmsDispatchResult r now) s of
           Inl err \<Rightarrow> send_caught cfg w reserved e m now err (jw_others w 7 s)
         | Inr s1 \<Rightarrow> (Finished, s1)))"

definition submit :: "SmsRow \<Rightarrow> outbox_db \<Rightarrow> outbox_db" where
  "submit m s = s\<lparr>obd_submissions := obd_submissions s @ [(sms_tenantId m, sms_outboxEventId m)]\<rparr>"

definition send_message ::
  "WorkerConfig \<Rightarrow> job_world \<Rightarrow> bool \<Rightarrow> OutboxRow \<Rightarrow> SmsRow \<Rightarrow> int \<Rightarrow> outbox_db \<Rightarrow> job_outcome \<times> outbox_db" where
  "send_message cfg w reserved e m now s =
     (case jw_send w of
        Inl err \<Rightarrow> send_caught cfg w reserved e m now err (jw_others w 5 (submit m s))
      | Inr r \<Rightarrow> after_answer cfg w reserved e m now r (jw_others w 5 (submit m s)))"

text \<open>The reservation: the row must still be what the job read.\<close>

definition unchanged :: "SmsRow \<Rightarrow> SmsRow \<Rightarrow> bool" where
  "unchanged m x = (sms_tenantId x = sms_tenantId m \<and> sms_outboxEventId x = sms_outboxEventId m \<and> sms_status x = sms_status m
     \<and> smr_attempts x = smr_attempts m \<and> smr_deadLetteredAt x = None \<and> smr_failureCategory x = smr_failureCategory m)"

definition reserve :: "SmsRow \<Rightarrow> int \<Rightarrow> outbox_db \<Rightarrow> nat \<times> outbox_db" where
  "reserve m now = message_updateMany (unchanged m) (\<lambda>x. x\<lparr>smr_failureCategory := in_progress, smr_lastAttemptAt := Some now\<rparr>)"

definition reservation_expired :: "sms_provider \<Rightarrow> WorkerConfig \<Rightarrow> SmsRow \<Rightarrow> int \<Rightarrow> bool" where
  "reservation_expired pv cfg m nowMs =
     (let window = max (wc_recoveryThresholdMs cfg)
        (case pv_submissionReservationWindowMs pv of Some v \<Rightarrow> v | None \<Rightarrow> 0) in
      case smr_lastAttemptAt m of None \<Rightarrow> True | Some t \<Rightarrow> \<not> (nowMs - t < window))"

definition deliver_message ::
  "env \<Rightarrow> sms_provider \<Rightarrow> WorkerConfig \<Rightarrow> job_world \<Rightarrow> OutboxRow \<Rightarrow> SmsRow \<Rightarrow> outbox_db \<Rightarrow> job_outcome \<times> outbox_db" where
  "deliver_message env pv cfg w e m s =
     (if settled (sms_status m) then outcome_of Finished s (markOutboxEventCompleted e (jw_clock w 1) s)
      else if pv_requiresLocalSubmissionReservation pv \<and> smr_failureCategory m = in_progress then
        (if \<not> reservation_expired pv cfg m (jw_clock w 1) then (Discarded, s)
         else outcome_of Discarded s (markSmsSubmissionOutcomeUnknown m e (jw_clock w 2) (jw_clock w 3) (jw_others w 9) s))
      else if smr_deadLetteredAt m \<noteq> None \<or> OUTBOX_RETRY_ATTEMPTS \<le> smr_attempts m
      then outcome_of Discarded s (markOutboxEventDeadLettered e ''dead-lettered'' (jw_clock w 1) s)
      else
        let now = jw_clock w 1 in
        case validateSmsIntent env (sms_template m) (normalizeJsonPayload (sms_payload m)) of
          Inl (SmsPayloadError message) \<Rightarrow>
            (case markSmsMessageInvalidPayload m now message s of
               Inl err \<Rightarrow> (Threw err, s)
             | Inr s1 \<Rightarrow> outcome_of Discarded s1 (markOutboxEventDeadLettered e ''invalid-payload'' (jw_clock w 2) (jw_others w 9 s1)))
        | Inl (SmsError message) \<Rightarrow> (Threw (PlainError message), s)
        | Inr _ \<Rightarrow>
            if pv_requiresLocalSubmissionReservation pv then
              (case reserve m now s of
                 (n, s1) \<Rightarrow> if n \<noteq> 1 then (Discarded, s1) else send_message cfg w True e m now s1)
            else send_message cfg w False e m now s)"

subsection \<open>A job\<close>

definition processReportRefreshEvent :: "job_world \<Rightarrow> OutboxRow \<Rightarrow> outbox_db \<Rightarrow> job_outcome \<times> outbox_db" where
  "processReportRefreshEvent w e s =
     (case jw_materialize w of
        None \<Rightarrow> (Threw (PlainError ''Report materializer is not configured''), s)
      | Some materialize \<Rightarrow>
          let payload = normalizeJsonPayload (ob_payload e) in
          if string_or payload ''report'' [] = [] then (Threw (PlainError (''Invalid report refresh payload for '' @ ob_id e)), s)
          else case materialize (or_null (trimmed_field payload ''branchId'')) of
            Some err \<Rightarrow> (Threw err, s)
          | None \<Rightarrow> outcome_of Finished s (markOutboxEventCompleted e (jw_clock w 1) (jw_others w 3 s)))"

definition handle_published ::
  "env \<Rightarrow> fraud_columns \<Rightarrow> sms_provider \<Rightarrow> WorkerConfig \<Rightarrow> job_world \<Rightarrow> OutboxRow \<Rightarrow> SmsRow option \<Rightarrow> outbox_db \<Rightarrow>
   job_outcome \<times> outbox_db" where
  "handle_published env fc pv cfg w e found s =
     (if ob_eventType e = ''fraud.evaluate''
      then outcome_of Finished s (processFraudEvaluationEvent env fc (ob_tenantId e) (ob_id e) (jw_clock w 1) s)
      else if ob_eventType e = ''report.refresh'' then processReportRefreshEvent w e s
      else if ob_eventType e \<noteq> ''sms.send''
      then outcome_of Discarded s (markOutboxEventDeadLettered e ''unsupported-event'' (jw_clock w 1) s)
      else case found of
        Some m \<Rightarrow> deliver_message env pv cfg w e m (jw_others w 3 s)
      | None \<Rightarrow>
          (case createSmsMessageFromOutboxEvent env (jw_newId w) e (jw_clock w 0) s of
             Inl _ \<Rightarrow> outcome_of Discarded s (markOutboxEventDeadLettered e ''invalid-payload'' (jw_clock w 1) s)
           | Inr (m, s1) \<Rightarrow> deliver_message env pv cfg w e m (jw_others w 3 s1)))"

definition handleJob ::
  "env \<Rightarrow> fraud_columns \<Rightarrow> sms_provider \<Rightarrow> WorkerConfig \<Rightarrow> job_world \<Rightarrow> string \<Rightarrow> string \<Rightarrow> outbox_db \<Rightarrow>
   job_outcome \<times> outbox_db" where
  "handleJob env fc pv cfg w tenantId i s =
     (case event_findUnique tenantId i s of
        None \<Rightarrow> (Finished, s)
      | Some e \<Rightarrow>
          if obr_deadLetteredAt e \<noteq> None \<or> obr_processedAt e \<noteq> None then (Discarded, s)
          else
            (case event_update tenantId i (\<lambda>x. x\<lparr>obr_status := OutboxEventStatus.PUBLISHED,
                obr_publishedAt := Some (case obr_publishedAt e of Some t \<Rightarrow> t | None \<Rightarrow> jw_clock w 0),
                obr_updatedAt := jw_clock w 0\<rparr>) (jw_others w 1 s) of
               Inl err \<Rightarrow> (Threw err, jw_others w 1 s)
             | Inr s1 \<Rightarrow> handle_published env fc pv cfg w e (message_findUnique tenantId i s) (jw_others w 2 s1)))"

subsection \<open>Recovery and publication\<close>

text \<open>What a cycle meets: whether the worker stops (or has no queue), the rows other transactions have locked, the answers of the queue, other sessions.\<close>

record cycle_world =
  cw_stopping :: bool
  cw_now :: int
  cw_clock :: "nat \<Rightarrow> int"
  cw_locked :: "OutboxRow \<Rightarrow> bool"
  cw_published :: "nat \<Rightarrow> bool"
  cw_others :: "nat \<Rightarrow> outbox_db \<Rightarrow> outbox_db"

definition has_message :: "(SmsRow \<Rightarrow> bool) \<Rightarrow> outbox_db \<Rightarrow> OutboxRow \<Rightarrow> bool" where
  "has_message p s e = list_ex (\<lambda>m. is_message (ob_tenantId e) (ob_id e) m \<and> p m) (obd_messages s)"

definition complete_processed :: "int \<Rightarrow> outbox_db \<Rightarrow> outbox_db" where
  "complete_processed now =
     event_updateMany (\<lambda>e. obr_processedAt e \<noteq> None \<and> obr_status e \<noteq> OutboxEventStatus.COMPLETED \<and> obr_deadLetteredAt e = None)
       (\<lambda>e. e\<lparr>obr_status := OutboxEventStatus.COMPLETED,
              obr_processedAt := Some (case obr_processedAt e of Some t \<Rightarrow> t | None \<Rightarrow> now), ob_nextAttemptAt := None\<rparr>)"

definition complete_sent :: "int \<Rightarrow> outbox_db \<Rightarrow> outbox_db" where
  "complete_sent now s =
     event_updateMany (\<lambda>e. ob_eventType e = ''sms.send'' \<and> obr_status e = OutboxEventStatus.PUBLISHED
         \<and> obr_processedAt e = None \<and> obr_deadLetteredAt e = None
         \<and> has_message (\<lambda>m. settled (sms_status m) \<and> smr_deadLetteredAt m = None) s e)
       (\<lambda>e. e\<lparr>obr_status := OutboxEventStatus.COMPLETED, obr_processedAt := Some now, ob_nextAttemptAt := None\<rparr>) s"

definition at_or_before :: "int option \<Rightarrow> int \<Rightarrow> bool" where
  "at_or_before t limit = (case t of None \<Rightarrow> False | Some v \<Rightarrow> v \<le> limit)"

definition recoverable :: "int \<Rightarrow> int \<Rightarrow> outbox_db \<Rightarrow> OutboxRow \<Rightarrow> bool" where
  "recoverable now staleCutoff s e =
     (ob_eventType e \<in> {''sms.send'', ''fraud.evaluate'', ''report.refresh''}
      \<and> obr_deadLetteredAt e = None \<and> obr_processedAt e = None
      \<and> ((obr_status e = OutboxEventStatus.PENDING \<or> obr_status e = OutboxEventStatus.FAILED)
            \<and> (ob_nextAttemptAt e = None \<or> at_or_before (ob_nextAttemptAt e) now)
         \<or> obr_status e = OutboxEventStatus.QUEUED \<and> obr_updatedAt e \<le> staleCutoff
         \<or> obr_status e = OutboxEventStatus.PUBLISHED \<and> at_or_before (obr_publishedAt e) staleCutoff
            \<and> (ob_eventType e = ''sms.send''
                  \<and> has_message (\<lambda>m. (sms_status m = SmsMessageStatus.QUEUED \<or> sms_status m = SmsMessageStatus.FAILED)
                        \<and> smr_deadLetteredAt m = None) s e
               \<or> ob_eventType e = ''fraud.evaluate'' \<or> ob_eventType e = ''report.refresh''
               \<or> ob_eventType e = ''sms.send'' \<and> \<not> has_message (\<lambda>_. True) s e)))"

definition claim_ids :: "WorkerConfig \<Rightarrow> cycle_world \<Rightarrow> outbox_db \<Rightarrow> string list" where
  "claim_ids cfg w s =
     map ob_id (take (wc_publishBatchSize cfg)
       (filter (\<lambda>e. \<not> cw_locked w e)
         (sort_key obr_createdAt (filter (recoverable (cw_now w) (cw_now w - wc_recoveryThresholdMs cfg) s) (obd_events s)))))"

definition claim_events :: "WorkerConfig \<Rightarrow> cycle_world \<Rightarrow> outbox_db \<Rightarrow> OutboxRow list \<times> outbox_db" where
  "claim_events cfg w s =
     (let ids = claim_ids cfg w s in
      if ids = [] then ([], s)
      else
        let s1 = event_updateMany (\<lambda>e. ob_id e \<in> set ids)
              (\<lambda>e. e\<lparr>obr_status := OutboxEventStatus.QUEUED, obr_attempts := obr_attempts e + 1, ob_nextAttemptAt := None,
                     obr_updatedAt := cw_clock w 0\<rparr>) s in
        (sort_key obr_createdAt (filter (\<lambda>e. ob_id e \<in> set ids) (obd_events s1)), s1))"

definition still_queued :: "OutboxRow \<Rightarrow> OutboxRow \<Rightarrow> bool" where
  "still_queued e x = (is_event (ob_tenantId e) (ob_id e) x \<and> obr_status x = OutboxEventStatus.QUEUED
     \<and> obr_processedAt x = None \<and> obr_deadLetteredAt x = None)"

fun publish_claimed :: "WorkerConfig \<Rightarrow> cycle_world \<Rightarrow> nat \<Rightarrow> OutboxRow list \<Rightarrow> outbox_db \<Rightarrow> outbox_db" where
  "publish_claimed cfg w k [] s = s"
| "publish_claimed cfg w k (e # es) s =
     publish_claimed cfg w (Suc k) es
       (event_updateMany (still_queued e)
          (if cw_published w k
           then (\<lambda>x. x\<lparr>obr_status := OutboxEventStatus.PUBLISHED, obr_publishedAt := Some (cw_now w), ob_nextAttemptAt := None,
                       obr_updatedAt := cw_clock w (Suc k)\<rparr>)
           else (\<lambda>x. x\<lparr>obr_status := OutboxEventStatus.FAILED, ob_nextAttemptAt := Some (cw_now w + wc_retryDelayMs cfg),
                       obr_updatedAt := cw_clock w (Suc k)\<rparr>))
          (cw_others w (k + 3) s))"

definition recoverAndPublishOnce :: "WorkerConfig \<Rightarrow> cycle_world \<Rightarrow> outbox_db \<Rightarrow> outbox_db" where
  "recoverAndPublishOnce cfg w s =
     (if cw_stopping w then s
      else case claim_events cfg w (cw_others w 2 (complete_sent (cw_now w)
          (cw_others w 1 (complete_processed (cw_now w) (cw_others w 0 s))))) of
        (rows, s1) \<Rightarrow> publish_claimed cfg w 0 rows s1)"

subsection \<open>Delivery reports\<close>

record poll_world =
  pw_stopped :: bool
  pw_now :: int
  pw_clock :: "nat \<Rightarrow> int"
  pw_stopping :: "nat \<Rightarrow> bool"
  pw_report :: "nat \<Rightarrow> string \<Rightarrow> SmsDeliveryReport option"
  pw_received :: "nat \<Rightarrow> int"
  pw_others :: "nat \<Rightarrow> nat \<Rightarrow> outbox_db \<Rightarrow> outbox_db"

definition awaits_report :: "SmsRow \<Rightarrow> bool" where
  "awaits_report m = (sms_status m = SmsMessageStatus.SENT \<and> smr_deliveredAt m = None \<and> smr_failedAt m = None
     \<and> smr_deadLetteredAt m = None)"

definition due_for_report :: "int \<Rightarrow> SmsRow \<Rightarrow> bool" where
  "due_for_report now m = (smr_providerMessageId m \<noteq> None \<and> awaits_report m
     \<and> (smr_nextDeliveryReportPollAt m = None \<or> at_or_before (smr_nextDeliveryReportPollAt m) now))"

text \<open>Polls ascending with no poll first, then \<open>sentAt\<close> (no value last), then the id.\<close>

definition report_order :: "SmsRow \<Rightarrow> bool \<times> int \<times> bool \<times> int \<times> string" where
  "report_order m =
     (smr_nextDeliveryReportPollAt m \<noteq> None, (case smr_nextDeliveryReportPollAt m of Some t \<Rightarrow> t | None \<Rightarrow> 0),
      smr_sentAt m = None, (case smr_sentAt m of Some t \<Rightarrow> t | None \<Rightarrow> 0), sms_id m)"

definition same_report :: "SmsRow \<Rightarrow> SmsRow \<Rightarrow> bool" where
  "same_report m x = (sms_id x = sms_id m \<and> smr_providerMessageId x = smr_providerMessageId m \<and> awaits_report x)"

definition claim_report :: "SmsRow \<Rightarrow> int \<Rightarrow> outbox_db \<Rightarrow> nat \<times> outbox_db" where
  "claim_report m nextPollAt =
     message_updateMany (\<lambda>x. same_report m x \<and> smr_nextDeliveryReportPollAt x = smr_nextDeliveryReportPollAt m)
       (\<lambda>x. x\<lparr>smr_nextDeliveryReportPollAt := Some nextPollAt\<rparr>)"

definition report_update :: "SmsDeliveryReport \<Rightarrow> int \<Rightarrow> SmsRow \<Rightarrow> SmsRow" where
  "report_update r now x =
     (let occurredAt = (case dr_occurredAt r of Some t \<Rightarrow> t | None \<Rightarrow> now) in
      if dr_status r = SmsMessageStatus.DELIVERED
      then x\<lparr>sms_status := SmsMessageStatus.DELIVERED, smr_deliveredAt := Some occurredAt, smr_nextDeliveryReportPollAt := None\<rparr>
      else if dr_status r = SmsMessageStatus.FAILED
      then x\<lparr>sms_status := SmsMessageStatus.FAILED, smr_failedAt := Some occurredAt, smr_failureCategory := Some ''terminal'',
             smr_lastError := Some ''Provider delivery report marked message failed'', smr_nextDeliveryReportPollAt := None\<rparr>
      else x)"

definition apply_report :: "SmsRow \<Rightarrow> int \<Rightarrow> SmsDeliveryReport \<Rightarrow> int \<Rightarrow> outbox_db \<Rightarrow> outbox_db" where
  "apply_report m nextPollAt r now s =
     snd (message_updateMany (\<lambda>x. same_report m x \<and> smr_nextDeliveryReportPollAt x = Some nextPollAt) (report_update r now) s)"

definition poll_message :: "WorkerConfig \<Rightarrow> poll_world \<Rightarrow> nat \<Rightarrow> SmsRow \<Rightarrow> outbox_db \<Rightarrow> outbox_db" where
  "poll_message cfg w k m s =
     (case smr_providerMessageId m of
        None \<Rightarrow> s
      | Some messageId \<Rightarrow>
          if pw_stopping w k then s
          else
            let nextPollAt = pw_clock w k + wc_deliveryReportPollIntervalMs cfg in
            case claim_report m nextPollAt (pw_others w k 0 s) of
              (n, s1) \<Rightarrow>
                if n \<noteq> 1 then s1
                else
                  (case pw_report w k messageId of
                     None \<Rightarrow> s1
                   | Some r \<Rightarrow>
                       if dr_providerMessageId r \<noteq> messageId then s1
                       else apply_report m nextPollAt r (pw_received w k) (pw_others w k 1 s1)))"

fun poll_messages :: "WorkerConfig \<Rightarrow> poll_world \<Rightarrow> nat \<Rightarrow> SmsRow list \<Rightarrow> outbox_db \<Rightarrow> outbox_db" where
  "poll_messages cfg w k [] s = s"
| "poll_messages cfg w k (m # ms) s = poll_messages cfg w (Suc k) ms (poll_message cfg w k m s)"

definition pollDeliveryReports :: "sms_provider \<Rightarrow> WorkerConfig \<Rightarrow> poll_world \<Rightarrow> outbox_db \<Rightarrow> outbox_db" where
  "pollDeliveryReports pv cfg w s =
     (if \<not> pv_getDeliveryReport pv \<or> pw_stopped w then s
      else poll_messages cfg w 0
        (take (wc_deliveryReportPollBatchSize cfg) (sort_key report_order (filter (due_for_report (pw_now w)) (obd_messages s)))) s)"

end
