(* ===== verification/Outbox_Delivery.thy ===== *)
theory Outbox_Delivery
  imports Outbox_Worker
begin

text \<open>
  How often a message is handed to the SMS provider. The statements of the worker on the table of messages
  are the steps of \<open>worker_step\<close>; a job, a recovery cycle and a poll of the delivery reports are runs of
  such steps, whatever other sessions run in between. An invariant of the steps bounds the number of
  requests for a message when the provider asks for a reservation before a submission.
\<close>

subsection \<open>The statements of the worker as steps\<close>

inductive worker_step :: "outbox_db \<Rightarrow> outbox_db \<Rightarrow> bool" where
  elsewhere: "obd_messages s' = obd_messages s \<Longrightarrow> obd_submissions s' = obd_submissions s \<Longrightarrow> worker_step s s'"
| created: "message_findUnique (sms_tenantId row) (sms_outboxEventId row) s = None \<Longrightarrow> smr_attempts row = 0 \<Longrightarrow>
    smr_failureCategory row = None \<Longrightarrow> worker_step s (s\<lparr>obd_messages := obd_messages s @ [row]\<rparr>)"
| failed: "message_update t i (failed_attempt now nextAt deadAt category message) s = Inr s' \<Longrightarrow>
    Some category \<noteq> in_progress \<Longrightarrow> worker_step s s'"
| answered: "message_update t i (mapSmsDispatchResult r now) s = Inr s' \<Longrightarrow> worker_step s s'"
| submitted: "\<not> settled (sms_status m) \<Longrightarrow> smr_failureCategory m \<noteq> in_progress \<Longrightarrow>
    smr_attempts m < OUTBOX_RETRY_ATTEMPTS \<Longrightarrow> reserve m now s = (1, s1) \<Longrightarrow> worker_step s (submit m s1)"
| refused: "reserve m now s = (n, s1) \<Longrightarrow> n \<noteq> 1 \<Longrightarrow> worker_step s s1"
| report_claimed: "claim_report m t s = (n, s') \<Longrightarrow> worker_step s s'"
| reported: "worker_step s (apply_report m t r now s)"

abbreviation worker_run :: "outbox_db \<Rightarrow> outbox_db \<Rightarrow> bool" where
  "worker_run \<equiv> worker_step\<^sup>*\<^sup>*"

definition fresh_store :: "outbox_db \<Rightarrow> bool" where
  "fresh_store s = (obd_messages s = [] \<and> obd_submissions s = [])"

subsection \<open>The invariant\<close>

definition message_key :: "SmsRow \<Rightarrow> string \<times> string" where
  "message_key m = (sms_tenantId m, sms_outboxEventId m)"

definition reserved :: "SmsRow \<Rightarrow> nat" where
  "reserved m = (if smr_failureCategory m = in_progress then 1 else 0)"

text \<open>Every request is paid for by an attempt on record or by the reservation that is open.\<close>

definition accounted :: "(string \<times> string) list \<Rightarrow> SmsRow \<Rightarrow> bool" where
  "accounted sent m = (count_list sent (message_key m) \<le> smr_attempts m + reserved m
     \<and> count_list sent (message_key m) \<le> OUTBOX_RETRY_ATTEMPTS
     \<and> (smr_failureCategory m = in_progress \<longrightarrow> \<not> settled (sms_status m)))"

definition delivery_inv :: "outbox_db \<Rightarrow> bool" where
  "delivery_inv s = (distinct (map message_key (obd_messages s)) \<and> list_all (accounted (obd_submissions s)) (obd_messages s)
     \<and> set (obd_submissions s) \<subseteq> message_key ` set (obd_messages s))"

lemma map_updated: "(\<And>x. p x \<Longrightarrow> k (f x) = k x) \<Longrightarrow> map k (updated p f xs) = map k xs"
  by (simp add: updated_def)

lemma image_updated: "(\<And>x. p x \<Longrightarrow> k (f x) = k x) \<Longrightarrow> k ` set (updated p f xs) = k ` set xs"
  by (metis list.set_map map_updated)

lemma list_all_updated: "list_all q (updated p f xs) = (\<forall>x\<in>set xs. q (if p x then f x else x))"
  by (auto simp: updated_def list_all_iff)

lemma delivery_inv_updateMany:
  assumes "delivery_inv s" "\<And>x. p x \<Longrightarrow> message_key (f x) = message_key x"
    and "\<And>x. p x \<Longrightarrow> accounted (obd_submissions s) x \<Longrightarrow> accounted (obd_submissions s) (f x)"
  shows "delivery_inv (snd (message_updateMany p f s))"
  using assms
  by (simp add: delivery_inv_def message_updateMany_def map_updated image_updated list_all_updated)
    (simp add: list_all_iff)

lemma message_update_eq:
  "message_update t i f s = Inr s' \<Longrightarrow> s' = snd (message_updateMany (is_message t i) f s)"
  by (simp add: message_update_def split: if_split_asm)

lemma accounted_failed:
  assumes "accounted sent x" "Some category \<noteq> in_progress"
  shows "accounted sent (failed_attempt now nextAt deadAt category message x)"
  using assms by (auto simp: accounted_def failed_attempt_def message_key_def reserved_def split: if_splits)

lemma accounted_answered:
  assumes "accounted sent x"
  shows "accounted sent (mapSmsDispatchResult r now x)"
  using assms
  by (auto simp: accounted_def mapSmsDispatchResult_def message_key_def reserved_def settled_def
      split: if_splits SmsMessageStatus.split)

lemma accounted_reported:
  assumes "accounted sent x" "awaits_report x"
  shows "accounted sent (report_update r now x)"
  using assms
  by (auto simp: accounted_def report_update_def message_key_def reserved_def settled_def awaits_report_def Let_def
      split: if_splits)

lemma key_failed: "message_key (failed_attempt now nextAt deadAt category message x) = message_key x"
  by (simp add: message_key_def failed_attempt_def)

lemma key_answered: "message_key (mapSmsDispatchResult r now x) = message_key x"
  by (simp add: message_key_def mapSmsDispatchResult_def split: SmsMessageStatus.split)

lemma key_reported: "message_key (report_update r now x) = message_key x"
  by (simp add: message_key_def report_update_def Let_def)

lemma delivery_inv_created:
  assumes "delivery_inv s" "message_findUnique (sms_tenantId row) (sms_outboxEventId row) s = None"
    and "smr_attempts row = 0" "smr_failureCategory row = None"
  shows "delivery_inv (s\<lparr>obd_messages := obd_messages s @ [row]\<rparr>)"
proof -
  have new: "message_key row \<notin> message_key ` set (obd_messages s)"
    using assms(2) by (auto simp: message_findUnique_def find_None_iff is_message_def message_key_def)
  with assms(1) have "message_key row \<notin> set (obd_submissions s)" by (auto simp: delivery_inv_def)
  then have "count_list (obd_submissions s) (message_key row) = 0" by simp
  with assms new show ?thesis by (auto simp: delivery_inv_def accounted_def reserved_def)
qed

lemma unchanged_key: "unchanged m x \<Longrightarrow> message_key x = message_key m"
  by (simp add: unchanged_def message_key_def)

lemma delivery_inv_submitted:
  assumes "delivery_inv s" "\<not> settled (sms_status m)" "smr_failureCategory m \<noteq> in_progress"
    and "smr_attempts m < OUTBOX_RETRY_ATTEMPTS" "reserve m now s = (1, s1)"
  shows "delivery_inv (submit m s1)"
proof -
  let ?f = "\<lambda>x. x\<lparr>smr_failureCategory := in_progress, smr_lastAttemptAt := Some now\<rparr>"
  have key: "message_key (?f x) = message_key x" for x by (simp add: message_key_def)
  have s1: "s1 = s\<lparr>obd_messages := updated (unchanged m) ?f (obd_messages s)\<rparr>"
    and "count_where (unchanged m) (obd_messages s) = 1"
    using assms(5) by (simp_all add: reserve_def message_updateMany_def)
  then have "filter (unchanged m) (obd_messages s) \<noteq> []" by (auto simp: count_where_def)
  then obtain x where x: "x \<in> set (obd_messages s)" "unchanged m x" by (auto simp: filter_empty_conv)
  have others: "message_key y \<noteq> message_key m" if "y \<in> set (obd_messages s)" "\<not> unchanged m y" for y
    using assms(1) that x unchanged_key by (fastforce simp: delivery_inv_def distinct_map inj_on_def)
  have sent: "obd_submissions (submit m s1) = obd_submissions s @ [message_key m]"
    by (simp add: submit_def s1 message_key_def)
  have ok: "accounted (obd_submissions s) y" if "y \<in> set (obd_messages s)" for y
    using assms(1) that by (simp add: delivery_inv_def list_all_iff)
  have "accounted (obd_submissions s @ [message_key m]) (if unchanged m y then ?f y else y)" if "y \<in> set (obd_messages s)" for y
  proof (cases "unchanged m y")
    case True
    then have "message_key y = message_key m" "smr_attempts y = smr_attempts m" "smr_failureCategory y = smr_failureCategory m"
      "sms_status y = sms_status m"
      by (simp_all add: unchanged_key unchanged_def)
    with ok[OF that] True assms(2-4) key[of y] show ?thesis by (simp add: accounted_def reserved_def)
  next
    case False
    with ok[OF that] others[OF that] show ?thesis by (simp add: accounted_def reserved_def)
  qed
  then have "list_all (accounted (obd_submissions (submit m s1))) (obd_messages (submit m s1))"
    unfolding sent by (simp add: submit_def s1 list_all_updated)
  moreover have "distinct (map message_key (obd_messages (submit m s1)))"
    using assms(1) key by (simp add: submit_def s1 map_updated delivery_inv_def)
  moreover have "set (obd_submissions (submit m s1)) \<subseteq> message_key ` set (obd_messages (submit m s1))"
    using assms(1) image_eqI[of "message_key m" message_key, OF unchanged_key[OF x(2), symmetric] x(1)] key unfolding sent
    by (auto simp: submit_def s1 image_updated delivery_inv_def)
  ultimately show ?thesis by (simp add: delivery_inv_def)
qed

lemma delivery_inv_refused:
  assumes "delivery_inv s" "reserve m now s = (n, s1)" "n \<noteq> 1"
  shows "delivery_inv s1"
proof -
  have "length (filter (unchanged m) (obd_messages s)) \<le> 1"
  proof -
    have "distinct (map message_key (filter (unchanged m) (obd_messages s)))"
      using assms(1) by (simp add: delivery_inv_def distinct_map_filter)
    moreover have "set (map message_key (filter (unchanged m) (obd_messages s))) \<subseteq> {message_key m}"
      using unchanged_key by auto
    ultimately show ?thesis
      using card_mono[of "{message_key m}" "set (map message_key (filter (unchanged m) (obd_messages s)))"]
      by (metis card.empty card_insert_disjoint distinct_card empty_iff finite.emptyI finite.insertI length_map One_nat_def)
  qed
  with assms(2,3) have "length (filter (unchanged m) (obd_messages s)) = 0"
    by (simp add: reserve_def message_updateMany_def count_where_def)
  then have "filter (unchanged m) (obd_messages s) = []" by simp
  then have "updated (unchanged m) f (obd_messages s) = obd_messages s" for f
    by (auto simp: updated_def filter_empty_conv intro: map_idI)
  with assms show ?thesis by (auto simp: reserve_def message_updateMany_def)
qed

lemma worker_step_inv:
  assumes "worker_step s s'" "delivery_inv s"
  shows "delivery_inv s'"
  using assms
proof (induction rule: worker_step.induct)
  case (elsewhere s' s)
  then show ?case by (simp add: delivery_inv_def)
next
  case (created row s)
  then show ?case by (simp add: delivery_inv_created)
next
  case (failed t i now nextAt deadAt category message s s')
  then show ?case
    by (simp add: message_update_eq[OF failed.hyps(1)] delivery_inv_updateMany key_failed accounted_failed)
next
  case (answered t i r now s s')
  then show ?case
    by (simp add: message_update_eq[OF answered.hyps(1)] delivery_inv_updateMany key_answered accounted_answered)
next
  case (submitted m now s s1)
  then show ?case by (simp add: delivery_inv_submitted)
next
  case (refused m now s n s1)
  then show ?case by (simp add: delivery_inv_refused)
next
  case (report_claimed m t s n s')
  have "delivery_inv (snd (claim_report m t s))"
    unfolding claim_report_def
    by (rule delivery_inv_updateMany[OF report_claimed.prems]) (auto simp: message_key_def accounted_def reserved_def)
  with report_claimed show ?case by simp
next
  case (reported s m t r now)
  show ?case unfolding apply_report_def
    by (rule delivery_inv_updateMany[OF reported.prems]) (auto simp: key_reported accounted_reported same_report_def)
qed

lemma worker_run_inv: "worker_run s s' \<Longrightarrow> delivery_inv s \<Longrightarrow> delivery_inv s'"
  by (induction rule: rtranclp_induct) (auto intro: worker_step_inv)

lemma fresh_inv: "fresh_store s \<Longrightarrow> delivery_inv s"
  by (simp add: fresh_store_def delivery_inv_def)

lemma delivery_inv_bound:
  assumes "delivery_inv s"
  shows "count_list (obd_submissions s) k \<le> OUTBOX_RETRY_ATTEMPTS"
proof (cases "k \<in> set (obd_submissions s)")
  case True
  with assms obtain m where "m \<in> set (obd_messages s)" "k = message_key m" by (auto simp: delivery_inv_def)
  with assms show ?thesis by (auto simp: delivery_inv_def list_all_iff accounted_def)
qed simp


subsection \<open>Jobs, cycles and polls as runs\<close>

definition run_of :: "(outbox_db \<Rightarrow> outbox_db) \<Rightarrow> bool" where
  "run_of f = (\<forall>s. worker_run s (f s))"

lemma run_trans [trans]: "worker_run a b \<Longrightarrow> worker_run b c \<Longrightarrow> worker_run a c"
  by (rule rtranclp_trans)

lemma run_others: "run_of f \<Longrightarrow> worker_run a b \<Longrightarrow> worker_run a (f b)"
  by (auto simp: run_of_def intro: rtranclp_trans)

lemma run_step: "worker_run a b \<Longrightarrow> worker_step b c \<Longrightarrow> worker_run a c"
  by (rule rtranclp.rtrancl_into_rtrancl)

lemma event_updateMany_step: "worker_step s (event_updateMany p f s)"
  by (rule elsewhere) (simp_all add: event_updateMany_def)

lemma event_update_run: "worker_run a s \<Longrightarrow> event_update t i f s = Inr s' \<Longrightarrow> worker_run a s'"
  by (auto simp: event_update_def split: if_split_asm intro: run_step event_updateMany_step)

lemma completed_run: "worker_run a s \<Longrightarrow> markOutboxEventCompleted e now s = Inr s' \<Longrightarrow> worker_run a s'"
  unfolding markOutboxEventCompleted_def by (rule event_update_run)

lemma dead_lettered_run: "worker_run a s \<Longrightarrow> markOutboxEventDeadLettered e c now s = Inr s' \<Longrightarrow> worker_run a s'"
  unfolding markOutboxEventDeadLettered_def by (rule event_update_run)

lemma retry_event_run: "worker_run a s \<Longrightarrow> retry_event cfg e now dead now2 s = Inr s' \<Longrightarrow> worker_run a s'"
  unfolding retry_event_def markOutboxEventFailure_def by (rule event_update_run)

lemma failed_run:
  "worker_run a s \<Longrightarrow> message_update t i (failed_attempt now nextAt deadAt category message) s = Inr s' \<Longrightarrow>
   Some category \<noteq> in_progress \<Longrightarrow> worker_run a s'"
  by (rule run_step) (auto intro: failed)

lemma retry_update_run:
  "worker_run a s \<Longrightarrow> message_update t i (retry_update cfg now dead message) s = Inr s' \<Longrightarrow> worker_run a s'"
  unfolding retry_update_def by (erule (1) failed_run) (cases dead; simp)

lemma outcome_run:
  "worker_run a s \<Longrightarrow> (\<And>s'. r = Inr s' \<Longrightarrow> worker_run a s') \<Longrightarrow> worker_run a (snd (outcome_of x s r))"
  by (cases r) (simp_all add: outcome_of_def)

lemma outcome_unknown_run:
  assumes "worker_run a s" "run_of others" "markSmsSubmissionOutcomeUnknown m e now now2 others s = Inr s'"
  shows "worker_run a s'"
proof -
  obtain s1 where s1: "message_update (sms_tenantId m) (sms_outboxEventId m) (failed_attempt now None (Some now) ''dead-lettered''
      ''Twilio submission outcome is unknown; verify provider history before manual replay'') s = Inr s1"
    and s': "markOutboxEventDeadLettered e ''provider-outcome-unknown'' now2 (others s1) = Inr s'"
    using assms(3) by (auto simp: markSmsSubmissionOutcomeUnknown_def res_bind_eq_Inr)
  have "worker_run a s1" by (rule failed_run[OF assms(1) s1]) simp
  then show ?thesis by (rule dead_lettered_run[OF run_others[OF assms(2)] s'])
qed

lemma send_caught_run:
  assumes run: "worker_run a s" and others: "\<And>k. run_of (jw_others w k)"
  shows "worker_run a (snd (send_caught cfg w reserving e m now err s))"
proof (cases reserving)
  case True
  have "worker_run a (snd (outcome_of Discarded s
      (markSmsSubmissionOutcomeUnknown m e now (jw_clock w 3) (jw_others w 9) s)))"
    by (rule outcome_run[OF run outcome_unknown_run[OF run others]])
  with True show ?thesis by (simp add: send_caught_def)
next
  case False
  let ?d = "dead_after m None"
  show ?thesis
  proof (cases "message_update (sms_tenantId m) (sms_outboxEventId m) (retry_update cfg now ?d (err_message err)) s")
    case (Inl e2)
    with False run show ?thesis by (simp add: send_caught_def Let_def)
  next
    case (Inr s1)
    have r1: "worker_run a s1" by (rule retry_update_run[OF run Inr])
    have "worker_run a (snd (outcome_of (Threw err) s1 (retry_event cfg e now ?d (jw_clock w 4) (jw_others w 9 s1))))"
      by (rule outcome_run[OF r1 retry_event_run[OF run_others[OF others r1]]])
    with False Inr show ?thesis by (simp add: send_caught_def Let_def)
  qed
qed

lemma after_answer_run:
  assumes run: "worker_run a s" and others: "\<And>k. run_of (jw_others w k)"
  shows "worker_run a (snd (after_answer cfg w reserving e m now r s))"
proof -
  note caught = send_caught_run[OF run_others[OF others] others]
  show ?thesis
  proof (cases "sr_status r = SmsMessageStatus.FAILED")
    case True
    let ?d = "dead_after m (sr_failureCategory r)"
    show ?thesis
    proof (cases "message_update (sms_tenantId m) (sms_outboxEventId m)
        (retry_update cfg now ?d (case sr_errorMessage r of Some x \<Rightarrow> x | None \<Rightarrow> ''SMS delivery failed'')) s")
      case (Inl err)
      with True caught[OF run] show ?thesis by (simp add: after_answer_def Let_def)
    next
      case (Inr s1)
      have r1: "worker_run a (jw_others w 6 s1)" by (rule run_others[OF others retry_update_run[OF run Inr]])
      show ?thesis
      proof (cases "retry_event cfg e now ?d (jw_clock w 2) (jw_others w 6 s1)")
        case (Inl err)
        with True Inr caught[OF r1] show ?thesis by (simp add: after_answer_def Let_def)
      next
        case r2: (Inr s2)
        from retry_event_run[OF r1 r2] True Inr r2 show ?thesis by (simp add: after_answer_def Let_def)
      qed
    qed
  next
    case False
    show ?thesis
    proof (cases "message_update (sms_tenantId m) (sms_outboxEventId m) (mapSmsDispatchResult r now) s")
      case (Inl err)
      with False caught[OF run] show ?thesis by (simp add: after_answer_def)
    next
      case (Inr s1)
      from run_step[OF run answered[OF Inr]] False Inr show ?thesis by (simp add: after_answer_def)
    qed
  qed
qed

lemma send_message_run:
  assumes "worker_run a (submit m s)" "\<And>k. run_of (jw_others w k)"
  shows "worker_run a (snd (send_message cfg w reserving e m now s))"
  using send_caught_run[OF run_others[OF assms(2,1)] assms(2)] after_answer_run[OF run_others[OF assms(2,1)] assms(2)]
  by (simp add: send_message_def split: sum.split)

lemma invalid_payload_run:
  assumes "worker_run a s" "markSmsMessageInvalidPayload m now message s = Inr s1"
  shows "worker_run a s1"
  by (rule failed_run[OF assms(1) assms(2)[unfolded markSmsMessageInvalidPayload_def]]) simp

text \<open>The branch of a job that reads a message it may send.\<close>

lemma reserved_send_run:
  assumes run: "worker_run a s" and others: "\<And>k. run_of (jw_others w k)"
    and m: "\<not> settled (sms_status m)" "smr_failureCategory m \<noteq> in_progress" "smr_attempts m < OUTBOX_RETRY_ATTEMPTS"
  shows "worker_run a (snd (case reserve m now s of
    (n, s1) \<Rightarrow> if n \<noteq> 1 then (Discarded, s1) else send_message cfg w reserving e m now s1))"
proof -
  obtain n s1 where r: "reserve m now s = (n, s1)" by fastforce
  show ?thesis
  proof (cases "n = 1")
    case True
    with r have r1: "reserve m now s = (1, s1)" by simp
    have "worker_run a (snd (send_message cfg w reserving e m now s1))"
      by (rule send_message_run[OF run_step[OF run submitted[OF m r1]] others])
    with r1 show ?thesis by simp
  next
    case False
    from run_step[OF run refused[OF r False]] r False show ?thesis by simp
  qed
qed

lemma deliver_message_run:
  assumes run: "worker_run a s" and others: "\<And>k. run_of (jw_others w k)" and pv: "pv_requiresLocalSubmissionReservation pv"
  shows "worker_run a (snd (deliver_message env pv cfg w e m s))"
proof -
  note completed = outcome_run[OF run completed_run[OF run]]
    and unknown = outcome_run[OF run outcome_unknown_run[OF run others]]
    and dead_lettered = outcome_run[OF run dead_lettered_run[OF run]]
  consider (settled) "settled (sms_status m)"
    | (progress) "\<not> settled (sms_status m)" "smr_failureCategory m = in_progress"
    | (dead) "\<not> settled (sms_status m)" "smr_failureCategory m \<noteq> in_progress"
        "smr_deadLetteredAt m \<noteq> None \<or> OUTBOX_RETRY_ATTEMPTS \<le> smr_attempts m"
    | (live) "\<not> settled (sms_status m)" "smr_failureCategory m \<noteq> in_progress" "smr_deadLetteredAt m = None"
        "smr_attempts m < OUTBOX_RETRY_ATTEMPTS"
    by (meson not_le)
  then show ?thesis
  proof cases
    case settled
    with completed show ?thesis by (simp add: deliver_message_def)
  next
    case progress
    with pv run unknown show ?thesis by (simp add: deliver_message_def)
  next
    case dead
    with dead_lettered show ?thesis by (simp add: deliver_message_def)
  next
    case live
    let ?v = "validateSmsIntent env (sms_template m) (normalizeJsonPayload (sms_payload m))"
    have eq: "deliver_message env pv cfg w e m s = (case ?v of
        Inl (SmsPayloadError message) \<Rightarrow>
          (case markSmsMessageInvalidPayload m (jw_clock w 1) message s of
             Inl err \<Rightarrow> (Threw err, s)
           | Inr s1 \<Rightarrow> outcome_of Discarded s1 (markOutboxEventDeadLettered e ''invalid-payload'' (jw_clock w 2) (jw_others w 9 s1)))
      | Inl (SmsError message) \<Rightarrow> (Threw (PlainError message), s)
      | Inr _ \<Rightarrow> (case reserve m (jw_clock w 1) s of
          (n, s1) \<Rightarrow> if n \<noteq> 1 then (Discarded, s1) else send_message cfg w True e m (jw_clock w 1) s1))"
      using live pv by (simp add: deliver_message_def Let_def del: One_nat_def)
    show ?thesis
    proof (cases ?v)
      case (Inr u)
      with eq reserved_send_run[OF run others live(1,2,4)] show ?thesis by (simp del: One_nat_def)
    next
      case (Inl x)
      show ?thesis
      proof (cases x)
        case (SmsError message)
        with eq Inl run show ?thesis by simp
      next
        case (SmsPayloadError message)
        show ?thesis
        proof (cases "markSmsMessageInvalidPayload m (jw_clock w 1) message s")
          case Inl2: (Inl err)
          with eq Inl SmsPayloadError run show ?thesis by simp
        next
          case (Inr s1)
          have r1: "worker_run a s1" by (rule invalid_payload_run[OF run Inr])
          have "worker_run a (snd (outcome_of Discarded s1
              (markOutboxEventDeadLettered e ''invalid-payload'' (jw_clock w 2) (jw_others w 9 s1))))"
            by (rule outcome_run[OF r1 dead_lettered_run[OF run_others[OF others r1]]])
          with eq Inl SmsPayloadError Inr show ?thesis by simp
        qed
      qed
    qed
  qed
qed

lemma fraud_event_run:
  assumes "worker_run a s" "processFraudEvaluationEvent env fc t i now s = Inr s'"
  shows "worker_run a s'"
proof -
  have "obd_messages s' = obd_messages s \<and> obd_submissions s' = obd_submissions s"
    using assms(2)
    by (auto simp: processFraudEvaluationEvent_def res_bind_eq_Inr event_update_def event_updateMany_def recordFraudFindings_def
        split: option.split_asm if_split_asm)
  then show ?thesis using assms(1) by (blast intro: run_step elsewhere)
qed

lemma create_message_run:
  assumes "worker_run a s" "createSmsMessageFromOutboxEvent env newId e now s = Inr (m, s')"
  shows "worker_run a s'"
proof (cases "message_findUnique (ob_tenantId e) (ob_id e) s")
  case (Some x)
  with assms show ?thesis by (auto simp: createSmsMessageFromOutboxEvent_def split: sum.split_asm)
next
  case None
  with assms(2) obtain row where row: "sms_for_event env newId e now = Inr row" "s' = s\<lparr>obd_messages := obd_messages s @ [row]\<rparr>"
    by (auto simp: createSmsMessageFromOutboxEvent_def split: sum.split_asm)
  then have "sms_tenantId row = ob_tenantId e" "sms_outboxEventId row = ob_id e" "smr_attempts row = 0"
    "smr_failureCategory row = None"
    by (auto simp: sms_for_event_def new_message_def Let_def SmsMessage.defs SmsRow.defs
        split: if_split_asm sum.split_asm sms_error.split_asm)
  with None have "worker_step s s'" unfolding row(2) by (intro created) simp_all
  then show ?thesis by (rule run_step[OF assms(1)])
qed

lemma refresh_run:
  assumes "worker_run a s" "\<And>k. run_of (jw_others w k)"
  shows "worker_run a (snd (processReportRefreshEvent w e s))"
  using assms(1) outcome_run[OF assms(1) completed_run[OF run_others[OF assms(2,1)]]]
  by (simp add: processReportRefreshEvent_def Let_def split: option.split)

lemma handle_published_run:
  assumes run: "worker_run a s" and others: "\<And>k. run_of (jw_others w k)" and pv: "pv_requiresLocalSubmissionReservation pv"
  shows "worker_run a (snd (handle_published env fc pv cfg w e found s))"
proof -
  note fraud = outcome_run[OF run fraud_event_run[OF run]]
    and dead = outcome_run[OF run dead_lettered_run[OF run]]
    and deliver = deliver_message_run[OF run_others[OF others] others pv]
  have "worker_run a (snd (case createSmsMessageFromOutboxEvent env (jw_newId w) e (jw_clock w 0) s of
      Inl _ \<Rightarrow> outcome_of Discarded s (markOutboxEventDeadLettered e ''invalid-payload'' (jw_clock w 1) s)
    | Inr (m, s1) \<Rightarrow> deliver_message env pv cfg w e m (jw_others w 3 s1)))"
    using dead deliver[OF create_message_run[OF run]] by (auto split: sum.split prod.split)
  with refresh_run[OF run others] fraud dead deliver[OF run] show ?thesis
    by (simp add: handle_published_def split: option.split)
qed

lemma handleJob_run:
  assumes others: "\<And>k. run_of (jw_others w k)" and pv: "pv_requiresLocalSubmissionReservation pv"
  shows "worker_run s (snd (handleJob env fc pv cfg w t i s))"
proof (cases "event_findUnique t i s")
  case None
  then show ?thesis by (simp add: handleJob_def)
next
  case (Some e)
  let ?f = "\<lambda>x. x\<lparr>obr_status := OutboxEventStatus.PUBLISHED,
      obr_publishedAt := Some (case obr_publishedAt e of Some t \<Rightarrow> t | None \<Rightarrow> jw_clock w 0), obr_updatedAt := jw_clock w 0\<rparr>"
  have r1: "worker_run s (jw_others w 1 s)" by (rule run_others[OF others]) simp
  show ?thesis
  proof (cases "event_update t i ?f (jw_others w 1 s)")
    case (Inl err)
    with Some r1 show ?thesis by (simp add: handleJob_def)
  next
    case (Inr s1)
    from handle_published_run[OF run_others[OF others event_update_run[OF r1 Inr]] others pv] Some Inr show ?thesis
      by (simp add: handleJob_def)
  qed
qed

lemma publish_claimed_run:
  assumes "\<And>k. run_of (cw_others w k)"
  shows "worker_run a s \<Longrightarrow> worker_run a (publish_claimed cfg w k es s)"
  by (induction es arbitrary: k s) (simp_all add: run_step[OF run_others[OF assms] event_updateMany_step])

lemma recover_run:
  assumes "\<And>k. run_of (cw_others w k)"
  shows "worker_run s (recoverAndPublishOnce cfg w s)"
proof -
  note go = run_others[OF assms] and step = run_step[OF _ event_updateMany_step]
  let ?s = "cw_others w 2 (complete_sent (cw_now w) (cw_others w 1 (complete_processed (cw_now w) (cw_others w 0 s))))"
  have "worker_run s ?s"
    unfolding complete_sent_def complete_processed_def by (intro go step) simp
  then have "worker_run s (snd (claim_events cfg w ?s))"
    by (auto simp: claim_events_def Let_def intro: step)
  then show ?thesis
    by (auto simp: recoverAndPublishOnce_def split: prod.split intro!: publish_claimed_run assms)
qed

lemma poll_message_run:
  assumes others: "\<And>k j. run_of (pw_others w k j)" and run: "worker_run a s"
  shows "worker_run a (poll_message cfg w k m s)"
proof -
  let ?t = "pw_clock w k + wc_deliveryReportPollIntervalMs cfg"
  obtain n s1 where c: "claim_report m ?t (pw_others w k 0 s) = (n, s1)" by fastforce
  have r1: "worker_run a s1" by (rule run_step[OF run_others[OF others run] report_claimed[OF c]])
  have "worker_run a (apply_report m ?t r now (pw_others w k 1 s1))" for r now
    by (rule run_step[OF run_others[OF others r1] reported])
  with c r1 run show ?thesis by (simp add: poll_message_def Let_def split: option.split)
qed

lemma poll_run:
  assumes "\<And>k j. run_of (pw_others w k j)"
  shows "worker_run s (pollDeliveryReports pv cfg w s)"
proof -
  have "worker_run a b \<Longrightarrow> worker_run a (poll_messages cfg w k ms b)" for a b k ms
    by (induction ms arbitrary: k b) (simp_all add: poll_message_run[OF assms])
  then show ?thesis by (simp add: pollDeliveryReports_def)
qed

subsection \<open>One cycle publishes what is due\<close>

definition due_now :: "int \<Rightarrow> OutboxRow \<Rightarrow> bool" where
  "due_now now e = (ob_eventType e \<in> {''sms.send'', ''fraud.evaluate'', ''report.refresh''}
     \<and> obr_deadLetteredAt e = None \<and> obr_processedAt e = None
     \<and> (obr_status e = OutboxEventStatus.PENDING \<or> obr_status e = OutboxEventStatus.FAILED)
     \<and> (ob_nextAttemptAt e = None \<or> at_or_before (ob_nextAttemptAt e) now))"

definition published_once :: "int \<Rightarrow> OutboxRow \<Rightarrow> OutboxRow \<Rightarrow> bool" where
  "published_once now e x = (is_event (ob_tenantId e) (ob_id e) x \<and> obr_status x = OutboxEventStatus.PUBLISHED
     \<and> obr_publishedAt x = Some now \<and> obr_attempts x = obr_attempts e + 1 \<and> ob_nextAttemptAt x = None)"

lemma updated_keeps: "x \<in> set xs \<Longrightarrow> \<not> p x \<Longrightarrow> x \<in> set (updated p f xs)"
  by (force simp: updated_def)

lemma updated_changes: "x \<in> set xs \<Longrightarrow> p x \<Longrightarrow> f x \<in> set (updated p f xs)"
  by (force simp: updated_def)

lemma publish_keeps_published:
  assumes "\<And>k s. cw_others w k s = s"
  shows "x \<in> set (obd_events s) \<Longrightarrow> obr_status x = OutboxEventStatus.PUBLISHED \<Longrightarrow>
    x \<in> set (obd_events (publish_claimed cfg w k rows s))"
  by (induction rows arbitrary: k s) (simp_all add: assms event_updateMany_def updated_keeps still_queued_def)

lemma publish_claimed_publishes:
  assumes "\<And>k s. cw_others w k s = s" "\<And>k. cw_published w k"
  shows "x \<in> set (obd_events s) \<Longrightarrow> \<exists>y\<in>set rows. still_queued y x \<Longrightarrow>
    \<exists>z\<in>set (obd_events (publish_claimed cfg w k rows s)).
      z = x\<lparr>obr_status := OutboxEventStatus.PUBLISHED, obr_publishedAt := Some (cw_now w), ob_nextAttemptAt := None,
            obr_updatedAt := obr_updatedAt z\<rparr>"
proof (induction rows arbitrary: k s)
  case (Cons y rows)
  let ?f = "\<lambda>x. x\<lparr>obr_status := OutboxEventStatus.PUBLISHED, obr_publishedAt := Some (cw_now w), ob_nextAttemptAt := None,
      obr_updatedAt := cw_clock w (Suc k)\<rparr>"
  let ?s = "event_updateMany (still_queued y) ?f s"
  show ?case
  proof (cases "still_queued y x")
    case True
    then have "?f x \<in> set (obd_events ?s)" using updated_changes[OF Cons.prems(1), of "still_queued y" ?f]
      by (simp add: event_updateMany_def)
    then have "?f x \<in> set (obd_events (publish_claimed cfg w (Suc k) rows ?s))"
      by (rule publish_keeps_published[OF assms(1)]) simp
    then show ?thesis using assms by (intro bexI[of _ "?f x"]) simp_all
  next
    case False
    then have "x \<in> set (obd_events ?s)" using Cons.prems(1) by (simp add: event_updateMany_def updated_keeps)
    with Cons.IH[of ?s "Suc k"] Cons.prems(2) False assms show ?thesis by simp
  qed
qed simp

lemma due_event_claimed:
  assumes "e \<in> set (obd_events s)" "due_now (cw_now w) e" "\<And>x. \<not> cw_locked w x"
    and "length (filter (recoverable (cw_now w) (cw_now w - wc_recoveryThresholdMs cfg) s) (obd_events s)) \<le> wc_publishBatchSize cfg"
  shows "ob_id e \<in> set (claim_ids cfg w s)"
proof -
  have "recoverable (cw_now w) (cw_now w - wc_recoveryThresholdMs cfg) s e"
    using assms(2) by (auto simp: recoverable_def due_now_def)
  with assms(1,3,4) show ?thesis by (simp add: claim_ids_def)
qed

subsection \<open>The claims\<close>

text \<open>
  C8: with a provider that asks for a reservation, a message is handed to it at most five times, whatever jobs,
  cycles and polls run and however their statements interleave with those of other workers.
\<close>

theorem sms_submissions_bounded:
  assumes "pv_requiresLocalSubmissionReservation pv" "fresh_store s0" "worker_run s0 s"
    and "\<And>k. run_of (jw_others w k)" "\<And>k. run_of (cw_others c k)" "\<And>k j. run_of (pw_others q k j)"
  shows "count_list (obd_submissions (snd (handleJob env fc pv cfg w t i s))) key \<le> OUTBOX_RETRY_ATTEMPTS
    \<and> count_list (obd_submissions (recoverAndPublishOnce cfg c s)) key \<le> OUTBOX_RETRY_ATTEMPTS
    \<and> count_list (obd_submissions (pollDeliveryReports pv cfg q s)) key \<le> OUTBOX_RETRY_ATTEMPTS"
proof -
  have inv: "delivery_inv s" by (rule worker_run_inv[OF assms(3) fresh_inv[OF assms(2)]])
  note kept = delivery_inv_bound[OF worker_run_inv[OF _ inv]]
  show ?thesis
    by (intro conjI kept handleJob_run[OF assms(4,1)] recover_run[OF assms(5)] poll_run[OF assms(6)])
qed

text \<open>
  C30: a pending or failed event whose time has come, that is neither processed nor dead-lettered, is published by the next
  cycle with one more attempt on record, if no more events than the batch holds are recoverable once the finished ones are
  closed, the queue accepts it and nobody else interferes.
\<close>

theorem recovery_publishes_due:
  assumes "\<not> cw_stopping w" "\<And>k s. cw_others w k s = s" "\<And>x. \<not> cw_locked w x" "\<And>k. cw_published w k"
    and s1: "s1 = complete_sent (cw_now w) (complete_processed (cw_now w) s)"
    and fits: "length (filter (recoverable (cw_now w) (cw_now w - wc_recoveryThresholdMs cfg) s1) (obd_events s1)) \<le> wc_publishBatchSize cfg"
    and e: "e \<in> set (obd_events s)" "due_now (cw_now w) e"
  shows "\<exists>x\<in>set (obd_events (recoverAndPublishOnce cfg w s)). published_once (cw_now w) e x"
proof -
  have "e \<in> set (obd_events s1)"
    using e by (auto simp: s1 complete_sent_def complete_processed_def event_updateMany_def due_now_def intro!: updated_keeps)
  then have i: "ob_id e \<in> set (claim_ids cfg w s1)"
    by (intro due_event_claimed e(2) assms(3) fits)
  let ?f = "\<lambda>e. e\<lparr>obr_status := OutboxEventStatus.QUEUED, obr_attempts := obr_attempts e + 1, ob_nextAttemptAt := None,
      obr_updatedAt := cw_clock w 0\<rparr>"
  let ?s2 = "event_updateMany (\<lambda>e. ob_id e \<in> set (claim_ids cfg w s1)) ?f s1"
  let ?rows = "sort_key obr_createdAt (filter (\<lambda>e. ob_id e \<in> set (claim_ids cfg w s1)) (obd_events ?s2))"
  have mem: "?f e \<in> set (obd_events ?s2)"
    using i updated_changes[OF \<open>e \<in> set (obd_events s1)\<close>, of "\<lambda>e. ob_id e \<in> set (claim_ids cfg w s1)" ?f]
    by (simp add: event_updateMany_def)
  moreover have "still_queued (?f e) (?f e)" "?f e \<in> set ?rows"
    using e(2) i mem by (auto simp: still_queued_def is_event_def due_now_def)
  ultimately obtain z where "z \<in> set (obd_events (publish_claimed cfg w 0 ?rows ?s2))"
    and z: "z = (?f e)\<lparr>obr_status := OutboxEventStatus.PUBLISHED, obr_publishedAt := Some (cw_now w), ob_nextAttemptAt := None,
            obr_updatedAt := obr_updatedAt z\<rparr>"
    using publish_claimed_publishes[where w = w and x = "?f e" and rows = ?rows and s = ?s2 and cfg = cfg and k = 0, OF assms(2,4)] by blast
  moreover have "recoverAndPublishOnce cfg w s = publish_claimed cfg w 0 ?rows ?s2"
    using i assms(1,2) by (auto simp: recoverAndPublishOnce_def claim_events_def Let_def s1)
  moreover have "published_once (cw_now w) e z" by (subst z) (simp add: published_once_def is_event_def)
  ultimately show ?thesis by metis
qed

definition demo_config :: WorkerConfig where
  "demo_config = \<lparr> wc_publishBatchSize = 10, wc_deliveryReportPollIntervalMs = 60000, wc_deliveryReportPollBatchSize = 10,
     wc_retryDelayMs = 30000, wc_recoveryThresholdMs = 60000 \<rparr>"

definition demo_provider :: sms_provider where
  "demo_provider = \<lparr> pv_requiresLocalSubmissionReservation = True, pv_submissionReservationWindowMs = Some 120000,
     pv_getDeliveryReport = True \<rparr>"

definition demo_sms :: OutboxEvent where
  "demo_sms = \<lparr> ob_id = ''E'', ob_tenantId = ''T'', ob_aggregateType = ''receipt'', ob_aggregateId = ''R1'',
     ob_eventType = ''sms.send'', ob_payload = buildEarnConfirmedSmsPayload ''R1'' ''t1'' ''C'' ''+2348000000000'' 3001,
     ob_nextAttemptAt = None \<rparr>"

definition demo_job :: job_world where
  "demo_job = \<lparr> jw_others = (\<lambda>_ s. s), jw_clock = (\<lambda>_. demo_now),
     jw_send = Inr \<lparr> sr_status = SmsMessageStatus.SENT, sr_providerMessageId = Some ''P'', sr_errorMessage = None, sr_failureCategory = None \<rparr>,
     jw_materialize = None, jw_newId = ''M'' \<rparr>"

definition demo_cycle :: cycle_world where
  "demo_cycle = \<lparr> cw_stopping = False, cw_now = demo_now, cw_clock = (\<lambda>_. demo_now), cw_locked = (\<lambda>_. False),
     cw_published = (\<lambda>_. True), cw_others = (\<lambda>_ s. s) \<rparr>"

definition demo_poll :: poll_world where
  "demo_poll = \<lparr> pw_stopped = False, pw_now = demo_now, pw_clock = (\<lambda>_. demo_now), pw_stopping = (\<lambda>_. False),
     pw_report = (\<lambda>_ _. None), pw_received = (\<lambda>_. demo_now), pw_others = (\<lambda>_ _ s. s) \<rparr>"

lemma demo_job_sends:
  "obd_submissions (snd (handleJob demo_env demo_columns demo_provider demo_config demo_job ''T'' ''E'' (demo_outbox [demo_sms])))
   = [(''T'', ''E'')]"
  by code_simp

theorem sms_submissions_bounded_witness:
  "count_list [(''T'', ''E'')] (''T'', ''E'') \<le> OUTBOX_RETRY_ATTEMPTS
   \<and> obd_submissions (snd (handleJob demo_env demo_columns demo_provider demo_config demo_job ''T'' ''E'' (demo_outbox [demo_sms])))
     = [(''T'', ''E'')]"
proof -
  have "pv_requiresLocalSubmissionReservation demo_provider" "fresh_store (demo_outbox [demo_sms])"
    "run_of (jw_others demo_job k)" "run_of (cw_others demo_cycle k)" "run_of (pw_others demo_poll k j)" for k j
    by (simp_all add: demo_provider_def fresh_store_def demo_outbox_def demo_job_def demo_cycle_def demo_poll_def run_of_def)
  from sms_submissions_bounded[OF this(1,2) rtranclp.rtrancl_refl this(3-5), of demo_env demo_columns demo_config "''T''" "''E''"
      "(''T'', ''E'')"] demo_job_sends
  show ?thesis by simp
qed

theorem recovery_publishes_due_witness:
  "\<exists>x\<in>set (obd_events (recoverAndPublishOnce demo_config demo_cycle (demo_outbox [demo_sms, demo_event]))).
     published_once demo_now (new_event demo_now demo_sms) x"
proof -
  let ?s1 = "complete_sent demo_now (complete_processed demo_now (demo_outbox [demo_sms, demo_event]))"
  have due: "due_now demo_now (new_event demo_now demo_sms)" by code_simp
  have "length (filter (recoverable demo_now (demo_now - wc_recoveryThresholdMs demo_config) ?s1) (obd_events ?s1))
      \<le> wc_publishBatchSize demo_config" by code_simp
  then show ?thesis
    using recovery_publishes_due[where w = demo_cycle and s = "demo_outbox [demo_sms, demo_event]" and cfg = demo_config
        and e = "new_event demo_now demo_sms" and ?s1.0 = ?s1] due
    by (simp add: demo_cycle_def demo_outbox_def)
qed

end
