(* ===== verification/Keyed_Calls.thy ===== *)
theory Keyed_Calls
  imports System
begin

text \<open>
  The shape the write methods of \<^verbatim>\<open>src/modules/cards/cards.service.ts\<close> and \<^verbatim>\<open>src/modules/customers/customers.service.ts\<close>
  share: normalise the key, drop an expired record, look for a stored response, check the request
  against what is in the database, and then, in one transaction, claim the key, do the work and store the
  response. The checks are reads outside the transaction: \<open>others k\<close> is what other sessions commit before
  the \<open>k\<close>-th of them. These transactions run at the default isolation level; the model runs a body as
  a whole on what the sessions before it left (\<open>sched\<close>).
\<close>

record keyed =
  ky_tenantId :: string
  ky_actorId :: string
  ky_endpoint :: string
  ky_key :: string
  ky_requestHash :: string

definition IDEMPOTENCY_KEY_MAX_LENGTH :: nat where "IDEMPOTENCY_KEY_MAX_LENGTH = 255"

definition normalizeKeyHeader :: "string option \<Rightarrow> svc_error + string" where
  "normalizeKeyHeader v =
     (let normalized = (case v of None \<Rightarrow> [] | Some k \<Rightarrow> js_trim k) in
      if normalized = [] then Inl (BadRequestException ''Idempotency-Key header is required'')
      else if length normalized > IDEMPOTENCY_KEY_MAX_LENGTH
      then Inl (BadRequestException ''Idempotency-Key header is too long'')
      else Inr normalized)"

definition key_record :: "keyed \<Rightarrow> db \<Rightarrow> IdempotencyRecord option" where
  "key_record ky = idempotencyRecord_findUnique (ky_tenantId ky) (ky_actorId ky) (ky_endpoint ky) (ky_key ky)"

definition drop_expired :: "keyed \<Rightarrow> int \<Rightarrow> db \<Rightarrow> db" where
  "drop_expired ky now =
     idempotencyRecord_deleteMany (\<lambda>x. is_record (ky_tenantId ky) (ky_actorId ky) (ky_endpoint ky) (ky_key ky) x
       \<and> idr_expiresAt x < now)"

definition findIdempotency :: "keyed \<Rightarrow> int \<Rightarrow> db \<Rightarrow> (svc_error + IdempotencyRecord option) \<times> db" where
  "findIdempotency ky now d =
     (let d1 = drop_expired ky now d in
      case key_record ky d1 of
        Some x \<Rightarrow> (if idr_requestHash x \<noteq> ky_requestHash ky then Inl idempotency_conflict else Inr (Some x), d1)
      | None \<Rightarrow> (Inr None, d1))"

definition claim_key :: "keyed \<Rightarrow> int \<Rightarrow> unit dbtx" where
  "claim_key ky now =
     idempotencyRecord_create
       \<lparr> idr_tenantId = ky_tenantId ky, idr_actorId = ky_actorId ky, idr_endpoint = ky_endpoint ky,
         idr_idempotencyKey = ky_key ky, idr_requestHash = ky_requestHash ky, idr_responseJson = None,
         idr_status = IdempotencyRecordStatus.PENDING, idr_expiresAt = now + 24 * 60 * 60 * 1000 \<rparr>"

definition complete_key :: "keyed \<Rightarrow> json \<Rightarrow> unit dbtx" where
  "complete_key ky response =
     require_updated (idempotencyRecord_updateMany
       (is_record (ky_tenantId ky) (ky_actorId ky) (ky_endpoint ky) (ky_key ky))
       (\<lambda>x. x\<lparr>idr_status := IdempotencyRecordStatus.COMPLETED, idr_responseJson := Some response\<rparr>))"

definition store_response :: "keyed \<Rightarrow> json dbtx \<Rightarrow> json dbtx" where
  "store_response ky m = tx_bind m (\<lambda>response. tx_bind (complete_key ky response) (\<lambda>_. tx_return response))"

text \<open>\<open>try\<close> and \<open>catch\<close> around a part of a body: the error is replaced.\<close>

definition tx_catch :: "(svc_error \<Rightarrow> svc_error) \<Rightarrow> ('s, 'a) tx \<Rightarrow> ('s, 'a) tx" where
  "tx_catch f m = (\<lambda>s. case m s of Inl e \<Rightarrow> Inl (f e) | Inr r \<Rightarrow> Inr r)"

definition read_then ::
  "(db \<Rightarrow> db) \<Rightarrow> (db \<Rightarrow> svc_error + 'a) \<Rightarrow> ('a \<Rightarrow> db \<Rightarrow> (svc_error + 'b) \<times> db) \<Rightarrow> db \<Rightarrow> (svc_error + 'b) \<times> db" where
  "read_then others f g d =
     (let d1 = others d in case f d1 of Inl e \<Rightarrow> (Inl e, d1) | Inr x \<Rightarrow> g x d1)"

definition checked :: "'a \<Rightarrow> db \<Rightarrow> (svc_error + 'a) \<times> db" where
  "checked x d = (Inr x, d)"

definition keyed_call ::
  "keyed \<Rightarrow> (nat \<Rightarrow> db \<Rightarrow> db \<times> svc_error option) \<Rightarrow> (nat \<Rightarrow> int) \<Rightarrow> (db \<Rightarrow> (svc_error + 'c) \<times> db) \<Rightarrow> ('c \<Rightarrow> json dbtx) \<Rightarrow>
   db \<Rightarrow> (svc_error + json) \<times> db" where
  "keyed_call ky sched clk checks body d =
     (case findIdempotency ky (clk 0) d of
        (Inl e, d1) \<Rightarrow> (Inl e, d1)
      | (Inr (Some x), d1) \<Rightarrow>
          (case idr_responseJson x of
             Some response \<Rightarrow> (Inr response, d1)
           | None \<Rightarrow> (Inl (ConflictException ''Idempotency key is still being processed''), d1))
      | (Inr None, d1) \<Rightarrow>
          (case checks d1 of
             (Inl e, d2) \<Rightarrow> (Inl e, d2)
           | (Inr c, d2) \<Rightarrow> run_transaction sched 1 (tx_bind (claim_key ky (clk 1)) (\<lambda>_. body c)) d2))"

subsection \<open>Parts of a body\<close>

lemma tx_catch_eq_Inr [simp]: "tx_catch f m s = Inr r \<longleftrightarrow> m s = Inr r"
  by (simp add: tx_catch_def split: sum.split)

lemma catch_rel: "tx_rel R m \<Longrightarrow> tx_rel R (tx_catch f m)"
  by (simp add: tx_rel_def)

lemma require_updated_rel: "tx_rel R m \<Longrightarrow> tx_rel R (require_updated m)"
  by (auto simp: tx_rel_def require_updated_eq_Inr)

lemma tx_frame_catch [frame_intros]: "tx_frame f m \<Longrightarrow> tx_frame f (tx_catch g m)"
  by (simp add: tx_frame_def)

lemma claim_key_frame [frame_intros]:
  "(\<And>d v. f (d\<lparr>idempotencyRecords := v\<rparr>) = f d) \<Longrightarrow> tx_frame f (claim_key ky now)"
  unfolding claim_key_def by (rule idempotencyRecord_create_frame)

lemma complete_key_frame [frame_intros]:
  "(\<And>d v. f (d\<lparr>idempotencyRecords := v\<rparr>) = f d) \<Longrightarrow> tx_frame f (complete_key ky response)"
  unfolding complete_key_def by (intro frame_intros)

lemma store_response_frame [frame_intros]:
  "(\<And>d v. f (d\<lparr>idempotencyRecords := v\<rparr>) = f d) \<Longrightarrow> tx_frame f m \<Longrightarrow> tx_frame f (store_response ky m)"
  unfolding store_response_def by (intro frame_intros)

subsection \<open>The response is stored and found again\<close>

definition key_response :: "keyed \<Rightarrow> db \<Rightarrow> json option" where
  "key_response ky d =
     (case key_record ky d of
        Some x \<Rightarrow> if idr_requestHash x = ky_requestHash ky then idr_responseJson x else None
      | None \<Rightarrow> None)"

definition claimed :: "keyed \<Rightarrow> db \<Rightarrow> bool" where
  "claimed ky d = (\<exists>x. key_record ky d = Some x \<and> idr_requestHash x = ky_requestHash ky)"

definition stores_response :: "keyed \<Rightarrow> json dbtx \<Rightarrow> bool" where
  "stores_response ky body = (\<forall>d r d'. claimed ky d \<longrightarrow> body d = Inr (r, d') \<longrightarrow> key_response ky d' = Some r)"

lemma key_record_cong: "idempotencyRecords d' = idempotencyRecords d \<Longrightarrow> key_record ky d' = key_record ky d"
  by (simp add: key_record_def idempotencyRecord_findUnique_def)

lemma claim_key_claims: "claim_key ky now d = Inr (u, d') \<Longrightarrow> claimed ky d'"
  unfolding claim_key_def by (drule idempotencyRecord_create_find) (simp add: claimed_def key_record_def)

lemma complete_key_stores:
  assumes "claimed ky d" and "complete_key ky response d = Inr (u, d')"
  shows "key_response ky d' = Some response"
proof -
  from assms(2) obtain n where "idempotencyRecord_updateMany
      (is_record (ky_tenantId ky) (ky_actorId ky) (ky_endpoint ky) (ky_key ky))
      (\<lambda>x. x\<lparr>idr_status := IdempotencyRecordStatus.COMPLETED, idr_responseJson := Some response\<rparr>) d = Inr (n, d')"
    by (auto simp: complete_key_def require_updated_eq_Inr)
  from idempotencyRecord_updateMany_find[OF this] assms(1) show ?thesis
    by (auto simp: is_record_def key_response_def claimed_def key_record_def)
qed

lemma store_response_stores [intro]:
  assumes "tx_frame idempotencyRecords m"
  shows "stores_response ky (store_response ky m)"
  unfolding stores_response_def
proof (intro allI impI)
  fix d r d'
  assume c: "claimed ky d" and "store_response ky m d = Inr (r, d')"
  then obtain d1 where m: "m d = Inr (r, d1)" and k: "complete_key ky r d1 = Inr ((), d')"
    by (auto simp: store_response_def tx_bind_eq_Inr)
  have "claimed ky d1" using c key_record_cong[OF tx_frameD[OF assms m]] by (simp add: claimed_def)
  then show "key_response ky d' = Some r" using k by (rule complete_key_stores)
qed

lemma stores_response_catch [intro]: "stores_response ky m \<Longrightarrow> stores_response ky (tx_catch f m)"
  by (simp add: stores_response_def)

lemma stores_response_bind [intro]:
  assumes "tx_frame idempotencyRecords m" and "\<And>x. stores_response ky (g x)"
  shows "stores_response ky (tx_bind m g)"
  using assms key_record_cong[OF tx_frameD[OF assms(1)]]
  unfolding stores_response_def claimed_def tx_bind_eq_Inr by metis

definition key_live :: "keyed \<Rightarrow> world \<Rightarrow> db \<Rightarrow> bool" where
  "key_live ky w d = (\<forall>x\<in>set (idempotencyRecords d).
     is_record (ky_tenantId ky) (ky_actorId ky) (ky_endpoint ky) (ky_key ky) x \<longrightarrow> snd (snd w) 0 \<le> idr_expiresAt x)"

lemma drop_expired_live:
  assumes "key_live ky w d"
  shows "drop_expired ky (snd (snd w) 0) d = d"
proof -
  have "filter (\<lambda>x. \<not> (is_record (ky_tenantId ky) (ky_actorId ky) (ky_endpoint ky) (ky_key ky) x
      \<and> idr_expiresAt x < snd (snd w) 0)) (idempotencyRecords d) = idempotencyRecords d"
    using assms by (auto simp: filter_id_conv key_live_def)
  then show ?thesis by (simp add: drop_expired_def idempotencyRecord_deleteMany_def)
qed

text \<open>The records of the actor under the key of a request have not expired.\<close>

definition same_key_live :: "string \<Rightarrow> AuthContext \<Rightarrow> string option \<Rightarrow> world \<Rightarrow> db \<Rightarrow> bool" where
  "same_key_live tenantId actor key w d = (\<forall>x\<in>set (idempotencyRecords d).
     idr_tenantId x = tenantId \<and> idr_actorId x = actor_id actor \<and> normalizeKeyHeader key = Inr (idr_idempotencyKey x) \<longrightarrow>
     snd (snd w) 0 \<le> idr_expiresAt x)"

lemma key_live_same:
  "same_key_live t a key w d \<Longrightarrow> normalizeKeyHeader key = Inr (ky_key ky) \<Longrightarrow> ky_tenantId ky = t \<Longrightarrow> ky_actorId ky = actor_id a \<Longrightarrow>
   key_live ky w d"
  by (auto simp: key_live_def same_key_live_def is_record_def)

lemma same_key_live_all: "records_live w d \<Longrightarrow> same_key_live t a key w d"
  by (auto simp: records_live_def same_key_live_def intro: less_imp_le)

definition keyed_in ::
  "keyed \<Rightarrow> (world \<Rightarrow> db \<Rightarrow> (svc_error + 'c) \<times> db) \<Rightarrow> (world \<Rightarrow> 'c \<Rightarrow> json dbtx) \<Rightarrow> world \<Rightarrow> db \<Rightarrow> (svc_error + json) \<times> db" where
  "keyed_in ky checks body w = keyed_call ky (fst w) (snd (snd w)) (checks w) (body w)"

text \<open>
  The contract of a keyed endpoint: its body stores the response. The checks and the body may depend on
  the clock and the other sessions of the call.
\<close>

locale keyed_endpoint =
  fixes ky :: keyed and checks :: "world \<Rightarrow> db \<Rightarrow> (svc_error + 'c) \<times> db" and body :: "world \<Rightarrow> 'c \<Rightarrow> json dbtx"
  assumes body_stores: "stores_response ky (body w c)"
begin

lemma endpoint_stores:
  assumes "keyed_in ky checks body w d = (Inr r, d')"
  shows "key_response ky d' = Some r"
proof -
  have "key_response ky d2 = Some r"
    if "tx_bind (claim_key ky now) (\<lambda>_. body w c) d1 = Inr (r, d2)" for now c d1 d2
    using that body_stores[of w c] by (auto simp: tx_bind_eq_Inr stores_response_def dest: claim_key_claims)
  then show ?thesis
    using assms
    by (auto simp: keyed_in_def keyed_call_def findIdempotency_def Let_def key_response_def run_transaction_def
        split: option.split_asm sum.split_asm prod.split_asm if_split_asm)
qed

sublocale idempotent_call "keyed_in ky checks body" "key_response ky" "key_live ky"
proof unfold_locales
  fix w r d
  assume "key_response ky d = Some r" and "key_live ky w d"
  moreover from this have "drop_expired ky (snd (snd w) 0) d = d"
    by (intro drop_expired_live)
  ultimately show "keyed_in ky checks body w d = (Inr r, d)"
    by (auto simp: keyed_in_def keyed_call_def findIdempotency_def Let_def key_response_def split: option.split_asm if_split_asm)
qed (rule endpoint_stores)

end

subsection \<open>What a call may do to the database\<close>

definition polite_checks :: "(db \<Rightarrow> db \<Rightarrow> bool) \<Rightarrow> ('c \<Rightarrow> bool) \<Rightarrow> (db \<Rightarrow> (svc_error + 'c) \<times> db) \<Rightarrow> bool" where
  "polite_checks R Q checks = (\<forall>d. R d (snd (checks d)) \<and> (\<forall>c. fst (checks d) = Inr c \<longrightarrow> Q c))"

text \<open>A relation the statements of a call respect is respected by the call.\<close>

locale keyed_order = tx_order R for R :: "db \<Rightarrow> db \<Rightarrow> bool" +
  assumes R_records: "R d (d\<lparr>idempotencyRecords := v\<rparr>)"
begin

lemma checks_checked: "Q x \<Longrightarrow> polite_checks R Q (checked x)"
  by (simp add: polite_checks_def checked_def R_refl)

lemma checks_read:
  assumes "\<And>d. R d (others d)" and "\<And>d x. f d = Inr x \<Longrightarrow> polite_checks R Q (g x)"
  shows "polite_checks R Q (read_then others f g)"
  unfolding polite_checks_def
proof (intro allI)
  fix d
  show "R d (snd (read_then others f g d)) \<and> (\<forall>c. fst (read_then others f g d) = Inr c \<longrightarrow> Q c)"
  proof (cases "f (others d)")
    case (Inl e)
    then show ?thesis by (simp add: read_then_def assms(1))
  next
    case (Inr x)
    have "R (others d) (snd (g x (others d))) \<and> (\<forall>c. fst (g x (others d)) = Inr c \<longrightarrow> Q c)"
      using assms(2)[OF Inr] by (simp add: polite_checks_def)
    then show ?thesis using Inr assms(1)[of d] by (auto simp: read_then_def intro: R_trans)
  qed
qed

lemma findIdempotency_rel: "R d (snd (findIdempotency ky now d))"
  by (simp add: findIdempotency_def Let_def drop_expired_def idempotencyRecord_deleteMany_def R_records split: option.split)

lemma claim_key_rel: "tx_rel R (claim_key ky now)"
  by (auto simp: tx_rel_def claim_key_def idempotencyRecord_create_def R_records split: if_split_asm)

lemma run_transaction_rel:
  assumes "\<And>k d. R d (fst (sched k d))" and "tx_rel R body"
  shows "R d (snd (run_transaction sched k body d))"
proof -
  have "R (fst (sched k d)) d2 \<Longrightarrow> R d d2" for d2 using assms(1) R_trans by blast
  with assms show ?thesis
    by (auto simp: run_transaction_def tx_rel_def R_refl split: prod.split option.split sum.split)
qed

lemma keyed_call_rel:
  assumes "\<And>k d. R d (fst (sched k d))" and "polite_checks R Q checks" and "\<And>c. Q c \<Longrightarrow> tx_rel R (body c)"
  shows "R d (snd (keyed_call ky sched clk checks body d))"
proof -
  obtain r1 d1 where f: "findIdempotency ky (clk 0) d = (r1, d1)" by fastforce
  obtain r2 d2 where c: "checks d1 = (r2, d2)" by fastforce
  have "R d d1" using findIdempotency_rel[of d ky "clk 0"] f by simp
  moreover have "R d1 d2" and "\<And>x. r2 = Inr x \<Longrightarrow> Q x"
    using assms(2) c unfolding polite_checks_def by (metis snd_conv, metis fst_conv)
  moreover have "R d2 (snd (run_transaction sched 1 (tx_bind (claim_key ky (clk 1)) (\<lambda>_. body x)) d2))" if "Q x" for x
    by (intro run_transaction_rel assms(1) rel_bind claim_key_rel assms(3) that)
  ultimately show ?thesis
    unfolding keyed_call_def f using c R_trans by (auto split: sum.split option.split)
qed

end

text \<open>
  The life of a table: rows are appended, the ones there keep their place and only \<open>moves\<close>, and what is
  \<open>ok\<close> stays so.
\<close>

definition table_follows :: "(db \<Rightarrow> 'r list) \<Rightarrow> ('r \<Rightarrow> 'r \<Rightarrow> bool) \<Rightarrow> (db \<Rightarrow> bool) \<Rightarrow> db \<Rightarrow> db \<Rightarrow> bool" where
  "table_follows rows moves ok d d' =
     ((\<exists>kept new. rows d' = kept @ new \<and> list_all2 moves (rows d) kept) \<and> (ok d \<longrightarrow> ok d'))"

locale table_life =
  fixes rows :: "db \<Rightarrow> 'r list" and moves :: "'r \<Rightarrow> 'r \<Rightarrow> bool" and ok :: "db \<Rightarrow> bool"
  assumes moves_refl: "moves x x" and moves_trans: "moves x y \<Longrightarrow> moves y z \<Longrightarrow> moves x z"
    and ok_rows: "rows d' = rows d \<Longrightarrow> ok d \<Longrightarrow> ok d'" and rows_records: "rows (d\<lparr>idempotencyRecords := v\<rparr>) = rows d"
begin

lemma follow_append: "rows d' = rows d @ new \<Longrightarrow> (ok d \<Longrightarrow> ok d') \<Longrightarrow> table_follows rows moves ok d d'"
  by (auto simp: table_follows_def intro!: list_all2_refl moves_refl)

lemma follow_same: "rows d' = rows d \<Longrightarrow> table_follows rows moves ok d d'"
  using follow_append[of d' d "[]"] ok_rows by auto

lemma follow_updated:
  assumes "rows d' = updated p f (rows d)" and "\<And>x. x \<in> set (rows d) \<Longrightarrow> p x \<Longrightarrow> moves x (f x)" and "ok d \<Longrightarrow> ok d'"
  shows "table_follows rows moves ok d d'"
proof -
  have "list_all2 moves xs (updated p f xs)" if "set xs \<subseteq> set (rows d)" for xs
    using that assms(2) moves_refl by (induction xs) (auto simp: updated_def)
  with assms show ?thesis by (auto simp: table_follows_def intro: exI[of _ "[]"])
qed

lemma follow_trans:
  assumes "table_follows rows moves ok a b" and "table_follows rows moves ok b c"
  shows "table_follows rows moves ok a c"
proof -
  from assms obtain k1 n1 k2 n2 where b: "rows b = k1 @ n1" "list_all2 moves (rows a) k1"
    and c: "rows c = k2 @ n2" "list_all2 moves (rows b) k2"
    by (auto simp: table_follows_def)
  from c(2) obtain k3 n3 where k: "k2 = k3 @ n3" "list_all2 moves k1 k3"
    unfolding b(1) by (auto simp: list_all2_append1)
  have "list_all2 moves (rows a) k3" by (rule list_all2_trans[OF moves_trans b(2) k(2)])
  then show ?thesis using assms c(1) k(1) by (auto simp: table_follows_def)
qed

sublocale keyed_order "table_follows rows moves ok"
  by unfold_locales (auto intro: follow_same follow_trans simp: rows_records)

lemma follow_frame: "tx_frame rows m \<Longrightarrow> tx_rel (table_follows rows moves ok) m"
  by (erule rel_frame) (rule follow_same)

end

lemma table_follows_nth:
  assumes "table_follows rows moves ok d d'" and "ok d"
  shows "ok d' \<and> length (rows d) \<le> length (rows d') \<and> (\<forall>i<length (rows d). moves (rows d ! i) (rows d' ! i))"
  using assms by (auto simp: table_follows_def list_all2_conv_all_nth nth_append)

text \<open>Runs of the system are such a relation; a body that leaves the tables of money alone is a step.\<close>

interpretation admin: keyed_order "(system_step env)\<^sup>*\<^sup>*" for env
  by unfold_locales (auto intro!: system_step.administration simp: financial_def)

lemma admin_frame: "tx_frame financial m \<Longrightarrow> tx_rel (system_step env)\<^sup>*\<^sup>* m"
  by (auto simp: tx_rel_def tx_frame_def intro!: r_into_rtranclp system_step.administration)

lemma session_steps_sched: "session_steps R sched others \<Longrightarrow> R\<^sup>*\<^sup>* d (fst (sched k d))"
  by (simp add: session_steps_def)

lemma session_steps_others: "session_steps R sched others \<Longrightarrow> R\<^sup>*\<^sup>* d (others k d)"
  by (simp add: session_steps_def)

end
