(* ===== verification/Cards.thy ===== *)
theory Cards
  imports Keyed_Calls Sms_Templates
begin

text \<open>
  \<^verbatim>\<open>src/modules/cards/cards.service.ts\<close>: issuing, replacing and blocking cards, and the lookups at the till. The
  table of cards has the unique constraints of the schema and the partial index
  \<^verbatim>\<open>Card_one_active_per_customer\<close> of the migrations; an update that would break one fails like a create. The column
  \<open>cardId\<close> of the message of a replacement is among the columns of delivery (\<open>SmsRow\<close>).
\<close>

subsection \<open>The table\<close>

fun card_status_str :: "CardStatus \<Rightarrow> string" where
  "card_status_str CardStatus.ACTIVE = ''ACTIVE''"
| "card_status_str CardStatus.BLOCKED = ''BLOCKED''"
| "card_status_str CardStatus.REPLACED = ''REPLACED''"

definition same_holder :: "Card \<Rightarrow> Card \<Rightarrow> bool" where
  "same_holder x y = (cd_tenantId x = cd_tenantId y \<and> cd_customerId x = cd_customerId y)"

definition both_active :: "Card \<Rightarrow> Card \<Rightarrow> bool" where
  "both_active x y = (same_holder x y \<and> cd_status x = CardStatus.ACTIVE \<and> cd_status y = CardStatus.ACTIVE)"

definition card_constraints :: "db \<Rightarrow> Card \<Rightarrow> (bool \<times> string list) list" where
  "card_constraints d row =
      [(list_ex (\<lambda>x. cd_id x = cd_id row) (cards d), [''id'']),
       (list_ex (\<lambda>x. cd_tenantId x = cd_tenantId row \<and> cd_barcodeValue x = cd_barcodeValue row) (cards d), [''tenantId'', ''barcodeValue'']),
       (list_ex (\<lambda>x. both_active x row) (cards d), [''tenantId'', ''customerId'']),
       (list_ex (\<lambda>x. same_key (cd_replacedByCardId x) (cd_replacedByCardId row)) (cards d), [''replacedByCardId''])]"

definition card_create :: "env \<Rightarrow> (string \<Rightarrow> Card) \<Rightarrow> Card dbtx" where
  "card_create env mk = create_row env card_constraints (\<lambda>row d. d\<lparr>cards := cards d @ [row]\<rparr>) mk"

text \<open>An update writes the rows that match; the rows must satisfy the constraints afterwards.\<close>

definition card_updateMany :: "(Card \<Rightarrow> bool) \<Rightarrow> (Card \<Rightarrow> Card) \<Rightarrow> nat dbtx" where
  "card_updateMany p f = (\<lambda>d.
     let rows = updated p f (cards d) in
     if list_ex (\<lambda>x. p x \<and> count_where (\<lambda>y. both_active y (f x)) rows > 1) (cards d)
     then Inl (p2002 [''tenantId'', ''customerId''])
     else if list_ex (\<lambda>x. p x \<and> count_where (\<lambda>y. same_key (cd_replacedByCardId y) (cd_replacedByCardId (f x))) rows > 1) (cards d)
     then Inl (p2002 [''replacedByCardId''])
     else Inr (count_where p (cards d), d\<lparr>cards := rows\<rparr>))"

definition serial_taken :: "string \<Rightarrow> string \<Rightarrow> Card \<Rightarrow> bool" where
  "serial_taken tenantId serial x = (cd_tenantId x = tenantId \<and> js_toUpperCase (cd_barcodeValue x) = js_toUpperCase serial)"

definition find_card :: "string \<Rightarrow> string \<Rightarrow> db \<Rightarrow> Card option" where
  "find_card tenantId cardId d = find (\<lambda>x. cd_id x = cardId \<and> cd_tenantId x = tenantId) (cards d)"

definition find_customer :: "string \<Rightarrow> string \<Rightarrow> db \<Rightarrow> Customer option" where
  "find_customer tenantId customerId d = find (\<lambda>c. cu_id c = customerId \<and> cu_tenantId c = tenantId) (customers d)"

definition active_card_of :: "string \<Rightarrow> string \<Rightarrow> Card \<Rightarrow> bool" where
  "active_card_of tenantId customerId x =
     (cd_tenantId x = tenantId \<and> cd_customerId x = customerId \<and> cd_status x = CardStatus.ACTIVE)"

subsection \<open>Forms and errors\<close>

definition card_json :: "Card \<Rightarrow> (string \<times> json) list" where
  "card_json c =
     [(''id'', JStr (cd_id c)), (''tenantId'', JStr (cd_tenantId c)), (''customerId'', JStr (cd_customerId c)),
      (''barcodeValue'', JStr (cd_barcodeValue c)), (''status'', JStr (card_status_str (cd_status c))),
      (''issuedBy'', json_opt_str (cd_issuedBy c)), (''issuedByTenantId'', json_opt_str (cd_issuedByTenantId c)),
      (''issuedAt'', json_date (cd_issuedAt c)), (''blockedAt'', opt_json json_date (cd_blockedAt c)),
      (''replacedByCardId'', json_opt_str (cd_replacedByCardId c)), (''replacedAt'', opt_json json_date (cd_replacedAt c)),
      (''createdAt'', json_date (cd_createdAt c)), (''updatedAt'', json_date (cd_updatedAt c))]"

definition toPublicCard :: "Card \<Rightarrow> json" where
  "toPublicCard c = JObj (filter (\<lambda>(k, _). k \<noteq> ''barcodeValue'') (card_json c) @ [(''serialNumber'', JStr (cd_barcodeValue c))])"

definition normalizeCardWriteError :: "svc_error \<Rightarrow> svc_error" where
  "normalizeCardWriteError e =
     (case e of
        PrismaKnownRequestError code columns _ \<Rightarrow>
          (let target = js_join '', '' columns in
           if code = ''P2002'' \<and> (js_includes target ''Card_one_active_per_customer''
                \<or> js_includes target ''tenantId'' \<and> js_includes target ''customerId'')
           then BadRequestException ''Customer already has an active card''
           else if code = ''P2002'' \<and> js_includes target ''tenantId'' \<and> js_includes target ''barcodeValue''
           then BadRequestException ''Card barcode already exists''
           else e)
      | _ \<Rightarrow> e)"

definition hashCardRequest :: "env \<Rightarrow> (string \<times> json) list \<Rightarrow> string" where
  "hashCardRequest env parts = sha256hex env (JSON_stringify (JObj parts))"

definition new_card :: "string \<Rightarrow> AuthContext \<Rightarrow> string \<Rightarrow> string \<Rightarrow> int \<Rightarrow> string \<Rightarrow> Card" where
  "new_card tenantId actor customerId serial now new_id =
     \<lparr> cd_id = new_id, cd_tenantId = tenantId, cd_customerId = customerId, cd_barcodeValue = serial,
       cd_status = CardStatus.ACTIVE, cd_issuedBy = Some (actor_id actor), cd_issuedByTenantId = Some (actor_tenantId actor),
       cd_issuedAt = now, cd_blockedAt = None, cd_replacedByCardId = None, cd_replacedAt = None,
       cd_createdAt = now, cd_updatedAt = now \<rparr>"

definition card_key :: "env \<Rightarrow> string \<Rightarrow> AuthContext \<Rightarrow> string \<Rightarrow> string \<Rightarrow> (string \<times> json) list \<Rightarrow> keyed" where
  "card_key env tenantId actor endpoint key parts =
     \<lparr> ky_tenantId = tenantId, ky_actorId = actor_id actor, ky_endpoint = endpoint, ky_key = key,
       ky_requestHash = hashCardRequest env
         ([(''tenantId'', JStr tenantId), (''actorId'', JStr (actor_id actor))] @ parts) \<rparr>"

subsection \<open>Issuing a card\<close>

definition createCard_checks ::
  "(nat \<Rightarrow> db \<Rightarrow> db) \<Rightarrow> string \<Rightarrow> string \<Rightarrow> string \<Rightarrow> db \<Rightarrow> (svc_error + Customer) \<times> db" where
  "createCard_checks others tenantId customerId serial =
     read_then (others 0) (\<lambda>d. case find_customer tenantId customerId d of
         None \<Rightarrow> Inl (NotFoundException ''Customer not found'')
       | Some c \<Rightarrow> if cu_status c \<noteq> CustomerStatus.ACTIVE then Inl (NotFoundException ''Customer not found'') else Inr c) (\<lambda>customer.
     read_then (others 1) (\<lambda>d. res_unless (\<not> list_ex (serial_taken tenantId serial) (cards d))
         (ConflictException ''The card serial number is already assigned in this tenant'')) (\<lambda>_.
     read_then (others 2) (\<lambda>d. res_unless (\<not> list_ex (active_card_of tenantId (cu_id customer)) (cards d))
         (BadRequestException ''Customer already has an active card'')) (\<lambda>_.
     checked customer)))"

definition createCard_body :: "env \<Rightarrow> keyed \<Rightarrow> string \<Rightarrow> AuthContext \<Rightarrow> string \<Rightarrow> int \<Rightarrow> Customer \<Rightarrow> json dbtx" where
  "createCard_body env ky tenantId actor serial now customer =
     tx_catch normalizeCardWriteError (store_response ky
       (tx_bind (card_create env (new_card tenantId actor (cu_id customer) serial now)) (\<lambda>card.
        tx_bind (recordWithClient tenantId (Some (actor_id actor)) ''card.create'' ''card'' (Some (cd_id card))
          (JObj (card_json card))) (\<lambda>_.
        tx_return (toPublicCard card)))))"

definition createCard ::
  "env \<Rightarrow> (nat \<Rightarrow> db \<Rightarrow> db \<times> svc_error option) \<Rightarrow> (nat \<Rightarrow> db \<Rightarrow> db) \<Rightarrow> (nat \<Rightarrow> int) \<Rightarrow> string \<Rightarrow> AuthContext \<Rightarrow>
   string \<Rightarrow> string \<Rightarrow> string option \<Rightarrow> db \<Rightarrow> (svc_error + json) \<times> db" where
  "createCard env sched others clk tenantId actor customerId serialNumber idempotencyKey d =
     (case normalizeKeyHeader idempotencyKey of
        Inl e \<Rightarrow> (Inl e, d)
      | Inr key \<Rightarrow>
          (case normalizeCardSerial serialNumber of
             Inl e \<Rightarrow> (Inl e, d)
           | Inr serial \<Rightarrow>
               let ky = card_key env tenantId actor ''cards.create'' key
                     [(''customerId'', JStr customerId), (''serialNumber'', JStr serial)] in
               keyed_call ky sched clk (createCard_checks others tenantId customerId serial)
                 (createCard_body env ky tenantId actor serial (clk 2)) d))"

subsection \<open>Replacing a card\<close>

definition replaceCard_checks ::
  "(nat \<Rightarrow> db \<Rightarrow> db) \<Rightarrow> string \<Rightarrow> string \<Rightarrow> db \<Rightarrow> (svc_error + Card \<times> Customer) \<times> db" where
  "replaceCard_checks others tenantId cardId =
     read_then (others 0) (\<lambda>d. case find_card tenantId cardId d of
         None \<Rightarrow> Inl (NotFoundException ''Card not found'')
       | Some c \<Rightarrow> if cd_status c \<noteq> CardStatus.ACTIVE then Inl (BadRequestException ''Only active cards can be replaced'') else Inr c) (\<lambda>current.
     read_then (others 1) (\<lambda>d. case find_customer tenantId (cd_customerId current) d of
         None \<Rightarrow> Inl (BadRequestException ''Customer is not active'')
       | Some c \<Rightarrow> if cu_status c \<noteq> CustomerStatus.ACTIVE then Inl (BadRequestException ''Customer is not active'') else Inr c) (\<lambda>customer.
     checked (current, customer)))"

definition replacement_notice :: "env \<Rightarrow> string \<Rightarrow> Card \<Rightarrow> Customer \<Rightarrow> Card \<Rightarrow> int \<Rightarrow> unit dbtx" where
  "replacement_notice env tenantId current customer newCard occurredAt =
     (let payload = buildCardReplacedSmsPayload (cd_id current) (cd_id newCard) (cd_customerId current) (cu_phoneE164 customer)
            (cd_barcodeValue current) (cd_barcodeValue newCard) in
      tx_bind (outboxEvent_create env (\<lambda>new_id.
        \<lparr> ob_id = new_id, ob_tenantId = tenantId, ob_aggregateType = ''card'', ob_aggregateId = cd_id newCard,
          ob_eventType = ''sms.send'', ob_payload = payload, ob_nextAttemptAt = Some occurredAt \<rparr>)) (\<lambda>event.
      tx_bind (smsMessage_create env (\<lambda>new_id.
        \<lparr> sms_id = new_id, sms_tenantId = tenantId, sms_receiptId = None, sms_outboxEventId = ob_id event,
          sms_ledgerEntryId = None, sms_redemptionId = None, sms_adjustmentId = None,
          sms_phoneE164 = cu_phoneE164 customer, sms_template = ''card-replaced'', sms_payload = payload,
          sms_status = SmsMessageStatus.QUEUED, sms_queuedAt = occurredAt \<rparr>)) (\<lambda>_.
      tx_void (outboxEvent_create env (\<lambda>new_id.
        \<lparr> ob_id = new_id, ob_tenantId = tenantId, ob_aggregateType = ''card'', ob_aggregateId = cd_id newCard,
          ob_eventType = ''fraud.evaluate'',
          ob_payload = JObj [(''kind'', JStr ''card.replaced''), (''tenantId'', JStr tenantId),
            (''branchId'', JStr (cu_branchId customer)), (''customerId'', JStr (cd_customerId current)),
            (''cardId'', JStr (cd_id newCard)), (''occurredAt'', json_date occurredAt)],
          ob_nextAttemptAt = Some occurredAt \<rparr>)))))"

definition swap_cards :: "env \<Rightarrow> string \<Rightarrow> AuthContext \<Rightarrow> Card \<Rightarrow> string \<Rightarrow> int \<Rightarrow> int \<Rightarrow> Card dbtx" where
  "swap_cards env tenantId actor current serial occurredAt now =
     tx_bind (tx_check (\<lambda>d. res_unless (\<not> list_ex (\<lambda>x. serial_taken tenantId serial x \<and> cd_id x \<noteq> cd_id current) (cards d))
       (ConflictException ''The replacement serial number is already assigned in this tenant''))) (\<lambda>_.
     tx_bind (card_updateMany
       (\<lambda>x. cd_id x = cd_id current \<and> cd_tenantId x = tenantId \<and> cd_status x = CardStatus.ACTIVE)
       (\<lambda>x. x\<lparr>cd_status := CardStatus.REPLACED, cd_blockedAt := Some occurredAt, cd_replacedAt := Some occurredAt,
              cd_updatedAt := now\<rparr>)) (\<lambda>n.
     tx_bind (tx_unless (n = 1) (BadRequestException ''Only active cards can be replaced'')) (\<lambda>_.
     tx_bind (card_create env (new_card tenantId actor (cd_customerId current) serial now)) (\<lambda>newCard.
     tx_bind (require_updated (card_updateMany (\<lambda>x. cd_id x = cd_id current)
       (\<lambda>x. x\<lparr>cd_replacedByCardId := Some (cd_id newCard), cd_updatedAt := now\<rparr>))) (\<lambda>_.
     tx_return newCard)))))"

definition replaceCard_body ::
  "env \<Rightarrow> keyed \<Rightarrow> string \<Rightarrow> AuthContext \<Rightarrow> string \<Rightarrow> string \<Rightarrow> int \<Rightarrow> int \<Rightarrow> Card \<times> Customer \<Rightarrow> json dbtx" where
  "replaceCard_body env ky tenantId actor cardId serial occurredAt now = (\<lambda>(current, customer).
     tx_catch normalizeCardWriteError (store_response ky
       (tx_bind (swap_cards env tenantId actor current serial occurredAt now) (\<lambda>newCard.
        tx_bind (replacement_notice env tenantId current customer newCard occurredAt) (\<lambda>_.
        tx_bind (recordWithClient tenantId (Some (actor_id actor)) ''card.replace'' ''card'' (Some (cd_id newCard))
          (JObj [(''previousCardId'', JStr cardId), (''serialNumber'', JStr serial)])) (\<lambda>_.
        tx_return (toPublicCard newCard)))))))"

definition replaceCard ::
  "env \<Rightarrow> (nat \<Rightarrow> db \<Rightarrow> db \<times> svc_error option) \<Rightarrow> (nat \<Rightarrow> db \<Rightarrow> db) \<Rightarrow> (nat \<Rightarrow> int) \<Rightarrow> string \<Rightarrow> AuthContext \<Rightarrow>
   string \<Rightarrow> string \<Rightarrow> string option \<Rightarrow> db \<Rightarrow> (svc_error + json) \<times> db" where
  "replaceCard env sched others clk tenantId actor cardId serialNumber idempotencyKey d =
     (case normalizeKeyHeader idempotencyKey of
        Inl e \<Rightarrow> (Inl e, d)
      | Inr key \<Rightarrow>
          (case normalizeCardSerial serialNumber of
             Inl e \<Rightarrow> (Inl e, d)
           | Inr serial \<Rightarrow>
               let ky = card_key env tenantId actor ''cards.replace'' key
                     [(''cardId'', JStr cardId), (''serialNumber'', JStr serial)] in
               keyed_call ky sched clk (replaceCard_checks others tenantId cardId)
                 (replaceCard_body env ky tenantId actor cardId serial (clk 2) (clk 3)) d))"

subsection \<open>Blocking and unblocking\<close>

definition settable_status :: "string \<Rightarrow> CardStatus option" where
  "settable_status s = (if s = ''ACTIVE'' then Some CardStatus.ACTIVE else if s = ''BLOCKED'' then Some CardStatus.BLOCKED else None)"

definition updateStatus_checks ::
  "(nat \<Rightarrow> db \<Rightarrow> db) \<Rightarrow> string \<Rightarrow> string \<Rightarrow> string \<Rightarrow> db \<Rightarrow> (svc_error + Card \<times> CardStatus) \<times> db" where
  "updateStatus_checks others tenantId cardId status =
     read_then (\<lambda>d. d) (\<lambda>_. case settable_status status of
         None \<Rightarrow> Inl (BadRequestException ''Invalid card status'') | Some st \<Rightarrow> Inr st) (\<lambda>st.
     read_then (others 0) (\<lambda>d. case find_card tenantId cardId d of
         None \<Rightarrow> Inl (NotFoundException ''Card not found'')
       | Some c \<Rightarrow>
           if cd_status c = CardStatus.REPLACED then Inl (BadRequestException ''Replaced cards cannot be updated'')
           else if st = CardStatus.ACTIVE \<and> map_option cu_status (card_customer c d) \<noteq> Some CustomerStatus.ACTIVE
           then Inl (BadRequestException ''Customer is not active'')
           else Inr c) (\<lambda>card.
     checked (card, st)))"

definition updateStatus_body ::
  "keyed \<Rightarrow> string \<Rightarrow> AuthContext \<Rightarrow> string \<Rightarrow> string \<Rightarrow> int \<Rightarrow> Card \<times> CardStatus \<Rightarrow> json dbtx" where
  "updateStatus_body ky tenantId actor cardId status now = (\<lambda>(card, st).
     tx_bind (tx_check (\<lambda>d. res_unless (\<not> (st = CardStatus.ACTIVE
         \<and> list_ex (\<lambda>x. active_card_of tenantId (cd_customerId card) x \<and> cd_id x \<noteq> cardId) (cards d)))
       (BadRequestException ''Customer already has an active card''))) (\<lambda>_.
     tx_catch normalizeCardWriteError (store_response ky
       (tx_bind (card_updateMany (\<lambda>x. cd_id x = cardId \<and> cd_tenantId x = tenantId \<and> cd_status x = cd_status card)
          (\<lambda>x. x\<lparr>cd_status := st, cd_blockedAt := (if st = CardStatus.BLOCKED then Some now else None), cd_updatedAt := now\<rparr>)) (\<lambda>n.
        tx_bind (tx_unless (n = 1) (ConflictException ''Card state changed during update'')) (\<lambda>_.
        tx_bind (tx_check (\<lambda>d. case find (\<lambda>x. cd_id x = cardId) (cards d) of
            None \<Rightarrow> Inl (ConflictException ''Card state changed during update'') | Some c \<Rightarrow> Inr c)) (\<lambda>current.
        tx_bind (recordWithClient tenantId (Some (actor_id actor)) ''card.status'' ''card'' (Some (cd_id current))
          (JObj [(''status'', JStr status)])) (\<lambda>_.
        tx_return (toPublicCard current)))))))))"

definition updateStatus ::
  "env \<Rightarrow> (nat \<Rightarrow> db \<Rightarrow> db \<times> svc_error option) \<Rightarrow> (nat \<Rightarrow> db \<Rightarrow> db) \<Rightarrow> (nat \<Rightarrow> int) \<Rightarrow> string \<Rightarrow> AuthContext \<Rightarrow>
   string \<Rightarrow> string \<Rightarrow> string option \<Rightarrow> db \<Rightarrow> (svc_error + json) \<times> db" where
  "updateStatus env sched others clk tenantId actor cardId status idempotencyKey d =
     (case normalizeKeyHeader idempotencyKey of
        Inl e \<Rightarrow> (Inl e, d)
      | Inr key \<Rightarrow>
          let ky = card_key env tenantId actor ''cards.status'' key [(''cardId'', JStr cardId), (''status'', JStr status)] in
          keyed_call ky sched clk (updateStatus_checks others tenantId cardId status)
            (updateStatus_body ky tenantId actor cardId status (clk 2)) d)"

subsection \<open>Lookups\<close>

definition maskPhone :: "string \<Rightarrow> string" where
  "maskPhone phoneE164 =
     (let normalized = js_trim phoneE164 in
      if length normalized \<le> 6 then ''***''
      else take (min 7 (length normalized - 4)) normalized @ ''* *** '' @ last_four normalized)"

definition toPublicCardLookup :: "Card \<Rightarrow> Customer \<Rightarrow> int \<Rightarrow> json" where
  "toPublicCardLookup cd customer activeBalanceKobo =
     JObj [(''id'', JStr (cd_id cd)), (''tenantId'', JStr (cd_tenantId cd)), (''customerId'', JStr (cd_customerId cd)),
       (''status'', JStr (card_status_str (cd_status cd))), (''serialNumber'', JStr (cd_barcodeValue cd)),
       (''customer'', JObj [(''customerId'', JStr (cu_id customer)), (''fullName'', JStr (cu_fullName customer)),
          (''maskedPhone'', JStr (maskPhone (cu_phoneE164 customer))), (''cardStatus'', JStr (card_status_str (cd_status cd))),
          (''isStaff'', JBool (cu_isStaff customer)), (''earningEligible'', JBool (\<not> cu_isStaff customer)),
          (''eligibilityReason'', if cu_isStaff customer then JStr ''STAFF_INELIGIBLE'' else JNull),
          (''availableBalanceKobo'', JNum (js_Number activeBalanceKobo))])]"

definition lookupCard :: "string \<Rightarrow> string \<Rightarrow> int \<Rightarrow> db \<Rightarrow> svc_error + json" where
  "lookupCard tenantId serialNumber now d =
     res_bind (normalizeCardSerial serialNumber) (\<lambda>serial.
       case card_by_serial tenantId serial d of
         None \<Rightarrow> Inl (NotFoundException ''Card not found'')
       | Some (cd, customer) \<Rightarrow>
           if cd_status cd \<noteq> CardStatus.ACTIVE \<or> cu_status customer \<noteq> CustomerStatus.ACTIVE
           then Inl (NotFoundException ''Card not found'')
           else Inr (toPublicCardLookup cd customer (getActiveBalanceKobo tenantId (cd_customerId cd) now d)))"

fun customer_status_str :: "CustomerStatus \<Rightarrow> string" where
  "customer_status_str CustomerStatus.ACTIVE = ''ACTIVE''"
| "customer_status_str CustomerStatus.BLOCKED = ''BLOCKED''"

definition lookupManagementCard :: "string \<Rightarrow> string \<Rightarrow> db \<Rightarrow> svc_error + json" where
  "lookupManagementCard tenantId serialNumber d =
     res_bind (normalizeCardSerial serialNumber) (\<lambda>serial.
       case filter (serial_taken tenantId serial) (cards d) of
         [cd] \<Rightarrow>
           Inr (JObj [(''id'', JStr (cd_id cd)), (''serialNumber'', JStr (cd_barcodeValue cd)),
             (''status'', JStr (card_status_str (cd_status cd))), (''issuedAt'', json_date (cd_issuedAt cd)),
             (''blockedAt'', opt_json json_date (cd_blockedAt cd)), (''replacedAt'', opt_json json_date (cd_replacedAt cd)),
             (''replacedByCardId'', json_opt_str (cd_replacedByCardId cd)),
             (''customer'', opt_json (\<lambda>c. JObj [(''id'', JStr (cu_id c)), (''fullName'', JStr (cu_fullName c)),
                (''status'', JStr (customer_status_str (cu_status c)))]) (card_customer cd d))])
       | _ \<Rightarrow> Inl (NotFoundException ''Card not found''))"

subsection \<open>The life of the cards\<close>

definition card_moves :: "Card \<Rightarrow> Card \<Rightarrow> bool" where
  "card_moves x y = (cd_id y = cd_id x \<and> cd_tenantId y = cd_tenantId x \<and> cd_customerId y = cd_customerId x
     \<and> cd_barcodeValue y = cd_barcodeValue x \<and> cd_issuedAt y = cd_issuedAt x
     \<and> (cd_status x = CardStatus.REPLACED \<longrightarrow> cd_status y = CardStatus.REPLACED))"

definition cards_ok :: "db \<Rightarrow> bool" where
  "cards_ok d = (distinct (map cd_id (cards d)) \<and> distinct (map (\<lambda>x. (cd_tenantId x, cd_barcodeValue x)) (cards d))
     \<and> (\<forall>t c. count_where (active_card_of t c) (cards d) \<le> 1))"

abbreviation cards_follow :: "db \<Rightarrow> db \<Rightarrow> bool" where
  "cards_follow \<equiv> table_follows cards card_moves cards_ok"

lemma card_moves_refl [simp]: "card_moves x x"
  by (simp add: card_moves_def)

interpretation cards_life: table_life cards card_moves cards_ok
  by unfold_locales (auto simp: card_moves_def cards_ok_def)

lemma active_both: "cd_status y = CardStatus.ACTIVE \<Longrightarrow> both_active x y = active_card_of (cd_tenantId y) (cd_customerId y) x"
  by (auto simp: both_active_def same_holder_def active_card_of_def)

lemma card_create_follows:
  assumes "\<And>i. cd_status (mk i) = CardStatus.ACTIVE"
  shows "tx_rel cards_follow (card_create env mk)"
proof (rule tx_relI)
  fix d x d'
  assume "card_create env mk d = Inr (x, d')"
  then have x: "cards d' = cards d @ [x]" and status: "cd_status x = CardStatus.ACTIVE"
    and free: "\<forall>y\<in>set (cards d). cd_id y \<noteq> cd_id x \<and> (cd_tenantId y = cd_tenantId x \<longrightarrow> cd_barcodeValue y \<noteq> cd_barcodeValue x)
      \<and> \<not> both_active y x"
    using assms by (auto simp: card_create_def create_row_eq_Inr first_violation_None card_constraints_def list_ex_iff split: if_split_asm)
  have "count_where (active_card_of (cd_tenantId x) (cd_customerId x)) (cards d) = 0"
    using free active_both[OF status] by (auto simp: count_where_def filter_empty_conv)
  moreover have "active_card_of t c x \<longleftrightarrow> t = cd_tenantId x \<and> c = cd_customerId x" for t c
    using status by (auto simp: active_card_of_def)
  ultimately have "cards_ok d'" if "cards_ok d"
    using that free x by (force simp: cards_ok_def count_where_def)
  then show "cards_follow d d'" by (rule cards_life.follow_append[OF x])
qed

lemma count_updated_le:
  assumes "\<And>x. x \<in> set xs \<Longrightarrow> p x \<Longrightarrow> \<not> q (f x)"
  shows "count_where q (updated p f xs) \<le> count_where q xs"
  using assms by (induction xs) (auto simp: count_where_def updated_def)

lemma card_updateMany_eq_Inr:
  "card_updateMany p f d = Inr (n, d') \<longleftrightarrow>
     n = count_where p (cards d) \<and> d' = d\<lparr>cards := updated p f (cards d)\<rparr>
     \<and> (\<forall>x\<in>set (cards d). p x \<longrightarrow> count_where (\<lambda>y. both_active y (f x)) (updated p f (cards d)) \<le> 1)
     \<and> (\<forall>x\<in>set (cards d). p x \<longrightarrow>
          count_where (\<lambda>y. same_key (cd_replacedByCardId y) (cd_replacedByCardId (f x))) (updated p f (cards d)) \<le> 1)"
  by (auto simp: card_updateMany_def Let_def list_ex_iff not_less)

lemma card_updateMany_follows:
  assumes "\<And>x. p x \<Longrightarrow> card_moves x (f x)"
  shows "tx_rel cards_follow (card_updateMany p f)"
proof (rule tx_relI)
  fix d n d'
  assume "card_updateMany p f d = Inr (n, d')"
  then have d': "cards d' = updated p f (cards d)"
    and one: "\<And>x. x \<in> set (cards d) \<Longrightarrow> p x \<Longrightarrow> count_where (\<lambda>y. both_active y (f x)) (updated p f (cards d)) \<le> 1"
    by (auto simp: card_updateMany_eq_Inr)
  have keys: "map cd_id (updated p f xs) = map cd_id xs"
    "map (\<lambda>x. (cd_tenantId x, cd_barcodeValue x)) (updated p f xs) = map (\<lambda>x. (cd_tenantId x, cd_barcodeValue x)) xs" for xs
    using assms by (auto simp: updated_def card_moves_def)
  have "count_where (active_card_of t c) (updated p f (cards d)) \<le> 1"
    if "count_where (active_card_of t c) (cards d) \<le> 1" for t c
  proof (cases "\<exists>x\<in>set (cards d). p x \<and> active_card_of t c (f x)")
    case True
    then obtain x where x: "x \<in> set (cards d)" "p x" "active_card_of t c (f x)" by blast
    then have "(\<lambda>y. both_active y (f x)) = active_card_of t c"
      by (auto simp: both_active_def same_holder_def active_card_of_def fun_eq_iff)
    with one[OF x(1,2)] show ?thesis by simp
  next
    case False
    then have "count_where (active_card_of t c) (updated p f (cards d)) \<le> count_where (active_card_of t c) (cards d)"
      by (intro count_updated_le) auto
    with that show ?thesis by simp
  qed
  then have "cards_ok d \<longrightarrow> cards_ok d'" unfolding cards_ok_def d' keys by blast
  then show "cards_follow d d'" by (intro cards_life.follow_updated[OF d']) (use assms in auto)
qed

lemma card_writes_frame [frame_intros]:
  "(\<And>d v w. f (d\<lparr>idCounter := w, cards := v\<rparr>) = f d) \<Longrightarrow> tx_frame f (card_create env mk)"
  "(\<And>d v. f (d\<lparr>cards := v\<rparr>) = f d) \<Longrightarrow> tx_frame f (card_updateMany p g)"
  unfolding card_create_def by (rule create_row_frame, simp only:) (auto simp: tx_frame_def card_updateMany_eq_Inr)

subsection \<open>The bodies\<close>

lemma new_card_active [simp]: "cd_status (new_card t a c s now i) = CardStatus.ACTIVE"
  by (simp add: new_card_def)

lemma replacement_notice_frame [frame_intros]:
  assumes "\<And>d v w. f (d\<lparr>idCounter := w, outboxEvents := v\<rparr>) = f d"
    and "\<And>d v w. f (d\<lparr>idCounter := w, smsMessages := v\<rparr>) = f d"
  shows "tx_frame f (replacement_notice env t c cu n now)"
  unfolding replacement_notice_def Let_def by (intro frame_intros assms)

lemma cards_frames:
  "tx_frame cards (complete_key ky resp)" "tx_frame cards (recordWithClient t a ac et e m)"
  "tx_frame cards (replacement_notice env t c cu n now)"
  by (intro frame_intros; simp)+

lemmas cards_leaves = cards_frames[THEN cards_life.follow_frame] card_create_follows[OF new_card_active] catch_rel require_updated_rel

lemma createCard_body_follows: "tx_rel cards_follow (createCard_body env ky t a serial now c)"
  unfolding createCard_body_def store_response_def by (intro cards_life.rel_intros cards_leaves)

lemma swap_cards_follows: "tx_rel cards_follow (swap_cards env t a current serial at now)"
  unfolding swap_cards_def
  by (intro cards_life.rel_intros cards_leaves card_updateMany_follows) (auto simp: card_moves_def)

lemma replaceCard_body_follows: "tx_rel cards_follow (replaceCard_body env ky t a i serial at now p)"
  unfolding replaceCard_body_def store_response_def
  by (cases p; simp only: prod.case) (intro cards_life.rel_intros cards_leaves swap_cards_follows)

lemma updateStatus_body_follows:
  assumes "cd_status (fst p) \<noteq> CardStatus.REPLACED"
  shows "tx_rel cards_follow (updateStatus_body ky t a i status now p)"
  using assms unfolding updateStatus_body_def store_response_def
  by (cases p; simp only: prod.case fst_conv)
    (intro cards_life.rel_intros cards_leaves card_updateMany_follows; simp add: card_moves_def)

lemma card_bodies_money:
  "tx_frame financial (createCard_body env ky t a serial now c)"
  "tx_frame financial (replaceCard_body env ky t a i serial at now p)"
  "tx_frame financial (updateStatus_body ky t a i status now q)"
proof -
  show "tx_frame financial (createCard_body env ky t a serial now c)"
    unfolding createCard_body_def by (intro frame_intros; simp add: financial_def)
  show "tx_frame financial (replaceCard_body env ky t a i serial at now p)"
    unfolding replaceCard_body_def swap_cards_def
    by (cases p; simp only: prod.case) (intro frame_intros; simp add: financial_def)
  show "tx_frame financial (updateStatus_body ky t a i status now q)"
    unfolding updateStatus_body_def by (cases q; simp only: prod.case) (intro frame_intros; simp add: financial_def)
qed

lemma card_bodies_store:
  "stores_response ky (createCard_body env ky t a serial now c)"
  "stores_response ky (replaceCard_body env ky t a i serial at now p)"
  "stores_response ky (updateStatus_body ky t a i status now q)"
proof -
  show "stores_response ky (createCard_body env ky t a serial now c)"
    unfolding createCard_body_def
    by (intro stores_response_catch store_response_stores frame_intros; simp)
  show "stores_response ky (replaceCard_body env ky t a i serial at now p)"
    unfolding replaceCard_body_def swap_cards_def
    by (cases p; simp only: prod.case) (intro stores_response_catch store_response_stores frame_intros; simp)
  show "stores_response ky (updateStatus_body ky t a i status now q)"
    unfolding updateStatus_body_def
    by (cases q; simp only: prod.case)
      (intro stores_response_bind stores_response_catch store_response_stores frame_intros; simp)
qed

subsection \<open>The calls\<close>

context keyed_order
begin

lemma createCard_rel:
  assumes "\<And>k d. R d (fst (sched k d))" and "\<And>k d. R d (others k d)"
    and "\<And>ky serial now c. tx_rel R (createCard_body env ky tenantId actor serial now c)"
  shows "R d (snd (createCard env sched others clk tenantId actor customerId serialNumber key d))"
  unfolding createCard_def createCard_checks_def Let_def
  by (auto split: sum.split intro!: R_refl assms checks_read checks_checked keyed_call_rel[where Q = "\<lambda>_. True"])

lemma replaceCard_rel:
  assumes "\<And>k d. R d (fst (sched k d))" and "\<And>k d. R d (others k d)"
    and "\<And>ky serial at now p. tx_rel R (replaceCard_body env ky tenantId actor cardId serial at now p)"
  shows "R d (snd (replaceCard env sched others clk tenantId actor cardId serialNumber key d))"
  unfolding replaceCard_def replaceCard_checks_def Let_def
  by (auto split: sum.split intro!: R_refl assms checks_read checks_checked keyed_call_rel[where Q = "\<lambda>_. True"])

lemma updateStatus_rel:
  assumes "\<And>k d. R d (fst (sched k d))" and "\<And>k d. R d (others k d)"
    and "\<And>ky now p. cd_status (fst p) \<noteq> CardStatus.REPLACED \<Longrightarrow> tx_rel R (updateStatus_body ky tenantId actor cardId status now p)"
  shows "R d (snd (updateStatus env sched others clk tenantId actor cardId status key d))"
  unfolding updateStatus_def updateStatus_checks_def Let_def
  by (auto split: sum.split option.split_asm if_split_asm intro!: R_refl assms checks_read checks_checked
      keyed_call_rel[where Q = "\<lambda>p. cd_status (fst p) \<noteq> CardStatus.REPLACED"])

end

end
