(* ===== verification/Keyed_Runs.thy ===== *)
theory Keyed_Runs
  imports Keyed_Calls Demo
begin

text \<open>
  Running a keyed call by itself while no key is stored: the call returns what its work returns and
  leaves what the work leaves, with one completed record. Used to run the calls on the small shop, where
  only the work has to be evaluated.
\<close>

definition demo_times :: "nat \<Rightarrow> int" where
  "demo_times n = demo_now + int n"

definition pending_row :: "keyed \<Rightarrow> int \<Rightarrow> IdempotencyRecord" where
  "pending_row ky now =
     \<lparr> idr_tenantId = ky_tenantId ky, idr_actorId = ky_actorId ky, idr_endpoint = ky_endpoint ky,
       idr_idempotencyKey = ky_key ky, idr_requestHash = ky_requestHash ky, idr_responseJson = None,
       idr_status = IdempotencyRecordStatus.PENDING, idr_expiresAt = now + 24 * 60 * 60 * 1000 \<rparr>"

definition completed_row :: "keyed \<Rightarrow> int \<Rightarrow> json \<Rightarrow> IdempotencyRecord" where
  "completed_row ky now r = (pending_row ky now)\<lparr>idr_status := IdempotencyRecordStatus.COMPLETED, idr_responseJson := Some r\<rparr>"

lemma claim_key_alone:
  "idempotencyRecords d = [] \<Longrightarrow> claim_key ky now d = Inr ((), d\<lparr>idempotencyRecords := [pending_row ky now]\<rparr>)"
  by (simp add: claim_key_def pending_row_def idempotencyRecord_create_def)

lemma claimed_pending: "claimed ky (d\<lparr>idempotencyRecords := [pending_row ky now]\<rparr>)"
  by (simp add: claimed_def key_record_def idempotencyRecord_findUnique_def is_record_def pending_row_def)

lemma store_response_alone:
  assumes "idempotencyRecords d = [pending_row ky now]" and "tx_frame idempotencyRecords m" and "m d = Inr (r, d1)"
  shows "store_response ky m d = Inr (r, d1\<lparr>idempotencyRecords := [completed_row ky now r]\<rparr>)"
proof -
  have "idempotencyRecords d1 = [pending_row ky now]" using tx_frameD[OF assms(2,3)] assms(1) by simp
  then have "complete_key ky r d1 = Inr ((), d1\<lparr>idempotencyRecords := [completed_row ky now r]\<rparr>)"
    by (simp add: complete_key_def require_updated_eq_Inr idempotencyRecord_updateMany_def count_where_def updated_def
        is_record_def completed_row_def) (simp add: pending_row_def)
  then show ?thesis using assms(3) by (simp add: store_response_def tx_bind_eq_Inr)
qed

lemma store_response_runs:
  assumes "idempotencyRecords d = [pending_row ky now]" and "tx_frame idempotencyRecords m" and "\<exists>r d1. m d = Inr (r, d1)"
  shows "\<exists>r d'. store_response ky m d = Inr (r, d')"
  using assms(3) store_response_alone[OF assms(1,2)] by blast

lemma keyed_call_alone:
  assumes "idempotencyRecords d = []" and "checks d = (Inr c, d)"
    and "body c (d\<lparr>idempotencyRecords := [pending_row ky (clk 1)]\<rparr>) = Inr (r, d')"
  shows "keyed_call ky alone clk checks body d = (Inr r, d')"
proof -
  have "drop_expired ky now d = d" for now using assms(1) by (simp add: drop_expired_def idempotencyRecord_deleteMany_def)
  moreover have "key_record ky d = None" using assms(1) by (simp add: key_record_def idempotencyRecord_findUnique_def)
  ultimately show ?thesis
    using assms claim_key_alone[OF assms(1)]
    by (simp add: keyed_call_def findIdempotency_def run_transaction_def alone_def tx_bind_def)
qed

lemma live_completed: "idempotencyRecords d = [completed_row ky (clk 1) r] \<Longrightarrow> snd (snd w) 0 < clk 1 + 86400000 \<Longrightarrow> records_live w d"
  by (simp add: records_live_def completed_row_def pending_row_def)

end
