(* ===== verification/Card_Calls.thy ===== *)
theory Card_Calls
  imports Cards Keyed_Runs
begin

text \<open>
  What a replacement leaves behind, that the calls of \<^verbatim>\<open>src/modules/cards/cards.service.ts\<close> answer a
  repeated request from its record, and runs of them on the small shop.
\<close>

subsection \<open>A replacement\<close>

definition retired :: "int \<Rightarrow> int \<Rightarrow> string \<Rightarrow> Card \<Rightarrow> Card" where
  "retired at now by_id x = x\<lparr>cd_status := CardStatus.REPLACED, cd_blockedAt := Some at, cd_replacedAt := Some at,
     cd_replacedByCardId := Some by_id, cd_updatedAt := now\<rparr>"

lemma updated_cong_on: "(\<And>x. x \<in> set xs \<Longrightarrow> p x = q x) \<Longrightarrow> updated p f xs = updated q f xs"
  by (auto simp: updated_def)

lemma updated_updated:
  assumes "\<And>x. x \<in> set xs \<Longrightarrow> p x \<Longrightarrow> p (f x)"
  shows "updated p g (updated p f xs) = updated p (\<lambda>x. g (f x)) xs"
  using assms by (auto simp: updated_def)

lemma updated_append [simp]: "updated p f (xs @ ys) = updated p f xs @ updated p f ys"
  by (simp add: updated_def)

lemma swap_cards_effect:
  assumes ok: "cards_ok d" and x: "x \<in> set (cards d)" "card_moves current x"
    and run: "swap_cards env t a current serial at now d = Inr (new, d')"
  shows "cards d' = updated (\<lambda>y. cd_id y = cd_id current) (retired at now (cd_id new)) (cards d) @ [new]
    \<and> cd_status x = CardStatus.ACTIVE \<and> cd_tenantId x = t \<and> cd_id new \<notin> cd_id ` set (cards d)
    \<and> (\<exists>i. new = new_card t a (cd_customerId current) serial now i)"
proof -
  let ?p = "\<lambda>y. cd_id y = cd_id current"
  let ?f = "\<lambda>y. y\<lparr>cd_status := CardStatus.REPLACED, cd_blockedAt := Some at, cd_replacedAt := Some at, cd_updatedAt := now\<rparr>"
  let ?q = "\<lambda>y. cd_id y = cd_id current \<and> cd_tenantId y = t \<and> cd_status y = CardStatus.ACTIVE"
  from run obtain d1 d2 n where u: "card_updateMany ?q ?f d = Inr (1, d1)"
    and c: "card_create env (new_card t a (cd_customerId current) serial now) d1 = Inr (new, d2)"
    and l: "card_updateMany ?p (\<lambda>y. y\<lparr>cd_replacedByCardId := Some (cd_id new), cd_updatedAt := now\<rparr>) d2 = Inr (n, d')"
    by (auto simp: swap_cards_def tx_bind_eq_Inr tx_check_eq_Inr require_updated_eq_Inr split: if_split_asm)
  have same: "y = x" if "y \<in> set (cards d)" "cd_id y = cd_id current" for y
    using that x ok inj_onD[of cd_id "set (cards d)" y x] by (simp add: cards_ok_def card_moves_def distinct_map)
  from u have "count_where ?q (cards d) = 1" and d1: "cards d1 = updated ?q ?f (cards d)"
    by (auto simp: card_updateMany_eq_Inr)
  from this(1) obtain y where "y \<in> set (cards d)" "?q y" by (rule count_where_oneE)
  then have xq: "?q x" using same by blast
  then have d1': "cards d1 = updated ?p ?f (cards d)"
    unfolding d1 by (intro updated_cong_on) (use same in blast)
  from c have d2: "cards d2 = cards d1 @ [new]" and free: "cd_id new \<notin> cd_id ` set (cards d1)"
    and mk: "\<exists>i. new = new_card t a (cd_customerId current) serial now i"
    by (auto simp: card_create_def create_row_eq_Inr first_violation_None card_constraints_def list_ex_iff split: if_split_asm)
  have ids: "cd_id ` set (cards d1) = cd_id ` set (cards d)"
    unfolding d1' updated_def set_map image_image by (intro image_cong) auto
  have "cd_id current \<in> cd_id ` set (cards d1)"
    unfolding ids by (rule image_eqI[OF _ x(1)]) (use x(2) in \<open>simp add: card_moves_def\<close>)
  with free have "\<not> ?p new" by metis
  with l have "cards d' = updated ?p (\<lambda>y. y\<lparr>cd_replacedByCardId := Some (cd_id new), cd_updatedAt := now\<rparr>) (cards d1) @ [new]"
    by (simp add: card_updateMany_eq_Inr d2) (simp add: updated_def)
  also have "\<dots> = updated ?p (retired at now (cd_id new)) (cards d) @ [new]"
    unfolding d1' by (subst updated_updated) (simp_all add: retired_def[abs_def])
  finally show ?thesis using xq free ids mk by simp
qed

lemma replaceCard_body_swaps:
  assumes "replaceCard_body env ky t a cardId serial at now (current, customer) d = Inr (r, d')"
  obtains new d1 where "swap_cards env t a current serial at now d = Inr (new, d1)" and "cards d' = cards d1"
    and "r = toPublicCard new"
    and "smsMessages d' = smsMessages d1 @ [last (smsMessages d')]" and "sms_template (last (smsMessages d')) = ''card-replaced''"
    and "sms_phoneE164 (last (smsMessages d')) = cu_phoneE164 customer"
proof -
  from assms obtain new d1 d2 d3 where s: "swap_cards env t a current serial at now d = Inr (new, d1)"
    and n: "replacement_notice env t current customer new at d1 = Inr ((), d2)"
    and rc: "recordWithClient t (Some (actor_id a)) ''card.replace'' ''card'' (Some (cd_id new))
        (JObj [(''previousCardId'', JStr cardId), (''serialNumber'', JStr serial)]) d2 = Inr ((), d3)"
    and k: "complete_key ky r d3 = Inr ((), d')" and r: "r = toPublicCard new"
    by (auto simp: replaceCard_body_def store_response_def tx_bind_eq_Inr)
  have "cards d' = cards d1"
    using tx_frameD[OF cards_frames(3) n] tx_frameD[OF cards_frames(2) rc] tx_frameD[OF cards_frames(1) k] by simp
  moreover have "smsMessages d' = smsMessages d2"
    using tx_frameD[OF recordWithClient_frame rc, where f = smsMessages] tx_frameD[OF complete_key_frame k, where f = smsMessages] by simp
  moreover have "\<exists>m. smsMessages d2 = smsMessages d1 @ [m] \<and> sms_template m = ''card-replaced'' \<and> sms_phoneE164 m = cu_phoneE164 customer"
    using n by (auto simp: replacement_notice_def Let_def tx_bind_eq_Inr outboxEvent_create_def smsMessage_create_def create_row_eq_Inr)
  ultimately show ?thesis using s r by (intro that) auto
qed

text \<open>
  C35: A replacement that commits retires exactly the card it names, which was active, and links it to the
  new one; every other card stays as it is. The new card carries the new serial number and is the one
  active card of the customer, and the customer's phone is told. The card was read before the transaction:
  it need only have the identity it had then.
\<close>

theorem replaceCard_swaps:
  assumes "cards_ok d" and "x \<in> set (cards d)" and "card_moves current x"
    and "replaceCard_body env ky t a cardId serial at now (current, customer) d = Inr (r, d')"
  shows "\<exists>new. cards d' = updated (\<lambda>y. cd_id y = cd_id current) (retired at now (cd_id new)) (cards d) @ [new]
    \<and> r = toPublicCard new \<and> cd_barcodeValue new = serial \<and> cd_status x = CardStatus.ACTIVE
    \<and> filter (active_card_of t (cd_customerId x)) (cards d') = [new]
    \<and> (\<exists>m. smsMessages d' = smsMessages d @ [m] \<and> sms_template m = ''card-replaced'' \<and> sms_phoneE164 m = cu_phoneE164 customer)"
proof -
  from assms(4) obtain new d1 where s: "swap_cards env t a current serial at now d = Inr (new, d1)" and c: "cards d' = cards d1"
    and r: "r = toPublicCard new" and m: "\<exists>m. smsMessages d' = smsMessages d1 @ [m] \<and> sms_template m = ''card-replaced''
      \<and> sms_phoneE164 m = cu_phoneE164 customer"
    by (rule replaceCard_body_swaps) blast
  note e = swap_cards_effect[OF assms(1-3) s]
  have "tx_frame smsMessages (swap_cards env t a current serial at now)"
    unfolding swap_cards_def by (intro frame_intros; simp)
  with s have sm: "smsMessages d1 = smsMessages d" by (rule tx_frameD[rotated])
  have new: "active_card_of t (cd_customerId x) new" "cd_barcodeValue new = serial"
    using e assms(3) by (auto simp: new_card_def active_card_of_def card_moves_def)
  have "cards_ok d1" using tx_relD[OF swap_cards_follows s] assms(1) by (simp add: table_follows_def)
  then have "length (filter (active_card_of t (cd_customerId x)) (cards d1)) \<le> 1"
    by (simp add: cards_ok_def count_where_def)
  then have "filter (active_card_of t (cd_customerId x)) (cards d1) = [new]"
    using e new(1) by (auto simp: Suc_le_eq)
  then show ?thesis using e r new(2) m sm c by auto
qed

subsection \<open>Repeated requests\<close>

definition createCard_key :: "env \<Rightarrow> string \<Rightarrow> AuthContext \<Rightarrow> string \<Rightarrow> string \<Rightarrow> string \<Rightarrow> keyed" where
  "createCard_key env tenantId actor customerId serial key =
     card_key env tenantId actor ''cards.create'' key [(''customerId'', JStr customerId), (''serialNumber'', JStr serial)]"

definition replaceCard_key :: "env \<Rightarrow> string \<Rightarrow> AuthContext \<Rightarrow> string \<Rightarrow> string \<Rightarrow> string \<Rightarrow> keyed" where
  "replaceCard_key env tenantId actor cardId serial key =
     card_key env tenantId actor ''cards.replace'' key [(''cardId'', JStr cardId), (''serialNumber'', JStr serial)]"

definition updateStatus_key :: "env \<Rightarrow> string \<Rightarrow> AuthContext \<Rightarrow> string \<Rightarrow> string \<Rightarrow> string \<Rightarrow> keyed" where
  "updateStatus_key env tenantId actor cardId status key =
     card_key env tenantId actor ''cards.status'' key [(''cardId'', JStr cardId), (''status'', JStr status)]"

interpretation create_call: keyed_endpoint "createCard_key env t a c serial key"
  "\<lambda>w. createCard_checks (fst (snd w)) t c serial"
  "\<lambda>w. createCard_body env (createCard_key env t a c serial key) t a serial (snd (snd w) 2)" for env t a c serial key
  by unfold_locales (rule card_bodies_store)

interpretation replace_call: keyed_endpoint "replaceCard_key env t a i serial key"
  "\<lambda>w. replaceCard_checks (fst (snd w)) t i"
  "\<lambda>w. replaceCard_body env (replaceCard_key env t a i serial key) t a i serial (snd (snd w) 2) (snd (snd w) 3)" for env t a i serial key
  by unfold_locales (rule card_bodies_store)

interpretation status_call: keyed_endpoint "updateStatus_key env t a i st key"
  "\<lambda>w. updateStatus_checks (fst (snd w)) t i st"
  "\<lambda>w. updateStatus_body (updateStatus_key env t a i st key) t a i st (snd (snd w) 2)" for env t a i st key
  by unfold_locales (rule card_bodies_store)

text \<open>A call past the checks of its arguments is the keyed call.\<close>

lemma createCard_again:
  assumes "createCard env (fst w) (fst (snd w)) (snd (snd w)) t a c sn key d = (Inr r, d')" and "same_key_live t a key v d'"
  shows "createCard env (fst v) (fst (snd v)) (snd (snd v)) t a c sn key d' = (Inr r, d')"
proof -
  from assms(1) obtain k serial where k: "normalizeKeyHeader key = Inr k" "normalizeCardSerial sn = Inr serial"
    by (simp add: createCard_def split: sum.split_asm)
  have "createCard env (fst u) (fst (snd u)) (snd (snd u)) t a c sn key s =
      keyed_in (createCard_key env t a c serial k) (\<lambda>w. createCard_checks (fst (snd w)) t c serial)
        (\<lambda>w. createCard_body env (createCard_key env t a c serial k) t a serial (snd (snd w) 2)) u s" for u s
    by (simp add: createCard_def keyed_in_def createCard_key_def Let_def k)
  note keyed = this
  have "key_live (createCard_key env t a c serial k) v d'"
    by (rule key_live_same[OF assms(2)]) (simp_all add: k createCard_key_def card_key_def)
  then show ?thesis using create_call.call_again[OF assms(1)[unfolded keyed]] unfolding keyed by blast
qed

lemma replaceCard_again:
  assumes "replaceCard env (fst w) (fst (snd w)) (snd (snd w)) t a i sn key d = (Inr r, d')" and "same_key_live t a key v d'"
  shows "replaceCard env (fst v) (fst (snd v)) (snd (snd v)) t a i sn key d' = (Inr r, d')"
proof -
  from assms(1) obtain k serial where k: "normalizeKeyHeader key = Inr k" "normalizeCardSerial sn = Inr serial"
    by (simp add: replaceCard_def split: sum.split_asm)
  have "replaceCard env (fst u) (fst (snd u)) (snd (snd u)) t a i sn key s =
      keyed_in (replaceCard_key env t a i serial k) (\<lambda>w. replaceCard_checks (fst (snd w)) t i)
        (\<lambda>w. replaceCard_body env (replaceCard_key env t a i serial k) t a i serial (snd (snd w) 2) (snd (snd w) 3)) u s" for u s
    by (simp add: replaceCard_def keyed_in_def replaceCard_key_def Let_def k)
  note keyed = this
  have "key_live (replaceCard_key env t a i serial k) v d'"
    by (rule key_live_same[OF assms(2)]) (simp_all add: k replaceCard_key_def card_key_def)
  then show ?thesis using replace_call.call_again[OF assms(1)[unfolded keyed]] unfolding keyed by blast
qed

lemma updateStatus_again:
  assumes "updateStatus env (fst w) (fst (snd w)) (snd (snd w)) t a i st key d = (Inr r, d')" and "same_key_live t a key v d'"
  shows "updateStatus env (fst v) (fst (snd v)) (snd (snd v)) t a i st key d' = (Inr r, d')"
proof -
  from assms(1) obtain k where k: "normalizeKeyHeader key = Inr k"
    by (simp add: updateStatus_def split: sum.split_asm)
  have "updateStatus env (fst u) (fst (snd u)) (snd (snd u)) t a i st key s =
      keyed_in (updateStatus_key env t a i st k) (\<lambda>w. updateStatus_checks (fst (snd w)) t i st)
        (\<lambda>w. updateStatus_body (updateStatus_key env t a i st k) t a i st (snd (snd w) 2)) u s" for u s
    by (simp add: updateStatus_def keyed_in_def updateStatus_key_def Let_def k)
  note keyed = this
  have "key_live (updateStatus_key env t a i st k) v d'"
    by (rule key_live_same[OF assms(2)]) (simp_all add: k updateStatus_key_def card_key_def)
  then show ?thesis using status_call.call_again[OF assms(1)[unfolded keyed]] unfolding keyed by blast
qed

subsection \<open>Runs on the small shop\<close>

lemma demo_cards_ok: "cards_ok demo_db"
  by (simp add: cards_ok_def demo_db_def count_where_def active_card_of_def)

definition demo_replace_key :: keyed where
  "demo_replace_key = replaceCard_key demo_env ''T'' demo_cashier ''K'' ''SC-02'' ''k1''"

lemma demo_normal: "normalizeKeyHeader (Some ''k1'') = Inr ''k1''" "normalizeCardSerial ''sc-02'' = Inr ''SC-02''"
  by code_simp+

lemma demo_replace_checks:
  "replaceCard_checks (\<lambda>_ d. d) ''T'' ''K'' demo_db = (Inr (hd (cards demo_db), hd (customers demo_db)), demo_db)"
  by code_simp

definition demo_claimed :: db where
  "demo_claimed = demo_db\<lparr>idempotencyRecords := [pending_row demo_replace_key (demo_times 1)]\<rparr>"

lemma demo_swap:
  "map_sum (\<lambda>e. e) (\<lambda>(r, d). map (\<lambda>c. (cd_id c, cd_barcodeValue c, cd_status c, cd_replacedByCardId c)) (cards d))
     (tx_bind (swap_cards demo_env ''T'' demo_cashier (hd (cards demo_db)) ''SC-02'' (demo_times 2) (demo_times 3)) (\<lambda>new.
      tx_bind (replacement_notice demo_env ''T'' (hd (cards demo_db)) (hd (customers demo_db)) new (demo_times 2)) (\<lambda>_.
      recordWithClient ''T'' (Some (actor_id demo_cashier)) ''card.replace'' ''card'' (Some (cd_id new))
        (JObj [(''previousCardId'', JStr ''K''), (''serialNumber'', JStr ''SC-02'')]))) demo_claimed) =
   Inr [(''K'', ''SC-01'', CardStatus.REPLACED, Some ''n''), (''n'', ''SC-02'', CardStatus.ACTIVE, None)]"
  by code_simp

lemma demo_replace:
  obtains r d' where
    "replaceCard_body demo_env demo_replace_key ''T'' demo_cashier ''K'' ''SC-02'' (demo_times 2) (demo_times 3)
       (hd (cards demo_db), hd (customers demo_db)) demo_claimed = Inr (r, d')"
    and "replaceCard demo_env alone (\<lambda>_ d. d) demo_times ''T'' demo_cashier ''K'' ''sc-02'' (Some ''k1'') demo_db = (Inr r, d')"
    and "map (\<lambda>c. (cd_id c, cd_barcodeValue c, cd_status c, cd_replacedByCardId c)) (cards d') =
      [(''K'', ''SC-01'', CardStatus.REPLACED, Some ''n''), (''n'', ''SC-02'', CardStatus.ACTIVE, None)]"
    and "records_live (alone, (\<lambda>_ d. d), \<lambda>_. demo_now + 1000) d'"
proof -
  let ?work = "tx_bind (swap_cards demo_env ''T'' demo_cashier (hd (cards demo_db)) ''SC-02'' (demo_times 2) (demo_times 3)) (\<lambda>new.
      tx_bind (replacement_notice demo_env ''T'' (hd (cards demo_db)) (hd (customers demo_db)) new (demo_times 2)) (\<lambda>_.
      tx_bind (recordWithClient ''T'' (Some (actor_id demo_cashier)) ''card.replace'' ''card'' (Some (cd_id new))
        (JObj [(''previousCardId'', JStr ''K''), (''serialNumber'', JStr ''SC-02'')])) (\<lambda>_. tx_return (toPublicCard new))))"
  from demo_swap obtain u d1 where
    w: "tx_bind (swap_cards demo_env ''T'' demo_cashier (hd (cards demo_db)) ''SC-02'' (demo_times 2) (demo_times 3)) (\<lambda>new.
      tx_bind (replacement_notice demo_env ''T'' (hd (cards demo_db)) (hd (customers demo_db)) new (demo_times 2)) (\<lambda>_.
      recordWithClient ''T'' (Some (actor_id demo_cashier)) ''card.replace'' ''card'' (Some (cd_id new))
        (JObj [(''previousCardId'', JStr ''K''), (''serialNumber'', JStr ''SC-02'')]))) demo_claimed = Inr (u, d1)"
    and cs: "map (\<lambda>c. (cd_id c, cd_barcodeValue c, cd_status c, cd_replacedByCardId c)) (cards d1) =
      [(''K'', ''SC-01'', CardStatus.REPLACED, Some ''n''), (''n'', ''SC-02'', CardStatus.ACTIVE, None)]"
    by (auto elim: committed_result)
  from w obtain r where m: "?work demo_claimed = Inr (r, d1)" by (auto simp: tx_bind_eq_Inr)
  have f: "tx_frame idempotencyRecords ?work" unfolding swap_cards_def by (intro frame_intros; simp)
  have "idempotencyRecords demo_claimed = [pending_row demo_replace_key (demo_times 1)]" by (simp add: demo_claimed_def)
  from store_response_alone[OF this f m] have b:
    "replaceCard_body demo_env demo_replace_key ''T'' demo_cashier ''K'' ''SC-02'' (demo_times 2) (demo_times 3)
       (hd (cards demo_db), hd (customers demo_db)) demo_claimed =
       Inr (r, d1\<lparr>idempotencyRecords := [completed_row demo_replace_key (demo_times 1) r]\<rparr>)"
    unfolding replaceCard_body_def prod.case tx_catch_eq_Inr .
  have "idempotencyRecords demo_db = []" by (simp add: demo_db_def)
  from keyed_call_alone[where body = "replaceCard_body demo_env demo_replace_key ''T'' demo_cashier ''K'' ''SC-02'' (demo_times 2) (demo_times 3)"
      and ky = demo_replace_key and clk = demo_times and d = demo_db and checks = "replaceCard_checks (\<lambda>_ d. d) ''T'' ''K''", OF this demo_replace_checks b[unfolded demo_claimed_def]] b cs show ?thesis
    by (intro that[of r "d1\<lparr>idempotencyRecords := [completed_row demo_replace_key (demo_times 1) r]\<rparr>"])
      (simp_all add: replaceCard_def demo_normal demo_replace_key_def replaceCard_key_def Let_def demo_times_def
        live_completed[of _ "replaceCard_key demo_env ''T'' demo_cashier ''K'' ''SC-02'' ''k1''" demo_times])
qed

lemma demo_claimed_ok: "cards_ok demo_claimed" "hd (cards demo_db) \<in> set (cards demo_claimed)"
  using demo_cards_ok by (simp_all add: demo_claimed_def cards_ok_def) (simp add: demo_db_def)

theorem replaceCard_swaps_witness:
  "\<exists>new (d' :: db). filter (active_card_of ''T'' ''C'') (cards d') = [new] \<and> cd_barcodeValue new = ''SC-02''
     \<and> length (smsMessages d') = 1 \<and> length (cards d') = 2"
proof -
  obtain r d' where b: "replaceCard_body demo_env demo_replace_key ''T'' demo_cashier ''K'' ''SC-02'' (demo_times 2) (demo_times 3)
       (hd (cards demo_db), hd (customers demo_db)) demo_claimed = Inr (r, d')"
    by (rule demo_replace)
  have "cd_customerId (hd (cards demo_db)) = ''C''" "length (cards demo_claimed) = 1" "smsMessages demo_claimed = []"
    by (simp_all add: demo_claimed_def demo_db_def)
  with replaceCard_swaps[OF demo_claimed_ok card_moves_refl b] obtain new m where
    "filter (active_card_of ''T'' ''C'') (cards d') = [new]" "cd_barcodeValue new = ''SC-02''" "smsMessages d' = [m]"
    "length (cards d') = 2"
    by (auto simp: updated_def)
  then show ?thesis by (intro exI[of _ new] exI[of _ d']) simp
qed

end
