(* ===== verification/Customers.thy ===== *)
theory Customers
  imports Cards
begin

text \<open>
  \<^verbatim>\<open>src/modules/customers/customers.service.ts\<close> and \<^verbatim>\<open>src/common/phone.ts\<close>: registering customers with their
  consent and first card, changing and blocking them, withdrawing the consent to marketing, and the
  audited reads. A request keeps its members in the order the client sent them
  (\<open>nc_members\<close>, \<open>uc_members\<close>): its hash and the audit row are made of them. A \<open>ConflictException\<close> built from an
  object is modelled by the text of the object.
\<close>

subsection \<open>Phones and masks\<close>

definition digits_of :: "string \<Rightarrow> string" where
  "digits_of = filter is_digit"

definition normalizePhoneToE164 :: "string \<Rightarrow> string" where
  "normalizePhoneToE164 v =
     (let digits = digits_of v in
      if digits = [] then v
      else if js_startsWith (js_trim v) ''+'' then ''+'' @ digits
      else if js_startsWith digits ''234'' \<and> length digits \<ge> 13 then ''+'' @ digits
      else if js_startsWith digits ''0'' then ''+234'' @ drop 1 digits
      else ''+234'' @ digits)"

definition js_toLowerCase :: "string \<Rightarrow> string" where
  "js_toLowerCase = map to_lower"

fun split_at :: "char \<Rightarrow> string \<Rightarrow> string list" where
  "split_at sep [] = [[]]"
| "split_at sep (c # cs) =
     (if c = sep then [] # split_at sep cs
      else case split_at sep cs of [] \<Rightarrow> [[c]] | w # ws \<Rightarrow> (c # w) # ws)"

definition maskEmail :: "string option \<Rightarrow> string option" where
  "maskEmail email =
     (if \<not> truthy email then None
      else case split_at (CHR ''@'') (the email) of
        localPart # domainPart # _ \<Rightarrow>
          if domainPart = [] then Some (take 3 localPart @ ''***'') else Some (take 3 localPart @ ''***@'' @ domainPart)
      | localPart # _ \<Rightarrow> Some (take 3 localPart @ ''***'')
      | [] \<Rightarrow> Some ''***'')"

definition safeKoboNumber :: "int option \<Rightarrow> json" where
  "safeKoboNumber v =
     (case v of None \<Rightarrow> JNull | Some k \<Rightarrow> if k < 0 \<or> k > MAX_SAFE_INTEGER then JNull else JNum (js_Number k))"

definition is_phone_char :: "char \<Rightarrow> bool" where
  "is_phone_char c = (is_digit c \<or> is_space c \<or> c \<in> set ''+().-'')"

definition isPhoneSearchQuery :: "string \<Rightarrow> bool" where
  "isPhoneSearchQuery query = (query \<noteq> [] \<and> list_all is_phone_char query \<and> length (digits_of query) \<ge> 7)"

definition is_letter :: "char \<Rightarrow> bool" where
  "is_letter c = (let n = (of_char c :: int) in 65 \<le> n \<and> n \<le> 90 \<or> 97 \<le> n \<and> n \<le> 122)"

definition classifyCustomerSearchQuery :: "string option \<Rightarrow> string" where
  "classifyCustomerSearchQuery q =
     (let query = (case q of None \<Rightarrow> [] | Some s \<Rightarrow> js_trim s) in
      if query = [] then ''none''
      else if js_includes query ''@'' then ''email''
      else if isPhoneSearchQuery query then ''phone''
      else if list_ex is_digit query \<and> list_ex (\<lambda>c. is_letter c \<or> c = CHR ''-'') query then ''card''
      else ''name'')"

definition contains_insensitive :: "string \<Rightarrow> string \<Rightarrow> bool" where
  "contains_insensitive s q = js_includes (js_toLowerCase s) (js_toLowerCase q)"

definition customerSearchWhere :: "string \<Rightarrow> string option \<Rightarrow> db \<Rightarrow> Customer \<Rightarrow> bool" where
  "customerSearchWhere tenantId q d c =
     (let query = (case q of None \<Rightarrow> [] | Some s \<Rightarrow> js_trim s);
          phoneQuery = (if isPhoneSearchQuery query then Some (normalizePhoneToE164 query) else None) in
      cu_tenantId c = tenantId
      \<and> (query = []
         \<or> contains_insensitive (cu_fullName c) query
         \<or> js_includes (cu_phoneE164 c) query
         \<or> (case phoneQuery of Some p \<Rightarrow> p \<noteq> query \<and> js_includes (cu_phoneE164 c) p | None \<Rightarrow> False)
         \<or> (case cu_email c of Some e \<Rightarrow> contains_insensitive e query | None \<Rightarrow> False)
         \<or> list_ex (\<lambda>x. cd_tenantId x = cu_tenantId c \<and> cd_customerId x = cu_id c \<and> js_includes (cd_barcodeValue x) query) (cards d)))"

subsection \<open>Tables\<close>

definition customer_constraints :: "db \<Rightarrow> Customer \<Rightarrow> (bool \<times> string list) list" where
  "customer_constraints d row =
      [(list_ex (\<lambda>x. cu_id x = cu_id row) (customers d), [''id'']),
       (list_ex (\<lambda>x. cu_tenantId x = cu_tenantId row \<and> cu_phoneE164 x = cu_phoneE164 row) (customers d), [''tenantId'', ''phoneE164'']),
       (list_ex (\<lambda>x. cu_tenantId x = cu_tenantId row \<and> same_key (cu_email x) (cu_email row)) (customers d), [''tenantId'', ''email''])]"

definition customer_create :: "env \<Rightarrow> (string \<Rightarrow> Customer) \<Rightarrow> Customer dbtx" where
  "customer_create env mk = create_row env customer_constraints (\<lambda>row d. d\<lparr>customers := customers d @ [row]\<rparr>) mk"

text \<open>An update by the id: the changed row must not collide with another one.\<close>

definition customer_update :: "string \<Rightarrow> (Customer \<Rightarrow> Customer) \<Rightarrow> Customer dbtx" where
  "customer_update i g = (\<lambda>d.
     case find (\<lambda>c. cu_id c = i) (customers d) of
       None \<Rightarrow> Inl p2025
     | Some c \<Rightarrow>
         (case first_violation
             (customer_constraints (d\<lparr>customers := filter (\<lambda>x. cu_id x \<noteq> i) (customers d)\<rparr>) (g c)) of
            Some e \<Rightarrow> Inl e
          | None \<Rightarrow> Inr (g c, d\<lparr>customers := updated (\<lambda>x. cu_id x = i) g (customers d)\<rparr>)))"

definition customerConsent_constraints :: "db \<Rightarrow> CustomerConsent \<Rightarrow> (bool \<times> string list) list" where
  "customerConsent_constraints d row =
      [(list_ex (\<lambda>x. cc_id x = cc_id row) (customerConsents d), [''id'']),
       (list_ex (\<lambda>x. cc_tenantId x = cc_tenantId row \<and> cc_customerId x = cc_customerId row) (customerConsents d), [''tenantId'', ''customerId''])]"

definition customerConsent_create :: "env \<Rightarrow> (string \<Rightarrow> CustomerConsent) \<Rightarrow> CustomerConsent dbtx" where
  "customerConsent_create env mk =
     create_row env customerConsent_constraints (\<lambda>row d. d\<lparr>customerConsents := customerConsents d @ [row]\<rparr>) mk"

definition preferenceEvent_constraints :: "db \<Rightarrow> CustomerMarketingPreferenceEvent \<Rightarrow> (bool \<times> string list) list" where
  "preferenceEvent_constraints d row = [(list_ex (\<lambda>x. mp_id x = mp_id row) (customerMarketingPreferenceEvents d), [''id''])]"

definition preferenceEvent_create :: "env \<Rightarrow> (string \<Rightarrow> CustomerMarketingPreferenceEvent) \<Rightarrow> CustomerMarketingPreferenceEvent dbtx" where
  "preferenceEvent_create env mk =
     create_row env preferenceEvent_constraints
       (\<lambda>row d. d\<lparr>customerMarketingPreferenceEvents := customerMarketingPreferenceEvents d @ [row]\<rparr>) mk"

text \<open>\<open>findFirst\<close> ordered by \<open>capturedAt\<close> and \<open>id\<close>, both descending.\<close>

definition latest_preference :: "string \<Rightarrow> string \<Rightarrow> db \<Rightarrow> CustomerMarketingPreferenceEvent option" where
  "latest_preference tenantId customerId d =
     (case rev (sort_key (\<lambda>e. (mp_capturedAt e, mp_id e))
         (filter (\<lambda>e. mp_tenantId e = tenantId \<and> mp_customerId e = customerId) (customerMarketingPreferenceEvents d))) of
        [] \<Rightarrow> None | e # _ \<Rightarrow> Some e)"

definition find_consent :: "string \<Rightarrow> string \<Rightarrow> db \<Rightarrow> CustomerConsent option" where
  "find_consent tenantId customerId d =
     find (\<lambda>c. cc_tenantId c = tenantId \<and> cc_customerId c = customerId) (customerConsents d)"

definition customer_json :: "Customer \<Rightarrow> (string \<times> json) list" where
  "customer_json c =
     [(''id'', JStr (cu_id c)), (''tenantId'', JStr (cu_tenantId c)), (''branchId'', JStr (cu_branchId c)),
      (''fullName'', JStr (cu_fullName c)), (''email'', json_opt_str (cu_email c)), (''phoneE164'', JStr (cu_phoneE164 c)),
      (''isStaff'', JBool (cu_isStaff c)), (''status'', JStr (customer_status_str (cu_status c))),
      (''registeredBy'', json_opt_str (cu_registeredBy c)), (''registeredByTenantId'', json_opt_str (cu_registeredByTenantId c)),
      (''blockedAt'', opt_json json_date (cu_blockedAt c)), (''createdAt'', json_date (cu_createdAt c)),
      (''updatedAt'', json_date (cu_updatedAt c))]"

subsection \<open>Marketing\<close>

fun preference_str :: "CustomerMarketingPreference \<Rightarrow> string" where
  "preference_str OPTED_IN = ''OPTED_IN''"
| "preference_str OPTED_OUT = ''OPTED_OUT''"

fun preference_source_str :: "CustomerMarketingPreferenceSource \<Rightarrow> string" where
  "preference_source_str IN_STORE = ''IN_STORE''"

definition effectiveMarketingPreference ::
  "CustomerConsent option \<Rightarrow> CustomerMarketingPreferenceEvent option \<Rightarrow> bool \<Rightarrow> json" where
  "effectiveMarketingPreference consent event unavailable =
     (if unavailable then JObj [(''status'', JStr ''UNAVAILABLE''), (''source'', JNull), (''updatedAt'', JNull)]
      else case event of
        Some e \<Rightarrow> JObj [(''status'', JStr (preference_str (mp_preference e))),
          (''source'', JStr (preference_source_str (mp_source e))), (''updatedAt'', json_date (mp_capturedAt e))]
      | None \<Rightarrow>
          JObj [(''status'', JStr (if map_option cc_marketingOptIn consent = Some True then ''OPTED_IN'' else ''NOT_OPTED_IN'')),
            (''source'', JStr (if consent \<noteq> None then ''REGISTRATION'' else ''NOT_RECORDED'')),
            (''updatedAt'', opt_json json_date (map_option cc_capturedAt consent))])"

text \<open>The two reads may fail (\<open>Promise.allSettled\<close>): \<open>None\<close> is a rejected one.\<close>

definition getCustomerMarketingPreference ::
  "string \<Rightarrow> string \<Rightarrow> AuthContext \<Rightarrow> (db \<Rightarrow> CustomerConsent option option) \<Rightarrow>
   (db \<Rightarrow> CustomerMarketingPreferenceEvent option option) \<Rightarrow> json dbtx" where
  "getCustomerMarketingPreference tenantId customerId actor consentResult preferenceEventResult =
     tx_bind (tx_check (\<lambda>d. res_unless (find_customer tenantId customerId d \<noteq> None) (NotFoundException ''Customer not found''))) (\<lambda>_.
     tx_bind (tx_read (\<lambda>d. (consentResult d, preferenceEventResult d))) (\<lambda>(consentResult, preferenceEventResult).
     let consent = (case consentResult of Some c \<Rightarrow> c | None \<Rightarrow> None);
         preferenceEvent = (case preferenceEventResult of Some e \<Rightarrow> e | None \<Rightarrow> None);
         preferenceUnavailable = (preferenceEventResult = None \<or> (preferenceEvent = None \<and> consentResult = None)) in
     tx_bind (recordWithClient tenantId (Some (actor_id actor)) ''customer.marketing_preference.read'' ''customer'' (Some customerId) JUndefined) (\<lambda>_.
     tx_return (effectiveMarketingPreference consent preferenceEvent preferenceUnavailable))))"

definition hashCustomerRequest :: "env \<Rightarrow> string \<Rightarrow> AuthContext \<Rightarrow> string \<Rightarrow> string \<Rightarrow> (string \<times> json) list \<Rightarrow> keyed" where
  "hashCustomerRequest env tenantId actor endpoint key parts =
     \<lparr> ky_tenantId = tenantId, ky_actorId = actor_id actor, ky_endpoint = endpoint, ky_key = key,
       ky_requestHash = sha256hex env (JSON_stringify (JObj
         ([(''tenantId'', JStr tenantId), (''actorId'', JStr (actor_id actor))] @ parts))) \<rparr>"

definition withdraw_checks ::
  "(nat \<Rightarrow> db \<Rightarrow> db) \<Rightarrow> string \<Rightarrow> string \<Rightarrow> string \<Rightarrow> db \<Rightarrow> (svc_error + unit) \<times> db" where
  "withdraw_checks others tenantId branchId customerId =
     read_then (others 0) (\<lambda>d. Inr (find (\<lambda>b. br_id b = branchId \<and> br_tenantId b = tenantId \<and> br_status b = BranchStatus.ACTIVE) (branches d))) (\<lambda>branch.
     read_then (others 1) (\<lambda>d.
       if branch = None then Inl (ForbiddenException ''An assigned active branch is required for this store request'')
       else res_unless (find_customer tenantId customerId d \<noteq> None) (NotFoundException ''Customer not found'')) (\<lambda>_.
     checked ()))"

definition opted_out :: "CustomerMarketingPreferenceEvent option \<Rightarrow> bool" where
  "opted_out latestEvent = (map_option mp_preference latestEvent = Some OPTED_OUT)"

definition withdraw_body ::
  "env \<Rightarrow> keyed \<Rightarrow> string \<Rightarrow> AuthContext \<Rightarrow> string \<Rightarrow> string \<Rightarrow> int \<Rightarrow> int \<Rightarrow> json dbtx" where
  "withdraw_body env ky tenantId actor branchId customerId capturedAt now =
     store_response ky
       (tx_bind (tx_read (latest_preference tenantId customerId)) (\<lambda>latestEvent.
        tx_bind (tx_read (\<lambda>d. if latestEvent \<noteq> None then None else find_consent tenantId customerId d)) (\<lambda>registrationConsent.
        let alreadyOptedOut = opted_out latestEvent in
        tx_bind (if alreadyOptedOut then tx_return None
          else tx_bind (preferenceEvent_create env (\<lambda>new_id.
              \<lparr> mp_id = new_id, mp_tenantId = tenantId, mp_customerId = customerId, mp_capturedBy = actor_id actor,
                mp_branchId = branchId, mp_preference = OPTED_OUT, mp_source = IN_STORE, mp_capturedAt = capturedAt \<rparr>)) (\<lambda>event.
            tx_bind (recordWithClient tenantId (Some (actor_id actor)) ''customer.marketing_preference.withdrawn'' ''customer'' (Some customerId)
              (JObj [(''branchId'', JStr branchId), (''preference'', JStr ''OPTED_OUT''), (''source'', JStr ''IN_STORE'')])) (\<lambda>_.
            tx_return (Some event)))) (\<lambda>event.
        tx_return (JObj [(''status'', JStr ''OPTED_OUT''), (''source'', JStr ''IN_STORE''),
          (''updatedAt'', json_date (case event of Some e \<Rightarrow> mp_capturedAt e
             | None \<Rightarrow> (case latestEvent of Some e \<Rightarrow> mp_capturedAt e
                 | None \<Rightarrow> (case registrationConsent of Some c \<Rightarrow> cc_capturedAt c | None \<Rightarrow> now)))),
          (''alreadyOptedOut'', JBool alreadyOptedOut)])))))"

definition withdrawCustomerMarketingPreference ::
  "env \<Rightarrow> (nat \<Rightarrow> db \<Rightarrow> db \<times> svc_error option) \<Rightarrow> (nat \<Rightarrow> db \<Rightarrow> db) \<Rightarrow> (nat \<Rightarrow> int) \<Rightarrow> string \<Rightarrow> AuthContext \<Rightarrow>
   string \<Rightarrow> bool \<Rightarrow> string option \<Rightarrow> db \<Rightarrow> (svc_error + json) \<times> db" where
  "withdrawCustomerMarketingPreference env sched others clk tenantId actor customerId confirmedInPersonRequest idempotencyKey d =
     (if actor_role actor \<noteq> UserRole.CASHIER \<and> actor_role actor \<noteq> UserRole.SUPERVISOR \<and> actor_role actor \<noteq> UserRole.ADMIN
      then (Inl (ForbiddenException ''Store staff access is required''), d)
      else if \<not> confirmedInPersonRequest
      then (Inl (BadRequestException ''In-person customer request confirmation is required''), d)
      else if \<not> truthy (actor_branchId actor)
      then (Inl (ForbiddenException ''An assigned active branch is required for this store request''), d)
      else case normalizeKeyHeader idempotencyKey of
        Inl e \<Rightarrow> (Inl e, d)
      | Inr key \<Rightarrow>
          let branchId = the (actor_branchId actor);
              ky = hashCustomerRequest env tenantId actor ''customers.marketingPreference.withdraw'' key
                [(''customerId'', JStr customerId), (''branchId'', JStr branchId), (''source'', JStr ''IN_STORE''),
                 (''confirmedInPersonRequest'', JBool confirmedInPersonRequest)] in
          keyed_call ky sched clk (withdraw_checks others tenantId branchId customerId)
            (\<lambda>_. withdraw_body env ky tenantId actor branchId customerId (clk 2) (clk 3)) d)"

subsection \<open>Registration\<close>

definition CUSTOMER_CONSENT_VERSION :: string where "CUSTOMER_CONSENT_VERSION = ''v1.2''"

definition CUSTOMER_PRIVACY_NOTICE_VERSION :: string where "CUSTOMER_PRIVACY_NOTICE_VERSION = ''v2.0''"

record CreateCustomerDto =
  nc_fullName :: string
  nc_phone :: string
  nc_cardSerialNumber :: string
  nc_email :: "string option"
  nc_isStaff :: "bool option"
  nc_branchId :: "string option"
  nc_loyaltyConsent :: bool
  nc_marketingOptIn :: bool
  nc_members :: "(string \<times> json) list"

text \<open>What the checks hand to the transaction.\<close>

record registration =
  rg_phoneE164 :: string
  rg_serial :: string
  rg_email :: "string option"
  rg_branchId :: string

definition normalized_email :: "string option \<Rightarrow> string option" where
  "normalized_email v = map_option (\<lambda>e. js_toLowerCase (js_trim e)) v"

definition registration_input :: "AuthContext \<Rightarrow> CreateCustomerDto \<Rightarrow> svc_error + registration" where
  "registration_input actor data =
     (let phoneE164 = normalizePhoneToE164 (nc_phone data) in
      res_bind (normalizeCardSerial (nc_cardSerialNumber data)) (\<lambda>serial.
      if \<not> js_startsWith phoneE164 ''+'' then Inl (BadRequestException ''Phone number is invalid'')
      else if serial = [] then Inl (BadRequestException ''Card serial number is required'')
      else
        let branchId = (case nc_branchId data of Some b \<Rightarrow> Some b | None \<Rightarrow> actor_branchId actor) in
        if \<not> truthy branchId then Inl (BadRequestException ''Branch is required for customer creation'')
        else Inr \<lparr> rg_phoneE164 = phoneE164, rg_serial = serial, rg_email = normalized_email (nc_email data),
                   rg_branchId = the branchId \<rparr>))"

definition conflictFields :: "registration \<Rightarrow> Customer list \<Rightarrow> bool \<Rightarrow> string list" where
  "conflictFields r existingCustomers existingCard =
     (if list_ex (\<lambda>c. cu_phoneE164 c = rg_phoneE164 r) existingCustomers then [''phone''] else [])
     @ (if truthy (rg_email r) \<and> list_ex (\<lambda>c. cu_email c = rg_email r) existingCustomers then [''email''] else [])
     @ (if existingCard then [''cardSerialNumber''] else [])"

definition registration_conflict :: "string list \<Rightarrow> svc_error" where
  "registration_conflict taken =
     ConflictException (JSON_stringify (JObj
       [(''code'', JStr ''CUSTOMER_REGISTRATION_CONFLICT''),
        (''message'', JStr (if ''phone'' \<in> set taken \<or> ''email'' \<in> set taken
           then ''Active customer already exists'' else ''Card serial number is already assigned'')),
        (''fields'', JArr (map JStr taken))]))"

definition createCustomer_checks ::
  "(nat \<Rightarrow> db \<Rightarrow> db) \<Rightarrow> string \<Rightarrow> AuthContext \<Rightarrow> CreateCustomerDto \<Rightarrow> db \<Rightarrow> (svc_error + registration) \<times> db" where
  "createCustomer_checks others tenantId actor data =
     read_then (\<lambda>d. d) (\<lambda>_. registration_input actor data) (\<lambda>r.
     read_then (others 0) (\<lambda>d. res_unless (list_ex (\<lambda>b. br_id b = rg_branchId r \<and> br_tenantId b = tenantId) (branches d))
         (BadRequestException ''Branch not found for tenant'')) (\<lambda>_.
     read_then (others 1) (\<lambda>d. Inr (filter (\<lambda>c. cu_tenantId c = tenantId \<and> (cu_phoneE164 c = rg_phoneE164 r
         \<or> truthy (rg_email r) \<and> cu_email c = rg_email r)) (customers d))) (\<lambda>existingCustomers.
     read_then (others 2) (\<lambda>d.
       let taken = conflictFields r existingCustomers
             (list_ex (\<lambda>x. cd_tenantId x = tenantId \<and> cd_barcodeValue x = rg_serial r) (cards d)) in
       res_unless (taken = []) (registration_conflict taken)) (\<lambda>_.
     checked r))))"

definition new_customer :: "string \<Rightarrow> AuthContext \<Rightarrow> CreateCustomerDto \<Rightarrow> registration \<Rightarrow> int \<Rightarrow> string \<Rightarrow> Customer" where
  "new_customer tenantId actor data r now new_id =
     \<lparr> cu_id = new_id, cu_tenantId = tenantId, cu_branchId = rg_branchId r, cu_fullName = nc_fullName data,
       cu_email = rg_email r, cu_phoneE164 = rg_phoneE164 r,
       cu_isStaff = (case nc_isStaff data of Some b \<Rightarrow> b | None \<Rightarrow> False), cu_status = CustomerStatus.ACTIVE,
       cu_registeredBy = Some (actor_id actor), cu_registeredByTenantId = Some (actor_tenantId actor),
       cu_blockedAt = None, cu_createdAt = now, cu_updatedAt = now \<rparr>"

definition register_rows ::
  "env \<Rightarrow> string \<Rightarrow> AuthContext \<Rightarrow> CreateCustomerDto \<Rightarrow> int \<Rightarrow> registration \<Rightarrow> (Customer \<times> Card) dbtx" where
  "register_rows env tenantId actor data now r =
     tx_bind (customer_create env (new_customer tenantId actor data r now)) (\<lambda>customer.
     tx_bind (customerConsent_create env (\<lambda>new_id.
       \<lparr> cc_id = new_id, cc_tenantId = tenantId, cc_customerId = cu_id customer, cc_capturedBy = actor_id actor,
         cc_loyaltyConsent = True, cc_marketingOptIn = nc_marketingOptIn data, cc_consentVersion = CUSTOMER_CONSENT_VERSION,
         cc_privacyNoticeVersion = CUSTOMER_PRIVACY_NOTICE_VERSION, cc_capturedAt = now \<rparr>)) (\<lambda>_.
     tx_bind (card_create env (new_card tenantId actor (cu_id customer) (rg_serial r) now)) (\<lambda>card.
     tx_return (customer, card))))"

definition createCustomer_body ::
  "env \<Rightarrow> keyed \<Rightarrow> string \<Rightarrow> AuthContext \<Rightarrow> CreateCustomerDto \<Rightarrow> int \<Rightarrow> registration \<Rightarrow> json dbtx" where
  "createCustomer_body env ky tenantId actor data now r =
     store_response ky
       (tx_bind (register_rows env tenantId actor data now r) (\<lambda>(customer, card).
        tx_bind (recordWithClient tenantId (Some (actor_id actor)) ''customer.create'' ''customer'' (Some (cu_id customer))
          (JObj [(''customer'', JObj (customer_json customer)), (''initialCardId'', JStr (cd_id card))])) (\<lambda>_.
        tx_bind (recordWithClient tenantId (Some (actor_id actor)) ''card.create'' ''card'' (Some (cd_id card))
          (JObj [(''id'', JStr (cd_id card)), (''barcodeValue'', JStr (cd_barcodeValue card)),
             (''status'', JStr (card_status_str (cd_status card)))])) (\<lambda>_.
        tx_return (JObj (customer_json customer @
          [(''card'', JObj [(''id'', JStr (cd_id card)), (''serialNumber'', JStr (cd_barcodeValue card)),
             (''status'', JStr (card_status_str (cd_status card)))])]))))))"

definition createCustomer ::
  "env \<Rightarrow> (nat \<Rightarrow> db \<Rightarrow> db \<times> svc_error option) \<Rightarrow> (nat \<Rightarrow> db \<Rightarrow> db) \<Rightarrow> (nat \<Rightarrow> int) \<Rightarrow> string \<Rightarrow> AuthContext \<Rightarrow>
   CreateCustomerDto \<Rightarrow> string option \<Rightarrow> db \<Rightarrow> (svc_error + json) \<times> db" where
  "createCustomer env sched others clk tenantId actor data idempotencyKey d =
     (if \<not> nc_loyaltyConsent data then (Inl (BadRequestException ''Loyalty-service consent is required''), d)
      else case normalizeKeyHeader idempotencyKey of
        Inl e \<Rightarrow> (Inl e, d)
      | Inr key \<Rightarrow>
          let ky = hashCustomerRequest env tenantId actor ''customers.create'' key (nc_members data) in
          keyed_call ky sched clk (createCustomer_checks others tenantId actor data)
            (createCustomer_body env ky tenantId actor data (clk 2)) d)"

subsection \<open>Changes\<close>

record UpdateCustomerDto =
  uc_fullName :: "string option"
  uc_phone :: "string option"
  uc_email :: "string option"
  uc_isStaff :: "bool option"
  uc_members :: "(string \<times> json) list"

definition update_phone :: "UpdateCustomerDto \<Rightarrow> Customer \<Rightarrow> string" where
  "update_phone data customer = (if truthy (uc_phone data) then normalizePhoneToE164 (the (uc_phone data)) else cu_phoneE164 customer)"

definition updateCustomer_checks ::
  "(nat \<Rightarrow> db \<Rightarrow> db) \<Rightarrow> string \<Rightarrow> string \<Rightarrow> UpdateCustomerDto \<Rightarrow> db \<Rightarrow> (svc_error + Customer) \<times> db" where
  "updateCustomer_checks others tenantId customerId data =
     read_then (others 0) (\<lambda>d. case find_customer tenantId customerId d of
         None \<Rightarrow> Inl (NotFoundException ''Customer not found'') | Some c \<Rightarrow> Inr c) (\<lambda>customer.
     let phoneE164 = update_phone data customer; email = normalized_email (uc_email data) in
     read_then (others 1) (\<lambda>d. res_unless
         (\<not> ((truthy (uc_phone data) \<or> truthy (uc_email data))
            \<and> list_ex (\<lambda>c. cu_tenantId c = tenantId \<and> cu_id c \<noteq> customerId
                \<and> (truthy (uc_phone data) \<and> cu_phoneE164 c = phoneE164 \<or> truthy email \<and> cu_email c = email)) (customers d)))
         (ConflictException ''Active customer already exists'')) (\<lambda>_.
     read_then (others 2) (\<lambda>d. res_unless
         ((truthy (uc_phone data) \<or> truthy (uc_fullName data)) \<longrightarrow>
            list_ex (\<lambda>b. br_id b = cu_branchId customer \<and> br_tenantId b = tenantId) (branches d))
         (BadRequestException ''Branch not found for tenant'')) (\<lambda>_.
     checked customer)))"

definition updateCustomer_body ::
  "keyed \<Rightarrow> string \<Rightarrow> AuthContext \<Rightarrow> string \<Rightarrow> UpdateCustomerDto \<Rightarrow> int \<Rightarrow> Customer \<Rightarrow> json dbtx" where
  "updateCustomer_body ky tenantId actor customerId data now customer =
     store_response ky
       (tx_bind (customer_update customerId (\<lambda>c. c
          \<lparr>cu_fullName := (if truthy (uc_fullName data) then the (uc_fullName data) else cu_fullName c),
           cu_phoneE164 := (if truthy (uc_phone data) then update_phone data customer else cu_phoneE164 c),
           cu_email := (if truthy (uc_email data) then normalized_email (uc_email data) else cu_email c),
           cu_isStaff := (case uc_isStaff data of Some b \<Rightarrow> b | None \<Rightarrow> cu_isStaff c), cu_updatedAt := now\<rparr>)) (\<lambda>changed.
        tx_bind (recordWithClient tenantId (Some (actor_id actor)) ''customer.update'' ''customer'' (Some (cu_id changed))
          (JObj (uc_members data))) (\<lambda>_.
        tx_return (JObj (customer_json changed)))))"

definition updateCustomer ::
  "env \<Rightarrow> (nat \<Rightarrow> db \<Rightarrow> db \<times> svc_error option) \<Rightarrow> (nat \<Rightarrow> db \<Rightarrow> db) \<Rightarrow> (nat \<Rightarrow> int) \<Rightarrow> string \<Rightarrow> AuthContext \<Rightarrow>
   string \<Rightarrow> UpdateCustomerDto \<Rightarrow> string option \<Rightarrow> db \<Rightarrow> (svc_error + json) \<times> db" where
  "updateCustomer env sched others clk tenantId actor customerId data idempotencyKey d =
     (case normalizeKeyHeader idempotencyKey of
        Inl e \<Rightarrow> (Inl e, d)
      | Inr key \<Rightarrow>
          let ky = hashCustomerRequest env tenantId actor ''customers.update'' key ((''customerId'', JStr customerId) # uc_members data) in
          keyed_call ky sched clk (updateCustomer_checks others tenantId customerId data)
            (updateCustomer_body ky tenantId actor customerId data (clk 2)) d)"

definition customer_settable :: "string \<Rightarrow> CustomerStatus option" where
  "customer_settable s =
     (if s = ''ACTIVE'' then Some CustomerStatus.ACTIVE else if s = ''BLOCKED'' then Some CustomerStatus.BLOCKED else None)"

definition updateCustomerStatus_checks ::
  "(nat \<Rightarrow> db \<Rightarrow> db) \<Rightarrow> string \<Rightarrow> string \<Rightarrow> string \<Rightarrow> db \<Rightarrow> (svc_error + CustomerStatus) \<times> db" where
  "updateCustomerStatus_checks others tenantId customerId status =
     read_then (\<lambda>d. d) (\<lambda>_. case customer_settable status of
         None \<Rightarrow> Inl (BadRequestException ''Invalid customer status'') | Some st \<Rightarrow> Inr st) (\<lambda>st.
     read_then (others 0) (\<lambda>d. res_unless (find_customer tenantId customerId d \<noteq> None) (NotFoundException ''Customer not found'')) (\<lambda>_.
     checked st))"

definition updateCustomerStatus_body ::
  "keyed \<Rightarrow> string \<Rightarrow> AuthContext \<Rightarrow> string \<Rightarrow> string \<Rightarrow> int \<Rightarrow> CustomerStatus \<Rightarrow> json dbtx" where
  "updateCustomerStatus_body ky tenantId actor customerId status now st =
     store_response ky
       (tx_bind (customer_update customerId (\<lambda>c. c\<lparr>cu_status := st,
          cu_blockedAt := (if st = CustomerStatus.BLOCKED then Some now else None), cu_updatedAt := now\<rparr>)) (\<lambda>changed.
        tx_bind (recordWithClient tenantId (Some (actor_id actor)) ''customer.status'' ''customer'' (Some (cu_id changed))
          (JObj [(''status'', JStr status)])) (\<lambda>_.
        tx_return (JObj (customer_json changed)))))"

definition updateCustomerStatus ::
  "env \<Rightarrow> (nat \<Rightarrow> db \<Rightarrow> db \<times> svc_error option) \<Rightarrow> (nat \<Rightarrow> db \<Rightarrow> db) \<Rightarrow> (nat \<Rightarrow> int) \<Rightarrow> string \<Rightarrow> AuthContext \<Rightarrow>
   string \<Rightarrow> string \<Rightarrow> string option \<Rightarrow> db \<Rightarrow> (svc_error + json) \<times> db" where
  "updateCustomerStatus env sched others clk tenantId actor customerId status idempotencyKey d =
     (case normalizeKeyHeader idempotencyKey of
        Inl e \<Rightarrow> (Inl e, d)
      | Inr key \<Rightarrow>
          let ky = hashCustomerRequest env tenantId actor ''customers.status'' key
                [(''customerId'', JStr customerId), (''status'', JStr status)] in
          keyed_call ky sched clk (updateCustomerStatus_checks others tenantId customerId status)
            (updateCustomerStatus_body ky tenantId actor customerId status (clk 2)) d)"

subsection \<open>Reads\<close>

definition isPrivilegedCustomerRead :: "AuthContext \<Rightarrow> bool" where
  "isPrivilegedCustomerRead actor = (actor_role actor = UserRole.SUPERVISOR \<or> actor_role actor = UserRole.ADMIN)"

text \<open>\<open>customerReadInclude\<close>: the card issued last.\<close>

definition latest_card :: "Customer \<Rightarrow> db \<Rightarrow> Card option" where
  "latest_card c d =
     (case rev (sort_key cd_issuedAt (filter (\<lambda>x. cd_tenantId x = cu_tenantId c \<and> cd_customerId x = cu_id c) (cards d))) of
        [] \<Rightarrow> None | x # _ \<Rightarrow> Some x)"

definition card_number :: "Customer \<Rightarrow> db \<Rightarrow> json" where
  "card_number c d = json_opt_str (map_option cd_barcodeValue (latest_card c d))"

definition card_state :: "Customer \<Rightarrow> db \<Rightarrow> json" where
  "card_state c d = JStr (case latest_card c d of Some x \<Rightarrow> card_status_str (cd_status x) | None \<Rightarrow> ''BLOCKED'')"

definition toCashierCustomerSummary :: "Customer \<Rightarrow> int \<Rightarrow> db \<Rightarrow> json" where
  "toCashierCustomerSummary c activeBalanceKobo d =
     JObj [(''customerId'', JStr (cu_id c)), (''fullName'', JStr (cu_fullName c)),
       (''maskedPhone'', JStr (maskPhone (cu_phoneE164 c))), (''email'', json_opt_str (maskEmail (cu_email c))),
       (''birthdayMonth'', JNull), (''cardNumber'', card_number c d), (''cardStatus'', card_state c d),
       (''availableBalanceKobo'', JNum (js_Number activeBalanceKobo))]"

definition privileged_members :: "Customer \<Rightarrow> int \<Rightarrow> db \<Rightarrow> (string \<times> json) list" where
  "privileged_members c activeBalanceKobo d =
     [(''id'', JStr (cu_id c)), (''tenantId'', JStr (cu_tenantId c)), (''branchId'', JStr (cu_branchId c)),
      (''fullName'', JStr (cu_fullName c)), (''phoneE164'', JStr (cu_phoneE164 c)), (''email'', json_opt_str (cu_email c)),
      (''isStaff'', JBool (cu_isStaff c)), (''status'', JStr (customer_status_str (cu_status c))),
      (''activeCardStatus'', card_state c d), (''cardNumber'', card_number c d), (''activeCardSerialNumber'', card_number c d),
      (''availableBalanceKobo'', JNum (js_Number activeBalanceKobo)), (''registeredBy'', json_opt_str (cu_registeredBy c)),
      (''registeredByTenantId'', json_opt_str (cu_registeredByTenantId c)), (''blockedAt'', opt_json json_date (cu_blockedAt c)),
      (''createdAt'', json_date (cu_createdAt c)), (''updatedAt'', json_date (cu_updatedAt c))]"

definition toPrivilegedCustomerSummary :: "Customer \<Rightarrow> int \<Rightarrow> db \<Rightarrow> json" where
  "toPrivilegedCustomerSummary c activeBalanceKobo d = JObj (privileged_members c activeBalanceKobo d)"

definition customer_record_json :: "Customer \<Rightarrow> db \<Rightarrow> json" where
  "customer_record_json c d =
     JObj (customer_json c @ [(''cards'', JArr (case latest_card c d of None \<Rightarrow> []
       | Some x \<Rightarrow> [JObj [(''status'', JStr (card_status_str (cd_status x))), (''barcodeValue'', JStr (cd_barcodeValue x))]]))])"

definition getCustomer :: "string \<Rightarrow> string \<Rightarrow> AuthContext option \<Rightarrow> int \<Rightarrow> json dbtx" where
  "getCustomer tenantId customerId actor now =
     tx_bind (tx_check (\<lambda>d. case find_customer tenantId customerId d of
         None \<Rightarrow> Inl (NotFoundException ''Customer not found'')
       | Some c \<Rightarrow> Inr (c, getActiveBalanceKobo tenantId (cu_id c) now d, d))) (\<lambda>(customer, activeBalanceKobo, d).
     if (case actor of Some a \<Rightarrow> isPrivilegedCustomerRead a | None \<Rightarrow> False)
     then tx_bind (recordWithClient tenantId (map_option actor_id actor) ''customer.pii.read'' ''customer'' (Some (cu_id customer)) JUndefined) (\<lambda>_.
       tx_return (toPrivilegedCustomerSummary customer activeBalanceKobo d))
     else if map_option actor_role actor = Some UserRole.CASHIER
     then tx_return (toCashierCustomerSummary customer activeBalanceKobo d)
     else tx_return (customer_record_json customer d))"

subsection \<open>Phone numbers\<close>

lemma is_prefix_append [simp]: "is_prefix p (p @ s)"
  by (induction p) auto

lemma digits_of_digits [simp]: "digits_of (digits_of v) = digits_of v"
  by (simp add: digits_of_def)

lemma digits_of_append [simp]: "digits_of (u @ v) = digits_of u @ digits_of v"
  by (simp add: digits_of_def)

lemma digits_of_drop: "list_all is_digit v \<Longrightarrow> digits_of (drop n v) = drop n v"
  by (auto simp: digits_of_def list_all_iff filter_id_conv dest: in_set_dropD)

lemma digits_all [simp]: "list_all is_digit (digits_of v)"
  by (auto simp: digits_of_def list_all_iff)

lemma plus_digits:
  "digits_of (CHR ''+'' # v) = digits_of v" "digits_of ''+234'' = ''234''"
  by (simp_all add: digits_of_def is_digit_def)

text \<open>What has a digit is turned into a plus sign and digits; anything else is passed through.\<close>

lemma normalizePhone_digits:
  assumes "digits_of v \<noteq> []"
  shows "\<exists>ds. normalizePhoneToE164 v = CHR ''+'' # ds \<and> list_all is_digit ds \<and> ds \<noteq> []"
proof -
  have "list_all is_digit (''234'' @ ds)" if "list_all is_digit ds" for ds
    using that by (simp add: is_digit_def)
  moreover have "list_all is_digit (drop 1 (digits_of v))"
    by (metis digits_all digits_of_drop)
  ultimately show ?thesis
    using assms by (simp add: normalizePhoneToE164_def Let_def)
qed

lemma normalizePhone_plain: "digits_of v = [] \<Longrightarrow> normalizePhoneToE164 v = v"
  by (simp add: normalizePhoneToE164_def)

lemma is_space_plus: "\<not> is_space (CHR ''+'')"
  by (simp add: is_space_def)

lemma trim_plus: "js_startsWith (js_trim (CHR ''+'' # v)) ''+''"
proof -
  have "dropWhile is_space (rev v @ [CHR ''+'']) = dropWhile is_space (rev v) @ [CHR ''+''] \<or>
      dropWhile is_space (rev v @ [CHR ''+'']) = [CHR ''+'']"
    using is_space_plus by (cases "list_all is_space (rev v)") (auto simp: dropWhile_append list_all_iff)
  then show ?thesis using is_space_plus by (auto simp: js_trim_def js_startsWith_def)
qed

lemma normalizePhone_plus: "list_all is_digit ds \<Longrightarrow> ds \<noteq> [] \<Longrightarrow> normalizePhoneToE164 (CHR ''+'' # ds) = CHR ''+'' # ds"
  using trim_plus[of ds] by (simp add: normalizePhoneToE164_def Let_def plus_digits digits_of_def list_all_iff filter_id_conv) (simp add: is_digit_def)

lemma normalizePhone_idem: "normalizePhoneToE164 (normalizePhoneToE164 v) = normalizePhoneToE164 v"
  by (cases "digits_of v = []") (metis normalizePhone_plain, metis normalizePhone_digits normalizePhone_plus)

subsection \<open>The life of the customers\<close>

definition customer_moves :: "Customer \<Rightarrow> Customer \<Rightarrow> bool" where
  "customer_moves x y = (cu_id y = cu_id x \<and> cu_tenantId y = cu_tenantId x \<and> cu_branchId y = cu_branchId x
     \<and> cu_registeredBy y = cu_registeredBy x \<and> cu_registeredByTenantId y = cu_registeredByTenantId x \<and> cu_createdAt y = cu_createdAt x)"

definition same_person :: "Customer \<Rightarrow> Customer \<Rightarrow> bool" where
  "same_person x y = (cu_id x = cu_id y \<or> cu_tenantId x = cu_tenantId y
     \<and> (cu_phoneE164 x = cu_phoneE164 y \<or> same_key (cu_email x) (cu_email y)))"

definition customers_ok :: "db \<Rightarrow> bool" where
  "customers_ok d = sorted_wrt (\<lambda>x y. \<not> same_person x y) (customers d)"

abbreviation customers_follow :: "db \<Rightarrow> db \<Rightarrow> bool" where
  "customers_follow \<equiv> table_follows customers customer_moves customers_ok"

interpretation customers_life: table_life customers customer_moves customers_ok
  by unfold_locales (auto simp: customer_moves_def customers_ok_def)

lemma customer_constraints_None:
  "first_violation (customer_constraints d row) = None \<longleftrightarrow> (\<forall>x\<in>set (customers d). \<not> same_person x row)"
  by (auto simp: first_violation_None customer_constraints_def list_ex_iff same_person_def)

lemma customer_create_follows: "tx_rel customers_follow (customer_create env mk)"
proof (rule tx_relI)
  fix d x d'
  assume "customer_create env mk d = Inr (x, d')"
  then have x: "customers d' = customers d @ [x]" and "\<forall>y\<in>set (customers d). \<not> same_person y x"
    by (auto simp: customer_create_def create_row_eq_Inr customer_constraints_None)
  then show "customers_follow d d'"
    by (intro customers_life.follow_append[OF x]) (auto simp: customers_ok_def sorted_wrt_append)
qed

lemma same_person_sym: "same_person x y \<longleftrightarrow> same_person y x"
  unfolding same_person_def same_key_def by metis

lemma customer_update_eq_Inr:
  "customer_update i g d = Inr (x, d') \<longleftrightarrow>
     (\<exists>c. find (\<lambda>c. cu_id c = i) (customers d) = Some c \<and> x = g c
      \<and> (\<forall>y\<in>set (customers d). cu_id y \<noteq> i \<longrightarrow> \<not> same_person y (g c))
      \<and> d' = d\<lparr>customers := updated (\<lambda>y. cu_id y = i) g (customers d)\<rparr>)"
proof (cases "find (\<lambda>c. cu_id c = i) (customers d)")
  case (Some c)
  have "first_violation (customer_constraints (d\<lparr>customers := filter (\<lambda>x. cu_id x \<noteq> i) (customers d)\<rparr>) (g c)) = None \<longleftrightarrow>
      (\<forall>y\<in>set (customers d). cu_id y \<noteq> i \<longrightarrow> \<not> same_person y (g c))"
    by (auto simp: customer_constraints_None)
  with Some show ?thesis by (auto simp: customer_update_def split: option.split)
qed (simp add: customer_update_def)

lemma sorted_wrt_updated:
  assumes "sorted_wrt P xs" and "\<And>x y. P x y \<Longrightarrow> P y x"
    and "\<And>x y. x \<in> set xs \<Longrightarrow> y \<in> set xs \<Longrightarrow> \<not> p x \<Longrightarrow> p y \<Longrightarrow> P x (f y)" and "\<And>x y. p x \<Longrightarrow> p y \<Longrightarrow> \<not> P x y"
  shows "sorted_wrt P (updated p f xs)"
  using assms(1,3)
proof (induction xs)
  case (Cons x xs)
  then have "sorted_wrt P (updated p f xs)" by simp
  with Cons.prems show ?case by (auto simp: updated_def dest: assms(4) intro: assms(2))
qed (simp add: updated_def)

lemma customers_unique: "customers_ok d \<Longrightarrow> x \<in> set (customers d) \<Longrightarrow> y \<in> set (customers d) \<Longrightarrow> same_person x y \<Longrightarrow> x = y"
  unfolding customers_ok_def sorted_wrt_iff_nth_less in_set_conv_nth using same_person_sym by (metis linorder_neqE_nat)

lemma customer_update_follows:
  assumes "\<And>c. customer_moves c (g c)"
  shows "tx_rel customers_follow (customer_update i g)"
proof (rule tx_relI)
  fix d x d'
  assume "customer_update i g d = Inr (x, d')"
  then obtain c where "find (\<lambda>c. cu_id c = i) (customers d) = Some c"
    and d': "customers d' = updated (\<lambda>y. cu_id y = i) g (customers d)"
    and free: "\<forall>y\<in>set (customers d). cu_id y \<noteq> i \<longrightarrow> \<not> same_person y (g c)"
    by (auto simp: customer_update_eq_Inr)
  then have c: "c \<in> set (customers d)" "cu_id c = i" by (auto simp: find_Some_iff)
  have "customers_ok d'" if ok: "customers_ok d"
  proof -
    have "y = c" if "y \<in> set (customers d)" "cu_id y = i" for y
      using customers_unique[OF ok] that c by (simp add: same_person_def)
    then show ?thesis
      using ok free same_person_sym unfolding customers_ok_def d'
      by (intro sorted_wrt_updated) (auto simp: same_person_def)
  qed
  then show "customers_follow d d'" by (intro customers_life.follow_updated[OF d']) (use assms in auto)
qed

lemma customer_writes_frame [frame_intros]:
  "(\<And>d v w. f (d\<lparr>idCounter := w, customers := v\<rparr>) = f d) \<Longrightarrow> tx_frame f (customer_create env mk)"
  "(\<And>d v. f (d\<lparr>customers := v\<rparr>) = f d) \<Longrightarrow> tx_frame f (customer_update i g)"
  "(\<And>d v w. f (d\<lparr>idCounter := w, customerConsents := v\<rparr>) = f d) \<Longrightarrow> tx_frame f (customerConsent_create env mkc)"
  "(\<And>d v w. f (d\<lparr>idCounter := w, customerMarketingPreferenceEvents := v\<rparr>) = f d) \<Longrightarrow> tx_frame f (preferenceEvent_create env mke)"
  unfolding customer_create_def customerConsent_create_def preferenceEvent_create_def
  by (auto intro!: create_row_frame) (auto simp: tx_frame_def customer_update_eq_Inr)

subsection \<open>The bodies\<close>

lemma customers_frames:
  "tx_frame customers (complete_key ky resp)" "tx_frame customers (recordWithClient t a ac et e m)"
  "tx_frame customers (customerConsent_create env mkc)" "tx_frame customers (card_create env mk)"
  "tx_frame customers (preferenceEvent_create env mke)"
  by (intro frame_intros; simp)+

lemma cards_frames2:
  "tx_frame cards (customerConsent_create env mkc)" "tx_frame cards (customer_create env mk)"
  "tx_frame cards (customer_update i g)" "tx_frame cards (preferenceEvent_create env mke)"
  by (intro frame_intros; simp)+

lemmas customers_leaves = customers_frames[THEN customers_life.follow_frame] customer_create_follows customer_update_follows
lemmas cards_leaves2 = cards_leaves cards_frames2[THEN cards_life.follow_frame]

lemma createCustomer_body_follows:
  "tx_rel customers_follow (createCustomer_body env ky t a data now r)"
  "tx_rel cards_follow (createCustomer_body env ky t a data now r)"
  unfolding createCustomer_body_def register_rows_def store_response_def
  by (intro customers_life.rel_intros customers_leaves) (intro cards_life.rel_intros cards_leaves2)

lemma updateCustomer_body_follows:
  "tx_rel customers_follow (updateCustomer_body ky t a i data now c)"
  "tx_rel cards_follow (updateCustomer_body ky t a i data now c)"
  unfolding updateCustomer_body_def store_response_def
  by (intro customers_life.rel_intros customers_leaves; simp add: customer_moves_def) (intro cards_life.rel_intros cards_leaves2)

lemma updateCustomerStatus_body_follows:
  "tx_rel customers_follow (updateCustomerStatus_body ky t a i status now st)"
  "tx_rel cards_follow (updateCustomerStatus_body ky t a i status now st)"
  unfolding updateCustomerStatus_body_def store_response_def
  by (intro customers_life.rel_intros customers_leaves; simp add: customer_moves_def) (intro cards_life.rel_intros cards_leaves2)

lemma withdraw_body_follows:
  "tx_rel customers_follow (withdraw_body env ky t a b c at now)"
  "tx_rel cards_follow (withdraw_body env ky t a b c at now)"
  unfolding withdraw_body_def store_response_def Let_def
  by (intro customers_life.rel_intros customers_leaves) (intro cards_life.rel_intros cards_leaves2)

lemma customer_bodies_money:
  "tx_frame financial (createCustomer_body env ky t a data now r)"
  "tx_frame financial (updateCustomer_body ky t a i udata now c)"
  "tx_frame financial (updateCustomerStatus_body ky t a i status now st)"
  "tx_frame financial (withdraw_body env ky t a b i at now)"
  unfolding createCustomer_body_def register_rows_def updateCustomer_body_def updateCustomerStatus_body_def withdraw_body_def Let_def
  by (intro frame_intros; simp add: financial_def)+

lemma customer_bodies_store:
  "stores_response ky (createCustomer_body env ky t a data now r)"
  "stores_response ky (updateCustomer_body ky t a i udata now c)"
  "stores_response ky (updateCustomerStatus_body ky t a i status now st)"
  "stores_response ky (withdraw_body env ky t a b i at now)"
  unfolding createCustomer_body_def register_rows_def updateCustomer_body_def updateCustomerStatus_body_def withdraw_body_def Let_def
  by (intro store_response_stores frame_intros; simp)+


subsection \<open>The calls\<close>

context keyed_order
begin

lemma createCustomer_rel:
  assumes "\<And>k d. R d (fst (sched k d))" and "\<And>k d. R d (others k d)"
    and "\<And>ky now r. tx_rel R (createCustomer_body env ky tenantId actor data now r)"
  shows "R d (snd (createCustomer env sched others clk tenantId actor data key d))"
  unfolding createCustomer_def createCustomer_checks_def Let_def
  by (auto split: sum.split intro!: R_refl assms checks_read checks_checked keyed_call_rel[where Q = "\<lambda>_. True"])

lemma updateCustomer_rel:
  assumes "\<And>k d. R d (fst (sched k d))" and "\<And>k d. R d (others k d)"
    and "\<And>ky now c. tx_rel R (updateCustomer_body ky tenantId actor customerId data now c)"
  shows "R d (snd (updateCustomer env sched others clk tenantId actor customerId data key d))"
  unfolding updateCustomer_def updateCustomer_checks_def Let_def
  by (auto split: sum.split intro!: R_refl assms checks_read checks_checked keyed_call_rel[where Q = "\<lambda>_. True"])

lemma updateCustomerStatus_rel:
  assumes "\<And>k d. R d (fst (sched k d))" and "\<And>k d. R d (others k d)"
    and "\<And>ky now st. tx_rel R (updateCustomerStatus_body ky tenantId actor customerId status now st)"
  shows "R d (snd (updateCustomerStatus env sched others clk tenantId actor customerId status key d))"
  unfolding updateCustomerStatus_def updateCustomerStatus_checks_def Let_def
  by (auto split: sum.split intro!: R_refl assms checks_read checks_checked keyed_call_rel[where Q = "\<lambda>_. True"])

lemma withdraw_rel:
  assumes "\<And>k d. R d (fst (sched k d))" and "\<And>k d. R d (others k d)"
    and "\<And>ky b at now. tx_rel R (withdraw_body env ky tenantId actor b customerId at now)"
  shows "R d (snd (withdrawCustomerMarketingPreference env sched others clk tenantId actor customerId confirmed key d))"
  unfolding withdrawCustomerMarketingPreference_def withdraw_checks_def Let_def
  by (auto split: sum.split intro!: R_refl assms checks_read checks_checked keyed_call_rel[where Q = "\<lambda>_. True"])

end

end
