(* ===== verification/Customer_Calls.thy ===== *)
theory Customer_Calls
  imports Customers Keyed_Runs
begin

text \<open>
  What the calls of \<^verbatim>\<open>src/modules/customers/customers.service.ts\<close> leave behind: a registration, a withdrawn consent,
  an audited read; which phone numbers they store; and that they answer a repeated request from its record.
\<close>

subsection \<open>A registration\<close>

lemma register_rows_effect:
  assumes "register_rows env t a data now r d = Inr ((customer, cd), d')"
  shows "customers d' = customers d @ [customer] \<and> cards d' = cards d @ [cd]
    \<and> (\<exists>consent. customerConsents d' = customerConsents d @ [consent] \<and> cc_customerId consent = cu_id customer
        \<and> cc_tenantId consent = t \<and> cc_loyaltyConsent consent \<and> cc_marketingOptIn consent = nc_marketingOptIn data)
    \<and> (\<exists>i. customer = new_customer t a data r now i) \<and> (\<exists>j. cd = new_card t a (cu_id customer) (rg_serial r) now j)
    \<and> (\<forall>x\<in>set (customers d). \<not> same_person x customer)"
  using assms
  by (auto simp: register_rows_def tx_bind_eq_Inr customer_create_def customerConsent_create_def card_create_def
      create_row_eq_Inr customer_constraints_None)

lemma createCustomer_body_rows:
  assumes "createCustomer_body env ky t a data now r d = Inr (resp, d')"
  obtains customer cd d1 where "register_rows env t a data now r d = Inr ((customer, cd), d1)"
    and "customers d' = customers d1" and "cards d' = cards d1" and "customerConsents d' = customerConsents d1"
    and "length (auditLogs d') = length (auditLogs d1) + 2"
proof -
  from assms obtain customer cd d1 d2 d3 where r: "register_rows env t a data now r d = Inr ((customer, cd), d1)"
    and a1: "\<exists>ac et e m. recordWithClient t (Some (actor_id a)) ac et e m d1 = Inr ((), d2)"
    and a2: "\<exists>ac et e m. recordWithClient t (Some (actor_id a)) ac et e m d2 = Inr ((), d3)"
    and k: "complete_key ky resp d3 = Inr ((), d')"
    by (fastforce simp: createCustomer_body_def store_response_def tx_bind_eq_Inr)
  have audit: "customers y = customers x \<and> cards y = cards x \<and> customerConsents y = customerConsents x
      \<and> length (auditLogs y) = length (auditLogs x) + 1"
    if "\<exists>ac et e m. recordWithClient t (Some (actor_id a)) ac et e m x = Inr ((), y)" for x y
    using that by (auto simp: recordWithClient_def auditLog_create_def)
  have "customers d' = customers d3 \<and> cards d' = cards d3 \<and> customerConsents d' = customerConsents d3 \<and> auditLogs d' = auditLogs d3"
    using k by (auto simp: complete_key_def require_updated_eq_Inr idempotencyRecord_updateMany_def)
  with audit[OF a1] audit[OF a2] r show ?thesis by (intro that) auto
qed

text \<open>
  The phone number a registration stores went through the check for a plus sign.
\<close>

lemma checks_registration:
  assumes "createCustomer_checks others t a data d = (Inr r, d')"
  shows "registration_input a data = Inr r"
  using assms by (auto simp: createCustomer_checks_def read_then_def checked_def Let_def split: sum.split_asm)

text \<open>
  C36: A registration that commits after its checks adds one customer, active, with the phone number in
  the stored form and the name given, whose id, phone and email nobody had, the consent that was given, and one
  active card with the serial number in capitals; it writes two audit rows and changes no other customer or card.
\<close>

theorem createCustomer_registers:
  assumes "createCustomer_checks others t a data d0 = (Inr r, d1)"
    and "createCustomer_body env ky t a data now r d = Inr (resp, d')"
  shows "\<exists>customer cd consent. customers d' = customers d @ [customer] \<and> cards d' = cards d @ [cd]
    \<and> customerConsents d' = customerConsents d @ [consent]
    \<and> cu_status customer = CustomerStatus.ACTIVE \<and> cu_fullName customer = nc_fullName data
    \<and> cu_phoneE164 customer = normalizePhoneToE164 (nc_phone data) \<and> js_startsWith (cu_phoneE164 customer) ''+''
    \<and> (\<forall>x\<in>set (customers d). \<not> same_person x customer)
    \<and> cd_customerId cd = cu_id customer \<and> cd_status cd = CardStatus.ACTIVE
    \<and> normalizeCardSerial (nc_cardSerialNumber data) = Inr (cd_barcodeValue cd)
    \<and> cc_customerId consent = cu_id customer \<and> cc_loyaltyConsent consent \<and> cc_marketingOptIn consent = nc_marketingOptIn data
    \<and> length (auditLogs d') = length (auditLogs d) + 2"
proof -
  from assms(2) obtain customer cd d2 where rr: "register_rows env t a data now r d = Inr ((customer, cd), d2)"
    and s: "customers d' = customers d2" "cards d' = cards d2" "customerConsents d' = customerConsents d2"
    and l: "length (auditLogs d') = length (auditLogs d2) + 2"
    by (rule createCustomer_body_rows)
  have "auditLogs d2 = auditLogs d"
    by (rule tx_frameD[where m = "register_rows env t a data now r", OF _ rr]) (unfold register_rows_def, intro frame_intros; simp)
  moreover have "rg_phoneE164 r = normalizePhoneToE164 (nc_phone data) \<and> js_startsWith (rg_phoneE164 r) ''+''
      \<and> normalizeCardSerial (nc_cardSerialNumber data) = Inr (rg_serial r)"
    using checks_registration[OF assms(1)]
    by (auto simp: registration_input_def Let_def res_bind_eq_Inr split: if_split_asm)
  moreover note register_rows_effect[OF rr]
  ultimately show ?thesis using s l by (auto simp: new_customer_def new_card_def)
qed

subsection \<open>Phone numbers\<close>

lemma customer_update_writes:
  assumes "customer_update i g d = Inr (x, d')"
  shows "x \<in> set (customers d') \<and> (\<exists>c. x = g c \<and> cu_id c = i)"
proof -
  from assms obtain c where f: "find (\<lambda>c. cu_id c = i) (customers d) = Some c" and x: "x = g c"
    and d': "customers d' = updated (\<lambda>y. cu_id y = i) g (customers d)"
    by (auto simp: customer_update_eq_Inr)
  from f have c: "c \<in> set (customers d)" "cu_id c = i" by (auto simp: find_Some_iff)
  then have "g c \<in> set (customers d')" unfolding d' updated_def by (auto intro!: image_eqI[of _ _ c])
  with c x show ?thesis by blast
qed

lemma updateCustomer_raw_phone:
  assumes v: "digits_of v = []" "v \<noteq> []" "uc_phone udata = Some v"
    and run: "updateCustomer_body ky t a i udata now c d = Inr (resp, d')"
  shows "\<exists>x\<in>set (customers d'). cu_id x = i \<and> cu_phoneE164 x = v \<and> \<not> is_e164 (js_trim v)"
proof -
  have "update_phone udata c = v" using v by (simp add: update_phone_def truthy_def normalizePhone_plain)
  with run v obtain x d1 d2 d3 where u: "customer_update i (\<lambda>c'. c'\<lparr>cu_fullName := (if truthy (uc_fullName udata) then the (uc_fullName udata) else cu_fullName c'),
           cu_phoneE164 := (if truthy (uc_phone udata) then v else cu_phoneE164 c'),
           cu_email := (if truthy (uc_email udata) then normalized_email (uc_email udata) else cu_email c'),
           cu_isStaff := (case uc_isStaff udata of Some b \<Rightarrow> b | None \<Rightarrow> cu_isStaff c'), cu_updatedAt := now\<rparr>) d = Inr (x, d1)"
    and r: "recordWithClient t (Some (actor_id a)) ''customer.update'' ''customer'' (Some (cu_id x)) (JObj (uc_members udata)) d1 = Inr ((), d2)"
    and k: "complete_key ky resp d2 = Inr ((), d')"
    by (auto simp: updateCustomer_body_def store_response_def tx_bind_eq_Inr)
  have "customers d' = customers d1"
    using tx_frameD[OF customers_frames(2) r] tx_frameD[OF customers_frames(1) k] by simp
  moreover from customer_update_writes[OF u] v have "x \<in> set (customers d1)" "cu_id x = i" "cu_phoneE164 x = v"
    by (auto simp: truthy_def)
  moreover have "\<not> is_e164 (js_trim v)"
  proof
    assume "is_e164 (js_trim v)"
    then obtain x y zs where "js_trim v = x # y # zs" "is_digit y" by (elim is_e164.elims) auto
    then have "y \<in> set (js_trim v)" "is_digit y" by auto
    moreover have "set (js_trim v) \<subseteq> set v" by (auto simp: js_trim_def dest!: set_dropWhileD)
    ultimately show False using v(1) by (auto simp: digits_of_def filter_empty_conv)
  qed
  ultimately show ?thesis by auto
qed

text \<open>
  A phone number with a digit is stored as a plus sign and digits, and storing it again changes nothing.
  One without a digit is not normalised: a registration refuses it unless it begins with a plus sign, but a
  change of a customer writes it as it is, so that messages to the customer can no longer be built.
\<close>

theorem phone_normalised_or_raw:
  "normalizePhoneToE164 (normalizePhoneToE164 v) = normalizePhoneToE164 v
    \<and> (digits_of v \<noteq> [] \<longrightarrow> (\<exists>ds. normalizePhoneToE164 v = CHR ''+'' # ds \<and> list_all is_digit ds \<and> ds \<noteq> []))
    \<and> (digits_of v = [] \<and> \<not> js_startsWith v ''+'' \<and> nc_phone data = v \<longrightarrow> (\<exists>e. registration_input a data = Inl e))
    \<and> (digits_of v = [] \<and> v \<noteq> [] \<and> uc_phone udata = Some v \<and> updateCustomer_body ky t a i udata now c d = Inr (resp, d') \<longrightarrow>
        (\<exists>x\<in>set (customers d'). cu_id x = i \<and> cu_phoneE164 x = v \<and> \<not> is_e164 (js_trim v)))"
proof (intro conjI impI)
  show "\<exists>e. registration_input a data = Inl e" if "digits_of v = [] \<and> \<not> js_startsWith v ''+'' \<and> nc_phone data = v"
    using that by (cases "normalizeCardSerial (nc_cardSerialNumber data)") (auto simp: registration_input_def normalizePhone_plain)
qed (use normalizePhone_idem normalizePhone_digits updateCustomer_raw_phone in blast)+

subsection \<open>Withdrawing the consent to marketing\<close>

lemma sort_key_snoc:
  assumes "\<forall>x\<in>set xs. f x \<le> f e"
  shows "sort_key f (xs @ [e]) = sort_key f xs @ [e]"
proof (rule properties_for_sort_key)
  show "sorted (map f (sort_key f xs @ [e]))" using assms by (auto simp: sorted_append)
  show "filter (\<lambda>y. f x = f y) (sort_key f xs @ [e]) = filter (\<lambda>y. f x = f y) (xs @ [e])" if "x \<in> set (sort_key f xs @ [e])" for x
    using sort_key_stable[of f "f x" xs] by (simp add: eq_commute[of "f x"])
qed simp

lemma latest_preference_snoc:
  assumes "customerMarketingPreferenceEvents d' = customerMarketingPreferenceEvents d @ [e]"
    and "mp_tenantId e = t" and "mp_customerId e = c"
    and "\<forall>x\<in>set (customerMarketingPreferenceEvents d). mp_tenantId x = t \<longrightarrow> mp_customerId x = c \<longrightarrow> mp_capturedAt x < mp_capturedAt e"
  shows "latest_preference t c d' = Some e"
proof -
  have "sort_key (\<lambda>e. (mp_capturedAt e, mp_id e))
      (filter (\<lambda>e. mp_tenantId e = t \<and> mp_customerId e = c) (customerMarketingPreferenceEvents d) @ [e]) =
    sort_key (\<lambda>e. (mp_capturedAt e, mp_id e)) (filter (\<lambda>e. mp_tenantId e = t \<and> mp_customerId e = c) (customerMarketingPreferenceEvents d)) @ [e]"
    using assms(4) by (intro sort_key_snoc) auto
  then show ?thesis using assms(1-3) by (simp add: latest_preference_def)
qed

lemma complete_key_events: "complete_key ky r d = Inr (u, d') \<Longrightarrow> customerMarketingPreferenceEvents d' = customerMarketingPreferenceEvents d"
  by (auto simp: complete_key_def require_updated_eq_Inr idempotencyRecord_updateMany_def)

text \<open>
  After a committed withdrawal the customer counts as opted out, whatever the registration or an earlier
  event said. A customer whose latest event says so already gets no second event, and the answer tells which it was.
\<close>

theorem withdraw_opts_out:
  assumes "withdraw_body env ky t a b c at now d = Inr (resp, d')"
    and "\<forall>x\<in>set (customerMarketingPreferenceEvents d). mp_tenantId x = t \<longrightarrow> mp_customerId x = c \<longrightarrow> mp_capturedAt x < at"
  shows "json_get (effectiveMarketingPreference consent (latest_preference t c d') False) ''status'' = JStr ''OPTED_OUT''
    \<and> json_get resp ''status'' = JStr ''OPTED_OUT''
    \<and> (if opted_out (latest_preference t c d)
       then customerMarketingPreferenceEvents d' = customerMarketingPreferenceEvents d \<and> json_get resp ''alreadyOptedOut'' = JBool True
       else (\<exists>e. customerMarketingPreferenceEvents d' = customerMarketingPreferenceEvents d @ [e] \<and> mp_capturedBy e = actor_id a)
         \<and> json_get resp ''alreadyOptedOut'' = JBool False)"
proof (cases "opted_out (latest_preference t c d)")
  case True
  with assms(1) have d: "customerMarketingPreferenceEvents d' = customerMarketingPreferenceEvents d"
    and r: "json_get resp ''status'' = JStr ''OPTED_OUT''" "json_get resp ''alreadyOptedOut'' = JBool True"
    by (auto simp: withdraw_body_def store_response_def tx_bind_eq_Inr Let_def json_get_def dest!: complete_key_events)
  from d have "latest_preference t c d' = latest_preference t c d" by (simp add: latest_preference_def)
  with True d r show ?thesis by (auto simp: opted_out_def effectiveMarketingPreference_def json_get_def)
next
  case False
  with assms(1) obtain e d1 d2 m where
    c: "preferenceEvent_create env (\<lambda>new_id.
              \<lparr> mp_id = new_id, mp_tenantId = t, mp_customerId = c, mp_capturedBy = actor_id a,
                mp_branchId = b, mp_preference = OPTED_OUT, mp_source = IN_STORE, mp_capturedAt = at \<rparr>) d = Inr (e, d1)"
    and rw: "recordWithClient t (Some (actor_id a)) ''customer.marketing_preference.withdrawn'' ''customer'' (Some c) m d1 = Inr ((), d2)"
    and k: "complete_key ky resp d2 = Inr ((), d')"
    and r: "json_get resp ''status'' = JStr ''OPTED_OUT''" "json_get resp ''alreadyOptedOut'' = JBool False"
    by (auto simp: withdraw_body_def store_response_def tx_bind_eq_Inr Let_def json_get_def)
  have e: "mp_tenantId e = t" "mp_customerId e = c" "mp_capturedAt e = at" "mp_preference e = OPTED_OUT" "mp_capturedBy e = actor_id a"
    and d1: "customerMarketingPreferenceEvents d1 = customerMarketingPreferenceEvents d @ [e]"
    using c by (auto simp: preferenceEvent_create_def create_row_eq_Inr)
  have d: "customerMarketingPreferenceEvents d' = customerMarketingPreferenceEvents d @ [e]"
    using complete_key_events[OF k] rw d1 by (auto simp: recordWithClient_def auditLog_create_def)
  have "latest_preference t c d' = Some e"
    by (rule latest_preference_snoc[OF d e(1,2)]) (use assms(2) e(3) in auto)
  with False d e r show ?thesis by (auto simp: effectiveMarketingPreference_def json_get_def)
qed

subsection \<open>Reading personal data\<close>

text \<open>
  Every read of a customer's personal data by a supervisor or an administrator leaves an audit row that
  names the reader and the customer; a cashier sees the masked phone and email only and writes nothing.
\<close>

theorem getCustomer_audited:
  assumes "getCustomer t i (Some a) now d = Inr (resp, d')"
  shows "(if isPrivilegedCustomerRead a
      then \<exists>row. auditLogs d' = auditLogs d @ [row] \<and> au_action row = ''customer.pii.read'' \<and> au_actorId row = Some (actor_id a)
        \<and> au_entityId row = Some i \<and> au_tenantId row = t
      else d' = d)
    \<and> (actor_role a = UserRole.CASHIER \<longrightarrow>
        (\<exists>c. find_customer t i d = Some c \<and> json_get resp ''maskedPhone'' = JStr (maskPhone (cu_phoneE164 c))
          \<and> json_get resp ''email'' = json_opt_str (maskEmail (cu_email c))
          \<and> json_get resp ''phoneE164'' = JUndefined))"
proof -
  from assms obtain c where c: "find_customer t i d = Some c"
    by (cases "find_customer t i d") (auto simp: getCustomer_def tx_bind_eq_Inr tx_check_eq_Inr)
  then have i: "cu_id c = i" by (auto simp: find_customer_def find_Some_iff)
  show ?thesis
    using assms c i
    by (auto simp: getCustomer_def tx_bind_eq_Inr tx_check_eq_Inr recordWithClient_def auditLog_create_def
        toCashierCustomerSummary_def isPrivilegedCustomerRead_def json_get_def split: if_split_asm)
qed

text \<open>How much of a phone number the mask hides.\<close>

lemma maskPhone_parts:
  assumes "6 < length (js_trim p)"
  shows "maskPhone p = take (min 7 (length (js_trim p) - 4)) (js_trim p) @ ''* *** '' @ drop (length (js_trim p) - 4) (js_trim p)"
  using assms by (simp add: maskPhone_def last_four_def Let_def)

text \<open>
  The mask of a phone number keeps the first seven and the last four characters. Of a number with up to
  eleven characters it hides none: what is shown before and after the stars is the whole number.
\<close>

theorem maskPhone_hides:
  assumes "6 < length (js_trim p)"
  shows "\<exists>shown hidden tail. js_trim p = shown @ hidden @ tail \<and> maskPhone p = shown @ ''* *** '' @ tail
    \<and> length hidden = length (js_trim p) - 11"
proof -
  let ?n = "js_trim p" and ?k = "min 7 (length (js_trim p) - 4)"
  have "?n = take ?k ?n @ take (length ?n - 4 - ?k) (drop ?k ?n) @ drop (length ?n - 4) ?n"
    by (metis append_take_drop_id drop_drop add.commute le_add_diff_inverse min.cobounded2)
  moreover have "length (take (length ?n - 4 - ?k) (drop ?k ?n)) = length ?n - 11" using assms by simp
  ultimately show ?thesis using maskPhone_parts[OF assms] by blast
qed

subsection \<open>Repeated requests\<close>

definition createCustomer_key :: "env \<Rightarrow> string \<Rightarrow> AuthContext \<Rightarrow> CreateCustomerDto \<Rightarrow> string \<Rightarrow> keyed" where
  "createCustomer_key env t a data key = hashCustomerRequest env t a ''customers.create'' key (nc_members data)"

definition updateCustomer_key :: "env \<Rightarrow> string \<Rightarrow> AuthContext \<Rightarrow> string \<Rightarrow> UpdateCustomerDto \<Rightarrow> string \<Rightarrow> keyed" where
  "updateCustomer_key env t a i data key =
     hashCustomerRequest env t a ''customers.update'' key ((''customerId'', JStr i) # uc_members data)"

definition updateCustomerStatus_key :: "env \<Rightarrow> string \<Rightarrow> AuthContext \<Rightarrow> string \<Rightarrow> string \<Rightarrow> string \<Rightarrow> keyed" where
  "updateCustomerStatus_key env t a i status key =
     hashCustomerRequest env t a ''customers.status'' key [(''customerId'', JStr i), (''status'', JStr status)]"

definition withdraw_key :: "env \<Rightarrow> string \<Rightarrow> AuthContext \<Rightarrow> string \<Rightarrow> bool \<Rightarrow> string \<Rightarrow> keyed" where
  "withdraw_key env t a i confirmed key =
     hashCustomerRequest env t a ''customers.marketingPreference.withdraw'' key
       [(''customerId'', JStr i), (''branchId'', JStr (the (actor_branchId a))), (''source'', JStr ''IN_STORE''),
        (''confirmedInPersonRequest'', JBool confirmed)]"

interpretation register_call: keyed_endpoint "createCustomer_key env t a data key"
  "\<lambda>w. createCustomer_checks (fst (snd w)) t a data"
  "\<lambda>w. createCustomer_body env (createCustomer_key env t a data key) t a data (snd (snd w) 2)" for env t a data key
  by unfold_locales (rule customer_bodies_store)

interpretation change_call: keyed_endpoint "updateCustomer_key env t a i data key"
  "\<lambda>w. updateCustomer_checks (fst (snd w)) t i data"
  "\<lambda>w. updateCustomer_body (updateCustomer_key env t a i data key) t a i data (snd (snd w) 2)" for env t a i data key
  by unfold_locales (rule customer_bodies_store)

interpretation block_call: keyed_endpoint "updateCustomerStatus_key env t a i st key"
  "\<lambda>w. updateCustomerStatus_checks (fst (snd w)) t i st"
  "\<lambda>w. updateCustomerStatus_body (updateCustomerStatus_key env t a i st key) t a i st (snd (snd w) 2)" for env t a i st key
  by unfold_locales (rule customer_bodies_store)

interpretation withdraw_call: keyed_endpoint "withdraw_key env t a i confirmed key"
  "\<lambda>w. withdraw_checks (fst (snd w)) t (the (actor_branchId a)) i"
  "\<lambda>w _. withdraw_body env (withdraw_key env t a i confirmed key) t a (the (actor_branchId a)) i (snd (snd w) 2) (snd (snd w) 3)"
  for env t a i confirmed key
  by unfold_locales (rule customer_bodies_store)

lemma createCustomer_again:
  assumes "createCustomer env (fst w) (fst (snd w)) (snd (snd w)) t a data key d = (Inr r, d')" and "same_key_live t a key v d'"
  shows "createCustomer env (fst v) (fst (snd v)) (snd (snd v)) t a data key d' = (Inr r, d')"
proof -
  from assms(1) obtain k where k: "normalizeKeyHeader key = Inr k" "nc_loyaltyConsent data"
    by (simp add: createCustomer_def split: sum.split_asm if_split_asm)
  have keyed: "createCustomer env (fst u) (fst (snd u)) (snd (snd u)) t a data key s =
      keyed_in (createCustomer_key env t a data k) (\<lambda>w. createCustomer_checks (fst (snd w)) t a data)
        (\<lambda>w. createCustomer_body env (createCustomer_key env t a data k) t a data (snd (snd w) 2)) u s" for u s
    by (simp add: createCustomer_def keyed_in_def createCustomer_key_def Let_def k)
  have "key_live (createCustomer_key env t a data k) v d'"
    by (rule key_live_same[OF assms(2)]) (simp_all add: k createCustomer_key_def hashCustomerRequest_def)
  then show ?thesis using register_call.call_again[OF assms(1)[unfolded keyed]] unfolding keyed by blast
qed

lemma updateCustomer_again:
  assumes "updateCustomer env (fst w) (fst (snd w)) (snd (snd w)) t a i data key d = (Inr r, d')" and "same_key_live t a key v d'"
  shows "updateCustomer env (fst v) (fst (snd v)) (snd (snd v)) t a i data key d' = (Inr r, d')"
proof -
  from assms(1) obtain k where k: "normalizeKeyHeader key = Inr k"
    by (simp add: updateCustomer_def split: sum.split_asm)
  have keyed: "updateCustomer env (fst u) (fst (snd u)) (snd (snd u)) t a i data key s =
      keyed_in (updateCustomer_key env t a i data k) (\<lambda>w. updateCustomer_checks (fst (snd w)) t i data)
        (\<lambda>w. updateCustomer_body (updateCustomer_key env t a i data k) t a i data (snd (snd w) 2)) u s" for u s
    by (simp add: updateCustomer_def keyed_in_def updateCustomer_key_def Let_def k)
  have "key_live (updateCustomer_key env t a i data k) v d'"
    by (rule key_live_same[OF assms(2)]) (simp_all add: k updateCustomer_key_def hashCustomerRequest_def)
  then show ?thesis using change_call.call_again[OF assms(1)[unfolded keyed]] unfolding keyed by blast
qed

lemma updateCustomerStatus_again:
  assumes "updateCustomerStatus env (fst w) (fst (snd w)) (snd (snd w)) t a i st key d = (Inr r, d')" and "same_key_live t a key v d'"
  shows "updateCustomerStatus env (fst v) (fst (snd v)) (snd (snd v)) t a i st key d' = (Inr r, d')"
proof -
  from assms(1) obtain k where k: "normalizeKeyHeader key = Inr k"
    by (simp add: updateCustomerStatus_def split: sum.split_asm)
  have keyed: "updateCustomerStatus env (fst u) (fst (snd u)) (snd (snd u)) t a i st key s =
      keyed_in (updateCustomerStatus_key env t a i st k) (\<lambda>w. updateCustomerStatus_checks (fst (snd w)) t i st)
        (\<lambda>w. updateCustomerStatus_body (updateCustomerStatus_key env t a i st k) t a i st (snd (snd w) 2)) u s" for u s
    by (simp add: updateCustomerStatus_def keyed_in_def updateCustomerStatus_key_def Let_def k)
  have "key_live (updateCustomerStatus_key env t a i st k) v d'"
    by (rule key_live_same[OF assms(2)]) (simp_all add: k updateCustomerStatus_key_def hashCustomerRequest_def)
  then show ?thesis using block_call.call_again[OF assms(1)[unfolded keyed]] unfolding keyed by blast
qed

lemma withdraw_again:
  assumes "withdrawCustomerMarketingPreference env (fst w) (fst (snd w)) (snd (snd w)) t a i confirmed key d = (Inr r, d')"
    and "same_key_live t a key v d'"
  shows "withdrawCustomerMarketingPreference env (fst v) (fst (snd v)) (snd (snd v)) t a i confirmed key d' = (Inr r, d')"
proof -
  from assms(1) obtain k where k: "normalizeKeyHeader key = Inr k" "confirmed" "truthy (actor_branchId a)"
      "\<not> (actor_role a \<noteq> UserRole.CASHIER \<and> actor_role a \<noteq> UserRole.SUPERVISOR \<and> actor_role a \<noteq> UserRole.ADMIN)"
    by (simp add: withdrawCustomerMarketingPreference_def split: sum.split_asm if_split_asm)
  have keyed: "withdrawCustomerMarketingPreference env (fst u) (fst (snd u)) (snd (snd u)) t a i confirmed key s =
      keyed_in (withdraw_key env t a i confirmed k) (\<lambda>w. withdraw_checks (fst (snd w)) t (the (actor_branchId a)) i)
        (\<lambda>w _. withdraw_body env (withdraw_key env t a i confirmed k) t a (the (actor_branchId a)) i (snd (snd w) 2) (snd (snd w) 3)) u s" for u s
    unfolding withdrawCustomerMarketingPreference_def if_not_P[OF k(4)]
    by (simp add: keyed_in_def withdraw_key_def Let_def k(1-3))
  have "key_live (withdraw_key env t a i confirmed k) v d'"
    by (rule key_live_same[OF assms(2)]) (simp_all add: k withdraw_key_def hashCustomerRequest_def)
  then show ?thesis using withdraw_call.call_again[OF assms(1)[unfolded keyed]] unfolding keyed by blast
qed

subsection \<open>Runs on the small shop\<close>

definition demo_obi :: CreateCustomerDto where
  "demo_obi = \<lparr> nc_fullName = ''Obi'', nc_phone = ''0803 111 2222'', nc_cardSerialNumber = ''sc-77'', nc_email = None,
     nc_isStaff = None, nc_branchId = None, nc_loyaltyConsent = True, nc_marketingOptIn = True,
     nc_members = [(''fullName'', JStr ''Obi'')] \<rparr>"

definition demo_registration :: registration where
  "demo_registration = \<lparr> rg_phoneE164 = ''+2348031112222'', rg_serial = ''SC-77'', rg_email = None, rg_branchId = ''B'' \<rparr>"

lemma demo_registration_checks:
  "createCustomer_checks (\<lambda>_ d. d) ''T'' demo_cashier demo_obi demo_db = (Inr demo_registration, demo_db)"
  by code_simp

definition demo_key :: keyed where
  "demo_key = \<lparr> ky_tenantId = ''T'', ky_actorId = ''U'', ky_endpoint = ''customers'', ky_key = ''k1'', ky_requestHash = ''h'' \<rparr>"

definition demo_pending :: db where
  "demo_pending = demo_db\<lparr>idempotencyRecords := [pending_row demo_key demo_now]\<rparr>"

lemma demo_pending_records: "idempotencyRecords demo_pending = [pending_row demo_key demo_now]"
  by (simp add: demo_pending_def)

lemma demo_register_rows:
  "map_sum (\<lambda>e. e) (\<lambda>((c, k), d). (cu_phoneE164 c, cd_barcodeValue k, length (customers d)))
     (register_rows demo_env ''T'' demo_cashier demo_obi demo_now demo_registration demo_pending)
   = Inr (''+2348031112222'', ''SC-77'', 2)"
  by code_simp

lemma demo_register_body:
  obtains resp d' where "createCustomer_body demo_env demo_key ''T'' demo_cashier demo_obi demo_now demo_registration demo_pending = Inr (resp, d')"
proof -
  let ?m = "tx_bind (register_rows demo_env ''T'' demo_cashier demo_obi demo_now demo_registration) (\<lambda>(customer, card).
        tx_bind (recordWithClient ''T'' (Some (actor_id demo_cashier)) ''customer.create'' ''customer'' (Some (cu_id customer))
          (JObj [(''customer'', JObj (customer_json customer)), (''initialCardId'', JStr (cd_id card))])) (\<lambda>_.
        tx_bind (recordWithClient ''T'' (Some (actor_id demo_cashier)) ''card.create'' ''card'' (Some (cd_id card))
          (JObj [(''id'', JStr (cd_id card)), (''barcodeValue'', JStr (cd_barcodeValue card)),
             (''status'', JStr (card_status_str (cd_status card)))])) (\<lambda>_.
        tx_return (JObj (customer_json customer @
          [(''card'', JObj [(''id'', JStr (cd_id card)), (''serialNumber'', JStr (cd_barcodeValue card)),
             (''status'', JStr (card_status_str (cd_status card)))])])))))"
  from demo_register_rows obtain c k d1 where rr:
    "register_rows demo_env ''T'' demo_cashier demo_obi demo_now demo_registration demo_pending = Inr ((c, k), d1)"
    by (auto elim: committed_result)
  have "\<exists>r d2. ?m demo_pending = Inr (r, d2)"
    by (simp add: tx_bind_def rr recordWithClient_def auditLog_create_def)
  then obtain r d2 where m: "?m demo_pending = Inr (r, d2)" by blast
  have "tx_frame idempotencyRecords ?m" unfolding register_rows_def by (intro frame_intros; simp)
  from store_response_alone[OF demo_pending_records this m] show ?thesis
    by (intro that) (unfold createCustomer_body_def)
qed

theorem createCustomer_registers_witness:
  "\<exists>d' :: db. length (customers d') = 2 \<and> length (cards d') = 2 \<and> cu_phoneE164 (last (customers d')) = ''+2348031112222''
     \<and> length (auditLogs d') = 2"
proof -
  obtain resp d' where b: "createCustomer_body demo_env demo_key ''T'' demo_cashier demo_obi demo_now demo_registration demo_pending = Inr (resp, d')"
    by (rule demo_register_body)
  have "length (customers demo_pending) = 1" "length (cards demo_pending) = 1" "auditLogs demo_pending = []"
    by (simp_all add: demo_pending_def demo_db_def)
  moreover have "normalizePhoneToE164 (nc_phone demo_obi) = ''+2348031112222''" by code_simp
  ultimately show ?thesis
    using createCustomer_registers[OF demo_registration_checks b] by (intro exI[of _ d']) auto
qed

definition demo_wrong_phone :: UpdateCustomerDto where
  "demo_wrong_phone = \<lparr> uc_fullName = None, uc_phone = Some ''none'', uc_email = None, uc_isStaff = None, uc_members = [] \<rparr>"

lemma demo_change_body:
  obtains resp d' where "updateCustomer_body demo_key ''T'' demo_supervisor ''C'' demo_wrong_phone demo_now (hd (customers demo_db)) demo_pending = Inr (resp, d')"
proof -
  let ?u = "customer_update ''C'' (\<lambda>c. c
          \<lparr>cu_fullName := (if truthy (uc_fullName demo_wrong_phone) then the (uc_fullName demo_wrong_phone) else cu_fullName c),
           cu_phoneE164 := (if truthy (uc_phone demo_wrong_phone) then update_phone demo_wrong_phone (hd (customers demo_db)) else cu_phoneE164 c),
           cu_email := (if truthy (uc_email demo_wrong_phone) then normalized_email (uc_email demo_wrong_phone) else cu_email c),
           cu_isStaff := (case uc_isStaff demo_wrong_phone of Some b \<Rightarrow> b | None \<Rightarrow> cu_isStaff c), cu_updatedAt := demo_now\<rparr>)"
  let ?m = "tx_bind ?u (\<lambda>changed. tx_bind (recordWithClient ''T'' (Some (actor_id demo_supervisor)) ''customer.update'' ''customer'' (Some (cu_id changed))
          (JObj (uc_members demo_wrong_phone))) (\<lambda>_. tx_return (JObj (customer_json changed))))"
  have "map_sum (\<lambda>e. e) (\<lambda>(c, d). cu_phoneE164 c) (?u demo_pending) = Inr ''none''" by code_simp
  then obtain x d1 where u: "?u demo_pending = Inr (x, d1)" by (auto elim: committed_result)
  have "\<exists>r d2. ?m demo_pending = Inr (r, d2)"
    by (simp only: tx_bind_def u) (simp add: recordWithClient_def auditLog_create_def)
  then obtain r d2 where m: "?m demo_pending = Inr (r, d2)" by blast
  have "tx_frame idempotencyRecords ?m" by (intro frame_intros; simp)
  from store_response_alone[OF demo_pending_records this m] show ?thesis
    by (intro that) (unfold updateCustomer_body_def)
qed

theorem phone_normalised_or_raw_witness:
  "normalizePhoneToE164 ''0803 111 2222'' = ''+2348031112222''
   \<and> (\<exists>ds. normalizePhoneToE164 ''0803 111 2222'' = CHR ''+'' # ds \<and> list_all is_digit ds \<and> ds \<noteq> [])
   \<and> (\<exists>e. registration_input demo_cashier (demo_obi\<lparr>nc_phone := ''none''\<rparr>) = Inl e)
   \<and> (\<exists>d' :: db. \<exists>x\<in>set (customers d'). cu_id x = ''C'' \<and> cu_phoneE164 x = ''none'' \<and> \<not> is_e164 (js_trim ''none''))"
proof (intro conjI)
  show "normalizePhoneToE164 ''0803 111 2222'' = ''+2348031112222''" by code_simp
  have d: "digits_of ''0803 111 2222'' \<noteq> []" by code_simp
  with phone_normalised_or_raw[of "''0803 111 2222''"]
  show "\<exists>ds. normalizePhoneToE164 ''0803 111 2222'' = CHR ''+'' # ds \<and> list_all is_digit ds \<and> ds \<noteq> []" by blast
  have n: "digits_of ''none'' = []" "\<not> js_startsWith ''none'' ''+''" by code_simp+
  show "\<exists>e. registration_input demo_cashier (demo_obi\<lparr>nc_phone := ''none''\<rparr>) = Inl e"
    using phone_normalised_or_raw[of "''none''" "demo_obi\<lparr>nc_phone := ''none''\<rparr>" demo_cashier] n by simp
  obtain resp d' where b: "updateCustomer_body demo_key ''T'' demo_supervisor ''C'' demo_wrong_phone demo_now (hd (customers demo_db)) demo_pending = Inr (resp, d')"
    by (rule demo_change_body)
  have "uc_phone demo_wrong_phone = Some ''none''" by (simp add: demo_wrong_phone_def)
  with phone_normalised_or_raw[of "''none''"] n(1) b
  show "\<exists>d' :: db. \<exists>x\<in>set (customers d'). cu_id x = ''C'' \<and> cu_phoneE164 x = ''none'' \<and> \<not> is_e164 (js_trim ''none'')" by blast
qed

lemma demo_withdraw_body:
  obtains resp d' where "withdraw_body demo_env demo_key ''T'' demo_cashier ''B'' ''C'' demo_now demo_now demo_pending = Inr (resp, d')"
proof -
  have none: "latest_preference ''T'' ''C'' demo_pending = None" "find_consent ''T'' ''C'' demo_pending = None"
    "customerMarketingPreferenceEvents demo_pending = []"
    by (simp_all add: latest_preference_def find_consent_def demo_pending_def demo_db_def)
  have "\<exists>resp d'. withdraw_body demo_env demo_key ''T'' demo_cashier ''B'' ''C'' demo_now demo_now demo_pending = Inr (resp, d')"
    unfolding withdraw_body_def
    by (rule store_response_runs[OF demo_pending_records], (unfold Let_def, intro frame_intros; simp)[1])
      (simp add: tx_bind_def none opted_out_def preferenceEvent_create_def create_row_def fresh_id_def preferenceEvent_constraints_def
        recordWithClient_def auditLog_create_def Let_def)
  then show ?thesis using that by blast
qed

theorem withdraw_opts_out_witness:
  "\<exists>d' :: db. json_get (effectiveMarketingPreference None (latest_preference ''T'' ''C'' d') False) ''status'' = JStr ''OPTED_OUT''
     \<and> length (customerMarketingPreferenceEvents d') = 1"
proof -
  obtain resp d' where b: "withdraw_body demo_env demo_key ''T'' demo_cashier ''B'' ''C'' demo_now demo_now demo_pending = Inr (resp, d')"
    by (rule demo_withdraw_body)
  have n: "customerMarketingPreferenceEvents demo_pending = []" "\<not> opted_out (latest_preference ''T'' ''C'' demo_pending)"
    by (simp_all add: latest_preference_def opted_out_def demo_pending_def demo_db_def)
  show ?thesis
    using withdraw_opts_out[OF b, of None] n by (intro exI[of _ d']) auto
qed

theorem getCustomer_audited_witness:
  "\<exists>resp d'. getCustomer ''T'' ''C'' (Some demo_supervisor) demo_now demo_db = Inr (resp, d') \<and> length (auditLogs d') = 1"
proof -
  have c: "find_customer ''T'' ''C'' demo_db = Some (hd (customers demo_db))" by code_simp
  have p: "isPrivilegedCustomerRead demo_supervisor" by code_simp
  have "\<exists>resp d'. getCustomer ''T'' ''C'' (Some demo_supervisor) demo_now demo_db = Inr (resp, d')"
    by (simp add: getCustomer_def tx_bind_def tx_check_def c p recordWithClient_def auditLog_create_def)
  then obtain resp d' where g: "getCustomer ''T'' ''C'' (Some demo_supervisor) demo_now demo_db = Inr (resp, d')" by blast
  have "auditLogs demo_db = []" by (simp add: demo_db_def)
  with getCustomer_audited[OF g] p g show ?thesis by auto
qed

theorem maskPhone_hides_witness:
  "\<exists>shown hidden tail. ''+12345678901'' = shown @ hidden @ tail \<and> maskPhone ''+12345678901'' = shown @ ''* *** '' @ tail \<and> length hidden = 1"
proof -
  have t: "js_trim ''+12345678901'' = ''+12345678901''" by code_simp
  show ?thesis using maskPhone_hides[of "''+12345678901''"] unfolding t by simp
qed

end
