(* ===== verification/Registry.thy ===== *)
theory Registry
  imports Card_Calls Customer_Calls
begin

text \<open>
  Cards and customers together: the calls of both services interleave, each keeps what the other relies
  on, and each answers a repeated request from its record. The runs on the small shop are at the end.
\<close>

subsection \<open>The life of the registry\<close>

inductive registry_step :: "env \<Rightarrow> db \<Rightarrow> db \<Rightarrow> bool" for env where
  createCard: "session_steps (registry_step env) sched others \<Longrightarrow>
    registry_step env d (snd (createCard env sched others clk tenantId actor customerId serialNumber key d))"
| replaceCard: "session_steps (registry_step env) sched others \<Longrightarrow>
    registry_step env d (snd (replaceCard env sched others clk tenantId actor cardId serialNumber key d))"
| updateStatus: "session_steps (registry_step env) sched others \<Longrightarrow>
    registry_step env d (snd (updateStatus env sched others clk tenantId actor cardId st key d))"
| createCustomer: "session_steps (registry_step env) sched others \<Longrightarrow>
    registry_step env d (snd (createCustomer env sched others clk tenantId actor data key d))"
| updateCustomer: "session_steps (registry_step env) sched others \<Longrightarrow>
    registry_step env d (snd (updateCustomer env sched others clk tenantId actor customerId udata key d))"
| updateCustomerStatus: "session_steps (registry_step env) sched others \<Longrightarrow>
    registry_step env d (snd (updateCustomerStatus env sched others clk tenantId actor customerId st key d))"
| withdraw: "session_steps (registry_step env) sched others \<Longrightarrow>
    registry_step env d (snd (withdrawCustomerMarketingPreference env sched others clk tenantId actor customerId confirmed key d))"
| elsewhere: "cards d' = cards d \<Longrightarrow> customers d' = customers d \<Longrightarrow> registry_step env d d'"

text \<open>A relation the bodies respect and that looks at cards and customers only is respected by every step.\<close>

locale registry_order = keyed_order R for R :: "db \<Rightarrow> db \<Rightarrow> bool" +
  fixes env :: env
  assumes R_rows: "cards d' = cards d \<Longrightarrow> customers d' = customers d \<Longrightarrow> R d d'"
    and create_body: "tx_rel R (createCard_body env ky t a serial now c)"
    and replace_body: "tx_rel R (replaceCard_body env ky t a i serial at now p)"
    and status_body: "cd_status (fst q) \<noteq> CardStatus.REPLACED \<Longrightarrow> tx_rel R (updateStatus_body ky t a i st now q)"
    and register_body: "tx_rel R (createCustomer_body env ky t a data now r)"
    and change_body: "tx_rel R (updateCustomer_body ky t a i udata now cu)"
    and block_body: "tx_rel R (updateCustomerStatus_body ky t a i st now cs)"
    and withdraw_body: "tx_rel R (withdraw_body env ky t a b i at now)"
begin

lemma session_rel:
  assumes "session_steps (\<lambda>x y. registry_step env x y \<and> R x y) sched others"
  shows "R d (fst (sched k d))" and "R d (others k d)"
proof -
  have "R x y" if "(\<lambda>x y. registry_step env x y \<and> R x y)\<^sup>*\<^sup>* x y" for x y
    using that by (induction rule: rtranclp_induct) (auto intro: R_refl R_trans)
  with assms show "R d (fst (sched k d))" and "R d (others k d)"
    unfolding session_steps_def by blast+
qed

lemma registry_step_rel: "registry_step env d d' \<Longrightarrow> R d d'"
proof (induction rule: registry_step.induct)
  case (createCard sched others)
  show ?case by (intro createCard_rel session_rel[OF createCard] create_body)
next
  case (replaceCard sched others)
  show ?case by (intro replaceCard_rel session_rel[OF replaceCard] replace_body)
next
  case (updateStatus sched others)
  show ?case by (intro updateStatus_rel session_rel[OF updateStatus] status_body)
next
  case (createCustomer sched others)
  show ?case by (intro createCustomer_rel session_rel[OF createCustomer] register_body)
next
  case (updateCustomer sched others)
  show ?case by (intro updateCustomer_rel session_rel[OF updateCustomer] change_body)
next
  case (updateCustomerStatus sched others)
  show ?case by (intro updateCustomerStatus_rel session_rel[OF updateCustomerStatus] block_body)
next
  case (withdraw sched others)
  show ?case by (intro withdraw_rel session_rel[OF withdraw] withdraw_body)
qed (rule R_rows)

lemma registry_run_rel: "(registry_step env)\<^sup>*\<^sup>* d d' \<Longrightarrow> R d d'"
  by (induction rule: rtranclp_induct) (auto intro: R_refl R_trans registry_step_rel)

end

lemma card_bodies_customers:
  "tx_frame customers (createCard_body env ky t a serial now c)"
  "tx_frame customers (replaceCard_body env ky t a i serial at now p)"
  "tx_frame customers (updateStatus_body ky t a i st now q)"
proof -
  show "tx_frame customers (createCard_body env ky t a serial now c)"
    unfolding createCard_body_def by (intro frame_intros; simp)
  show "tx_frame customers (replaceCard_body env ky t a i serial at now p)"
    unfolding replaceCard_body_def swap_cards_def by (cases p; simp only: prod.case) (intro frame_intros; simp)
  show "tx_frame customers (updateStatus_body ky t a i st now q)"
    unfolding updateStatus_body_def by (cases q; simp only: prod.case) (intro frame_intros; simp)
qed

interpretation registry_cards: registry_order cards_follow env for env
  by unfold_locales (auto intro: cards_life.follow_same createCard_body_follows replaceCard_body_follows updateStatus_body_follows
      createCustomer_body_follows updateCustomer_body_follows updateCustomerStatus_body_follows withdraw_body_follows)

interpretation registry_customers: registry_order customers_follow env for env
  by unfold_locales (auto intro: customers_life.follow_same card_bodies_customers[THEN customers_life.follow_frame]
      createCustomer_body_follows updateCustomer_body_follows updateCustomerStatus_body_follows withdraw_body_follows)

text \<open>
  C33: However the calls for cards and customers interleave, no card and no customer disappears or changes
  its identity, holder or serial number, a replaced card stays replaced, no customer has two active cards, and
  ids, serial numbers, phone numbers and email addresses stay unique within a tenant.
\<close>

theorem registry_life_cycle:
  assumes "(registry_step env)\<^sup>*\<^sup>* d d'" and "cards_ok d" and "customers_ok d"
  shows "cards_ok d' \<and> customers_ok d'
    \<and> length (cards d) \<le> length (cards d') \<and> (\<forall>i<length (cards d). card_moves (cards d ! i) (cards d' ! i))
    \<and> length (customers d) \<le> length (customers d') \<and> (\<forall>i<length (customers d). customer_moves (customers d ! i) (customers d' ! i))"
  using table_follows_nth[OF registry_cards.registry_run_rel[OF assms(1)] assms(2)]
    table_follows_nth[OF registry_customers.registry_run_rel[OF assms(1)] assms(3)] by blast

text \<open>
  C34: A call for a card or a customer that was answered is answered the same when it is sent again with its
  key, whoever else is at work, as long as the records of the actor under that key have not expired; nothing changes.
\<close>

theorem registry_calls_idempotent:
  assumes "same_key_live t a key (sched', others', clk') d'"
  shows "(createCard env sched others clk t a c sn key d = (Inr r, d') \<longrightarrow>
        createCard env sched' others' clk' t a c sn key d' = (Inr r, d'))
    \<and> (replaceCard env sched others clk t a i sn key d = (Inr r, d') \<longrightarrow>
        replaceCard env sched' others' clk' t a i sn key d' = (Inr r, d'))
    \<and> (updateStatus env sched others clk t a i st key d = (Inr r, d') \<longrightarrow>
        updateStatus env sched' others' clk' t a i st key d' = (Inr r, d'))
    \<and> (createCustomer env sched others clk t a data key d = (Inr r, d') \<longrightarrow>
        createCustomer env sched' others' clk' t a data key d' = (Inr r, d'))
    \<and> (updateCustomer env sched others clk t a i udata key d = (Inr r, d') \<longrightarrow>
        updateCustomer env sched' others' clk' t a i udata key d' = (Inr r, d'))
    \<and> (updateCustomerStatus env sched others clk t a i st key d = (Inr r, d') \<longrightarrow>
        updateCustomerStatus env sched' others' clk' t a i st key d' = (Inr r, d'))
    \<and> (withdrawCustomerMarketingPreference env sched others clk t a i confirmed key d = (Inr r, d') \<longrightarrow>
        withdrawCustomerMarketingPreference env sched' others' clk' t a i confirmed key d' = (Inr r, d'))"
  using createCard_again[of env "(sched, others, clk)" t a c sn key d r d' "(sched', others', clk')"]
    replaceCard_again[of env "(sched, others, clk)" t a i sn key d r d' "(sched', others', clk')"]
    updateStatus_again[of env "(sched, others, clk)" t a i st key d r d' "(sched', others', clk')"]
    createCustomer_again[of env "(sched, others, clk)" t a data key d r d' "(sched', others', clk')"]
    updateCustomer_again[of env "(sched, others, clk)" t a i udata key d r d' "(sched', others', clk')"]
    updateCustomerStatus_again[of env "(sched, others, clk)" t a i st key d r d' "(sched', others', clk')"]
    withdraw_again[of env "(sched, others, clk)" t a i confirmed key d r d' "(sched', others', clk')"]
  using assms by (simp only: fst_conv snd_conv) blast

subsection \<open>Runs on the small shop\<close>

lemma demo_customers_ok: "customers_ok demo_db"
  by (simp add: customers_ok_def demo_db_def)

theorem registry_life_cycle_witness:
  "\<exists>d' :: db. map cd_status (cards d') = [CardStatus.REPLACED, CardStatus.ACTIVE] \<and> cards_ok d'
     \<and> card_moves (cards demo_db ! 0) (cards d' ! 0)"
proof -
  obtain r d' where c: "replaceCard demo_env alone (\<lambda>_ d. d) demo_times ''T'' demo_cashier ''K'' ''sc-02'' (Some ''k1'') demo_db = (Inr r, d')"
    and m: "map (\<lambda>c. (cd_id c, cd_barcodeValue c, cd_status c, cd_replacedByCardId c)) (cards d') =
      [(''K'', ''SC-01'', CardStatus.REPLACED, Some ''n''), (''n'', ''SC-02'', CardStatus.ACTIVE, None)]"
    by (rule demo_replace)
  have step: "registry_step demo_env demo_db d'"
    using registry_step.replaceCard[OF session_steps_alone, of demo_env demo_db demo_times "''T''" demo_cashier "''K''" "''sc-02''" "Some ''k1''"] c
    by simp
  have "cards_ok d' \<and> card_moves (cards demo_db ! 0) (cards d' ! 0)"
    using registry_life_cycle[OF r_into_rtranclp[where r = "registry_step demo_env", OF step] demo_cards_ok demo_customers_ok]
    by (simp add: demo_db_def)
  moreover have "map cd_status (cards d') = [CardStatus.REPLACED, CardStatus.ACTIVE]"
    using arg_cong[OF m, of "map (fst \<circ> snd \<circ> snd)"] by (simp add: comp_def)
  ultimately show ?thesis by (intro exI[of _ d']) simp
qed

theorem registry_calls_idempotent_witness:
  "\<exists>r d'. replaceCard demo_env alone (\<lambda>_ d. d) demo_times ''T'' demo_cashier ''K'' ''sc-02'' (Some ''k1'') demo_db = (Inr r, d')
     \<and> replaceCard demo_env alone (\<lambda>_ d. d) (\<lambda>_. demo_now + 1000) ''T'' demo_cashier ''K'' ''sc-02'' (Some ''k1'') d' = (Inr r, d')"
proof -
  obtain r d' where c: "replaceCard demo_env alone (\<lambda>_ d. d) demo_times ''T'' demo_cashier ''K'' ''sc-02'' (Some ''k1'') demo_db = (Inr r, d')"
    and l: "records_live (alone, (\<lambda>_ d. d), \<lambda>_. demo_now + 1000) d'"
    by (rule demo_replace)
  from registry_calls_idempotent[OF same_key_live_all[OF l]] c show ?thesis by blast
qed

end
