(* ===== verification/Configuration.thy ===== *)
theory Configuration
  imports Keyed_Runs
begin

text \<open>
  \<^verbatim>\<open>src/modules/configuration/configuration.service.ts\<close>: the policy of a branch, which the capture of purchases and the
  redemptions read, with the version a client must name to change it, and the cached public
  configuration. The numbers of a request are integers within the safe range (its validation is part of
  \<^verbatim>\<open>configuration.dto.ts\<close>); a \<open>ConflictException\<close> built from an object is modelled by the text of the object. The state of the
  service is its cache; calls that share one pending load are not modelled.
\<close>

subsection \<open>Rows and forms\<close>

record UpdatePolicyConfigurationDto =
  up_branchId :: string
  up_defaultEarnRateBps :: int
  up_minRedemptionKobo :: int
  up_maxRedemptionBasketPercent :: int
  up_purchaseFlagThresholdKobo :: int
  up_purchaseApprovalThresholdKobo :: int
  up_purchaseAmountCeilingKobo :: int
  up_redemptionApprovalThresholdKobo :: int
  up_offlineRedemptionDisabled :: bool
  up_expectedVersion :: int

definition policy_constraints :: "db \<Rightarrow> PolicyConfiguration \<Rightarrow> (bool \<times> string list) list" where
  "policy_constraints d row =
      [(list_ex (\<lambda>x. pc_id x = pc_id row) (policyConfigurations d), [''id'']),
       (list_ex (\<lambda>x. pc_tenantId x = pc_tenantId row \<and> pc_branchId x = pc_branchId row) (policyConfigurations d), [''tenantId'', ''branchId''])]"

definition policy_create :: "env \<Rightarrow> (string \<Rightarrow> PolicyConfiguration) \<Rightarrow> PolicyConfiguration dbtx" where
  "policy_create env mk =
     create_row env policy_constraints (\<lambda>row d. d\<lparr>policyConfigurations := policyConfigurations d @ [row]\<rparr>) mk"

definition policy_of :: "string \<Rightarrow> string \<Rightarrow> PolicyConfiguration \<Rightarrow> bool" where
  "policy_of tenantId branchId x = (pc_tenantId x = tenantId \<and> pc_branchId x = branchId)"

definition find_policy :: "string \<Rightarrow> string \<Rightarrow> db \<Rightarrow> PolicyConfiguration option" where
  "find_policy tenantId branchId d = find (policy_of tenantId branchId) (policyConfigurations d)"

definition policy_updateMany :: "(PolicyConfiguration \<Rightarrow> bool) \<Rightarrow> (PolicyConfiguration \<Rightarrow> PolicyConfiguration) \<Rightarrow> nat dbtx" where
  "policy_updateMany p f = (\<lambda>d.
     Inr (count_where p (policyConfigurations d), d\<lparr>policyConfigurations := updated p f (policyConfigurations d)\<rparr>))"

definition policyData :: "UpdatePolicyConfigurationDto \<Rightarrow> PolicyConfiguration \<Rightarrow> PolicyConfiguration" where
  "policyData input row = row
     \<lparr>pc_defaultEarnRateBps := up_defaultEarnRateBps input, pc_minRedemptionKobo := up_minRedemptionKobo input,
      pc_maxRedemptionBasketPercent := up_maxRedemptionBasketPercent input,
      pc_purchaseFlagThresholdKobo := up_purchaseFlagThresholdKobo input,
      pc_purchaseApprovalThresholdKobo := up_purchaseApprovalThresholdKobo input,
      pc_purchaseAmountCeilingKobo := up_purchaseAmountCeilingKobo input,
      pc_redemptionApprovalThresholdKobo := up_redemptionApprovalThresholdKobo input,
      pc_offlineRedemptionDisabled := up_offlineRedemptionDisabled input\<rparr>"

text \<open>\<open>defaultPolicy\<close> has no id and no tenant; only its values and its version 0 are read.\<close>

definition defaultPolicy :: "env \<Rightarrow> string \<Rightarrow> PolicyConfiguration" where
  "defaultPolicy env branchId =
     \<lparr> pc_id = [], pc_tenantId = [], pc_branchId = branchId, pc_version = 0,
       pc_defaultEarnRateBps = config_or env ''DEFAULT_EARN_RATE_BPS'' 200,
       pc_minRedemptionKobo = config_or env ''MIN_REDEMPTION_KOBO'' 50000,
       pc_maxRedemptionBasketPercent = config_or env ''MAX_REDEMPTION_BASKET_PERCENT'' 30,
       pc_purchaseFlagThresholdKobo = config_or env ''PURCHASE_FLAG_THRESHOLD_KOBO'' 10000000,
       pc_purchaseApprovalThresholdKobo = config_or env ''PURCHASE_APPROVAL_THRESHOLD_KOBO'' 20000000,
       pc_purchaseAmountCeilingKobo = config_or env ''PURCHASE_AMOUNT_CEILING_KOBO'' 100000000,
       pc_redemptionApprovalThresholdKobo = config_or env ''REDEMPTION_APPROVAL_THRESHOLD_KOBO'' 500000,
       pc_offlineRedemptionDisabled = True \<rparr>"

definition serializePolicyValues :: "PolicyConfiguration \<Rightarrow> (string \<times> json) list" where
  "serializePolicyValues p =
     [(''defaultEarnRateBps'', JNum (pc_defaultEarnRateBps p)), (''minRedemptionKobo'', JNum (js_Number (pc_minRedemptionKobo p))),
      (''maxRedemptionBasketPercent'', JNum (pc_maxRedemptionBasketPercent p)),
      (''purchaseFlagThresholdKobo'', JNum (js_Number (pc_purchaseFlagThresholdKobo p))),
      (''purchaseApprovalThresholdKobo'', JNum (js_Number (pc_purchaseApprovalThresholdKobo p))),
      (''purchaseAmountCeilingKobo'', JNum (js_Number (pc_purchaseAmountCeilingKobo p))),
      (''redemptionApprovalThresholdKobo'', JNum (js_Number (pc_redemptionApprovalThresholdKobo p))),
      (''offlineRedemptionDisabled'', JBool (pc_offlineRedemptionDisabled p))]"

definition serializePolicy :: "json \<Rightarrow> PolicyConfiguration \<Rightarrow> string \<Rightarrow> string \<Rightarrow> string \<Rightarrow> json" where
  "serializePolicy policyId p tenantId branchId branchName =
     JObj ([(''id'', policyId), (''tenantId'', JStr tenantId), (''branchId'', JStr branchId), (''branchName'', JStr branchName),
       (''version'', JNum (pc_version p))] @ serializePolicyValues p)"

subsection \<open>Reading and changing a policy\<close>

definition assertBranchScope :: "string \<Rightarrow> string \<Rightarrow> db \<Rightarrow> svc_error + Branch" where
  "assertBranchScope tenantId branchId d =
     (case find (\<lambda>b. br_id b = branchId \<and> br_tenantId b = tenantId) (branches d) of
        None \<Rightarrow> Inl (DomainHttpException 404 ''BRANCH_NOT_FOUND'' ''The requested branch is not in the current tenant.'')
      | Some b \<Rightarrow> if br_status b \<noteq> BranchStatus.ACTIVE then Inl (ServiceUnavailableException ''The requested branch is inactive.'')
          else Inr b)"

definition policy_invalid :: "string \<Rightarrow> svc_error" where
  "policy_invalid msg = DomainHttpException 422 ''POLICY_VALIDATION_FAILED'' msg"

definition validatePolicyRelationships :: "UpdatePolicyConfigurationDto \<Rightarrow> svc_error + unit" where
  "validatePolicyRelationships input =
     (if up_purchaseApprovalThresholdKobo input < up_purchaseFlagThresholdKobo input
      then Inl (policy_invalid ''Purchase approval threshold cannot be below the fraud flag threshold.'')
      else if up_purchaseAmountCeilingKobo input < up_purchaseApprovalThresholdKobo input
      then Inl (policy_invalid ''Purchase amount ceiling cannot be below the approval threshold.'')
      else if up_redemptionApprovalThresholdKobo input < up_minRedemptionKobo input
      then Inl (policy_invalid ''Redemption approval threshold cannot be below the minimum redemption.'')
      else Inr ())"

definition getPolicyConfiguration :: "env \<Rightarrow> (db \<Rightarrow> db) \<Rightarrow> string \<Rightarrow> string \<Rightarrow> db \<Rightarrow> svc_error + json" where
  "getPolicyConfiguration env others tenantId branchId d =
     res_bind (assertBranchScope tenantId branchId d) (\<lambda>branch.
       Inr (case find_policy tenantId branchId (others d) of
          Some p \<Rightarrow> serializePolicy (JStr (pc_id p)) p tenantId branchId (br_name branch)
        | None \<Rightarrow> serializePolicy JNull (defaultPolicy env branchId) tenantId branchId (br_name branch)))"

definition version_conflict :: "int option \<Rightarrow> svc_error" where
  "version_conflict currentVersion =
     ConflictException (JSON_stringify (JObj
       ([(''code'', JStr ''POLICY_VERSION_CONFLICT''), (''message'', JStr ''Policy changed since it was loaded; reload before saving.'')]
        @ (case currentVersion of None \<Rightarrow> [] | Some v \<Rightarrow> [(''details'', JObj [(''currentVersion'', JNum v)])]))))"

definition blank_policy :: "string \<Rightarrow> string \<Rightarrow> string \<Rightarrow> PolicyConfiguration" where
  "blank_policy tenantId branchId new_id =
     \<lparr> pc_id = new_id, pc_tenantId = tenantId, pc_branchId = branchId, pc_version = 1, pc_defaultEarnRateBps = 0,
       pc_minRedemptionKobo = 0, pc_maxRedemptionBasketPercent = 0, pc_purchaseFlagThresholdKobo = 0,
       pc_purchaseApprovalThresholdKobo = 0, pc_purchaseAmountCeilingKobo = 0, pc_redemptionApprovalThresholdKobo = 0,
       pc_offlineRedemptionDisabled = True \<rparr>"

definition current_version :: "PolicyConfiguration option \<Rightarrow> int" where
  "current_version current = (case current of Some p \<Rightarrow> pc_version p | None \<Rightarrow> 0)"

definition store_policy :: "env \<Rightarrow> string \<Rightarrow> UpdatePolicyConfigurationDto \<Rightarrow> PolicyConfiguration dbtx" where
  "store_policy env tenantId input =
     tx_bind (tx_read (find_policy tenantId (up_branchId input))) (\<lambda>current.
     tx_bind (tx_unless (current_version current = up_expectedVersion input)
       (version_conflict (Some (current_version current)))) (\<lambda>_.
     case current of
       None \<Rightarrow>
         tx_bind (tx_unless (up_expectedVersion input = 0) (version_conflict (Some 0))) (\<lambda>_.
         policy_create env (\<lambda>new_id. policyData input (blank_policy tenantId (up_branchId input) new_id)))
     | Some _ \<Rightarrow>
         tx_bind (policy_updateMany
           (\<lambda>x. policy_of tenantId (up_branchId input) x \<and> pc_version x = up_expectedVersion input)
           (\<lambda>x. (policyData input x)\<lparr>pc_version := pc_version x + 1\<rparr>)) (\<lambda>n.
         tx_bind (tx_unless (n = 1) (version_conflict None)) (\<lambda>_.
         tx_check (\<lambda>d. case find_policy tenantId (up_branchId input) d of None \<Rightarrow> Inl p2025 | Some p \<Rightarrow> Inr p)))))"

definition updatePolicy_body ::
  "env \<Rightarrow> string \<Rightarrow> string \<Rightarrow> UpdatePolicyConfigurationDto \<Rightarrow> Branch \<Rightarrow> json dbtx" where
  "updatePolicy_body env tenantId actorId input branch =
     tx_bind (store_policy env tenantId input) (\<lambda>policy.
     tx_bind (recordWithClient tenantId (Some actorId) ''configuration.policy.updated'' ''PolicyConfiguration'' (Some (pc_id policy))
       (JObj [(''branchId'', JStr (up_branchId input)), (''version'', JNum (pc_version policy)),
          (''previousVersion'', JNum (up_expectedVersion input)), (''policy'', JObj (serializePolicyValues policy))])) (\<lambda>_.
     tx_return (serializePolicy (JStr (pc_id policy)) policy tenantId (up_branchId input) (br_name branch))))"

record public_cache =
  pk_value :: json
  pk_loadedAt :: int

type_synonym config_cache = "public_cache option"

text \<open>The cache is dropped after a change; a change that fails leaves it.\<close>

definition updatePolicyConfiguration ::
  "env \<Rightarrow> (nat \<Rightarrow> db \<Rightarrow> db \<times> svc_error option) \<Rightarrow> string \<Rightarrow> string \<Rightarrow> UpdatePolicyConfigurationDto \<Rightarrow>
   config_cache \<times> db \<Rightarrow> (svc_error + json) \<times> config_cache \<times> db" where
  "updatePolicyConfiguration env sched tenantId actorId input = (\<lambda>(cache, d).
     case assertBranchScope tenantId (up_branchId input) d of
       Inl e \<Rightarrow> (Inl e, cache, d)
     | Inr branch \<Rightarrow>
         (case validatePolicyRelationships input of
            Inl e \<Rightarrow> (Inl e, cache, d)
          | Inr _ \<Rightarrow>
              (case run_transaction sched 1 (updatePolicy_body env tenantId actorId input branch) d of
                 (Inl e, d1) \<Rightarrow> (Inl e, cache, d1)
               | (Inr r, d1) \<Rightarrow> (Inr r, None, d1))))"

subsection \<open>The public configuration\<close>

definition PUBLIC_CONFIG_FRESH_MS :: int where "PUBLIC_CONFIG_FRESH_MS = 5 * 60 * 1000"

definition PUBLIC_CONFIG_STALE_MS :: int where "PUBLIC_CONFIG_STALE_MS = 30 * 60 * 1000"

definition loadConfig :: "env \<Rightarrow> string \<Rightarrow> string \<Rightarrow> db \<Rightarrow> svc_error + json" where
  "loadConfig env tenantId branchId d =
     (case (find (\<lambda>t. tn_id t = tenantId) (tenants d), find (\<lambda>b. br_id b = branchId) (branches d)) of
        (Some tenant, Some branch) \<Rightarrow>
          if br_tenantId branch \<noteq> tn_id tenant then Inl (PlainError ''Public configuration bootstrap data is inconsistent'')
          else if tn_status tenant \<noteq> TenantStatus.ACTIVE \<or> br_status branch \<noteq> BranchStatus.ACTIVE
          then Inl (ServiceUnavailableException ''Public configuration is unavailable'')
          else Inr (JObj
            [(''tenant'', JObj [(''id'', JStr (tn_id tenant)), (''name'', JStr (tn_name tenant))]),
             (''branch'', JObj [(''id'', JStr (br_id branch)), (''name'', JStr (br_name branch)),
                (''timezone'', JStr (br_timezone branch)), (''receiptWeekStartDay'', JNum (br_receiptWeekStartDay branch))]),
             (''policies'', JObj (serializePolicyValues
                (case find_policy tenantId branchId d of Some p \<Rightarrow> p | None \<Rightarrow> defaultPolicy env branchId)))])
      | _ \<Rightarrow> Inl (PlainError ''Public configuration bootstrap data is missing''))"

definition config_ids :: "json \<Rightarrow> json \<times> json" where
  "config_ids value = (json_get (json_get value ''tenant'') ''id'', json_get (json_get value ''branch'') ''id'')"

definition isCachedConfigActive :: "json \<Rightarrow> db \<Rightarrow> bool" where
  "isCachedConfigActive value d =
     (case (find (\<lambda>t. JStr (tn_id t) = fst (config_ids value)) (tenants d),
            find (\<lambda>b. JStr (br_id b) = snd (config_ids value)) (branches d)) of
        (Some tenant, Some branch) \<Rightarrow>
          tn_status tenant = TenantStatus.ACTIVE \<and> br_status branch = BranchStatus.ACTIVE \<and> br_tenantId branch = tn_id tenant
      | _ \<Rightarrow> False)"

text \<open>
  The tenant and the branch the public configuration is of: fixed ones on the staging deployment, otherwise the configured
  ones, where an old form of the default branch id is replaced.
\<close>

definition STAGING_TENANT_ID :: string where "STAGING_TENANT_ID = ''d7e5c452-a63b-445c-af0d-aa740a676905''"

definition STAGING_BRANCH_ID :: string where "STAGING_BRANCH_ID = ''80241e14-2855-4cd8-87ad-0dd06083b50a''"

definition public_scope :: "bool \<Rightarrow> string option \<Rightarrow> string option \<Rightarrow> string \<times> string" where
  "public_scope isStagingBranch configuredTenantId configuredBranchId =
     (if isStagingBranch then STAGING_TENANT_ID
      else case configuredTenantId of Some t \<Rightarrow> t | None \<Rightarrow> ''00000000-0000-4000-8000-000000000001'',
      if isStagingBranch then STAGING_BRANCH_ID
      else if configuredBranchId = Some ''00000000-0000-0000-0000-000000000002'' then ''00000000-0000-4000-8000-000000000002''
      else case configuredBranchId of Some b \<Rightarrow> b | None \<Rightarrow> ''00000000-0000-4000-8000-000000000002'')"

text \<open>
  \<open>reach\<close> tells whether the database can be reached: \<open>Some e\<close> is the error of a failed query. \<open>now\<close> and \<open>later\<close> are
  the readings of the clock before and after the load; \<open>scope\<close> is the \<open>public_scope\<close> of the deployment.
\<close>

definition load_or_stale ::
  "env \<Rightarrow> svc_error option \<Rightarrow> string \<times> string \<Rightarrow> int \<Rightarrow> int \<Rightarrow> db \<Rightarrow> config_cache \<Rightarrow> (svc_error + json) \<times> config_cache" where
  "load_or_stale env reach scope now later d cache =
     (case (case reach of Some e \<Rightarrow> Inl e | None \<Rightarrow> loadConfig env (fst scope) (snd scope) d) of
        Inr v \<Rightarrow> (Inr v, Some \<lparr> pk_value = v, pk_loadedAt = later \<rparr>)
      | Inl e \<Rightarrow>
          (case cache of
             Some c \<Rightarrow>
               if (case e of ServiceUnavailableException _ \<Rightarrow> False | _ \<Rightarrow> True) \<and> now - pk_loadedAt c < PUBLIC_CONFIG_STALE_MS
               then (Inr (pk_value c), cache) else (Inl e, cache)
           | None \<Rightarrow> (Inl e, cache)))"

definition getPublicConfig ::
  "env \<Rightarrow> svc_error option \<Rightarrow> string \<times> string \<Rightarrow> int \<Rightarrow> int \<Rightarrow> db \<Rightarrow> config_cache \<Rightarrow> (svc_error + json) \<times> config_cache" where
  "getPublicConfig env reach scope now later d cache =
     (case cache of
        Some c \<Rightarrow>
          if now - pk_loadedAt c < PUBLIC_CONFIG_FRESH_MS
          then (case reach of
                  Some e \<Rightarrow> (Inl e, cache)
                | None \<Rightarrow> if isCachedConfigActive (pk_value c) d then (Inr (pk_value c), cache)
                    else load_or_stale env reach scope now later d None)
          else load_or_stale env reach scope now later d cache
      | None \<Rightarrow> load_or_stale env reach scope now later d None)"

subsection \<open>The life of the policies\<close>

definition policy_sound :: "PolicyConfiguration \<Rightarrow> bool" where
  "policy_sound p = (1 \<le> pc_version p \<and> pc_purchaseFlagThresholdKobo p \<le> pc_purchaseApprovalThresholdKobo p
     \<and> pc_purchaseApprovalThresholdKobo p \<le> pc_purchaseAmountCeilingKobo p \<and> pc_minRedemptionKobo p \<le> pc_redemptionApprovalThresholdKobo p)"

definition policies_ok :: "db \<Rightarrow> bool" where
  "policies_ok d = (distinct (map (\<lambda>p. (pc_tenantId p, pc_branchId p)) (policyConfigurations d))
     \<and> (\<forall>p\<in>set (policyConfigurations d). policy_sound p))"

definition policy_moves :: "PolicyConfiguration \<Rightarrow> PolicyConfiguration \<Rightarrow> bool" where
  "policy_moves x y = (pc_id y = pc_id x \<and> pc_tenantId y = pc_tenantId x \<and> pc_branchId y = pc_branchId x
     \<and> (y = x \<or> pc_version x < pc_version y))"

abbreviation policies_follow :: "db \<Rightarrow> db \<Rightarrow> bool" where
  "policies_follow \<equiv> table_follows policyConfigurations policy_moves policies_ok"

interpretation policies_life: table_life policyConfigurations policy_moves policies_ok
  by unfold_locales (auto simp: policy_moves_def policies_ok_def)

lemma validate_sound:
  assumes "validatePolicyRelationships input = Inr u" and "1 \<le> pc_version p"
  shows "policy_sound (policyData input p)"
  using assms by (auto simp: validatePolicyRelationships_def policy_sound_def policyData_def split: if_split_asm)

lemma policyData_keeps [simp]:
  "pc_id (policyData input x) = pc_id x" "pc_tenantId (policyData input x) = pc_tenantId x"
  "pc_branchId (policyData input x) = pc_branchId x" "pc_version (policyData input x) = pc_version x"
  "policyData input (policyData input x) = policyData input x" "policyData input (x\<lparr>pc_version := v\<rparr>) = (policyData input x)\<lparr>pc_version := v\<rparr>"
  by (simp_all add: policyData_def)

lemma policy_create_follows:
  assumes "\<And>i. policy_sound (mk i)"
  shows "tx_rel policies_follow (policy_create env mk)"
proof (rule tx_relI)
  fix d x d'
  assume "policy_create env mk d = Inr (x, d')"
  then have x: "policyConfigurations d' = policyConfigurations d @ [x]" "policy_sound x"
    and "\<forall>y\<in>set (policyConfigurations d). pc_tenantId y = pc_tenantId x \<longrightarrow> pc_branchId y \<noteq> pc_branchId x"
    using assms by (auto simp: policy_create_def create_row_eq_Inr first_violation_None policy_constraints_def list_ex_iff split: if_split_asm)
  then show "policies_follow d d'"
    by (intro policies_life.follow_append[OF x(1)]) (auto simp: policies_ok_def)
qed

lemma policy_updateMany_follows:
  assumes "\<And>x. policy_moves x (f x)" and "\<And>x. policy_sound x \<Longrightarrow> policy_sound (f x)"
  shows "tx_rel policies_follow (policy_updateMany p f)"
proof (rule tx_relI)
  fix d n d'
  assume "policy_updateMany p f d = Inr (n, d')"
  then have d': "policyConfigurations d' = updated p f (policyConfigurations d)" by (auto simp: policy_updateMany_def)
  have keys: "map (\<lambda>p. (pc_tenantId p, pc_branchId p)) (updated p f xs) = map (\<lambda>p. (pc_tenantId p, pc_branchId p)) xs" for xs
    using assms(1) by (auto simp: updated_def policy_moves_def)
  have "\<forall>x\<in>set (updated p f xs). policy_sound x" if "\<forall>x\<in>set xs. policy_sound x" for xs
    using that assms(2) by (auto simp: updated_def)
  then have "policies_ok d \<Longrightarrow> policies_ok d'" unfolding policies_ok_def d' keys by blast
  then show "policies_follow d d'" by (rule policies_life.follow_updated[OF d' assms(1)])
qed

lemma store_policy_follows:
  assumes "validatePolicyRelationships input = Inr u"
  shows "tx_rel policies_follow (store_policy env t input)"
proof -
  have a: "policy_sound (policyData input (blank_policy t b i))" for b i
    by (rule validate_sound[OF assms]) (simp add: blank_policy_def)
  have b: "policy_sound ((policyData input x)\<lparr>pc_version := pc_version x + 1\<rparr>)" if "policy_sound x" for x
    using validate_sound[OF assms, of x] that by (simp add: policy_sound_def policyData_def)
  show ?thesis
    unfolding store_policy_def
    by (auto split: option.split intro!: policies_life.rel_intros policy_create_follows a policy_updateMany_follows b)
      (simp add: policy_moves_def)
qed

lemma updatePolicy_body_follows:
  assumes "validatePolicyRelationships input = Inr u"
  shows "tx_rel policies_follow (updatePolicy_body env t a input b)"
proof -
  have "tx_frame policyConfigurations (recordWithClient t ac1 ac et e m)" for ac1 ac et e m by (intro frame_intros) simp
  then show ?thesis
    unfolding updatePolicy_body_def
    by (intro policies_life.rel_intros store_policy_follows[OF assms] policies_life.follow_frame)
qed

context keyed_order
begin

lemma updatePolicyConfiguration_rel:
  assumes "\<And>k d. R d (fst (sched k d))"
    and "\<And>b. validatePolicyRelationships input = Inr () \<Longrightarrow> tx_rel R (updatePolicy_body env t a input b)"
  shows "R d (snd (snd (updatePolicyConfiguration env sched t a input (cache, d))))"
proof (cases "assertBranchScope t (up_branchId input) d")
  case (Inr b)
  then have "R d (snd (run_transaction sched 1 (updatePolicy_body env t a input b) d))" if "validatePolicyRelationships input = Inr ()"
    by (intro run_transaction_rel assms that)
  moreover have "snd (snd (updatePolicyConfiguration env sched t a input (cache, d))) =
      (if validatePolicyRelationships input = Inr () then snd (run_transaction sched 1 (updatePolicy_body env t a input b) d) else d)"
    by (simp add: updatePolicyConfiguration_def Inr split: prod.split sum.split)
  ultimately show ?thesis using R_refl by simp
qed (simp add: updatePolicyConfiguration_def R_refl)

end

lemmas updatePolicyConfiguration_follows = policies_life.updatePolicyConfiguration_rel[OF _ updatePolicy_body_follows]

lemma find_policy_unique:
  assumes "policies_ok d" and "p \<in> set (policyConfigurations d)" and "policy_of t b p"
  shows "find_policy t b d = Some p"
proof -
  obtain q where q: "find_policy t b d = Some q"
    using assms(2,3) unfolding find_policy_def by (cases "find (policy_of t b) (policyConfigurations d)") (auto simp: find_None_iff)
  then have "q \<in> set (policyConfigurations d)" "policy_of t b q" by (auto simp: find_policy_def find_Some_iff)
  with assms have "q = p"
    using inj_onD[of "\<lambda>p. (pc_tenantId p, pc_branchId p)" "set (policyConfigurations d)" q p]
    by (simp add: policies_ok_def distinct_map policy_of_def)
  with q show ?thesis by simp
qed

lemma store_policy_effect:
  assumes "policies_ok d" and "store_policy env t input d = Inr (p, d')"
  shows "current_version (find_policy t (up_branchId input) d) = up_expectedVersion input
    \<and> pc_version p = up_expectedVersion input + 1 \<and> policy_of t (up_branchId input) p \<and> p \<in> set (policyConfigurations d')
    \<and> policyData input p = p"
proof (cases "find_policy t (up_branchId input) d")
  case None
  with assms(2) obtain i where "up_expectedVersion input = 0" "p = policyData input (blank_policy t (up_branchId input) i)"
    "p \<in> set (policyConfigurations d')"
    by (auto simp: store_policy_def tx_bind_eq_Inr current_version_def policy_create_def create_row_eq_Inr)
  with None show ?thesis by (simp add: current_version_def policy_of_def) (simp add: blank_policy_def)
next
  case (Some c)
  let ?q = "\<lambda>x. policy_of t (up_branchId input) x \<and> pc_version x = up_expectedVersion input"
  let ?f = "\<lambda>x. (policyData input x)\<lparr>pc_version := pc_version x + 1\<rparr>"
  from Some assms(2) have v: "current_version (Some c) = up_expectedVersion input"
    and d': "policyConfigurations d' = updated ?q ?f (policyConfigurations d)"
    and p: "find_policy t (up_branchId input) d' = Some p"
    by (auto simp: store_policy_def tx_bind_eq_Inr tx_check_eq_Inr policy_updateMany_def split: option.split_asm)
  from p have pin: "p \<in> set (policyConfigurations d')" "policy_of t (up_branchId input) p" by (auto simp: find_policy_def find_Some_iff)
  then obtain x where x: "x \<in> set (policyConfigurations d)" "p = (if ?q x then ?f x else x)" by (auto simp: d' updated_def)
  then have "policy_of t (up_branchId input) x" using pin(2) by (auto simp: policy_of_def split: if_split_asm)
  with find_policy_unique[OF assms(1) x(1)] Some v have "?q x" by (simp add: current_version_def)
  with x pin v Some show ?thesis by (auto simp: current_version_def)
qed

text \<open>Changes of policies, in any order and with other changes before their transaction.\<close>

inductive config_step :: "env \<Rightarrow> db \<Rightarrow> db \<Rightarrow> bool" for env where
  change: "session_steps (config_step env) sched (\<lambda>_ d. d) \<Longrightarrow>
    config_step env d (snd (snd (updatePolicyConfiguration env sched tenantId actorId input (cache, d))))"
| other: "policyConfigurations d' = policyConfigurations d \<Longrightarrow> config_step env d d'"

lemma config_step_follows: "config_step env d d' \<Longrightarrow> policies_follow d d'"
proof (induction rule: config_step.induct)
  case (change sched d tenantId actorId input cache)
  have "policies_follow x y" if "(\<lambda>x y. config_step env x y \<and> policies_follow x y)\<^sup>*\<^sup>* x y" for x y
    using that by (induction rule: rtranclp_induct) (auto intro: policies_life.R_refl policies_life.R_trans)
  with change show ?case by (intro updatePolicyConfiguration_follows) (auto simp: session_steps_def)
qed (rule policies_life.follow_same)

lemma config_run_follows: "(config_step env)\<^sup>*\<^sup>* d d' \<Longrightarrow> policies_follow d d'"
  by (induction rule: rtranclp_induct) (auto intro: policies_life.R_refl policies_life.R_trans config_step_follows)

text \<open>
  C37: However changes of policies interleave, a branch has one policy, which is never removed and never
  changes without a higher version, and every stored policy has its thresholds in order: flag, approval and ceiling of
  a purchase, and minimum and approval of a redemption.
\<close>

theorem policies_life_cycle:
  assumes "(config_step env)\<^sup>*\<^sup>* d d'" and "policies_ok d"
  shows "policies_ok d' \<and> length (policyConfigurations d) \<le> length (policyConfigurations d')
    \<and> (\<forall>i<length (policyConfigurations d). policy_moves (policyConfigurations d ! i) (policyConfigurations d' ! i))"
  using table_follows_nth[OF config_run_follows[OF assms(1)] assms(2)] .

lemma updatePolicy_body_stores:
  assumes "updatePolicy_body env t a input b d = Inr (r, d')"
  obtains p d1 where "store_policy env t input d = Inr (p, d1)" and "policyConfigurations d' = policyConfigurations d1"
  using assms by (auto simp: updatePolicy_body_def tx_bind_eq_Inr recordWithClient_def auditLog_create_def)

lemma find_policy_later:
  assumes "policies_ok d" and "policies_follow d d'" and "p \<in> set (policyConfigurations d)" and "policy_of t b p"
  obtains q where "find_policy t b d' = Some q" and "policy_moves p q"
proof -
  from assms(3) obtain i where i: "i < length (policyConfigurations d)" "p = policyConfigurations d ! i"
    by (auto simp: in_set_conv_nth)
  from table_follows_nth[OF assms(2,1)] i have m: "policies_ok d'" "policy_moves p (policyConfigurations d' ! i)"
    "i < length (policyConfigurations d')" by auto
  then have "policy_of t b (policyConfigurations d' ! i)" using assms(4) by (auto simp: policy_moves_def policy_of_def)
  then have "find_policy t b d' = Some (policyConfigurations d' ! i)"
    by (rule find_policy_unique[OF m(1) nth_mem[OF m(3)]])
  with m that show ?thesis by blast
qed

text \<open>
  C38: No change of a policy is lost. One that commits raises the version the client named by one and stores the
  values it sent; any later change that names the same version, whatever was committed between, is refused with the version it
  should have named.
\<close>

theorem policy_no_lost_update:
  assumes "policies_ok d" and "validatePolicyRelationships input = Inr u" and "updatePolicy_body env t a input b d = Inr (r, d1)"
    and "policies_follow d1 d2"
    and "up_branchId input' = up_branchId input" and "up_expectedVersion input' = up_expectedVersion input"
  shows "(\<exists>p. find_policy t (up_branchId input) d1 = Some p \<and> pc_version p = up_expectedVersion input + 1 \<and> policyData input p = p)
    \<and> (\<exists>v>up_expectedVersion input. updatePolicy_body env t a' input' b' d2 = Inl (version_conflict (Some v)))"
proof -
  have ok1: "policies_ok d1"
    using tx_relD[OF updatePolicy_body_follows[OF assms(2)] assms(3)] assms(1) by (simp add: table_follows_def)
  from assms(3) obtain p d0 where s: "store_policy env t input d = Inr (p, d0)" and e0: "policyConfigurations d1 = policyConfigurations d0"
    by (rule updatePolicy_body_stores)
  note e = store_policy_effect[OF assms(1) s]
  then have p1: "find_policy t (up_branchId input) d1 = Some p" by (intro find_policy_unique[OF ok1]) (simp_all add: e0)
  obtain q where q: "find_policy t (up_branchId input) d2 = Some q" "policy_moves p q"
    by (rule find_policy_later[OF ok1 assms(4)]) (use e e0 in auto)
  have v: "pc_version q > up_expectedVersion input" using q(2) e by (auto simp: policy_moves_def)
  then have "updatePolicy_body env t a' input' b' d2 = Inl (version_conflict (Some (pc_version q)))"
    using q(1) assms(5,6) by (simp add: updatePolicy_body_def store_policy_def tx_bind_def current_version_def tx_unless_def)
  with e p1 v show ?thesis by blast
qed

subsection \<open>The public configuration during an outage\<close>

lemma loadConfig_active:
  assumes "loadConfig env t b d = Inr v"
  shows "isCachedConfigActive v d"
proof -
  from assms obtain tenant branch where f: "find (\<lambda>x. tn_id x = t) (tenants d) = Some tenant" "find (\<lambda>x. br_id x = b) (branches d) = Some branch"
    and a: "br_tenantId branch = tn_id tenant" "tn_status tenant = TenantStatus.ACTIVE" "br_status branch = BranchStatus.ACTIVE"
    and v: "config_ids v = (JStr (tn_id tenant), JStr (br_id branch))"
    by (auto simp: loadConfig_def config_ids_def json_get_def split: option.split_asm if_split_asm)
  from f have "tn_id tenant = t" "br_id branch = b" by (auto simp: find_Some_iff)
  with f a v show ?thesis by (simp add: isCachedConfigActive_def)
qed

text \<open>
  A configuration that is handed out was either just loaded, or loaded less than half an hour ago; a
  cached one younger than five minutes only while its tenant and branch are active. While the database cannot be reached a
  configuration between five and thirty minutes old is still served, but one younger than five minutes is not: its
  check fails and the call with it.
\<close>

theorem getPublicConfig_outage:
  "(getPublicConfig env reach (public_scope staging t b) now later d cache = (Inr v, cache') \<longrightarrow>
      (reach = None \<and> (\<exists>t' b'. public_scope staging t b = (t', b') \<and> loadConfig env t' b' d = Inr v) \<and> isCachedConfigActive v d)
      \<or> (\<exists>c. cache = Some c \<and> v = pk_value c \<and> now - pk_loadedAt c < PUBLIC_CONFIG_STALE_MS
          \<and> (now - pk_loadedAt c < PUBLIC_CONFIG_FRESH_MS \<longrightarrow> isCachedConfigActive v d)))
    \<and> (PUBLIC_CONFIG_FRESH_MS \<le> now - pk_loadedAt c \<and> now - pk_loadedAt c < PUBLIC_CONFIG_STALE_MS \<longrightarrow>
      getPublicConfig env (Some (PlainError m)) (public_scope staging t b) now later d (Some c) = (Inr (pk_value c), Some c))
    \<and> (now - pk_loadedAt c < PUBLIC_CONFIG_FRESH_MS \<longrightarrow>
      getPublicConfig env (Some (PlainError m)) (public_scope staging t b) now later d (Some c) = (Inl (PlainError m), Some c))"
proof (intro conjI impI)
  obtain t' b' where s: "public_scope staging t b = (t', b')" by (cases "public_scope staging t b")
  assume "getPublicConfig env reach (public_scope staging t b) now later d cache = (Inr v, cache')"
  then show "(reach = None \<and> (\<exists>t' b'. public_scope staging t b = (t', b') \<and> loadConfig env t' b' d = Inr v) \<and> isCachedConfigActive v d)
      \<or> (\<exists>c. cache = Some c \<and> v = pk_value c \<and> now - pk_loadedAt c < PUBLIC_CONFIG_STALE_MS
          \<and> (now - pk_loadedAt c < PUBLIC_CONFIG_FRESH_MS \<longrightarrow> isCachedConfigActive v d))"
    unfolding s
    by (auto simp: getPublicConfig_def load_or_stale_def PUBLIC_CONFIG_FRESH_MS_def PUBLIC_CONFIG_STALE_MS_def loadConfig_active
        split: option.split_asm sum.split_asm if_split_asm)
qed (simp_all add: getPublicConfig_def load_or_stale_def)

lemma updatePolicy_body_money: "tx_frame financial (updatePolicy_body env t a input b)"
  unfolding updatePolicy_body_def store_policy_def policy_create_def policy_updateMany_def
  by (auto intro!: frame_intros create_row_frame split: option.split simp: financial_def) (auto simp: tx_frame_def financial_def)

subsection \<open>Runs on the small shop\<close>

definition demo_policy :: "int \<Rightarrow> UpdatePolicyConfigurationDto" where
  "demo_policy v = \<lparr> up_branchId = ''B'', up_defaultEarnRateBps = 300, up_minRedemptionKobo = 10000, up_maxRedemptionBasketPercent = 50,
     up_purchaseFlagThresholdKobo = 100, up_purchaseApprovalThresholdKobo = 200, up_purchaseAmountCeilingKobo = 300,
     up_redemptionApprovalThresholdKobo = 20000, up_offlineRedemptionDisabled = True, up_expectedVersion = v \<rparr>"

lemma demo_policies_ok: "policies_ok demo_db"
  by (simp add: policies_ok_def demo_db_def)

lemma demo_policy_valid: "validatePolicyRelationships (demo_policy v) = Inr ()"
  by (simp add: validatePolicyRelationships_def demo_policy_def)

lemma demo_policy_update:
  obtains r d' where "updatePolicy_body demo_env ''T'' ''W'' (demo_policy 0) (hd (branches demo_db)) demo_db = Inr (r, d')"
    and "updatePolicyConfiguration demo_env alone ''T'' ''W'' (demo_policy 0) (None, demo_db) = (Inr r, None, d')"
    and "map pc_version (policyConfigurations d') = [1]"
proof -
  have "map_sum (\<lambda>e. e) (\<lambda>(r, d). map pc_version (policyConfigurations d))
      (updatePolicy_body demo_env ''T'' ''W'' (demo_policy 0) (hd (branches demo_db)) demo_db) = Inr [1]"
    by code_simp
  then obtain r d' where b: "updatePolicy_body demo_env ''T'' ''W'' (demo_policy 0) (hd (branches demo_db)) demo_db = Inr (r, d')"
    and v: "map pc_version (policyConfigurations d') = [1]" by (auto elim: committed_result)
  have "up_branchId (demo_policy 0) = ''B''" "assertBranchScope ''T'' ''B'' demo_db = Inr (hd (branches demo_db))"
    by (simp add: demo_policy_def) code_simp
  with b v show ?thesis
    by (intro that) (simp_all add: updatePolicyConfiguration_def run_transaction_def alone_def demo_policy_valid)
qed

theorem policies_life_cycle_witness:
  "\<exists>d' :: db. map pc_version (policyConfigurations d') = [1] \<and> policies_ok d'"
proof -
  obtain r d' where c: "updatePolicyConfiguration demo_env alone ''T'' ''W'' (demo_policy 0) (None, demo_db) = (Inr r, None, d')"
    and v: "map pc_version (policyConfigurations d') = [1]" by (rule demo_policy_update)
  have "config_step demo_env demo_db d'"
    using config_step.change[OF session_steps_alone, of demo_env demo_db "''T''" "''W''" "demo_policy 0" None] c by simp
  from policies_life_cycle[OF r_into_rtranclp[where r = "config_step demo_env", OF this] demo_policies_ok] v show ?thesis
    by (intro exI[of _ d']) simp
qed

theorem policy_no_lost_update_witness:
  "\<exists>d1 v. (0 :: int) < v \<and> updatePolicy_body demo_env ''T'' ''V'' (demo_policy 0) (hd (branches demo_db)) d1 = Inl (version_conflict (Some v))
     \<and> map pc_version (policyConfigurations d1) = [1]"
proof -
  obtain r d1 where b: "updatePolicy_body demo_env ''T'' ''W'' (demo_policy 0) (hd (branches demo_db)) demo_db = Inr (r, d1)"
    and w: "map pc_version (policyConfigurations d1) = [1]" by (rule demo_policy_update)
  have "up_expectedVersion (demo_policy 0) = 0" by (simp add: demo_policy_def)
  with policy_no_lost_update[OF demo_policies_ok demo_policy_valid b policies_life.R_refl refl refl, of "''V''" "hd (branches demo_db)"]
  obtain v where "0 < v" "updatePolicy_body demo_env ''T'' ''V'' (demo_policy 0) (hd (branches demo_db)) d1 = Inl (version_conflict (Some v))"
    by auto
  with w show ?thesis by (intro exI[of _ d1] exI[of _ v]) simp
qed

theorem getPublicConfig_outage_witness:
  "(\<exists>v c. getPublicConfig demo_env None (public_scope False (Some ''T'') (Some ''B'')) demo_now demo_now demo_db None = (Inr v, c)
      \<and> isCachedConfigActive v demo_db)
   \<and> getPublicConfig demo_env (Some (PlainError ''down'')) (public_scope False None None) 400000 400000 demo_db
       (Some \<lparr> pk_value = JNull, pk_loadedAt = 0 \<rparr>) = (Inr JNull, Some \<lparr> pk_value = JNull, pk_loadedAt = 0 \<rparr>)
   \<and> getPublicConfig demo_env (Some (PlainError ''down'')) (public_scope False None None) 1000 1000 demo_db
       (Some \<lparr> pk_value = JNull, pk_loadedAt = 0 \<rparr>) = (Inl (PlainError ''down''), Some \<lparr> pk_value = JNull, pk_loadedAt = 0 \<rparr>)"
proof (intro conjI)
  have sc: "public_scope False (Some ''T'') (Some ''B'') = (''T'', ''B'')" by (simp add: public_scope_def)
  have "\<exists>v c. getPublicConfig demo_env None (public_scope False (Some ''T'') (Some ''B'')) demo_now demo_now demo_db None = (Inr v, c)"
    unfolding sc by (simp add: getPublicConfig_def load_or_stale_def loadConfig_def demo_db_def)
  then obtain v c where g: "getPublicConfig demo_env None (public_scope False (Some ''T'') (Some ''B'')) demo_now demo_now demo_db None = (Inr v, c)"
    by blast
  from getPublicConfig_outage g
  show "\<exists>v c. getPublicConfig demo_env None (public_scope False (Some ''T'') (Some ''B'')) demo_now demo_now demo_db None = (Inr v, c)
      \<and> isCachedConfigActive v demo_db" by blast
  show "getPublicConfig demo_env (Some (PlainError ''down'')) (public_scope False None None) 400000 400000 demo_db
       (Some \<lparr> pk_value = JNull, pk_loadedAt = 0 \<rparr>) = (Inr JNull, Some \<lparr> pk_value = JNull, pk_loadedAt = 0 \<rparr>)"
    using getPublicConfig_outage[where now = 400000 and c = "\<lparr> pk_value = JNull, pk_loadedAt = 0 \<rparr>"]
    by (simp add: PUBLIC_CONFIG_FRESH_MS_def PUBLIC_CONFIG_STALE_MS_def)
  show "getPublicConfig demo_env (Some (PlainError ''down'')) (public_scope False None None) 1000 1000 demo_db
       (Some \<lparr> pk_value = JNull, pk_loadedAt = 0 \<rparr>) = (Inl (PlainError ''down''), Some \<lparr> pk_value = JNull, pk_loadedAt = 0 \<rparr>)"
    using getPublicConfig_outage[where now = 1000 and c = "\<lparr> pk_value = JNull, pk_loadedAt = 0 \<rparr>"] by (simp add: PUBLIC_CONFIG_FRESH_MS_def)
qed

end
