(* ===== verification/Expiry_Reminders.thy ===== *)
theory Expiry_Reminders
  imports Keyed_Runs Sms_Templates
begin

text \<open>
  \<^verbatim>\<open>src/modules/credit-expiry/expiry-reminder.service.ts\<close>: the sweep that queues one message per customer whose credit
  expires a given number of days from now. The customers are found by one query; each reminder is a
  transaction of its own, which reads the lots again under their locks. \<open>sched k\<close> is what other
  sessions commit before the \<open>k\<close>-th transaction, or the error it fails with.
\<close>

subsection \<open>The sweep\<close>

definition startOfUtcDay :: "int \<Rightarrow> int" where
  "startOfUtcDay t = date_UTC (getUTCFullYear t) (getUTCMonth t) (getUTCDate t) 0 0 0 0"

definition addDaysUtc :: "int \<Rightarrow> int \<Rightarrow> int" where
  "addDaysUtc t days = t + days * 24 * 60 * 60 * 1000"

record ReminderCandidate =
  rmc_tenantId :: string
  rmc_customerId :: string
  rmc_phoneE164 :: string

record RevalidatedReminderCandidate =
  rv_totalExpiringKobo :: int
  rv_earliestExpiresAt :: int
  rv_latestExpiresAt :: int

definition expiring :: "int \<Rightarrow> int \<Rightarrow> CreditLot \<Rightarrow> bool" where
  "expiring reminderDate reminderDateEnd l =
     (lot_remainingAmountKobo l > 0 \<and> reminderDate \<le> lot_expiresAt l \<and> lot_expiresAt l < reminderDateEnd)"

definition reminded :: "string \<Rightarrow> string \<Rightarrow> int \<Rightarrow> CreditExpiryReminder \<Rightarrow> bool" where
  "reminded tenantId customerId reminderDate r =
     (cer_tenantId r = tenantId \<and> cer_customerId r = customerId \<and> cer_reminderDate r = reminderDate)"

text \<open>The query: one row per customer with credit that expires that day and no reminder for the day.\<close>

definition reminder_candidates :: "int \<Rightarrow> int \<Rightarrow> nat \<Rightarrow> db \<Rightarrow> ReminderCandidate list" where
  "reminder_candidates reminderDate reminderDateEnd batchSize d =
     (let lots = filter (\<lambda>l. expiring reminderDate reminderDateEnd l
            \<and> \<not> list_ex (reminded (lot_tenantId l) (lot_customerId l) reminderDate) (creditExpiryReminders d)) (creditLots d);
          rows = concat (map (\<lambda>l. map (\<lambda>c. \<lparr> rmc_tenantId = lot_tenantId l, rmc_customerId = lot_customerId l, rmc_phoneE164 = cu_phoneE164 c \<rparr>)
            (filter (\<lambda>c. cu_tenantId c = lot_tenantId l \<and> cu_id c = lot_customerId l) (customers d))) lots) in
      take batchSize (sort_key (\<lambda>c. (rmc_tenantId c, rmc_customerId c)) (remdups rows)))"

definition expiring_lots :: "string \<Rightarrow> string \<Rightarrow> int \<Rightarrow> int \<Rightarrow> db \<Rightarrow> CreditLot list" where
  "expiring_lots tenantId customerId reminderDate reminderDateEnd d =
     sort_key lot_order (filter (\<lambda>l. lot_tenantId l = tenantId \<and> lot_customerId l = customerId
       \<and> expiring reminderDate reminderDateEnd l) (creditLots d))"

fun add_lots :: "CreditLot list \<Rightarrow> RevalidatedReminderCandidate \<Rightarrow> RevalidatedReminderCandidate" where
  "add_lots [] r = r"
| "add_lots (l # ls) r = add_lots ls
     \<lparr> rv_totalExpiringKobo = rv_totalExpiringKobo r + lot_remainingAmountKobo l,
       rv_earliestExpiresAt = (if lot_expiresAt l < rv_earliestExpiresAt r then lot_expiresAt l else rv_earliestExpiresAt r),
       rv_latestExpiresAt = (if lot_expiresAt l > rv_latestExpiresAt r then lot_expiresAt l else rv_latestExpiresAt r) \<rparr>"

definition buildRevalidatedReminderCandidate ::
  "string \<Rightarrow> string \<Rightarrow> int \<Rightarrow> int \<Rightarrow> db \<Rightarrow> RevalidatedReminderCandidate option" where
  "buildRevalidatedReminderCandidate tenantId customerId reminderDate reminderDateEnd d =
     (case expiring_lots tenantId customerId reminderDate reminderDateEnd d of
        [] \<Rightarrow> None
      | l # ls \<Rightarrow> Some (add_lots (l # ls)
          \<lparr> rv_totalExpiringKobo = 0, rv_earliestExpiresAt = lot_expiresAt l, rv_latestExpiresAt = lot_expiresAt l \<rparr>))"

definition creditExpiryReminder_constraints :: "db \<Rightarrow> CreditExpiryReminder \<Rightarrow> (bool \<times> string list) list" where
  "creditExpiryReminder_constraints d row =
      [(list_ex (\<lambda>x. cer_id x = cer_id row) (creditExpiryReminders d), [''id'']),
       (list_ex (reminded (cer_tenantId row) (cer_customerId row) (cer_reminderDate row)) (creditExpiryReminders d),
          [''tenantId'', ''customerId'', ''reminderDate'']),
       (list_ex (\<lambda>x. cer_outboxEventId x = cer_outboxEventId row) (creditExpiryReminders d), [''outboxEventId''])]"

definition creditExpiryReminder_create :: "env \<Rightarrow> (string \<Rightarrow> CreditExpiryReminder) \<Rightarrow> CreditExpiryReminder dbtx" where
  "creditExpiryReminder_create env mk =
     create_row env creditExpiryReminder_constraints (\<lambda>row d. d\<lparr>creditExpiryReminders := creditExpiryReminders d @ [row]\<rparr>) mk"

definition write_reminder ::
  "env \<Rightarrow> int \<Rightarrow> int \<Rightarrow> ReminderCandidate \<Rightarrow> RevalidatedReminderCandidate \<Rightarrow> unit dbtx" where
  "write_reminder env now reminderDate candidate rv =
     (let payload = buildCreditExpiryReminderSmsPayload (rmc_customerId candidate) (rmc_phoneE164 candidate)
            (rv_totalExpiringKobo rv) (rv_earliestExpiresAt rv) (rv_latestExpiresAt rv) in
      tx_bind (outboxEvent_create env (\<lambda>new_id.
        \<lparr> ob_id = new_id, ob_tenantId = rmc_tenantId candidate, ob_aggregateType = ''customer'', ob_aggregateId = rmc_customerId candidate,
          ob_eventType = ''sms.send'', ob_payload = payload, ob_nextAttemptAt = Some now \<rparr>)) (\<lambda>outboxEvent.
      tx_bind (smsMessage_create env (\<lambda>new_id.
        \<lparr> sms_id = new_id, sms_tenantId = rmc_tenantId candidate, sms_receiptId = None, sms_outboxEventId = ob_id outboxEvent,
          sms_ledgerEntryId = None, sms_redemptionId = None, sms_adjustmentId = None,
          sms_phoneE164 = rmc_phoneE164 candidate, sms_template = ''credit-expiry-reminder-v1'', sms_payload = payload,
          sms_status = SmsMessageStatus.QUEUED, sms_queuedAt = now \<rparr>)) (\<lambda>_.
      tx_void (creditExpiryReminder_create env (\<lambda>new_id.
        \<lparr> cer_id = new_id, cer_tenantId = rmc_tenantId candidate, cer_customerId = rmc_customerId candidate,
          cer_reminderDate = reminderDate, cer_totalExpiringKobo = rv_totalExpiringKobo rv,
          cer_earliestExpiresAt = rv_earliestExpiresAt rv, cer_latestExpiresAt = rv_latestExpiresAt rv,
          cer_outboxEventId = ob_id outboxEvent \<rparr>)))))"

definition remind ::
  "env \<Rightarrow> int \<Rightarrow> int \<Rightarrow> int \<Rightarrow> ReminderCandidate \<Rightarrow> RevalidatedReminderCandidate option dbtx" where
  "remind env now reminderDate reminderDateEnd candidate =
     tx_bind (tx_read (buildRevalidatedReminderCandidate (rmc_tenantId candidate) (rmc_customerId candidate)
       reminderDate reminderDateEnd)) (\<lambda>revalidated.
     case revalidated of
       None \<Rightarrow> tx_return None
     | Some rv \<Rightarrow> tx_bind (write_reminder env now reminderDate candidate rv) (\<lambda>_. tx_return (Some rv)))"

definition isReminderUniquenessConflict :: "svc_error \<Rightarrow> bool" where
  "isReminderUniquenessConflict e = (case e of PrismaKnownRequestError code _ _ \<Rightarrow> code = ''P2002'' | _ \<Rightarrow> False)"

fun remind_all ::
  "env \<Rightarrow> (nat \<Rightarrow> db \<Rightarrow> db \<times> svc_error option) \<Rightarrow> int \<Rightarrow> int \<Rightarrow> int \<Rightarrow> ReminderCandidate list \<Rightarrow> nat \<Rightarrow> nat \<times> int \<Rightarrow> db \<Rightarrow>
   (svc_error + nat \<times> int) \<times> db" where
  "remind_all env sched now reminderDate reminderDateEnd [] k acc d = (Inr acc, d)"
| "remind_all env sched now reminderDate reminderDateEnd (c # cs) k (n, amountKobo) d =
     (case run_transaction sched k (remind env now reminderDate reminderDateEnd c) d of
        (Inr None, d1) \<Rightarrow> remind_all env sched now reminderDate reminderDateEnd cs (Suc k) (n, amountKobo) d1
      | (Inr (Some rv), d1) \<Rightarrow>
          remind_all env sched now reminderDate reminderDateEnd cs (Suc k) (n + 1, amountKobo + rv_totalExpiringKobo rv) d1
      | (Inl e, d1) \<Rightarrow>
          if isReminderUniquenessConflict e
          then remind_all env sched now reminderDate reminderDateEnd cs (Suc k) (n, amountKobo) d1
          else (Inl e, d1))"

definition enqueueDueReminders ::
  "env \<Rightarrow> (nat \<Rightarrow> db \<Rightarrow> db \<times> svc_error option) \<Rightarrow> int \<Rightarrow> int \<Rightarrow> int \<Rightarrow> db \<Rightarrow> (svc_error + nat \<times> int) \<times> db" where
  "enqueueDueReminders env sched now reminderDays batchSize d =
     (if reminderDays \<le> 0 then (Inl (BadRequestException ''reminderDays must be a positive integer''), d)
      else if batchSize \<le> 0 then (Inl (BadRequestException ''batchSize must be a positive integer''), d)
      else
        let reminderDate = startOfUtcDay (addDaysUtc now reminderDays);
            reminderDateEnd = addDaysUtc reminderDate 1 in
        remind_all env sched now reminderDate reminderDateEnd
          (reminder_candidates reminderDate reminderDateEnd (nat batchSize) d) 1 (0, 0) d)"

subsection \<open>What a reminder says\<close>

lemma startOfUtcDay_eq:
  assumes "100 \<le> getUTCFullYear t"
  shows "startOfUtcDay t = dayOf t * msPerDay"
proof -
  have m: "0 \<le> getUTCMonth t" "getUTCMonth t \<le> 11" by (rule getters_range)+
  then have "makeDay (getUTCFullYear t) (getUTCMonth t) (getUTCDate t) = dayOf t"
    by (simp add: makeDay_def getUTCDate_def dayWithinYear_def div_pos_pos_trivial mod_pos_pos_trivial)
  then show ?thesis using assms by (simp add: startOfUtcDay_def date_UTC_late_year makeTime_def)
qed

text \<open>The window of a sweep is the calendar day that many days ahead.\<close>

lemma expiring_day:
  assumes "100 \<le> getUTCFullYear (addDaysUtc now days)"
    and "expiring (startOfUtcDay (addDaysUtc now days)) (addDaysUtc (startOfUtcDay (addDaysUtc now days)) 1) l"
  shows "dayOf (lot_expiresAt l) = dayOf now + days"
proof -
  have "dayOf (addDaysUtc now days) = dayOf now + days"
    using dayOf_minus_days[of now "- days"] by (simp add: addDaysUtc_def msPerDay_def mult.commute)
  with assms have "(dayOf now + days) * msPerDay \<le> lot_expiresAt l" "lot_expiresAt l < (dayOf now + days) * msPerDay + msPerDay"
    by (simp_all add: expiring_def startOfUtcDay_eq addDaysUtc_def msPerDay_def)
  then show ?thesis using dayOf_make[of "lot_expiresAt l - (dayOf now + days) * msPerDay" "dayOf now + days"] by simp
qed

lemma add_lots_total: "rv_totalExpiringKobo (add_lots ls r) = rv_totalExpiringKobo r + sum_list (map lot_remainingAmountKobo ls)"
  by (induction ls arbitrary: r) simp_all

lemma add_lots_bounds:
  "rv_earliestExpiresAt (add_lots ls r) = Min (insert (rv_earliestExpiresAt r) (lot_expiresAt ` set ls))"
  "rv_latestExpiresAt (add_lots ls r) = Max (insert (rv_latestExpiresAt r) (lot_expiresAt ` set ls))"
proof -
  have "rv_earliestExpiresAt (add_lots ls r) = fold min (map lot_expiresAt ls) (rv_earliestExpiresAt r)"
    by (induction ls arbitrary: r) (auto simp: min_def)
  then show "rv_earliestExpiresAt (add_lots ls r) = Min (insert (rv_earliestExpiresAt r) (lot_expiresAt ` set ls))"
    using Min.set_eq_fold[of "rv_earliestExpiresAt r" "map lot_expiresAt ls"] by simp
  have "rv_latestExpiresAt (add_lots ls r) = fold max (map lot_expiresAt ls) (rv_latestExpiresAt r)"
    by (induction ls arbitrary: r) (auto simp: max_def)
  then show "rv_latestExpiresAt (add_lots ls r) = Max (insert (rv_latestExpiresAt r) (lot_expiresAt ` set ls))"
    using Max.set_eq_fold[of "rv_latestExpiresAt r" "map lot_expiresAt ls"] by simp
qed

definition expiring_total :: "string \<Rightarrow> string \<Rightarrow> int \<Rightarrow> int \<Rightarrow> db \<Rightarrow> int" where
  "expiring_total t c rd re d = sum_where (\<lambda>l. lot_tenantId l = t \<and> lot_customerId l = c \<and> expiring rd re l) lot_remainingAmountKobo (creditLots d)"

lemma revalidated_total:
  assumes "buildRevalidatedReminderCandidate t c rd re d = Some rv"
  shows "rv_totalExpiringKobo rv = expiring_total t c rd re d"
proof -
  from assms have "rv_totalExpiringKobo rv = sum_list (map lot_remainingAmountKobo (expiring_lots t c rd re d))"
    by (auto simp: buildRevalidatedReminderCandidate_def add_lots_total split: list.split_asm)
  then show ?thesis by (simp add: expiring_lots_def sum_list_sort_key expiring_total_def sum_where_def)
qed

lemma revalidated_Some:
  assumes "l \<in> set (creditLots d)" and "lot_tenantId l = t" and "lot_customerId l = c" and "expiring rd re l"
  obtains rv where "buildRevalidatedReminderCandidate t c rd re d = Some rv"
proof -
  have "l \<in> set (expiring_lots t c rd re d)" using assms by (simp add: expiring_lots_def)
  then show ?thesis using that by (cases "expiring_lots t c rd re d") (auto simp: buildRevalidatedReminderCandidate_def)
qed

lemma revalidated_bounds:
  assumes "buildRevalidatedReminderCandidate t c rd re d = Some rv"
  shows "rv_earliestExpiresAt rv = Min (lot_expiresAt ` set (expiring_lots t c rd re d))"
    and "rv_latestExpiresAt rv = Max (lot_expiresAt ` set (expiring_lots t c rd re d))"
  using assms by (auto simp: buildRevalidatedReminderCandidate_def add_lots_bounds split: list.split_asm)

lemma reminder_constraints_None:
  "first_violation (creditExpiryReminder_constraints d row) = None \<longleftrightarrow>
     (\<forall>x\<in>set (creditExpiryReminders d). cer_id x \<noteq> cer_id row \<and> cer_outboxEventId x \<noteq> cer_outboxEventId row
        \<and> \<not> reminded (cer_tenantId row) (cer_customerId row) (cer_reminderDate row) x)"
  by (auto simp: first_violation_None creditExpiryReminder_constraints_def list_ex_iff)

lemma write_reminder_eq_Inr:
  assumes "write_reminder env now rd c rv d = Inr (u, d')"
  shows "\<exists>row ev msg. creditExpiryReminders d' = creditExpiryReminders d @ [row] \<and> outboxEvents d' = outboxEvents d @ [ev]
    \<and> smsMessages d' = smsMessages d @ [msg] \<and> financial d' = financial d \<and> customers d' = customers d
    \<and> idCounter d' = idCounter d + 3
    \<and> cer_id row = genId env (idCounter d + 2) \<and> ob_id ev = genId env (idCounter d) \<and> sms_id msg = genId env (idCounter d + 1)
    \<and> reminded (rmc_tenantId c) (rmc_customerId c) rd row \<and> cer_totalExpiringKobo row = rv_totalExpiringKobo rv
    \<and> cer_earliestExpiresAt row = rv_earliestExpiresAt rv \<and> cer_latestExpiresAt row = rv_latestExpiresAt rv
    \<and> cer_outboxEventId row = ob_id ev \<and> sms_outboxEventId msg = ob_id ev
    \<and> sms_phoneE164 msg = rmc_phoneE164 c \<and> sms_payload msg = ob_payload ev
    \<and> ob_payload ev = buildCreditExpiryReminderSmsPayload (rmc_customerId c) (rmc_phoneE164 c)
        (rv_totalExpiringKobo rv) (rv_earliestExpiresAt rv) (rv_latestExpiresAt rv)
    \<and> \<not> list_ex (reminded (rmc_tenantId c) (rmc_customerId c) rd) (creditExpiryReminders d)"
  using assms
  by (auto simp: write_reminder_def Let_def tx_bind_eq_Inr outboxEvent_create_def smsMessage_create_def
      creditExpiryReminder_create_def create_row_eq_Inr financial_def reminder_constraints_None list_ex_iff)
    (auto simp: reminded_def)

text \<open>
  C39: A reminder that commits tells the customer exactly what is at stake: the sum of what remains of the lots that expire that
  day, the first and the last of their expiries. It is the only reminder of the customer for the day, it is queued
  as one message for one event, and no lot, entry or other row of money changes.
\<close>

theorem reminder_exact:
  assumes "remind env now rd re c d = Inr (Some rv, d')"
  shows "\<exists>row ev msg. creditExpiryReminders d' = creditExpiryReminders d @ [row] \<and> outboxEvents d' = outboxEvents d @ [ev]
    \<and> smsMessages d' = smsMessages d @ [msg] \<and> cer_outboxEventId row = ob_id ev \<and> sms_outboxEventId msg = ob_id ev
    \<and> cer_totalExpiringKobo row = expiring_total (rmc_tenantId c) (rmc_customerId c) rd re d
    \<and> cer_earliestExpiresAt row = Min (lot_expiresAt ` set (expiring_lots (rmc_tenantId c) (rmc_customerId c) rd re d))
    \<and> cer_latestExpiresAt row = Max (lot_expiresAt ` set (expiring_lots (rmc_tenantId c) (rmc_customerId c) rd re d))
    \<and> sms_payload msg = buildCreditExpiryReminderSmsPayload (rmc_customerId c) (rmc_phoneE164 c) (cer_totalExpiringKobo row)
        (cer_earliestExpiresAt row) (cer_latestExpiresAt row)
    \<and> filter (reminded (rmc_tenantId c) (rmc_customerId c) rd) (creditExpiryReminders d') = [row]
    \<and> financial d' = financial d"
proof -
  from assms have r: "buildRevalidatedReminderCandidate (rmc_tenantId c) (rmc_customerId c) rd re d = Some rv"
    and w: "write_reminder env now rd c rv d = Inr ((), d')"
    by (auto simp: remind_def tx_bind_eq_Inr split: option.split_asm)
  obtain row ev msg where e: "creditExpiryReminders d' = creditExpiryReminders d @ [row]" "outboxEvents d' = outboxEvents d @ [ev]"
    "smsMessages d' = smsMessages d @ [msg]" "financial d' = financial d"
    "reminded (rmc_tenantId c) (rmc_customerId c) rd row" "cer_totalExpiringKobo row = rv_totalExpiringKobo rv"
    "cer_earliestExpiresAt row = rv_earliestExpiresAt rv" "cer_latestExpiresAt row = rv_latestExpiresAt rv"
    "cer_outboxEventId row = ob_id ev" "sms_outboxEventId msg = ob_id ev" "sms_payload msg = ob_payload ev"
    "ob_payload ev = buildCreditExpiryReminderSmsPayload (rmc_customerId c) (rmc_phoneE164 c)
        (rv_totalExpiringKobo rv) (rv_earliestExpiresAt rv) (rv_latestExpiresAt rv)"
    "\<not> list_ex (reminded (rmc_tenantId c) (rmc_customerId c) rd) (creditExpiryReminders d)"
    using write_reminder_eq_Inr[OF w] by (elim exE conjE) (rule that)
  from e(13) have "filter (reminded (rmc_tenantId c) (rmc_customerId c) rd) (creditExpiryReminders d) = []"
    by (auto simp: filter_empty_conv list_ex_iff)
  with e revalidated_total[OF r] revalidated_bounds[OF r] show ?thesis
    by (intro exI[of _ row] exI[of _ ev] exI[of _ msg]) simp
qed

subsection \<open>A sweep by itself reminds everybody it found\<close>

definition used_ids :: "db \<Rightarrow> string set" where
  "used_ids d = ob_id ` set (outboxEvents d) \<union> sms_id ` set (smsMessages d) \<union> sms_outboxEventId ` set (smsMessages d)
     \<union> cer_id ` set (creditExpiryReminders d) \<union> cer_outboxEventId ` set (creditExpiryReminders d)"

lemma ids_freshD: "ids_fresh env d ids \<Longrightarrow> i \<in> ids \<Longrightarrow> i \<noteq> genId env (idCounter d + k)"
  by (auto simp: ids_fresh_def)

lemma used_idsI:
  "x \<in> set (outboxEvents d) \<Longrightarrow> ob_id x \<in> used_ids d" "y \<in> set (smsMessages d) \<Longrightarrow> sms_id y \<in> used_ids d"
  "y \<in> set (smsMessages d) \<Longrightarrow> sms_outboxEventId y \<in> used_ids d"
  "z \<in> set (creditExpiryReminders d) \<Longrightarrow> cer_id z \<in> used_ids d" "z \<in> set (creditExpiryReminders d) \<Longrightarrow> cer_outboxEventId z \<in> used_ids d"
  by (auto simp: used_ids_def)

lemma write_reminder_succeeds:
  assumes f: "ids_fresh env d (used_ids d)"
    and free: "\<not> list_ex (reminded (rmc_tenantId c) (rmc_customerId c) rd) (creditExpiryReminders d)"
  shows "\<exists>d'. write_reminder env now rd c rv d = Inr ((), d')"
proof -
  have "genId env (idCounter d) \<noteq> genId env (idCounter d + 1)" "genId env (idCounter d) \<noteq> genId env (idCounter d + 2)"
    using f by (auto simp: ids_fresh_def inj_eq)
  moreover note fr = ids_freshD[OF f used_idsI(1), where k = 0] ids_freshD[OF f used_idsI(2), where k = 1]
    ids_freshD[OF f used_idsI(3), where k = 0] ids_freshD[OF f used_idsI(4), where k = 2] ids_freshD[OF f used_idsI(5), where k = 0]
  ultimately show ?thesis
    using free
    by (auto simp: write_reminder_def Let_def tx_bind_eq_Inr outboxEvent_create_def smsMessage_create_def
        creditExpiryReminder_create_def create_row_eq_Inr first_violation_None creditExpiryReminder_constraints_def
        outboxEvent_constraints_def smsMessage_constraints_def list_ex_iff)
qed

lemma write_reminder_fresh:
  assumes f: "ids_fresh env d (used_ids d)" and "write_reminder env now rd c rv d = Inr (u, d')"
  shows "ids_fresh env d' (used_ids d')"
proof -
  have "used_ids d' \<subseteq> used_ids d \<union> {genId env (idCounter d), genId env (idCounter d + 1), genId env (idCounter d + 2)}"
    using write_reminder_eq_Inr[OF assms(2)] by (elim exE conjE) (simp add: used_ids_def, blast)
  moreover have "idCounter d' = idCounter d + 3" using write_reminder_eq_Inr[OF assms(2)] by blast
  ultimately show ?thesis using f by (auto simp: ids_fresh_def inj_eq dest!: subsetD)
qed

lemma revalidated_cong:
  "creditLots d' = creditLots d \<Longrightarrow> buildRevalidatedReminderCandidate t c rd re d' = buildRevalidatedReminderCandidate t c rd re d"
  "creditLots d' = creditLots d \<Longrightarrow> expiring_total t c rd re d' = expiring_total t c rd re d"
  by (simp_all add: buildRevalidatedReminderCandidate_def expiring_lots_def expiring_total_def)

lemma remind_all_alone:
  assumes "ids_fresh env d (used_ids d)" and "distinct (map (\<lambda>c. (rmc_tenantId c, rmc_customerId c)) cs)"
    and "\<forall>c\<in>set cs. \<not> list_ex (reminded (rmc_tenantId c) (rmc_customerId c) rd) (creditExpiryReminders d)"
    and "\<forall>c\<in>set cs. buildRevalidatedReminderCandidate (rmc_tenantId c) (rmc_customerId c) rd re d \<noteq> None"
  shows "\<exists>new d'. remind_all env alone now rd re cs k (n, a) d =
        (Inr (n + length cs, a + sum_list (map (\<lambda>c. expiring_total (rmc_tenantId c) (rmc_customerId c) rd re d) cs)), d')
      \<and> creditExpiryReminders d' = creditExpiryReminders d @ new
      \<and> list_all2 (\<lambda>c r. reminded (rmc_tenantId c) (rmc_customerId c) rd r) cs new"
  using assms
proof (induction cs arbitrary: d k n a)
  case (Cons c cs)
  from Cons.prems(4) obtain rv where r: "buildRevalidatedReminderCandidate (rmc_tenantId c) (rmc_customerId c) rd re d = Some rv" by auto
  have "\<not> list_ex (reminded (rmc_tenantId c) (rmc_customerId c) rd) (creditExpiryReminders d)" using Cons.prems(3) by simp
  from write_reminder_succeeds[OF Cons.prems(1) this] obtain d1 where w: "write_reminder env now rd c rv d = Inr ((), d1)" by blast
  obtain row where e: "creditExpiryReminders d1 = creditExpiryReminders d @ [row]" "financial d1 = financial d"
    "reminded (rmc_tenantId c) (rmc_customerId c) rd row"
    using write_reminder_eq_Inr[OF w] by blast
  from e(2) have lots: "creditLots d1 = creditLots d" by (simp add: financial_def)
  have "\<not> reminded (rmc_tenantId x) (rmc_customerId x) rd row" if "x \<in> set cs" for x
    using that e(3) Cons.prems(2) by (force simp: reminded_def)
  then have "\<exists>new d'. remind_all env alone now rd re cs (Suc k) (n + 1, a + rv_totalExpiringKobo rv) d1 =
        (Inr (n + 1 + length cs, a + rv_totalExpiringKobo rv
          + sum_list (map (\<lambda>c. expiring_total (rmc_tenantId c) (rmc_customerId c) rd re d1) cs)), d')
      \<and> creditExpiryReminders d' = creditExpiryReminders d1 @ new
      \<and> list_all2 (\<lambda>c r. reminded (rmc_tenantId c) (rmc_customerId c) rd r) cs new"
    using Cons.prems by (intro Cons.IH write_reminder_fresh[OF _ w]) (auto simp: e(1) revalidated_cong[OF lots])
  then obtain new d' where i: "remind_all env alone now rd re cs (Suc k) (n + 1, a + rv_totalExpiringKobo rv) d1 =
        (Inr (n + 1 + length cs, a + rv_totalExpiringKobo rv
          + sum_list (map (\<lambda>c. expiring_total (rmc_tenantId c) (rmc_customerId c) rd re d) cs)), d')"
      "creditExpiryReminders d' = creditExpiryReminders d1 @ new"
      "list_all2 (\<lambda>c r. reminded (rmc_tenantId c) (rmc_customerId c) rd r) cs new"
    unfolding revalidated_cong[OF lots] by blast
  have "run_transaction alone k (remind env now rd re c) d = (Inr (Some rv), d1)"
    using r w by (simp add: run_transaction_def alone_def remind_def tx_bind_def)
  with i e revalidated_total[OF r] show ?case
    by (intro exI[of _ "row # new"] exI[of _ d']) (simp add: algebra_simps)
qed simp

lemma candidates_sound:
  assumes "c \<in> set (reminder_candidates rd re n d)"
  shows "\<not> list_ex (reminded (rmc_tenantId c) (rmc_customerId c) rd) (creditExpiryReminders d)
    \<and> buildRevalidatedReminderCandidate (rmc_tenantId c) (rmc_customerId c) rd re d \<noteq> None"
proof -
  from assms obtain l where l: "l \<in> set (creditLots d)" "expiring rd re l" "lot_tenantId l = rmc_tenantId c" "lot_customerId l = rmc_customerId c"
    "\<not> list_ex (reminded (lot_tenantId l) (lot_customerId l) rd) (creditExpiryReminders d)"
    by (auto simp: reminder_candidates_def Let_def dest!: in_set_takeD)
  moreover obtain rv where "buildRevalidatedReminderCandidate (rmc_tenantId c) (rmc_customerId c) rd re d = Some rv"
    by (rule revalidated_Some[OF l(1,3,4,2)])
  ultimately show ?thesis by simp
qed

lemma candidates_distinct:
  assumes "distinct (map cu_id (customers d))"
  shows "distinct (map (\<lambda>c. (rmc_tenantId c, rmc_customerId c)) (reminder_candidates rd re n d))"
proof -
  define rows where "rows = remdups (concat (map (\<lambda>l. map (\<lambda>c. \<lparr> rmc_tenantId = lot_tenantId l, rmc_customerId = lot_customerId l, rmc_phoneE164 = cu_phoneE164 c \<rparr>)
            (filter (\<lambda>c. cu_tenantId c = lot_tenantId l \<and> cu_id c = lot_customerId l) (customers d)))
      (filter (\<lambda>l. expiring rd re l
            \<and> \<not> list_ex (reminded (lot_tenantId l) (lot_customerId l) rd) (creditExpiryReminders d)) (creditLots d))))"
  have one: "\<exists>u\<in>set (customers d). cu_id u = rmc_customerId x \<and> rmc_phoneE164 x = cu_phoneE164 u" if "x \<in> set rows" for x
    using that by (auto simp: rows_def)
  have "inj_on (\<lambda>c. (rmc_tenantId c, rmc_customerId c)) (set rows)"
  proof (rule inj_onI)
    fix x y
    assume xy: "x \<in> set rows" "y \<in> set rows" and e: "(rmc_tenantId x, rmc_customerId x) = (rmc_tenantId y, rmc_customerId y)"
    from one[OF xy(1)] obtain u where u: "u \<in> set (customers d)" "cu_id u = rmc_customerId x" "rmc_phoneE164 x = cu_phoneE164 u" by blast
    from one[OF xy(2)] obtain v where v: "v \<in> set (customers d)" "cu_id v = rmc_customerId y" "rmc_phoneE164 y = cu_phoneE164 v" by blast
    have "u = v" using assms u v e inj_onD[of cu_id "set (customers d)" u v] by (simp add: distinct_map)
    with u v have "rmc_phoneE164 x = rmc_phoneE164 y" by simp
    with e show "x = y" by (cases x, cases y) auto
  qed
  then have "distinct (map (\<lambda>c. (rmc_tenantId c, rmc_customerId c)) rows)" by (simp add: distinct_map rows_def)
  then have "distinct (map (\<lambda>c. (rmc_tenantId c, rmc_customerId c)) (sort_key (\<lambda>c. (rmc_tenantId c, rmc_customerId c)) rows))"
    by (simp add: distinct_map)
  then have "distinct (take n (map (\<lambda>c. (rmc_tenantId c, rmc_customerId c)) (sort_key (\<lambda>c. (rmc_tenantId c, rmc_customerId c)) rows)))"
    by (rule distinct_take)
  moreover have "reminder_candidates rd re n d = take n (sort_key (\<lambda>c. (rmc_tenantId c, rmc_customerId c)) rows)"
    by (simp add: reminder_candidates_def rows_def)
  ultimately show ?thesis by (simp only: take_map)
qed

text \<open>
  C40: A sweep that meets no other session and gets fresh ids, over customers with distinct ids, reminds, in order, each of the first
  customers it finds, with credit that expires on the day and no reminder for it yet, once, and reports how many they are and
  what expires altogether. The day is the calendar day (UTC) the given number of days ahead (for dates from the year 100 on).
\<close>

theorem enqueueDueReminders_complete:
  assumes "0 < days" and "0 < batch" and "ids_fresh env d (used_ids d)" and "distinct (map cu_id (customers d))"
    and "rd = startOfUtcDay (addDaysUtc now days)" and "cs = reminder_candidates rd (addDaysUtc rd 1) (nat batch) d"
  shows "\<exists>new d'. enqueueDueReminders env alone now days batch d =
        (Inr (length cs, sum_list (map (\<lambda>c. expiring_total (rmc_tenantId c) (rmc_customerId c) rd (addDaysUtc rd 1) d) cs)), d')
      \<and> creditExpiryReminders d' = creditExpiryReminders d @ new
      \<and> list_all2 (\<lambda>c r. reminded (rmc_tenantId c) (rmc_customerId c) rd r) cs new
      \<and> (100 \<le> getUTCFullYear (addDaysUtc now days) \<longrightarrow>
          (\<forall>l. expiring rd (addDaysUtc rd 1) l \<longrightarrow> dayOf (lot_expiresAt l) = dayOf now + days))"
proof -
  have "\<exists>new d'. remind_all env alone now rd (addDaysUtc rd 1) cs 1 (0, 0) d =
        (Inr (0 + length cs, 0 + sum_list (map (\<lambda>c. expiring_total (rmc_tenantId c) (rmc_customerId c) rd (addDaysUtc rd 1) d) cs)), d')
      \<and> creditExpiryReminders d' = creditExpiryReminders d @ new
      \<and> list_all2 (\<lambda>c r. reminded (rmc_tenantId c) (rmc_customerId c) rd r) cs new"
    using candidates_sound unfolding assms(6) by (intro remind_all_alone assms(3) candidates_distinct assms(4)) blast+
  then show ?thesis
    using assms(1,2) expiring_day[of now days] unfolding enqueueDueReminders_def Let_def assms(5)[symmetric] assms(6)[symmetric]
    by auto
qed

subsection \<open>A sweep among others\<close>

lemma remind_money: "tx_frame financial (remind env now rd re c)"
  by (auto simp: tx_frame_def remind_def tx_bind_eq_Inr split: option.split_asm dest!: write_reminder_eq_Inr)

context keyed_order
begin

lemma remind_all_rel:
  assumes "\<And>k d. R d (fst (sched k d))" and "\<And>c. tx_rel R (remind env now rd re c)"
  shows "R d (snd (remind_all env sched now rd re cs k acc d))"
proof (induction cs arbitrary: k acc d)
  case (Cons c cs)
  obtain n a where acc: "acc = (n, a)" by fastforce
  obtain r d1 where t: "run_transaction sched k (remind env now rd re c) d = (r, d1)" by fastforce
  have "R d d1" using run_transaction_rel[where sched = sched and k = k and d = d, OF assms(1) assms(2)[of c]] t by simp
  moreover have "R d1 (snd (remind_all env sched now rd re cs (Suc k) acc' d1))" for acc' by (rule Cons.IH)
  ultimately show ?case
    using R_trans by (auto simp: acc t split: sum.split option.split)
qed (simp add: R_refl)

lemma enqueueDueReminders_rel:
  assumes "\<And>k d. R d (fst (sched k d))" and "\<And>rd re c. tx_rel R (remind env now rd re c)"
  shows "R d (snd (enqueueDueReminders env sched now days batch d))"
  using remind_all_rel[OF assms] R_refl by (simp add: enqueueDueReminders_def Let_def)

end

subsection \<open>A run on the small shop\<close>

text \<open>The first lot of the shop expires on 3 July 2024, 125 days after the clock.\<close>

lemma demo_reminder_candidates:
  "reminder_candidates (startOfUtcDay (addDaysUtc demo_now 125)) (addDaysUtc (startOfUtcDay (addDaysUtc demo_now 125)) 1) 10 demo_db
     = [\<lparr> rmc_tenantId = ''T'', rmc_customerId = ''C'', rmc_phoneE164 = ''+2348000000000'' \<rparr>]"
  by code_simp

lemma demo_ids_fresh: "ids_fresh demo_env demo_db (used_ids demo_db)"
  by (simp add: ids_fresh_def demo_genId_inj used_ids_def demo_db_def)

lemma demo_total: "expiring_total ''T'' ''C'' (startOfUtcDay (addDaysUtc demo_now 125)) (addDaysUtc (startOfUtcDay (addDaysUtc demo_now 125)) 1) demo_db = 30000"
  by code_simp

theorem enqueueDueReminders_complete_witness:
  "\<exists>d'. enqueueDueReminders demo_env alone demo_now 125 10 demo_db = (Inr (1, 30000), d') \<and> length (creditExpiryReminders d') = 1"
proof -
  have c: "distinct (map cu_id (customers demo_db))" "creditExpiryReminders demo_db = []" by (simp_all add: demo_db_def)
  from enqueueDueReminders_complete[OF _ _ demo_ids_fresh c(1) refl refl, of 125 10 demo_now]
  show ?thesis by (auto simp: demo_reminder_candidates demo_total c(2) dest: list_all2_lengthD)
qed

theorem reminder_exact_witness:
  "\<exists>rv d'. remind demo_env demo_now (startOfUtcDay (addDaysUtc demo_now 125)) (addDaysUtc (startOfUtcDay (addDaysUtc demo_now 125)) 1)
       \<lparr> rmc_tenantId = ''T'', rmc_customerId = ''C'', rmc_phoneE164 = ''+2348000000000'' \<rparr> demo_db = Inr (Some rv, d')
     \<and> map cer_totalExpiringKobo (creditExpiryReminders d') = [30000] \<and> length (smsMessages d') = 1"
proof -
  let ?c = "\<lparr> rmc_tenantId = ''T'', rmc_customerId = ''C'', rmc_phoneE164 = ''+2348000000000'' \<rparr>"
  let ?rd = "startOfUtcDay (addDaysUtc demo_now 125)"
  have none: "creditExpiryReminders demo_db = []" "smsMessages demo_db = []" by (simp_all add: demo_db_def)
  have "?c \<in> set (reminder_candidates ?rd (addDaysUtc ?rd 1) 10 demo_db)" by (simp add: demo_reminder_candidates)
  from candidates_sound[OF this] obtain rv where "buildRevalidatedReminderCandidate ''T'' ''C'' ?rd (addDaysUtc ?rd 1) demo_db = Some rv" by auto
  moreover obtain d' where "write_reminder demo_env demo_now ?rd ?c rv demo_db = Inr ((), d')"
    using write_reminder_succeeds[OF demo_ids_fresh, of ?c ?rd demo_now rv] by (auto simp: none)
  ultimately have r: "remind demo_env demo_now ?rd (addDaysUtc ?rd 1) ?c demo_db = Inr (Some rv, d')"
    by (simp add: remind_def tx_bind_def)
  from reminder_exact[OF r] r show ?thesis by (auto simp: none demo_total)
qed

end
