(* ===== verification/Spec2Isabelle.thy ===== *)
theory Spec2Isabelle
  imports Reversal_Roundtrip Offline_Sync Outbox_Delivery Registry Configuration Expiry_Reminders
begin

text \<open>
  ShopCity Loyalty: the financial core of the backend under \<^verbatim>\<open>src/\<close>, a NestJS service over a
  PostgreSQL database reached through Prisma. Customers earn credit on purchases, the credit is held in
  lots that expire, and it is spent at the till. Money is in kobo, as \<open>int\<close> (a \<open>bigint\<close> in
  the code); \<open>Number(...)\<close> of a \<open>bigint\<close> is \<open>js_Number\<close>, with its rounding above \<open>2 ^ 53\<close>.

  \<^bold>\<open>Parts and theories.\<close>

  \<^item> \<^verbatim>\<open>Prelude\<close>: errors (\<open>svc_error\<close>), transaction bodies (\<open>'s \<Rightarrow> error + result \<times> 's\<close>, with
    \<open>tx_bind\<close>, \<open>tx_for\<close> and so on), frames (\<open>tx_frame\<close>), the relations a body inherits from its parts
    (locale \<open>tx_order\<close>), \<open>run_transaction\<close> for \<open>prisma.$transaction\<close>, sums over selected rows.
  \<^item> \<^verbatim>\<open>Js_Base\<close>, \<^verbatim>\<open>Js_Date\<close>: what the source uses of JavaScript: strings, JSON, numbers, and the
    calendar; \<^verbatim>\<open>common/card-identity.ts\<close>, receipt weeks and month addition.
  \<^item> \<^verbatim>\<open>Schema\<close>, \<^verbatim>\<open>Database\<close>: \<^verbatim>\<open>prisma/schema.prisma\<close> as records and datatypes, one list per table in \<open>db\<close>,
    and the Prisma calls with the unique constraints of the schema.
  \<^item> \<^verbatim>\<open>Accounts\<close>: the abstract account (what the ledger says a customer is owed, what the lots hold), the
    effect of each money operation on it, and locale \<open>session_invariant\<close> for what a call keeps while other
    sessions run.
  \<^item> \<^verbatim>\<open>Lot_Allocation\<close>: \<^verbatim>\<open>common/balance/active-balance.service.ts\<close> and \<^verbatim>\<open>lot-allocation.service.ts\<close>.
  \<^item> \<^verbatim>\<open>Earn_Policy\<close>: \<^verbatim>\<open>common/balance/earn-policy.ts\<close> and \<^verbatim>\<open>common/redemption-policy.service.ts\<close>.
  \<^item> \<^verbatim>\<open>Retry\<close>, \<^verbatim>\<open>Idempotency\<close>: \<^verbatim>\<open>common/balance/financial-transaction-retry.ts\<close> and the contract of an endpoint
    with an idempotency key (locale \<open>idempotent_call\<close>).
  \<^item> \<^verbatim>\<open>Messages\<close>, \<^verbatim>\<open>Settlement\<close>: audit entries and SMS payloads, \<^verbatim>\<open>common/balance/redemption-settlement.ts\<close>.
  \<^item> \<^verbatim>\<open>Redemptions\<close>, \<^verbatim>\<open>Earn\<close>, \<^verbatim>\<open>Adjustments\<close>, \<^verbatim>\<open>Credit_Expiry\<close>, \<^verbatim>\<open>Approval_Expiry\<close>, \<^verbatim>\<open>Approvals\<close>: the services and
    workers (\<open>redeem\<close>, \<open>earn\<close>, \<open>createAdjustment\<close>, \<open>expireDueCredit\<close>, \<open>expireOverdueApprovals\<close>,
    \<open>decideApproval\<close>, \<open>approveReceipt\<close>, \<open>rejectReceipt\<close>), one definition per stage of the method, composed as the
    method composes them.
  \<^item> \<^verbatim>\<open>Lot_Evidence\<close>: the equation the trigger \<^verbatim>\<open>validate_credit_lot_balance_evidence_for_lot\<close> of the migrations
    checks: what a lot holds is what it was created with, less allocations and expiries, plus restorations.
  \<^item> \<^verbatim>\<open>Reversals\<close>: \<^verbatim>\<open>modules/reversals/reversals.service.ts\<close>: \<open>reverse\<close> with its attempts, the four kinds of single
    entry, and the grouped reversal of a settlement pair with the checks of its history. \<^verbatim>\<open>Reversal_Roundtrip\<close>: a
    debit and its reversal restore every lot.
  \<^item> \<^verbatim>\<open>Offline_Sync\<close>: \<^verbatim>\<open>modules/offline-sync\<close>: batches of captures made without a connection, record by record
    (\<open>processRecord\<close>, \<open>earnBatch\<close>), with the table of claimed and answered records.
  \<^item> \<^verbatim>\<open>Sms_Templates\<close>: \<^verbatim>\<open>jobs/sms.templates.ts\<close>, checking and rendering of every template.
  \<^item> \<^verbatim>\<open>Outbox_Store\<close>, \<^verbatim>\<open>Fraud\<close>, \<^verbatim>\<open>Outbox_Worker\<close>, \<^verbatim>\<open>Outbox_Delivery\<close>: the worker of \<^verbatim>\<open>jobs/outbox-worker.runtime.ts\<close>: the
    columns of delivery, the fraud rules of \<^verbatim>\<open>jobs/fraud-behavior.runtime.ts\<close> and the recording of their findings,
    jobs (\<open>handleJob\<close>), recovery cycles (\<open>recoverAndPublishOnce\<close>) and polls of delivery reports
    (\<open>pollDeliveryReports\<close>), and their statements as the steps of \<open>worker_step\<close>.
  \<^item> \<^verbatim>\<open>Keyed_Calls\<close>: what the write methods of cards and customers share (\<open>keyed_call\<close>): the key, the checks outside
    the transaction, the claim, the work and the stored answer; locales \<open>keyed_endpoint\<close> (a repeated request), \<open>keyed_order\<close>
    (a relation a call inherits from its body) and \<open>table_life\<close> (rows that stay and only move along a relation).
  \<^item> \<^verbatim>\<open>Cards\<close>, \<^verbatim>\<open>Card_Calls\<close>, \<^verbatim>\<open>Customers\<close>, \<^verbatim>\<open>Customer_Calls\<close>, \<^verbatim>\<open>Registry\<close>: \<^verbatim>\<open>modules/cards/cards.service.ts\<close>,
    \<^verbatim>\<open>modules/customers/customers.service.ts\<close> and \<^verbatim>\<open>common/phone.ts\<close>, the effect of their calls, and both side by side
    (\<open>registry_step\<close>).
  \<^item> \<^verbatim>\<open>Configuration\<close>: \<^verbatim>\<open>modules/configuration/configuration.service.ts\<close>: versioned policies and the cached public configuration.
  \<^item> \<^verbatim>\<open>Expiry_Reminders\<close>: \<^verbatim>\<open>modules/credit-expiry/expiry-reminder.service.ts\<close>.
  \<^item> \<^verbatim>\<open>Demo\<close>, \<^verbatim>\<open>Keyed_Runs\<close>: a small shop on which the witnesses run the model.
  \<^item> \<^verbatim>\<open>System\<close>: the services side by side, as the steps of \<open>system_step\<close>; its step \<open>administration\<close> is
    any change of rows that hold no money, and the calls of the registry, the configuration and the reminders are shown
    to consist of such steps.

  \<^bold>\<open>State, errors, time and concurrency.\<close> A service method maps the database to \<open>(error + response) \<times> db\<close>. A body
  that throws is rolled back. The transactions that move money run at isolation level Serializable, so an attempt runs as a whole on the database
  other sessions leave (\<open>sched\<close>), or is aborted by the engine with an error of its choice; what other
  sessions commit between the steps of a call is \<open>others\<close>. The transactions of cards, customers, policies and
  reminders and the sweep of overdue approvals run at the default level; their bodies too are modelled as a whole, and what such a method reads before its transaction is
  read from an earlier state. The readings of the clock within a call are
  \<open>clk 0, clk 1, ...\<close>. SHA-256, the id generator, the time-zone data of \<open>Intl\<close>, \<open>new Date(string)\<close> and the
  configuration are fields of \<open>env\<close>. An attempt the engine aborts is modelled before its body: what the
  body would have noted outside the database by then is not kept. The \<open>bigint\<close> columns hold 64 bits; a statement that
  overflows one aborts its transaction, which the unbounded numbers of the model leave out.

  \<^bold>\<open>What the theorems show.\<close> Allocation and balances: debits take the earliest expiring lots and exactly the
  amount, succeed exactly when the balance covers it, never overdraw, and restoration plans put back exactly
  what is open. Policy: the earned credit is the rounded-up share, splitting a purchase gains at most a kobo,
  and when a redemption passes the limits. Services: the change of the active balance on every committed path, failed calls roll
  back, duplicate receipts earn nothing, repeated keys return the first response (through \<open>idempotent_call\<close> and
  \<open>keyed_endpoint\<close>), with the records a clean-up may delete, who may
  decide an approval and what a decision moves, progress of both sweeps; a reversal moves exactly what it
  books, compensates entries nothing had reversed, and undoes a debit lot by lot. Retries are bounded, with the outcome of the last
  attempt or of its conflict handler. Calendar:
  clamped months, receipt weeks. Offline batches: they are runs of the system, they end, and the first answer to a
  record is its last. Worker: a message for a phone number in
  E.164 form can be rendered; a fraud event is evaluated once and its
  findings are counted once per key; a due event is published; a message is handed to a provider that asks for
  reservations at most five times under any interleaving. Registry: cards and customers
  keep their identity, a customer has one active card, a replacement swaps exactly one, repeated calls return their
  first answer, personal data is read under an audit row. Configuration: no change of a policy is lost and thresholds stay
  in order. Reminders say exactly what expires, once per customer and day. System (below): in every run of the services, with sessions
  interleaved, the books balance, every lot is evidenced, no entry is reversed twice, the ledger refines an append-only journal without overdrafts, and
  approvals only move along their life; the administrative calls are runs of this system.

  \<^bold>\<open>Bounds.\<close> Loops of the code are structural recursion on their list or on the number of attempts left
  (\<open>opt_attempts\<close>, \<open>EARN_SERIALIZATION_RETRY_ATTEMPTS\<close>, \<open>ADJUSTMENT_RETRY_ATTEMPTS\<close>, \<open>REVERSAL_RETRY_ATTEMPTS\<close>:
  the constants of the code);
  every definition is total. Only \<open>processRecord\<close> of the offline batches, which calls itself after losing a race for a
  claim, takes fuel; two levels are shown to be enough as long as no session deletes a claim.

  \<^bold>\<open>Not modelled.\<close> Read-only projections: lists with their pages, transaction summaries, the profile of a customer, reports. Out of
  scope: controllers and request validation, authentication and throttling (an \<open>AuthContext\<close> is an argument), branches, users
  and devices, reviews of fraud flags,
  the SMS providers and the queue themselves (what they answer is an argument), timers of the workers, the web client, the other SQL triggers and row-level checks of the migrations. Row locks change nothing a
  transaction that runs as a whole can see and are left out; \<open>SKIP LOCKED\<close> is an argument of the sweeps.
\<close>

subsection \<open>The abstract journal\<close>

text \<open>
  What the loyalty programme promises, without lots, approvals, retries or keys: a journal of
  credits and debits to which entries are only ever added, and never so that an account owes.
\<close>

definition journal_net :: "LoyaltyLedgerEntry list \<Rightarrow> account \<Rightarrow> int" where
  "journal_net j a = sum_where (\<lambda>e. ledger_account e = a) signed_kobo j"

inductive journal_step :: "LoyaltyLedgerEntry list \<Rightarrow> LoyaltyLedgerEntry list \<Rightarrow> bool" where
  append: "(\<And>a. 0 \<le> journal_net (j @ new) a) \<Longrightarrow> journal_step j (j @ new)"

inductive_simps journal_step_iff: "journal_step j j'"

lemma journal_net_ledger: "journal_net (ledgerEntries d) = ledger_net d"
  by (simp add: fun_eq_iff journal_net_def ledger_net_def)

lemma books_balance_nonneg:
  assumes "books_balance d"
  shows "0 \<le> ledger_net d a"
proof -
  have "0 \<le> lots_total d a"
    unfolding lots_total_def
    by (rule sum_where_nonneg) (use assms in \<open>auto simp: books_balance_def lots_wf_def lot_ok_def list_all_iff\<close>)
  with assms show ?thesis by (cases a) (simp add: books_balance_def)
qed

lemma sound_books: "sound_at (\<lambda>_. 0) d \<longleftrightarrow> books_balance d \<and> lots_evidenced d"
  by (simp add: sound_at_def books_balance_money_at)

lemma system_run_sound:
  "(system_step env)\<^sup>*\<^sup>* d d' \<Longrightarrow> books_balance d \<Longrightarrow> lots_evidenced d \<Longrightarrow> books_balance d' \<and> lots_evidenced d'"
  using sound_system.run_keeps[of env d d' "\<lambda>_. 0"] by (simp add: sound_books)

lemma system_step_journal:
  assumes "system_step env d d'" and "books_balance d" and "lots_evidenced d"
  shows "journal_step (ledgerEntries d) (ledgerEntries d')"
proof -
  from journal_system.step_keeps[OF assms(1) journal.R_refl] obtain new where n: "ledgerEntries d' = ledgerEntries d @ new"
    by (auto simp: ledger_extends_def)
  have "0 \<le> journal_net (ledgerEntries d @ new) a" for a
    using books_balance_nonneg system_run_sound[OF r_into_rtranclp[of "system_step env"], OF assms]
    by (simp flip: n add: journal_net_ledger)
  then show ?thesis unfolding n by (rule journal_step.append)
qed

subsection \<open>The system\<close>

text \<open>
  C1: whatever calls of the services and runs of the workers happen, reversals included, in whatever
  order and however they race, the books stay balanced: the ledger of every account adds up to what
  its lots hold, every lot holds between nothing and what it was created with, no account is ever
  overdrawn, and every kobo missing from a lot is accounted for by an allocation or an expiry.
\<close>

theorem system_keeps_books:
  assumes "(system_step env)\<^sup>*\<^sup>* d d'" and "books_balance d" and "lots_evidenced d"
  shows "books_balance d' \<and> lots_evidenced d' \<and> (\<forall>a. 0 \<le> ledger_net d' a)"
  using system_run_sound[OF assms] books_balance_nonneg by blast

text \<open>
  C2: the system refines the abstract journal: every step of a run appends entries to the ledger,
  changes and removes none, and leaves no account below zero; what the credit lots of an account
  hold is the balance of the journal.
\<close>

theorem system_refines_journal:
  assumes "(system_step env)\<^sup>*\<^sup>* d d'" and "books_balance d" and "lots_evidenced d"
  shows "journal_step\<^sup>*\<^sup>* (ledgerEntries d) (ledgerEntries d')
    \<and> (\<forall>a. lots_total d' a = journal_net (ledgerEntries d') a)"
  using assms
proof (induction rule: rtranclp_induct)
  case base
  then show ?case by (simp add: journal_net_ledger books_balance_def)
next
  case (step d1 d2)
  have b: "books_balance d1" "lots_evidenced d1" using system_run_sound[OF step(1,4,5)] by simp_all
  have "books_balance d2" using system_run_sound[OF r_into_rtranclp[of "system_step env"], OF step(2) b] by simp
  with system_step_journal[OF step(2) b] step.IH[OF step(4,5)] show ?case
    by (auto simp: journal_net_ledger books_balance_def)
qed

text \<open>
  C3: in every run the approvals keep their place, target and requester, move along the steps of an
  approval's life only, and have unique ids; one that is executed, rejected or expired is never decided again.
\<close>

theorem system_approvals_final:
  assumes "(system_step env)\<^sup>*\<^sup>* d d'" and "distinct (map ap_id (approvals d))"
  shows "distinct (map ap_id (approvals d')) \<and> (\<forall>i<length (approvals d). i < length (approvals d')
    \<and> approval_moves (approvals d ! i) (approvals d' ! i)
    \<and> (decided (ap_status (approvals d ! i)) \<longrightarrow> ap_status (approvals d' ! i) = ap_status (approvals d ! i)))"
proof -
  have f: "approvals_follow d d'" using assms(1) approvals_follow_refl by (rule approvals_system.run_keeps)
  with assms(2) have "distinct (map ap_id (approvals d'))" by (simp add: approvals_follow_def)
  with approvals_follow_decided[OF f] show ?thesis by (auto simp: approval_moves_def dest: decided_final)
qed

text \<open>
  C4: no entry is ever reversed twice: in every run the ids and correlation ids of the ledger stay
  unique, and no two entries refer to the same entry they reverse, however many reversals race.
\<close>

theorem system_reverses_once:
  assumes "(system_step env)\<^sup>*\<^sup>* d d'" and "ledger_unique (ledgerEntries d)"
  shows "distinct (map le_id (ledgerEntries d')) \<and> distinct (map le_correlationId (ledgerEntries d'))
    \<and> (\<forall>i j. i < j \<longrightarrow> j < length (ledgerEntries d') \<longrightarrow> le_reversesEntryId (ledgerEntries d' ! i) \<noteq> None \<longrightarrow>
        le_reversesEntryId (ledgerEntries d' ! i) \<noteq> le_reversesEntryId (ledgerEntries d' ! j))"
proof -
  have "ledger_extends d d'" using assms(1) journal.R_refl by (rule journal_system.run_keeps)
  with assms(2) have "ledger_unique (ledgerEntries d')" by (simp add: ledger_extends_def)
  then show ?thesis using reversed_ids_distinct by (auto simp: ledger_unique_def)
qed



subsection \<open>A run at the demonstration shop\<close>

text \<open>A held redemption is rejected, the balance is lowered by an adjustment, and an old earn is reversed.\<close>

abbreviation demo_mid :: db where
  "demo_mid \<equiv> snd (demo_adjust AdjustmentKind.DEBIT 50000
     (snd (demo_decide ApprovalDecision.REJECTED (\<lambda>_. demo_now) demo_held_db)))"

abbreviation demo_end :: db where
  "demo_end \<equiv> snd (demo_reverse demo_mid)"

lemma demo_run: "(system_step demo_env)\<^sup>*\<^sup>* demo_held_db demo_end"
proof (rule converse_rtranclp_into_rtranclp, rule_tac [2] converse_rtranclp_into_rtranclp, rule_tac [3] r_into_rtranclp)
  let ?d = "snd (demo_decide ApprovalDecision.REJECTED (\<lambda>_. demo_now) demo_held_db)"
  show "system_step demo_env demo_held_db ?d" by (rule system_step.decideApproval[OF session_steps_alone])
  show "system_step demo_env ?d demo_mid" by (rule system_step.createAdjustment[OF session_steps_alone])
  show "system_step demo_env demo_mid demo_end" by (rule system_step.reverse[OF session_steps_alone])
qed

lemma demo_held_books: "books_balance demo_held_db"
  using demo_books_balance unfolding books_balance_money_at demo_held_money .

lemma demo_held_evidenced: "lots_evidenced demo_held_db"
  by code_simp

theorem system_keeps_books_witness: "books_balance demo_end \<and> lots_evidenced demo_end"
  using system_keeps_books[OF demo_run demo_held_books demo_held_evidenced] by blast

theorem system_refines_journal_witness: "journal_step\<^sup>*\<^sup>* (ledgerEntries demo_db) (ledgerEntries demo_end)"
  using system_refines_journal[OF demo_run demo_held_books demo_held_evidenced] by (simp add: demo_held_db_def)

theorem system_approvals_final_witness:
  "distinct (map ap_id (approvals demo_end)) \<and> ap_id (approvals demo_end ! 0) = ''A''"
proof -
  have "length (approvals demo_held_db) = 1" "ap_id (approvals demo_held_db ! 0) = ''A''"
    by (simp_all add: demo_held_db_def demo_approval_def)
  with system_approvals_final[OF demo_run demo_held_distinct] show ?thesis
    by (auto simp: approval_moves_def)
qed

theorem system_reverses_once_witness: "distinct (map le_correlationId (ledgerEntries demo_end))"
proof -
  have "ledger_unique (ledgerEntries demo_held_db)" by code_simp
  from system_reverses_once[OF demo_run this] show ?thesis by blast
qed

text \<open>While the balance is adjusted by another session, a card is replaced.\<close>

abbreviation demo_busy :: "nat \<Rightarrow> db \<Rightarrow> db \<times> svc_error option" where
  "demo_busy \<equiv> \<lambda>k d. (snd (demo_adjust AdjustmentKind.DEBIT 50000 d), None)"



end
